(* ===== verification/Prelude.thy ===== *)
theory Prelude
  imports Main "HOL-Library.Word" "HOL-Library.List_Lexorder" "HOL-Library.Char_ord"
    "HOL-Library.Product_Lexorder"
begin

text \<open>
  Shared vocabulary of the development: byte strings and their bounds, decimal numerals as
  \<open>std::to_string\<close> prints them, the overflow-guarded digit loop that every token parser of
  the code contains, and the collections of rewrite rules the component theories add to.

  A \<open>std::string\<close> is a \<open>string\<close>: HOL characters are bytes, so \<open>length\<close> is
  \<open>size()\<close> and the order of \<open>List_Lexorder\<close> over \<open>Char_ord\<close> is the byte order of
  \<open>operator<\<close>. Signed 64-bit fields that the code only copies and compares are \<open>int\<close>;
  unsigned 64-bit fields are \<open>64 word\<close>; sizes are \<open>nat\<close>.
\<close>

named_theorems codec_simps "encoders and the readers that undo them"
named_theorems lifecycle_simps "transition relations of the lifecycles"
named_theorems table_simps "rows and statements of the stored tables"

section \<open>Machine limits\<close>

type_synonym uint64 = "64 word"

abbreviation int64_max :: nat where
  "int64_max \<equiv> 9223372036854775807"

abbreviation uint32_max :: nat where
  "uint32_max \<equiv> 4294967295"

abbreviation size_max :: nat where
  "size_max \<equiv> 18446744073709551615"

section \<open>Bounded strings\<close>

definition bounded :: "string \<Rightarrow> nat \<Rightarrow> bool" where
  "bounded value maximum \<longleftrightarrow> length value \<le> maximum"

definition nonEmptyBounded :: "string \<Rightarrow> nat \<Rightarrow> bool" where
  "nonEmptyBounded value maximum \<longleftrightarrow> value \<noteq> [] \<and> bounded value maximum"

lemma nonEmptyBounded_imp: "nonEmptyBounded s n \<Longrightarrow> s \<noteq> [] \<and> length s \<le> n"
  by (simp add: nonEmptyBounded_def bounded_def)

lemma nonEmptyBounded_Nil [simp]: "\<not> nonEmptyBounded [] n"
  by (simp add: nonEmptyBounded_def)

text \<open>The revision comparison every domain type repeats: both tokens present and equal.\<close>

definition revisionMatches :: "string \<Rightarrow> string \<Rightarrow> bool" where
  "revisionMatches expectedRevision currentRevision \<longleftrightarrow>
     expectedRevision \<noteq> [] \<and> currentRevision \<noteq> [] \<and> expectedRevision = currentRevision"

section \<open>Decimal numerals\<close>

definition digitChar :: "nat \<Rightarrow> char" where
  "digitChar d = char_of (48 + d)"

definition isDigit :: "char \<Rightarrow> bool" where
  "isDigit c \<longleftrightarrow> 48 \<le> (of_char c :: nat) \<and> (of_char c :: nat) \<le> 57"

definition digitOf :: "char \<Rightarrow> nat" where
  "digitOf c = of_char c - 48"

fun decimal :: "nat \<Rightarrow> string" where
  "decimal n = (if n < 10 then [digitChar n] else decimal (n div 10) @ [digitChar (n mod 10)])"

declare decimal.simps [simp del]

definition to_string :: "int \<Rightarrow> string" where
  "to_string i = (if i < 0 then CHR ''-'' # decimal (nat (- i)) else decimal (nat i))"

text \<open>The digit loop: it stops at a character outside \<open>0..9\<close> and, before the product is
  formed, at a value that would pass \<open>lim\<close>.\<close>

fun accumulateDigits :: "nat \<Rightarrow> nat \<Rightarrow> string \<Rightarrow> nat option" where
  "accumulateDigits lim acc [] = Some acc"
| "accumulateDigits lim acc (c # cs) =
     (if \<not> isDigit c then None
      else if (lim - digitOf c) div 10 < acc then None
      else accumulateDigits lim (acc * 10 + digitOf c) cs)"

lemma isDigit_digitChar [simp]: "d < 10 \<Longrightarrow> isDigit (digitChar d)"
  by (simp add: isDigit_def digitChar_def)

lemma digitOf_digitChar [simp]: "d < 10 \<Longrightarrow> digitOf (digitChar d) = d"
  by (simp add: digitOf_def digitChar_def)

lemma digitOf_le: "isDigit c \<Longrightarrow> digitOf c \<le> 9"
  by (simp add: isDigit_def digitOf_def le_diff_conv)

lemma isDigit_not_special [simp]:
  "\<not> isDigit CHR '':''" "\<not> isDigit CHR ''|''" "\<not> isDigit CHR ''-''"
  by (simp_all add: isDigit_def)

lemma decimal_digits: "\<forall>c \<in> set (decimal n). isDigit c"
proof (induction n rule: decimal.induct)
  case (1 n)
  then show ?case
    by (cases "n < 10") (auto simp: decimal.simps [of n])
qed

lemma decimal_not_Nil [simp]: "decimal n \<noteq> []"
  by (subst decimal.simps) simp

lemma accumulateDigits_append:
  "accumulateDigits lim acc (xs @ ys) =
     Option.bind (accumulateDigits lim acc xs) (\<lambda>a. accumulateDigits lim a ys)"
  by (induction xs arbitrary: acc) auto

lemma accumulateDigits_decimal:
  "9 \<le> lim \<Longrightarrow> n \<le> lim \<Longrightarrow> accumulateDigits lim 0 (decimal n) = Some n"
proof (induction n rule: decimal.induct)
  case (1 n)
  show ?case
  proof (cases "n < 10")
    case True
    then show ?thesis by (simp add: decimal.simps [of n])
  next
    case False
    with "1" have "accumulateDigits lim 0 (decimal (n div 10)) = Some (n div 10)"
      by simp
    moreover have "n div 10 * 10 \<le> lim - n mod 10"
      using "1.prems" div_mult_mod_eq [of n 10] by linarith
    then have "n div 10 \<le> (lim - n mod 10) div 10"
      by (simp add: less_eq_div_iff_mult_less_eq)
    ultimately show ?thesis using False
      by (simp add: decimal.simps [of n] accumulateDigits_append)
  qed
qed

lemma accumulateDigits_le:
  "accumulateDigits lim acc cs = Some v \<Longrightarrow> acc \<le> lim \<Longrightarrow> 9 \<le> lim \<Longrightarrow> v \<le> lim"
proof (induction cs arbitrary: acc)
  case Nil
  then show ?case by simp
next
  case (Cons c cs)
  then have d: "isDigit c" "acc \<le> (lim - digitOf c) div 10"
    and rest: "accumulateDigits lim (acc * 10 + digitOf c) cs = Some v"
    by (auto split: if_splits)
  have "acc * 10 \<le> lim - digitOf c"
    using d(2) by (simp add: less_eq_div_iff_mult_less_eq)
  then have "acc * 10 + digitOf c \<le> lim"
    using digitOf_le [OF d(1)] Cons.prems(3) by linarith
  then show ?case using Cons.IH rest Cons.prems(3) by blast
qed

lemma accumulateDigits_digits:
  "accumulateDigits lim acc cs = Some v \<Longrightarrow> \<forall>c \<in> set cs. isDigit c"
  by (induction cs arbitrary: acc) (auto split: if_splits)

lemma accumulateDigits_mono:
  "accumulateDigits lim acc cs = Some v \<Longrightarrow> lim \<le> lim' \<Longrightarrow> accumulateDigits lim' acc cs = Some v"
proof (induction cs arbitrary: acc)
  case Nil
  then show ?case by simp
next
  case (Cons c cs)
  moreover have "(lim - digitOf c) div 10 \<le> (lim' - digitOf c) div 10"
    using Cons.prems(2) by (intro div_le_mono diff_le_mono)
  ultimately show ?case by (auto split: if_splits)
qed

text \<open>What the loop reads back from a numeral can only be its number.\<close>

lemma accumulateDigits_decimal_inverse:
  assumes "accumulateDigits lim 0 (decimal n) = Some v"
  shows "v = n"
proof -
  let ?lim = "lim + n + 9"
  have "accumulateDigits ?lim 0 (decimal n) = Some v"
    using accumulateDigits_mono [OF assms, of ?lim] by simp
  moreover have "accumulateDigits ?lim 0 (decimal n) = Some n"
    by (rule accumulateDigits_decimal) simp_all
  ultimately show ?thesis by simp
qed

lemma decimal_inject [simp]: "decimal m = decimal n \<longleftrightarrow> m = n"
proof
  assume eq: "decimal m = decimal n"
  obtain lim where lim: "9 \<le> lim" "m \<le> lim" "n \<le> lim"
    by (meson max.cobounded1 max.cobounded2 order_trans)
  have "Some m = accumulateDigits lim 0 (decimal m)"
    using accumulateDigits_decimal [OF lim(1,2)] by (rule sym)
  also have "\<dots> = Some n"
    unfolding eq by (rule accumulateDigits_decimal [OF lim(1,3)])
  finally show "m = n" by simp
qed simp

lemma hd_decimal: "isDigit (hd (decimal n))"
  using decimal_digits [of n] decimal_not_Nil [of n] by (metis hd_in_set)

lemma minus_decimal [simp]: "CHR ''-'' # xs \<noteq> decimal n" "decimal n \<noteq> CHR ''-'' # xs"
  using hd_decimal [of n] by (metis isDigit_not_special(3) list.sel(1))+

lemma to_string_inject [simp]: "to_string i = to_string j \<longleftrightarrow> i = j"
  by (auto simp: to_string_def nat_eq_iff split: if_splits)

lemma to_string_not_Nil [simp]: "to_string i \<noteq> []"
  by (simp add: to_string_def)

lemma to_string_of_nat: "to_string (int n) = decimal n"
  by (simp add: to_string_def)

section \<open>Small facts about lists and words\<close>

lemma find_Some_in: "find P xs = Some x \<Longrightarrow> x \<in> set xs \<and> P x"
  by (induction xs) (auto split: if_splits)

lemma find_None_all: "find P xs = None \<longleftrightarrow> (\<forall>x \<in> set xs. \<not> P x)"
  by (induction xs) auto

lemma distinct_key_unique:
  "distinct (map key xs) \<Longrightarrow> x \<in> set xs \<Longrightarrow> y \<in> set xs \<Longrightarrow> key x = key y \<Longrightarrow> x = y"
  by (metis distinct_map inj_onD)

lemma find_map_unchanged:
  assumes "\<And>x. x \<in> set xs \<Longrightarrow> P (f x) = P x" "\<And>x. x \<in> set xs \<Longrightarrow> P x \<Longrightarrow> f x = x"
  shows "find P (map f xs) = find P xs"
  using assms by (induction xs) auto

end
