(* ===== verification/FieldEncoding.thy ===== *)
theory FieldEncoding
  imports Prelude
begin

text \<open>
  The length-prefixed field format \<open><size>:<bytes>|\<close> in which the timer domain writes every
  fingerprint, semantic identity and stored specification, the readers of that format, and the
  contract \<open>fingerprint_scheme\<close> under which such a text identifies the value it was built
  from. Each appender of the code (\<open>appendField\<close>, \<open>append\<close>) is \<open>field\<close>;
  \<open>appendInteger\<close>, \<open>appendUnsigned\<close> and \<open>appendBool\<close> feed it \<open>to_string\<close>,
  \<open>decimal\<close> and \<open>boolText\<close>.
\<close>

section \<open>Writing fields\<close>

definition field :: "string \<Rightarrow> string" where
  "field value = decimal (length value) @ '':'' @ value @ ''|''"

definition boolText :: "bool \<Rightarrow> string" where
  "boolText b = (if b then ''1'' else ''0'')"

definition fieldsText :: "string list \<Rightarrow> string" where
  "fieldsText values = concat (map field values)"

lemma boolText_inject [simp]: "boolText a = boolText b \<longleftrightarrow> a = b"
  by (simp add: boolText_def)

lemma fieldsText_simps [simp]:
  "fieldsText [] = []" "fieldsText (v # vs) = field v @ fieldsText vs"
  by (simp_all add: fieldsText_def)

lemma field_not_Nil [simp]: "field v \<noteq> []"
  by (simp add: field_def)

lemma takeWhile_digits:
  "takeWhile isDigit (decimal n @ CHR '':'' # rest) = decimal n"
  using decimal_digits [of n] by (simp add: takeWhile_append)

text \<open>A field is self-delimiting: what follows it cannot be confused with it.\<close>

lemma field_prefix_code:
  assumes "field x @ xs = field y @ ys"
  shows "x = y \<and> xs = ys"
proof -
  let ?t = "\<lambda>v r. decimal (length v) @ CHR '':'' # v @ CHR ''|'' # r"
  have eq: "?t x xs = ?t y ys"
    using assms by (simp add: field_def)
  have "decimal (length x) = decimal (length y)"
    using arg_cong [OF eq, of "takeWhile isDigit"] by (simp only: takeWhile_digits)
  then have len: "length x = length y" by simp
  from eq have "x @ CHR ''|'' # xs = y @ CHR ''|'' # ys"
    by (simp add: len)
  with len show ?thesis by simp
qed

lemma fieldsText_inject: "fieldsText xs = fieldsText ys \<longleftrightarrow> xs = ys"
proof (induction xs arbitrary: ys)
  case Nil
  then show ?case by (cases ys) auto
next
  case (Cons x xs)
  then show ?case
    by (cases ys) (auto dest: field_prefix_code)
qed

section \<open>Reading fields\<close>

definition findFrom :: "string \<Rightarrow> char \<Rightarrow> nat \<Rightarrow> nat option" where
  "findFrom encoded c position =
     (if c \<in> set (drop position encoded)
      then Some (position + length (takeWhile (\<lambda>x. x \<noteq> c) (drop position encoded)))
      else None)"

definition readLength :: "string \<Rightarrow> nat \<Rightarrow> (nat \<times> nat) option" where
  "readLength encoded position =
     (case findFrom encoded CHR '':'' position of
        None \<Rightarrow> None
      | Some colon \<Rightarrow>
          if colon = position then None
          else (case accumulateDigits size_max 0 (take (colon - position) (drop position encoded)) of
                  None \<Rightarrow> None
                | Some len \<Rightarrow>
                    if length encoded - (colon + 1) < len then None else Some (len, colon + 1)))"

definition readField :: "string \<Rightarrow> nat \<Rightarrow> (string \<times> nat) option" where
  "readField encoded position =
     (if length encoded \<le> position then None
      else (case readLength encoded position of
              None \<Rightarrow> None
            | Some (len, start) \<Rightarrow>
                if length encoded \<le> start + len \<or> encoded ! (start + len) \<noteq> CHR ''|'' then None
                else Some (take len (drop start encoded), start + len + 1)))"

text \<open>A chain of reads, each from where the one before stopped.\<close>

fun readFields :: "nat \<Rightarrow> string \<Rightarrow> nat \<Rightarrow> (string list \<times> nat) option" where
  "readFields 0 encoded position = Some ([], position)"
| "readFields (Suc n) encoded position =
     (case readField encoded position of
        None \<Rightarrow> None
      | Some (value, next) \<Rightarrow>
          (case readFields n encoded next of
             None \<Rightarrow> None
           | Some (values, final) \<Rightarrow> Some (value # values, final)))"

lemma takeWhile_not_colon:
  "takeWhile (\<lambda>x. x \<noteq> CHR '':'') (decimal n @ CHR '':'' # rest) = decimal n"
  using decimal_digits [of n] by (subst takeWhile_append2) (auto)

lemma readLength_decimal [codec_simps]:
  assumes "n \<le> size_max"
  shows "readLength (pre @ decimal n @ CHR '':'' # rest) (length pre) =
     (if length rest < n then None else Some (n, length pre + length (decimal n) + 1))"
proof -
  have "findFrom (pre @ decimal n @ CHR '':'' # rest) CHR '':'' (length pre) =
      Some (length pre + length (decimal n))"
    by (simp add: findFrom_def takeWhile_not_colon)
  moreover have "accumulateDigits size_max 0 (decimal n) = Some n"
    using assms by (intro accumulateDigits_decimal) simp_all
  ultimately show ?thesis by (simp add: readLength_def)
qed

lemma readField_field [codec_simps]:
  assumes "length v \<le> size_max"
  shows "readField (pre @ field v @ rest) (length pre) = Some (v, length (pre @ field v))"
proof -
  have "readLength (pre @ field v @ rest) (length pre) =
      Some (length v, length pre + length (decimal (length v)) + 1)"
    using readLength_decimal [OF assms, of pre "v @ CHR ''|'' # rest"] by (simp add: field_def)
  then show ?thesis
    by (simp add: readField_def) (simp add: field_def nth_append)
qed

lemma readFields_fieldsText [codec_simps]:
  assumes "\<forall>v \<in> set vs. length v \<le> size_max"
  shows "readFields (length vs) (pre @ fieldsText vs @ rest) (length pre) =
     Some (vs, length (pre @ fieldsText vs))"
  using assms
proof (induction vs arbitrary: pre)
  case Nil
  then show ?case by simp
next
  case (Cons v vs)
  have "readField (pre @ field v @ fieldsText vs @ rest) (length pre) =
      Some (v, length (pre @ field v))"
    using Cons.prems by (simp add: readField_field)
  moreover have "readFields (length vs) ((pre @ field v) @ fieldsText vs @ rest)
      (length (pre @ field v)) = Some (vs, length ((pre @ field v) @ fieldsText vs))"
    using Cons.prems by (intro Cons.IH) simp
  ultimately show ?case by simp
qed

text \<open>A read always moves forward and never leaves the text.\<close>

lemma readField_progress:
  assumes "readField encoded position = Some (value, final)"
  shows "position < final \<and> final \<le> length encoded \<and> length value < length encoded"
  using assms
  by (auto simp: readField_def readLength_def findFrom_def split: option.splits if_splits)

lemma readFields_length: "readFields n encoded position = Some (vs, final) \<Longrightarrow> length vs = n"
  by (induction n arbitrary: position vs final) (auto split: option.splits)

section \<open>Evaluating the readers\<close>

text \<open>The same reads on the rest of the text, for evaluation: no position is looked up again.\<close>

definition splitField :: "string \<Rightarrow> (string \<times> string) option" where
  "splitField s =
     (case dropWhile (\<lambda>c. c \<noteq> CHR '':'') s of
        [] \<Rightarrow> None
      | _ # rest \<Rightarrow>
          if takeWhile (\<lambda>c. c \<noteq> CHR '':'') s = [] then None
          else (case accumulateDigits size_max 0 (takeWhile (\<lambda>c. c \<noteq> CHR '':'') s) of
                  None \<Rightarrow> None
                | Some len \<Rightarrow>
                    (case drop len rest of
                       [] \<Rightarrow> None
                     | c # rest' \<Rightarrow> if c \<noteq> CHR ''|'' then None else Some (take len rest, rest'))))"

fun splitFields :: "nat \<Rightarrow> string \<Rightarrow> (string list \<times> string) option" where
  "splitFields 0 s = Some ([], s)"
| "splitFields (Suc n) s =
     (case splitField s of
        None \<Rightarrow> None
      | Some (v, rest) \<Rightarrow> map_option (\<lambda>(vs, final). (v # vs, final)) (splitFields n rest))"

lemma readField_split:
  "readField encoded position =
     map_option (\<lambda>(v, rest). (v, length encoded - length rest)) (splitField (drop position encoded))"
proof -
  let ?t = "drop position encoded" and ?p = "\<lambda>x. x \<noteq> CHR '':''"
  show ?thesis
  proof (cases "dropWhile ?p ?t")
    case Nil
    then have "CHR '':'' \<notin> set ?t" by (auto simp: dropWhile_eq_Nil_conv)
    then show ?thesis by (simp add: readField_def readLength_def findFrom_def splitField_def Nil)
  next
    case (Cons c rest)
    let ?d = "takeWhile ?p ?t"
    have t: "?t = ?d @ c # rest" using Cons by (metis takeWhile_dropWhile_id)
    have c: "c = CHR '':''" using Cons hd_dropWhile [of ?p ?t] by simp
    then have mem: "CHR '':'' \<in> set ?t" using t by (metis in_set_conv_decomp)
    have e: "encoded = take position encoded @ ?d @ c # rest" using t by (metis append_take_drop_id)
    have pos: "position < length encoded" using mem by (cases "position < length encoded") auto
    then have pre: "length (take position encoded) = position" by simp
    have tk: "take (length ?d) ?t = ?d" by (metis append_eq_conv_conj t)
    have len: "length encoded = position + length ?d + 1 + length rest"
      using arg_cong [OF e, of length] pre by simp
    have dr: "drop (position + length ?d + 1) encoded = rest"
      using pre by (subst e) simp
    have nth: "encoded ! (position + length ?d + 1 + k) = rest ! k" if "k < length rest" for k
      using dr len that by (metis add_leE le_add1 nth_drop)
    show ?thesis
    proof (cases "accumulateDigits size_max 0 ?d")
      case None
      then show ?thesis
        using mem pos by (simp add: readField_def readLength_def findFrom_def splitField_def Cons tk)
    next
      case (Some n)
      have d: "drop n rest = (if n < length rest then rest ! n # drop (Suc n) rest else [])"
        by (simp add: Cons_nth_drop_Suc)
      show ?thesis
        using mem pos Some nth [of n] dr len
        by (simp add: readField_def readLength_def findFrom_def splitField_def Cons tk d)
    qed
  qed
qed

lemma splitField_suffix:
  "splitField s = Some (v, rest) \<Longrightarrow> \<exists>pre. s = pre @ rest \<and> pre \<noteq> []"
proof -
  assume a: "splitField s = Some (v, rest)"
  then obtain c r n where r: "dropWhile (\<lambda>c. c \<noteq> CHR '':'') s = c # r"
    and n: "drop n r = CHR ''|'' # rest"
    by (auto simp: splitField_def split: list.splits option.splits if_splits)
  have "s = takeWhile (\<lambda>c. c \<noteq> CHR '':'') s @ c # take n r @ CHR ''|'' # rest"
    using r n by (metis append_take_drop_id takeWhile_dropWhile_id)
  then show ?thesis by (metis append.assoc append_Cons append_is_Nil_conv list.distinct(1) append_Nil)
qed

lemma readFields_split [code]:
  "readFields n encoded position =
     map_option (\<lambda>(vs, rest). (vs, if n = 0 then position else length encoded - length rest))
       (splitFields n (drop position encoded))"
proof (induction n arbitrary: position)
  case 0
  then show ?case by simp
next
  case (Suc n)
  show ?case
  proof (cases "splitField (drop position encoded)")
    case None
    then show ?thesis by (simp add: readField_split)
  next
    case (Some vr)
    obtain v rest where vr: "vr = (v, rest)" by fastforce
    obtain pre where pre: "drop position encoded = pre @ rest" "pre \<noteq> []"
      using splitField_suffix Some vr by blast
    have "encoded = (take position encoded @ pre) @ rest" using pre(1) by (metis append.assoc append_take_drop_id)
    then have rest: "drop (length encoded - length rest) encoded = rest"
      by (metis add_diff_cancel_right' append_eq_conv_conj length_append)
    show ?thesis
    proof (cases "splitFields n rest")
      case None
      then show ?thesis using Some vr by (simp add: readField_split Suc.IH rest)
    next
      case fs: (Some vsr)
      then show ?thesis using Some vr Suc.IH [of "length encoded - length rest"] rest
        by (cases n) (auto simp: readField_split split: prod.splits)
    qed
  qed
qed

section \<open>Texts that identify what they were built from\<close>

text \<open>
  The contract of a fingerprint: it is the prefix and the fields of a valid value, empty for an
  invalid one, and two valid values have the same fields just when they agree on \<open>canon\<close>,
  the part of the value the fingerprint is about.
\<close>

locale fingerprint_scheme =
  fixes valid :: "'a \<Rightarrow> bool"
    and prefix :: string
    and fields :: "'a \<Rightarrow> string list"
    and canon :: "'a \<Rightarrow> 'b"
    and fingerprint :: "'a \<Rightarrow> string"
  assumes fingerprint_eq:
      "fingerprint x = (if valid x then prefix @ fieldsText (fields x) else [])"
    and prefix_not_Nil: "prefix \<noteq> []"
    and fields_canon: "valid x \<Longrightarrow> valid y \<Longrightarrow> fields x = fields y \<longleftrightarrow> canon x = canon y"
begin

lemma fp_empty_iff: "fingerprint x = [] \<longleftrightarrow> \<not> valid x"
  by (simp add: fingerprint_eq prefix_not_Nil)

lemma fp_eq_iff:
  assumes "valid x" "valid y"
  shows "fingerprint x = fingerprint y \<longleftrightarrow> canon x = canon y"
  using assms by (simp add: fingerprint_eq fieldsText_inject fields_canon)

lemma fp_identifies:
  assumes "valid x" "fingerprint x = fingerprint y"
  shows "valid y \<and> canon x = canon y"
  using assms fp_empty_iff fp_eq_iff by metis

end

end
