(* ===== verification/Lifecycle.thy ===== *)
theory Lifecycle
  imports Prelude
begin

text \<open>
  The contract every stored entity's state machine keeps (timer intents, timer assignments,
  mutation operations): a relation of permitted changes and a predicate of final states, where a
  final state is never left and every other state can be closed in one permitted change. Lemmas
  about whole histories are proved here once.
\<close>

text \<open>A history: each state of the list is a permitted change of the one before.\<close>

fun permittedHistory :: "('s \<Rightarrow> 's \<Rightarrow> bool) \<Rightarrow> 's \<Rightarrow> 's list \<Rightarrow> bool" where
  "permittedHistory can s [] \<longleftrightarrow> True"
| "permittedHistory can s (t # ts) \<longleftrightarrow> can s t \<and> permittedHistory can t ts"

lemma permittedHistory_append:
  "permittedHistory can s (ts @ us) \<longleftrightarrow>
     permittedHistory can s ts \<and> permittedHistory can (last (s # ts)) us"
  by (induction ts arbitrary: s) auto

text \<open>Entering a state of \<open>T\<close> from outside happens in a change out of a state of \<open>S\<close>.\<close>

lemma permittedHistory_enters:
  assumes "permittedHistory can s ts" and "s \<notin> T" and "last (s # ts) \<in> T"
    and "\<And>a b. can a b \<Longrightarrow> a \<notin> T \<Longrightarrow> b \<in> T \<Longrightarrow> a \<in> S"
  shows "\<exists>a \<in> set (s # ts). a \<in> S"
  using assms
proof (induction ts arbitrary: s)
  case Nil
  then show ?case by simp
next
  case (Cons t ts)
  show ?case
  proof (cases "t \<in> T")
    case True
    with Cons.prems have "s \<in> S" by auto
    then show ?thesis by simp
  next
    case False
    with Cons.IH [of t] Cons.prems show ?thesis by auto
  qed
qed

text \<open>A state with a single possible predecessor, and a state without successors.\<close>

lemma permittedHistory_predecessor:
  assumes "permittedHistory can s ts" and "x \<in> set ts" and "\<And>a. can a x \<Longrightarrow> a = y" and "s \<noteq> y"
  shows "y \<in> set ts"
  using assms
proof (induction ts arbitrary: s)
  case Nil
  then show ?case by simp
next
  case (Cons t ts)
  then have "t \<noteq> x" by auto
  with Cons.prems have "x \<in> set ts" by simp
  with Cons.IH [of t] Cons.prems show ?case by (cases "t = y") auto
qed

lemma permittedHistory_stuck_last:
  assumes "permittedHistory can s ts" and "i < length ts" and "\<And>t. \<not> can (ts ! i) t"
  shows "Suc i = length ts"
  using assms
proof (induction ts arbitrary: s i)
  case Nil
  then show ?case by simp
next
  case (Cons t ts)
  show ?case
  proof (cases i)
    case 0
    with Cons.prems show ?thesis by (cases ts) auto
  next
    case (Suc j)
    with Cons.IH [of t j] Cons.prems show ?thesis by simp
  qed
qed

locale lifecycle =
  fixes can :: "'s \<Rightarrow> 's \<Rightarrow> bool" and final :: "'s \<Rightarrow> bool"
  assumes final_stays: "final s \<Longrightarrow> can s t \<Longrightarrow> t = s"
    and closable: "\<not> final s \<Longrightarrow> \<exists>t. can s t \<and> final t"
begin

lemma final_forever: "permittedHistory can s ts \<Longrightarrow> final s \<Longrightarrow> set ts \<subseteq> {s}"
  by (induction ts arbitrary: s) (auto dest: final_stays)

lemma at_most_one_final:
  assumes "permittedHistory can s ts" "final a" "final b" "a \<in> set (s # ts)" "b \<in> set (s # ts)"
  shows "a = b"
  using assms
proof (induction ts arbitrary: s)
  case Nil
  then show ?case by simp
next
  case (Cons t ts)
  show ?case
  proof (cases "final s")
    case True
    with Cons.prems(1) have "set (t # ts) \<subseteq> {s}" by (rule final_forever)
    with Cons.prems show ?thesis by auto
  next
    case False
    with Cons.prems have "a \<in> set (t # ts)" "b \<in> set (t # ts)" by auto
    with Cons show ?thesis by auto
  qed
qed

lemma extends_to_final:
  "permittedHistory can s ts \<Longrightarrow>
     \<exists>us. permittedHistory can s (ts @ us) \<and> final (last (s # ts @ us))"
proof (cases "final (last (s # ts))")
  case True
  moreover assume "permittedHistory can s ts"
  ultimately show ?thesis by (intro exI [of _ "[]"]) simp
next
  case False
  assume "permittedHistory can s ts"
  moreover obtain t where "can (last (s # ts)) t" "final t"
    using closable [OF False] by blast
  ultimately show ?thesis
    by (intro exI [of _ "[t]"]) (simp add: permittedHistory_append)
qed

end

end
