(* ===== verification/TimerIntent.thy ===== *)
theory TimerIntent
  imports FieldEncoding Lifecycle
begin

text \<open>
  A timer intent: what a user or an automation wants recorded, before any backend is chosen
  (\<open>core/timers/include/TimerIntent.h\<close>, \<open>src/TimerIntent.cpp\<close>). Data types, validators, the
  lifecycle and the semantic identity under which equivalent intents are found. Lemmas: the
  identity text determines the whole specification; the lifecycle keeps the contract of
  \<open>Lifecycle\<close>.
\<close>

section \<open>Data\<close>

datatype timer_intent_type = ProgrammeEvent | ManualWindow | RecurringSchedule

datatype timer_intent_state =
  IntentDraft | IntentActive | IntentPaused | IntentSatisfied | IntentCancelRequested
| IntentCancelled | IntentExpired | IntentFailed

record timer_intent_automation_source =
  as_sourceType :: string
  as_sourceId :: string
  as_occurrenceId :: string

record timer_intent_backend_event_ref =
  be_backendId :: string
  be_channelId :: string
  be_eventId :: string
  be_sourceId :: string

record timer_intent_channel_requirement =
  cr_canonicalChannelId :: string
  cr_sourceType :: string
  cr_sourceId :: string
  cr_sourceChannelId :: string

record timer_intent_schedule =
  sc_startAt :: int
  sc_stopAt :: int
  sc_timezone :: string
  sc_recurrenceRule :: string

record timer_intent_recording_options =
  ro_startMarginSeconds :: int
  ro_stopMarginSeconds :: int
  ro_priority :: int
  ro_lifetimeDays :: int
  ro_vpsPreferred :: bool
  ro_directoryPolicy :: string
  ro_namingPolicy :: string
  ro_retentionPolicyReference :: string

record timer_intent_assignment_policy =
  ap_allowFailover :: bool
  ap_requireOperatorReview :: bool
  ap_preferredBackendIds :: "string list"
  ap_excludedBackendIds :: "string list"

record timer_intent_replica_policy =
  rp_desiredAssignments :: nat
  rp_requireBackendDiversity :: bool
  rp_requireSiteDiversity :: bool
  rp_simultaneousRecordingIntentional :: bool
  rp_storagePolicyReference :: string
  rp_retentionPolicyReference :: string
  rp_rationale :: string

record timer_intent_duplicate_policy =
  dp_preventEquivalentIntent :: bool
  dp_requireOperatorReviewOnAmbiguity :: bool

record timer_intent_spec =
  is_intentType :: timer_intent_type
  is_ownerActorId :: string
  is_automationSource :: timer_intent_automation_source
  is_programEventId :: string
  is_backendEventRef :: timer_intent_backend_event_ref
  is_channelRequirement :: timer_intent_channel_requirement
  is_schedule :: timer_intent_schedule
  is_recordingOptions :: timer_intent_recording_options
  is_assignmentPolicy :: timer_intent_assignment_policy
  is_replicaPolicy :: timer_intent_replica_policy
  is_duplicatePolicy :: timer_intent_duplicate_policy

record timer_intent =
  ti_timerIntentId :: string
  ti_intentRevision :: string
  ti_state :: timer_intent_state
  ti_createdByActorId :: string
  ti_spec :: timer_intent_spec
  ti_createdAt :: int
  ti_updatedAt :: int
  ti_expiresAt :: int

section \<open>Validators\<close>

abbreviation kMaxIntentIdentityLength :: nat where
  "kMaxIntentIdentityLength \<equiv> 160"

abbreviation kMaxPolicyTextLength :: nat where
  "kMaxPolicyTextLength \<equiv> 256"

abbreviation kMaxBackendPolicyEntries :: nat where
  "kMaxBackendPolicyEntries \<equiv> 32"

abbreviation kMaxReplicaAssignments :: nat where
  "kMaxReplicaAssignments \<equiv> 4"

abbreviation kMaxMarginSeconds :: int where
  "kMaxMarginSeconds \<equiv> 6 * 60 * 60"

abbreviation kMaxLifetimeDays :: int where
  "kMaxLifetimeDays \<equiv> 3650"

definition automationSourceValid :: "timer_intent_automation_source \<Rightarrow> bool" where
  "automationSourceValid source =
     (let any = as_sourceType source \<noteq> [] \<or> as_sourceId source \<noteq> []
                \<or> as_occurrenceId source \<noteq> []
      in if \<not> any then True
         else nonEmptyBounded (as_sourceType source) kMaxIntentIdentityLength
           \<and> nonEmptyBounded (as_sourceId source) kMaxIntentIdentityLength
           \<and> bounded (as_occurrenceId source) kMaxIntentIdentityLength)"

definition backendEventRefPresent :: "timer_intent_backend_event_ref \<Rightarrow> bool" where
  "backendEventRefPresent ref \<longleftrightarrow>
     be_backendId ref \<noteq> [] \<or> be_channelId ref \<noteq> [] \<or> be_eventId ref \<noteq> [] \<or> be_sourceId ref \<noteq> []"

definition backendEventRefValid :: "timer_intent_backend_event_ref \<Rightarrow> bool" where
  "backendEventRefValid ref =
     (if \<not> backendEventRefPresent ref then True
      else nonEmptyBounded (be_backendId ref) kMaxIntentIdentityLength
        \<and> nonEmptyBounded (be_channelId ref) kMaxIntentIdentityLength
        \<and> nonEmptyBounded (be_eventId ref) kMaxIntentIdentityLength
        \<and> nonEmptyBounded (be_sourceId ref) kMaxIntentIdentityLength)"

definition channelRequirementValid :: "timer_intent_channel_requirement \<Rightarrow> bool" where
  "channelRequirementValid channel =
     (let canonical = cr_canonicalChannelId channel \<noteq> [];
          source = cr_sourceType channel \<noteq> [] \<or> cr_sourceId channel \<noteq> []
                   \<or> cr_sourceChannelId channel \<noteq> []
      in if \<not> canonical \<and> \<not> source then False
         else if canonical
           \<and> \<not> nonEmptyBounded (cr_canonicalChannelId channel) kMaxIntentIdentityLength then False
         else if source \<and> (\<not> nonEmptyBounded (cr_sourceType channel) kMaxIntentIdentityLength
           \<or> \<not> nonEmptyBounded (cr_sourceId channel) kMaxIntentIdentityLength
           \<or> \<not> nonEmptyBounded (cr_sourceChannelId channel) kMaxIntentIdentityLength) then False
         else True)"

fun uniqueBoundedLoop :: "string set \<Rightarrow> string list \<Rightarrow> bool" where
  "uniqueBoundedLoop seen [] = True"
| "uniqueBoundedLoop seen (v # vs) =
     (if \<not> nonEmptyBounded v kMaxIntentIdentityLength \<or> v \<in> seen then False
      else uniqueBoundedLoop (insert v seen) vs)"

definition uniqueBoundedIds :: "string list \<Rightarrow> bool" where
  "uniqueBoundedIds values =
     (if length values > kMaxBackendPolicyEntries then False else uniqueBoundedLoop {} values)"

definition assignmentPolicyValid :: "timer_intent_assignment_policy \<Rightarrow> bool" where
  "assignmentPolicyValid policy =
     (if \<not> uniqueBoundedIds (ap_preferredBackendIds policy)
        \<or> \<not> uniqueBoundedIds (ap_excludedBackendIds policy) then False
      else list_all (\<lambda>backendId. backendId \<notin> set (ap_excludedBackendIds policy))
             (ap_preferredBackendIds policy))"

definition recordingOptionsValid :: "timer_intent_recording_options \<Rightarrow> bool" where
  "recordingOptionsValid options \<longleftrightarrow>
     ro_startMarginSeconds options \<ge> 0 \<and> ro_startMarginSeconds options \<le> kMaxMarginSeconds
     \<and> ro_stopMarginSeconds options \<ge> 0 \<and> ro_stopMarginSeconds options \<le> kMaxMarginSeconds
     \<and> ro_priority options \<ge> 0 \<and> ro_priority options \<le> 99
     \<and> ro_lifetimeDays options \<ge> 0 \<and> ro_lifetimeDays options \<le> kMaxLifetimeDays
     \<and> bounded (ro_directoryPolicy options) kMaxPolicyTextLength
     \<and> bounded (ro_namingPolicy options) kMaxPolicyTextLength
     \<and> bounded (ro_retentionPolicyReference options) kMaxPolicyTextLength"

definition scheduleValid :: "timer_intent_schedule \<Rightarrow> timer_intent_type \<Rightarrow> bool" where
  "scheduleValid schedule type =
     (if sc_startAt schedule \<le> 0 \<or> sc_stopAt schedule \<le> sc_startAt schedule
        \<or> \<not> nonEmptyBounded (sc_timezone schedule) 64
        \<or> \<not> bounded (sc_recurrenceRule schedule) kMaxPolicyTextLength then False
      else if type = RecurringSchedule then sc_recurrenceRule schedule \<noteq> []
      else sc_recurrenceRule schedule = [])"

definition timerIntentValidSpec :: "timer_intent_spec \<Rightarrow> bool" where
  "timerIntentValidSpec spec =
     (if \<not> nonEmptyBounded (is_ownerActorId spec) kMaxIntentIdentityLength
        \<or> \<not> automationSourceValid (is_automationSource spec)
        \<or> \<not> backendEventRefValid (is_backendEventRef spec)
        \<or> \<not> channelRequirementValid (is_channelRequirement spec)
        \<or> \<not> scheduleValid (is_schedule spec) (is_intentType spec)
        \<or> \<not> recordingOptionsValid (is_recordingOptions spec)
        \<or> \<not> assignmentPolicyValid (is_assignmentPolicy spec)
        \<or> rp_desiredAssignments (is_replicaPolicy spec) = 0
        \<or> rp_desiredAssignments (is_replicaPolicy spec) > kMaxReplicaAssignments
        \<or> \<not> bounded (rp_storagePolicyReference (is_replicaPolicy spec)) kMaxPolicyTextLength
        \<or> \<not> bounded (rp_retentionPolicyReference (is_replicaPolicy spec)) kMaxPolicyTextLength
        \<or> \<not> bounded (rp_rationale (is_replicaPolicy spec)) kMaxPolicyTextLength then False
      else if rp_desiredAssignments (is_replicaPolicy spec) > 1
        \<and> (\<not> rp_simultaneousRecordingIntentional (is_replicaPolicy spec)
          \<or> \<not> nonEmptyBounded (rp_rationale (is_replicaPolicy spec)) kMaxPolicyTextLength)
      then False
      else (let hasProgramEvent = is_programEventId spec \<noteq> []
            in if hasProgramEvent
                 \<and> \<not> nonEmptyBounded (is_programEventId spec) kMaxIntentIdentityLength then False
               else (let hasBackendEvent = backendEventRefPresent (is_backendEventRef spec)
                     in case is_intentType spec of
                          ProgrammeEvent \<Rightarrow> hasProgramEvent \<or> hasBackendEvent
                        | ManualWindow \<Rightarrow> \<not> hasProgramEvent \<and> \<not> hasBackendEvent
                        | RecurringSchedule \<Rightarrow> \<not> hasProgramEvent \<and> \<not> hasBackendEvent)))"

definition timerIntentValid :: "timer_intent \<Rightarrow> bool" where
  "timerIntentValid intent \<longleftrightarrow>
     nonEmptyBounded (ti_timerIntentId intent) kMaxIntentIdentityLength
     \<and> nonEmptyBounded (ti_intentRevision intent) kMaxIntentIdentityLength
     \<and> nonEmptyBounded (ti_createdByActorId intent) kMaxIntentIdentityLength
     \<and> timerIntentValidSpec (ti_spec intent)
     \<and> ti_createdAt intent > 0
     \<and> ti_updatedAt intent \<ge> ti_createdAt intent
     \<and> (ti_expiresAt intent = 0 \<or> ti_expiresAt intent > ti_createdAt intent)"

definition timerIntentRevisionMatches :: "string \<Rightarrow> string \<Rightarrow> bool" where
  "timerIntentRevisionMatches expectedRevision currentRevision \<longleftrightarrow>
     revisionMatches expectedRevision currentRevision"

section \<open>Names and lifecycle\<close>

fun timerIntentTypeName :: "timer_intent_type \<Rightarrow> string" where
  "timerIntentTypeName ProgrammeEvent = ''programme_event''"
| "timerIntentTypeName ManualWindow = ''manual_window''"
| "timerIntentTypeName RecurringSchedule = ''recurring_schedule''"

fun timerIntentStateName :: "timer_intent_state \<Rightarrow> string" where
  "timerIntentStateName IntentDraft = ''draft''"
| "timerIntentStateName IntentActive = ''active''"
| "timerIntentStateName IntentPaused = ''paused''"
| "timerIntentStateName IntentSatisfied = ''satisfied''"
| "timerIntentStateName IntentCancelRequested = ''cancel_requested''"
| "timerIntentStateName IntentCancelled = ''cancelled''"
| "timerIntentStateName IntentExpired = ''expired''"
| "timerIntentStateName IntentFailed = ''failed''"

definition timerIntentCanTransition :: "timer_intent_state \<Rightarrow> timer_intent_state \<Rightarrow> bool" where
  "timerIntentCanTransition from to' =
     (if from = to' then False
      else case from of
          IntentDraft \<Rightarrow> to' = IntentActive \<or> to' = IntentCancelRequested \<or> to' = IntentFailed
        | IntentActive \<Rightarrow> to' = IntentPaused \<or> to' = IntentSatisfied
            \<or> to' = IntentCancelRequested \<or> to' = IntentExpired \<or> to' = IntentFailed
        | IntentPaused \<Rightarrow> to' = IntentActive \<or> to' = IntentCancelRequested
            \<or> to' = IntentExpired \<or> to' = IntentFailed
        | IntentCancelRequested \<Rightarrow> to' = IntentCancelled \<or> to' = IntentFailed
        | IntentSatisfied \<Rightarrow> False
        | IntentCancelled \<Rightarrow> False
        | IntentExpired \<Rightarrow> False
        | IntentFailed \<Rightarrow> False)"

definition timerIntentAssignable :: "timer_intent_state \<Rightarrow> bool" where
  "timerIntentAssignable state \<longleftrightarrow> state = IntentActive"

definition timerIntentTerminal :: "timer_intent_state \<Rightarrow> bool" where
  "timerIntentTerminal state \<longleftrightarrow>
     state = IntentSatisfied \<or> state = IntentCancelled \<or> state = IntentExpired
     \<or> state = IntentFailed"

interpretation intent_life: lifecycle timerIntentCanTransition timerIntentTerminal
proof unfold_locales
  fix s t :: timer_intent_state
  show "timerIntentTerminal s \<Longrightarrow> timerIntentCanTransition s t \<Longrightarrow> t = s"
    by (auto simp: timerIntentTerminal_def timerIntentCanTransition_def split: if_splits)
  show "\<not> timerIntentTerminal s \<Longrightarrow> \<exists>t. timerIntentCanTransition s t \<and> timerIntentTerminal t"
    by (intro exI [of _ IntentFailed], cases s)
      (auto simp: timerIntentTerminal_def timerIntentCanTransition_def)
qed

section \<open>Semantic identity\<close>

definition semanticFields :: "timer_intent_spec \<Rightarrow> string list" where
  "semanticFields spec =
     [timerIntentTypeName (is_intentType spec), is_ownerActorId spec,
      as_sourceType (is_automationSource spec), as_sourceId (is_automationSource spec),
      as_occurrenceId (is_automationSource spec),
      is_programEventId spec, be_backendId (is_backendEventRef spec),
      be_channelId (is_backendEventRef spec),
      be_eventId (is_backendEventRef spec), be_sourceId (is_backendEventRef spec),
      cr_canonicalChannelId (is_channelRequirement spec),
      cr_sourceType (is_channelRequirement spec),
      cr_sourceId (is_channelRequirement spec), cr_sourceChannelId (is_channelRequirement spec),
      to_string (sc_startAt (is_schedule spec)), to_string (sc_stopAt (is_schedule spec)),
      sc_timezone (is_schedule spec), sc_recurrenceRule (is_schedule spec),
      to_string (ro_startMarginSeconds (is_recordingOptions spec)),
      to_string (ro_stopMarginSeconds (is_recordingOptions spec)),
      to_string (ro_priority (is_recordingOptions spec)),
      to_string (ro_lifetimeDays (is_recordingOptions spec)),
      boolText (ro_vpsPreferred (is_recordingOptions spec)),
      ro_directoryPolicy (is_recordingOptions spec), ro_namingPolicy (is_recordingOptions spec),
      ro_retentionPolicyReference (is_recordingOptions spec),
      boolText (ap_allowFailover (is_assignmentPolicy spec)),
      boolText (ap_requireOperatorReview (is_assignmentPolicy spec))]
     @ decimal (length (ap_preferredBackendIds (is_assignmentPolicy spec)))
         # ap_preferredBackendIds (is_assignmentPolicy spec)
     @ decimal (length (ap_excludedBackendIds (is_assignmentPolicy spec)))
         # ap_excludedBackendIds (is_assignmentPolicy spec)
     @ [decimal (rp_desiredAssignments (is_replicaPolicy spec)),
      boolText (rp_requireBackendDiversity (is_replicaPolicy spec)),
      boolText (rp_requireSiteDiversity (is_replicaPolicy spec)),
      boolText (rp_simultaneousRecordingIntentional (is_replicaPolicy spec)),
      rp_storagePolicyReference (is_replicaPolicy spec),
      rp_retentionPolicyReference (is_replicaPolicy spec), rp_rationale (is_replicaPolicy spec),
      boolText (dp_preventEquivalentIntent (is_duplicatePolicy spec)),
      boolText (dp_requireOperatorReviewOnAmbiguity (is_duplicatePolicy spec))]"

definition timerIntentSemanticIdentity :: "timer_intent_spec \<Rightarrow> string" where
  "timerIntentSemanticIdentity spec =
     (if \<not> timerIntentValidSpec spec then []
      else ''timer-intent-semantic/1|'' @ fieldsText (semanticFields spec))"

lemma timerIntentTypeName_inject [simp]:
  "timerIntentTypeName a = timerIntentTypeName b \<longleftrightarrow> a = b"
  by (cases a; cases b; simp)

lemma timerIntentStateName_inject [simp]:
  "timerIntentStateName a = timerIntentStateName b \<longleftrightarrow> a = b"
  by (cases a; cases b; simp)

text \<open>A counted list in front of a common rest can be split off.\<close>

lemma counted_list_split:
  "decimal (length xs) # xs @ r = decimal (length ys) # ys @ q \<longleftrightarrow> xs = ys \<and> r = q"
  by auto

lemma semanticFields_inject: "semanticFields s = semanticFields t \<longleftrightarrow> s = t"
proof
  assume eq: "semanticFields s = semanticFields t"
  let ?pre = "\<lambda>u. take 28 (semanticFields u)" and ?post = "\<lambda>u. drop 28 (semanticFields u)"
  have pre: "?pre s = ?pre t" and post: "?post s = ?post t" using eq by simp_all
  show "s = t"
    using pre post
    by (cases s; cases t) (auto simp: semanticFields_def intro!: timer_intent_automation_source.equality
      timer_intent_backend_event_ref.equality timer_intent_channel_requirement.equality
      timer_intent_schedule.equality timer_intent_recording_options.equality
      timer_intent_assignment_policy.equality timer_intent_replica_policy.equality
      timer_intent_duplicate_policy.equality)
qed simp

interpretation semantic_fp: fingerprint_scheme timerIntentValidSpec
  "''timer-intent-semantic/1|''" semanticFields id timerIntentSemanticIdentity
  by unfold_locales (simp_all add: timerIntentSemanticIdentity_def semanticFields_inject)

section \<open>Consequences of validity\<close>

lemma uniqueBoundedLoop_iff:
  "uniqueBoundedLoop seen vs \<longleftrightarrow>
     distinct vs \<and> set vs \<inter> seen = {} \<and> list_all (\<lambda>v. nonEmptyBounded v kMaxIntentIdentityLength) vs"
  by (induction vs arbitrary: seen) auto

lemma assignmentPolicyValid_iff:
  "assignmentPolicyValid p \<longleftrightarrow>
     uniqueBoundedIds (ap_preferredBackendIds p) \<and> uniqueBoundedIds (ap_excludedBackendIds p)
     \<and> set (ap_preferredBackendIds p) \<inter> set (ap_excludedBackendIds p) = {}"
  by (auto simp: assignmentPolicyValid_def list_all_iff)

lemma uniqueBoundedIds_iff:
  "uniqueBoundedIds vs \<longleftrightarrow> length vs \<le> kMaxBackendPolicyEntries \<and> distinct vs
     \<and> (\<forall>v \<in> set vs. nonEmptyBounded v kMaxIntentIdentityLength)"
  by (auto simp: uniqueBoundedIds_def uniqueBoundedLoop_iff list_all_iff)

lemma timerIntentValidSpec_parts:
  assumes "timerIntentValidSpec spec"
  shows "assignmentPolicyValid (is_assignmentPolicy spec)"
    and "scheduleValid (is_schedule spec) (is_intentType spec)"
    and "channelRequirementValid (is_channelRequirement spec)"
    and "rp_desiredAssignments (is_replicaPolicy spec) \<in> {1..4}"
    and "recordingOptionsValid (is_recordingOptions spec)"
  using assms by (auto simp: timerIntentValidSpec_def split: if_splits)

lemma timerIntentTerminal_stuck: "timerIntentTerminal s \<Longrightarrow> \<not> timerIntentCanTransition s t"
  by (auto simp: timerIntentTerminal_def timerIntentCanTransition_def)

section \<open>Properties\<close>

text \<open>C38: The semantic identity under which equivalent intents are looked up is equal and
  non-empty for two specifications exactly when they are the same valid specification.\<close>

theorem semantic_identity_identifies:
  "timerIntentSemanticIdentity s = timerIntentSemanticIdentity t
     \<and> timerIntentSemanticIdentity s \<noteq> []
   \<longleftrightarrow> timerIntentValidSpec s \<and> s = t"
  using semantic_fp.fp_identifies [of s t] semantic_fp.fp_empty_iff [of s] by auto

text \<open>Every permitted history of an intent that starts as a draft can be closed, meets at most
  one final state and stops there, is satisfied only after having been active and cancelled only
  after a cancellation was requested.\<close>

theorem intent_histories:
  assumes "permittedHistory timerIntentCanTransition IntentDraft ts"
  shows "(\<exists>us. permittedHistory timerIntentCanTransition IntentDraft (ts @ us)
            \<and> timerIntentTerminal (last (ts @ us)))
     \<and> (\<forall>i < length ts. timerIntentTerminal (ts ! i) \<longrightarrow> Suc i = length ts)
     \<and> (IntentSatisfied \<in> set ts \<longrightarrow> IntentActive \<in> set ts)
     \<and> (IntentCancelled \<in> set ts \<longrightarrow> IntentCancelRequested \<in> set ts)"
proof (intro conjI impI allI)
  obtain us where us: "permittedHistory timerIntentCanTransition IntentDraft (ts @ us)"
    "timerIntentTerminal (last (IntentDraft # ts @ us))"
    using intent_life.extends_to_final [OF assms] by blast
  then show "\<exists>us. permittedHistory timerIntentCanTransition IntentDraft (ts @ us)
      \<and> timerIntentTerminal (last (ts @ us))"
    by (intro exI [of _ us]) (auto simp: timerIntentTerminal_def split: if_splits)
next
  fix i
  assume "i < length ts" "timerIntentTerminal (ts ! i)"
  then show "Suc i = length ts"
    using timerIntentTerminal_stuck by (intro permittedHistory_stuck_last [OF assms])
next
  show "IntentSatisfied \<in> set ts \<Longrightarrow> IntentActive \<in> set ts"
    by (rule permittedHistory_predecessor [OF assms, of _ IntentActive])
      (auto simp: timerIntentCanTransition_def split: timer_intent_state.splits if_splits)
next
  show "IntentCancelled \<in> set ts \<Longrightarrow> IntentCancelRequested \<in> set ts"
    by (rule permittedHistory_predecessor [OF assms, of _ IntentCancelRequested])
      (auto simp: timerIntentCanTransition_def split: timer_intent_state.splits if_splits)
qed

theorem intent_histories_witness:
  "\<exists>us. permittedHistory timerIntentCanTransition IntentDraft ([IntentActive, IntentPaused] @ us)
     \<and> timerIntentTerminal (last ([IntentActive, IntentPaused] @ us))"
  using intent_histories [of "[IntentActive, IntentPaused]"]
  by (simp add: timerIntentCanTransition_def)

end
