(* ===== verification/NativeTimerBinding.thy ===== *)
theory NativeTimerBinding
  imports FieldEncoding
begin

text \<open>
  Copied facts about one timer of a VDR backend (\<open>core/timers/src/NativeTimerBinding.cpp\<close>)
  and the durable binding between such a timer and an assignment of the suite: validators,
  fingerprint of the observed state, and the shape rules that tie ownership, drift and absence
  together. Lemmas: the fingerprint determines the observed state up to the zero padding of its
  two times; a valid binding carries the fingerprint of its own state.
\<close>

section \<open>Data\<close>

datatype native_timer_binding_ownership =
  OwnManaged | OwnAdopted | OwnExternal | OwnOrphanedManaged | OwnAmbiguous

datatype native_timer_binding_drift_state =
  DriftNone | DriftExpectedTransition | DriftExternalFieldChange | DriftExternalDisable
| DriftExternalDelete | DriftNativeIdentityChanged | DriftAmbiguous

record native_timer_observed_state =
  os_channelId :: string
  os_eventId :: string
  os_title :: string
  os_directory :: string
  os_day :: string
  os_weekdays :: string
  os_startTime :: string
  os_endTime :: string
  os_flags :: int
  os_priority :: int
  os_lifetime :: int
  os_enabled :: bool
  os_vps :: bool
  os_recording :: bool
  os_pending :: bool

record native_timer_binding =
  nb_nativeTimerBindingId :: string
  nb_bindingRevision :: string
  nb_backendId :: string
  nb_backendGeneration :: uint64
  nb_backendNativeTimerId :: string
  nb_timerAssignmentId :: string
  nb_ownership :: native_timer_binding_ownership
  nb_observedFingerprint :: string
  nb_observedState :: native_timer_observed_state
  nb_lastObservedAt :: int
  nb_lastVerifiedOperationId :: string
  nb_missingSince :: int
  nb_driftState :: native_timer_binding_drift_state

abbreviation kMaxIdentityLength :: nat where
  "kMaxIdentityLength \<equiv> 160"

abbreviation kMaxTextLength :: nat where
  "kMaxTextLength \<equiv> 1024"

abbreviation kMaxFingerprintLength :: nat where
  "kMaxFingerprintLength \<equiv> 4096"

section \<open>Validators\<close>

definition isLetter :: "char \<Rightarrow> bool" where
  "isLetter c \<longleftrightarrow> (65 \<le> (of_char c :: nat) \<and> (of_char c :: nat) \<le> 90)
     \<or> (97 \<le> (of_char c :: nat) \<and> (of_char c :: nat) \<le> 122)"

definition validWeekdays :: "string \<Rightarrow> bool" where
  "validWeekdays value \<longleftrightarrow>
     length value = 7 \<and> list_all (\<lambda>ch. ch = CHR ''-'' \<or> isLetter ch) value"

fun hhmmNumber :: "nat \<Rightarrow> string \<Rightarrow> nat option" where
  "hhmmNumber numeric [] = Some numeric"
| "hhmmNumber numeric (ch # cs) =
     (if isDigit ch then hhmmNumber (numeric * 10 + digitOf ch) cs else None)"

definition validNativeHhmm :: "string \<Rightarrow> bool" where
  "validNativeHhmm value \<longleftrightarrow>
     value \<noteq> [] \<and> length value \<le> 4 \<and>
     (case hhmmNumber 0 value of
        None \<Rightarrow> False
      | Some numeric \<Rightarrow> numeric div 100 \<le> 23 \<and> numeric mod 100 \<le> 59)"

definition normalizedNativeHhmm :: "string \<Rightarrow> string" where
  "normalizedNativeHhmm value =
     (if validNativeHhmm value then replicate (4 - length value) CHR ''0'' @ value else [])"

definition nativeTimerObservedStateValid :: "native_timer_observed_state \<Rightarrow> bool" where
  "nativeTimerObservedStateValid state \<longleftrightarrow>
     nonEmptyBounded (os_channelId state) kMaxIdentityLength
     \<and> bounded (os_eventId state) kMaxIdentityLength
     \<and> bounded (os_title state) kMaxTextLength
     \<and> bounded (os_directory state) kMaxTextLength
     \<and> bounded (os_day state) kMaxIdentityLength
     \<and> validWeekdays (os_weekdays state)
     \<and> validNativeHhmm (os_startTime state)
     \<and> validNativeHhmm (os_endTime state)
     \<and> os_flags state \<ge> 0
     \<and> os_priority state \<ge> 0 \<and> os_priority state \<le> 99
     \<and> os_lifetime state \<ge> 0 \<and> os_lifetime state \<le> 99"

section \<open>Names\<close>

fun nativeTimerBindingOwnershipName :: "native_timer_binding_ownership \<Rightarrow> string" where
  "nativeTimerBindingOwnershipName OwnManaged = ''managed''"
| "nativeTimerBindingOwnershipName OwnAdopted = ''adopted''"
| "nativeTimerBindingOwnershipName OwnExternal = ''external''"
| "nativeTimerBindingOwnershipName OwnOrphanedManaged = ''orphaned_managed''"
| "nativeTimerBindingOwnershipName OwnAmbiguous = ''ambiguous''"

fun nativeTimerBindingDriftStateName :: "native_timer_binding_drift_state \<Rightarrow> string" where
  "nativeTimerBindingDriftStateName DriftNone = ''none''"
| "nativeTimerBindingDriftStateName DriftExpectedTransition = ''expected_transition''"
| "nativeTimerBindingDriftStateName DriftExternalFieldChange = ''external_field_change''"
| "nativeTimerBindingDriftStateName DriftExternalDisable = ''external_disable''"
| "nativeTimerBindingDriftStateName DriftExternalDelete = ''external_delete''"
| "nativeTimerBindingDriftStateName DriftNativeIdentityChanged = ''native_identity_changed''"
| "nativeTimerBindingDriftStateName DriftAmbiguous = ''ambiguous''"

section \<open>Fingerprint\<close>

definition observedStateFields :: "native_timer_observed_state \<Rightarrow> string list" where
  "observedStateFields state =
     [os_channelId state, os_eventId state, os_title state, os_directory state, os_day state,
      os_weekdays state, normalizedNativeHhmm (os_startTime state),
      normalizedNativeHhmm (os_endTime state), to_string (os_flags state),
      to_string (os_priority state), to_string (os_lifetime state), boolText (os_enabled state),
      boolText (os_vps state), boolText (os_recording state), boolText (os_pending state)]"

definition nativeTimerObservedStateFingerprint :: "native_timer_observed_state \<Rightarrow> string" where
  "nativeTimerObservedStateFingerprint state =
     (if \<not> nativeTimerObservedStateValid state then []
      else ''native-timer-observed-state/1|'' @ fieldsText (observedStateFields state))"

definition nativeTimerObservedStateSameExceptEventId ::
  "native_timer_observed_state \<Rightarrow> native_timer_observed_state \<Rightarrow> bool" where
  "nativeTimerObservedStateSameExceptEventId prior observed =
     (if \<not> nativeTimerObservedStateValid prior \<or> \<not> nativeTimerObservedStateValid observed
      then False
      else nativeTimerObservedStateFingerprint prior =
        nativeTimerObservedStateFingerprint (observed\<lparr>os_eventId := os_eventId prior\<rparr>))"

section \<open>Bindings\<close>

definition assignmentOwnershipShapeValid :: "native_timer_binding \<Rightarrow> bool" where
  "assignmentOwnershipShapeValid binding =
     (case nb_ownership binding of
        OwnManaged \<Rightarrow> nonEmptyBounded (nb_timerAssignmentId binding) kMaxIdentityLength
      | OwnAdopted \<Rightarrow> nonEmptyBounded (nb_timerAssignmentId binding) kMaxIdentityLength
      | OwnExternal \<Rightarrow>
          nb_timerAssignmentId binding = [] \<and> nb_lastVerifiedOperationId binding = []
      | OwnOrphanedManaged \<Rightarrow> bounded (nb_timerAssignmentId binding) kMaxIdentityLength
      | OwnAmbiguous \<Rightarrow> bounded (nb_timerAssignmentId binding) kMaxIdentityLength)"

definition missingDriftShapeValid :: "native_timer_binding \<Rightarrow> bool" where
  "missingDriftShapeValid binding =
     (if nb_missingSince binding = 0 then nb_driftState binding \<noteq> DriftExternalDelete
      else if nb_missingSince binding < 0
          \<or> nb_missingSince binding > nb_lastObservedAt binding then False
      else nb_driftState binding = DriftExpectedTransition
          \<or> nb_driftState binding = DriftExternalDelete
          \<or> nb_driftState binding = DriftAmbiguous)"

definition nativeTimerBindingValid :: "native_timer_binding \<Rightarrow> bool" where
  "nativeTimerBindingValid binding =
     (if \<not> nonEmptyBounded (nb_nativeTimerBindingId binding) kMaxIdentityLength
        \<or> \<not> nonEmptyBounded (nb_bindingRevision binding) kMaxIdentityLength
        \<or> \<not> nonEmptyBounded (nb_backendId binding) kMaxIdentityLength
        \<or> nb_backendGeneration binding = 0
        \<or> \<not> nonEmptyBounded (nb_backendNativeTimerId binding) kMaxIdentityLength
        \<or> \<not> bounded (nb_timerAssignmentId binding) kMaxIdentityLength
        \<or> \<not> nonEmptyBounded (nb_observedFingerprint binding) kMaxFingerprintLength
        \<or> \<not> nativeTimerObservedStateValid (nb_observedState binding)
        \<or> nb_lastObservedAt binding \<le> 0
        \<or> \<not> bounded (nb_lastVerifiedOperationId binding) kMaxIdentityLength then False
      else if nb_observedFingerprint binding
          \<noteq> nativeTimerObservedStateFingerprint (nb_observedState binding) then False
      else if \<not> assignmentOwnershipShapeValid binding then False
      else if \<not> missingDriftShapeValid binding then False
      else if nb_driftState binding = DriftExternalDisable
          \<and> (nb_missingSince binding \<noteq> 0 \<or> os_enabled (nb_observedState binding)) then False
      else True)"

section \<open>What the fingerprint identifies\<close>

text \<open>The observed state with both times padded to four digits.\<close>

definition canonicalObservedState ::
  "native_timer_observed_state \<Rightarrow> native_timer_observed_state" where
  "canonicalObservedState state =
     state\<lparr>os_startTime := normalizedNativeHhmm (os_startTime state),
           os_endTime := normalizedNativeHhmm (os_endTime state)\<rparr>"

lemma observedStateFields_canon:
  "observedStateFields s = observedStateFields t \<longleftrightarrow>
     canonicalObservedState s = canonicalObservedState t"
  by (cases s; cases t) (auto simp: observedStateFields_def canonicalObservedState_def)

interpretation observed_fp: fingerprint_scheme nativeTimerObservedStateValid
  "''native-timer-observed-state/1|''" observedStateFields canonicalObservedState
  nativeTimerObservedStateFingerprint
  by unfold_locales
    (simp_all add: nativeTimerObservedStateFingerprint_def observedStateFields_canon)

lemma observedStateValid_eventId:
  "nativeTimerObservedStateValid prior \<Longrightarrow> nativeTimerObservedStateValid observed \<Longrightarrow>
     nativeTimerObservedStateValid (observed\<lparr>os_eventId := os_eventId prior\<rparr>)"
  by (simp add: nativeTimerObservedStateValid_def)

lemma nativeTimerBindingValid_parts:
  assumes "nativeTimerBindingValid b"
  shows "nativeTimerObservedStateValid (nb_observedState b)"
    and "nb_observedFingerprint b = nativeTimerObservedStateFingerprint (nb_observedState b)"
    and "assignmentOwnershipShapeValid b" and "missingDriftShapeValid b"
    and "nb_lastObservedAt b > 0" and "nb_backendGeneration b \<noteq> 0"
  using assms by (auto simp: nativeTimerBindingValid_def split: if_splits)

section \<open>Properties\<close>

text \<open>Two observed states have the same non-empty fingerprint exactly when both are valid and
  agree once their times are padded to four digits: the text neither merges different timers nor
  separates equal ones.\<close>

theorem observed_fingerprint_identifies:
  "nativeTimerObservedStateFingerprint s = nativeTimerObservedStateFingerprint t
     \<and> nativeTimerObservedStateFingerprint s \<noteq> []
   \<longleftrightarrow> nativeTimerObservedStateValid s \<and> nativeTimerObservedStateValid t
     \<and> canonicalObservedState s = canonicalObservedState t"
  using observed_fp.fp_identifies [of s t] observed_fp.fp_eq_iff [of s t] observed_fp.fp_empty_iff [of s]
  by blast

text \<open>The comparison that forgives a changed event identifier accepts two observed states
  exactly when both are valid and, times padded, differ in nothing but that identifier.\<close>

theorem same_except_event_id_iff:
  "nativeTimerObservedStateSameExceptEventId s t \<longleftrightarrow>
     nativeTimerObservedStateValid s \<and> nativeTimerObservedStateValid t
     \<and> (\<exists>e. canonicalObservedState s = (canonicalObservedState t)\<lparr>os_eventId := e\<rparr>)"
proof (cases "nativeTimerObservedStateValid s \<and> nativeTimerObservedStateValid t")
  case True
  have "nativeTimerObservedStateSameExceptEventId s t \<longleftrightarrow>
      canonicalObservedState s = canonicalObservedState (t\<lparr>os_eventId := os_eventId s\<rparr>)"
    using True observedStateValid_eventId [of s t]
      observed_fp.fp_eq_iff [of s "t\<lparr>os_eventId := os_eventId s\<rparr>"]
    by (simp add: nativeTimerObservedStateSameExceptEventId_def)
  also have "\<dots> \<longleftrightarrow> (\<exists>e. canonicalObservedState s = (canonicalObservedState t)\<lparr>os_eventId := e\<rparr>)"
    by (cases s; cases t) (auto simp: canonicalObservedState_def)
  finally show ?thesis using True by simp
qed (auto simp: nativeTimerObservedStateSameExceptEventId_def)

end
