(* ===== verification/NativeTimerSpecification.thy ===== *)
theory NativeTimerSpecification
  imports NativeTimerBinding
begin

text \<open>
  The native timer a backend is asked to create (\<open>NativeTimerSpecification\<close>), its fingerprint
  and readback comparison, the observation record of one native read, and the text in which an
  assignment stores its desired specification
  (\<open>TimerAssignmentDesiredNativeTimerSpecification.cpp\<close>), writer and parser. Lemmas: the two
  independently written time validators accept the same texts, the readback comparison is equality
  of fingerprints, and the stored text and the specification determine each other.
\<close>

section \<open>Data and validity\<close>

record native_timer_specification =
  ns_channelId :: string
  ns_title :: string
  ns_directory :: string
  ns_day :: string
  ns_weekdays :: string
  ns_startTime :: string
  ns_endTime :: string
  ns_priority :: int
  ns_lifetime :: int
  ns_enabled :: bool
  ns_vps :: bool

definition emptyNativeTimerSpecification :: native_timer_specification where
  "emptyNativeTimerSpecification =
     \<lparr>ns_channelId = [], ns_title = [], ns_directory = [], ns_day = [],
      ns_weekdays = ''-------'', ns_startTime = [], ns_endTime = [], ns_priority = 50,
      ns_lifetime = 99, ns_enabled = True, ns_vps = False\<rparr>"

definition padHhmm :: "string \<Rightarrow> string" where
  "padHhmm value = replicate (4 - length value) CHR ''0'' @ value"

definition validHhmm :: "string \<Rightarrow> bool" where
  "validHhmm value =
     (if value = [] \<or> length value > 4 then False
      else if \<not> list_all isDigit value then False
      else (let normalized = padHhmm value;
                hour = digitOf (normalized ! 0) * 10 + digitOf (normalized ! 1);
                minute = digitOf (normalized ! 2) * 10 + digitOf (normalized ! 3)
            in hour \<le> 23 \<and> minute \<le> 59))"

definition nativeTimerSpecificationValid :: "native_timer_specification \<Rightarrow> bool" where
  "nativeTimerSpecificationValid specification \<longleftrightarrow>
     nonEmptyBounded (ns_channelId specification) kMaxIdentityLength
     \<and> bounded (ns_title specification) kMaxTextLength
     \<and> bounded (ns_directory specification) kMaxTextLength
     \<and> bounded (ns_day specification) kMaxIdentityLength
     \<and> validWeekdays (ns_weekdays specification)
     \<and> validHhmm (ns_startTime specification)
     \<and> validHhmm (ns_endTime specification)
     \<and> ns_priority specification \<ge> 0 \<and> ns_priority specification \<le> 99
     \<and> ns_lifetime specification \<ge> 0 \<and> ns_lifetime specification \<le> 99"

section \<open>Fingerprint and readback comparison\<close>

definition normalizedHhmm :: "string \<Rightarrow> string" where
  "normalizedHhmm value = padHhmm value"

definition specificationFields :: "native_timer_specification \<Rightarrow> string list" where
  "specificationFields specification =
     [ns_channelId specification, ns_title specification, ns_directory specification,
      ns_day specification, ns_weekdays specification,
      normalizedHhmm (ns_startTime specification), normalizedHhmm (ns_endTime specification),
      to_string (ns_priority specification), to_string (ns_lifetime specification),
      boolText (ns_enabled specification), boolText (ns_vps specification)]"

definition nativeTimerSpecificationFingerprint :: "native_timer_specification \<Rightarrow> string" where
  "nativeTimerSpecificationFingerprint specification =
     (if \<not> nativeTimerSpecificationValid specification then []
      else ''native-timer-specification/1|'' @ fieldsText (specificationFields specification))"

definition nativeTimerObservationMatchesSpecification ::
  "native_timer_specification \<Rightarrow> native_timer_observed_state \<Rightarrow> bool" where
  "nativeTimerObservationMatchesSpecification specification observedState =
     (if \<not> nativeTimerSpecificationValid specification
        \<or> \<not> nativeTimerObservedStateValid observedState then False
      else ns_channelId specification = os_channelId observedState
        \<and> ns_title specification = os_title observedState
        \<and> ns_directory specification = os_directory observedState
        \<and> ns_day specification = os_day observedState
        \<and> ns_weekdays specification = os_weekdays observedState
        \<and> normalizedHhmm (ns_startTime specification) = normalizedHhmm (os_startTime observedState)
        \<and> normalizedHhmm (ns_endTime specification) = normalizedHhmm (os_endTime observedState)
        \<and> ns_priority specification = os_priority observedState
        \<and> ns_lifetime specification = os_lifetime observedState
        \<and> ns_enabled specification = os_enabled observedState
        \<and> ns_vps specification = os_vps observedState)"

section \<open>Observations\<close>

record native_timer_observation =
  no_backendId :: string
  no_backendGeneration :: uint64
  no_backendNativeTimerId :: string
  no_observedAt :: int
  no_observedState :: native_timer_observed_state
  no_observedFingerprint :: string

definition nativeTimerObservationValid :: "native_timer_observation \<Rightarrow> bool" where
  "nativeTimerObservationValid observation =
     (if \<not> nonEmptyBounded (no_backendId observation) kMaxIdentityLength
        \<or> no_backendGeneration observation = 0
        \<or> \<not> nonEmptyBounded (no_backendNativeTimerId observation) kMaxIdentityLength
        \<or> no_observedAt observation \<le> 0
        \<or> \<not> nativeTimerObservedStateValid (no_observedState observation) then False
      else (let fingerprint = nativeTimerObservedStateFingerprint (no_observedState observation)
            in fingerprint \<noteq> [] \<and> no_observedFingerprint observation = fingerprint))"

section \<open>The stored text of a desired specification\<close>

definition desiredPrefix :: string where
  "desiredPrefix = ''timer-assignment-native-specification/1|''"

definition desiredSpecificationFields :: "native_timer_specification \<Rightarrow> string list" where
  "desiredSpecificationFields specification =
     [ns_channelId specification, ns_title specification, ns_directory specification,
      ns_day specification, ns_weekdays specification, ns_startTime specification,
      ns_endTime specification, to_string (ns_priority specification),
      to_string (ns_lifetime specification), boolText (ns_enabled specification),
      boolText (ns_vps specification)]"

definition serializeTimerAssignmentDesiredNativeTimerSpecification ::
  "native_timer_specification \<Rightarrow> string" where
  "serializeTimerAssignmentDesiredNativeTimerSpecification specification =
     (if \<not> nativeTimerSpecificationValid specification then []
      else desiredPrefix @ fieldsText (desiredSpecificationFields specification))"

fun boundedIntLoop :: "int \<Rightarrow> int \<Rightarrow> string \<Rightarrow> int option" where
  "boundedIntLoop maximum accumulator [] = Some accumulator"
| "boundedIntLoop maximum accumulator (character # rest) =
     (if \<not> isDigit character then None
      else (let next = accumulator * 10 + int (digitOf character)
            in if next > maximum then None else boundedIntLoop maximum next rest))"

definition parseBoundedInt :: "string \<Rightarrow> int \<Rightarrow> int \<Rightarrow> int option" where
  "parseBoundedInt value minimum maximum =
     (if value = [] then None
      else (case boundedIntLoop maximum 0 value of
              None \<Rightarrow> None
            | Some accumulator \<Rightarrow>
                if accumulator < minimum \<or> accumulator > maximum then None else Some accumulator))"

definition parseBool :: "string \<Rightarrow> bool option" where
  "parseBool value = (if value = ''0'' then Some False else if value = ''1'' then Some True else None)"

text \<open>
  Eleven reads, the four conversions, the validity check, and the comparison of the re-serialised
  value with the input, in the order of the code's short-circuit chain. \<open>None\<close> is the result
  \<open>false\<close>.
\<close>

definition parseTimerAssignmentDesiredNativeTimerSpecification ::
  "string \<Rightarrow> native_timer_specification option" where
  "parseTimerAssignmentDesiredNativeTimerSpecification encoded =
     (if take (length desiredPrefix) encoded \<noteq> desiredPrefix then None
      else (case readFields 11 encoded (length desiredPrefix) of
          Some ([channelId, title, directory, day, weekdays, startTime, endTime,
                 priority, lifetime, enabled, vps], position) \<Rightarrow>
            if position \<noteq> length encoded then None
            else (case (parseBoundedInt priority 0 99, parseBoundedInt lifetime 0 99,
                        parseBool enabled, parseBool vps) of
                (Some p, Some l, Some e, Some v) \<Rightarrow>
                  (let specification =
                     \<lparr>ns_channelId = channelId, ns_title = title, ns_directory = directory,
                      ns_day = day, ns_weekdays = weekdays, ns_startTime = startTime,
                      ns_endTime = endTime, ns_priority = p, ns_lifetime = l, ns_enabled = e,
                      ns_vps = v\<rparr>
                   in if \<not> nativeTimerSpecificationValid specification then None
                      else if serializeTimerAssignmentDesiredNativeTimerSpecification specification
                        = encoded then Some specification else None)
              | _ \<Rightarrow> None)
        | _ \<Rightarrow> None))"

definition timerAssignmentDesiredNativeTimerSpecificationEquivalent ::
  "native_timer_specification \<Rightarrow> native_timer_specification \<Rightarrow> bool" where
  "timerAssignmentDesiredNativeTimerSpecificationEquivalent left right \<longleftrightarrow>
     ns_channelId left = ns_channelId right
     \<and> ns_title left = ns_title right
     \<and> ns_directory left = ns_directory right
     \<and> ns_day left = ns_day right
     \<and> ns_weekdays left = ns_weekdays right
     \<and> ns_startTime left = ns_startTime right
     \<and> ns_endTime left = ns_endTime right
     \<and> ns_priority left = ns_priority right
     \<and> ns_lifetime left = ns_lifetime right
     \<and> ns_enabled left = ns_enabled right
     \<and> ns_vps left = ns_vps right"

section \<open>Times\<close>

lemma digitOf_zero [simp]: "digitOf CHR ''0'' = 0"
  by (simp add: digitOf_def)

lemma list_upto_4:
  assumes "value \<noteq> []" "length value \<le> 4"
  shows "(\<exists>a. value = [a]) \<or> (\<exists>a b. value = [a, b]) \<or> (\<exists>a b c. value = [a, b, c])
     \<or> (\<exists>a b c d. value = [a, b, c, d])"
  using assms
  by (cases "value"; cases "tl value"; cases "tl (tl value)"; cases "tl (tl (tl value))"; simp)

lemma hundreds: "e < 100 \<Longrightarrow> (e + x * 100) div 100 = x" "e < 100 \<Longrightarrow> (e + x * 100) mod 100 = (e::nat)"
  by simp_all

lemma four_digit_split:
  fixes a b c d :: nat
  assumes "c \<le> 9" "d \<le> 9"
  shows "(((a * 10 + b) * 10 + c) * 10 + d) div 100 = a * 10 + b"
    and "(((a * 10 + b) * 10 + c) * 10 + d) mod 100 = c * 10 + d"
proof -
  have eq: "(((a * 10 + b) * 10 + c) * 10 + d) = (c * 10 + d) + (a * 10 + b) * 100" by simp
  have lt: "c * 10 + d < 100" using assms by linarith
  show "(((a * 10 + b) * 10 + c) * 10 + d) div 100 = a * 10 + b"
    unfolding eq using lt by (rule hundreds)
  show "(((a * 10 + b) * 10 + c) * 10 + d) mod 100 = c * 10 + d"
    unfolding eq using lt by (rule hundreds)
qed

lemma replicate_small: "replicate 3 x = [x, x, x]" "replicate 2 x = [x, x]"
  by (simp_all add: numeral_eq_Suc)

text \<open>The four digits the padded text has are the digits of the number the other loop forms.\<close>

lemma padded_digits:
  assumes "value \<noteq> []" "length value \<le> 4" "list_all isDigit value"
  shows "\<exists>a b c d. a \<le> 9 \<and> b \<le> 9 \<and> c \<le> 9 \<and> d \<le> 9 \<and>
     map digitOf (padHhmm value) = [a, b, c, d] \<and>
     hhmmNumber 0 value = Some (((a * 10 + b) * 10 + c) * 10 + d)"
  using list_upto_4 [OF assms(1,2)] assms(3)
  by (auto simp: padHhmm_def digitOf_le replicate_small)

lemma hhmmNumber_None: "\<not> list_all isDigit cs \<Longrightarrow> hhmmNumber n cs = None"
  by (induction cs arbitrary: n) auto

lemma length_padHhmm: "length value \<le> 4 \<Longrightarrow> length (padHhmm value) = 4"
  by (simp add: padHhmm_def)

lemma validHhmm_eq_native: "validHhmm value = validNativeHhmm value"
proof (cases "value \<noteq> [] \<and> length value \<le> 4 \<and> list_all isDigit value")
  case True
  then have v: "value \<noteq> []" "length value \<le> 4" "list_all isDigit value" by simp_all
  obtain a b c d where le: "a \<le> 9" "b \<le> 9" "c \<le> 9" "d \<le> 9"
    and pad: "map digitOf (padHhmm value) = [a, b, c, d]"
    and num: "hhmmNumber 0 value = Some (((a * 10 + b) * 10 + c) * 10 + d)"
    using padded_digits [OF v] by (elim exE conjE)
  from pad obtain w x y z where "padHhmm value = [w, x, y, z]"
    "digitOf w = a" "digitOf x = b" "digitOf y = c" "digitOf z = d"
    by auto
  moreover obtain N where N: "hhmmNumber 0 value = Some N"
    "N div 100 = a * 10 + b" "N mod 100 = c * 10 + d"
    using num four_digit_split [OF le(3,4)] by blast
  ultimately show ?thesis using True
    by (simp add: validHhmm_def validNativeHhmm_def N Let_def)
next
  case False
  then show ?thesis
    by (auto simp: validHhmm_def validNativeHhmm_def hhmmNumber_None)
qed

section \<open>The stored text\<close>

lemma boundedIntLoop_append:
  "boundedIntLoop m a (xs @ ys) =
     Option.bind (boundedIntLoop m a xs) (\<lambda>b. boundedIntLoop m b ys)"
  by (induction xs arbitrary: a) (auto simp: Let_def)

lemma boundedIntLoop_decimal:
  "9 \<le> m \<Longrightarrow> int n \<le> m \<Longrightarrow> boundedIntLoop m 0 (decimal n) = Some (int n)"
proof (induction n rule: decimal.induct)
  case (1 n)
  show ?case
  proof (cases "n < 10")
    case True
    with "1.prems" show ?thesis by (simp add: decimal.simps [of n] Let_def)
  next
    case False
    have eq: "int (n div 10) * 10 + int (n mod 10) = int n"
      by (metis div_mult_mod_eq of_nat_add of_nat_mult of_nat_numeral)
    have "boundedIntLoop m 0 (decimal (n div 10)) = Some (int (n div 10))"
      using "1" False by simp
    then show ?thesis using False eq "1.prems"
      by (simp add: decimal.simps [of n] boundedIntLoop_append Let_def)
  qed
qed

lemma parseBoundedInt_to_string [codec_simps]:
  "0 \<le> i \<Longrightarrow> i \<le> m \<Longrightarrow> 9 \<le> m \<Longrightarrow> parseBoundedInt (to_string i) 0 m = Some i"
  using boundedIntLoop_decimal [of m "nat i"]
  by (simp add: parseBoundedInt_def to_string_def)

lemma parseBool_boolText [codec_simps]: "parseBool (boolText b) = Some b"
  by (simp add: parseBool_def boolText_def)

lemma desiredSpecificationFields_canon:
  "desiredSpecificationFields s = desiredSpecificationFields t \<longleftrightarrow> s = t"
  by (cases s; cases t) (auto simp: desiredSpecificationFields_def)

interpretation desired_text: fingerprint_scheme nativeTimerSpecificationValid desiredPrefix
  desiredSpecificationFields id serializeTimerAssignmentDesiredNativeTimerSpecification
  by unfold_locales
    (simp_all add: serializeTimerAssignmentDesiredNativeTimerSpecification_def
      desiredSpecificationFields_canon desiredPrefix_def)

lemma length_to_string_small: "0 \<le> i \<Longrightarrow> i \<le> 99 \<Longrightarrow> length (to_string i) \<le> 2"
  by (simp add: to_string_def decimal.simps [of "nat i"] decimal.simps [of "nat i div 10"])

lemma validHhmm_length: "validHhmm value \<Longrightarrow> length value \<le> 4"
  by (auto simp: validHhmm_def split: if_splits)

lemma desiredSpecificationFields_bounded:
  assumes "nativeTimerSpecificationValid s"
  shows "\<forall>v \<in> set (desiredSpecificationFields s). length v \<le> size_max"
  using assms validHhmm_length [of "ns_startTime s"] validHhmm_length [of "ns_endTime s"]
    length_to_string_small [of "ns_priority s"] length_to_string_small [of "ns_lifetime s"]
  by (auto simp: nativeTimerSpecificationValid_def desiredSpecificationFields_def boolText_def
      nonEmptyBounded_def bounded_def validWeekdays_def)

lemma desired_reads:
  assumes "nativeTimerSpecificationValid s"
  shows "readFields 11 (serializeTimerAssignmentDesiredNativeTimerSpecification s)
      (length desiredPrefix) = Some (desiredSpecificationFields s,
        length (serializeTimerAssignmentDesiredNativeTimerSpecification s))"
proof -
  have "length (desiredSpecificationFields s) = 11"
    by (simp add: desiredSpecificationFields_def)
  then show ?thesis
    using readFields_fieldsText [OF desiredSpecificationFields_bounded [OF assms],
        of desiredPrefix "[]"] assms
    by (simp add: serializeTimerAssignmentDesiredNativeTimerSpecification_def)
qed

lemma specification_eta:
  "\<lparr>ns_channelId = ns_channelId s, ns_title = ns_title s, ns_directory = ns_directory s,
    ns_day = ns_day s, ns_weekdays = ns_weekdays s, ns_startTime = ns_startTime s,
    ns_endTime = ns_endTime s, ns_priority = ns_priority s, ns_lifetime = ns_lifetime s,
    ns_enabled = ns_enabled s, ns_vps = ns_vps s\<rparr> = s"
  by (cases s) simp

lemma parse_serialize:
  assumes "nativeTimerSpecificationValid s"
  shows "parseTimerAssignmentDesiredNativeTimerSpecification
      (serializeTimerAssignmentDesiredNativeTimerSpecification s) = Some s"
proof -
  let ?e = "serializeTimerAssignmentDesiredNativeTimerSpecification s"
  have prefix: "take (length desiredPrefix) ?e = desiredPrefix"
    using assms by (simp add: serializeTimerAssignmentDesiredNativeTimerSpecification_def)
  have ints: "parseBoundedInt (to_string (ns_priority s)) 0 99 = Some (ns_priority s)"
    "parseBoundedInt (to_string (ns_lifetime s)) 0 99 = Some (ns_lifetime s)"
    using assms by (simp_all add: nativeTimerSpecificationValid_def codec_simps)
  show ?thesis
    using assms
    by (simp add: parseTimerAssignmentDesiredNativeTimerSpecification_def prefix
        desired_reads [OF assms, unfolded desiredSpecificationFields_def] ints parseBool_boolText
        specification_eta Let_def)
qed

lemma parse_inverse:
  assumes "parseTimerAssignmentDesiredNativeTimerSpecification e = Some s"
  shows "nativeTimerSpecificationValid s \<and>
     serializeTimerAssignmentDesiredNativeTimerSpecification s = e"
  using assms
  by (auto simp: parseTimerAssignmentDesiredNativeTimerSpecification_def Let_def
      split: if_splits option.splits list.splits prod.splits)

section \<open>Fingerprints of specifications\<close>

definition canonicalSpecification ::
  "native_timer_specification \<Rightarrow> native_timer_specification" where
  "canonicalSpecification s =
     s\<lparr>ns_startTime := padHhmm (ns_startTime s), ns_endTime := padHhmm (ns_endTime s)\<rparr>"

lemma specificationFields_canon:
  "specificationFields s = specificationFields t \<longleftrightarrow>
     canonicalSpecification s = canonicalSpecification t"
  by (cases s; cases t)
    (auto simp: specificationFields_def canonicalSpecification_def normalizedHhmm_def)

interpretation specification_fp: fingerprint_scheme nativeTimerSpecificationValid
  "''native-timer-specification/1|''" specificationFields canonicalSpecification
  nativeTimerSpecificationFingerprint
  by unfold_locales
    (simp_all add: nativeTimerSpecificationFingerprint_def specificationFields_canon)

text \<open>The configuration part of an observed timer, read back as a specification.\<close>

definition specificationOfObserved ::
  "native_timer_observed_state \<Rightarrow> native_timer_specification" where
  "specificationOfObserved o' =
     \<lparr>ns_channelId = os_channelId o', ns_title = os_title o', ns_directory = os_directory o',
      ns_day = os_day o', ns_weekdays = os_weekdays o', ns_startTime = os_startTime o',
      ns_endTime = os_endTime o', ns_priority = os_priority o', ns_lifetime = os_lifetime o',
      ns_enabled = os_enabled o', ns_vps = os_vps o'\<rparr>"

lemma specificationOfObserved_valid:
  "nativeTimerObservedStateValid o' \<Longrightarrow> nativeTimerSpecificationValid (specificationOfObserved o')"
  by (simp add: nativeTimerObservedStateValid_def nativeTimerSpecificationValid_def
      specificationOfObserved_def validHhmm_eq_native)

lemma matches_iff_canonical:
  "nativeTimerObservationMatchesSpecification s o' \<longleftrightarrow>
     nativeTimerSpecificationValid s \<and> nativeTimerObservedStateValid o' \<and>
     canonicalSpecification s = canonicalSpecification (specificationOfObserved o')"
  by (cases s; cases o')
    (auto simp: nativeTimerObservationMatchesSpecification_def canonicalSpecification_def
      specificationOfObserved_def normalizedHhmm_def)

section \<open>Properties\<close>

text \<open>Stored text and desired specification determine each other: the parser accepts a text
  with a value exactly when the value is valid and the text is the one the writer produces for
  it. No second spelling of a specification is accepted.\<close>

theorem desired_specification_text:
  "parseTimerAssignmentDesiredNativeTimerSpecification e = Some s \<longleftrightarrow>
     nativeTimerSpecificationValid s
     \<and> e = serializeTimerAssignmentDesiredNativeTimerSpecification s"
  using parse_serialize parse_inverse by blast

text \<open>The two time checks, written once with indexed digits and once with an accumulated
  number, accept the same texts.\<close>

theorem time_checks_agree: "validHhmm t \<longleftrightarrow> validNativeHhmm t"
  by (simp add: validHhmm_eq_native)

text \<open>A native readback confirms a specification exactly when both are valid and the
  configuration part of the observed timer has the specification's fingerprint.\<close>

theorem readback_is_fingerprint_equality:
  "nativeTimerObservationMatchesSpecification s o' \<longleftrightarrow>
     nativeTimerSpecificationValid s \<and> nativeTimerObservedStateValid o'
     \<and> nativeTimerSpecificationFingerprint s
        = nativeTimerSpecificationFingerprint (specificationOfObserved o')"
  using specification_fp.fp_eq_iff [of s "specificationOfObserved o'"]
    specificationOfObserved_valid [of o'] matches_iff_canonical [of s o']
  by blast

end
