(* ===== verification/TimerAssignment.thy ===== *)
theory TimerAssignment
  imports NativeTimerSpecification Lifecycle
begin

text \<open>
  A timer assignment: the decision that one backend carries out one intent
  (\<open>core/timers/include/TimerAssignment.h\<close>, \<open>src/TimerAssignment.cpp\<close>). Data, validators,
  lifecycle and the ownership predicate the planner and the repository use. Lemmas: the shape a
  valid assignment has in each state, and the lifecycle's contract.
\<close>

section \<open>Data\<close>

datatype timer_assignment_state =
  AsgProposed | AsgSelected | AsgProvisioning | AsgBound | AsgReconciling | AsgUnassigned
| AsgSuperseding | AsgSuperseded | AsgCancelRequested | AsgCancelled | AsgFailed

datatype timer_assignment_role = RolePrimary | RoleReplica | RoleReplacement

record timer_assignment_channel_binding =
  cb_canonicalChannelId :: string
  cb_backendChannelId :: string
  cb_mappingSource :: string
  cb_mappingRevision :: string

record timer_assignment_decision_evidence =
  de_reasons :: "string list"
  de_warnings :: "string list"
  de_exclusions :: "string list"
  de_conflictFacts :: "string list"
  de_decisionScore :: int

record timer_assignment =
  ta_timerAssignmentId :: string
  ta_assignmentRevision :: string
  ta_timerIntentId :: string
  ta_intentRevision :: string
  ta_assignmentEpoch :: uint64
  ta_backendId :: string
  ta_backendGeneration :: uint64
  ta_state :: timer_assignment_state
  ta_role :: timer_assignment_role
  ta_channelBinding :: timer_assignment_channel_binding
  ta_capabilityRevision :: string
  ta_backendHealthRevision :: string
  ta_decisionPolicyVersion :: string
  ta_decisionEvidence :: timer_assignment_decision_evidence
  ta_desiredNativeTimerSpecificationPresent :: bool
  ta_desiredNativeTimerSpecification :: native_timer_specification
  ta_nativeTimerBindingId :: string
  ta_createdAt :: int
  ta_updatedAt :: int

definition emptyChannelBinding :: timer_assignment_channel_binding where
  "emptyChannelBinding =
     \<lparr>cb_canonicalChannelId = [], cb_backendChannelId = [], cb_mappingSource = [],
      cb_mappingRevision = []\<rparr>"

definition emptyDecisionEvidence :: timer_assignment_decision_evidence where
  "emptyDecisionEvidence =
     \<lparr>de_reasons = [], de_warnings = [], de_exclusions = [], de_conflictFacts = [],
      de_decisionScore = 0\<rparr>"

section \<open>Validators\<close>

abbreviation kMaxEvidenceTextLength :: nat where
  "kMaxEvidenceTextLength \<equiv> 256"

abbreviation kMaxEvidenceEntries :: nat where
  "kMaxEvidenceEntries \<equiv> 32"

abbreviation kMaxDecisionScoreMagnitude :: int where
  "kMaxDecisionScoreMagnitude \<equiv> 1000000"

definition boundedEvidence :: "string list \<Rightarrow> bool" where
  "boundedEvidence values =
     (if length values > kMaxEvidenceEntries then False
      else list_all (\<lambda>v. nonEmptyBounded v kMaxEvidenceTextLength) values)"

definition decisionEvidenceValid :: "timer_assignment_decision_evidence \<Rightarrow> bool" where
  "decisionEvidenceValid evidence \<longleftrightarrow>
     de_reasons evidence \<noteq> []
     \<and> boundedEvidence (de_reasons evidence)
     \<and> boundedEvidence (de_warnings evidence)
     \<and> boundedEvidence (de_exclusions evidence)
     \<and> boundedEvidence (de_conflictFacts evidence)
     \<and> de_decisionScore evidence \<ge> - kMaxDecisionScoreMagnitude
     \<and> de_decisionScore evidence \<le> kMaxDecisionScoreMagnitude"

definition channelBindingPresent :: "timer_assignment_channel_binding \<Rightarrow> bool" where
  "channelBindingPresent binding \<longleftrightarrow>
     cb_canonicalChannelId binding \<noteq> [] \<or> cb_backendChannelId binding \<noteq> []
     \<or> cb_mappingSource binding \<noteq> [] \<or> cb_mappingRevision binding \<noteq> []"

definition channelBindingValid :: "timer_assignment_channel_binding \<Rightarrow> bool" where
  "channelBindingValid binding =
     (if \<not> channelBindingPresent binding then False
      else bounded (cb_canonicalChannelId binding) kMaxIdentityLength
        \<and> nonEmptyBounded (cb_backendChannelId binding) kMaxIdentityLength
        \<and> nonEmptyBounded (cb_mappingSource binding) kMaxIdentityLength
        \<and> nonEmptyBounded (cb_mappingRevision binding) kMaxIdentityLength)"

definition unassignedShapeValid :: "timer_assignment \<Rightarrow> bool" where
  "unassignedShapeValid assignment \<longleftrightarrow>
     ta_backendId assignment = []
     \<and> ta_backendGeneration assignment = 0
     \<and> \<not> channelBindingPresent (ta_channelBinding assignment)
     \<and> ta_capabilityRevision assignment = []
     \<and> ta_backendHealthRevision assignment = []
     \<and> \<not> ta_desiredNativeTimerSpecificationPresent assignment
     \<and> ta_nativeTimerBindingId assignment = []"

definition assignedShapeValid :: "timer_assignment \<Rightarrow> bool" where
  "assignedShapeValid assignment \<longleftrightarrow>
     nonEmptyBounded (ta_backendId assignment) kMaxIdentityLength
     \<and> ta_backendGeneration assignment > 0
     \<and> channelBindingValid (ta_channelBinding assignment)
     \<and> nonEmptyBounded (ta_capabilityRevision assignment) kMaxIdentityLength
     \<and> nonEmptyBounded (ta_backendHealthRevision assignment) kMaxIdentityLength"

definition timerAssignmentValid :: "timer_assignment \<Rightarrow> bool" where
  "timerAssignmentValid assignment =
     (if \<not> nonEmptyBounded (ta_timerAssignmentId assignment) kMaxIdentityLength
        \<or> \<not> nonEmptyBounded (ta_assignmentRevision assignment) kMaxIdentityLength
        \<or> \<not> nonEmptyBounded (ta_timerIntentId assignment) kMaxIdentityLength
        \<or> \<not> nonEmptyBounded (ta_intentRevision assignment) kMaxIdentityLength
        \<or> ta_assignmentEpoch assignment = 0
        \<or> \<not> nonEmptyBounded (ta_decisionPolicyVersion assignment) kMaxIdentityLength
        \<or> \<not> decisionEvidenceValid (ta_decisionEvidence assignment)
        \<or> \<not> bounded (ta_nativeTimerBindingId assignment) kMaxIdentityLength
        \<or> ta_createdAt assignment \<le> 0
        \<or> ta_updatedAt assignment < ta_createdAt assignment then False
      else if ta_state assignment = AsgUnassigned then unassignedShapeValid assignment
      else if \<not> assignedShapeValid assignment then False
      else if ta_state assignment = AsgBound
        then nonEmptyBounded (ta_nativeTimerBindingId assignment) kMaxIdentityLength
      else True)"

definition timerAssignmentRevisionMatches :: "string \<Rightarrow> string \<Rightarrow> bool" where
  "timerAssignmentRevisionMatches expectedRevision currentRevision \<longleftrightarrow>
     revisionMatches expectedRevision currentRevision"

section \<open>Names and lifecycle\<close>

fun timerAssignmentStateName :: "timer_assignment_state \<Rightarrow> string" where
  "timerAssignmentStateName AsgProposed = ''proposed''"
| "timerAssignmentStateName AsgSelected = ''selected''"
| "timerAssignmentStateName AsgProvisioning = ''provisioning''"
| "timerAssignmentStateName AsgBound = ''bound''"
| "timerAssignmentStateName AsgReconciling = ''reconciling''"
| "timerAssignmentStateName AsgUnassigned = ''unassigned''"
| "timerAssignmentStateName AsgSuperseding = ''superseding''"
| "timerAssignmentStateName AsgSuperseded = ''superseded''"
| "timerAssignmentStateName AsgCancelRequested = ''cancel_requested''"
| "timerAssignmentStateName AsgCancelled = ''cancelled''"
| "timerAssignmentStateName AsgFailed = ''failed''"

fun timerAssignmentRoleName :: "timer_assignment_role \<Rightarrow> string" where
  "timerAssignmentRoleName RolePrimary = ''primary''"
| "timerAssignmentRoleName RoleReplica = ''replica''"
| "timerAssignmentRoleName RoleReplacement = ''replacement''"

definition timerAssignmentCanTransition ::
  "timer_assignment_state \<Rightarrow> timer_assignment_state \<Rightarrow> bool" where
  "timerAssignmentCanTransition from to' =
     (if from = to' then False
      else case from of
          AsgProposed \<Rightarrow> to' = AsgSelected \<or> to' = AsgUnassigned \<or> to' = AsgCancelRequested
            \<or> to' = AsgFailed
        | AsgSelected \<Rightarrow> to' = AsgProvisioning \<or> to' = AsgUnassigned \<or> to' = AsgSuperseding
            \<or> to' = AsgCancelRequested \<or> to' = AsgFailed
        | AsgProvisioning \<Rightarrow> to' = AsgBound \<or> to' = AsgReconciling \<or> to' = AsgUnassigned
            \<or> to' = AsgSuperseding \<or> to' = AsgCancelRequested \<or> to' = AsgFailed
        | AsgBound \<Rightarrow> to' = AsgReconciling \<or> to' = AsgSuperseding \<or> to' = AsgCancelRequested
            \<or> to' = AsgFailed
        | AsgReconciling \<Rightarrow> to' = AsgBound \<or> to' = AsgUnassigned \<or> to' = AsgSuperseding
            \<or> to' = AsgCancelRequested \<or> to' = AsgFailed
        | AsgUnassigned \<Rightarrow> to' = AsgProposed \<or> to' = AsgSelected \<or> to' = AsgCancelRequested
            \<or> to' = AsgFailed
        | AsgSuperseding \<Rightarrow> to' = AsgSuperseded \<or> to' = AsgReconciling
            \<or> to' = AsgCancelRequested \<or> to' = AsgFailed
        | AsgCancelRequested \<Rightarrow> to' = AsgCancelled \<or> to' = AsgFailed
        | AsgSuperseded \<Rightarrow> False
        | AsgCancelled \<Rightarrow> False
        | AsgFailed \<Rightarrow> False)"

definition timerAssignmentActiveOwnershipState :: "timer_assignment_state \<Rightarrow> bool" where
  "timerAssignmentActiveOwnershipState state \<longleftrightarrow>
     state = AsgSelected \<or> state = AsgProvisioning \<or> state = AsgBound \<or> state = AsgReconciling
     \<or> state = AsgSuperseding"

definition timerAssignmentTerminal :: "timer_assignment_state \<Rightarrow> bool" where
  "timerAssignmentTerminal state \<longleftrightarrow>
     state = AsgSuperseded \<or> state = AsgCancelled \<or> state = AsgFailed"

interpretation assignment_life: lifecycle timerAssignmentCanTransition timerAssignmentTerminal
proof unfold_locales
  fix s t :: timer_assignment_state
  show "timerAssignmentTerminal s \<Longrightarrow> timerAssignmentCanTransition s t \<Longrightarrow> t = s"
    by (auto simp: timerAssignmentTerminal_def timerAssignmentCanTransition_def split: if_splits)
  show "\<not> timerAssignmentTerminal s \<Longrightarrow>
      \<exists>t. timerAssignmentCanTransition s t \<and> timerAssignmentTerminal t"
    by (intro exI [of _ AsgFailed], cases s)
      (auto simp: timerAssignmentTerminal_def timerAssignmentCanTransition_def)
qed

section \<open>Consequences\<close>

lemma active_not_terminal:
  "timerAssignmentActiveOwnershipState s \<Longrightarrow> \<not> timerAssignmentTerminal s"
  by (auto simp: timerAssignmentActiveOwnershipState_def timerAssignmentTerminal_def)

lemma valid_assigned_shape:
  "timerAssignmentValid a \<Longrightarrow> ta_state a \<noteq> AsgUnassigned \<Longrightarrow> assignedShapeValid a"
  by (auto simp: timerAssignmentValid_def split: if_splits)

text \<open>An assignment that owns its intent's recording names a backend.\<close>

lemma valid_active_backend:
  assumes "timerAssignmentValid a" "timerAssignmentActiveOwnershipState (ta_state a)"
  shows "ta_backendId a \<noteq> []" and "ta_backendGeneration a > 0"
proof -
  have "ta_state a \<noteq> AsgUnassigned"
    using assms(2) by (auto simp: timerAssignmentActiveOwnershipState_def)
  with assms(1) have "assignedShapeValid a" by (rule valid_assigned_shape)
  then show "ta_backendId a \<noteq> []" "ta_backendGeneration a > 0"
    by (auto simp: assignedShapeValid_def dest: nonEmptyBounded_imp)
qed

text \<open>Becoming the owner again is only possible through a fresh selection or a reconciliation.\<close>

lemma gain_ownership_from:
  assumes "timerAssignmentCanTransition a b" "\<not> timerAssignmentActiveOwnershipState a"
    "timerAssignmentActiveOwnershipState b"
  shows "b = AsgSelected \<and> (a = AsgProposed \<or> a = AsgUnassigned)"
  using assms
  by (cases a) (auto simp: timerAssignmentCanTransition_def timerAssignmentActiveOwnershipState_def
      split: if_splits)

lemma timerAssignmentTerminal_stuck:
  "timerAssignmentTerminal s \<Longrightarrow> \<not> timerAssignmentCanTransition s t"
  by (auto simp: timerAssignmentTerminal_def timerAssignmentCanTransition_def)

text \<open>Whoever owns the recording was selected before, unless the history began that way.\<close>

lemma owner_was_selected:
  "permittedHistory timerAssignmentCanTransition s ts \<Longrightarrow>
     \<not> timerAssignmentActiveOwnershipState s \<Longrightarrow>
     t \<in> set ts \<Longrightarrow> timerAssignmentActiveOwnershipState t \<Longrightarrow> AsgSelected \<in> set ts"
proof (induction ts arbitrary: s)
  case Nil
  then show ?case by simp
next
  case (Cons u us)
  then show ?case
    using gain_ownership_from [of s u]
    by (cases "timerAssignmentActiveOwnershipState u") auto
qed

section \<open>Properties\<close>

text \<open>Every permitted history of an assignment that starts as proposed can be closed, ends
  with its first final state, makes the assignment an owner of the recording only through a
  selection, and is superseded or cancelled only through the corresponding request state.\<close>

theorem assignment_histories:
  assumes "permittedHistory timerAssignmentCanTransition AsgProposed ts"
  shows "(\<exists>us. permittedHistory timerAssignmentCanTransition AsgProposed (ts @ us)
            \<and> timerAssignmentTerminal (last (ts @ us)))
     \<and> (\<forall>i < length ts. timerAssignmentTerminal (ts ! i) \<longrightarrow> Suc i = length ts)
     \<and> (\<forall>t \<in> set ts. timerAssignmentActiveOwnershipState t \<longrightarrow> AsgSelected \<in> set ts)
     \<and> (AsgSuperseded \<in> set ts \<longrightarrow> AsgSuperseding \<in> set ts)
     \<and> (AsgCancelled \<in> set ts \<longrightarrow> AsgCancelRequested \<in> set ts)"
proof (intro conjI impI allI ballI)
  obtain us where us: "permittedHistory timerAssignmentCanTransition AsgProposed (ts @ us)"
    "timerAssignmentTerminal (last (AsgProposed # ts @ us))"
    using assignment_life.extends_to_final [OF assms] by blast
  then show "\<exists>us. permittedHistory timerAssignmentCanTransition AsgProposed (ts @ us)
      \<and> timerAssignmentTerminal (last (ts @ us))"
    by (intro exI [of _ us]) (auto simp: timerAssignmentTerminal_def split: if_splits)
next
  fix i
  assume "i < length ts" "timerAssignmentTerminal (ts ! i)"
  then show "Suc i = length ts"
    using timerAssignmentTerminal_stuck by (intro permittedHistory_stuck_last [OF assms])
next
  fix t
  assume "t \<in> set ts" "timerAssignmentActiveOwnershipState t"
  then show "AsgSelected \<in> set ts"
    by (intro owner_was_selected [OF assms])
      (simp_all add: timerAssignmentActiveOwnershipState_def)
next
  show "AsgSuperseded \<in> set ts \<Longrightarrow> AsgSuperseding \<in> set ts"
    by (rule permittedHistory_predecessor [OF assms, of _ AsgSuperseding])
      (auto simp: timerAssignmentCanTransition_def split: timer_assignment_state.splits if_splits)
next
  show "AsgCancelled \<in> set ts \<Longrightarrow> AsgCancelRequested \<in> set ts"
    by (rule permittedHistory_predecessor [OF assms, of _ AsgCancelRequested])
      (auto simp: timerAssignmentCanTransition_def split: timer_assignment_state.splits if_splits)
qed

theorem assignment_histories_witness:
  "\<exists>us. permittedHistory timerAssignmentCanTransition AsgProposed
        ([AsgSelected, AsgProvisioning, AsgBound] @ us)
     \<and> timerAssignmentTerminal (last ([AsgSelected, AsgProvisioning, AsgBound] @ us))"
  using assignment_histories [of "[AsgSelected, AsgProvisioning, AsgBound]"]
  by (simp add: timerAssignmentCanTransition_def)

end
