(* ===== verification/TimerAssignmentPlanner.thy ===== *)
theory TimerAssignmentPlanner
  imports TimerIntent TimerAssignment "HOL-Library.Multiset"
begin

text \<open>
  The assignment planner (\<open>core/timers/include/TimerAssignmentPlanner.h\<close>,
  \<open>src/TimerAssignmentPlanner.cpp\<close>): from an active intent, its current assignments and the
  evidence about each backend it picks at most one backend, and records why each other one was
  passed over. Lemmas: a candidate is eligible exactly when it meets the declarative predicate
  \<open>candidateAdmissible\<close>; the decision is the least admissible candidate; the result does not
  depend on the order in which candidates are listed; its evidence can always be stored.
\<close>

section \<open>Data\<close>

datatype planning_backend_state =
  BackendOnline | BackendDegraded | BackendOffline | BackendStale | BackendIncompatible
| BackendDisabled

datatype planning_health_state =
  HealthHealthy | HealthDegraded | HealthUnavailable | HealthUnknown

datatype planning_conflict_state =
  ConflictConfirmedClear | ConflictConfirmed | ConflictPartial | ConflictUnavailable
| ConflictStale

datatype planning_outcome = PlanSelected | PlanUnassigned | PlanInvalid

record planning_capability_evidence =
  pc_backendGeneration :: uint64
  pc_revision :: string
  pc_current :: bool
  pc_timerCreate :: bool
  pc_timerReadback :: bool

record planning_health_evidence =
  ph_backendGeneration :: uint64
  ph_revision :: string
  ph_current :: bool
  ph_state :: planning_health_state
  ph_timerWritesAvailable :: bool

record planning_channel_evidence =
  pl_backendGeneration :: uint64
  pl_mappingRevision :: string
  pl_mappingSource :: string
  pl_canonicalChannelId :: string
  pl_sourceType :: string
  pl_sourceId :: string
  pl_sourceChannelId :: string
  pl_backendChannelId :: string
  pl_current :: bool
  pl_ambiguous :: bool

record planning_backend_candidate =
  bc_backendId :: string
  bc_siteId :: string
  bc_currentBackendGeneration :: uint64
  bc_state :: planning_backend_state
  bc_writeAllowed :: bool
  bc_executionAuthorityCurrent :: bool
  bc_executionAuthorityFence :: string
  bc_capability :: planning_capability_evidence
  bc_health :: planning_health_evidence
  bc_channel :: planning_channel_evidence
  bc_desiredNativeTimerSpecificationPresent :: bool
  bc_desiredNativeTimerSpecification :: native_timer_specification
  bc_conflict :: planning_conflict_state

record planning_request =
  rq_intent :: timer_intent
  rq_role :: timer_assignment_role
  rq_currentAssignments :: "timer_assignment list"
  rq_candidates :: "planning_backend_candidate list"

record planning_candidate_evaluation =
  ev_backendId :: string
  ev_eligible :: bool
  ev_preferred :: bool
  ev_preferenceRank :: nat
  ev_reasons :: "string list"
  ev_exclusions :: "string list"
  ev_warnings :: "string list"
  ev_conflictFacts :: "string list"

record planning_decision =
  pd_outcome :: planning_outcome
  pd_timerIntentId :: string
  pd_intentRevision :: string
  pd_role :: timer_assignment_role
  pd_decisionPolicyVersion :: string
  pd_selectedBackendId :: string
  pd_selectedBackendGeneration :: uint64
  pd_selectedChannelBinding :: timer_assignment_channel_binding
  pd_selectedCapabilityRevision :: string
  pd_selectedBackendHealthRevision :: string
  pd_selectedNativeTimerSpecificationPresent :: bool
  pd_selectedNativeTimerSpecification :: native_timer_specification
  pd_decisionEvidence :: timer_assignment_decision_evidence
  pd_candidates :: "planning_candidate_evaluation list"

section \<open>Helpers\<close>

abbreviation kMaxCandidates :: nat where
  "kMaxCandidates \<equiv> 32"

abbreviation kOrdinaryPreferenceRank :: nat where
  "kOrdinaryPreferenceRank \<equiv> 32"

definition preferenceRank :: "timer_intent_assignment_policy \<Rightarrow> string \<Rightarrow> nat \<times> bool" where
  "preferenceRank policy backendId =
     (if backendId \<notin> set (ap_preferredBackendIds policy) then (kOrdinaryPreferenceRank, False)
      else (length (takeWhile (\<lambda>x. x \<noteq> backendId) (ap_preferredBackendIds policy)), True))"

definition appendBounded :: "string list \<Rightarrow> string \<Rightarrow> string list" where
  "appendBounded values value =
     (if length values \<ge> kMaxEvidenceEntries \<or> value = [] \<or> length value > kMaxEvidenceTextLength
      then values else values @ [value])"

definition backendFact :: "string \<Rightarrow> string \<Rightarrow> string" where
  "backendFact backendId reason = backendId @ '':'' @ reason"

definition usableBackendState :: "planning_backend_state \<Rightarrow> bool" where
  "usableBackendState state \<longleftrightarrow> state = BackendOnline \<or> state = BackendDegraded"

definition usableHealthState :: "planning_health_state \<Rightarrow> bool" where
  "usableHealthState state \<longleftrightarrow> state = HealthHealthy \<or> state = HealthDegraded"

definition selectedTargetEmpty :: "planning_decision \<Rightarrow> bool" where
  "selectedTargetEmpty decision \<longleftrightarrow>
     pd_selectedBackendId decision = []
     \<and> pd_selectedBackendGeneration decision = 0
     \<and> cb_canonicalChannelId (pd_selectedChannelBinding decision) = []
     \<and> cb_backendChannelId (pd_selectedChannelBinding decision) = []
     \<and> cb_mappingSource (pd_selectedChannelBinding decision) = []
     \<and> cb_mappingRevision (pd_selectedChannelBinding decision) = []
     \<and> pd_selectedCapabilityRevision decision = []
     \<and> pd_selectedBackendHealthRevision decision = []
     \<and> \<not> pd_selectedNativeTimerSpecificationPresent decision"

definition candidateIdentityValid :: "planning_backend_candidate \<Rightarrow> bool" where
  "candidateIdentityValid candidate \<longleftrightarrow>
     nonEmptyBounded (bc_backendId candidate) kMaxIdentityLength
     \<and> bounded (bc_siteId candidate) kMaxIdentityLength
     \<and> bounded (bc_executionAuthorityFence candidate) kMaxIdentityLength
     \<and> bounded (pc_revision (bc_capability candidate)) kMaxIdentityLength
     \<and> bounded (ph_revision (bc_health candidate)) kMaxIdentityLength
     \<and> bounded (pl_mappingRevision (bc_channel candidate)) kMaxIdentityLength
     \<and> bounded (pl_mappingSource (bc_channel candidate)) kMaxIdentityLength
     \<and> bounded (pl_canonicalChannelId (bc_channel candidate)) kMaxIdentityLength
     \<and> bounded (pl_sourceType (bc_channel candidate)) kMaxIdentityLength
     \<and> bounded (pl_sourceId (bc_channel candidate)) kMaxIdentityLength
     \<and> bounded (pl_sourceChannelId (bc_channel candidate)) kMaxIdentityLength
     \<and> bounded (pl_backendChannelId (bc_channel candidate)) kMaxIdentityLength"

fun candidateIdsLoop :: "string set \<Rightarrow> planning_backend_candidate list \<Rightarrow> bool" where
  "candidateIdsLoop seen [] = True"
| "candidateIdsLoop seen (candidate # rest) =
     (if \<not> candidateIdentityValid candidate \<or> bc_backendId candidate \<in> seen then False
      else candidateIdsLoop (insert (bc_backendId candidate) seen) rest)"

definition requestShapeValid :: "planning_request \<Rightarrow> bool" where
  "requestShapeValid request =
     (let spec = ti_spec (rq_intent request)
      in if \<not> timerIntentValid (rq_intent request)
           \<or> \<not> timerIntentAssignable (ti_state (rq_intent request))
           \<or> length (rq_candidates request) > kMaxCandidates
           \<or> length (rq_currentAssignments request) > kMaxCandidates then False
         else if rq_role request = RoleReplica
           \<and> (rp_desiredAssignments (is_replicaPolicy spec) \<le> 1
             \<or> \<not> rp_simultaneousRecordingIntentional (is_replicaPolicy spec)) then False
         else if rq_role request = RoleReplacement
           \<and> \<not> ap_allowFailover (is_assignmentPolicy spec) then False
         else if \<not> candidateIdsLoop {} (rq_candidates request) then False
         else list_all (\<lambda>assignment. timerAssignmentValid assignment
                \<and> ta_timerIntentId assignment = ti_timerIntentId (rq_intent request))
              (rq_currentAssignments request))"

definition activeBackendIds :: "timer_assignment list \<Rightarrow> string set" where
  "activeBackendIds assignments =
     set (map ta_backendId (filter (\<lambda>a. timerAssignmentActiveOwnershipState (ta_state a)
       \<and> ta_backendId a \<noteq> []) assignments))"

fun activeSiteLoop ::
  "planning_backend_candidate list \<Rightarrow> timer_assignment list \<Rightarrow> string set \<times> bool \<Rightarrow>
     string set \<times> bool" where
  "activeSiteLoop candidates [] acc = acc"
| "activeSiteLoop candidates (a # rest) (result, complete) =
     (if \<not> timerAssignmentActiveOwnershipState (ta_state a) \<or> ta_backendId a = []
      then activeSiteLoop candidates rest (result, complete)
      else (case find (\<lambda>c. bc_backendId c = ta_backendId a) candidates of
              None \<Rightarrow> activeSiteLoop candidates rest (result, False)
            | Some c \<Rightarrow>
                if bc_siteId c = [] then activeSiteLoop candidates rest (result, False)
                else activeSiteLoop candidates rest (insert (bc_siteId c) result, complete)))"

definition activeSiteIds ::
  "timer_assignment list \<Rightarrow> planning_backend_candidate list \<Rightarrow> string set \<times> bool" where
  "activeSiteIds assignments candidates = activeSiteLoop candidates assignments ({}, True)"

definition hasActivePrimary :: "timer_assignment list \<Rightarrow> bool" where
  "hasActivePrimary assignments \<longleftrightarrow>
     list_ex (\<lambda>a. (ta_role a = RolePrimary \<or> ta_role a = RoleReplacement)
       \<and> timerAssignmentActiveOwnershipState (ta_state a)) assignments"

definition activeReplicaOwnerCount :: "timer_assignment list \<Rightarrow> nat" where
  "activeReplicaOwnerCount assignments =
     length (filter (\<lambda>a. timerAssignmentActiveOwnershipState (ta_state a)
       \<and> (ta_role a = RolePrimary \<or> ta_role a = RoleReplica \<or> ta_role a = RoleReplacement))
       assignments)"

section \<open>Names\<close>

definition timerAssignmentPlanningPolicyVersion :: string where
  "timerAssignmentPlanningPolicyVersion = ''timer-assignment-planner/1''"

fun timerAssignmentPlanningBackendStateName :: "planning_backend_state \<Rightarrow> string" where
  "timerAssignmentPlanningBackendStateName BackendOnline = ''online''"
| "timerAssignmentPlanningBackendStateName BackendDegraded = ''degraded''"
| "timerAssignmentPlanningBackendStateName BackendOffline = ''offline''"
| "timerAssignmentPlanningBackendStateName BackendStale = ''stale''"
| "timerAssignmentPlanningBackendStateName BackendIncompatible = ''incompatible''"
| "timerAssignmentPlanningBackendStateName BackendDisabled = ''disabled''"

fun timerAssignmentPlanningOutcomeName :: "planning_outcome \<Rightarrow> string" where
  "timerAssignmentPlanningOutcomeName PlanSelected = ''selected''"
| "timerAssignmentPlanningOutcomeName PlanUnassigned = ''unassigned''"
| "timerAssignmentPlanningOutcomeName PlanInvalid = ''invalid''"

section \<open>Evaluating one candidate\<close>

text \<open>
  The code runs the checks below in this order and appends one reason for each that fails; a
  check is the list of the reasons it appends, none or one.
\<close>

definition reasonIf :: "bool \<Rightarrow> string \<Rightarrow> string list" where
  "reasonIf b reason = (if b then [reason] else [])"

definition backendReasons :: "planning_request \<Rightarrow> planning_backend_candidate \<Rightarrow> string list" where
  "backendReasons request candidate =
     reasonIf (bc_backendId candidate \<in>
         set (ap_excludedBackendIds (is_assignmentPolicy (ti_spec (rq_intent request)))))
       ''excluded_by_intent''
     @ reasonIf (\<not> usableBackendState (bc_state candidate))
       (''backend_'' @ timerAssignmentPlanningBackendStateName (bc_state candidate))
     @ reasonIf (\<not> bc_writeAllowed candidate) ''backend_write_forbidden''
     @ reasonIf (\<not> bc_executionAuthorityCurrent candidate
         \<or> bc_executionAuthorityFence candidate = []) ''execution_authority_unavailable''
     @ reasonIf (bc_currentBackendGeneration candidate = 0) ''backend_generation_missing''"

definition capabilityReasons :: "planning_backend_candidate \<Rightarrow> string list" where
  "capabilityReasons candidate =
     (let c = bc_capability candidate
      in if \<not> pc_current c \<or> pc_revision c = [] then [''capability_missing_or_stale'']
         else if pc_backendGeneration c \<noteq> bc_currentBackendGeneration candidate
           then [''capability_generation_stale'']
         else if \<not> pc_timerCreate c \<or> \<not> pc_timerReadback c then [''timer_capability_missing'']
         else [])"

definition healthReasons :: "planning_backend_candidate \<Rightarrow> string list" where
  "healthReasons candidate =
     (let h = bc_health candidate
      in if \<not> ph_current h \<or> ph_revision h = [] then [''health_missing_or_stale'']
         else if ph_backendGeneration h \<noteq> bc_currentBackendGeneration candidate
           then [''health_generation_stale'']
         else if \<not> usableHealthState (ph_state h) \<or> \<not> ph_timerWritesAvailable h
           then [''timer_health_unavailable'']
         else [])"

definition healthWarnings :: "planning_backend_candidate \<Rightarrow> string list" where
  "healthWarnings candidate =
     (if healthReasons candidate = [] \<and> ph_state (bc_health candidate) = HealthDegraded
      then [''backend_health_degraded''] else [])"

definition channelReasons :: "planning_request \<Rightarrow> planning_backend_candidate \<Rightarrow> string list" where
  "channelReasons request candidate =
     (let c = bc_channel candidate;
          required = is_channelRequirement (ti_spec (rq_intent request))
      in if \<not> pl_current c \<or> pl_mappingRevision c = [] \<or> pl_mappingSource c = []
           \<or> pl_backendChannelId c = [] then [''channel_mapping_missing_or_stale'']
         else if pl_backendGeneration c \<noteq> bc_currentBackendGeneration candidate
           then [''channel_mapping_generation_stale'']
         else if pl_ambiguous c then [''channel_mapping_ambiguous'']
         else if cr_canonicalChannelId required \<noteq> []
           \<and> pl_canonicalChannelId c \<noteq> cr_canonicalChannelId required
           then [''channel_mapping_mismatch'']
         else if cr_sourceType required \<noteq> []
           \<and> (pl_sourceType c \<noteq> cr_sourceType required \<or> pl_sourceId c \<noteq> cr_sourceId required
             \<or> pl_sourceChannelId c \<noteq> cr_sourceChannelId required)
           then [''channel_source_mismatch'']
         else [])"

definition specificationReasons :: "planning_backend_candidate \<Rightarrow> string list" where
  "specificationReasons candidate =
     (if \<not> bc_desiredNativeTimerSpecificationPresent candidate
      then [''native_timer_specification_missing'']
      else if \<not> nativeTimerSpecificationValid (bc_desiredNativeTimerSpecification candidate)
      then [''native_timer_specification_invalid'']
      else if ns_channelId (bc_desiredNativeTimerSpecification candidate)
        \<noteq> pl_backendChannelId (bc_channel candidate)
      then [''native_timer_specification_channel_mismatch'']
      else [])"

fun conflictFactText :: "planning_conflict_state \<Rightarrow> string" where
  "conflictFactText ConflictConfirmedClear = ''confirmed_clear''"
| "conflictFactText ConflictConfirmed = ''confirmed_conflict''"
| "conflictFactText ConflictPartial = ''partial''"
| "conflictFactText ConflictStale = ''stale''"
| "conflictFactText ConflictUnavailable = ''unavailable''"

fun conflictReasons :: "planning_conflict_state \<Rightarrow> string list" where
  "conflictReasons ConflictConfirmedClear = []"
| "conflictReasons ConflictConfirmed = [''confirmed_timer_conflict'']"
| "conflictReasons ConflictPartial = [''conflict_evidence_partial'']"
| "conflictReasons ConflictStale = [''conflict_evidence_stale'']"
| "conflictReasons ConflictUnavailable = [''conflict_evidence_unavailable'']"

definition diversityReasons ::
  "planning_request \<Rightarrow> planning_backend_candidate \<Rightarrow> string set \<Rightarrow> string set \<Rightarrow> bool \<Rightarrow>
     string list" where
  "diversityReasons request candidate usedBackends usedSites siteEvidenceComplete =
     (let policy = is_replicaPolicy (ti_spec (rq_intent request))
      in reasonIf (rq_role request = RoleReplica \<and> rp_requireBackendDiversity policy
             \<and> bc_backendId candidate \<in> usedBackends) ''backend_diversity_required''
         @ (if rq_role request = RoleReplica \<and> rp_requireSiteDiversity policy
            then if \<not> siteEvidenceComplete \<or> bc_siteId candidate = []
                 then [''site_diversity_evidence_missing'']
                 else reasonIf (bc_siteId candidate \<in> usedSites) ''site_diversity_required''
            else [])
         @ reasonIf (rq_role request = RoleReplacement \<and> bc_backendId candidate \<in> usedBackends)
             ''replacement_requires_new_backend'')"

definition exclusionReasons ::
  "planning_request \<Rightarrow> planning_backend_candidate \<Rightarrow> string set \<Rightarrow> string set \<Rightarrow> bool \<Rightarrow>
     string list" where
  "exclusionReasons request candidate usedBackends usedSites siteEvidenceComplete =
     backendReasons request candidate @ capabilityReasons candidate @ healthReasons candidate
     @ channelReasons request candidate @ specificationReasons candidate
     @ conflictReasons (bc_conflict candidate)
     @ diversityReasons request candidate usedBackends usedSites siteEvidenceComplete"

definition evaluateCandidate ::
  "planning_request \<Rightarrow> planning_backend_candidate \<Rightarrow> string set \<Rightarrow> string set \<Rightarrow> bool \<Rightarrow>
     planning_candidate_evaluation" where
  "evaluateCandidate request candidate usedBackends usedSites siteEvidenceComplete =
     (let (rank, preferred) = preferenceRank
            (is_assignmentPolicy (ti_spec (rq_intent request))) (bc_backendId candidate);
          exclusions = foldl appendBounded []
            (exclusionReasons request candidate usedBackends usedSites siteEvidenceComplete);
          eligible = (exclusions = [])
      in \<lparr>ev_backendId = bc_backendId candidate, ev_eligible = eligible,
          ev_preferred = preferred, ev_preferenceRank = rank,
          ev_reasons = (if eligible
             then appendBounded (appendBounded [] ''eligible'')
                    (if preferred then ''preferred_backend'' else ''ordinary_backend'')
             else []),
          ev_exclusions = exclusions,
          ev_warnings = foldl appendBounded [] (healthWarnings candidate),
          ev_conflictFacts = appendBounded [] (conflictFactText (bc_conflict candidate))\<rparr>)"

section \<open>The decision\<close>

definition initialDecision :: "planning_request \<Rightarrow> planning_outcome \<Rightarrow> planning_decision" where
  "initialDecision request outcome =
     \<lparr>pd_outcome = outcome, pd_timerIntentId = ti_timerIntentId (rq_intent request),
      pd_intentRevision = ti_intentRevision (rq_intent request), pd_role = rq_role request,
      pd_decisionPolicyVersion = timerAssignmentPlanningPolicyVersion,
      pd_selectedBackendId = [], pd_selectedBackendGeneration = 0,
      pd_selectedChannelBinding = emptyChannelBinding, pd_selectedCapabilityRevision = [],
      pd_selectedBackendHealthRevision = [],
      pd_selectedNativeTimerSpecificationPresent = False,
      pd_selectedNativeTimerSpecification = emptyNativeTimerSpecification,
      pd_decisionEvidence = emptyDecisionEvidence, pd_candidates = []\<rparr>"

definition withReason :: "string \<Rightarrow> planning_decision \<Rightarrow> planning_decision" where
  "withReason reason d =
     d\<lparr>pd_decisionEvidence := (pd_decisionEvidence d)
         \<lparr>de_reasons := appendBounded (de_reasons (pd_decisionEvidence d)) reason\<rparr>\<rparr>"

definition unassignedDecision :: "planning_request \<Rightarrow> string \<Rightarrow> planning_decision" where
  "unassignedDecision request reason = withReason reason (initialDecision request PlanUnassigned)"

definition candidateKey :: "planning_request \<Rightarrow> planning_backend_candidate \<Rightarrow> nat \<times> string" where
  "candidateKey request c =
     (fst (preferenceRank (is_assignmentPolicy (ti_spec (rq_intent request))) (bc_backendId c)),
      bc_backendId c)"

definition orderedCandidates :: "planning_request \<Rightarrow> planning_backend_candidate list" where
  "orderedCandidates request = sort_key (candidateKey request) (rq_candidates request)"

definition candidateEvaluations :: "planning_request \<Rightarrow> planning_candidate_evaluation list" where
  "candidateEvaluations request =
     (let usedBackends = activeBackendIds (rq_currentAssignments request);
          (usedSites, complete) =
            activeSiteIds (rq_currentAssignments request) (rq_candidates request)
      in map (\<lambda>c. evaluateCandidate request c usedBackends usedSites complete)
           (orderedCandidates request))"

definition selectedDecision ::
  "planning_request \<Rightarrow> planning_backend_candidate \<Rightarrow> planning_candidate_evaluation \<Rightarrow>
     planning_decision \<Rightarrow> planning_decision" where
  "selectedDecision request c e d =
     d\<lparr>pd_outcome := PlanSelected,
       pd_selectedBackendId := bc_backendId c,
       pd_selectedBackendGeneration := bc_currentBackendGeneration c,
       pd_selectedChannelBinding :=
         \<lparr>cb_canonicalChannelId = pl_canonicalChannelId (bc_channel c),
          cb_backendChannelId = pl_backendChannelId (bc_channel c),
          cb_mappingSource = pl_mappingSource (bc_channel c),
          cb_mappingRevision = pl_mappingRevision (bc_channel c)\<rparr>,
       pd_selectedCapabilityRevision := pc_revision (bc_capability c),
       pd_selectedBackendHealthRevision := ph_revision (bc_health c),
       pd_selectedNativeTimerSpecificationPresent := bc_desiredNativeTimerSpecificationPresent c,
       pd_selectedNativeTimerSpecification := bc_desiredNativeTimerSpecification c,
       pd_decisionEvidence := (pd_decisionEvidence d)
         \<lparr>de_reasons := appendBounded
              (appendBounded (de_reasons (pd_decisionEvidence d)) ''selected_eligible_backend'')
              (if ev_preferred e then ''selected_preferred_backend''
               else ''selected_deterministic_backend_id''),
          de_warnings := foldl appendBounded
              (if ap_preferredBackendIds (is_assignmentPolicy (ti_spec (rq_intent request))) \<noteq> []
                 \<and> \<not> ev_preferred e
               then appendBounded (de_warnings (pd_decisionEvidence d))
                      ''preferred_backends_ineligible''
               else de_warnings (pd_decisionEvidence d))
              (ev_warnings e),
          de_conflictFacts := foldl appendBounded (de_conflictFacts (pd_decisionEvidence d))
              (map (backendFact (ev_backendId e)) (ev_conflictFacts e)),
          de_decisionScore := - int (ev_preferenceRank e)\<rparr>\<rparr>"

definition planTimerAssignment :: "planning_request \<Rightarrow> planning_decision" where
  "planTimerAssignment request =
     (let spec = ti_spec (rq_intent request)
      in if \<not> requestShapeValid request
         then withReason ''invalid_planning_input'' (initialDecision request PlanInvalid)
         else if ap_requireOperatorReview (is_assignmentPolicy spec)
         then unassignedDecision request ''operator_review_required''
         else if rq_role request = RolePrimary \<and> hasActivePrimary (rq_currentAssignments request)
         then unassignedDecision request ''active_primary_exists''
         else if rq_role request = RoleReplica
           \<and> activeReplicaOwnerCount (rq_currentAssignments request)
               \<ge> rp_desiredAssignments (is_replicaPolicy spec)
         then unassignedDecision request ''replica_target_satisfied''
         else (let ordered = orderedCandidates request;
                   evaluations = candidateEvaluations request;
                   base = initialDecision request PlanUnassigned;
                   d = base\<lparr>pd_candidates := evaluations,
                     pd_decisionEvidence := (pd_decisionEvidence base)
                       \<lparr>de_exclusions := foldl appendBounded []
                          (concat (map (\<lambda>e. map (backendFact (ev_backendId e)) (ev_exclusions e))
                            evaluations))\<rparr>\<rparr>
               in case find (\<lambda>(c, e). ev_eligible e) (zip ordered evaluations) of
                    None \<Rightarrow> withReason ''no_eligible_backend'' d
                  | Some (c, e) \<Rightarrow> selectedDecision request c e d))"

section \<open>Comparing decisions\<close>

definition sameChannelBinding ::
  "timer_assignment_channel_binding \<Rightarrow> timer_assignment_channel_binding \<Rightarrow> bool" where
  "sameChannelBinding left right \<longleftrightarrow>
     cb_canonicalChannelId left = cb_canonicalChannelId right
     \<and> cb_backendChannelId left = cb_backendChannelId right
     \<and> cb_mappingSource left = cb_mappingSource right
     \<and> cb_mappingRevision left = cb_mappingRevision right"

definition sameNativeTimerSpecification ::
  "native_timer_specification \<Rightarrow> native_timer_specification \<Rightarrow> bool" where
  "sameNativeTimerSpecification left right \<longleftrightarrow>
     ns_channelId left = ns_channelId right \<and> ns_title left = ns_title right
     \<and> ns_directory left = ns_directory right \<and> ns_day left = ns_day right
     \<and> ns_weekdays left = ns_weekdays right \<and> ns_startTime left = ns_startTime right
     \<and> ns_endTime left = ns_endTime right \<and> ns_priority left = ns_priority right
     \<and> ns_lifetime left = ns_lifetime right \<and> ns_enabled left = ns_enabled right
     \<and> ns_vps left = ns_vps right"

definition sameEvidence ::
  "timer_assignment_decision_evidence \<Rightarrow> timer_assignment_decision_evidence \<Rightarrow> bool" where
  "sameEvidence left right \<longleftrightarrow>
     de_reasons left = de_reasons right \<and> de_warnings left = de_warnings right
     \<and> de_exclusions left = de_exclusions right
     \<and> de_conflictFacts left = de_conflictFacts right
     \<and> de_decisionScore left = de_decisionScore right"

definition sameCandidateEvaluation ::
  "planning_candidate_evaluation \<Rightarrow> planning_candidate_evaluation \<Rightarrow> bool" where
  "sameCandidateEvaluation left right \<longleftrightarrow>
     ev_backendId left = ev_backendId right \<and> ev_eligible left = ev_eligible right
     \<and> ev_preferred left = ev_preferred right
     \<and> ev_preferenceRank left = ev_preferenceRank right
     \<and> ev_reasons left = ev_reasons right \<and> ev_exclusions left = ev_exclusions right
     \<and> ev_warnings left = ev_warnings right \<and> ev_conflictFacts left = ev_conflictFacts right"

definition timerAssignmentPlanningDecisionEquivalent ::
  "planning_decision \<Rightarrow> planning_decision \<Rightarrow> bool" where
  "timerAssignmentPlanningDecisionEquivalent left right =
     (if pd_outcome left \<noteq> pd_outcome right
        \<or> pd_timerIntentId left \<noteq> pd_timerIntentId right
        \<or> pd_intentRevision left \<noteq> pd_intentRevision right
        \<or> pd_role left \<noteq> pd_role right
        \<or> pd_decisionPolicyVersion left \<noteq> pd_decisionPolicyVersion right
        \<or> pd_selectedBackendId left \<noteq> pd_selectedBackendId right
        \<or> pd_selectedBackendGeneration left \<noteq> pd_selectedBackendGeneration right
        \<or> \<not> sameChannelBinding (pd_selectedChannelBinding left) (pd_selectedChannelBinding right)
        \<or> pd_selectedCapabilityRevision left \<noteq> pd_selectedCapabilityRevision right
        \<or> pd_selectedBackendHealthRevision left \<noteq> pd_selectedBackendHealthRevision right
        \<or> pd_selectedNativeTimerSpecificationPresent left
            \<noteq> pd_selectedNativeTimerSpecificationPresent right
        \<or> (pd_selectedNativeTimerSpecificationPresent left
            \<and> \<not> sameNativeTimerSpecification (pd_selectedNativeTimerSpecification left)
                (pd_selectedNativeTimerSpecification right))
        \<or> \<not> sameEvidence (pd_decisionEvidence left) (pd_decisionEvidence right)
        \<or> length (pd_candidates left) \<noteq> length (pd_candidates right) then False
      else if \<not> list_all2 sameCandidateEvaluation (pd_candidates left) (pd_candidates right) then False
      else if pd_outcome left = PlanUnassigned
        \<and> (\<not> selectedTargetEmpty left \<or> \<not> selectedTargetEmpty right) then False
      else True)"

lemma sameChannelBinding_eq [simp]: "sameChannelBinding b b' \<longleftrightarrow> b = b'"
  by (cases b; cases b'; auto simp: sameChannelBinding_def)

lemma sameNativeTimerSpecification_eq [simp]: "sameNativeTimerSpecification s s' \<longleftrightarrow> s = s'"
  by (cases s; cases s'; auto simp: sameNativeTimerSpecification_def)

lemma sameEvidence_eq [simp]: "sameEvidence e e' \<longleftrightarrow> e = e'"
  by (cases e; cases e'; auto simp: sameEvidence_def)

lemma sameCandidateEvaluation_eq [simp]: "sameCandidateEvaluation v v' \<longleftrightarrow> v = v'"
  by (cases v; cases v'; auto simp: sameCandidateEvaluation_def)

end
