(* ===== verification/PlannerCorrectness.thy ===== *)
theory PlannerCorrectness
  imports TimerAssignmentPlanner
begin

text \<open>
  What the planner guarantees: the declarative eligibility predicate and its agreement with the
  evaluation, selection of the least admissible candidate, independence of the listing order,
  storable evidence, and the ownership rules.
\<close>

section \<open>Bounded appends\<close>

definition storableText :: "string \<Rightarrow> bool" where
  "storableText v \<longleftrightarrow> v \<noteq> [] \<and> length v \<le> kMaxEvidenceTextLength"

lemma appendBounded_storable:
  "boundedEvidence vs \<Longrightarrow> boundedEvidence (appendBounded vs v)"
  by (auto simp: boundedEvidence_def appendBounded_def nonEmptyBounded_def bounded_def split: if_splits)

lemma foldl_appendBounded_storable:
  "boundedEvidence vs \<Longrightarrow> boundedEvidence (foldl appendBounded vs ws)"
  by (induction ws arbitrary: vs) (auto intro: appendBounded_storable)

lemma boundedEvidence_Nil [simp]: "boundedEvidence []"
  by (simp add: boundedEvidence_def)

lemma foldl_appendBounded_all:
  "list_all storableText ws \<Longrightarrow> length vs + length ws \<le> kMaxEvidenceEntries \<Longrightarrow>
     foldl appendBounded vs ws = vs @ ws"
  by (induction ws arbitrary: vs) (auto simp: appendBounded_def storableText_def)

section \<open>No reason is lost\<close>

lemma reasonIf_simps [simp]:
  "reasonIf b r = [] \<longleftrightarrow> \<not> b" "length (reasonIf b r) \<le> 1"
  "list_all storableText (reasonIf b r) \<longleftrightarrow> \<not> b \<or> storableText r"
  by (auto simp: reasonIf_def)

lemma backendReasons_storable:
  "list_all storableText (backendReasons r c) \<and> length (backendReasons r c) \<le> 5"
  by (cases "bc_state c") (auto simp: backendReasons_def reasonIf_def storableText_def)

lemma capabilityReasons_storable:
  "list_all storableText (capabilityReasons c) \<and> length (capabilityReasons c) \<le> 1"
  by (auto simp: capabilityReasons_def storableText_def Let_def)

lemma healthReasons_storable:
  "list_all storableText (healthReasons c) \<and> length (healthReasons c) \<le> 1"
  by (auto simp: healthReasons_def storableText_def Let_def)

lemma channelReasons_storable:
  "list_all storableText (channelReasons r c) \<and> length (channelReasons r c) \<le> 1"
  by (auto simp: channelReasons_def storableText_def Let_def)

lemma specificationReasons_storable:
  "list_all storableText (specificationReasons c) \<and> length (specificationReasons c) \<le> 1"
  by (auto simp: specificationReasons_def storableText_def)

lemma conflictReasons_storable:
  "list_all storableText (conflictReasons s) \<and> length (conflictReasons s) \<le> 1"
  by (cases s) (auto simp: storableText_def)

lemma diversityReasons_storable:
  "list_all storableText (diversityReasons r c ub us sc) \<and> length (diversityReasons r c ub us sc) \<le> 3"
  by (auto simp: diversityReasons_def reasonIf_def storableText_def Let_def)

lemmas reasons_storable = backendReasons_storable capabilityReasons_storable
  healthReasons_storable channelReasons_storable specificationReasons_storable
  conflictReasons_storable diversityReasons_storable

lemma exclusionReasons_kept:
  "foldl appendBounded [] (exclusionReasons r c ub us sc) = exclusionReasons r c ub us sc"
proof -
  have "list_all storableText (exclusionReasons r c ub us sc)"
    using reasons_storable by (simp add: exclusionReasons_def)
  moreover have "length (exclusionReasons r c ub us sc) \<le> 13"
    using backendReasons_storable [of r c] capabilityReasons_storable [of c]
      healthReasons_storable [of c] channelReasons_storable [of r c]
      specificationReasons_storable [of c] conflictReasons_storable [of "bc_conflict c"]
      diversityReasons_storable [of r c ub us sc]
    unfolding exclusionReasons_def length_append by linarith
  ultimately show ?thesis by (simp add: foldl_appendBounded_all)
qed

section \<open>Admissibility\<close>

text \<open>The backends and the sites that own part of the intent's recording already.\<close>

definition ownedBackend :: "planning_request \<Rightarrow> string \<Rightarrow> bool" where
  "ownedBackend r b \<longleftrightarrow>
     (\<exists>a \<in> set (rq_currentAssignments r).
        timerAssignmentActiveOwnershipState (ta_state a) \<and> ta_backendId a = b \<and> b \<noteq> [])"

text \<open>
  What a backend must offer to be chosen, as one predicate: nothing here depends on the order of
  the checks or on the reasons they record.
\<close>

definition evidenceCurrent :: "planning_backend_candidate \<Rightarrow> bool" where
  "evidenceCurrent c \<longleftrightarrow>
     bc_currentBackendGeneration c \<noteq> 0
     \<and> pc_current (bc_capability c) \<and> pc_revision (bc_capability c) \<noteq> []
     \<and> pc_backendGeneration (bc_capability c) = bc_currentBackendGeneration c
     \<and> ph_current (bc_health c) \<and> ph_revision (bc_health c) \<noteq> []
     \<and> ph_backendGeneration (bc_health c) = bc_currentBackendGeneration c
     \<and> pl_current (bc_channel c) \<and> pl_mappingRevision (bc_channel c) \<noteq> []
     \<and> pl_mappingSource (bc_channel c) \<noteq> [] \<and> pl_backendChannelId (bc_channel c) \<noteq> []
     \<and> pl_backendGeneration (bc_channel c) = bc_currentBackendGeneration c"

definition channelServes :: "timer_intent_channel_requirement \<Rightarrow> planning_channel_evidence \<Rightarrow> bool" where
  "channelServes req ch \<longleftrightarrow>
     \<not> pl_ambiguous ch
     \<and> (cr_canonicalChannelId req = [] \<or> pl_canonicalChannelId ch = cr_canonicalChannelId req)
     \<and> (cr_sourceType req = [] \<or> pl_sourceType ch = cr_sourceType req
        \<and> pl_sourceId ch = cr_sourceId req \<and> pl_sourceChannelId ch = cr_sourceChannelId req)"

definition roleAdmits :: "planning_request \<Rightarrow> planning_backend_candidate \<Rightarrow> bool" where
  "roleAdmits r c \<longleftrightarrow>
     (let policy = is_replicaPolicy (ti_spec (rq_intent r));
          sites = activeSiteIds (rq_currentAssignments r) (rq_candidates r)
      in case rq_role r of
           RolePrimary \<Rightarrow> True
         | RoleReplica \<Rightarrow>
             (rp_requireBackendDiversity policy \<longrightarrow> \<not> ownedBackend r (bc_backendId c))
             \<and> (rp_requireSiteDiversity policy \<longrightarrow>
                  snd sites \<and> bc_siteId c \<noteq> [] \<and> bc_siteId c \<notin> fst sites)
         | RoleReplacement \<Rightarrow> \<not> ownedBackend r (bc_backendId c))"

definition candidateAdmissible :: "planning_request \<Rightarrow> planning_backend_candidate \<Rightarrow> bool" where
  "candidateAdmissible r c \<longleftrightarrow>
     bc_backendId c \<notin> set (ap_excludedBackendIds (is_assignmentPolicy (ti_spec (rq_intent r))))
     \<and> usableBackendState (bc_state c) \<and> bc_writeAllowed c
     \<and> bc_executionAuthorityCurrent c \<and> bc_executionAuthorityFence c \<noteq> []
     \<and> evidenceCurrent c
     \<and> pc_timerCreate (bc_capability c) \<and> pc_timerReadback (bc_capability c)
     \<and> usableHealthState (ph_state (bc_health c)) \<and> ph_timerWritesAvailable (bc_health c)
     \<and> channelServes (is_channelRequirement (ti_spec (rq_intent r))) (bc_channel c)
     \<and> bc_desiredNativeTimerSpecificationPresent c
     \<and> nativeTimerSpecificationValid (bc_desiredNativeTimerSpecification c)
     \<and> ns_channelId (bc_desiredNativeTimerSpecification c) = pl_backendChannelId (bc_channel c)
     \<and> bc_conflict c = ConflictConfirmedClear
     \<and> roleAdmits r c"

lemma activeBackendIds_owned:
  "bc_backendId c \<noteq> [] \<Longrightarrow>
     bc_backendId c \<in> activeBackendIds (rq_currentAssignments r) \<longleftrightarrow> ownedBackend r (bc_backendId c)"
  by (force simp: activeBackendIds_def ownedBackend_def)

lemma conflictReasons_Nil [simp]: "conflictReasons s = [] \<longleftrightarrow> s = ConflictConfirmedClear"
  by (cases s) auto

lemma exclusionReasons_Nil_iff:
  assumes "bc_backendId c \<noteq> []"
    and "activeSiteIds (rq_currentAssignments r) (rq_candidates r) = (us, sc)"
  shows "exclusionReasons r c (activeBackendIds (rq_currentAssignments r)) us sc = []
     \<longleftrightarrow> candidateAdmissible r c"
proof -
  have b: "backendReasons r c = [] \<longleftrightarrow>
      bc_backendId c \<notin> set (ap_excludedBackendIds (is_assignmentPolicy (ti_spec (rq_intent r))))
      \<and> usableBackendState (bc_state c) \<and> bc_writeAllowed c
      \<and> bc_executionAuthorityCurrent c \<and> bc_executionAuthorityFence c \<noteq> []
      \<and> bc_currentBackendGeneration c \<noteq> 0"
    by (auto simp: backendReasons_def)
  have d: "diversityReasons r c (activeBackendIds (rq_currentAssignments r)) us sc = []
      \<longleftrightarrow> roleAdmits r c"
    by (cases "rq_role r")
      (auto simp: diversityReasons_def roleAdmits_def activeBackendIds_owned assms Let_def)
  show ?thesis
    unfolding exclusionReasons_def append_is_Nil_conv b d candidateAdmissible_def
      evidenceCurrent_def channelServes_def
    by (auto simp: capabilityReasons_def healthReasons_def channelReasons_def
        specificationReasons_def Let_def split: if_splits)
qed

lemma evaluate_eligible:
  assumes "bc_backendId c \<noteq> []"
    and "activeSiteIds (rq_currentAssignments r) (rq_candidates r) = (us, sc)"
  shows "ev_eligible (evaluateCandidate r c (activeBackendIds (rq_currentAssignments r)) us sc)
     \<longleftrightarrow> candidateAdmissible r c"
  using exclusionReasons_Nil_iff [OF assms]
  by (simp add: evaluateCandidate_def exclusionReasons_kept Let_def split: prod.splits)

section \<open>The request shape\<close>

lemma candidateIdsLoop_iff:
  "candidateIdsLoop seen cs \<longleftrightarrow>
     list_all candidateIdentityValid cs \<and> distinct (map bc_backendId cs)
     \<and> bc_backendId ` set cs \<inter> seen = {}"
  by (induction cs arbitrary: seen) auto

lemma requestShapeValid_parts:
  assumes "requestShapeValid r"
  shows "timerIntentValid (rq_intent r)" and "ti_state (rq_intent r) = IntentActive"
    and "distinct (map bc_backendId (rq_candidates r))"
    and "\<And>c. c \<in> set (rq_candidates r) \<Longrightarrow> candidateIdentityValid c"
    and "\<And>a. a \<in> set (rq_currentAssignments r) \<Longrightarrow> timerAssignmentValid a"
    and "assignmentPolicyValid (is_assignmentPolicy (ti_spec (rq_intent r)))"
proof -
  show t: "timerIntentValid (rq_intent r)" and "ti_state (rq_intent r) = IntentActive"
    and "distinct (map bc_backendId (rq_candidates r))"
    and "\<And>c. c \<in> set (rq_candidates r) \<Longrightarrow> candidateIdentityValid c"
    and "\<And>a. a \<in> set (rq_currentAssignments r) \<Longrightarrow> timerAssignmentValid a"
    using assms by (auto simp: requestShapeValid_def Let_def timerIntentAssignable_def
        candidateIdsLoop_iff list_all_iff split: if_splits)
  from t show "assignmentPolicyValid (is_assignmentPolicy (ti_spec (rq_intent r)))"
    by (simp add: timerIntentValid_def timerIntentValidSpec_parts)
qed

lemma candidate_backendId:
  "requestShapeValid r \<Longrightarrow> c \<in> set (rq_candidates r) \<Longrightarrow> bc_backendId c \<noteq> []"
  using requestShapeValid_parts(4) by (fastforce simp: candidateIdentityValid_def)

section \<open>Selection\<close>

lemma find_zip_map:
  "find (\<lambda>(c, e). P e) (zip xs (map f xs)) =
     map_option (\<lambda>c. (c, f c)) (find (\<lambda>c. P (f c)) xs)"
  by (induction xs) auto

lemma find_sorted_least:
  assumes "find P xs = Some x" "sorted (map key xs)"
  shows "x \<in> set xs \<and> P x \<and> (\<forall>y \<in> set xs. P y \<longrightarrow> key x \<le> key y)"
  using assms by (induction xs) (auto split: if_splits)

text \<open>The guards before the candidates are looked at.\<close>

definition planningProceeds :: "planning_request \<Rightarrow> bool" where
  "planningProceeds r \<longleftrightarrow>
     requestShapeValid r
     \<and> \<not> ap_requireOperatorReview (is_assignmentPolicy (ti_spec (rq_intent r)))
     \<and> (rq_role r = RolePrimary \<longrightarrow> \<not> hasActivePrimary (rq_currentAssignments r))
     \<and> (rq_role r = RoleReplica \<longrightarrow> activeReplicaOwnerCount (rq_currentAssignments r)
          < rp_desiredAssignments (is_replicaPolicy (ti_spec (rq_intent r))))"

definition firstAdmissible :: "planning_request \<Rightarrow> planning_backend_candidate option" where
  "firstAdmissible r = find (candidateAdmissible r) (orderedCandidates r)"

definition evaluationOf ::
  "planning_request \<Rightarrow> planning_backend_candidate \<Rightarrow> planning_candidate_evaluation" where
  "evaluationOf r c =
     evaluateCandidate r c (activeBackendIds (rq_currentAssignments r))
       (fst (activeSiteIds (rq_currentAssignments r) (rq_candidates r)))
       (snd (activeSiteIds (rq_currentAssignments r) (rq_candidates r)))"

lemma candidateEvaluations_eq:
  "candidateEvaluations r = map (evaluationOf r) (orderedCandidates r)"
  by (simp add: candidateEvaluations_def evaluationOf_def case_prod_unfold Let_def)

lemma set_orderedCandidates [simp]: "set (orderedCandidates r) = set (rq_candidates r)"
  by (simp add: orderedCandidates_def)

lemma find_cong_set: "(\<And>x. x \<in> set xs \<Longrightarrow> P x = Q x) \<Longrightarrow> find P xs = find Q xs"
  by (induction xs) auto

lemma evaluated_search:
  assumes "requestShapeValid r"
  shows "find (\<lambda>(c, e). ev_eligible e) (zip (orderedCandidates r) (candidateEvaluations r)) =
     map_option (\<lambda>c. (c, evaluationOf r c)) (firstAdmissible r)"
proof -
  have "find (\<lambda>c. ev_eligible (evaluationOf r c)) (orderedCandidates r) = firstAdmissible r"
    unfolding firstAdmissible_def evaluationOf_def
    using candidate_backendId [OF assms]
    by (intro find_cong_set evaluate_eligible) (auto simp: prod_eq_iff)
  then show ?thesis by (simp add: candidateEvaluations_eq find_zip_map)
qed

text \<open>The decision, with the search replaced by the declarative one.\<close>

definition evaluatedDecision :: "planning_request \<Rightarrow> planning_decision" where
  "evaluatedDecision r =
     (let base = initialDecision r PlanUnassigned
      in base\<lparr>pd_candidates := candidateEvaluations r,
           pd_decisionEvidence := (pd_decisionEvidence base)
             \<lparr>de_exclusions := foldl appendBounded []
                (concat (map (\<lambda>e. map (backendFact (ev_backendId e)) (ev_exclusions e))
                  (candidateEvaluations r)))\<rparr>\<rparr>)"

lemma plan_proceeds:
  assumes "planningProceeds r"
  shows "planTimerAssignment r =
     (case firstAdmissible r of
        None \<Rightarrow> withReason ''no_eligible_backend'' (evaluatedDecision r)
      | Some c \<Rightarrow> selectedDecision r c (evaluationOf r c) (evaluatedDecision r))"
  using assms
  by (auto simp: planTimerAssignment_def planningProceeds_def evaluated_search Let_def
      evaluatedDecision_def split: option.splits)

lemma plan_refused:
  assumes "\<not> planningProceeds r"
  shows "\<exists>reason outcome. planTimerAssignment r = withReason reason (initialDecision r outcome)
     \<and> outcome \<noteq> PlanSelected \<and> storableText reason"
proof -
  consider "\<not> requestShapeValid r"
    | "requestShapeValid r" "ap_requireOperatorReview (is_assignmentPolicy (ti_spec (rq_intent r)))"
    | "requestShapeValid r" "\<not> ap_requireOperatorReview (is_assignmentPolicy (ti_spec (rq_intent r)))"
      "rq_role r = RolePrimary" "hasActivePrimary (rq_currentAssignments r)"
    | "requestShapeValid r" "\<not> ap_requireOperatorReview (is_assignmentPolicy (ti_spec (rq_intent r)))"
      "rq_role r = RoleReplica" "activeReplicaOwnerCount (rq_currentAssignments r)
          \<ge> rp_desiredAssignments (is_replicaPolicy (ti_spec (rq_intent r)))"
    using assms by (auto simp: planningProceeds_def not_less)
  then show ?thesis
    by cases (auto simp: planTimerAssignment_def unassignedDecision_def Let_def storableText_def
        intro!: exI)
qed

lemma plan_selected_proceeds:
  assumes "pd_outcome (planTimerAssignment r) = PlanSelected"
  obtains c where "planningProceeds r" "firstAdmissible r = Some c"
    "planTimerAssignment r = selectedDecision r c (evaluationOf r c) (evaluatedDecision r)"
proof (cases "planningProceeds r")
  case False
  from plan_refused [OF this] assms show ?thesis
    by (auto simp: withReason_def initialDecision_def)
next
  case True
  then show ?thesis using assms that
    by (cases "firstAdmissible r")
      (auto simp: plan_proceeds withReason_def evaluatedDecision_def initialDecision_def Let_def)
qed

lemma firstAdmissible_least:
  assumes "firstAdmissible r = Some c"
  shows "c \<in> set (rq_candidates r) \<and> candidateAdmissible r c
     \<and> (\<forall>c' \<in> set (rq_candidates r). candidateAdmissible r c' \<longrightarrow> candidateKey r c \<le> candidateKey r c')"
  using find_sorted_least [OF assms [unfolded firstAdmissible_def], of "candidateKey r"]
  by (simp add: orderedCandidates_def)

lemma firstAdmissible_None:
  "firstAdmissible r = None \<longleftrightarrow> (\<forall>c \<in> set (rq_candidates r). \<not> candidateAdmissible r c)"
  by (simp add: firstAdmissible_def find_None_all)

section \<open>Order of the candidates\<close>

lemma find_key_unique:
  "distinct (map key xs) \<Longrightarrow> x \<in> set xs \<Longrightarrow> find (\<lambda>y. key y = key x) xs = Some x"
  by (induction xs) (auto simp: rev_image_eqI)

lemma find_key_mset:
  assumes "distinct (map key xs)" "mset xs = mset ys"
  shows "find (\<lambda>y. key y = k) xs = find (\<lambda>y. key y = k) ys"
proof (cases "\<exists>x \<in> set xs. key x = k")
  case True
  then obtain x where x: "x \<in> set xs" "key x = k" by blast
  have "distinct (map key ys)"
    using assms by (metis mset_eq_imp_distinct_iff mset_map)
  with x assms show ?thesis
    using find_key_unique [of key xs x] find_key_unique [of key ys x] mset_eq_setD [OF assms(2)]
    by simp
next
  case False
  then have "find (\<lambda>y. key y = k) xs = None" "find (\<lambda>y. key y = k) ys = None"
    using mset_eq_setD [OF assms(2)] by (simp_all add: find_None_all)
  then show ?thesis by simp
qed

lemma activeSiteLoop_cong:
  "(\<And>b. find (\<lambda>c. bc_backendId c = b) cs = find (\<lambda>c. bc_backendId c = b) cs') \<Longrightarrow>
     activeSiteLoop cs as acc = activeSiteLoop cs' as acc"
  by (induction cs as acc rule: activeSiteLoop.induct) (auto split: option.splits)

lemma candidateKey_inj: "distinct (map bc_backendId cs) \<Longrightarrow> inj_on (candidateKey r) (set cs)"
  by (auto simp: inj_on_def candidateKey_def dest: distinct_key_unique)

lemma requestShapeValid_mset:
  assumes "mset cs = mset (rq_candidates r)"
  shows "requestShapeValid (r\<lparr>rq_candidates := cs\<rparr>) = requestShapeValid r"
proof -
  have "length cs = length (rq_candidates r)" "set cs = set (rq_candidates r)"
    "distinct (map bc_backendId cs) = distinct (map bc_backendId (rq_candidates r))"
    using assms by (metis size_mset, metis mset_eq_setD, metis mset_eq_imp_distinct_iff mset_map)
  moreover from this have "candidateIdsLoop {} cs = candidateIdsLoop {} (rq_candidates r)"
    by (simp add: candidateIdsLoop_iff list_all_iff)
  ultimately show ?thesis by (simp add: requestShapeValid_def)
qed

lemma orderedCandidates_mset:
  assumes "mset cs = mset (rq_candidates r)" "distinct (map bc_backendId (rq_candidates r))"
  shows "orderedCandidates (r\<lparr>rq_candidates := cs\<rparr>) = orderedCandidates r"
proof -
  have "distinct (map bc_backendId cs)"
    using assms by (metis mset_eq_imp_distinct_iff mset_map)
  then have inj: "inj_on (candidateKey r) (set cs)" by (rule candidateKey_inj)
  have "sort_key (candidateKey r) cs = sort_key (candidateKey r) (rq_candidates r)"
    using assms(1) inj by (intro sort_key_inj_key_eq) simp_all
  then show ?thesis by (simp add: orderedCandidates_def candidateKey_def [abs_def])
qed

lemma candidateEvaluations_mset:
  assumes "mset cs = mset (rq_candidates r)" "distinct (map bc_backendId (rq_candidates r))"
  shows "candidateEvaluations (r\<lparr>rq_candidates := cs\<rparr>) = candidateEvaluations r"
proof -
  have "activeSiteIds (rq_currentAssignments r) cs
      = activeSiteIds (rq_currentAssignments r) (rq_candidates r)"
    unfolding activeSiteIds_def
    by (rule activeSiteLoop_cong) (metis assms find_key_mset)
  moreover have "evaluateCandidate (r\<lparr>rq_candidates := cs\<rparr>) c = evaluateCandidate r c" for c
    by (rule ext)+ (simp add: evaluateCandidate_def exclusionReasons_def backendReasons_def
        channelReasons_def diversityReasons_def)
  ultimately show ?thesis
    by (simp add: candidateEvaluations_def orderedCandidates_mset [OF assms])
qed

lemma plan_mset:
  assumes "mset cs = mset (rq_candidates r)"
  shows "planTimerAssignment (r\<lparr>rq_candidates := cs\<rparr>) = planTimerAssignment r"
proof -
  have init: "initialDecision (r\<lparr>rq_candidates := cs\<rparr>) out = initialDecision r out" for out
    by (simp add: initialDecision_def)
  have sel: "selectedDecision (r\<lparr>rq_candidates := cs\<rparr>) = selectedDecision r"
    by (rule ext)+ (simp add: selectedDecision_def)
  show ?thesis
  proof (cases "requestShapeValid r")
    case False
    then show ?thesis
      by (simp add: planTimerAssignment_def requestShapeValid_mset [OF assms] init)
  next
    case True
    have d: "distinct (map bc_backendId (rq_candidates r))"
      using requestShapeValid_parts(3) [OF True] .
    show ?thesis
      by (simp add: planTimerAssignment_def requestShapeValid_mset [OF assms] init True
          orderedCandidates_mset [OF assms d] candidateEvaluations_mset [OF assms d]
          unassignedDecision_def sel Let_def split: option.split)
  qed
qed

section \<open>Evidence\<close>

lemma appendBounded_Nil [simp]:
  "storableText v \<Longrightarrow> appendBounded [] v = [v]"
  by (simp add: appendBounded_def storableText_def)

lemma boundedEvidence_single [simp]: "boundedEvidence [v] \<longleftrightarrow> storableText v"
  by (simp add: boundedEvidence_def storableText_def nonEmptyBounded_def bounded_def)

lemma evaluationOf_rank:
  "ev_preferenceRank (evaluationOf r c) = fst (candidateKey r c)"
  by (simp add: evaluationOf_def evaluateCandidate_def candidateKey_def Let_def split: prod.splits)

lemma preferenceRank_le:
  assumes "assignmentPolicyValid p"
  shows "fst (preferenceRank p b) \<le> 32 \<and> (snd (preferenceRank p b) \<longleftrightarrow> fst (preferenceRank p b) < 32)"
proof -
  have len: "length (ap_preferredBackendIds p) \<le> 32"
    using assms by (simp add: assignmentPolicyValid_iff uniqueBoundedIds_iff)
  have "length (takeWhile (\<lambda>x. x \<noteq> b) (ap_preferredBackendIds p)) < length (ap_preferredBackendIds p)"
    if "b \<in> set (ap_preferredBackendIds p)"
    using that by (metis (full_types) length_takeWhile_le linorder_le_less_linear
        order_le_imp_less_or_eq takeWhile_eq_all_conv takeWhile_eq_take take_all)
  with len show ?thesis
    by (auto simp: preferenceRank_def)
qed

lemma plan_evidence_valid: "decisionEvidenceValid (pd_decisionEvidence (planTimerAssignment r))"
proof (cases "planningProceeds r")
  case False
  then obtain reason out where p: "planTimerAssignment r = withReason reason (initialDecision r out)"
    and "storableText reason"
    using plan_refused by blast
  then show ?thesis
    by (simp add: withReason_def initialDecision_def emptyDecisionEvidence_def
        decisionEvidenceValid_def boundedEvidence_def nonEmptyBounded_def bounded_def
        storableText_def)
next
  case True
  note pol = requestShapeValid_parts(6) [of r]
  show ?thesis
  proof (cases "firstAdmissible r")
    case None
    with True show ?thesis
      by (simp add: plan_proceeds withReason_def evaluatedDecision_def initialDecision_def Let_def
          emptyDecisionEvidence_def decisionEvidenceValid_def foldl_appendBounded_storable
          storableText_def)
  next
    case (Some c)
    have "fst (candidateKey r c) \<le> 32"
      using preferenceRank_le pol True by (simp add: candidateKey_def planningProceeds_def)
    moreover have "appendBounded vs v \<noteq> []" if "storableText v" for vs v
      using that by (auto simp: appendBounded_def storableText_def)
    ultimately show ?thesis using True Some
      by (simp add: plan_proceeds selectedDecision_def evaluatedDecision_def initialDecision_def
          Let_def emptyDecisionEvidence_def decisionEvidenceValid_def foldl_appendBounded_storable
          appendBounded_storable evaluationOf_rank storableText_def)
  qed
qed

section \<open>Comparing two decisions\<close>

text \<open>A decision that selects nothing carries no target at all.\<close>

lemma plan_target:
  "pd_outcome (planTimerAssignment r) \<noteq> PlanSelected \<Longrightarrow>
     selectedTargetEmpty (planTimerAssignment r)
     \<and> pd_selectedNativeTimerSpecification (planTimerAssignment r) = emptyNativeTimerSpecification"
proof (cases "planningProceeds r")
  case False
  then show ?thesis using plan_refused [of r]
    by (auto simp: withReason_def initialDecision_def selectedTargetEmpty_def
        emptyChannelBinding_def)
next
  case True
  moreover assume "pd_outcome (planTimerAssignment r) \<noteq> PlanSelected"
  ultimately show ?thesis
    by (cases "firstAdmissible r")
      (auto simp: plan_proceeds withReason_def evaluatedDecision_def initialDecision_def Let_def
        selectedTargetEmpty_def emptyChannelBinding_def selectedDecision_def)
qed

lemma plan_selected_specification:
  "pd_outcome (planTimerAssignment r) = PlanSelected \<Longrightarrow>
     pd_selectedNativeTimerSpecificationPresent (planTimerAssignment r)"
  by (erule plan_selected_proceeds)
    (auto simp: selectedDecision_def candidateAdmissible_def dest: firstAdmissible_least)

lemma same_evaluations_eq:
  "list_all2 sameCandidateEvaluation xs ys \<longleftrightarrow> xs = ys"
proof -
  have "sameCandidateEvaluation = (=)" by (intro ext) simp
  then show ?thesis by (simp add: list.rel_eq)
qed

lemma equivalent_specification:
  assumes "timerAssignmentPlanningDecisionEquivalent (planTimerAssignment r) (planTimerAssignment r')"
  shows "pd_selectedNativeTimerSpecification (planTimerAssignment r)
     = pd_selectedNativeTimerSpecification (planTimerAssignment r')"
proof (cases "pd_outcome (planTimerAssignment r) = PlanSelected")
  case True
  with plan_selected_specification [OF True] assms show ?thesis
    by (auto simp: timerAssignmentPlanningDecisionEquivalent_def split: if_splits)
next
  case False
  moreover from False assms have "pd_outcome (planTimerAssignment r') \<noteq> PlanSelected"
    by (auto simp: timerAssignmentPlanningDecisionEquivalent_def split: if_splits)
  ultimately show ?thesis by (simp add: plan_target)
qed

lemma equivalent_iff_equal:
  "timerAssignmentPlanningDecisionEquivalent (planTimerAssignment r) (planTimerAssignment r')
     \<longleftrightarrow> planTimerAssignment r = planTimerAssignment r'"
proof
  assume eq: "timerAssignmentPlanningDecisionEquivalent (planTimerAssignment r) (planTimerAssignment r')"
  from equivalent_specification [OF eq] eq
  show "planTimerAssignment r = planTimerAssignment r'"
    by (intro planning_decision.equality)
      (auto simp: timerAssignmentPlanningDecisionEquivalent_def same_evaluations_eq split: if_splits)
next
  assume eq: "planTimerAssignment r = planTimerAssignment r'"
  have "selectedTargetEmpty (planTimerAssignment r')"
    if "pd_outcome (planTimerAssignment r') = PlanUnassigned"
    using that plan_target [of r'] by simp
  then show "timerAssignmentPlanningDecisionEquivalent (planTimerAssignment r) (planTimerAssignment r')"
    unfolding eq by (simp add: timerAssignmentPlanningDecisionEquivalent_def same_evaluations_eq)
qed

section \<open>Preference and ownership\<close>

lemma ev_preferred_evaluationOf:
  "ev_preferred (evaluationOf r c) \<longleftrightarrow>
     bc_backendId c \<in> set (ap_preferredBackendIds (is_assignmentPolicy (ti_spec (rq_intent r))))"
  by (simp add: evaluationOf_def evaluateCandidate_def preferenceRank_def Let_def)

lemma preferred_key:
  assumes "planningProceeds r"
  shows "bc_backendId c \<in> set (ap_preferredBackendIds (is_assignmentPolicy (ti_spec (rq_intent r))))
     \<longleftrightarrow> fst (candidateKey r c) < 32"
proof -
  have "assignmentPolicyValid (is_assignmentPolicy (ti_spec (rq_intent r)))"
    using assms by (simp add: planningProceeds_def requestShapeValid_parts)
  from preferenceRank_le [OF this, of "bc_backendId c"] show ?thesis
    by (auto simp: candidateKey_def preferenceRank_def split: if_splits)
qed

section \<open>A sample request\<close>

definition sampleSpec :: timer_intent_spec where
  "sampleSpec =
     \<lparr>is_intentType = ProgrammeEvent, is_ownerActorId = ''alice'',
      is_automationSource = \<lparr>as_sourceType = [], as_sourceId = [], as_occurrenceId = []\<rparr>,
      is_programEventId = ''event-7'',
      is_backendEventRef = \<lparr>be_backendId = [], be_channelId = [], be_eventId = [], be_sourceId = []\<rparr>,
      is_channelRequirement = \<lparr>cr_canonicalChannelId = ''one'', cr_sourceType = [],
        cr_sourceId = [], cr_sourceChannelId = []\<rparr>,
      is_schedule = \<lparr>sc_startAt = 1000, sc_stopAt = 4600, sc_timezone = ''UTC'',
        sc_recurrenceRule = []\<rparr>,
      is_recordingOptions = \<lparr>ro_startMarginSeconds = 0, ro_stopMarginSeconds = 0,
        ro_priority = 50, ro_lifetimeDays = 99, ro_vpsPreferred = False, ro_directoryPolicy = [],
        ro_namingPolicy = [], ro_retentionPolicyReference = []\<rparr>,
      is_assignmentPolicy = \<lparr>ap_allowFailover = True, ap_requireOperatorReview = False,
        ap_preferredBackendIds = [''b2''], ap_excludedBackendIds = [''b9'']\<rparr>,
      is_replicaPolicy = \<lparr>rp_desiredAssignments = 1, rp_requireBackendDiversity = False,
        rp_requireSiteDiversity = False, rp_simultaneousRecordingIntentional = False,
        rp_storagePolicyReference = [], rp_retentionPolicyReference = [], rp_rationale = []\<rparr>,
      is_duplicatePolicy = \<lparr>dp_preventEquivalentIntent = True,
        dp_requireOperatorReviewOnAmbiguity = True\<rparr>\<rparr>"

definition sampleIntent :: timer_intent where
  "sampleIntent =
     \<lparr>ti_timerIntentId = ''intent-1'', ti_intentRevision = ''2'', ti_state = IntentActive,
      ti_createdByActorId = ''alice'', ti_spec = sampleSpec, ti_createdAt = 10,
      ti_updatedAt = 20, ti_expiresAt = 0\<rparr>"

definition sampleNativeSpec :: native_timer_specification where
  "sampleNativeSpec =
     \<lparr>ns_channelId = ''C-1'', ns_title = ''News'', ns_directory = [], ns_day = ''2026-01-01'',
      ns_weekdays = ''-------'', ns_startTime = ''930'', ns_endTime = ''1030'', ns_priority = 50,
      ns_lifetime = 99, ns_enabled = True, ns_vps = False\<rparr>"

definition sampleCandidate :: "string \<Rightarrow> planning_backend_candidate" where
  "sampleCandidate b =
     \<lparr>bc_backendId = b, bc_siteId = ''site-'' @ b, bc_currentBackendGeneration = 3,
      bc_state = BackendOnline, bc_writeAllowed = True, bc_executionAuthorityCurrent = True,
      bc_executionAuthorityFence = ''fence'',
      bc_capability = \<lparr>pc_backendGeneration = 3, pc_revision = ''c1'', pc_current = True,
        pc_timerCreate = True, pc_timerReadback = True\<rparr>,
      bc_health = \<lparr>ph_backendGeneration = 3, ph_revision = ''h1'', ph_current = True,
        ph_state = HealthHealthy, ph_timerWritesAvailable = True\<rparr>,
      bc_channel = \<lparr>pl_backendGeneration = 3, pl_mappingRevision = ''m1'',
        pl_mappingSource = ''map'', pl_canonicalChannelId = ''one'', pl_sourceType = [],
        pl_sourceId = [], pl_sourceChannelId = [], pl_backendChannelId = ''C-1'',
        pl_current = True, pl_ambiguous = False\<rparr>,
      bc_desiredNativeTimerSpecificationPresent = True,
      bc_desiredNativeTimerSpecification = sampleNativeSpec,
      bc_conflict = ConflictConfirmedClear\<rparr>"

definition sampleRequest :: planning_request where
  "sampleRequest =
     \<lparr>rq_intent = sampleIntent, rq_role = RolePrimary, rq_currentAssignments = [],
      rq_candidates = [sampleCandidate ''b1'', sampleCandidate ''b2'']\<rparr>"

lemma sample_proceeds: "planningProceeds sampleRequest"
  by code_simp

lemma sample_selected: "pd_outcome (planTimerAssignment sampleRequest) = PlanSelected"
  by code_simp

lemma sample_backend: "pd_selectedBackendId (planTimerAssignment sampleRequest) = ''b2''"
  by code_simp

section \<open>Properties\<close>

text \<open>C23: A backend is selected exactly when the request passes the planner's guards and some
  listed candidate is admissible; in particular the bounded reason lists never hide a failed
  check.\<close>

theorem planner_selects_iff_admissible:
  "pd_outcome (planTimerAssignment r) = PlanSelected \<longleftrightarrow>
     planningProceeds r \<and> (\<exists>c \<in> set (rq_candidates r). candidateAdmissible r c)"
proof
  assume "pd_outcome (planTimerAssignment r) = PlanSelected"
  then obtain c where "planningProceeds r" "firstAdmissible r = Some c"
    by (rule plan_selected_proceeds)
  then show "planningProceeds r \<and> (\<exists>c \<in> set (rq_candidates r). candidateAdmissible r c)"
    using firstAdmissible_least by blast
next
  assume "planningProceeds r \<and> (\<exists>c \<in> set (rq_candidates r). candidateAdmissible r c)"
  then obtain c where "planningProceeds r" "firstAdmissible r = Some c"
    using firstAdmissible_None by fastforce
  then show "pd_outcome (planTimerAssignment r) = PlanSelected"
    by (simp add: plan_proceeds selectedDecision_def)
qed

text \<open>C24: The selected target is one listed candidate: it is admissible, and no admissible candidate
  precedes it in the order of explicit preference and then backend identifier. Every field of the
  decision that names the target is that candidate's: backend and generation, the four columns of the
  channel binding, the revisions of capability and health, the specification and whether it is there.\<close>

theorem planner_selects_least_admissible:
  assumes "pd_outcome (planTimerAssignment r) = PlanSelected"
  shows "\<exists>c \<in> set (rq_candidates r).
     candidateAdmissible r c
     \<and> (\<forall>c' \<in> set (rq_candidates r). candidateAdmissible r c' \<longrightarrow> candidateKey r c \<le> candidateKey r c')
     \<and> pd_selectedBackendId (planTimerAssignment r) = bc_backendId c
     \<and> pd_selectedBackendGeneration (planTimerAssignment r) = bc_currentBackendGeneration c
     \<and> cb_backendChannelId (pd_selectedChannelBinding (planTimerAssignment r))
         = ns_channelId (bc_desiredNativeTimerSpecification c)
     \<and> pd_selectedChannelBinding (planTimerAssignment r) =
         \<lparr>cb_canonicalChannelId = pl_canonicalChannelId (bc_channel c),
          cb_backendChannelId = pl_backendChannelId (bc_channel c),
          cb_mappingSource = pl_mappingSource (bc_channel c),
          cb_mappingRevision = pl_mappingRevision (bc_channel c)\<rparr>
     \<and> pd_selectedCapabilityRevision (planTimerAssignment r) = pc_revision (bc_capability c)
     \<and> pd_selectedBackendHealthRevision (planTimerAssignment r) = ph_revision (bc_health c)
     \<and> pd_selectedNativeTimerSpecificationPresent (planTimerAssignment r)
         = bc_desiredNativeTimerSpecificationPresent c
     \<and> pd_selectedNativeTimerSpecification (planTimerAssignment r)
         = bc_desiredNativeTimerSpecification c"
proof -
  from assms obtain c where c: "firstAdmissible r = Some c"
    and p: "planTimerAssignment r = selectedDecision r c (evaluationOf r c) (evaluatedDecision r)"
    by (rule plan_selected_proceeds)
  from firstAdmissible_least [OF c] p show ?thesis
    by (intro bexI [of _ c]) (auto simp: selectedDecision_def candidateAdmissible_def)
qed

theorem planner_selects_least_admissible_witness:
  "\<exists>c \<in> set (rq_candidates sampleRequest).
     candidateAdmissible sampleRequest c
     \<and> pd_selectedBackendId (planTimerAssignment sampleRequest) = bc_backendId c"
  using planner_selects_least_admissible [OF sample_selected] by blast

text \<open>C31: The decision does not depend on the order in which the candidates are listed: every
  permutation of them gives the same decision, candidate evaluations and evidence included.\<close>

theorem planner_order_independent:
  assumes "mset cs = mset (rq_candidates r)"
  shows "planTimerAssignment (r\<lparr>rq_candidates := cs\<rparr>) = planTimerAssignment r"
  using assms by (rule plan_mset)

theorem planner_order_independent_witness:
  "planTimerAssignment (sampleRequest
      \<lparr>rq_candidates := [sampleCandidate ''b2'', sampleCandidate ''b1'']\<rparr>)
    = planTimerAssignment sampleRequest"
  by (rule planner_order_independent) (simp add: sampleRequest_def add_mset_commute)

text \<open>Whatever the request, the decision's evidence is one an assignment may store: at least
  one reason, at most 32 bounded entries per list, and a score within the permitted range.\<close>

theorem planner_evidence_storable:
  "decisionEvidenceValid (pd_decisionEvidence (planTimerAssignment r))"
  by (rule plan_evidence_valid)

text \<open>Two planner decisions are equivalent for the replay check exactly when they are equal,
  although the check ignores the specification of a decision that selects nothing.\<close>

theorem planner_equivalence_is_equality:
  "timerAssignmentPlanningDecisionEquivalent (planTimerAssignment r) (planTimerAssignment r')
     \<longleftrightarrow> planTimerAssignment r = planTimerAssignment r'"
  by (rule equivalent_iff_equal)

text \<open>The assignments of the intent that own its recording.\<close>

definition activeOwners :: "planning_request \<Rightarrow> timer_assignment list" where
  "activeOwners r =
     filter (\<lambda>a. timerAssignmentActiveOwnershipState (ta_state a)) (rq_currentAssignments r)"

lemma hasActivePrimary_iff:
  "hasActivePrimary (rq_currentAssignments r) \<longleftrightarrow>
     (\<exists>a \<in> set (activeOwners r). ta_role a = RolePrimary \<or> ta_role a = RoleReplacement)"
  by (auto simp: hasActivePrimary_def activeOwners_def list_ex_iff)

lemma activeReplicaOwnerCount_iff:
  "activeReplicaOwnerCount (rq_currentAssignments r) = length (activeOwners r)"
proof -
  have "(x = RolePrimary \<or> x = RoleReplica \<or> x = RoleReplacement) \<longleftrightarrow> True" for x
    by (cases x) simp_all
  then show ?thesis unfolding activeReplicaOwnerCount_def activeOwners_def by simp
qed

text \<open>C25: Selection keeps ownership exclusive, role by role: a primary is selected only when no primary
  or replacement is active, a replica only while fewer owners than the intent wants are active, a
  replacement only on a backend that owns no active assignment of the intent. The wanted number is
  compared for replicas only: it does not bound the selection of a primary.\<close>

theorem planner_ownership:
  assumes "pd_outcome (planTimerAssignment r) = PlanSelected"
  shows "(rq_role r = RolePrimary \<longrightarrow>
          set (activeOwners r) \<inter> {a. ta_role a = RolePrimary \<or> ta_role a = RoleReplacement} = {})
     \<and> (rq_role r = RoleReplica \<longrightarrow>
          length (activeOwners r) < rp_desiredAssignments (is_replicaPolicy (ti_spec (rq_intent r))))
     \<and> (rq_role r = RoleReplacement \<longrightarrow>
          \<not> ownedBackend r (pd_selectedBackendId (planTimerAssignment r)))"
proof -
  from assms obtain c where "planningProceeds r" "firstAdmissible r = Some c"
    and p: "planTimerAssignment r = selectedDecision r c (evaluationOf r c) (evaluatedDecision r)"
    by (rule plan_selected_proceeds)
  then have "(rq_role r = RolePrimary \<longrightarrow> \<not> hasActivePrimary (rq_currentAssignments r))
     \<and> (rq_role r = RoleReplica \<longrightarrow> activeReplicaOwnerCount (rq_currentAssignments r)
            < rp_desiredAssignments (is_replicaPolicy (ti_spec (rq_intent r))))
     \<and> (rq_role r = RoleReplacement \<longrightarrow>
          \<not> ownedBackend r (pd_selectedBackendId (planTimerAssignment r)))"
    using firstAdmissible_least [of r c]
    by (auto simp: planningProceeds_def selectedDecision_def candidateAdmissible_def
        roleAdmits_def Let_def)
  then show ?thesis
    by (auto simp: hasActivePrimary_iff activeReplicaOwnerCount_iff)
qed

theorem planner_ownership_witness:
  "rq_role sampleRequest = RolePrimary
     \<and> set (activeOwners sampleRequest)
        \<inter> {a. ta_role a = RolePrimary \<or> ta_role a = RoleReplacement} = {}"
  using planner_ownership [OF sample_selected] by (simp add: sampleRequest_def)

text \<open>The intent's preference is honoured: a backend outside the preferred list is selected
  only when no preferred backend among the candidates is admissible.\<close>

theorem planner_prefers:
  assumes "pd_outcome (planTimerAssignment r) = PlanSelected"
    and "pd_selectedBackendId (planTimerAssignment r)
       \<notin> set (ap_preferredBackendIds (is_assignmentPolicy (ti_spec (rq_intent r))))"
    and "c' \<in> set (rq_candidates r)" and "candidateAdmissible r c'"
  shows "bc_backendId c' \<notin> set (ap_preferredBackendIds (is_assignmentPolicy (ti_spec (rq_intent r))))"
proof -
  from assms(1) obtain c where r: "planningProceeds r" and c: "firstAdmissible r = Some c"
    and p: "planTimerAssignment r = selectedDecision r c (evaluationOf r c) (evaluatedDecision r)"
    by (rule plan_selected_proceeds)
  have "\<not> fst (candidateKey r c) < 32"
    using assms(2) preferred_key [OF r, of c] p by (simp add: selectedDecision_def)
  moreover have "candidateKey r c \<le> candidateKey r c'"
    using firstAdmissible_least [OF c] assms(3,4) by blast
  ultimately have "\<not> fst (candidateKey r c') < 32"
    by (auto simp: less_eq_prod_def)
  then show ?thesis using preferred_key [OF r, of c'] by simp
qed

definition sampleRequestOrdinary :: planning_request where
  "sampleRequestOrdinary = sampleRequest
     \<lparr>rq_candidates := [sampleCandidate ''b1'', (sampleCandidate ''b2'')\<lparr>bc_writeAllowed := False\<rparr>]\<rparr>"

lemma sampleOrdinary:
  "pd_outcome (planTimerAssignment sampleRequestOrdinary) = PlanSelected"
  "pd_selectedBackendId (planTimerAssignment sampleRequestOrdinary) = ''b1''"
  "candidateAdmissible sampleRequestOrdinary (sampleCandidate ''b1'')"
  by code_simp+

theorem planner_prefers_witness:
  "bc_backendId (sampleCandidate ''b1'')
     \<notin> set (ap_preferredBackendIds (is_assignmentPolicy (ti_spec (rq_intent sampleRequestOrdinary))))"
proof (rule planner_prefers)
  show "pd_outcome (planTimerAssignment sampleRequestOrdinary) = PlanSelected"
    by (rule sampleOrdinary)
  show "pd_selectedBackendId (planTimerAssignment sampleRequestOrdinary)
      \<notin> set (ap_preferredBackendIds (is_assignmentPolicy (ti_spec (rq_intent sampleRequestOrdinary))))"
    unfolding sampleOrdinary by code_simp
  show "sampleCandidate ''b1'' \<in> set (rq_candidates sampleRequestOrdinary)"
    by (simp add: sampleRequestOrdinary_def)
  show "candidateAdmissible sampleRequestOrdinary (sampleCandidate ''b1'')"
    by (rule sampleOrdinary)
qed

end
