(* ===== verification/MutationOperation.thy ===== *)
theory MutationOperation
  imports Lifecycle
begin

text \<open>
  The mutation operation, the one durable record of a change a client asked for
  (\<open>core/operations/include/MutationOperation.h\<close>, \<open>src/MutationOperation.cpp\<close>,
  \<open>src/MutationOperationIdentity.cpp\<close>): data, stored names and their readers, the shared
  lifecycle, the validators, and the shape of generated identifiers. Lemmas: names and readers are
  inverse, the lifecycle keeps the contract of \<open>Lifecycle\<close>, and the revision tokens accepted
  are the numerals of positive signed 64-bit numbers.
\<close>

section \<open>Data\<close>

datatype mutation_operation_state =
  OpAccepted | OpRejected | OpConflict | OpQueued | OpDispatching | OpExecutedUnverified
| OpSucceeded | OpFailedBeforeDispatch | OpFailedVerified | OpOutcomeUnknown | OpCancelled

datatype mutation_operation_verification_policy =
  VerifyNone | VerifyReadbackRequired | VerifyEventConfirmation | VerifyReconciliationRequired

record mutation_operation =
  mo_operationId :: string
  mo_idempotencyKey :: string
  mo_actorId :: string
  mo_backendId :: string
  mo_backendGeneration :: uint64
  mo_resourceType :: string
  mo_resourceId :: string
  mo_expectedRevision :: string
  mo_expectedResourceFingerprint :: string
  mo_actionFamily :: string
  mo_requestFingerprint :: string
  mo_requestedAt :: int
  mo_deadline :: int
  mo_verificationPolicy :: mutation_operation_verification_policy
  mo_state :: mutation_operation_state
  mo_resultReference :: string
  mo_updatedAt :: int
  mo_operationRevision :: string

section \<open>Names\<close>

fun mutationOperationStateName :: "mutation_operation_state \<Rightarrow> string" where
  "mutationOperationStateName OpAccepted = ''accepted''"
| "mutationOperationStateName OpRejected = ''rejected''"
| "mutationOperationStateName OpConflict = ''conflict''"
| "mutationOperationStateName OpQueued = ''queued''"
| "mutationOperationStateName OpDispatching = ''dispatching''"
| "mutationOperationStateName OpExecutedUnverified = ''executed_unverified''"
| "mutationOperationStateName OpSucceeded = ''succeeded''"
| "mutationOperationStateName OpFailedBeforeDispatch = ''failed_before_dispatch''"
| "mutationOperationStateName OpFailedVerified = ''failed_verified''"
| "mutationOperationStateName OpOutcomeUnknown = ''outcome_unknown''"
| "mutationOperationStateName OpCancelled = ''cancelled''"

definition mutationOperationStateFromName :: "string \<Rightarrow> mutation_operation_state option" where
  "mutationOperationStateFromName value =
     (if value = ''accepted'' then Some OpAccepted
      else if value = ''rejected'' then Some OpRejected
      else if value = ''conflict'' then Some OpConflict
      else if value = ''queued'' then Some OpQueued
      else if value = ''dispatching'' then Some OpDispatching
      else if value = ''executed_unverified'' then Some OpExecutedUnverified
      else if value = ''succeeded'' then Some OpSucceeded
      else if value = ''failed_before_dispatch'' then Some OpFailedBeforeDispatch
      else if value = ''failed_verified'' then Some OpFailedVerified
      else if value = ''outcome_unknown'' then Some OpOutcomeUnknown
      else if value = ''cancelled'' then Some OpCancelled
      else None)"

fun mutationOperationVerificationPolicyName ::
  "mutation_operation_verification_policy \<Rightarrow> string" where
  "mutationOperationVerificationPolicyName VerifyNone = ''none''"
| "mutationOperationVerificationPolicyName VerifyReadbackRequired = ''readback_required''"
| "mutationOperationVerificationPolicyName VerifyEventConfirmation = ''event_confirmation''"
| "mutationOperationVerificationPolicyName VerifyReconciliationRequired =
     ''reconciliation_required''"

definition mutationOperationVerificationPolicyFromName ::
  "string \<Rightarrow> mutation_operation_verification_policy option" where
  "mutationOperationVerificationPolicyFromName value =
     (if value = ''none'' then Some VerifyNone
      else if value = ''readback_required'' then Some VerifyReadbackRequired
      else if value = ''event_confirmation'' then Some VerifyEventConfirmation
      else if value = ''reconciliation_required'' then Some VerifyReconciliationRequired
      else None)"

lemma stateFromName_iff [codec_simps]:
  "mutationOperationStateFromName v = Some s \<longleftrightarrow> v = mutationOperationStateName s"
  by (cases s) (auto simp: mutationOperationStateFromName_def)

lemma policyFromName_iff [codec_simps]:
  "mutationOperationVerificationPolicyFromName v = Some p
     \<longleftrightarrow> v = mutationOperationVerificationPolicyName p"
  by (cases p) (auto simp: mutationOperationVerificationPolicyFromName_def)

lemma fromName_name [simp]:
  "mutationOperationStateFromName (mutationOperationStateName s) = Some s"
  "mutationOperationVerificationPolicyFromName (mutationOperationVerificationPolicyName p) = Some p"
  by (simp_all add: codec_simps)

lemma mutationOperationStateName_inject [simp]:
  "mutationOperationStateName a = mutationOperationStateName b \<longleftrightarrow> a = b"
  by (metis stateFromName_iff option.inject)

section \<open>Lifecycle\<close>

definition mutationOperationStateTerminal :: "mutation_operation_state \<Rightarrow> bool" where
  "mutationOperationStateTerminal state \<longleftrightarrow>
     state = OpRejected \<or> state = OpConflict \<or> state = OpSucceeded
     \<or> state = OpFailedBeforeDispatch \<or> state = OpFailedVerified \<or> state = OpCancelled"

definition mutationOperationTransitionAllowed ::
  "mutation_operation_state \<Rightarrow> mutation_operation_state \<Rightarrow> bool" where
  "mutationOperationTransitionAllowed from to' =
     (if from = to' then True
      else case from of
          OpAccepted \<Rightarrow> to' = OpRejected \<or> to' = OpConflict \<or> to' = OpQueued \<or> to' = OpDispatching
            \<or> to' = OpFailedBeforeDispatch \<or> to' = OpCancelled
        | OpQueued \<Rightarrow> to' = OpDispatching \<or> to' = OpFailedBeforeDispatch \<or> to' = OpCancelled
        | OpDispatching \<Rightarrow> to' = OpExecutedUnverified \<or> to' = OpFailedBeforeDispatch
            \<or> to' = OpOutcomeUnknown \<or> to' = OpFailedVerified
        | OpExecutedUnverified \<Rightarrow> to' = OpSucceeded \<or> to' = OpFailedVerified
            \<or> to' = OpOutcomeUnknown
        | OpOutcomeUnknown \<Rightarrow> to' = OpExecutedUnverified \<or> to' = OpSucceeded
            \<or> to' = OpFailedVerified
        | OpRejected \<Rightarrow> False
        | OpConflict \<Rightarrow> False
        | OpSucceeded \<Rightarrow> False
        | OpFailedBeforeDispatch \<Rightarrow> False
        | OpFailedVerified \<Rightarrow> False
        | OpCancelled \<Rightarrow> False)"

interpretation operation_life: lifecycle mutationOperationTransitionAllowed
  mutationOperationStateTerminal
proof unfold_locales
  fix s t :: mutation_operation_state
  show "mutationOperationStateTerminal s \<Longrightarrow> mutationOperationTransitionAllowed s t \<Longrightarrow> t = s"
    by (auto simp: mutationOperationStateTerminal_def mutationOperationTransitionAllowed_def
        split: if_splits)
  assume "\<not> mutationOperationStateTerminal s"
  then have "mutationOperationTransitionAllowed s OpFailedVerified
      \<or> mutationOperationTransitionAllowed s OpFailedBeforeDispatch"
    by (cases s) (auto simp: mutationOperationStateTerminal_def
        mutationOperationTransitionAllowed_def)
  then show "\<exists>t. mutationOperationTransitionAllowed s t \<and> mutationOperationStateTerminal t"
    by (auto simp: mutationOperationStateTerminal_def)
qed

section \<open>Validators\<close>

abbreviation kMaxOperationIdentityLength :: nat where
  "kMaxOperationIdentityLength \<equiv> 160"

abbreviation kMaxRequestFingerprintLength :: nat where
  "kMaxRequestFingerprintLength \<equiv> 512"

abbreviation kMaxResourceFingerprintLength :: nat where
  "kMaxResourceFingerprintLength \<equiv> 4096"

abbreviation kMaxResultReferenceLength :: nat where
  "kMaxResultReferenceLength \<equiv> 512"

definition safeIdentity :: "string \<Rightarrow> bool" where
  "safeIdentity value \<longleftrightarrow> value \<noteq> [] \<and> length value \<le> kMaxOperationIdentityLength"

definition validRevisionToken :: "string \<Rightarrow> bool" where
  "validRevisionToken value = safeIdentity value"

definition parseOperationRevision :: "string \<Rightarrow> bool" where
  "parseOperationRevision value =
     (if value = [] then False
      else case accumulateDigits int64_max 0 value of None \<Rightarrow> False | Some parsed \<Rightarrow> parsed > 0)"

definition commonValid :: "mutation_operation \<Rightarrow> bool" where
  "commonValid operation =
     (if \<not> safeIdentity (mo_operationId operation)
        \<or> \<not> safeIdentity (mo_idempotencyKey operation)
        \<or> \<not> safeIdentity (mo_actorId operation)
        \<or> \<not> safeIdentity (mo_backendId operation)
        \<or> mo_backendGeneration operation = 0
        \<or> unat (mo_backendGeneration operation) > int64_max
        \<or> \<not> safeIdentity (mo_resourceType operation)
        \<or> \<not> safeIdentity (mo_resourceId operation)
        \<or> \<not> validRevisionToken (mo_expectedRevision operation)
        \<or> length (mo_expectedResourceFingerprint operation) > kMaxResourceFingerprintLength
        \<or> \<not> safeIdentity (mo_actionFamily operation)
        \<or> mo_requestFingerprint operation = []
        \<or> length (mo_requestFingerprint operation) > kMaxRequestFingerprintLength
        \<or> mo_requestedAt operation \<le> 0
        \<or> mo_updatedAt operation < mo_requestedAt operation
        \<or> (mo_deadline operation \<noteq> 0 \<and> mo_deadline operation < mo_requestedAt operation)
        \<or> length (mo_resultReference operation) > kMaxResultReferenceLength
      then False else True)"

definition mutationOperationValidForCreate :: "mutation_operation \<Rightarrow> bool" where
  "mutationOperationValidForCreate operation \<longleftrightarrow>
     commonValid operation
     \<and> mo_operationRevision operation = []
     \<and> mo_state operation = OpAccepted
     \<and> mo_resultReference operation = []
     \<and> mo_updatedAt operation = mo_requestedAt operation"

definition mutationOperationValidDurable :: "mutation_operation \<Rightarrow> bool" where
  "mutationOperationValidDurable operation \<longleftrightarrow>
     commonValid operation \<and> parseOperationRevision (mo_operationRevision operation)"

section \<open>Generated identifiers\<close>

text \<open>The sixteen random octets come from \<open>std::random_device\<close>; they are the argument. The
  empty text is the result when that device throws.\<close>

definition hexDigitChar :: "nat \<Rightarrow> char" where
  "hexDigitChar d = (if d < 10 then char_of (48 + d) else char_of (87 + d))"

definition generateMutationOperationId :: "8 word list option \<Rightarrow> string" where
  "generateMutationOperationId drawn =
     (case drawn of
        None \<Rightarrow> []
      | Some octets \<Rightarrow>
          ''op_'' @ concat (map (\<lambda>b. [hexDigitChar (unat b div 16), hexDigitChar (unat b mod 16)])
            octets))"

definition lowerHex :: "char \<Rightarrow> bool" where
  "lowerHex character \<longleftrightarrow>
     isDigit character \<or> (97 \<le> (of_char character :: nat) \<and> (of_char character :: nat) \<le> 102)"

definition mutationOperationIdCanonical :: "string \<Rightarrow> bool" where
  "mutationOperationIdCanonical value =
     (if length value \<noteq> 3 + 32 \<or> take 3 value \<noteq> ''op_'' then False
      else list_all lowerHex (drop 3 value))"

lemma hexDigitChar_lowerHex: "d < 16 \<Longrightarrow> lowerHex (hexDigitChar d)"
  by (simp add: lowerHex_def hexDigitChar_def isDigit_def)

lemma of_char_hexDigitChar:
  "d < 16 \<Longrightarrow> of_char (hexDigitChar d) = (if d < 10 then 48 + d else 87 + d)"
  by (simp add: hexDigitChar_def take_bit_eq_mod)

lemma hexDigitChar_inject:
  assumes "a < 16" "b < 16" "hexDigitChar a = hexDigitChar b"
  shows "a = b"
proof -
  have "(if a < 10 then 48 + a else 87 + a) = (if b < 10 then 48 + b else 87 + b)"
    using of_char_hexDigitChar [OF assms(1)] of_char_hexDigitChar [OF assms(2)]
    unfolding assms(3) by (rule trans [OF sym])
  then show ?thesis using assms(1,2) by (simp split: if_split_asm)
qed

lemma octet_halves: "unat b div 16 < 16" "unat b mod 16 < 16" for b :: "8 word"
  using unsigned_less [of b, where 'a = nat] by (simp_all add: less_mult_imp_div_less)

lemma hex_octet_inject:
  assumes "hexDigitChar (unat a div 16) = hexDigitChar (unat b div 16)"
    and "hexDigitChar (unat a mod 16) = hexDigitChar (unat b mod 16)"
  shows "a = (b :: 8 word)"
proof -
  have "unat a div 16 = unat b div 16" "unat a mod 16 = unat b mod 16"
    using assms octet_halves by (auto intro: hexDigitChar_inject)
  then have "unat a = unat b" by (metis div_mult_mod_eq)
  then show ?thesis by (simp add: word_unat_eq_iff)
qed

section \<open>Revision tokens\<close>

lemma parseOperationRevision_decimal [codec_simps]:
  "parseOperationRevision (decimal n) \<longleftrightarrow> 0 < n" if "n \<le> int64_max"
  using that accumulateDigits_decimal [of int64_max n] by (simp add: parseOperationRevision_def)

lemma commonValid_state_indifferent:
  "commonValid (m\<lparr>mo_state := s\<rparr>) = commonValid m"
  "commonValid (m\<lparr>mo_operationRevision := r\<rparr>) = commonValid m"
  by (simp_all add: commonValid_def)

lemma commonValid_parts:
  assumes "commonValid m"
  shows "safeIdentity (mo_operationId m)" and "0 < mo_requestedAt m"
    and "mo_requestedAt m \<le> mo_updatedAt m"
    and "mo_backendGeneration m \<noteq> 0" and "unat (mo_backendGeneration m) \<le> int64_max"
    and "length (mo_resultReference m) \<le> kMaxResultReferenceLength"
  using assms by (auto simp: commonValid_def split: if_splits)

section \<open>Properties\<close>

text \<open>Every permitted history of an operation that starts as accepted can be closed; once
  final, the operation repeats that state for ever; it succeeds or has an unknown outcome only
  after having been dispatched.\<close>

theorem operation_histories:
  assumes "permittedHistory mutationOperationTransitionAllowed OpAccepted ts"
  shows "(\<exists>us. permittedHistory mutationOperationTransitionAllowed OpAccepted (ts @ us)
            \<and> mutationOperationStateTerminal (last (OpAccepted # ts @ us)))
     \<and> (\<forall>a \<in> set ts. \<forall>b \<in> set ts. mutationOperationStateTerminal a
            \<longrightarrow> mutationOperationStateTerminal b \<longrightarrow> a = b)
     \<and> (\<forall>t \<in> set ts. t = OpSucceeded \<or> t = OpOutcomeUnknown \<or> t = OpExecutedUnverified
            \<longrightarrow> OpDispatching \<in> set ts)"
proof (intro conjI ballI impI)
  show "\<exists>us. permittedHistory mutationOperationTransitionAllowed OpAccepted (ts @ us)
      \<and> mutationOperationStateTerminal (last (OpAccepted # ts @ us))"
    by (rule operation_life.extends_to_final [OF assms])
next
  fix a b
  assume "a \<in> set ts" "b \<in> set ts" "mutationOperationStateTerminal a"
    "mutationOperationStateTerminal b"
  then show "a = b"
    by (intro operation_life.at_most_one_final [OF assms]) auto
next
  fix t
  assume t: "t \<in> set ts" "t = OpSucceeded \<or> t = OpOutcomeUnknown \<or> t = OpExecutedUnverified"
  then obtain us vs where ts: "ts = us @ t # vs" by (meson split_list)
  have "\<exists>a \<in> set (OpAccepted # us @ [t]). a \<in> {OpDispatching}"
  proof (rule permittedHistory_enters [where T = "{OpSucceeded, OpOutcomeUnknown,
        OpExecutedUnverified}"])
    show "permittedHistory mutationOperationTransitionAllowed OpAccepted (us @ [t])"
      using assms by (simp add: ts permittedHistory_append)
    show "last (OpAccepted # us @ [t]) \<in> {OpSucceeded, OpOutcomeUnknown, OpExecutedUnverified}"
      using t by simp
  next
    fix a b
    assume "mutationOperationTransitionAllowed a b"
      "a \<notin> {OpSucceeded, OpOutcomeUnknown, OpExecutedUnverified}"
      "b \<in> {OpSucceeded, OpOutcomeUnknown, OpExecutedUnverified}"
    then show "a \<in> {OpDispatching}"
      by (cases a) (auto simp: mutationOperationTransitionAllowed_def)
  qed simp
  then show "OpDispatching \<in> set ts" using t ts by auto
qed

theorem operation_histories_witness:
  "OpDispatching \<in> set [OpQueued, OpDispatching, OpOutcomeUnknown, OpSucceeded, OpSucceeded]"
  using operation_histories [of "[OpQueued, OpDispatching, OpOutcomeUnknown, OpSucceeded,
      OpSucceeded]"]
  by (simp add: mutationOperationTransitionAllowed_def)

text \<open>Generated identifiers are canonical, and different random octets give different
  identifiers.\<close>

theorem generated_identifiers:
  assumes "length xs = 16" and "length ys = 16"
  shows "mutationOperationIdCanonical (generateMutationOperationId (Some xs))
     \<and> (generateMutationOperationId (Some xs) = generateMutationOperationId (Some ys) \<longleftrightarrow> xs = ys)"
proof -
  let ?h = "\<lambda>b :: 8 word. [hexDigitChar (unat b div 16), hexDigitChar (unat b mod 16)]"
  have len: "length (concat (map ?h bs)) = 2 * length bs" for bs
    by (induction bs) auto
  have hex: "list_all lowerHex (concat (map ?h bs))" for bs
    by (induction bs) (auto simp: octet_halves hexDigitChar_lowerHex)
  have inj: "concat (map ?h bs) = concat (map ?h cs) \<Longrightarrow> bs = cs" for bs cs
  proof (induction bs arbitrary: cs)
    case Nil
    then show ?case by (cases cs) auto
  next
    case (Cons b bs)
    then show ?case by (cases cs) (auto dest: hex_octet_inject)
  qed
  show ?thesis
    using assms hex [of xs] len [of xs] inj [of xs ys]
    by (auto simp: mutationOperationIdCanonical_def generateMutationOperationId_def)
qed

theorem generated_identifiers_witness:
  "mutationOperationIdCanonical (generateMutationOperationId (Some (replicate 16 0)))"
  using generated_identifiers [of "replicate 16 0" "replicate 16 1"] by simp

end
