(* ===== verification/Database.thy ===== *)
theory Database
  imports Prelude
begin

text \<open>
  The part of \<open>core/sqlite/src/Database.cpp\<close> the repositories rely on: one connection with at
  most one open transaction, and the text binding \<open>c_str(), -1\<close>. The stored tables are a
  parameter \<open>'t\<close>. Whether the engine reports an error is decided outside the program: every
  statement takes a flag that says it fails, so each result below holds for every pattern of
  failures (a closed database is the pattern in which everything fails). A failing statement
  changes nothing; the tables a transaction works on replace the committed ones at its commit and
  are dropped by its rollback.
\<close>

record 't database =
  db_committed :: 't
  db_working :: "'t option"

definition transactionActive :: "'t database \<Rightarrow> bool" where
  "transactionActive db \<longleftrightarrow> db_working db \<noteq> None"

text \<open>What a statement reads: the open transaction's tables, else the committed ones.\<close>

definition visibleTables :: "'t database \<Rightarrow> 't" where
  "visibleTables db = (case db_working db of None \<Rightarrow> db_committed db | Some t \<Rightarrow> t)"

definition executeBegin :: "bool \<Rightarrow> 't database \<Rightarrow> bool \<times> 't database" where
  "executeBegin failing db =
     (if failing \<or> transactionActive db then (False, db)
      else (True, db\<lparr>db_working := Some (db_committed db)\<rparr>))"

definition executeCommit :: "bool \<Rightarrow> 't database \<Rightarrow> bool \<times> 't database" where
  "executeCommit failing db =
     (case db_working db of
        None \<Rightarrow> (False, db)
      | Some t \<Rightarrow> if failing then (False, db) else (True, \<lparr>db_committed = t, db_working = None\<rparr>))"

definition executeRollback :: "bool \<Rightarrow> 't database \<Rightarrow> 't database" where
  "executeRollback failing db = (if failing then db else db\<lparr>db_working := None\<rparr>)"

definition writeTables :: "'t \<Rightarrow> 't database \<Rightarrow> 't database" where
  "writeTables t db = db\<lparr>db_working := Some t\<rparr>"

text \<open>A single statement outside a transaction commits by itself.\<close>

definition writeVisible :: "'t \<Rightarrow> 't database \<Rightarrow> 't database" where
  "writeVisible t db =
     (case db_working db of None \<Rightarrow> db\<lparr>db_committed := t\<rparr> | Some _ \<Rightarrow> writeTables t db)"

text \<open>\<open>sqlite3_column_int\<close> keeps the low 32 bits of a stored integer.\<close>

definition columnInt :: "int \<Rightarrow> int" where
  "columnInt i = sint (word_of_int i :: 32 word)"

lemma columnInt_small:
  assumes "0 \<le> i" "i < 2 ^ 31"
  shows "columnInt i = i"
proof -
  have "- (2 ^ 31) \<le> i" using assms(1) by simp
  then have "signed_take_bit 31 i = i"
    using assms(2) by (rule signed_take_bit_int_eq_self)
  then show ?thesis by (simp add: columnInt_def signed_of_int)
qed

lemma writeVisible_simps [simp]:
  "visibleTables (writeVisible t db) = t"
  "transactionActive (writeVisible t db) = transactionActive db"
  by (simp_all add: writeVisible_def visibleTables_def writeTables_def transactionActive_def
      split: option.split)

text \<open>A C string ends at its first zero byte.\<close>

definition cText :: "string \<Rightarrow> string" where
  "cText value = takeWhile (\<lambda>c. c \<noteq> CHR 0x00) value"

definition nulFree :: "string \<Rightarrow> bool" where
  "nulFree value \<longleftrightarrow> CHR 0x00 \<notin> set value"

lemma cText_nulFree [simp]: "nulFree value \<Longrightarrow> cText value = value"
  by (auto simp: cText_def nulFree_def takeWhile_eq_all_conv)

lemma nulFree_cText [simp]: "nulFree (cText value)"
  by (auto simp: cText_def nulFree_def dest: set_takeWhileD)

lemma cText_Nil [simp]: "cText [] = []"
  by (simp add: cText_def)

lemma length_cText: "length (cText value) \<le> length value"
  by (simp add: cText_def length_takeWhile_le)

text \<open>The outcome of a single-row query: an error, no row, or a row that could be read.\<close>

datatype 'a select_result = SelectFailed | SelectNone | SelectFound 'a

definition selectFirst ::
  "bool \<Rightarrow> ('r \<Rightarrow> bool) \<Rightarrow> ('r \<Rightarrow> 'a option) \<Rightarrow> 'r list \<Rightarrow> 'a select_result" where
  "selectFirst failing matches reader rows =
     (if failing then SelectFailed
      else case find matches rows of
          None \<Rightarrow> SelectNone
        | Some row \<Rightarrow> (case reader row of None \<Rightarrow> SelectFailed | Some value \<Rightarrow> SelectFound value))"

lemma selectFirst_Found:
  "selectFirst failing matches reader rows = SelectFound v \<longleftrightarrow>
     \<not> failing \<and> (\<exists>r. find matches rows = Some r \<and> reader r = Some v)"
  by (auto simp: selectFirst_def split: option.splits)

lemma selectFirst_None:
  "selectFirst failing matches reader rows = SelectNone \<longleftrightarrow>
     \<not> failing \<and> (\<forall>r \<in> set rows. \<not> matches r)"
  by (auto simp: selectFirst_def find_None_all [symmetric] split: option.splits)

text \<open>When the key is unique, the row found is the row that matches.\<close>

lemma find_unique_key:
  assumes "distinct (map key rows)" "r \<in> set rows"
  shows "find (\<lambda>x. key x = key r) rows = Some r"
  using assms
proof (induction rows)
  case Nil
  then show ?case by simp
next
  case (Cons x xs)
  then show ?case by (cases "x = r") (auto simp: image_iff)
qed

text \<open>An UPDATE that selects by a unique key and one more condition touches one row.\<close>

lemma filter_single: "distinct xs \<Longrightarrow> x \<in> set xs \<Longrightarrow> filter (\<lambda>y. y = x) xs = [x]"
  by (induction xs) (auto simp: filter_empty_conv)

lemma update_unique_row:
  assumes "distinct (map key rows)" "find (\<lambda>x. key x = k) rows = Some r" "Q r"
  shows "map (\<lambda>x. if key x = k \<and> Q x then f x else x) rows =
       map (\<lambda>x. if x = r then f r else x) rows"
    and "length (filter (\<lambda>x. key x = k \<and> Q x) rows) = 1"
proof -
  have r: "r \<in> set rows" "key r = k" using find_Some_in [OF assms(2)] by auto
  have iff: "x \<in> set rows \<Longrightarrow> (key x = k \<and> Q x) \<longleftrightarrow> x = r" for x
  proof
    assume "x \<in> set rows" "key x = k \<and> Q x"
    then show "x = r" using r(2) by (intro distinct_key_unique [OF assms(1) _ r(1)]) simp_all
  qed (simp add: r(2) assms(3))
  show "map (\<lambda>x. if key x = k \<and> Q x then f x else x) rows =
      map (\<lambda>x. if x = r then f r else x) rows"
    by (rule map_cong [OF refl]) (simp add: iff)
  have "filter (\<lambda>x. key x = k \<and> Q x) rows = filter (\<lambda>x. x = r) rows"
    using iff by (rule filter_cong [OF refl])
  also have "\<dots> = [r]"
    using assms(1) r(1) by (intro filter_single) (simp_all add: distinct_map)
  finally show "length (filter (\<lambda>x. key x = k \<and> Q x) rows) = 1" by simp
qed

lemma visibleTables_simps [simp]:
  "visibleTables (db\<lparr>db_working := Some t\<rparr>) = t"
  "visibleTables (writeTables t db) = t"
  by (simp_all add: visibleTables_def writeTables_def)

lemma transactionActive_simps [simp]:
  "transactionActive (db\<lparr>db_working := Some t\<rparr>)" "transactionActive (writeTables t db)"
  by (simp_all add: transactionActive_def writeTables_def)

lemma writeTables_writeTables [simp]: "writeTables t (writeTables u db) = writeTables t db"
  by (simp add: writeTables_def)

lemma committed_simps [simp]:
  "db_committed (writeTables t db) = db_committed db"
  "db_committed (executeRollback f db) = db_committed db"
  "db_committed (snd (executeBegin f db)) = db_committed db"
  by (simp_all add: writeTables_def executeRollback_def executeBegin_def)

lemma executeCommit_writeTables [simp]:
  "executeCommit f (writeTables t db) =
     (if f then (False, writeTables t db) else (True, \<lparr>db_committed = t, db_working = None\<rparr>))"
  by (simp add: executeCommit_def writeTables_def)

end
