(* ===== verification/MutationOperationRepository.thy ===== *)
theory MutationOperationRepository
  imports MutationOperation Database
begin

text \<open>
  The durable store of mutation operations
  (\<open>core/operations/src/MutationOperationRepository.cpp\<close>) and the actor-scoped read service.
  Rows have the columns of the schema; every function that runs SQL takes \<open>failing\<close>, which
  says of each of its statements whether the engine reports an error.
\<close>

section \<open>Tables\<close>

datatype sql_call =
  CallBegin | CallCommit | CallRollback | CallSelectById | CallSelectByScope | CallSelectPayload
| CallGate | CallGateTail | CallInsertOperation | CallInsertPayload | CallUpdate | CallList

record operation_row =
  or_operation_id :: string
  or_operation_revision :: int
  or_idempotency_key :: string
  or_actor_id :: string
  or_backend_id :: string
  or_backend_generation :: int
  or_resource_type :: string
  or_resource_id :: string
  or_expected_revision :: string
  or_expected_resource_fingerprint :: string
  or_action_family :: string
  or_request_fingerprint :: string
  or_requested_at :: int
  or_deadline :: int
  or_verification_policy :: string
  or_state :: string
  or_result_reference :: string
  or_updated_at :: int

record payload_row =
  yr_operation_id :: string
  yr_payload_type :: string
  yr_payload_version :: int
  yr_payload :: string
  yr_payload_fingerprint :: string

datatype sqlite_cell = CellInteger int | CellOther

record maintenance_row =
  mr_module_id :: string
  mr_frozen :: sqlite_cell
  mr_revision :: sqlite_cell

record operation_tables =
  ot_operations :: "operation_row list"
  ot_payloads :: "payload_row list"
  ot_maintenance :: "maintenance_row list"

section \<open>Results\<close>

datatype mutation_operation_repository_status =
  RepoOk | RepoInvalid | RepoNotFound | RepoIdempotentReplay | RepoIdempotencyConflict
| RepoOperationConflict | RepoMaintenanceBlocked | RepoRevisionConflict | RepoStateConflict
| RepoStorageError

record mutation_operation_payload =
  mp_operationId :: string
  mp_payloadType :: string
  mp_payloadVersion :: "32 word"
  mp_payload :: string
  mp_payloadFingerprint :: string

record mutation_operation_repository_result =
  rr_status :: mutation_operation_repository_status
  rr_operation :: mutation_operation

record mutation_operation_payload_repository_result =
  yy_status :: mutation_operation_repository_status
  yy_payload :: mutation_operation_payload

record mutation_operation_repository_list_result =
  lr_status :: mutation_operation_repository_status
  lr_operations :: "mutation_operation list"

definition emptyMutationOperation :: mutation_operation where
  "emptyMutationOperation =
     \<lparr>mo_operationId = [], mo_idempotencyKey = [], mo_actorId = [], mo_backendId = [],
      mo_backendGeneration = 0, mo_resourceType = [], mo_resourceId = [], mo_expectedRevision = [],
      mo_expectedResourceFingerprint = [], mo_actionFamily = [], mo_requestFingerprint = [],
      mo_requestedAt = 0, mo_deadline = 0, mo_verificationPolicy = VerifyReadbackRequired,
      mo_state = OpAccepted, mo_resultReference = [], mo_updatedAt = 0, mo_operationRevision = []\<rparr>"

definition emptyMutationOperationPayload :: mutation_operation_payload where
  "emptyMutationOperationPayload =
     \<lparr>mp_operationId = [], mp_payloadType = [], mp_payloadVersion = 0, mp_payload = [],
      mp_payloadFingerprint = []\<rparr>"

definition statusResult ::
  "mutation_operation_repository_status \<Rightarrow> mutation_operation_repository_result" where
  "statusResult status = \<lparr>rr_status = status, rr_operation = emptyMutationOperation\<rparr>"

definition operationResult ::
  "mutation_operation_repository_status \<Rightarrow> mutation_operation \<Rightarrow>
     mutation_operation_repository_result" where
  "operationResult status operation = \<lparr>rr_status = status, rr_operation = operation\<rparr>"

definition payloadStatusResult ::
  "mutation_operation_repository_status \<Rightarrow> mutation_operation_payload_repository_result" where
  "payloadStatusResult status = \<lparr>yy_status = status, yy_payload = emptyMutationOperationPayload\<rparr>"

definition payloadResult ::
  "mutation_operation_repository_status \<Rightarrow> mutation_operation_payload \<Rightarrow>
     mutation_operation_payload_repository_result" where
  "payloadResult status payload = \<lparr>yy_status = status, yy_payload = payload\<rparr>"

definition listStatusResult ::
  "mutation_operation_repository_status \<Rightarrow> mutation_operation_repository_list_result" where
  "listStatusResult status = \<lparr>lr_status = status, lr_operations = []\<rparr>"

lemma result_simps [simp]:
  "rr_status (statusResult s) = s" "rr_status (operationResult s m) = s"
  "rr_operation (operationResult s m) = m"
  "yy_status (payloadStatusResult s) = s" "yy_status (payloadResult s p) = s"
  "yy_payload (payloadResult s p) = p" "lr_status (listStatusResult s) = s"
  "lr_operations (listStatusResult s) = []"
  by (simp_all add: statusResult_def operationResult_def payloadStatusResult_def payloadResult_def
      listStatusResult_def)

section \<open>Rows\<close>

abbreviation kMaxPayloadLength :: nat where
  "kMaxPayloadLength \<equiv> 64 * 1024"

abbreviation kMaxPayloadFingerprintLength :: nat where
  "kMaxPayloadFingerprintLength \<equiv> 4096"

definition validPayload :: "mutation_operation_payload \<Rightarrow> bool" where
  "validPayload payload \<longleftrightarrow>
     safeIdentity (mp_operationId payload)
     \<and> safeIdentity (mp_payloadType payload)
     \<and> mp_payloadVersion payload > 0
     \<and> mp_payload payload \<noteq> []
     \<and> length (mp_payload payload) \<le> kMaxPayloadLength
     \<and> mp_payloadFingerprint payload \<noteq> []
     \<and> length (mp_payloadFingerprint payload) \<le> kMaxPayloadFingerprintLength"

definition parseRevision :: "string \<Rightarrow> nat option" where
  "parseRevision token =
     (if token = [] then None
      else case accumulateDigits int64_max 0 token of
          None \<Rightarrow> None
        | Some parsed \<Rightarrow> if parsed > 0 then Some parsed else None)"

text \<open>The revision column is an integer; read as text it is its decimal numeral.\<close>

definition readOperation :: "operation_row \<Rightarrow> mutation_operation option" where
  "readOperation row =
     (if or_backend_generation row \<le> 0 then None
      else case (mutationOperationVerificationPolicyFromName (cText (or_verification_policy row)),
                 mutationOperationStateFromName (cText (or_state row))) of
          (Some policy, Some state) \<Rightarrow>
            (let operation =
               \<lparr>mo_operationId = cText (or_operation_id row),
                mo_idempotencyKey = cText (or_idempotency_key row),
                mo_actorId = cText (or_actor_id row),
                mo_backendId = cText (or_backend_id row),
                mo_backendGeneration = word_of_int (or_backend_generation row),
                mo_resourceType = cText (or_resource_type row),
                mo_resourceId = cText (or_resource_id row),
                mo_expectedRevision = cText (or_expected_revision row),
                mo_expectedResourceFingerprint = cText (or_expected_resource_fingerprint row),
                mo_actionFamily = cText (or_action_family row),
                mo_requestFingerprint = cText (or_request_fingerprint row),
                mo_requestedAt = or_requested_at row,
                mo_deadline = or_deadline row,
                mo_verificationPolicy = policy,
                mo_state = state,
                mo_resultReference = cText (or_result_reference row),
                mo_updatedAt = or_updated_at row,
                mo_operationRevision = to_string (or_operation_revision row)\<rparr>
             in if mutationOperationValidDurable operation then Some operation else None)
        | _ \<Rightarrow> None)"

definition readPayload :: "payload_row \<Rightarrow> mutation_operation_payload option" where
  "readPayload row =
     (if yr_payload_version row \<le> 0 \<or> yr_payload_version row > int uint32_max then None
      else (let payload =
              \<lparr>mp_operationId = cText (yr_operation_id row),
               mp_payloadType = cText (yr_payload_type row),
               mp_payloadVersion = word_of_int (yr_payload_version row),
               mp_payload = cText (yr_payload row),
               mp_payloadFingerprint = cText (yr_payload_fingerprint row)\<rparr>
            in if validPayload payload then Some payload else None))"

text \<open>The values the INSERT statements bind; the first revision is the constant 1.\<close>

definition operationRow :: "mutation_operation \<Rightarrow> operation_row" where
  "operationRow durable =
     \<lparr>or_operation_id = cText (mo_operationId durable),
      or_operation_revision = 1,
      or_idempotency_key = cText (mo_idempotencyKey durable),
      or_actor_id = cText (mo_actorId durable),
      or_backend_id = cText (mo_backendId durable),
      or_backend_generation = sint (mo_backendGeneration durable),
      or_resource_type = cText (mo_resourceType durable),
      or_resource_id = cText (mo_resourceId durable),
      or_expected_revision = cText (mo_expectedRevision durable),
      or_expected_resource_fingerprint = cText (mo_expectedResourceFingerprint durable),
      or_action_family = cText (mo_actionFamily durable),
      or_request_fingerprint = cText (mo_requestFingerprint durable),
      or_requested_at = mo_requestedAt durable,
      or_deadline = mo_deadline durable,
      or_verification_policy =
        cText (mutationOperationVerificationPolicyName (mo_verificationPolicy durable)),
      or_state = cText (mutationOperationStateName (mo_state durable)),
      or_result_reference = cText (mo_resultReference durable),
      or_updated_at = mo_updatedAt durable\<rparr>"

definition payloadRow :: "mutation_operation_payload \<Rightarrow> payload_row" where
  "payloadRow payload =
     \<lparr>yr_operation_id = cText (mp_operationId payload),
      yr_payload_type = cText (mp_payloadType payload),
      yr_payload_version = uint (mp_payloadVersion payload),
      yr_payload = cText (mp_payload payload),
      yr_payload_fingerprint = cText (mp_payloadFingerprint payload)\<rparr>"

text \<open>The idempotency scope: the columns of the unique index.\<close>

definition rowScope :: "operation_row \<Rightarrow> string list" where
  "rowScope row =
     [or_actor_id row, or_backend_id row, or_resource_type row, or_resource_id row,
      or_action_family row, or_idempotency_key row]"

text \<open>The constraints of the schema that an inserted row has to meet: the CHECK clauses, the
  primary key and the unique index.\<close>

definition operationChecks :: "operation_row \<Rightarrow> bool" where
  "operationChecks row \<longleftrightarrow>
     or_operation_revision row > 0
     \<and> or_backend_generation row > 0
     \<and> or_verification_policy row \<in> set [''none'', ''readback_required'', ''event_confirmation'',
          ''reconciliation_required'']
     \<and> or_state row \<in> set [''accepted'', ''rejected'', ''conflict'', ''queued'', ''dispatching'',
          ''executed_unverified'', ''succeeded'', ''failed_before_dispatch'', ''failed_verified'',
          ''outcome_unknown'', ''cancelled'']"

definition operationConstraints :: "operation_row list \<Rightarrow> operation_row \<Rightarrow> bool" where
  "operationConstraints rows row \<longleftrightarrow>
     operationChecks row
     \<and> or_operation_id row \<notin> set (map or_operation_id rows)
     \<and> rowScope row \<notin> set (map rowScope rows)"

definition payloadConstraints :: "payload_row list \<Rightarrow> payload_row \<Rightarrow> bool" where
  "payloadConstraints rows row \<longleftrightarrow>
     yr_operation_id row \<notin> set (map yr_operation_id rows) \<and> yr_payload_version row > 0"

section \<open>Statements\<close>

definition selectById ::
  "(sql_call \<Rightarrow> bool) \<Rightarrow> operation_tables \<Rightarrow> string \<Rightarrow> mutation_operation select_result" where
  "selectById failing tables operationId =
     selectFirst (failing CallSelectById) (\<lambda>row. or_operation_id row = cText operationId)
       readOperation (ot_operations tables)"

definition selectPayloadByOperationId ::
  "(sql_call \<Rightarrow> bool) \<Rightarrow> operation_tables \<Rightarrow> string
     \<Rightarrow> mutation_operation_payload select_result" where
  "selectPayloadByOperationId failing tables operationId =
     selectFirst (failing CallSelectPayload) (\<lambda>row. yr_operation_id row = cText operationId)
       readPayload (ot_payloads tables)"

definition selectByScope ::
  "(sql_call \<Rightarrow> bool) \<Rightarrow> operation_tables \<Rightarrow> string \<Rightarrow> string \<Rightarrow> string \<Rightarrow> string \<Rightarrow> string
     \<Rightarrow> string \<Rightarrow> mutation_operation select_result" where
  "selectByScope failing tables actorId backendId resourceType resourceId actionFamily
       idempotencyKey =
     selectFirst (failing CallSelectByScope)
       (\<lambda>row. or_actor_id row = cText actorId
         \<and> or_backend_id row = cText backendId
         \<and> or_resource_type row = cText resourceType
         \<and> or_resource_id row = cText resourceId
         \<and> or_action_family row = cText actionFamily
         \<and> or_idempotency_key row = cText idempotencyKey)
       readOperation (ot_operations tables)"

definition sameLogicalOperation :: "mutation_operation \<Rightarrow> mutation_operation \<Rightarrow> bool" where
  "sameLogicalOperation left right \<longleftrightarrow>
     mo_operationId left = mo_operationId right
     \<and> mo_idempotencyKey left = mo_idempotencyKey right
     \<and> mo_actorId left = mo_actorId right
     \<and> mo_backendId left = mo_backendId right
     \<and> mo_backendGeneration left = mo_backendGeneration right
     \<and> mo_resourceType left = mo_resourceType right
     \<and> mo_resourceId left = mo_resourceId right
     \<and> mo_expectedRevision left = mo_expectedRevision right
     \<and> mo_expectedResourceFingerprint left = mo_expectedResourceFingerprint right
     \<and> mo_actionFamily left = mo_actionFamily right
     \<and> mo_requestFingerprint left = mo_requestFingerprint right
     \<and> mo_requestedAt left = mo_requestedAt right
     \<and> mo_deadline left = mo_deadline right
     \<and> mo_verificationPolicy left = mo_verificationPolicy right"

definition samePayload :: "mutation_operation_payload \<Rightarrow> mutation_operation_payload \<Rightarrow> bool" where
  "samePayload left right \<longleftrightarrow>
     mp_operationId left = mp_operationId right
     \<and> mp_payloadType left = mp_payloadType right
     \<and> mp_payloadVersion left = mp_payloadVersion right
     \<and> mp_payload left = mp_payload right
     \<and> mp_payloadFingerprint left = mp_payloadFingerprint right"

datatype admission_gate = GatePermitted | GateFrozen | GateUnavailable

definition cellInt :: "sqlite_cell \<Rightarrow> int" where
  "cellInt cell = (case cell of CellInteger i \<Rightarrow> i | CellOther \<Rightarrow> 0)"

definition mediaToolsAdmissionGate ::
  "(sql_call \<Rightarrow> bool) \<Rightarrow> operation_tables \<Rightarrow> admission_gate" where
  "mediaToolsAdmissionGate failing tables =
     (if failing CallGate then GateUnavailable
      else case filter (\<lambda>row. mr_module_id row = ''rectools'') (ot_maintenance tables) of
          [] \<Rightarrow> GatePermitted
        | row # others \<Rightarrow>
            (let frozen = columnInt (cellInt (mr_frozen row));
                 revision = cellInt (mr_revision row);
                 wellFormed = mr_frozen row \<noteq> CellOther \<and> mr_revision row \<noteq> CellOther
                   \<and> (frozen = 0 \<or> frozen = 1) \<and> revision > 0;
                 tailDone = \<not> failing CallGateTail \<and> others = []
             in if tailDone \<and> wellFormed
                then (if frozen \<noteq> 0 then GateFrozen else GatePermitted)
                else GateUnavailable))"

definition insertOperation ::
  "(sql_call \<Rightarrow> bool) \<Rightarrow> operation_tables \<Rightarrow> mutation_operation \<Rightarrow> operation_tables option" where
  "insertOperation failing tables durable =
     (if failing CallInsertOperation
        \<or> \<not> operationConstraints (ot_operations tables) (operationRow durable) then None
      else Some (tables\<lparr>ot_operations := ot_operations tables @ [operationRow durable]\<rparr>))"

definition insertPayload ::
  "(sql_call \<Rightarrow> bool) \<Rightarrow> operation_tables \<Rightarrow> mutation_operation_payload
     \<Rightarrow> operation_tables option" where
  "insertPayload failing tables payload =
     (if failing CallInsertPayload
        \<or> \<not> payloadConstraints (ot_payloads tables) (payloadRow payload) then None
      else Some (tables\<lparr>ot_payloads := ot_payloads tables @ [payloadRow payload]\<rparr>))"

section \<open>Operations\<close>

text \<open>\<open>None\<close> is the null payload pointer of \<open>reserve\<close>. The block for an operation
  identifier that is already stored:\<close>

definition reserveStored ::
  "(sql_call \<Rightarrow> bool) \<Rightarrow> operation_tables \<Rightarrow> mutation_operation \<Rightarrow> mutation_operation
     \<Rightarrow> mutation_operation_payload option \<Rightarrow> mutation_operation_repository_result" where
  "reserveStored failing tables existing durable payload =
     (if \<not> sameLogicalOperation existing durable
      then operationResult RepoOperationConflict existing
      else case payload of
          None \<Rightarrow> operationResult RepoIdempotentReplay existing
        | Some p \<Rightarrow>
            (case selectPayloadByOperationId failing tables (mo_operationId durable) of
               SelectFailed \<Rightarrow> statusResult RepoStorageError
             | SelectNone \<Rightarrow> operationResult RepoOperationConflict existing
             | SelectFound existingPayload \<Rightarrow>
                 if \<not> samePayload existingPayload p
                 then operationResult RepoOperationConflict existing
                 else operationResult RepoIdempotentReplay existing))"

text \<open>The maintenance gate, consulted for three families of actions only:\<close>

definition reserveGate ::
  "(sql_call \<Rightarrow> bool) \<Rightarrow> operation_tables \<Rightarrow> mutation_operation \<Rightarrow> admission_gate" where
  "reserveGate failing tables operation =
     (if mo_actionFamily operation = ''media.import''
        \<or> mo_actionFamily operation = ''media.shrink.stage''
        \<or> mo_actionFamily operation = ''media.shrink.publish''
      then mediaToolsAdmissionGate failing tables else GatePermitted)"

text \<open>The two inserts:\<close>

definition reserveInsert ::
  "(sql_call \<Rightarrow> bool) \<Rightarrow> operation_tables database \<Rightarrow> mutation_operation
     \<Rightarrow> mutation_operation_payload option
     \<Rightarrow> mutation_operation_repository_result \<times> operation_tables database" where
  "reserveInsert failing db durable payload =
     (case insertOperation failing (visibleTables db) durable of
        None \<Rightarrow> (statusResult RepoStorageError, db)
      | Some tables1 \<Rightarrow>
          (case payload of
             None \<Rightarrow> (operationResult RepoOk durable, writeTables tables1 db)
           | Some p \<Rightarrow>
               (case insertPayload failing tables1 p of
                  None \<Rightarrow> (statusResult RepoStorageError, writeTables tables1 db)
                | Some tables2 \<Rightarrow> (operationResult RepoOk durable, writeTables tables2 db))))"

definition reserveInCurrentTransactionInternal ::
  "(sql_call \<Rightarrow> bool) \<Rightarrow> operation_tables database \<Rightarrow> mutation_operation
     \<Rightarrow> mutation_operation_payload option
     \<Rightarrow> mutation_operation_repository_result \<times> operation_tables database" where
  "reserveInCurrentTransactionInternal failing db operation payload =
     (if \<not> transactionActive db then (statusResult RepoStorageError, db)
      else if \<not> mutationOperationValidForCreate operation
        \<or> (case payload of
             None \<Rightarrow> False
           | Some p \<Rightarrow> \<not> validPayload p \<or> mp_operationId p \<noteq> mo_operationId operation)
      then (statusResult RepoInvalid, db)
      else (let durable = operation\<lparr>mo_operationRevision := ''1''\<rparr>;
                tables = visibleTables db
            in case selectById failing tables (mo_operationId operation) of
                SelectFailed \<Rightarrow> (statusResult RepoStorageError, db)
              | SelectFound existing \<Rightarrow> (reserveStored failing tables existing durable payload, db)
              | SelectNone \<Rightarrow>
                  (case selectByScope failing tables (mo_actorId operation)
                      (mo_backendId operation) (mo_resourceType operation)
                      (mo_resourceId operation) (mo_actionFamily operation)
                      (mo_idempotencyKey operation) of
                    SelectFailed \<Rightarrow> (statusResult RepoStorageError, db)
                  | SelectFound existing \<Rightarrow> (operationResult RepoIdempotencyConflict existing, db)
                  | SelectNone \<Rightarrow>
                      (case reserveGate failing tables operation of
                         GateFrozen \<Rightarrow> (statusResult RepoMaintenanceBlocked, db)
                       | GateUnavailable \<Rightarrow> (statusResult RepoStorageError, db)
                       | GatePermitted \<Rightarrow> reserveInsert failing db durable payload))))"

definition reserveInternal ::
  "(sql_call \<Rightarrow> bool) \<Rightarrow> operation_tables database \<Rightarrow> mutation_operation
     \<Rightarrow> mutation_operation_payload option
     \<Rightarrow> mutation_operation_repository_result \<times> operation_tables database" where
  "reserveInternal failing db operation payload =
     (case executeBegin (failing CallBegin) db of
        (False, db0) \<Rightarrow> (statusResult RepoStorageError, db0)
      | (True, db0) \<Rightarrow>
          (case reserveInCurrentTransactionInternal failing db0 operation payload of
             (result, db1) \<Rightarrow>
               if rr_status result \<noteq> RepoOk
               then (result, executeRollback (failing CallRollback) db1)
               else (case executeCommit (failing CallCommit) db1 of
                   (False, db2) \<Rightarrow>
                     (statusResult RepoStorageError, executeRollback (failing CallRollback) db2)
                 | (True, db2) \<Rightarrow> (result, db2))))"

definition reserve ::
  "(sql_call \<Rightarrow> bool) \<Rightarrow> operation_tables database \<Rightarrow> mutation_operation
     \<Rightarrow> mutation_operation_repository_result \<times> operation_tables database" where
  "reserve failing db operation = reserveInternal failing db operation None"

definition reserveWithPayload ::
  "(sql_call \<Rightarrow> bool) \<Rightarrow> operation_tables database \<Rightarrow> mutation_operation
     \<Rightarrow> mutation_operation_payload
     \<Rightarrow> mutation_operation_repository_result \<times> operation_tables database" where
  "reserveWithPayload failing db operation payload =
     reserveInternal failing db operation (Some payload)"

definition reserveWithPayloadInCurrentTransaction ::
  "(sql_call \<Rightarrow> bool) \<Rightarrow> operation_tables database \<Rightarrow> mutation_operation
     \<Rightarrow> mutation_operation_payload
     \<Rightarrow> mutation_operation_repository_result \<times> operation_tables database" where
  "reserveWithPayloadInCurrentTransaction failing db operation payload =
     reserveInCurrentTransactionInternal failing db operation (Some payload)"

definition findById ::
  "(sql_call \<Rightarrow> bool) \<Rightarrow> operation_tables database \<Rightarrow> string
     \<Rightarrow> mutation_operation_repository_result" where
  "findById failing db operationId =
     (if \<not> safeIdentity operationId then statusResult RepoInvalid
      else case selectById failing (visibleTables db) operationId of
          SelectFailed \<Rightarrow> statusResult RepoStorageError
        | SelectFound operation \<Rightarrow> operationResult RepoOk operation
        | SelectNone \<Rightarrow> statusResult RepoNotFound)"

text \<open>The row loop of the two list queries: the first unreadable row clears the result.\<close>

fun readOperations :: "operation_row list \<Rightarrow> mutation_operation list option" where
  "readOperations [] = Some []"
| "readOperations (row # rows) =
     (case readOperation row of
        None \<Rightarrow> None
      | Some operation \<Rightarrow> map_option ((#) operation) (readOperations rows))"

definition listedRows ::
  "(sql_call \<Rightarrow> bool) \<Rightarrow> operation_row list \<Rightarrow> mutation_operation_repository_list_result" where
  "listedRows failing rows =
     (if failing CallList then listStatusResult RepoStorageError
      else case readOperations rows of
          None \<Rightarrow> listStatusResult RepoStorageError
        | Some operations \<Rightarrow> \<lparr>lr_status = RepoOk, lr_operations = operations\<rparr>)"

definition listByActionFamilyAndStates ::
  "(sql_call \<Rightarrow> bool) \<Rightarrow> operation_tables database \<Rightarrow> string \<Rightarrow> mutation_operation_state list
     \<Rightarrow> nat \<Rightarrow> mutation_operation_repository_list_result" where
  "listByActionFamilyAndStates failing db actionFamily states limit =
     (if \<not> safeIdentity actionFamily \<or> states = [] \<or> length states > 8 \<or> limit = 0 \<or> limit > 256
      then listStatusResult RepoInvalid
      else listedRows failing
        (take limit
          (sort_key (\<lambda>row. (or_updated_at row, or_operation_id row))
            (filter (\<lambda>row. or_action_family row = cText actionFamily
                \<and> or_state row \<in> set (map mutationOperationStateName states))
              (ot_operations (visibleTables db))))))"

text \<open>\<open>ORDER BY rank ASC, updated_at DESC, operation_id DESC\<close>, as stable sorts from the least
  significant key to the most significant one.\<close>

definition openStateRank :: "operation_row \<Rightarrow> nat" where
  "openStateRank row =
     (if or_state row \<in> set [''accepted'', ''queued'', ''dispatching'', ''executed_unverified'',
        ''outcome_unknown''] then 0 else 1)"

definition listRecentForActorBackendActionFamily ::
  "(sql_call \<Rightarrow> bool) \<Rightarrow> operation_tables database \<Rightarrow> string \<Rightarrow> string \<Rightarrow> string \<Rightarrow> nat
     \<Rightarrow> mutation_operation_repository_list_result" where
  "listRecentForActorBackendActionFamily failing db actorId backendId actionFamily limit =
     (if \<not> safeIdentity actorId \<or> \<not> safeIdentity backendId \<or> \<not> safeIdentity actionFamily
        \<or> limit = 0 \<or> limit > 128
      then listStatusResult RepoInvalid
      else listedRows failing
        (take limit
          (sort_key openStateRank
            (sort_key (\<lambda>row. - or_updated_at row)
              (rev (sort_key or_operation_id
                (filter (\<lambda>row. or_actor_id row = cText actorId
                    \<and> or_backend_id row = cText backendId
                    \<and> or_action_family row = cText actionFamily)
                  (ot_operations (visibleTables db)))))))))"

definition findPayloadByOperationId ::
  "(sql_call \<Rightarrow> bool) \<Rightarrow> operation_tables database \<Rightarrow> string
     \<Rightarrow> mutation_operation_payload_repository_result" where
  "findPayloadByOperationId failing db operationId =
     (if \<not> safeIdentity operationId then payloadStatusResult RepoInvalid
      else case selectPayloadByOperationId failing (visibleTables db) operationId of
          SelectFailed \<Rightarrow> payloadStatusResult RepoStorageError
        | SelectFound payload \<Rightarrow> payloadResult RepoOk payload
        | SelectNone \<Rightarrow> payloadStatusResult RepoNotFound)"

definition findByIdempotencyScope ::
  "(sql_call \<Rightarrow> bool) \<Rightarrow> operation_tables database \<Rightarrow> string \<Rightarrow> string \<Rightarrow> string \<Rightarrow> string
     \<Rightarrow> string \<Rightarrow> string \<Rightarrow> mutation_operation_repository_result" where
  "findByIdempotencyScope failing db actorId backendId resourceType resourceId actionFamily
       idempotencyKey =
     (if \<not> safeIdentity actorId \<or> \<not> safeIdentity backendId \<or> \<not> safeIdentity resourceType
        \<or> \<not> safeIdentity resourceId \<or> \<not> safeIdentity actionFamily
        \<or> \<not> safeIdentity idempotencyKey
      then statusResult RepoInvalid
      else case selectByScope failing (visibleTables db) actorId backendId resourceType resourceId
             actionFamily idempotencyKey of
          SelectFailed \<Rightarrow> statusResult RepoStorageError
        | SelectFound operation \<Rightarrow> operationResult RepoOk operation
        | SelectNone \<Rightarrow> statusResult RepoNotFound)"

definition updateOperationRows ::
  "string \<Rightarrow> nat \<Rightarrow> mutation_operation_state \<Rightarrow> string \<Rightarrow> int \<Rightarrow> operation_row list
     \<Rightarrow> operation_row list" where
  "updateOperationRows operationId expectedRevision nextState resultReference updatedAt rows =
     map (\<lambda>row. if or_operation_id row = cText operationId
              \<and> or_operation_revision row = int expectedRevision
            then row\<lparr>or_operation_revision := int (expectedRevision + 1),
                     or_state := cText (mutationOperationStateName nextState),
                     or_result_reference := cText resultReference,
                     or_updated_at := updatedAt\<rparr>
            else row) rows"

definition changedOperationRows :: "string \<Rightarrow> nat \<Rightarrow> operation_row list \<Rightarrow> nat" where
  "changedOperationRows operationId expectedRevision rows =
     length (filter (\<lambda>row. or_operation_id row = cText operationId
       \<and> or_operation_revision row = int expectedRevision) rows)"

text \<open>The UPDATE, its change count and the commit.\<close>

definition transitionWrite ::
  "(sql_call \<Rightarrow> bool) \<Rightarrow> operation_tables database \<Rightarrow> string \<Rightarrow> nat \<Rightarrow> mutation_operation
     \<Rightarrow> mutation_operation_state \<Rightarrow> string \<Rightarrow> int
     \<Rightarrow> mutation_operation_repository_result \<times> operation_tables database" where
  "transitionWrite failing db operationId expectedRevision current nextState resultReference
       updatedAt =
     (let tables = visibleTables db;
          rows = ot_operations tables;
          updated = \<not> failing CallUpdate;
          db1 = (if updated
                 then writeTables (tables\<lparr>ot_operations := updateOperationRows operationId
                   expectedRevision nextState resultReference updatedAt rows\<rparr>) db
                 else db)
      in if \<not> updated \<or> changedOperationRows operationId expectedRevision rows \<noteq> 1
         then (operationResult RepoRevisionConflict current,
               executeRollback (failing CallRollback) db1)
         else (case executeCommit (failing CallCommit) db1 of
             (False, db2) \<Rightarrow>
               (statusResult RepoStorageError, executeRollback (failing CallRollback) db2)
           | (True, db2) \<Rightarrow>
               (operationResult RepoOk
                 (current\<lparr>mo_operationRevision := decimal (expectedRevision + 1),
                          mo_state := nextState,
                          mo_resultReference := resultReference,
                          mo_updatedAt := updatedAt\<rparr>), db2)))"

definition transition ::
  "(sql_call \<Rightarrow> bool) \<Rightarrow> operation_tables database \<Rightarrow> string \<Rightarrow> string
     \<Rightarrow> mutation_operation_state \<Rightarrow> mutation_operation_state \<Rightarrow> string \<Rightarrow> int
     \<Rightarrow> mutation_operation_repository_result \<times> operation_tables database" where
  "transition failing db operationId expectedOperationRevision expectedState nextState
       resultReference updatedAt =
     (case (if safeIdentity operationId then parseRevision expectedOperationRevision else None) of
        None \<Rightarrow> (statusResult RepoInvalid, db)
      | Some expectedRevision \<Rightarrow>
          if length resultReference > kMaxResultReferenceLength \<or> updatedAt \<le> 0
          then (statusResult RepoInvalid, db)
          else (case executeBegin (failing CallBegin) db of
              (False, db0) \<Rightarrow> (statusResult RepoStorageError, db0)
            | (True, db0) \<Rightarrow>
                (let rolledBack = executeRollback (failing CallRollback) db0
                 in case selectById failing (visibleTables db0) operationId of
                     SelectFailed \<Rightarrow> (statusResult RepoStorageError, rolledBack)
                   | SelectNone \<Rightarrow> (statusResult RepoNotFound, rolledBack)
                   | SelectFound current \<Rightarrow>
                       if mo_state current = nextState
                         \<and> mo_resultReference current = resultReference
                       then (operationResult RepoIdempotentReplay current, rolledBack)
                       else if mo_operationRevision current \<noteq> expectedOperationRevision
                       then (operationResult RepoRevisionConflict current, rolledBack)
                       else if mo_state current \<noteq> expectedState
                         \<or> \<not> mutationOperationTransitionAllowed (mo_state current) nextState
                       then (operationResult RepoStateConflict current, rolledBack)
                       else if updatedAt < mo_updatedAt current \<or> expectedRevision = int64_max
                       then (statusResult RepoInvalid, rolledBack)
                       else transitionWrite failing db0 operationId expectedRevision current
                              nextState resultReference updatedAt)))"

section \<open>The actor-scoped read service\<close>

datatype mutation_operation_read_status =
  ReadOk | ReadInvalid | ReadNotFound | ReadStorageError

record mutation_operation_read_result =
  dr_status :: mutation_operation_read_status
  dr_operation :: mutation_operation

definition findForActor ::
  "(sql_call \<Rightarrow> bool) \<Rightarrow> operation_tables database \<Rightarrow> string \<Rightarrow> string
     \<Rightarrow> mutation_operation_read_result" where
  "findForActor failing db operationId actorId =
     (let result = (\<lambda>status operation. \<lparr>dr_status = status, dr_operation = operation\<rparr>)
      in if operationId = [] \<or> actorId = [] then result ReadInvalid emptyMutationOperation
         else (let found = findById failing db operationId
               in if rr_status found = RepoInvalid then result ReadInvalid emptyMutationOperation
                  else if rr_status found = RepoNotFound
                  then result ReadNotFound emptyMutationOperation
                  else if rr_status found \<noteq> RepoOk
                  then result ReadStorageError emptyMutationOperation
                  else if mo_actorId (rr_operation found) \<noteq> actorId
                  then result ReadNotFound emptyMutationOperation
                  else result ReadOk (rr_operation found)))"

end
