(* ===== verification/JournaledStore.thy ===== *)
theory JournaledStore
  imports Database
begin

text \<open>
  A store whose tables follow a journal: the contract between one database connection with
  transactions and the abstract steps its tables may take. Whatever the calls do inside and
  outside transactions, the committed tables then follow the journal, and so keep every invariant
  of its steps. Every store interprets it: the operations and the intents on their calls, the
  assignments and the bindings on the runs of elementary steps defined here.
\<close>

text \<open>
  What one call may do: leave the committed tables alone, with a transaction that follows from
  what the call saw; or end with no transaction and committed tables that follow from it.
\<close>

definition followsBy :: "('t \<Rightarrow> 't \<Rightarrow> bool) \<Rightarrow> 't database \<Rightarrow> 't database \<Rightarrow> bool" where
  "followsBy journal db db' \<longleftrightarrow>
     (db_committed db' = db_committed db
       \<and> (\<forall>w. db_working db' = Some w \<longrightarrow> journal\<^sup>*\<^sup>* (visibleTables db) w))
     \<or> (db_working db' = None \<and> journal\<^sup>*\<^sup>* (visibleTables db) (db_committed db'))"

text \<open>The open transaction's tables follow from the committed ones.\<close>

definition transactionFollowsBy :: "('t \<Rightarrow> 't \<Rightarrow> bool) \<Rightarrow> 't database \<Rightarrow> bool" where
  "transactionFollowsBy journal db \<longleftrightarrow>
     (\<forall>w. db_working db = Some w \<longrightarrow> journal\<^sup>*\<^sup>* (db_committed db) w)"

lemma visible_working: "db_working db = Some w \<Longrightarrow> visibleTables db = w"
  by (simp add: visibleTables_def)

lemma visible_begun: "\<not> transactionActive db \<Longrightarrow> visibleTables db = db_committed db"
  by (simp add: visibleTables_def transactionActive_def)

lemma transactionFollowsBy_visible:
  "transactionFollowsBy journal db \<Longrightarrow> journal\<^sup>*\<^sup>* (db_committed db) (visibleTables db)"
  by (auto simp: transactionFollowsBy_def visibleTables_def split: option.split)

lemma followsBy_refl: "followsBy journal db db"
  by (auto simp: followsBy_def visible_working)

lemma followsBy_begin: "followsBy journal db (snd (executeBegin f db))"
  by (auto simp: followsBy_def executeBegin_def visible_working visible_begun)

lemma followsBy_commit: "followsBy journal db (snd (executeCommit f db))"
  by (auto simp: followsBy_def executeCommit_def visible_working split: option.split)

lemma followsBy_rollback: "followsBy journal db (executeRollback f db)"
  by (auto simp: followsBy_def executeRollback_def visible_working)

lemma followsBy_writeVisible:
  "journal\<^sup>*\<^sup>* (visibleTables db) t \<Longrightarrow> followsBy journal db (writeVisible t db)"
  by (auto simp: followsBy_def writeVisible_def writeTables_def split: option.split)

lemma followsBy_journal:
  assumes "followsBy journal db db'" "transactionFollowsBy journal db"
  shows "journal\<^sup>*\<^sup>* (db_committed db) (db_committed db')" and "transactionFollowsBy journal db'"
  using assms(1) transactionFollowsBy_visible [OF assms(2)]
  by (auto simp: followsBy_def transactionFollowsBy_def intro: rtranclp_trans)

section \<open>Runs\<close>

text \<open>Elementary steps: BEGIN, COMMIT, ROLLBACK, and one statement that follows the journal.\<close>

inductive storeStep :: "('t \<Rightarrow> 't \<Rightarrow> bool) \<Rightarrow> 't database \<Rightarrow> 't database \<Rightarrow> bool"
  for journal :: "'t \<Rightarrow> 't \<Rightarrow> bool" where
  storeStepBegin: "storeStep journal db (snd (executeBegin f db))"
| storeStepCommit: "storeStep journal db (snd (executeCommit f db))"
| storeStepRollback: "storeStep journal db (executeRollback f db)"
| storeStepWrite: "journal (visibleTables db) t \<Longrightarrow> storeStep journal db (writeVisible t db)"

abbreviation storeRun :: "('t \<Rightarrow> 't \<Rightarrow> bool) \<Rightarrow> 't database \<Rightarrow> 't database \<Rightarrow> bool" where
  "storeRun journal \<equiv> (storeStep journal)\<^sup>*\<^sup>*"

lemma storeStep_follows: "storeStep journal db db' \<Longrightarrow> followsBy journal db db'"
  by (erule storeStep.cases) (simp_all add: followsBy_begin followsBy_commit followsBy_rollback
      followsBy_writeVisible r_into_rtranclp)

lemma store_begin: "storeRun journal db (snd (executeBegin f db))"
  by (rule r_into_rtranclp [of "storeStep journal", OF storeStepBegin])

lemma store_commit: "storeRun journal db (snd (executeCommit f db))"
  by (rule r_into_rtranclp [of "storeStep journal", OF storeStepCommit])

lemma store_rollback: "storeRun journal db (executeRollback f db)"
  by (rule r_into_rtranclp [of "storeStep journal", OF storeStepRollback])

lemma store_write: "journal (visibleTables db) t \<Longrightarrow> storeRun journal db (writeVisible t db)"
  by (rule r_into_rtranclp [of "storeStep journal", OF storeStepWrite])

lemma writeVisible_active [simp]:
  "transactionActive db \<Longrightarrow> writeVisible t db = writeTables t db"
  by (auto simp: writeVisible_def transactionActive_def split: option.split)

text \<open>A statement inside a transaction that is then committed or rolled back.\<close>

lemma store_write_commit:
  assumes "transactionActive db" "journal (visibleTables db) t"
  shows "storeRun journal db (writeTables t db)"
    and "storeRun journal db (snd (executeCommit f (writeTables t db)))"
    and "storeRun journal db (executeRollback f' (snd (executeCommit f (writeTables t db))))"
    and "storeRun journal db (executeRollback f' (writeTables t db))"
proof -
  show w: "storeRun journal db (writeTables t db)"
    using store_write [where journal = journal and db = db and t = t, OF assms(2)] assms(1) by simp
  show c: "storeRun journal db (snd (executeCommit f (writeTables t db)))"
    by (rule rtranclp_trans [OF w store_commit])
  show "storeRun journal db (executeRollback f' (snd (executeCommit f (writeTables t db))))"
    by (rule rtranclp_trans [OF c store_rollback])
  show "storeRun journal db (executeRollback f' (writeTables t db))"
    by (rule rtranclp_trans [OF w store_rollback])
qed

lemma store_commit_or_undo:
  assumes "storeRun journal db db1" "executeCommit f db1 = (ok, db2)"
  shows "storeRun journal db db2" "storeRun journal db (executeRollback f' db2)"
proof -
  show "storeRun journal db db2"
    using rtranclp_trans [OF assms(1) store_commit, of f] assms(2) by simp
  then show "storeRun journal db (executeRollback f' db2)"
    by (rule rtranclp_trans [OF _ store_rollback])
qed

text \<open>A call that opens its own transaction.\<close>

lemma store_begin_then:
  assumes "executeBegin f db = (True, db0)" "transactionActive db0 \<Longrightarrow> storeRun journal db0 db'"
  shows "storeRun journal db db'"
proof -
  have "storeRun journal db db0" using store_begin [of journal db f] assms(1) by simp
  moreover have "transactionActive db0"
    using assms(1) by (auto simp: executeBegin_def split: if_splits)
  ultimately show ?thesis using assms(2) by (auto intro: rtranclp_trans)
qed

lemma executeBegin_False: "executeBegin f db = (False, db0) \<Longrightarrow> db0 = db"
  by (auto simp: executeBegin_def split: if_splits)

lemma executeBegin_True:
  assumes "executeBegin f db = (True, db0)"
  shows "\<not> transactionActive db" "transactionActive db0" "visibleTables db0 = db_committed db"
    "visibleTables db0 = visibleTables db" "db_committed db0 = db_committed db"
    "db0 = writeTables (db_committed db) db"
  using assms by (auto simp: executeBegin_def writeTables_def visible_begun split: if_splits)

locale journaled_store =
  fixes journal :: "'t \<Rightarrow> 't \<Rightarrow> bool" and step :: "'t database \<Rightarrow> 't database \<Rightarrow> bool"
  assumes step_follows: "step db db' \<Longrightarrow> followsBy journal db db'"
begin

lemma steps_journal:
  assumes "step\<^sup>*\<^sup>* db db'" "transactionFollowsBy journal db"
  shows "journal\<^sup>*\<^sup>* (db_committed db) (db_committed db') \<and> transactionFollowsBy journal db'"
  using assms
proof (induction rule: rtranclp_induct)
  case base
  then show ?case by simp
next
  case (step y z)
  then show ?case
    using followsBy_journal [OF step_follows [OF step.hyps(2)]] by (auto intro: rtranclp_trans)
qed

lemma steps_invariant:
  assumes "\<And>t t'. journal t t' \<Longrightarrow> P t \<Longrightarrow> P t'"
    and "step\<^sup>*\<^sup>* db db'" "transactionFollowsBy journal db" "P (db_committed db)"
  shows "P (db_committed db')"
proof -
  have "journal\<^sup>*\<^sup>* (db_committed db) (db_committed db')"
    using steps_journal [OF assms(2,3)] by simp
  then show ?thesis using assms(4) by (induction rule: rtranclp_induct) (auto dest: assms(1))
qed

end

end
