(* ===== verification/OperationJournal.thy ===== *)
theory OperationJournal
  imports MutationOperationRepository JournaledStore
begin

text \<open>
  The operation store against its abstract specification. \<open>journalStep\<close> is that
  specification: rows are admitted once, payloads are attached once, a row advances along the
  lifecycle with a growing revision. Lemmas: every writing call of the repository, under every
  pattern of engine errors, leaves tables that follow by such steps from those it saw
  (\<open>followsJournal\<close>), hence so does every run of calls (\<open>operationSteps\<close>); journal steps
  keep the tables consistent and let rows only evolve (\<open>tablesEvolve\<close>).
\<close>

section \<open>What each call can do to the database\<close>

lemma reserveInternal_active:
  "fst (executeBegin f db) \<Longrightarrow>
     snd (executeBegin f db) = writeTables (db_committed db) db \<and> \<not> transactionActive db"
  by (auto simp: executeBegin_def writeTables_def split: if_splits)

lemma reserveStored_not_ok: "rr_status (reserveStored failing t e m pl) \<noteq> RepoOk"
  by (simp add: reserveStored_def split: option.split select_result.split)

text \<open>A reservation inside a transaction either writes nothing or gets as far as the inserts.\<close>

lemma reserveInCurrent_cases:
  "(snd (reserveInCurrentTransactionInternal failing db m pl) = db
      \<and> rr_status (fst (reserveInCurrentTransactionInternal failing db m pl)) \<noteq> RepoOk)
   \<or> (transactionActive db \<and> mutationOperationValidForCreate m
      \<and> (\<forall>p. pl = Some p \<longrightarrow> validPayload p \<and> mp_operationId p = mo_operationId m)
      \<and> reserveGate failing (visibleTables db) m = GatePermitted
      \<and> reserveInCurrentTransactionInternal failing db m pl =
         reserveInsert failing db (m\<lparr>mo_operationRevision := ''1''\<rparr>) pl)"
  by (simp add: reserveInCurrentTransactionInternal_def Let_def reserveStored_not_ok
      split: option.splits select_result.split admission_gate.split)

text \<open>The tables after the UPDATE of a transition.\<close>

definition advancedTables ::
  "string \<Rightarrow> nat \<Rightarrow> mutation_operation_state \<Rightarrow> string \<Rightarrow> int \<Rightarrow> operation_tables
     \<Rightarrow> operation_tables" where
  "advancedTables i v nxt ref at t =
     t\<lparr>ot_operations := updateOperationRows i v nxt ref at (ot_operations t)\<rparr>"

lemma transitionWrite_cases:
  "(rr_status (fst (transitionWrite failing db i v current nxt ref at)) \<noteq> RepoOk
      \<and> db_committed (snd (transitionWrite failing db i v current nxt ref at)) = db_committed db
      \<and> db_working (snd (transitionWrite failing db i v current nxt ref at))
          \<in> {None, db_working db, Some (advancedTables i v nxt ref at (visibleTables db))})
   \<or> (changedOperationRows i v (ot_operations (visibleTables db)) = 1
      \<and> transitionWrite failing db i v current nxt ref at =
         (operationResult RepoOk (current\<lparr>mo_operationRevision := decimal (v + 1),
           mo_state := nxt, mo_resultReference := ref, mo_updatedAt := at\<rparr>),
          \<lparr>db_committed = advancedTables i v nxt ref at (visibleTables db), db_working = None\<rparr>))"
  by (simp add: advancedTables_def transitionWrite_def Let_def executeRollback_def writeTables_def
      executeCommit_def split: option.split)

section \<open>The journal as an abstract machine\<close>

text \<open>
  The abstract specification: the journal grows by a fresh accepted row, by the payload of a row
  it holds, or by one permitted change of one row that raises its revision; the maintenance rows
  are somebody else's.
\<close>

inductive journalStep :: "operation_tables \<Rightarrow> operation_tables \<Rightarrow> bool" where
  admit: "mutationOperationValidForCreate m \<Longrightarrow>
     operationConstraints (ot_operations t) (operationRow m) \<Longrightarrow>
     journalStep t (t\<lparr>ot_operations := ot_operations t @ [operationRow m]\<rparr>)"
| attach: "payloadConstraints (ot_payloads t) y \<Longrightarrow>
     yr_operation_id y \<in> or_operation_id ` set (ot_operations t) \<Longrightarrow>
     journalStep t (t\<lparr>ot_payloads := ot_payloads t @ [y]\<rparr>)"
| advance: "find (\<lambda>row. or_operation_id row = cText i) (ot_operations t) = Some r \<Longrightarrow>
     readOperation r = Some current \<Longrightarrow> mo_operationRevision current = decimal v \<Longrightarrow>
     v < int64_max \<Longrightarrow>
     mutationOperationTransitionAllowed (mo_state current) nxt \<Longrightarrow>
     mo_updatedAt current \<le> at \<Longrightarrow> length ref \<le> kMaxResultReferenceLength \<Longrightarrow>
     journalStep t (advancedTables i v nxt ref at t)"
| maintain: "journalStep t (t\<lparr>ot_maintenance := rows\<rparr>)"

abbreviation journalSteps :: "operation_tables \<Rightarrow> operation_tables \<Rightarrow> bool" where
  "journalSteps \<equiv> journalStep\<^sup>*\<^sup>*"

text \<open>What a call may leave behind: committed tables that are the old ones or follow from what it
  saw, and an open transaction's tables that do so too.\<close>

definition followsJournal :: "operation_tables database \<Rightarrow> operation_tables database \<Rightarrow> bool" where
  "followsJournal db db' \<longleftrightarrow>
     (db_committed db' = db_committed db \<or> journalSteps (visibleTables db) (db_committed db'))
     \<and> (\<forall>w. db_working db' = Some w \<longrightarrow> journalSteps (visibleTables db) w)"

lemma operationRow_revision [simp]:
  "operationRow (m\<lparr>mo_operationRevision := x\<rparr>) = operationRow m"
  by (simp add: operationRow_def)

lemma insertOperation_step:
  "insertOperation failing t (m\<lparr>mo_operationRevision := x\<rparr>) = Some t1 \<Longrightarrow>
     mutationOperationValidForCreate m \<Longrightarrow>
     journalStep t t1 \<and> operationConstraints (ot_operations t) (operationRow m)
       \<and> t1 = t\<lparr>ot_operations := ot_operations t @ [operationRow m]\<rparr>"
  by (auto simp: insertOperation_def intro: journalStep.admit split: if_splits)

lemma insertPayload_step:
  assumes "insertPayload failing t1 p = Some t2"
    and "cText (mp_operationId p) \<in> or_operation_id ` set (ot_operations t1)"
  shows "journalStep t1 t2 \<and> t2 = t1\<lparr>ot_payloads := ot_payloads t1 @ [payloadRow p]\<rparr>"
proof -
  have "payloadConstraints (ot_payloads t1) (payloadRow p)"
    and t2: "t2 = t1\<lparr>ot_payloads := ot_payloads t1 @ [payloadRow p]\<rparr>"
    using assms(1) by (auto simp: insertPayload_def split: if_splits)
  moreover have "yr_operation_id (payloadRow p) \<in> or_operation_id ` set (ot_operations t1)"
    using assms(2) by (simp add: payloadRow_def)
  ultimately show ?thesis by (simp add: journalStep.attach)
qed

text \<open>Both inserts of one reservation.\<close>

lemma insert_both_steps:
  assumes "insertOperation failing t (m\<lparr>mo_operationRevision := x\<rparr>) = Some t1"
    and "mutationOperationValidForCreate m" "mp_operationId p = mo_operationId m"
    and "insertPayload failing t1 p = Some t2"
  shows "journalSteps t t2"
    and "t2 = t\<lparr>ot_operations := ot_operations t @ [operationRow m],
              ot_payloads := ot_payloads t @ [payloadRow p]\<rparr>"
proof -
  note a = insertOperation_step [OF assms(1,2)]
  have "cText (mp_operationId p) \<in> or_operation_id ` set (ot_operations t1)"
    using a assms(3) by (simp add: operationRow_def)
  note b = insertPayload_step [OF assms(4) this]
  show "journalSteps t t2" using a b by (meson r_into_rtranclp rtranclp.rtrancl_into_rtrancl)
  show "t2 = t\<lparr>ot_operations := ot_operations t @ [operationRow m],
              ot_payloads := ot_payloads t @ [payloadRow p]\<rparr>"
    using a b by simp
qed

lemma reserveInsert_follows:
  assumes "mutationOperationValidForCreate m"
    and "\<And>p. pl = Some p \<Longrightarrow> mp_operationId p = mo_operationId m"
  shows "snd (reserveInsert failing db (m\<lparr>mo_operationRevision := x\<rparr>) pl) = db
     \<or> (\<exists>w. snd (reserveInsert failing db (m\<lparr>mo_operationRevision := x\<rparr>) pl) = writeTables w db
          \<and> journalSteps (visibleTables db) w)"
proof (cases "insertOperation failing (visibleTables db) (m\<lparr>mo_operationRevision := x\<rparr>)")
  case None
  then show ?thesis by (simp add: reserveInsert_def)
next
  case (Some t1)
  then have s1: "journalSteps (visibleTables db) t1"
    using insertOperation_step [OF Some assms(1)] by blast
  show ?thesis
  proof (cases pl)
    case None
    then show ?thesis using Some s1 by (auto simp: reserveInsert_def)
  next
    case p: (Some p)
    show ?thesis
    proof (cases "insertPayload failing t1 p")
      case None
      then show ?thesis using Some p s1 by (auto simp: reserveInsert_def)
    next
      case t2: (Some t2)
      have "journalSteps (visibleTables db) t2"
        by (rule insert_both_steps(1) [OF Some assms(1) assms(2) [OF p] t2])
      then show ?thesis using Some p t2 by (auto simp: reserveInsert_def)
    qed
  qed
qed

lemma reserveInCurrent_follows:
  "snd (reserveInCurrentTransactionInternal failing db m pl) = db
   \<or> (\<exists>w. snd (reserveInCurrentTransactionInternal failing db m pl) = writeTables w db
        \<and> transactionActive db \<and> journalSteps (visibleTables db) w)"
  using reserveInCurrent_cases [of failing db m pl] reserveInsert_follows [of m pl failing db]
  by fastforce

lemma followsJournal_refl: "followsJournal db db"
  by (auto simp: followsJournal_def visible_working)

lemma reserveInternal_follows: "followsJournal db (snd (reserveInternal failing db m pl))"
proof (cases "fst (executeBegin (failing CallBegin) db)")
  case False
  then show ?thesis
    by (auto simp: reserveInternal_def executeBegin_def followsJournal_refl split: if_splits)
next
  case True
  let ?db0 = "writeTables (db_committed db) db"
  note b = reserveInternal_active [OF True]
  obtain res db1 where r: "reserveInCurrentTransactionInternal failing ?db0 m pl = (res, db1)"
    by fastforce
  have "\<exists>w. db1 = writeTables w db \<and> journalSteps (db_committed db) w"
    using reserveInCurrent_follows [of failing ?db0 m pl] by (fastforce simp: r)
  then obtain w where w: "db1 = writeTables w db" "journalSteps (db_committed db) w" by blast
  have begun: "executeBegin (failing CallBegin) db = (True, ?db0)"
    using True b by (simp add: prod_eq_iff)
  have vis: "visibleTables db = db_committed db" using b by (simp add: visible_begun)
  have "snd (reserveInternal failing db m pl) \<in>
      {db1, executeRollback True db1, executeRollback False db1, \<lparr>db_committed = w, db_working = None\<rparr>}"
    by (simp add: reserveInternal_def begun r w(1) executeRollback_def)
  then show ?thesis using w vis
    by (auto simp: followsJournal_def executeRollback_def writeTables_def)
qed


section \<open>Rows and revisions\<close>

lemma readOperation_iff:
  "readOperation r = Some m \<longleftrightarrow>
     0 < or_backend_generation r \<and> mutationOperationValidDurable m
     \<and> cText (or_verification_policy r)
         = mutationOperationVerificationPolicyName (mo_verificationPolicy m)
     \<and> cText (or_state r) = mutationOperationStateName (mo_state m)
     \<and> mo_operationId m = cText (or_operation_id r)
     \<and> mo_idempotencyKey m = cText (or_idempotency_key r)
     \<and> mo_actorId m = cText (or_actor_id r)
     \<and> mo_backendId m = cText (or_backend_id r)
     \<and> mo_resourceType m = cText (or_resource_type r)
     \<and> mo_resourceId m = cText (or_resource_id r)
     \<and> mo_expectedRevision m = cText (or_expected_revision r)
     \<and> mo_expectedResourceFingerprint m = cText (or_expected_resource_fingerprint r)
     \<and> mo_actionFamily m = cText (or_action_family r)
     \<and> mo_requestFingerprint m = cText (or_request_fingerprint r)
     \<and> mo_resultReference m = cText (or_result_reference r)
     \<and> mo_backendGeneration m = word_of_int (or_backend_generation r)
     \<and> mo_requestedAt m = or_requested_at r \<and> mo_deadline m = or_deadline r
     \<and> mo_updatedAt m = or_updated_at r
     \<and> mo_operationRevision m = to_string (or_operation_revision r)" (is "_ \<longleftrightarrow> ?R")
proof
  assume "readOperation r = Some m"
  then show ?R by (auto simp: readOperation_def Let_def codec_simps split: if_splits option.splits)
next
  assume ?R
  then show "readOperation r = Some m"
    by (cases m) (simp add: readOperation_def Let_def)
qed

lemma readOperation_fields:
  assumes "readOperation r = Some m"
  shows "mutationOperationValidDurable m" and "mo_operationId m = cText (or_operation_id r)"
    and "mo_operationRevision m = to_string (or_operation_revision r)"
    and "mutationOperationStateFromName (cText (or_state r)) = Some (mo_state m)"
    and "mo_updatedAt m = or_updated_at r"
    and "mo_resultReference m = cText (or_result_reference r)"
  using assms by (simp_all add: readOperation_iff codec_simps)

lemma parseRevision_decimal:
  "parseRevision (decimal n) = Some v \<Longrightarrow> v = n \<and> 0 < n \<and> n \<le> int64_max"
  using accumulateDigits_decimal_inverse [of int64_max n v]
    accumulateDigits_le [of int64_max 0 "decimal n" v]
  by (auto simp: parseRevision_def split: if_splits option.splits)

lemma parseRevision_read:
  assumes "readOperation r = Some m" "parseRevision (mo_operationRevision m) = Some v"
  shows "or_operation_revision r = int v" and "mo_operationRevision m = decimal v" and "0 < v"
    and "v \<le> int64_max"
proof -
  have rev: "mo_operationRevision m = to_string (or_operation_revision r)"
    by (rule readOperation_fields(3) [OF assms(1)])
  have "parseOperationRevision (mo_operationRevision m)"
    using readOperation_fields(1) [OF assms(1)] by (simp add: mutationOperationValidDurable_def)
  then have "or_operation_revision r \<ge> 0"
    by (auto simp: rev to_string_def parseOperationRevision_def split: if_splits option.splits)
  then obtain n where n: "or_operation_revision r = int n" by (metis nonneg_int_cases)
  have "mo_operationRevision m = decimal n" using n by (simp add: rev to_string_of_nat)
  moreover from this assms(2) have "v = n \<and> 0 < n \<and> n \<le> int64_max"
    by (intro parseRevision_decimal) simp
  ultimately show "or_operation_revision r = int v" "mo_operationRevision m = decimal v" "0 < v"
    "v \<le> int64_max"
    using n by simp_all
qed

text \<open>A transition either stops before its UPDATE, or all its checks have passed.\<close>

lemma transition_cases:
  "(rr_status (fst (transition failing db i tok st nxt ref at)) \<noteq> RepoOk
     \<and> (snd (transition failing db i tok st nxt ref at) = db
        \<or> (\<not> transactionActive db \<and> snd (transition failing db i tok st nxt ref at)
             = executeRollback (failing CallRollback) (writeTables (db_committed db) db))))
   \<or> (\<not> transactionActive db \<and> (\<exists>v current. parseRevision tok = Some v
        \<and> length ref \<le> kMaxResultReferenceLength
        \<and> selectById failing (db_committed db) i = SelectFound current
        \<and> mo_operationRevision current = tok \<and> mo_state current = st
        \<and> mutationOperationTransitionAllowed st nxt
        \<and> mo_updatedAt current \<le> at \<and> v \<noteq> int64_max
        \<and> transition failing db i tok st nxt ref at =
            transitionWrite failing (writeTables (db_committed db) db) i v current nxt ref at))"
  by (simp add: transition_def Let_def executeBegin_def writeTables_def [symmetric]
      split: option.split select_result.split)

lemma transition_follows:
  "followsJournal db (snd (transition failing db i tok st nxt ref at))"
proof -
  consider (stopped) "snd (transition failing db i tok st nxt ref at) = db"
    | (undone) "\<not> transactionActive db" "snd (transition failing db i tok st nxt ref at)
          = executeRollback (failing CallRollback) (writeTables (db_committed db) db)"
    | (reached) v current where "\<not> transactionActive db" "parseRevision tok = Some v"
        "length ref \<le> kMaxResultReferenceLength"
        "selectById failing (db_committed db) i = SelectFound current"
        "mo_operationRevision current = tok" "mo_state current = st"
        "mutationOperationTransitionAllowed st nxt" "mo_updatedAt current \<le> at" "v \<noteq> int64_max"
        "transition failing db i tok st nxt ref at =
            transitionWrite failing (writeTables (db_committed db) db) i v current nxt ref at"
    using transition_cases [of failing db i tok st nxt ref at] by blast
  then show ?thesis
  proof cases
    case stopped
    then show ?thesis by (simp add: followsJournal_refl)
  next
    case undone
    then show ?thesis
      by (auto simp: followsJournal_def executeRollback_def writeTables_def visible_begun)
  next
    case reached
    let ?t = "db_committed db"
    obtain r where r: "find (\<lambda>row. or_operation_id row = cText i) (ot_operations ?t) = Some r"
      "readOperation r = Some current"
      using reached(4) by (auto simp: selectById_def selectFirst_Found)
    have "mo_operationRevision current = decimal v" "v \<le> int64_max"
      using parseRevision_read [OF r(2)] reached(2,5) by simp_all
    then have step: "journalStep ?t (advancedTables i v nxt ref at ?t)"
      using reached r by (intro journalStep.advance [OF r]) simp_all
    show ?thesis
      using transitionWrite_cases [of failing "writeTables ?t db" i v current nxt ref at] step
      by (auto simp: followsJournal_def reached(10) visible_begun [OF reached(1)])
        (auto simp: writeTables_def)
  qed
qed


section \<open>The store as a machine\<close>

text \<open>
  Everything that happens to the tables: the repository's writing calls under any engine errors, a
  coordinator's own begin, commit and rollback around
  \<open>reserveWithPayloadInCurrentTransaction\<close>, and an administrator's change of the maintenance
  rows.
\<close>

definition setMaintenance ::
  "maintenance_row list \<Rightarrow> operation_tables database \<Rightarrow> operation_tables database" where
  "setMaintenance rows db =
     (case db_working db of
        None \<Rightarrow> db\<lparr>db_committed := (db_committed db)\<lparr>ot_maintenance := rows\<rparr>\<rparr>
      | Some t \<Rightarrow> db\<lparr>db_working := Some (t\<lparr>ot_maintenance := rows\<rparr>)\<rparr>)"

inductive operationStep :: "operation_tables database \<Rightarrow> operation_tables database \<Rightarrow> bool" where
  stepReserve: "operationStep db (snd (reserve failing db m))"
| stepReserveWithPayload: "operationStep db (snd (reserveWithPayload failing db m p))"
| stepReserveInCurrent:
    "operationStep db (snd (reserveWithPayloadInCurrentTransaction failing db m p))"
| stepTransition: "operationStep db (snd (transition failing db i tok st nxt ref at))"
| stepBegin: "operationStep db (snd (executeBegin f db))"
| stepCommit: "operationStep db (snd (executeCommit f db))"
| stepRollback: "operationStep db (executeRollback f db)"
| stepMaintenance: "operationStep db (setMaintenance rows db)"

abbreviation operationSteps :: "operation_tables database \<Rightarrow> operation_tables database \<Rightarrow> bool" where
  "operationSteps \<equiv> operationStep\<^sup>*\<^sup>*"

abbreviation transactionFollows :: "operation_tables database \<Rightarrow> bool" where
  "transactionFollows \<equiv> transactionFollowsBy journalStep"

lemma followsJournal_closed:
  "followsJournal db db' \<Longrightarrow> db_committed db' = db_committed db \<or> db_working db' = None \<Longrightarrow>
     followsBy journalStep db db'"
  by (auto simp: followsJournal_def followsBy_def)

lemma reserveInternal_closes:
  "db_committed (snd (reserveInternal failing db m pl)) = db_committed db
     \<or> db_working (snd (reserveInternal failing db m pl)) = None"
proof (cases "fst (executeBegin (failing CallBegin) db)")
  case False
  then show ?thesis by (auto simp: reserveInternal_def executeBegin_def split: if_splits)
next
  case True
  let ?db0 = "snd (executeBegin (failing CallBegin) db)"
  have "db_committed (snd (reserveInCurrentTransactionInternal failing ?db0 m pl)) = db_committed db"
    using reserveInCurrent_follows [of failing ?db0 m pl] by auto
  with True show ?thesis
    by (auto simp: reserveInternal_def executeCommit_def split: prod.splits option.split if_splits)
qed

lemma transition_closes:
  "db_committed (snd (transition failing db i tok st nxt ref at)) = db_committed db
     \<or> db_working (snd (transition failing db i tok st nxt ref at)) = None"
  using transition_cases [of failing db i tok st nxt ref at]
    transitionWrite_cases [of failing "writeTables (db_committed db) db" i _ _ nxt ref at]
  by fastforce

text \<open>The refinement: whole runs of the store are runs of the journal.\<close>

lemma operationStep_follows:
  assumes "operationStep db db'"
  shows "followsBy journalStep db db'"
  using assms
proof cases
  case (stepReserve failing m)
  then show ?thesis
    using followsJournal_closed [OF reserveInternal_follows reserveInternal_closes]
    by (simp add: reserve_def)
next
  case (stepReserveWithPayload failing m p)
  then show ?thesis
    using followsJournal_closed [OF reserveInternal_follows reserveInternal_closes]
    by (simp add: reserveWithPayload_def)
next
  case (stepReserveInCurrent failing m p)
  then show ?thesis
    using reserveInCurrent_follows [of failing db m "Some p"] followsBy_refl [of journalStep db]
    by (auto simp: reserveWithPayloadInCurrentTransaction_def followsBy_def writeTables_def)
next
  case (stepTransition failing i tok st nxt ref at)
  then show ?thesis using followsJournal_closed [OF transition_follows transition_closes] by simp
next
  case (stepMaintenance rows)
  then show ?thesis
    by (auto simp: setMaintenance_def followsBy_def visibleTables_def journalStep.maintain
        split: option.split)
qed (simp_all add: followsBy_begin followsBy_commit followsBy_rollback)

interpretation operation_store: journaled_store journalStep operationStep
  by unfold_locales (rule operationStep_follows)

lemmas operationSteps_journal = operation_store.steps_journal

section \<open>Consistent tables\<close>

definition tablesConsistent :: "operation_tables \<Rightarrow> bool" where
  "tablesConsistent t \<longleftrightarrow>
     distinct (map or_operation_id (ot_operations t))
     \<and> distinct (map rowScope (ot_operations t))
     \<and> distinct (map yr_operation_id (ot_payloads t))
     \<and> yr_operation_id ` set (ot_payloads t) \<subseteq> or_operation_id ` set (ot_operations t)
     \<and> list_all operationChecks (ot_operations t)"

lemma updateOperationRows_keys [simp]:
  "map or_operation_id (updateOperationRows i v nxt ref at rows) = map or_operation_id rows"
  "map rowScope (updateOperationRows i v nxt ref at rows) = map rowScope rows"
  by (simp_all add: updateOperationRows_def rowScope_def)

lemma updateOperationRows_ids [simp]:
  "or_operation_id ` set (updateOperationRows i v nxt ref at rows) = or_operation_id ` set rows"
  using arg_cong [OF updateOperationRows_keys(1), of set] by (simp only: set_map)

lemma stateName_nulFree [simp]: "nulFree (mutationOperationStateName s)"
  by (cases s) (simp_all add: nulFree_def)

lemma advanced_row_checks:
  "operationChecks row \<Longrightarrow> operationChecks (row\<lparr>or_operation_revision := int (v + 1),
     or_state := mutationOperationStateName nxt, or_result_reference := ref, or_updated_at := at\<rparr>)"
  by (cases nxt) (simp_all add: operationChecks_def)

lemma updateOperationRows_checks:
  "list_all operationChecks rows \<Longrightarrow>
     list_all operationChecks (updateOperationRows i v nxt ref at rows)"
  using advanced_row_checks
  by (auto simp: updateOperationRows_def list_all_iff simp del: of_nat_add of_nat_Suc)

lemma journalStep_consistent:
  "journalStep t t' \<Longrightarrow> tablesConsistent t \<Longrightarrow> tablesConsistent t'"
  by (induction rule: journalStep.induct)
    (auto simp: tablesConsistent_def operationConstraints_def payloadConstraints_def
      advancedTables_def updateOperationRows_checks)

lemma journalSteps_consistent:
  "journalSteps t t' \<Longrightarrow> tablesConsistent t \<Longrightarrow> tablesConsistent t'"
  by (induction rule: rtranclp_induct) (auto dest: journalStep_consistent)


section \<open>How rows evolve\<close>

definition rowState :: "operation_row \<Rightarrow> mutation_operation_state option" where
  "rowState r = mutationOperationStateFromName (cText (or_state r))"

text \<open>Equal apart from the four columns a transition writes.\<close>

definition sameRequestRow :: "operation_row \<Rightarrow> operation_row \<Rightarrow> bool" where
  "sameRequestRow r r' \<longleftrightarrow>
     r'\<lparr>or_operation_revision := or_operation_revision r, or_state := or_state r,
        or_result_reference := or_result_reference r, or_updated_at := or_updated_at r\<rparr> = r"

definition rowAdvances :: "operation_row \<Rightarrow> operation_row \<Rightarrow> bool" where
  "rowAdvances r r' \<longleftrightarrow>
     sameRequestRow r r'
     \<and> or_operation_revision r < or_operation_revision r'
     \<and> or_updated_at r \<le> or_updated_at r'
     \<and> (\<exists>s ts. rowState r = Some s \<and> permittedHistory mutationOperationTransitionAllowed s ts
          \<and> rowState r' = Some (last (s # ts)))
     \<and> (readOperation r \<noteq> None \<longrightarrow> readOperation r' \<noteq> None)"

definition rowEvolves :: "operation_row \<Rightarrow> operation_row \<Rightarrow> bool" where
  "rowEvolves r r' \<longleftrightarrow> r' = r \<or> rowAdvances r r'"

definition tablesEvolve :: "operation_tables \<Rightarrow> operation_tables \<Rightarrow> bool" where
  "tablesEvolve t t' \<longleftrightarrow>
     (\<forall>r \<in> set (ot_operations t). \<exists>r' \<in> set (ot_operations t'). rowEvolves r r')
     \<and> set (ot_payloads t) \<subseteq> set (ot_payloads t')"

lemma sameRequestRow_trans: "sameRequestRow r s \<Longrightarrow> sameRequestRow s t \<Longrightarrow> sameRequestRow r t"
  by (cases r; cases s; cases t) (simp add: sameRequestRow_def)

lemma rowAdvances_trans:
  assumes "rowAdvances r s" "rowAdvances s t"
  shows "rowAdvances r t"
proof -
  obtain a as where 1: "rowState r = Some a"
    "permittedHistory mutationOperationTransitionAllowed a as" "rowState s = Some (last (a # as))"
    using assms(1) unfolding rowAdvances_def by (elim conjE exE) rule
  obtain b bs where 2: "rowState s = Some b"
    "permittedHistory mutationOperationTransitionAllowed b bs" "rowState t = Some (last (b # bs))"
    using assms(2) unfolding rowAdvances_def by (elim conjE exE) rule
  have b: "b = last (a # as)" using 1(3) 2(1) by simp
  have "permittedHistory mutationOperationTransitionAllowed a (as @ bs)"
    using 1(2) 2(2) b by (simp add: permittedHistory_append)
  moreover have "last (b # bs) = last (a # as @ bs)" using b by simp
  ultimately have "\<exists>s ts. rowState r = Some s
      \<and> permittedHistory mutationOperationTransitionAllowed s ts
      \<and> rowState t = Some (last (s # ts))"
    using 1(1) 2(3) by (intro exI [of _ a] exI [of _ "as @ bs"]) simp
  then show ?thesis
    using assms sameRequestRow_trans [of r s t] by (simp add: rowAdvances_def)
qed

lemma rowEvolves_trans: "rowEvolves r s \<Longrightarrow> rowEvolves s t \<Longrightarrow> rowEvolves r t"
  using rowAdvances_trans by (auto simp: rowEvolves_def)

lemma tablesEvolve_trans: "tablesEvolve t u \<Longrightarrow> tablesEvolve u v \<Longrightarrow> tablesEvolve t v"
  unfolding tablesEvolve_def by (meson rowEvolves_trans subset_trans)

lemma tablesEvolve_refl: "tablesEvolve t t"
  by (auto simp: tablesEvolve_def rowEvolves_def)

text \<open>The row a transition writes can be read again.\<close>

lemma advanced_row_read:
  assumes "readOperation r = Some m" "mo_operationRevision m = decimal v" "v < int64_max"
    and "mo_updatedAt m \<le> at" "length ref \<le> kMaxResultReferenceLength"
  shows "readOperation (r\<lparr>or_operation_revision := int (v + 1),
       or_state := mutationOperationStateName nxt, or_result_reference := cText ref,
       or_updated_at := at\<rparr>)
     = Some (m\<lparr>mo_operationRevision := decimal (v + 1), mo_state := nxt,
         mo_resultReference := cText ref, mo_updatedAt := at\<rparr>)"
proof -
  let ?m = "m\<lparr>mo_operationRevision := decimal (v + 1), mo_state := nxt,
    mo_resultReference := cText ref, mo_updatedAt := at\<rparr>"
  have "commonValid m" using assms(1) by (simp add: readOperation_iff mutationOperationValidDurable_def)
  then have "commonValid ?m"
    using length_cText [of ref] assms(4,5) by (simp add: commonValid_def split: if_splits)
  then have "mutationOperationValidDurable ?m"
    using assms(3) by (simp add: mutationOperationValidDurable_def codec_simps)
  then show ?thesis
    using assms(1) to_string_of_nat [of "v + 1"] by (simp add: readOperation_iff)
qed


text \<open>The row with a given revision, after a transition.\<close>

definition advancedRow ::
  "nat \<Rightarrow> mutation_operation_state \<Rightarrow> string \<Rightarrow> int \<Rightarrow> operation_row \<Rightarrow> operation_row" where
  "advancedRow v nxt ref at r =
     r\<lparr>or_operation_revision := int (v + 1), or_state := mutationOperationStateName nxt,
       or_result_reference := cText ref, or_updated_at := at\<rparr>"

lemma update_exactly_one:
  assumes "distinct (map or_operation_id rows)"
    and "find (\<lambda>row. or_operation_id row = cText i) rows = Some r"
    and "or_operation_revision r = int v"
  shows "updateOperationRows i v nxt ref at rows =
       map (\<lambda>x. if x = r then advancedRow v nxt ref at r else x) rows"
    and "changedOperationRows i v rows = 1"
proof -
  have "updateOperationRows i v nxt ref at rows =
      map (\<lambda>x. if or_operation_id x = cText i \<and> or_operation_revision x = int v
        then advancedRow v nxt ref at x else x) rows"
    by (simp add: updateOperationRows_def advancedRow_def)
  then show "updateOperationRows i v nxt ref at rows =
      map (\<lambda>x. if x = r then advancedRow v nxt ref at r else x) rows"
    by (simp only: update_unique_row(1) [where Q = "\<lambda>x. or_operation_revision x = int v",
          OF assms])
  show "changedOperationRows i v rows = 1"
    unfolding changedOperationRows_def
    by (rule update_unique_row(2) [where Q = "\<lambda>x. or_operation_revision x = int v", OF assms])
qed

lemma advancedRow_advances:
  assumes "readOperation r = Some m" "mo_operationRevision m = decimal v" "v < int64_max"
    and "mo_updatedAt m \<le> at" "length ref \<le> kMaxResultReferenceLength"
    and "mutationOperationTransitionAllowed (mo_state m) nxt"
  shows "rowAdvances r (advancedRow v nxt ref at r)"
proof -
  have rev: "or_operation_revision r = int v"
    using readOperation_fields(3) [OF assms(1)] assms(2) to_string_of_nat [of v] to_string_inject
    by metis
  have "\<exists>s ts. rowState r = Some s \<and> permittedHistory mutationOperationTransitionAllowed s ts
      \<and> rowState (advancedRow v nxt ref at r) = Some (last (s # ts))"
    using readOperation_fields(4) [OF assms(1)] assms(6)
    by (intro exI [of _ "mo_state m"] exI [of _ "[nxt]"]) (simp add: rowState_def advancedRow_def)
  moreover have "readOperation (advancedRow v nxt ref at r) \<noteq> None"
    using advanced_row_read [OF assms(1-5)] by (simp add: advancedRow_def)
  ultimately show ?thesis
    using rev readOperation_fields(5) [OF assms(1)] assms(4)
    by (simp add: rowAdvances_def sameRequestRow_def advancedRow_def)
qed

lemma journalStep_evolve:
  assumes "journalStep t t'" "tablesConsistent t"
  shows "tablesEvolve t t'"
  using assms
proof cases
  case (admit m)
  then show ?thesis by (auto simp: tablesEvolve_def rowEvolves_def)
next
  case (attach y)
  then show ?thesis by (auto simp: tablesEvolve_def rowEvolves_def)
next
  case (advance i r current v nxt at ref)
  have rev: "or_operation_revision r = int v"
    using readOperation_fields(3) [OF advance(3)] advance(4) to_string_of_nat [of v] to_string_inject
    by metis
  have "distinct (map or_operation_id (ot_operations t))"
    using assms(2) by (simp add: tablesConsistent_def)
  note upd = update_exactly_one(1) [OF this advance(2) rev, of nxt ref at]
  have adv: "rowAdvances r (advancedRow v nxt ref at r)"
    by (rule advancedRow_advances [OF advance(3,4,5,7,8,6)])
  show ?thesis
    using adv by (auto simp: advance(1) advancedTables_def upd tablesEvolve_def rowEvolves_def)
next
  case (maintain rows)
  then show ?thesis by (auto simp: tablesEvolve_def rowEvolves_def)
qed

lemma journalSteps_evolve: "journalSteps t t' \<Longrightarrow> tablesConsistent t \<Longrightarrow> tablesEvolve t t'"
proof (induction rule: rtranclp_induct)
  case base
  then show ?case by (simp add: tablesEvolve_refl)
next
  case (step u v)
  then show ?case
    using journalStep_evolve journalSteps_consistent tablesEvolve_trans by blast
qed

end
