(* ===== verification/RevisionFence.thy ===== *)
theory RevisionFence
  imports Main
begin

text \<open>
  The contract of optimistic concurrency every repository with revision tokens keeps, as a locale:
  from it follows that no update is lost between two writers. The operation, intent
  and assignment stores interpret it.
\<close>

section \<open>Fenced revisions\<close>

text \<open>
  The contract of optimistic concurrency: revisions never fall, and a change accepted under an
  expected revision found exactly that revision and raised it.
\<close>

locale revision_fenced =
  fixes step :: "'s \<Rightarrow> 's \<Rightarrow> bool"
    and sound :: "'s \<Rightarrow> bool"
    and revision :: "'s \<Rightarrow> int"
    and accepted :: "'s \<Rightarrow> int \<Rightarrow> 's \<Rightarrow> bool"
  assumes step_sound: "step s s' \<Longrightarrow> sound s \<Longrightarrow> sound s'"
    and step_mono: "step s s' \<Longrightarrow> sound s \<Longrightarrow> revision s \<le> revision s'"
    and accepted_step: "accepted s v s' \<Longrightarrow> step s s'"
    and accepted_fence: "accepted s v s' \<Longrightarrow> sound s \<Longrightarrow> revision s = v \<and> v < revision s'"
begin

lemma steps_mono: "step\<^sup>*\<^sup>* s s' \<Longrightarrow> sound s \<Longrightarrow> sound s' \<and> revision s \<le> revision s'"
  by (induction rule: rtranclp_induct) (use step_sound step_mono in force)+

lemma no_lost_update:
  assumes "sound s" "accepted s v s1" "step\<^sup>*\<^sup>* s1 s2" "accepted s2 w s3"
  shows "v < w"
proof -
  have s1: "sound s1" "v < revision s1"
    using assms(1,2) accepted_step step_sound accepted_fence by blast+
  then have "sound s2" "revision s1 \<le> revision s2" using steps_mono [OF assms(3)] by auto
  then show ?thesis using accepted_fence [OF assms(4)] s1 by simp
qed

end

end
