(* ===== verification/OperationFence.thy ===== *)
theory OperationFence
  imports OperationJournal RevisionFence
begin

text \<open>
  The interpretation of \<open>revision_fenced\<close> on the operation store, and what an accepted transition or reservation found and wrote
  (\<open>transition_ok\<close>, \<open>reserveInternal_ok\<close>); the round trip of rows without zero bytes.
\<close>

section \<open>Sound databases\<close>

definition databaseSound :: "operation_tables database \<Rightarrow> bool" where
  "databaseSound db \<longleftrightarrow> tablesConsistent (db_committed db) \<and> transactionFollows db"

lemma operationSteps_sound:
  assumes "operationSteps db db'" "databaseSound db"
  shows "databaseSound db'" and "tablesEvolve (db_committed db) (db_committed db')"
  using operationSteps_journal [OF assms(1)] assms(2) journalSteps_consistent journalSteps_evolve
  by (auto simp: databaseSound_def)

text \<open>The row of an operation identifier, and its revision (0 when there is none).\<close>

definition operationRowOf :: "string \<Rightarrow> operation_tables \<Rightarrow> operation_row option" where
  "operationRowOf i t = find (\<lambda>row. or_operation_id row = cText i) (ot_operations t)"

definition storedRevision :: "string \<Rightarrow> operation_tables database \<Rightarrow> int" where
  "storedRevision i db =
     (case operationRowOf i (db_committed db) of None \<Rightarrow> 0 | Some r \<Rightarrow> or_operation_revision r)"

lemma operationRowOf_Some:
  assumes "tablesConsistent t" 
  shows "operationRowOf i t = Some r \<longleftrightarrow>
    r \<in> set (ot_operations t) \<and> or_operation_id r = cText i"
proof
  assume "operationRowOf i t = Some r"
  then show "r \<in> set (ot_operations t) \<and> or_operation_id r = cText i"
    unfolding operationRowOf_def by (rule find_Some_in)
next
  assume r: "r \<in> set (ot_operations t) \<and> or_operation_id r = cText i"
  have "distinct (map or_operation_id (ot_operations t))"
    using assms by (simp add: tablesConsistent_def)
  from find_unique_key [OF this conjunct1 [OF r]] r show "operationRowOf i t = Some r"
    by (simp add: operationRowOf_def)
qed

lemma rowEvolves_id: "rowEvolves r r' \<Longrightarrow> or_operation_id r' = or_operation_id r"
  by (cases r; cases r') (auto simp: rowEvolves_def rowAdvances_def sameRequestRow_def)

lemma rowEvolves_scope: "rowEvolves r r' \<Longrightarrow> rowScope r' = rowScope r"
  by (cases r; cases r')
    (auto simp: rowEvolves_def rowAdvances_def sameRequestRow_def rowScope_def)

lemma operationRowOf_evolves:
  assumes "operationSteps db db'" "databaseSound db"
    and "operationRowOf i (db_committed db) = Some r"
  obtains r' where "operationRowOf i (db_committed db') = Some r'" "rowEvolves r r'"
proof -
  have c: "tablesConsistent (db_committed db)" "tablesConsistent (db_committed db')"
    using operationSteps_sound(1) [OF assms(1,2)] assms(2) by (simp_all add: databaseSound_def)
  have r: "r \<in> set (ot_operations (db_committed db))" "or_operation_id r = cText i"
    using assms(3) operationRowOf_Some [OF c(1)] by auto
  obtain r' where "r' \<in> set (ot_operations (db_committed db'))" "rowEvolves r r'"
    using operationSteps_sound(2) [OF assms(1,2)] r(1) by (auto simp: tablesEvolve_def)
  then show thesis
    using that operationRowOf_Some [OF c(2)] rowEvolves_id r(2) by simp
qed

section \<open>Accepted transitions\<close>

text \<open>What an accepted transition found, and what it wrote.\<close>

lemma transition_ok:
  assumes "transition failing db i tok st nxt ref at = (res, db')" "rr_status res = RepoOk"
    and "databaseSound db"
  obtains v current r where "\<not> transactionActive db" "parseRevision tok = Some v"
    "operationRowOf i (db_committed db) = Some r" "readOperation r = Some current"
    "mo_operationRevision current = tok" "tok = decimal v" "or_operation_revision r = int v"
    "v < int64_max" "mo_state current = st" "mutationOperationTransitionAllowed st nxt"
    "mo_updatedAt current \<le> at" "length ref \<le> kMaxResultReferenceLength"
    "rr_operation res = current\<lparr>mo_operationRevision := decimal (v + 1), mo_state := nxt,
       mo_resultReference := ref, mo_updatedAt := at\<rparr>"
    "db' = \<lparr>db_committed = (db_committed db)\<lparr>ot_operations :=
        map (\<lambda>x. if x = r then advancedRow v nxt ref at r else x)
          (ot_operations (db_committed db))\<rparr>, db_working = None\<rparr>"
proof -
  obtain v current where *: "\<not> transactionActive db" "parseRevision tok = Some v"
    "length ref \<le> kMaxResultReferenceLength"
    "selectById failing (db_committed db) i = SelectFound current"
    "mo_operationRevision current = tok" "mo_state current = st"
    "mutationOperationTransitionAllowed st nxt" "mo_updatedAt current \<le> at" "v \<noteq> int64_max"
    "transition failing db i tok st nxt ref at =
        transitionWrite failing (writeTables (db_committed db) db) i v current nxt ref at"
    using transition_cases [of failing db i tok st nxt ref at] assms(1,2) by auto
  obtain r where r: "operationRowOf i (db_committed db) = Some r" "readOperation r = Some current"
    using *(4) by (auto simp: selectById_def selectFirst_Found operationRowOf_def)
  note p = parseRevision_read [OF r(2), unfolded *(5), OF *(2)]
  have "distinct (map or_operation_id (ot_operations (db_committed db)))"
    using assms(3) by (simp add: databaseSound_def tablesConsistent_def)
  note upd = update_exactly_one(1) [OF this r(1) [unfolded operationRowOf_def] p(1), of nxt ref at]
  have "(res, db') = (operationResult RepoOk (current\<lparr>mo_operationRevision := decimal (v + 1),
           mo_state := nxt, mo_resultReference := ref, mo_updatedAt := at\<rparr>),
          \<lparr>db_committed = advancedTables i v nxt ref at (db_committed db), db_working = None\<rparr>)"
    using transitionWrite_cases [of failing "writeTables (db_committed db) db" i v current nxt ref at]
      assms(1,2) *(10) by auto
  then show thesis
    using that [OF *(1,2) r *(5) p(2,1)] *(3,6-9) p(4) by (simp add: advancedTables_def upd)
qed


text \<open>The fence, for every operation identifier.\<close>

definition acceptedTransition ::
  "string \<Rightarrow> operation_tables database \<Rightarrow> int \<Rightarrow> operation_tables database \<Rightarrow> bool" where
  "acceptedTransition i db v db' \<longleftrightarrow>
     databaseSound db \<and>
     (\<exists>failing st nxt ref at res. transition failing db i (to_string v) st nxt ref at = (res, db')
        \<and> rr_status res = RepoOk)"

lemma acceptedTransitionI:
  "databaseSound db \<Longrightarrow> transition failing db i (to_string v) st nxt ref at = (res, db') \<Longrightarrow>
     rr_status res = RepoOk \<Longrightarrow> acceptedTransition i db v db'"
  unfolding acceptedTransition_def by blast

lemma transition_step:
  "transition failing db i tok st nxt ref at = (res, db') \<Longrightarrow> operationStep db db'"
  by (metis stepTransition snd_conv)

lemma reserve_step:
  "reserve failing db m = (res, db') \<Longrightarrow> operationStep db db'"
  "reserveWithPayload failing db m p = (res, db') \<Longrightarrow> operationStep db db'"
  by (metis stepReserve snd_conv) (metis stepReserveWithPayload snd_conv)

lemma storedRevision_mono:
  assumes "operationStep db db'" "databaseSound db"
  shows "storedRevision i db \<le> storedRevision i db'"
proof (cases "operationRowOf i (db_committed db)")
  case None
  have "tablesConsistent (db_committed db')"
    using operationSteps_sound(1) [of db db'] assms by (auto simp: databaseSound_def)
  then have "operationRowOf i (db_committed db') = Some r \<Longrightarrow> 0 < or_operation_revision r" for r
    by (auto simp: operationRowOf_Some tablesConsistent_def list_all_iff operationChecks_def
        simp del: list.set)
  with None show ?thesis by (auto simp: storedRevision_def intro: less_imp_le split: option.split)
next
  case (Some r)
  obtain r' where "operationRowOf i (db_committed db') = Some r'" "rowEvolves r r'"
    using operationRowOf_evolves [OF r_into_rtranclp [of operationStep, OF assms(1)] assms(2) Some] .
  with Some show ?thesis by (auto simp: storedRevision_def rowEvolves_def rowAdvances_def)
qed

interpretation operation_fence: revision_fenced operationStep databaseSound "storedRevision i"
  "acceptedTransition i" for i
proof unfold_locales
  fix db db' v
  show "operationStep db db' \<Longrightarrow> databaseSound db \<Longrightarrow> databaseSound db'"
    using operationSteps_sound(1) [of db db'] by blast
  show "operationStep db db' \<Longrightarrow> databaseSound db \<Longrightarrow> storedRevision i db \<le> storedRevision i db'"
    by (rule storedRevision_mono)
  show "acceptedTransition i db v db' \<Longrightarrow> operationStep db db'"
    by (auto simp: acceptedTransition_def intro: transition_step)
  assume "acceptedTransition i db v db'"
  then obtain failing st nxt ref at res where
    t: "transition failing db i (to_string v) st nxt ref at = (res, db')" "rr_status res = RepoOk"
    and sound: "databaseSound db"
    by (auto simp: acceptedTransition_def)
  obtain n r where
    n: "to_string v = decimal n" and r: "operationRowOf i (db_committed db) = Some r"
      "or_operation_revision r = int n"
    and db': "db_committed db' = (db_committed db)\<lparr>ot_operations :=
        map (\<lambda>x. if x = r then advancedRow n nxt ref at r else x)
          (ot_operations (db_committed db))\<rparr>"
    by (rule transition_ok [OF t sound], rule that, assumption+, simp)
  have v: "v = int n" using n to_string_of_nat [of n] to_string_inject by metis
  have "databaseSound db'"
    using operationSteps_sound(1) [OF r_into_rtranclp [of operationStep] sound]
      transition_step [OF t(1)] by blast
  then have "operationRowOf i (db_committed db') = Some (advancedRow n nxt ref at r)"
    using r(1) sound by (auto simp: databaseSound_def operationRowOf_Some db' advancedRow_def)
  then show "storedRevision i db = v \<and> v < storedRevision i db'"
    using r v by (simp add: storedRevision_def advancedRow_def)
qed

section \<open>Accepted reservations\<close>

lemma reserveInternal_not_ok:
  assumes "rr_status (fst (reserveInternal failing db m pl)) \<noteq> RepoOk"
  shows "db_committed (snd (reserveInternal failing db m pl)) = db_committed db"
proof (cases "fst (executeBegin (failing CallBegin) db)")
  case False
  then show ?thesis by (auto simp: reserveInternal_def executeBegin_def split: if_splits)
next
  case True
  let ?db0 = "snd (executeBegin (failing CallBegin) db)"
  have "db_committed (snd (reserveInCurrentTransactionInternal failing ?db0 m pl)) = db_committed db"
    using reserveInCurrent_follows [of failing ?db0 m pl] by auto
  with True assms show ?thesis
    by (auto simp: reserveInternal_def executeCommit_def split: prod.splits option.splits
        if_splits)
qed

lemma reserveInCurrent_ok:
  assumes "reserveInCurrentTransactionInternal failing db m pl = (res, db')" "rr_status res = RepoOk"
  shows "transactionActive db" and "mutationOperationValidForCreate m"
    and "operationConstraints (ot_operations (visibleTables db)) (operationRow m)"
    and "reserveGate failing (visibleTables db) m = GatePermitted"
    and "res = operationResult RepoOk (m\<lparr>mo_operationRevision := ''1''\<rparr>)"
    and "pl = Some p \<Longrightarrow> validPayload p \<and> mp_operationId p = mo_operationId m"
    and "db' = writeTables ((visibleTables db)\<lparr>
          ot_operations := ot_operations (visibleTables db) @ [operationRow m],
          ot_payloads := ot_payloads (visibleTables db)
            @ (case pl of None \<Rightarrow> [] | Some p \<Rightarrow> [payloadRow p])\<rparr>) db"
proof -
  let ?d = "m\<lparr>mo_operationRevision := ''1''\<rparr>" and ?out = "reserveInCurrentTransactionInternal failing db m pl"
  have c: "transactionActive db" "mutationOperationValidForCreate m"
    "\<forall>p. pl = Some p \<longrightarrow> validPayload p \<and> mp_operationId p = mo_operationId m"
    "reserveGate failing (visibleTables db) m = GatePermitted" "?out = reserveInsert failing db ?d pl"
    using reserveInCurrent_cases [of failing db m pl] assms by auto
  then show "transactionActive db" "mutationOperationValidForCreate m"
    "reserveGate failing (visibleTables db) m = GatePermitted"
    "pl = Some p \<Longrightarrow> validPayload p \<and> mp_operationId p = mo_operationId m"
    by simp_all
  obtain t1 where t1: "insertOperation failing (visibleTables db) ?d = Some t1"
    using c(5) assms by (auto simp: reserveInsert_def split: option.splits)
  note s1 = insertOperation_step [OF t1 c(2)]
  then show "operationConstraints (ot_operations (visibleTables db)) (operationRow m)" by simp
  let ?w = "(visibleTables db)\<lparr>
          ot_operations := ot_operations (visibleTables db) @ [operationRow m],
          ot_payloads := ot_payloads (visibleTables db)
            @ (case pl of None \<Rightarrow> [] | Some p \<Rightarrow> [payloadRow p])\<rparr>"
  have "?out = (operationResult RepoOk ?d, writeTables ?w db)"
  proof (cases pl)
    case None
    then show ?thesis unfolding c(5) using s1 by (simp add: reserveInsert_def t1)
  next
    case (Some p)
    then obtain t2 where t2: "insertPayload failing t1 p = Some t2"
      using c(5) assms by (auto simp: reserveInsert_def t1 split: option.splits)
    have "mp_operationId p = mo_operationId m" using c(3) Some by simp
    from insert_both_steps(2) [OF t1 c(2) this t2] Some t2 show ?thesis
      unfolding c(5) by (simp add: reserveInsert_def t1)
  qed
  then show "res = operationResult RepoOk ?d" "db' = writeTables ?w db" using assms(1) by simp_all
qed

lemma reserveInternal_ok:
  assumes "reserveInternal failing db m pl = (res, db')" "rr_status res = RepoOk"
  shows "\<not> transactionActive db" and "mutationOperationValidForCreate m"
    and "operationConstraints (ot_operations (db_committed db)) (operationRow m)"
    and "reserveGate failing (db_committed db) m = GatePermitted"
    and "res = operationResult RepoOk (m\<lparr>mo_operationRevision := ''1''\<rparr>)"
    and "pl = Some p \<Longrightarrow> validPayload p \<and> mp_operationId p = mo_operationId m"
    and "db' = \<lparr>db_committed = (db_committed db)\<lparr>
          ot_operations := ot_operations (db_committed db) @ [operationRow m],
          ot_payloads := ot_payloads (db_committed db)
            @ (case pl of None \<Rightarrow> [] | Some p \<Rightarrow> [payloadRow p])\<rparr>, db_working = None\<rparr>"
proof -
  let ?db0 = "writeTables (db_committed db) db"
  have b: "fst (executeBegin (failing CallBegin) db)"
    using assms by (auto simp: reserveInternal_def split: prod.splits bool.splits)
  note act = reserveInternal_active [OF b]
  then show "\<not> transactionActive db" by simp
  have begun: "executeBegin (failing CallBegin) db = (True, ?db0)"
    using b act by (simp add: prod_eq_iff)
  obtain r d where out: "reserveInCurrentTransactionInternal failing ?db0 m pl = (r, d)" by fastforce
  have ok: "rr_status r = RepoOk" "r = res" "executeCommit (failing CallCommit) d = (True, db')"
    using assms by (auto simp: reserveInternal_def begun out split: prod.splits bool.splits if_splits)
  note w = reserveInCurrent_ok [OF out ok(1)]
  then show "mutationOperationValidForCreate m"
    "operationConstraints (ot_operations (db_committed db)) (operationRow m)"
    "reserveGate failing (db_committed db) m = GatePermitted"
    "pl = Some p \<Longrightarrow> validPayload p \<and> mp_operationId p = mo_operationId m"
    "res = operationResult RepoOk (m\<lparr>mo_operationRevision := ''1''\<rparr>)"
    using ok(2) by simp_all
  show "db' = \<lparr>db_committed = (db_committed db)\<lparr>
          ot_operations := ot_operations (db_committed db) @ [operationRow m],
          ot_payloads := ot_payloads (db_committed db)
            @ (case pl of None \<Rightarrow> [] | Some p \<Rightarrow> [payloadRow p])\<rparr>, db_working = None\<rparr>"
    using ok(3) w(7) by (auto split: if_splits)
qed


section \<open>Operations without zero bytes\<close>

definition nulFreeOperation :: "mutation_operation \<Rightarrow> bool" where
  "nulFreeOperation m \<longleftrightarrow> list_all nulFree
     [mo_operationId m, mo_idempotencyKey m, mo_actorId m, mo_backendId m, mo_resourceType m,
      mo_resourceId m, mo_expectedRevision m, mo_expectedResourceFingerprint m,
      mo_actionFamily m, mo_requestFingerprint m, mo_resultReference m]"

definition nulFreePayload :: "mutation_operation_payload \<Rightarrow> bool" where
  "nulFreePayload p \<longleftrightarrow> list_all nulFree
     [mp_operationId p, mp_payloadType p, mp_payload p, mp_payloadFingerprint p]"

lemma policyName_nulFree [simp]: "nulFree (mutationOperationVerificationPolicyName s)"
  by (cases s) (simp_all add: nulFree_def)

lemma generation_round_trip:
  assumes "w \<noteq> (0 :: uint64)" "unat w \<le> int64_max"
  shows "0 < sint w" and "word_of_int (sint w) = w"
proof -
  have "int (unat w) \<le> int int64_max" using assms(2) by (simp only: of_nat_le_iff)
  then have "uint w < 2 ^ 63" by simp
  then have "sint w = uint w"
    unfolding sint_uint using order_trans [OF _ uint_ge_0 [of w]]
    by (intro signed_take_bit_int_eq_self) simp_all
  moreover have "0 < uint w" using assms(1) by (simp add: word_neq_0_conv word_less_def)
  ultimately show "0 < sint w" by simp
  show "word_of_int (sint w) = w" by simp
qed

text \<open>What is stored for such an operation is what was given.\<close>

lemma operationRow_read:
  assumes "mutationOperationValidForCreate m" "nulFreeOperation m"
  shows "readOperation (operationRow m) = Some (m\<lparr>mo_operationRevision := ''1''\<rparr>)"
proof -
  have one: "to_string 1 = ''1''" "decimal 1 = ''1''"
    by (simp_all add: to_string_def decimal.simps digitChar_def char_of_def bit_0)
  have "parseOperationRevision ''1''"
    using parseOperationRevision_decimal [of 1] unfolding one(2) by simp
  moreover have "commonValid m" using assms(1) by (simp add: mutationOperationValidForCreate_def)
  moreover note commonValid_parts(4,5) [OF this]
  ultimately show ?thesis
    using assms generation_round_trip [of "mo_backendGeneration m"]
    by (simp add: readOperation_iff operationRow_def nulFreeOperation_def one(1)
        mutationOperationValidDurable_def commonValid_state_indifferent)
qed

lemma payloadRow_read:
  assumes "validPayload p" "nulFreePayload p"
  shows "readPayload (payloadRow p) = Some p"
proof -
  have "uint (mp_payloadVersion p) \<le> int uint32_max"
    using unsigned_less [of "mp_payloadVersion p", where 'a = int] by simp
  moreover have "0 < uint (mp_payloadVersion p)"
    using assms(1) by (simp add: validPayload_def word_less_def)
  ultimately show ?thesis
    using assms by (cases p) (simp add: readPayload_def payloadRow_def nulFreePayload_def Let_def)
qed


text \<open>A row that evolved still reads as the same logical operation, in a later state.\<close>

lemma sameRequestRow_columns:
  "sameRequestRow r r' \<Longrightarrow> or_operation_id r' = or_operation_id r
     \<and> or_idempotency_key r' = or_idempotency_key r
     \<and> or_actor_id r' = or_actor_id r
     \<and> or_backend_id r' = or_backend_id r
     \<and> or_backend_generation r' = or_backend_generation r
     \<and> or_resource_type r' = or_resource_type r
     \<and> or_resource_id r' = or_resource_id r
     \<and> or_expected_revision r' = or_expected_revision r
     \<and> or_expected_resource_fingerprint r' = or_expected_resource_fingerprint r
     \<and> or_action_family r' = or_action_family r
     \<and> or_request_fingerprint r' = or_request_fingerprint r
     \<and> or_requested_at r' = or_requested_at r
     \<and> or_deadline r' = or_deadline r
     \<and> or_verification_policy r' = or_verification_policy r"
  by (cases r; cases r') (simp add: sameRequestRow_def)

lemma policyName_inject:
  "mutationOperationVerificationPolicyName p = mutationOperationVerificationPolicyName q \<longleftrightarrow> p = q"
  by (metis fromName_name(2) option.inject)

lemma evolved_same_logical:
  assumes "rowEvolves r r'" "readOperation r = Some m" "readOperation r' = Some m'"
  shows "sameLogicalOperation m' m"
proof -
  have "sameRequestRow r r'"
    using assms(1) by (auto simp: rowEvolves_def rowAdvances_def sameRequestRow_def)
  note columns = sameRequestRow_columns [OF this]
  note reads = assms(2,3) [unfolded readOperation_iff]
  have "mutationOperationVerificationPolicyName (mo_verificationPolicy m') =
      mutationOperationVerificationPolicyName (mo_verificationPolicy m)"
    using columns reads by metis
  then have "mo_verificationPolicy m' = mo_verificationPolicy m" by (simp only: policyName_inject)
  then show ?thesis
    using columns reads by (simp add: sameLogicalOperation_def)
qed

lemma evolved_history:
  assumes "rowEvolves r r'" "rowState r = Some s"
  obtains ts where "permittedHistory mutationOperationTransitionAllowed s ts"
    "rowState r' = Some (last (s # ts))"
proof (cases "r' = r")
  case True
  with assms(2) show ?thesis by (intro that [of "[]"]) simp_all
next
  case False
  with assms(1) have adv: "rowAdvances r r'" by (simp add: rowEvolves_def)
  obtain a ts where a: "rowState r = Some a"
    and h: "permittedHistory mutationOperationTransitionAllowed a ts"
      "rowState r' = Some (last (a # ts))"
    using adv unfolding rowAdvances_def by (elim conjE exE) rule
  have "a = s" using a assms(2) by simp
  from h [unfolded this] show ?thesis by (rule that)
qed

end
