(* ===== verification/OperationProperties.thy ===== *)
theory OperationProperties
  imports OperationFence "HOL-Library.Code_Target_Nat" "HOL-Library.Code_Target_Int"
begin

text \<open>
  What callers of the operation store may rely on, over any run of calls by any callers and under
  any engine errors: consistency, monotone rows, fenced transitions, all-or-nothing reservation,
  exact replay, the maintenance gate, bounded listings and actor-scoped reads. The samples at the
  start are the concrete store on which the witnesses evaluate.
\<close>

section \<open>Samples\<close>

definition noErrors :: "sql_call \<Rightarrow> bool" where
  "noErrors call = False"

definition sampleOperation :: "string \<Rightarrow> string \<Rightarrow> mutation_operation" where
  "sampleOperation i family =
     \<lparr>mo_operationId = i, mo_idempotencyKey = ''key'', mo_actorId = ''actor'',
      mo_backendId = ''vdr'', mo_backendGeneration = 1, mo_resourceType = ''timer'',
      mo_resourceId = ''t1'', mo_expectedRevision = ''1'', mo_expectedResourceFingerprint = [],
      mo_actionFamily = family, mo_requestFingerprint = ''fp'',
      mo_requestedAt = 10, mo_deadline = 0, mo_verificationPolicy = VerifyReadbackRequired,
      mo_state = OpAccepted, mo_resultReference = [], mo_updatedAt = 10, mo_operationRevision = []\<rparr>"

definition samplePayload :: "string \<Rightarrow> mutation_operation_payload" where
  "samplePayload i =
     \<lparr>mp_operationId = i, mp_payloadType = ''timer.create'', mp_payloadVersion = 1,
      mp_payload = ''body'', mp_payloadFingerprint = ''bodyfp''\<rparr>"

definition emptyStore :: "operation_tables database" where
  "emptyStore =
     \<lparr>db_committed = \<lparr>ot_operations = [], ot_payloads = [], ot_maintenance = []\<rparr>,
      db_working = None\<rparr>"

definition frozenStore :: "operation_tables database" where
  "frozenStore = setMaintenance
     [\<lparr>mr_module_id = ''rectools'', mr_frozen = CellInteger 1, mr_revision = CellInteger 4\<rparr>]
     emptyStore"

definition storeWithOne :: "operation_tables database" where
  "storeWithOne = snd (reserve noErrors emptyStore (sampleOperation ''op_1'' ''timer.create''))"

definition storeWithRejected :: "operation_tables database" where
  "storeWithRejected =
     snd (transition noErrors storeWithOne ''op_1'' ''1'' OpAccepted OpRejected ''late'' 12)"

lemma emptyStore_sound: "databaseSound emptyStore"
  by (simp add: databaseSound_def tablesConsistent_def transactionFollowsBy_def emptyStore_def)

lemma storeWithOne_sound: "databaseSound storeWithOne"
  unfolding storeWithOne_def reserve_def [symmetric]
  by (rule operationSteps_sound(1) [OF r_into_rtranclp [of operationStep] emptyStore_sound])
    (rule stepReserve)

lemma sample_reserved:
  "rr_status (fst (reserve noErrors emptyStore (sampleOperation ''op_1'' ''timer.create''))) = RepoOk"
  by code_simp

lemma sample_rejected:
  "rr_status (fst (transition noErrors storeWithOne ''op_1'' ''1'' OpAccepted OpRejected ''late'' 12))
     = RepoOk"
  by code_simp


lemma sample_steps:
  "operationSteps storeWithOne storeWithRejected"
  "operationSteps emptyStore storeWithOne"
  by (simp_all add: storeWithRejected_def storeWithOne_def r_into_rtranclp stepTransition
      stepReserve)

section \<open>Invariants of every run\<close>

text \<open>The check of the payload table.\<close>

definition payloadChecks :: "payload_row \<Rightarrow> bool" where
  "payloadChecks row \<longleftrightarrow> yr_payload_version row > 0"

lemma journalSteps_payloadChecks:
  "journalSteps t t' \<Longrightarrow> list_all payloadChecks (ot_payloads t) \<Longrightarrow> list_all payloadChecks (ot_payloads t')"
proof (induction rule: rtranclp_induct)
  case (step t1 t2)
  from step.hyps(2) step.IH [OF step.prems] show ?case
    by (cases rule: journalStep.cases) (auto simp: payloadConstraints_def payloadChecks_def advancedTables_def)
qed simp

text \<open>C34: Whatever calls run and whichever statements fail, the committed operation and payload tables
  stay consistent: one row per operation identifier and per idempotency scope, one payload per
  operation and none without its operation, every operation row within the checks of its table, and
  every payload row within the one of its (a positive version). The maintenance table is not written
  by these calls; its rows are replaced at will, and nothing is claimed of its checks.\<close>

theorem store_stays_consistent:
  assumes "databaseSound db" and "list_all payloadChecks (ot_payloads (db_committed db))"
    and "operationSteps db db'"
  shows "tablesConsistent (db_committed db') \<and> list_all payloadChecks (ot_payloads (db_committed db'))"
proof -
  have "transactionFollows db" using assms(1) by (simp add: databaseSound_def)
  then have "journalSteps (db_committed db) (db_committed db')"
    using operationSteps_journal [OF assms(3)] by blast
  from journalSteps_payloadChecks [OF this assms(2)]
  show ?thesis using operationSteps_sound(1) [OF assms(3,1)] by (simp add: databaseSound_def)
qed

theorem store_stays_consistent_witness:
  "tablesConsistent (db_committed storeWithOne) \<and> list_all payloadChecks (ot_payloads (db_committed storeWithOne))"
  by (rule store_stays_consistent [OF emptyStore_sound _ sample_steps(2)]) (simp add: emptyStore_def)

text \<open>C30: Every run of the store is a run of the journal: from outside, the committed tables only
  ever grow by admitted operations, by payloads of operations they hold, and by permitted
  lifecycle steps that raise the row's revision; nothing is deleted and nothing else is rewritten.\<close>

theorem store_refines_journal:
  assumes "transactionFollows db" and "operationSteps db db'"
  shows "journalSteps (db_committed db) (db_committed db')"
  using operationSteps_journal [OF assms(2,1)] by simp

theorem store_refines_journal_witness:
  "journalSteps (db_committed emptyStore) (db_committed storeWithOne)"
  by (rule store_refines_journal [OF _ sample_steps(2)])
    (simp add: transactionFollowsBy_def emptyStore_def)

text \<open>C26: A stored operation is never lost and its request never changes: every later store has a
  row for it with the same request columns, reached by lifecycle steps, with a revision and an
  update time that have not fallen; with the same revision it is the very same row.\<close>

theorem stored_operation_evolves:
  assumes "databaseSound db" and "operationSteps db db'"
    and "operationRowOf i (db_committed db) = Some r"
  shows "\<exists>r'. operationRowOf i (db_committed db') = Some r' \<and> sameRequestRow r r'
     \<and> or_operation_revision r \<le> or_operation_revision r'
     \<and> or_updated_at r \<le> or_updated_at r'
     \<and> (or_operation_revision r = or_operation_revision r' \<longrightarrow> r' = r)
     \<and> (\<forall>s. rowState r = Some s \<longrightarrow> (\<exists>ts. permittedHistory mutationOperationTransitionAllowed s ts
          \<and> rowState r' = Some (last (s # ts))))"
proof -
  obtain r' where r': "operationRowOf i (db_committed db') = Some r'" "rowEvolves r r'"
    using operationRowOf_evolves [OF assms(2,1,3)] .
  have "\<exists>ts. permittedHistory mutationOperationTransitionAllowed s ts
      \<and> Some s = Some (last (s # ts))" for s
    by (rule exI [of _ "[]"]) simp
  then show ?thesis
    using r' by (intro exI [of _ r'])
      (auto simp: rowEvolves_def rowAdvances_def sameRequestRow_def simp del: last.simps)
qed

theorem stored_operation_evolves_witness:
  "\<exists>r'. operationRowOf ''op_1'' (db_committed storeWithRejected) = Some r'
     \<and> or_operation_revision (operationRow (sampleOperation ''op_1'' ''timer.create''))
         \<le> or_operation_revision r'"
proof -
  have "operationRowOf ''op_1'' (db_committed storeWithOne) =
      Some (operationRow (sampleOperation ''op_1'' ''timer.create''))"
    by code_simp
  then show ?thesis
    using stored_operation_evolves [OF storeWithOne_sound sample_steps(1)] by blast
qed

text \<open>A final operation stays in its state for ever, whatever is requested of it.\<close>

theorem final_operation_stays:
  assumes "databaseSound db" and "operationSteps db db'"
    and "operationRowOf i (db_committed db) = Some r"
    and "rowState r = Some s" and "mutationOperationStateTerminal s"
  shows "\<exists>r'. operationRowOf i (db_committed db') = Some r' \<and> rowState r' = Some s"
proof -
  obtain r' where r': "operationRowOf i (db_committed db') = Some r'" "rowEvolves r r'"
    using operationRowOf_evolves [OF assms(2,1,3)] .
  obtain ts where ts: "permittedHistory mutationOperationTransitionAllowed s ts"
    "rowState r' = Some (last (s # ts))"
    using evolved_history [OF r'(2) assms(4)] .
  have "set ts \<subseteq> {s}" by (rule operation_life.final_forever [OF ts(1) assms(5)])
  then have "last (s # ts) = s" using last_in_set [of "s # ts"] by auto
  with ts(2) r'(1) show ?thesis by simp
qed

theorem final_operation_stays_witness:
  "\<exists>r'. operationRowOf ''op_1'' (db_committed (snd (transition noErrors storeWithRejected ''op_1''
        ''2'' OpRejected OpQueued [] 20))) = Some r' \<and> rowState r' = Some OpRejected"
proof (rule final_operation_stays)
  show "databaseSound storeWithRejected"
    by (rule operationSteps_sound(1) [OF sample_steps(1) storeWithOne_sound])
  show "operationSteps storeWithRejected (snd (transition noErrors storeWithRejected ''op_1''
        ''2'' OpRejected OpQueued [] 20))"
    by (simp add: r_into_rtranclp stepTransition)
  show "operationRowOf ''op_1'' (db_committed storeWithRejected) =
      Some ((operationRow (sampleOperation ''op_1'' ''timer.create''))
        \<lparr>or_operation_revision := 2, or_state := ''rejected'', or_result_reference := ''late'',
         or_updated_at := 12\<rparr>)"
    by code_simp
  show "rowState ((operationRow (sampleOperation ''op_1'' ''timer.create''))
        \<lparr>or_operation_revision := 2, or_state := ''rejected'', or_result_reference := ''late'',
         or_updated_at := 12\<rparr>) = Some OpRejected"
    by code_simp
qed (simp add: mutationOperationStateTerminal_def)

text \<open>C27: No update is lost: of two accepted transitions of one operation, the later one quotes a
  strictly larger revision, so two writers that read the same revision cannot both succeed.\<close>

theorem no_lost_transition:
  assumes "databaseSound db"
    and "transition f1 db i (to_string v) s1 n1 r1 a1 = (res1, db1)" "rr_status res1 = RepoOk"
    and "operationSteps db1 db2"
    and "transition f2 db2 i (to_string w) s2 n2 r2 a2 = (res2, db3)" "rr_status res2 = RepoOk"
  shows "v < w"
proof (rule operation_fence.no_lost_update [OF assms(1) _ assms(4)])
  show "acceptedTransition i db v db1"
    by (rule acceptedTransitionI [OF assms(1-3)])
  have "databaseSound db2"
    using operationSteps_sound(1) assms(1,4) transition_step [OF assms(2)]
    by (meson r_into_rtranclp)
  then show "acceptedTransition i db2 w db3"
    using assms(5,6) by (rule acceptedTransitionI)
qed

definition storeWithQueued :: "operation_tables database" where
  "storeWithQueued =
     snd (transition noErrors storeWithOne ''op_1'' ''1'' OpAccepted OpQueued [] 12)"

theorem no_lost_transition_witness:
  "rr_status (fst (transition noErrors storeWithQueued ''op_1'' ''2'' OpQueued OpCancelled [] 13))
     = RepoOk \<and> (1::int) < 2"
proof
  show ok: "rr_status (fst (transition noErrors storeWithQueued ''op_1'' ''2'' OpQueued OpCancelled
      [] 13)) = RepoOk"
    by code_simp
  show "(1::int) < 2"
  proof (rule no_lost_transition [OF storeWithOne_sound _ _ _ _ ok])
    show "transition noErrors storeWithOne ''op_1'' (to_string 1) OpAccepted OpQueued [] 12 =
        (fst (transition noErrors storeWithOne ''op_1'' ''1'' OpAccepted OpQueued [] 12),
         storeWithQueued)"
      by code_simp
    show "rr_status (fst (transition noErrors storeWithOne ''op_1'' ''1'' OpAccepted OpQueued []
        12)) = RepoOk"
      by code_simp
    show "operationSteps storeWithQueued storeWithQueued" by simp
    show "transition noErrors storeWithQueued ''op_1'' (to_string 2) OpQueued OpCancelled [] 13 =
        (fst (transition noErrors storeWithQueued ''op_1'' ''2'' OpQueued OpCancelled [] 13),
         snd (transition noErrors storeWithQueued ''op_1'' ''2'' OpQueued OpCancelled [] 13))"
      by code_simp
  qed
qed

section \<open>Reservations\<close>

text \<open>C33: A call that does not report success changes no committed row, whichever statement of
  which call failed and whatever the reason.\<close>

theorem unsuccessful_calls_change_nothing:
  "(rr_status (fst (reserve failing db m)) \<noteq> RepoOk \<longrightarrow>
       db_committed (snd (reserve failing db m)) = db_committed db)
   \<and> (rr_status (fst (reserveWithPayload failing db m p)) \<noteq> RepoOk \<longrightarrow>
       db_committed (snd (reserveWithPayload failing db m p)) = db_committed db)
   \<and> (rr_status (fst (transition failing db i tok st nxt ref at)) \<noteq> RepoOk \<longrightarrow>
       db_committed (snd (transition failing db i tok st nxt ref at)) = db_committed db)
   \<and> db_committed (snd (reserveWithPayloadInCurrentTransaction failing db m p)) = db_committed db"
proof (intro conjI impI)
  show "db_committed (snd (reserveWithPayloadInCurrentTransaction failing db m p)) = db_committed db"
    using reserveInCurrent_follows [of failing db m "Some p"]
    by (auto simp: reserveWithPayloadInCurrentTransaction_def)
  show "rr_status (fst (transition failing db i tok st nxt ref at)) \<noteq> RepoOk \<Longrightarrow>
      db_committed (snd (transition failing db i tok st nxt ref at)) = db_committed db"
    using transition_cases [of failing db i tok st nxt ref at]
      transitionWrite_cases [of failing "writeTables (db_committed db) db" i _ _ nxt ref at]
    by fastforce
qed (simp_all add: reserve_def reserveWithPayload_def reserveInternal_not_ok)

theorem unsuccessful_calls_change_nothing_witness:
  "db_committed (snd (transition noErrors storeWithOne ''op_1'' ''7'' OpAccepted OpQueued [] 12))
     = db_committed storeWithOne"
proof -
  have "rr_status (fst (transition noErrors storeWithOne ''op_1'' ''7'' OpAccepted OpQueued [] 12))
      = RepoRevisionConflict"
    by code_simp
  then show ?thesis
    using unsuccessful_calls_change_nothing [of noErrors storeWithOne
        "sampleOperation ''op_1'' ''timer.create''" "samplePayload ''op_1''" "''op_1''" "''7''"
        OpAccepted OpQueued "[]" 12]
    by simp
qed

text \<open>A successful reservation is all of it: exactly one accepted row with revision 1 is added
  and, when a payload was given, exactly its row; the transaction is closed, nothing else changes,
  and the answer is the operation with its first revision.\<close>

theorem successful_reservation:
  assumes "reserveWithPayload failing db m p = (res, db')" and "rr_status res = RepoOk"
  shows "mutationOperationValidForCreate m \<and> validPayload p \<and> mp_operationId p = mo_operationId m
     \<and> rr_operation res = m\<lparr>mo_operationRevision := ''1''\<rparr>
     \<and> db_working db' = None
     \<and> ot_operations (db_committed db') = ot_operations (db_committed db) @ [operationRow m]
     \<and> ot_payloads (db_committed db') = ot_payloads (db_committed db) @ [payloadRow p]
     \<and> ot_maintenance (db_committed db') = ot_maintenance (db_committed db)"
proof -
  have r: "reserveInternal failing db m (Some p) = (res, db')"
    using assms(1) by (simp add: reserveWithPayload_def)
  show ?thesis
    using reserveInternal_ok(2,5,7) [OF r assms(2)] reserveInternal_ok(6) [OF r assms(2) refl]
    by simp
qed

theorem successful_reservation_witness:
  "ot_payloads (db_committed (snd (reserveWithPayload noErrors storeWithOne
       ((sampleOperation ''op_2'' ''media.import'')\<lparr>mo_resourceId := ''t2''\<rparr>)
       (samplePayload ''op_2''))))
     = [payloadRow (samplePayload ''op_2'')]"
proof -
  let ?m = "(sampleOperation ''op_2'' ''media.import'')\<lparr>mo_resourceId := ''t2''\<rparr>"
  have "rr_status (fst (reserveWithPayload noErrors storeWithOne ?m (samplePayload ''op_2'')))
      = RepoOk"
    by code_simp
  moreover have "ot_payloads (db_committed storeWithOne) = []" by code_simp
  ultimately show ?thesis
    using successful_reservation [OF prod.collapse [symmetric], of noErrors storeWithOne ?m
        "samplePayload ''op_2''"]
    by simp
qed


text \<open>What the two lookups of a reservation see.\<close>

lemma selectById_None_iff:
  "selectById failing t i = SelectNone \<longleftrightarrow>
     \<not> failing CallSelectById \<and> cText i \<notin> or_operation_id ` set (ot_operations t)"
  unfolding selectById_def selectFirst_None by (metis image_iff)

lemma selectByScope_None_iff:
  "selectByScope failing t (mo_actorId m) (mo_backendId m) (mo_resourceType m) (mo_resourceId m)
       (mo_actionFamily m) (mo_idempotencyKey m) = SelectNone \<longleftrightarrow>
     \<not> failing CallSelectByScope \<and> rowScope (operationRow m) \<notin> rowScope ` set (ot_operations t)"
  unfolding selectByScope_def selectFirst_None image_iff rowScope_def operationRow_def
  by simp metis

lemma operationRow_checks:
  assumes "mutationOperationValidForCreate m"
  shows "operationChecks (operationRow m)"
proof -
  have "commonValid m" using assms by (simp add: mutationOperationValidForCreate_def)
  then have "0 < sint (mo_backendGeneration m)"
    using commonValid_parts(4,5) generation_round_trip(1) by blast
  moreover have "mutationOperationStateName (mo_state m) = ''accepted''"
    using assms by (simp add: mutationOperationValidForCreate_def)
  ultimately show ?thesis
    by (cases "mo_verificationPolicy m") (simp_all add: operationChecks_def operationRow_def nulFree_def)
qed

lemma fresh_insert:
  assumes "mutationOperationValidForCreate m" "\<not> failing CallInsertOperation"
    and "cText (mo_operationId m) \<notin> or_operation_id ` set (ot_operations t)"
    and "rowScope (operationRow m) \<notin> rowScope ` set (ot_operations t)"
  shows "insertOperation failing t (m\<lparr>mo_operationRevision := x\<rparr>) =
     Some (t\<lparr>ot_operations := ot_operations t @ [operationRow m]\<rparr>)"
proof -
  have "or_operation_id (operationRow m) = cText (mo_operationId m)" by (simp add: operationRow_def)
  then show ?thesis
    using assms operationRow_checks [OF assms(1)]
    by (simp add: insertOperation_def operationConstraints_def)
qed

text \<open>C32: When the engine reports no error, a reservation with a payload succeeds exactly when no
  transaction is open, operation and payload are valid and belong together, neither the
  identifier nor the idempotency scope is taken, and the maintenance gate lets the action pass.\<close>

theorem reservation_accepted_iff:
  assumes "databaseSound db" and "\<And>c. \<not> failing c"
  shows "rr_status (fst (reserveWithPayload failing db m p)) = RepoOk \<longleftrightarrow>
     \<not> transactionActive db
     \<and> mutationOperationValidForCreate m \<and> validPayload p \<and> mp_operationId p = mo_operationId m
     \<and> cText (mo_operationId m) \<notin> or_operation_id ` set (ot_operations (db_committed db))
     \<and> rowScope (operationRow m) \<notin> rowScope ` set (ot_operations (db_committed db))
     \<and> reserveGate failing (db_committed db) m = GatePermitted" (is "?ok \<longleftrightarrow> ?cond")
proof
  assume ?ok
  then have r: "reserveInternal failing db m (Some p) =
      (fst (reserveWithPayload failing db m p), snd (reserveWithPayload failing db m p))"
    by (simp add: reserveWithPayload_def)
  note facts = reserveInternal_ok(1-4) [OF r \<open>?ok\<close>] reserveInternal_ok(6) [OF r \<open>?ok\<close> refl]
  have "or_operation_id (operationRow m) = cText (mo_operationId m)" by (simp add: operationRow_def)
  with facts show ?cond by (simp add: operationConstraints_def)
next
  assume c: ?cond
  let ?t = "db_committed db"
  let ?t1 = "?t\<lparr>ot_operations := ot_operations ?t @ [operationRow m]\<rparr>"
  let ?d = "m\<lparr>mo_operationRevision := ''1''\<rparr>"
  have begun: "executeBegin (failing CallBegin) db = (True, writeTables ?t db)"
    using assms(2) c by (simp add: executeBegin_def writeTables_def)
  have ins: "insertOperation failing ?t ?d = Some ?t1"
    using c assms(2) by (intro fresh_insert) simp_all
  have "yr_operation_id (payloadRow p) \<notin> yr_operation_id ` set (ot_payloads ?t)"
    using c assms(1) by (auto simp: databaseSound_def tablesConsistent_def payloadRow_def)
  moreover have "0 < yr_payload_version (payloadRow p)"
    using c by (simp add: validPayload_def payloadRow_def word_less_def)
  ultimately obtain t2 where "insertPayload failing ?t1 p = Some t2"
    using assms(2) by (simp add: insertPayload_def payloadConstraints_def)
  with ins have "reserveInsert failing (writeTables ?t db) ?d (Some p) =
      (operationResult RepoOk ?d, writeTables t2 db)"
    by (simp add: reserveInsert_def)
  then have "reserveInCurrentTransactionInternal failing (writeTables ?t db) m (Some p) =
      (operationResult RepoOk ?d, writeTables t2 db)"
    using c assms(2) selectById_None_iff [of failing ?t "mo_operationId m"]
      selectByScope_None_iff [of failing ?t m]
    by (simp add: reserveInCurrentTransactionInternal_def)
  then show ?ok
    unfolding reserveWithPayload_def reserveInternal_def begun using assms(2) by simp
qed

theorem reservation_accepted_iff_witness:
  "rr_status (fst (reserveWithPayload noErrors storeWithOne
       (sampleOperation ''op_2'' ''timer.create'') (samplePayload ''op_2''))) \<noteq> RepoOk"
proof -
  have "rowScope (operationRow (sampleOperation ''op_2'' ''timer.create''))
      \<in> rowScope ` set (ot_operations (db_committed storeWithOne))"
    by code_simp
  then show ?thesis
    using reservation_accepted_iff [OF storeWithOne_sound, of noErrors] by (simp add: noErrors_def)
qed

text \<open>C29: Exactly one operation ever exists per idempotency scope: after one reservation has
  succeeded, no reservation of another operation with the same actor, backend, resource, action
  and key succeeds, however often the first one has moved on meanwhile.\<close>

theorem one_operation_per_scope:
  assumes "databaseSound db"
    and "reserve f1 db m = (res1, db1)" and "rr_status res1 = RepoOk"
    and "operationSteps db1 db2"
    and "mo_actorId m' = mo_actorId m" "mo_backendId m' = mo_backendId m"
      "mo_resourceType m' = mo_resourceType m" "mo_resourceId m' = mo_resourceId m"
      "mo_actionFamily m' = mo_actionFamily m" "mo_idempotencyKey m' = mo_idempotencyKey m"
  shows "rr_status (fst (reserve f2 db2 m')) \<noteq> RepoOk"
proof
  assume ok: "rr_status (fst (reserve f2 db2 m')) = RepoOk"
  have r1: "reserveInternal f1 db m None = (res1, db1)" using assms(2) by (simp add: reserve_def)
  have r2: "reserveInternal f2 db2 m' None = (fst (reserve f2 db2 m'), snd (reserve f2 db2 m'))"
    by (simp add: reserve_def)
  have s1: "databaseSound db1"
    using operationSteps_sound(1) [OF r_into_rtranclp [of operationStep] assms(1)]
      reserve_step(1) [OF assms(2)] by blast
  have "operationRow m \<in> set (ot_operations (db_committed db1))"
    using reserveInternal_ok(7) [OF r1 assms(3)] by simp
  then obtain r' where "r' \<in> set (ot_operations (db_committed db2))" "rowEvolves (operationRow m) r'"
    using operationSteps_sound(2) [OF assms(4) s1] by (auto simp: tablesEvolve_def)
  moreover have "rowScope r' = rowScope (operationRow m)"
    using \<open>rowEvolves (operationRow m) r'\<close> by (rule rowEvolves_scope)
  moreover have "rowScope (operationRow m') = rowScope (operationRow m)"
    using assms(5-10) by (simp add: rowScope_def operationRow_def)
  ultimately have "rowScope (operationRow m') \<in> rowScope ` set (ot_operations (db_committed db2))"
    by (metis imageI)
  then show False
    using reserveInternal_ok(3) [OF r2 ok] by (simp add: operationConstraints_def)
qed

theorem one_operation_per_scope_witness:
  "rr_status (fst (reserve noErrors storeWithRejected (sampleOperation ''op_9'' ''timer.create'')))
     \<noteq> RepoOk"
  by (rule one_operation_per_scope [OF emptyStore_sound prod.collapse [symmetric] sample_reserved])
    (use sample_steps(1) in \<open>simp_all add: storeWithOne_def sampleOperation_def\<close>)


text \<open>C28: A client may repeat a reservation at any later time: for an operation without zero
  bytes, once reserved, the repeated call with the same operation answers with an idempotent
  replay of the same logical operation in the state its lifecycle has reached by then, and
  writes nothing.\<close>

theorem reservation_replays:
  assumes "databaseSound db" and "nulFreeOperation m"
    and "reserve f1 db m = (res1, db1)" and "rr_status res1 = RepoOk"
    and "operationSteps db1 db2" and "\<not> transactionActive db2" and "\<And>c. \<not> f2 c"
  shows "\<exists>current ts. reserve f2 db2 m = (operationResult RepoIdempotentReplay current, db2)
     \<and> sameLogicalOperation current m
     \<and> permittedHistory mutationOperationTransitionAllowed OpAccepted ts
     \<and> mo_state current = last (OpAccepted # ts)"
proof -
  have r1: "reserveInternal f1 db m None = (res1, db1)" using assms(3) by (simp add: reserve_def)
  note v = reserveInternal_ok(2) [OF r1 assms(4)]
  have s1: "databaseSound db1"
    using operationSteps_sound(1) [OF r_into_rtranclp [of operationStep] assms(1)]
      reserve_step(1) [OF assms(3)] by blast
  have s2: "databaseSound db2" by (rule operationSteps_sound(1) [OF assms(5) s1])
  have "operationRow m \<in> set (ot_operations (db_committed db1))"
    using reserveInternal_ok(7) [OF r1 assms(4)] by simp
  then have "operationRowOf (mo_operationId m) (db_committed db1) = Some (operationRow m)"
    using s1 by (simp add: databaseSound_def operationRowOf_Some) (simp add: operationRow_def)
  from operationRowOf_evolves [OF assms(5) s1 this] obtain r' where
    r': "operationRowOf (mo_operationId m) (db_committed db2) = Some r'"
    "rowEvolves (operationRow m) r'" .
  note readable = operationRow_read [OF v assms(2)]
  obtain current where cur: "readOperation r' = Some current"
    using r'(2) readable by (auto simp: rowEvolves_def rowAdvances_def)
  have same: "sameLogicalOperation current (m\<lparr>mo_operationRevision := ''1''\<rparr>)"
    by (rule evolved_same_logical [OF r'(2) readable cur])
  have begun: "executeBegin (f2 CallBegin) db2 = (True, writeTables (db_committed db2) db2)"
    using assms(6,7) by (simp add: executeBegin_def writeTables_def)
  have "selectById f2 (db_committed db2) (mo_operationId m) = SelectFound current"
    using r'(1) cur assms(7) by (simp add: selectById_def selectFirst_Found operationRowOf_def)
  then have "reserveInCurrentTransactionInternal f2 (writeTables (db_committed db2) db2) m None =
      (operationResult RepoIdempotentReplay current, writeTables (db_committed db2) db2)"
    using v same by (simp add: reserveInCurrentTransactionInternal_def reserveStored_def)
  moreover have "executeRollback False (writeTables (db_committed db2) db2) = db2"
    using assms(6) by (cases db2) (simp add: executeRollback_def writeTables_def transactionActive_def)
  ultimately have out: "reserve f2 db2 m = (operationResult RepoIdempotentReplay current, db2)"
    unfolding reserve_def reserveInternal_def begun using assms(7) by simp
  have "rowState (operationRow m) = Some OpAccepted" "rowState r' = Some (mo_state current)"
    using readOperation_fields(4) [OF readable] readOperation_fields(4) [OF cur] v
    by (simp_all add: rowState_def mutationOperationValidForCreate_def)
  then obtain ts where "permittedHistory mutationOperationTransitionAllowed OpAccepted ts"
    "mo_state current = last (OpAccepted # ts)"
    using evolved_history [OF r'(2)] by auto
  moreover have "sameLogicalOperation current m" using same by (simp add: sameLogicalOperation_def)
  ultimately show ?thesis using out by blast
qed

theorem reservation_replays_witness:
  "\<exists>current. fst (reserve noErrors storeWithRejected (sampleOperation ''op_1'' ''timer.create''))
     = operationResult RepoIdempotentReplay current"
proof -
  let ?m = "sampleOperation ''op_1'' ''timer.create''"
  have "nulFreeOperation ?m" "\<not> transactionActive storeWithRejected"
    by code_simp+
  moreover have "\<not> noErrors c" for c by (simp add: noErrors_def)
  ultimately show ?thesis
    using reservation_replays [OF emptyStore_sound _ prod.collapse [symmetric] sample_reserved,
        of storeWithRejected noErrors] sample_steps(1)
    by (fastforce simp: storeWithOne_def)
qed

text \<open>C35: While the maintenance row is frozen, no media import, shrink staging or shrink publishing
  operation is admitted, with or without a payload, whatever fails.\<close>

theorem frozen_gate_admits_nothing:
  assumes "filter (\<lambda>row. mr_module_id row = ''rectools'') (ot_maintenance (db_committed db))
       = [\<lparr>mr_module_id = ''rectools'', mr_frozen = CellInteger 1, mr_revision = v\<rparr>]"
    and "mo_actionFamily m \<in> {''media.import'', ''media.shrink.stage'', ''media.shrink.publish''}"
  shows "rr_status (fst (reserve failing db m)) \<noteq> RepoOk
     \<and> rr_status (fst (reserveWithPayload failing db m p)) \<noteq> RepoOk"
proof -
  have "mediaToolsAdmissionGate failing (db_committed db) \<noteq> GatePermitted"
    by (simp add: mediaToolsAdmissionGate_def assms(1) cellInt_def Let_def columnInt_small)
  then have "reserveGate failing (db_committed db) m \<noteq> GatePermitted"
    using assms(2) by (auto simp: reserveGate_def)
  then show ?thesis
    using reserveInternal_ok(4) [OF prod.collapse [symmetric]]
    by (auto simp: reserve_def reserveWithPayload_def)
qed

theorem frozen_gate_admits_nothing_witness:
  "rr_status (fst (reserve noErrors frozenStore (sampleOperation ''op_1'' ''media.import''))) \<noteq> RepoOk
     \<and> rr_status (fst (reserve noErrors emptyStore (sampleOperation ''op_1'' ''media.import''))) = RepoOk"
proof
  show "rr_status (fst (reserve noErrors frozenStore (sampleOperation ''op_1'' ''media.import'')))
      \<noteq> RepoOk"
    using frozen_gate_admits_nothing [of frozenStore "CellInteger 4"
        "sampleOperation ''op_1'' ''media.import''" noErrors undefined]
    by (simp add: frozenStore_def setMaintenance_def emptyStore_def sampleOperation_def)
  show "rr_status (fst (reserve noErrors emptyStore (sampleOperation ''op_1'' ''media.import'')))
      = RepoOk"
    by code_simp
qed


section \<open>Transitions\<close>

text \<open>When the engine reports no error, a transition of a readable operation succeeds exactly
  when no transaction is open, the arguments are within bounds, the quoted revision and state are
  the stored ones, the lifecycle allows the change, it is not a repetition of what is stored, time
  does not run backwards and the revision has not reached its maximum.\<close>

theorem transition_accepted_iff:
  assumes "databaseSound db" and "\<And>c. \<not> failing c"
    and "operationRowOf i (db_committed db) = Some r" and "readOperation r = Some m"
  shows "rr_status (fst (transition failing db i tok st nxt ref at)) = RepoOk \<longleftrightarrow>
     \<not> transactionActive db \<and> safeIdentity i \<and> length ref \<le> kMaxResultReferenceLength \<and> 0 < at
     \<and> tok = mo_operationRevision m \<and> st = mo_state m
     \<and> mutationOperationTransitionAllowed (mo_state m) nxt
     \<and> \<not> (mo_state m = nxt \<and> mo_resultReference m = ref)
     \<and> mo_updatedAt m \<le> at \<and> mo_operationRevision m \<noteq> decimal int64_max"
    (is "?ok \<longleftrightarrow> ?cond")
proof -
  have sel: "selectById failing (db_committed db) i = SelectFound m"
    using assms(2-4) by (simp add: selectById_def selectFirst_Found operationRowOf_def)
  have "parseOperationRevision (mo_operationRevision m)"
    using readOperation_fields(1) [OF assms(4)] by (simp add: mutationOperationValidDurable_def)
  then obtain v where v: "parseRevision (mo_operationRevision m) = Some v"
    by (auto simp: parseOperationRevision_def parseRevision_def split: if_splits option.splits)
  note p = parseRevision_read [OF assms(4) v]
  have "distinct (map or_operation_id (ot_operations (db_committed db)))"
    using assms(1) by (simp add: databaseSound_def tablesConsistent_def)
  note one = update_exactly_one(2) [OF this assms(3) [unfolded operationRowOf_def] p(1)]
  have written: "rr_status (fst (transitionWrite failing (writeTables (db_committed db) db) i v m nxt
      ref at)) = RepoOk"
    using assms(2) one by (simp add: transitionWrite_def Let_def)
  have maximum: "v = int64_max \<longleftrightarrow> mo_operationRevision m = decimal int64_max"
    by (simp add: p(2))
  show ?thesis
  proof (cases "transactionActive db")
    case True
    then show ?thesis
      by (simp add: transition_def executeBegin_def split: option.split)
  next
    case False
    then have begun: "executeBegin (failing CallBegin) db = (True, writeTables (db_committed db) db)"
      using assms(2) by (simp add: executeBegin_def writeTables_def)
    show ?thesis
    proof (cases "tok = mo_operationRevision m")
      case True
      show ?thesis
        unfolding transition_def begun maximum [symmetric]
        using False written by (auto simp: True v sel Let_def not_less)
    next
      case other: False
      then show ?thesis
        unfolding transition_def begun by (simp add: sel Let_def split: option.split)
    qed
  qed
qed

theorem transition_accepted_iff_witness:
  "rr_status (fst (transition noErrors storeWithOne ''op_1'' ''1'' OpAccepted OpSucceeded [] 12))
     \<noteq> RepoOk"
proof -
  let ?m = "sampleOperation ''op_1'' ''timer.create''"
  have "operationRowOf ''op_1'' (db_committed storeWithOne) = Some (operationRow ?m)"
    "readOperation (operationRow ?m) = Some (?m\<lparr>mo_operationRevision := ''1''\<rparr>)"
    by code_simp+
  then show ?thesis
    using transition_accepted_iff [OF storeWithOne_sound, of noErrors "''op_1''" "operationRow ?m"
        "?m\<lparr>mo_operationRevision := ''1''\<rparr>" "''1''" OpAccepted OpSucceeded "[]" 12]
    by (simp add: noErrors_def sampleOperation_def mutationOperationTransitionAllowed_def)
qed

text \<open>An accepted transition rewrites one row: its revision becomes the successor of the quoted
  one, its state, reference and time the given ones; every other row, every payload and the
  maintenance rows are as before, and no transaction stays open.\<close>

theorem accepted_transition_effect:
  assumes "databaseSound db"
    and "transition failing db i tok st nxt ref at = (res, db')" and "rr_status res = RepoOk"
  shows "\<exists>r v. operationRowOf i (db_committed db) = Some r \<and> tok = decimal v
     \<and> operationRowOf i (db_committed db') =
         Some (r\<lparr>or_operation_revision := int v + 1, or_state := mutationOperationStateName nxt,
           or_result_reference := cText ref, or_updated_at := at\<rparr>)
     \<and> (\<forall>j. cText j \<noteq> cText i \<longrightarrow>
           operationRowOf j (db_committed db') = operationRowOf j (db_committed db))
     \<and> ot_payloads (db_committed db') = ot_payloads (db_committed db)
     \<and> ot_maintenance (db_committed db') = ot_maintenance (db_committed db)
     \<and> db_working db' = None"
proof -
  obtain v r where t: "operationRowOf i (db_committed db) = Some r" "tok = decimal v"
    "db' = \<lparr>db_committed = (db_committed db)\<lparr>ot_operations :=
        map (\<lambda>x. if x = r then advancedRow v nxt ref at r else x)
          (ot_operations (db_committed db))\<rparr>, db_working = None\<rparr>"
    by (rule transition_ok [OF assms(2,3,1)], rule that, assumption+)
  have sound: "tablesConsistent (db_committed db)" "tablesConsistent (db_committed db')"
    using operationSteps_sound(1) [OF r_into_rtranclp [of operationStep, OF transition_step
          [OF assms(2)]] assms(1)] assms(1)
    by (simp_all add: databaseSound_def)
  have r: "r \<in> set (ot_operations (db_committed db))" "or_operation_id r = cText i"
    using t(1) operationRowOf_Some [OF sound(1)] by auto
  have rows: "ot_operations (db_committed db') =
      map (\<lambda>x. if x = r then advancedRow v nxt ref at r else x) (ot_operations (db_committed db))"
    by (simp add: t(3))
  have "advancedRow v nxt ref at r \<in> set (ot_operations (db_committed db'))"
    unfolding rows using r(1) by (auto intro!: image_eqI [of _ _ r])
  then have own: "operationRowOf i (db_committed db') = Some (advancedRow v nxt ref at r)"
    using r(2) by (simp add: operationRowOf_Some [OF sound(2)] advancedRow_def)
  have other: "operationRowOf j (db_committed db') = operationRowOf j (db_committed db)"
    if "cText j \<noteq> cText i" for j
    unfolding operationRowOf_def rows using that r(2)
    by (intro find_map_unchanged) (auto simp: advancedRow_def)
  have adv: "advancedRow v nxt ref at r =
      r\<lparr>or_operation_revision := int v + 1, or_state := mutationOperationStateName nxt,
           or_result_reference := cText ref, or_updated_at := at\<rparr>"
    by (simp add: advancedRow_def add.commute)
  show ?thesis
    using t(1,2) own other by (intro exI [of _ r] exI [of _ v]) (simp add: adv t(3))
qed

theorem accepted_transition_effect_witness:
  "db_working storeWithRejected = None"
  using accepted_transition_effect [OF storeWithOne_sound prod.collapse [symmetric] sample_rejected]
  by (auto simp: storeWithRejected_def)


section \<open>Reads\<close>

lemma readOperations_map: "readOperations rows = Some ms \<longleftrightarrow> map readOperation rows = map Some ms"
proof (induction rows arbitrary: ms)
  case Nil
  then show ?case by auto
next
  case (Cons r rs)
  then show ?case by (cases ms) (auto split: option.splits)
qed

text \<open>C37: A successful listing is bounded, oldest first, and fair: it holds only operations of the
  family in one of the wanted states, and a matching operation is left out only when the bound is
  reached by operations that are not younger.\<close>

theorem listing_bounded_oldest_first:
  assumes "listByActionFamilyAndStates failing db fam states limit = result"
    and "lr_status result = RepoOk"
  shows "length (lr_operations result) \<le> limit \<and> limit \<le> 256
     \<and> sorted (map mo_updatedAt (lr_operations result))
     \<and> (\<forall>m \<in> set (lr_operations result). mo_actionFamily m = cText fam \<and> mo_state m \<in> set states
          \<and> Some m \<in> readOperation ` set (ot_operations (visibleTables db)))
     \<and> (\<forall>r \<in> set (ot_operations (visibleTables db)).
          or_action_family r = cText fam \<and> or_state r \<in> mutationOperationStateName ` set states
          \<longrightarrow> readOperation r \<in> Some ` set (lr_operations result)
            \<or> (length (lr_operations result) = limit
               \<and> (\<forall>m \<in> set (lr_operations result). mo_updatedAt m \<le> or_updated_at r)))"
proof -
  let ?rows = "ot_operations (visibleTables db)"
  let ?key = "\<lambda>row. (or_updated_at row, or_operation_id row)"
  let ?P = "\<lambda>row. or_action_family row = cText fam
      \<and> or_state row \<in> set (map mutationOperationStateName states)"
  define all where "all = sort_key ?key (filter ?P ?rows)"
  have set_all: "r \<in> set all \<longleftrightarrow> r \<in> set ?rows \<and> ?P r" for r by (simp add: all_def)
  let ?ms = "lr_operations result"
  have bounds: "limit \<le> 256"
    and ms: "map readOperation (take limit all) = map Some ?ms"
    using assms by (auto simp: listByActionFamilyAndStates_def listedRows_def readOperations_map all_def
        split: if_splits option.splits)
  have len: "length ?ms = length (take limit all)" using arg_cong [OF ms, of length] by simp
  have nth: "readOperation (all ! k) = Some (?ms ! k)" "all ! k \<in> set all"
    if "k < length ?ms" for k
    using arg_cong [OF ms, of "\<lambda>l. l ! k"] that len by auto
  have fields: "mo_updatedAt (?ms ! k) = or_updated_at (all ! k)"
    if "k < length ?ms" for k
    by (rule readOperation_fields(5) [OF nth(1) [OF that]])
  have sorted: "i \<le> j \<Longrightarrow> j < length all \<Longrightarrow> or_updated_at (all ! i) \<le> or_updated_at (all ! j)"
    for i j
    using sorted_nth_mono [OF sorted_sort_key [of ?key "filter ?P ?rows"], folded all_def, of i j]
    by (auto simp: less_eq_prod_def all_def)
  have "sorted (map mo_updatedAt ?ms)"
    unfolding sorted_iff_nth_mono using fields sorted len by auto
  moreover have "mo_actionFamily m = cText fam \<and> mo_state m \<in> set states
      \<and> Some m \<in> readOperation ` set ?rows" if m: "m \<in> set ?ms" for m
  proof -
    from m obtain k where k: "k < length ?ms" "m = ?ms ! k" by (metis in_set_conv_nth)
    then have r: "readOperation (all ! k) = Some m" "all ! k \<in> set ?rows" "?P (all ! k)"
      using nth [of k] set_all [of "all ! k"] by simp_all
    then obtain s where "or_state (all ! k) = mutationOperationStateName s" "s \<in> set states"
      by auto
    moreover have "Some m \<in> readOperation ` set ?rows" using r(1,2) by (metis imageI)
    ultimately show ?thesis using r(1,3) by (simp add: readOperation_iff)
  qed
  moreover have "readOperation r \<in> Some ` set ?ms
      \<or> (length ?ms = limit \<and> (\<forall>m \<in> set ?ms. mo_updatedAt m \<le> or_updated_at r))"
    if r: "r \<in> set ?rows" "?P r" for r
  proof -
    have "r \<in> set all" using r by (simp add: set_all)
    then obtain k where k: "k < length all" "r = all ! k" by (metis in_set_conv_nth)
    show ?thesis
    proof (cases "k < length ?ms")
      case True
      then show ?thesis using nth(1) [OF True] k(2) by auto
    next
      case False
      then have "length ?ms = limit" using len k(1) by simp
      moreover have "mo_updatedAt m \<le> or_updated_at r" if "m \<in> set ?ms" for m
      proof -
        from that obtain j where "j < length ?ms" "m = ?ms ! j" by (metis in_set_conv_nth)
        then show ?thesis using fields [of j] sorted [of j k] False k by simp
      qed
      ultimately show ?thesis by blast
    qed
  qed
  ultimately show ?thesis using bounds len by auto
qed

theorem listing_bounded_oldest_first_witness:
  "length (lr_operations (listByActionFamilyAndStates noErrors storeWithOne ''timer.create''
       [OpAccepted] 5)) \<le> 5"
proof -
  have "lr_status (listByActionFamilyAndStates noErrors storeWithOne ''timer.create''
      [OpAccepted] 5) = RepoOk"
    by code_simp
  then show ?thesis using listing_bounded_oldest_first [OF refl] by blast
qed


text \<open>The store as it would be if only the operations of one actor existed.\<close>

definition onlyActor :: "string \<Rightarrow> operation_tables database \<Rightarrow> operation_tables database" where
  "onlyActor a db =
     (let own = (\<lambda>t. t\<lparr>ot_operations := filter (\<lambda>r. cText (or_actor_id r) = a) (ot_operations t)\<rparr>)
      in \<lparr>db_committed = own (db_committed db), db_working = map_option own (db_working db)\<rparr>)"

lemma visible_onlyActor:
  "ot_operations (visibleTables (onlyActor a db)) =
     filter (\<lambda>r. cText (or_actor_id r) = a) (ot_operations (visibleTables db))"
  by (simp add: onlyActor_def visibleTables_def Let_def split: option.split)

lemma find_filter:
  assumes "distinct (map key xs)"
  shows "find (\<lambda>x. key x = k) (filter Q xs) =
     (case find (\<lambda>x. key x = k) xs of None \<Rightarrow> None | Some x \<Rightarrow> if Q x then Some x else None)"
  using assms
proof (induction xs)
  case Nil
  then show ?case by simp
next
  case (Cons x xs)
  show ?case
  proof (cases "key x = k")
    case True
    with Cons.prems have "find (\<lambda>x. key x = k) (filter Q xs) = None"
      unfolding find_None_iff by (simp, metis imageI)
    with True show ?thesis by simp
  next
    case False
    with Cons show ?thesis by simp
  qed
qed

text \<open>C36: Where the row stored under an identifier can be read, the identifier is no existence oracle:
  what an actor reads for it is what the actor would read if the operations of everybody else did not
  exist. The condition is needed: an unreadable row of another actor, which a text with a zero byte can
  leave behind, is answered as a storage error rather than as not found.\<close>

theorem read_noninterference:
  assumes "tablesConsistent (visibleTables db)"
    and "\<forall>r \<in> set (ot_operations (visibleTables db)). or_operation_id r = cText i \<longrightarrow> readOperation r \<noteq> None"
  shows "findForActor failing db i a = findForActor failing (onlyActor a db) i a"
proof -
  let ?rows = "ot_operations (visibleTables db)"
  have d: "distinct (map or_operation_id ?rows)" using assms(1) by (simp add: tablesConsistent_def)
  note f = find_filter [OF d, of "cText i" "\<lambda>r. cText (or_actor_id r) = a"]
  show ?thesis
  proof (cases "find (\<lambda>row. or_operation_id row = cText i) ?rows")
    case None
    then show ?thesis
      by (simp add: findForActor_def findById_def selectById_def selectFirst_def visible_onlyActor f)
  next
    case (Some r)
    then obtain m where m: "readOperation r = Some m"
      using assms(2) find_Some_in by fastforce
    then have "mo_actorId m = cText (or_actor_id r)" by (simp add: readOperation_iff)
    then show ?thesis
      by (simp add: findForActor_def findById_def selectById_def selectFirst_def visible_onlyActor f
          Some m Let_def)
  qed
qed

theorem read_noninterference_witness:
  "findForActor noErrors storeWithOne ''op_1'' ''mallory''
     = findForActor noErrors (onlyActor ''mallory'' storeWithOne) ''op_1'' ''mallory''"
proof (rule read_noninterference)
  have "visibleTables storeWithOne = db_committed storeWithOne" by code_simp
  then show "tablesConsistent (visibleTables storeWithOne)"
    using storeWithOne_sound by (simp add: databaseSound_def)
  show "\<forall>r \<in> set (ot_operations (visibleTables storeWithOne)). or_operation_id r = cText ''op_1'' \<longrightarrow>
      readOperation r \<noteq> None"
    by code_simp
qed

definition zeroByteOperation :: "string \<Rightarrow> char \<Rightarrow> mutation_operation" where
  "zeroByteOperation i c =
     (sampleOperation i ''timer.create'')\<lparr>mo_idempotencyKey := [CHR ''k'', CHR 0x00, c]\<rparr>"

text \<open>Texts are bound up to their first zero byte although the validators accept such bytes:
  two valid operations whose idempotency keys differ only behind one collide, and a successful
  reservation of such an operation is not replayed but answered as a conflict.\<close>

theorem zero_byte_keys_collide:
  "mutationOperationValidForCreate (zeroByteOperation ''op_1'' CHR ''1'')
     \<and> mutationOperationValidForCreate (zeroByteOperation ''op_2'' CHR ''2'')
     \<and> rr_status (fst (reserve noErrors emptyStore (zeroByteOperation ''op_1'' CHR ''1''))) = RepoOk
     \<and> rr_status (fst (reserve noErrors
           (snd (reserve noErrors emptyStore (zeroByteOperation ''op_1'' CHR ''1'')))
           (zeroByteOperation ''op_2'' CHR ''2''))) = RepoIdempotencyConflict
     \<and> rr_status (fst (reserve noErrors
           (snd (reserve noErrors emptyStore (zeroByteOperation ''op_1'' CHR ''1'')))
           (zeroByteOperation ''op_1'' CHR ''1''))) = RepoOperationConflict"
  by code_simp

end
