(* ===== verification/TimerIntentRepository.thy ===== *)
theory TimerIntentRepository
  imports TimerIntent Database
begin

text \<open>
  The durable store of timer intents (\<open>core/timers/src/TimerIntentRepository.cpp\<close>): the columns
  of \<open>timer_intents\<close>, the codec of the two identifier lists, reading and binding of rows,
  creation, lookups and the revision-fenced update. Texts are bound with their length here, so
  zero bytes survive. \<open>failing\<close> says of each statement whether the engine reports an error;
  it covers \<open>ensureSchema\<close>, whose tables are the row list, and the text-length check of
  \<open>bindText\<close> for columns whose validators keep them far below \<open>2 ^ 31\<close> bytes.
\<close>

section \<open>Rows\<close>

datatype intent_call =
  IntentSchema | IntentBegin | IntentCommit | IntentRollback | IntentSelect | IntentInsert
| IntentUpdate | IntentList

record recording_columns =
  rc_start_margin_seconds :: int
  rc_stop_margin_seconds :: int
  rc_priority :: int
  rc_lifetime_days :: int
  rc_vps_preferred :: int
  rc_directory_policy :: string
  rc_naming_policy :: string
  rc_retention_policy_reference :: string

record replica_columns =
  rl_desired_assignments :: int
  rl_require_backend_diversity :: int
  rl_require_site_diversity :: int
  rl_simultaneous_recording_intentional :: int
  rl_storage_policy_reference :: string
  rl_retention_policy_reference :: string
  rl_rationale :: string

text \<open>Columns that the code reads and writes as plain texts or 64-bit integers are grouped in the
  domain's own records.\<close>

record intent_row =
  ir_timer_intent_id :: string
  ir_intent_revision :: int
  ir_intent_type :: string
  ir_state :: string
  ir_owner_actor_id :: string
  ir_created_by_actor_id :: string
  ir_automation :: timer_intent_automation_source
  ir_program_event_id :: string
  ir_backend_event :: timer_intent_backend_event_ref
  ir_channel :: timer_intent_channel_requirement
  ir_schedule :: timer_intent_schedule
  ir_recording :: recording_columns
  ir_assignment_allow_failover :: int
  ir_assignment_require_operator_review :: int
  ir_assignment_preferred_backend_ids :: string
  ir_assignment_excluded_backend_ids :: string
  ir_replica :: replica_columns
  ir_duplicate_prevent_equivalent_intent :: int
  ir_duplicate_require_operator_review :: int
  ir_created_at :: int
  ir_updated_at :: int
  ir_expires_at :: int
  ir_semantic_identity :: string

section \<open>Codecs\<close>

definition parseRevisionToken :: "string \<Rightarrow> nat option" where
  "parseRevisionToken token =
     (if token = [] then None
      else case accumulateDigits int64_max 0 token of
          None \<Rightarrow> None
        | Some v \<Rightarrow> if v = 0 then None else Some v)"

definition encodeStrings :: "string list \<Rightarrow> string" where
  "encodeStrings values = concat (map (\<lambda>v. decimal (length v) @ '':'' @ v) values)"

lemma length_takeWhile_less_mem: "x \<in> set xs \<Longrightarrow> length (takeWhile (\<lambda>y. y \<noteq> x) xs) < length xs"
  by (induction xs) auto

lemma findFrom_bound:
  assumes "findFrom encoded c position = Some k"
  shows "position \<le> k \<and> k < length encoded"
proof -
  have "c \<in> set (drop position encoded)"
    and k: "k = position + length (takeWhile (\<lambda>x. x \<noteq> c) (drop position encoded))"
    using assms by (auto simp: findFrom_def split: if_splits)
  then show ?thesis
    using length_takeWhile_less_mem [of c "drop position encoded"] by simp
qed

lemma readLength_progress:
  assumes "readLength encoded position = Some (len, start)"
  shows "position < start \<and> start + len \<le> length encoded"
proof -
  obtain colon where "findFrom encoded CHR '':'' position = Some colon" "start = colon + 1"
    "\<not> length encoded - start < len"
    using assms by (auto simp: readLength_def split: option.splits if_splits)
  then show ?thesis using findFrom_bound [of encoded "CHR '':''" position colon] by linarith
qed

text \<open>The reader of one length is the one of the field format; \<open>position\<close> grows with every
  round.\<close>

function decodeStringsFrom :: "string \<Rightarrow> nat \<Rightarrow> string list \<Rightarrow> string list option" where
  "decodeStringsFrom encoded position values =
     (if position < length encoded
      then (case readLength encoded position of
              None \<Rightarrow> None
            | Some (len, start) \<Rightarrow>
                decodeStringsFrom encoded (start + len)
                  (values @ [take len (drop start encoded)]))
      else Some values)"
  by pat_completeness auto
termination
  by (relation "measure (\<lambda>(encoded, position, values). length encoded - position)")
    (auto dest!: readLength_progress)

declare decodeStringsFrom.simps [simp del]

definition decodeStrings :: "string \<Rightarrow> string list option" where
  "decodeStrings encoded = decodeStringsFrom encoded 0 []"

definition parseIntentType :: "string \<Rightarrow> timer_intent_type option" where
  "parseIntentType value =
     (if value = ''programme_event'' then Some ProgrammeEvent
      else if value = ''manual_window'' then Some ManualWindow
      else if value = ''recurring_schedule'' then Some RecurringSchedule
      else None)"

definition parseIntentState :: "string \<Rightarrow> timer_intent_state option" where
  "parseIntentState value =
     (if value = ''draft'' then Some IntentDraft
      else if value = ''active'' then Some IntentActive
      else if value = ''paused'' then Some IntentPaused
      else if value = ''satisfied'' then Some IntentSatisfied
      else if value = ''cancel_requested'' then Some IntentCancelRequested
      else if value = ''cancelled'' then Some IntentCancelled
      else if value = ''expired'' then Some IntentExpired
      else if value = ''failed'' then Some IntentFailed
      else None)"

definition flagInt :: "bool \<Rightarrow> int" where
  "flagInt b = (if b then 1 else 0)"

definition columnFlag :: "int \<Rightarrow> bool" where
  "columnFlag i \<longleftrightarrow> columnInt i \<noteq> 0"

section \<open>Binding and reading a row\<close>

definition recordingColumns :: "timer_intent_recording_options \<Rightarrow> recording_columns" where
  "recordingColumns options =
     \<lparr>rc_start_margin_seconds = ro_startMarginSeconds options,
      rc_stop_margin_seconds = ro_stopMarginSeconds options,
      rc_priority = ro_priority options,
      rc_lifetime_days = ro_lifetimeDays options,
      rc_vps_preferred = flagInt (ro_vpsPreferred options),
      rc_directory_policy = ro_directoryPolicy options,
      rc_naming_policy = ro_namingPolicy options,
      rc_retention_policy_reference = ro_retentionPolicyReference options\<rparr>"

definition replicaColumns :: "timer_intent_replica_policy \<Rightarrow> replica_columns" where
  "replicaColumns policy =
     \<lparr>rl_desired_assignments = int (rp_desiredAssignments policy),
      rl_require_backend_diversity = flagInt (rp_requireBackendDiversity policy),
      rl_require_site_diversity = flagInt (rp_requireSiteDiversity policy),
      rl_simultaneous_recording_intentional =
        flagInt (rp_simultaneousRecordingIntentional policy),
      rl_storage_policy_reference = rp_storagePolicyReference policy,
      rl_retention_policy_reference = rp_retentionPolicyReference policy,
      rl_rationale = rp_rationale policy\<rparr>"

definition bindIntentColumns :: "timer_intent \<Rightarrow> string \<Rightarrow> intent_row option" where
  "bindIntentColumns intent semanticIdentity =
     (case parseRevisionToken (ti_intentRevision intent) of
        None \<Rightarrow> None
      | Some revision \<Rightarrow>
          (let spec = ti_spec intent
           in Some \<lparr>ir_timer_intent_id = ti_timerIntentId intent,
                    ir_intent_revision = int revision,
                    ir_intent_type = timerIntentTypeName (is_intentType spec),
                    ir_state = timerIntentStateName (ti_state intent),
                    ir_owner_actor_id = is_ownerActorId spec,
                    ir_created_by_actor_id = ti_createdByActorId intent,
                    ir_automation = is_automationSource spec,
                    ir_program_event_id = is_programEventId spec,
                    ir_backend_event = is_backendEventRef spec,
                    ir_channel = is_channelRequirement spec,
                    ir_schedule = is_schedule spec,
                    ir_recording = recordingColumns (is_recordingOptions spec),
                    ir_assignment_allow_failover =
                      flagInt (ap_allowFailover (is_assignmentPolicy spec)),
                    ir_assignment_require_operator_review =
                      flagInt (ap_requireOperatorReview (is_assignmentPolicy spec)),
                    ir_assignment_preferred_backend_ids =
                      encodeStrings (ap_preferredBackendIds (is_assignmentPolicy spec)),
                    ir_assignment_excluded_backend_ids =
                      encodeStrings (ap_excludedBackendIds (is_assignmentPolicy spec)),
                    ir_replica = replicaColumns (is_replicaPolicy spec),
                    ir_duplicate_prevent_equivalent_intent =
                      flagInt (dp_preventEquivalentIntent (is_duplicatePolicy spec)),
                    ir_duplicate_require_operator_review =
                      flagInt (dp_requireOperatorReviewOnAmbiguity (is_duplicatePolicy spec)),
                    ir_created_at = ti_createdAt intent,
                    ir_updated_at = ti_updatedAt intent,
                    ir_expires_at = ti_expiresAt intent,
                    ir_semantic_identity = semanticIdentity\<rparr>))"

definition readRecording :: "recording_columns \<Rightarrow> timer_intent_recording_options" where
  "readRecording c =
     \<lparr>ro_startMarginSeconds = columnInt (rc_start_margin_seconds c),
      ro_stopMarginSeconds = columnInt (rc_stop_margin_seconds c),
      ro_priority = columnInt (rc_priority c),
      ro_lifetimeDays = columnInt (rc_lifetime_days c),
      ro_vpsPreferred = columnFlag (rc_vps_preferred c),
      ro_directoryPolicy = rc_directory_policy c,
      ro_namingPolicy = rc_naming_policy c,
      ro_retentionPolicyReference = rc_retention_policy_reference c\<rparr>"

definition readReplica :: "replica_columns \<Rightarrow> timer_intent_replica_policy" where
  "readReplica c =
     \<lparr>rp_desiredAssignments = nat (rl_desired_assignments c),
      rp_requireBackendDiversity = columnFlag (rl_require_backend_diversity c),
      rp_requireSiteDiversity = columnFlag (rl_require_site_diversity c),
      rp_simultaneousRecordingIntentional = columnFlag (rl_simultaneous_recording_intentional c),
      rp_storagePolicyReference = rl_storage_policy_reference c,
      rp_retentionPolicyReference = rl_retention_policy_reference c,
      rp_rationale = rl_rationale c\<rparr>"

definition readIntent :: "intent_row \<Rightarrow> timer_intent option" where
  "readIntent row =
     (if ir_intent_revision row \<le> 0 then None
      else case (parseIntentType (ir_intent_type row), parseIntentState (ir_state row),
                 decodeStrings (ir_assignment_preferred_backend_ids row),
                 decodeStrings (ir_assignment_excluded_backend_ids row)) of
          (Some intentType, Some state, Some preferred, Some excluded) \<Rightarrow>
            if rl_desired_assignments (ir_replica row) < 0
              \<or> rl_desired_assignments (ir_replica row) > int uint32_max then None
            else (let intent =
                    \<lparr>ti_timerIntentId = ir_timer_intent_id row,
                     ti_intentRevision = to_string (ir_intent_revision row),
                     ti_state = state,
                     ti_createdByActorId = ir_created_by_actor_id row,
                     ti_spec =
                       \<lparr>is_intentType = intentType,
                        is_ownerActorId = ir_owner_actor_id row,
                        is_automationSource = ir_automation row,
                        is_programEventId = ir_program_event_id row,
                        is_backendEventRef = ir_backend_event row,
                        is_channelRequirement = ir_channel row,
                        is_schedule = ir_schedule row,
                        is_recordingOptions = readRecording (ir_recording row),
                        is_assignmentPolicy =
                          \<lparr>ap_allowFailover = columnFlag (ir_assignment_allow_failover row),
                           ap_requireOperatorReview =
                             columnFlag (ir_assignment_require_operator_review row),
                           ap_preferredBackendIds = preferred,
                           ap_excludedBackendIds = excluded\<rparr>,
                        is_replicaPolicy = readReplica (ir_replica row),
                        is_duplicatePolicy =
                          \<lparr>dp_preventEquivalentIntent =
                             columnFlag (ir_duplicate_prevent_equivalent_intent row),
                           dp_requireOperatorReviewOnAmbiguity =
                             columnFlag (ir_duplicate_require_operator_review row)\<rparr>\<rparr>,
                     ti_createdAt = ir_created_at row,
                     ti_updatedAt = ir_updated_at row,
                     ti_expiresAt = ir_expires_at row\<rparr>
                  in if \<not> timerIntentValid intent then None
                     else if timerIntentSemanticIdentity (ti_spec intent) = ir_semantic_identity row
                     then Some intent else None)
        | _ \<Rightarrow> None)"

text \<open>Primary key and CHECK clauses of the table.\<close>

definition intentConstraints :: "intent_row list \<Rightarrow> intent_row \<Rightarrow> bool" where
  "intentConstraints rows row \<longleftrightarrow>
     ir_timer_intent_id row \<notin> set (map ir_timer_intent_id rows)
     \<and> ir_intent_revision row > 0
     \<and> ir_intent_type row \<in> set [''programme_event'', ''manual_window'', ''recurring_schedule'']
     \<and> ir_state row \<in> set [''draft'', ''active'', ''paused'', ''satisfied'', ''cancel_requested'',
          ''cancelled'', ''expired'', ''failed'']
     \<and> rc_vps_preferred (ir_recording row) \<in> {0, 1}
     \<and> ir_assignment_allow_failover row \<in> {0, 1}
     \<and> ir_assignment_require_operator_review row \<in> {0, 1}
     \<and> rl_desired_assignments (ir_replica row) > 0
     \<and> rl_require_backend_diversity (ir_replica row) \<in> {0, 1}
     \<and> rl_require_site_diversity (ir_replica row) \<in> {0, 1}
     \<and> rl_simultaneous_recording_intentional (ir_replica row) \<in> {0, 1}
     \<and> ir_duplicate_prevent_equivalent_intent row \<in> {0, 1}
     \<and> ir_duplicate_require_operator_review row \<in> {0, 1}"

section \<open>Operations\<close>

datatype timer_intent_repository_status =
  IntentOk | IntentInvalid | IntentNotFound | IntentConflict | IntentAlreadyExists
| IntentStorageError

text \<open>\<open>None\<close> stands for the default-constructed intent of a result without one.\<close>

record timer_intent_repository_result =
  ni_status :: timer_intent_repository_status
  ni_intent :: "timer_intent option"

record timer_intent_repository_list_result =
  nl_status :: timer_intent_repository_status
  nl_intents :: "timer_intent list"

definition intentStatusResult ::
  "timer_intent_repository_status \<Rightarrow> timer_intent_repository_result" where
  "intentStatusResult status = \<lparr>ni_status = status, ni_intent = None\<rparr>"

definition intentResult ::
  "timer_intent_repository_status \<Rightarrow> timer_intent \<Rightarrow> timer_intent_repository_result" where
  "intentResult status intent = \<lparr>ni_status = status, ni_intent = Some intent\<rparr>"

lemma intent_result_simps [simp]:
  "ni_status (intentStatusResult s) = s" "ni_status (intentResult s m) = s"
  "ni_intent (intentResult s m) = Some m" "ni_intent (intentStatusResult s) = None"
  by (simp_all add: intentStatusResult_def intentResult_def)

abbreviation int32_max :: nat where
  "int32_max \<equiv> 2147483647"

definition selectIntentById ::
  "(intent_call \<Rightarrow> bool) \<Rightarrow> intent_row list \<Rightarrow> string \<Rightarrow> timer_intent select_result" where
  "selectIntentById failing rows timerIntentId =
     selectFirst (failing IntentSelect \<or> length timerIntentId > int32_max)
       (\<lambda>row. ir_timer_intent_id row = timerIntentId) readIntent rows"

text \<open>Creation joins an open transaction or commits by itself.\<close>

definition createIntent ::
  "(intent_call \<Rightarrow> bool) \<Rightarrow> intent_row list database \<Rightarrow> timer_intent
     \<Rightarrow> timer_intent_repository_result \<times> intent_row list database" where
  "createIntent failing db intent =
     (if ti_intentRevision intent \<noteq> [] then (intentStatusResult IntentInvalid, db)
      else (let durable = intent\<lparr>ti_intentRevision := ''1'', ti_updatedAt := ti_createdAt intent\<rparr>;
                semanticIdentity = timerIntentSemanticIdentity (ti_spec durable)
            in if \<not> timerIntentValid durable \<or> semanticIdentity = []
               then (intentStatusResult IntentInvalid, db)
               else if failing IntentSchema then (intentStatusResult IntentStorageError, db)
               else (case bindIntentColumns durable semanticIdentity of
                   None \<Rightarrow> (intentStatusResult IntentStorageError, db)
                 | Some row \<Rightarrow>
                     if failing IntentInsert then (intentStatusResult IntentStorageError, db)
                     else if \<not> intentConstraints (visibleTables db) row
                     then (intentStatusResult IntentAlreadyExists, db)
                     else (intentResult IntentOk durable,
                           writeVisible (visibleTables db @ [row]) db))))"

definition createIntentInCurrentTransaction ::
  "(intent_call \<Rightarrow> bool) \<Rightarrow> intent_row list database \<Rightarrow> timer_intent
     \<Rightarrow> timer_intent_repository_result \<times> intent_row list database" where
  "createIntentInCurrentTransaction failing db intent =
     (if \<not> transactionActive db then (intentStatusResult IntentStorageError, db)
      else createIntent failing db intent)"

definition findIntentById ::
  "(intent_call \<Rightarrow> bool) \<Rightarrow> intent_row list database \<Rightarrow> string
     \<Rightarrow> timer_intent_repository_result" where
  "findIntentById failing db timerIntentId =
     (if timerIntentId = [] then intentStatusResult IntentInvalid
      else if failing IntentSchema then intentStatusResult IntentStorageError
      else case selectIntentById failing (visibleTables db) timerIntentId of
          SelectFailed \<Rightarrow> intentStatusResult IntentStorageError
        | SelectNone \<Rightarrow> intentStatusResult IntentNotFound
        | SelectFound intent \<Rightarrow> intentResult IntentOk intent)"

fun readIntents :: "intent_row list \<Rightarrow> timer_intent list option" where
  "readIntents [] = Some []"
| "readIntents (row # rows) =
     (case readIntent row of
        None \<Rightarrow> None
      | Some intent \<Rightarrow> map_option ((#) intent) (readIntents rows))"

definition findEquivalent ::
  "(intent_call \<Rightarrow> bool) \<Rightarrow> intent_row list database \<Rightarrow> timer_intent_spec
     \<Rightarrow> timer_intent_repository_list_result" where
  "findEquivalent failing db spec =
     (let semanticIdentity = timerIntentSemanticIdentity spec
      in if semanticIdentity = [] then \<lparr>nl_status = IntentInvalid, nl_intents = []\<rparr>
         else if failing IntentSchema \<or> failing IntentList
         then \<lparr>nl_status = IntentStorageError, nl_intents = []\<rparr>
         else case readIntents (sort_key ir_timer_intent_id
                (filter (\<lambda>row. ir_semantic_identity row = semanticIdentity) (visibleTables db))) of
             None \<Rightarrow> \<lparr>nl_status = IntentStorageError, nl_intents = []\<rparr>
           | Some intents \<Rightarrow> \<lparr>nl_status = IntentOk, nl_intents = intents\<rparr>)"

text \<open>The UPDATE: every column but the identifier, where identifier and revision match.\<close>

definition updateIntentRows ::
  "string \<Rightarrow> nat \<Rightarrow> intent_row \<Rightarrow> intent_row list \<Rightarrow> intent_row list" where
  "updateIntentRows timerIntentId expectedRevision new rows =
     map (\<lambda>row. if ir_timer_intent_id row = timerIntentId
              \<and> ir_intent_revision row = int expectedRevision
            then new\<lparr>ir_timer_intent_id := ir_timer_intent_id row\<rparr> else row) rows"

definition changedIntentRows :: "string \<Rightarrow> nat \<Rightarrow> intent_row list \<Rightarrow> nat" where
  "changedIntentRows timerIntentId expectedRevision rows =
     length (filter (\<lambda>row. ir_timer_intent_id row = timerIntentId
       \<and> ir_intent_revision row = int expectedRevision) rows)"

definition updateIntentWrite ::
  "(intent_call \<Rightarrow> bool) \<Rightarrow> intent_row list database \<Rightarrow> timer_intent \<Rightarrow> nat \<Rightarrow> bool
     \<Rightarrow> timer_intent_repository_result \<times> intent_row list database" where
  "updateIntentWrite failing db durable expectedRevision currentTransaction =
     (let undo = (\<lambda>d. if currentTransaction then d
                       else executeRollback (failing IntentRollback) d);
          rows = visibleTables db
      in case bindIntentColumns durable (timerIntentSemanticIdentity (ti_spec durable)) of
          None \<Rightarrow> (intentStatusResult IntentStorageError, undo db)
        | Some row \<Rightarrow>
            if failing IntentUpdate then (intentStatusResult IntentStorageError, undo db)
            else (let db1 = writeTables (updateIntentRows (ti_timerIntentId durable)
                        expectedRevision row rows) db
                  in if changedIntentRows (ti_timerIntentId durable) expectedRevision rows \<noteq> 1
                     then (intentStatusResult IntentStorageError, undo db1)
                     else if currentTransaction then (intentResult IntentOk durable, db1)
                     else (case executeCommit (failing IntentCommit) db1 of
                         (False, db2) \<Rightarrow> (intentStatusResult IntentStorageError, undo db2)
                       | (True, db2) \<Rightarrow> (intentResult IntentOk durable, db2))))"

text \<open>The checks between the row that was read and the write.\<close>

definition updateIntentPermitted :: "timer_intent \<Rightarrow> timer_intent \<Rightarrow> bool" where
  "updateIntentPermitted current next \<longleftrightarrow>
     \<not> (timerIntentTerminal (ti_state current)
       \<or> ti_createdAt next \<noteq> ti_createdAt current
       \<or> ti_createdByActorId next \<noteq> ti_createdByActorId current
       \<or> ti_updatedAt next \<le> ti_updatedAt current
       \<or> (ti_state next \<noteq> ti_state current
           \<and> \<not> timerIntentCanTransition (ti_state current) (ti_state next)))"

definition updateIntentImpl ::
  "(intent_call \<Rightarrow> bool) \<Rightarrow> intent_row list database \<Rightarrow> timer_intent \<Rightarrow> string \<Rightarrow> bool
     \<Rightarrow> timer_intent_repository_result \<times> intent_row list database" where
  "updateIntentImpl failing db next expectedRevision currentTransaction =
     (case parseRevisionToken expectedRevision of
        None \<Rightarrow> (intentStatusResult IntentInvalid, db)
      | Some v \<Rightarrow>
          if ti_intentRevision next \<noteq> expectedRevision then (intentStatusResult IntentInvalid, db)
          else if currentTransaction \<noteq> transactionActive db \<or> failing IntentSchema
          then (intentStatusResult IntentStorageError, db)
          else (case (if currentTransaction then (True, db)
                      else executeBegin (failing IntentBegin) db) of
              (False, db0) \<Rightarrow> (intentStatusResult IntentStorageError, db0)
            | (True, db0) \<Rightarrow>
                (let undone = (if currentTransaction then db0
                               else executeRollback (failing IntentRollback) db0);
                     durable = next\<lparr>ti_intentRevision := decimal (v + 1)\<rparr>
                 in case selectIntentById failing (visibleTables db0) (ti_timerIntentId next) of
                     SelectFailed \<Rightarrow> (intentStatusResult IntentStorageError, undone)
                   | SelectNone \<Rightarrow> (intentStatusResult IntentNotFound, undone)
                   | SelectFound current \<Rightarrow>
                       if \<not> timerIntentRevisionMatches expectedRevision (ti_intentRevision current)
                       then (intentResult IntentConflict current, undone)
                       else if \<not> updateIntentPermitted current next
                       then (intentStatusResult IntentInvalid, undone)
                       else if v = int64_max then (intentStatusResult IntentStorageError, undone)
                       else if \<not> timerIntentValid durable
                         \<or> timerIntentSemanticIdentity (ti_spec durable) = []
                       then (intentStatusResult IntentInvalid, undone)
                       else updateIntentWrite failing db0 durable v currentTransaction)))"

definition updateIntent ::
  "(intent_call \<Rightarrow> bool) \<Rightarrow> intent_row list database \<Rightarrow> timer_intent \<Rightarrow> string
     \<Rightarrow> timer_intent_repository_result \<times> intent_row list database" where
  "updateIntent failing db next expectedRevision =
     updateIntentImpl failing db next expectedRevision False"

definition updateIntentInCurrentTransaction ::
  "(intent_call \<Rightarrow> bool) \<Rightarrow> intent_row list database \<Rightarrow> timer_intent \<Rightarrow> string
     \<Rightarrow> timer_intent_repository_result \<times> intent_row list database" where
  "updateIntentInCurrentTransaction failing db next expectedRevision =
     updateIntentImpl failing db next expectedRevision True"

end
