(* ===== verification/IntentStore.thy ===== *)
theory IntentStore
  imports TimerIntentRepository JournaledStore RevisionFence
begin

text \<open>
  The intent store against its abstract specification \<open>intentJournal\<close>: a valid intent is admitted
  once at revision 1; a stored one is revised by a permitted change that raises its revision by
  one. Lemmas: the row codec loses nothing, every call follows the journal, rows stay readable and
  unique, and the store is fenced by its revisions.
\<close>

section \<open>The codecs lose nothing\<close>

lemma decodeStringsFrom_encode:
  assumes "\<forall>v \<in> set vs. length v \<le> size_max"
  shows "decodeStringsFrom (pre @ encodeStrings vs) (length pre) acc = Some (acc @ vs)"
  using assms
proof (induction vs arbitrary: pre acc)
  case Nil
  then show ?case by (simp add: decodeStringsFrom.simps encodeStrings_def)
next
  case (Cons v vs)
  let ?e = "pre @ encodeStrings (v # vs)" and ?start = "length pre + length (decimal (length v)) + 1"
  have e: "?e = pre @ decimal (length v) @ CHR '':'' # v @ encodeStrings vs"
    by (simp add: encodeStrings_def)
  have read: "readLength ?e (length pre) = Some (length v, ?start)"
    using Cons.prems readLength_decimal [of "length v" pre "v @ encodeStrings vs"] by (simp add: e)
  have "take (length v) (drop ?start ?e) = v" by (simp add: e)
  moreover have "decodeStringsFrom ?e (?start + length v) (acc @ [v]) = Some ((acc @ [v]) @ vs)"
    using Cons.IH [of "pre @ decimal (length v) @ '':'' @ v" "acc @ [v]"] Cons.prems
    by (simp add: e add.assoc)
  moreover have "length pre < length ?e" by (simp add: e)
  ultimately show ?case
    by (subst decodeStringsFrom.simps) (simp add: read)
qed

lemma decodeStrings_encode [codec_simps]:
  "\<forall>v \<in> set vs. length v \<le> size_max \<Longrightarrow> decodeStrings (encodeStrings vs) = Some vs"
  using decodeStringsFrom_encode [of vs "[]" "[]"] by (simp add: decodeStrings_def)

lemma columnFlag_flagInt [codec_simps, simp]: "columnFlag (flagInt b) = b"
  by (simp add: columnFlag_def flagInt_def columnInt_small)

lemma parseIntentType_name [simp]: "parseIntentType (timerIntentTypeName t) = Some t"
  by (cases t) (simp_all add: parseIntentType_def)

lemma parseIntentState_name [simp]: "parseIntentState (timerIntentStateName s) = Some s"
  by (cases s) (simp_all add: parseIntentState_def)

lemma readRecording_columns:
  "recordingOptionsValid options \<Longrightarrow> readRecording (recordingColumns options) = options"
  by (cases options)
    (simp add: readRecording_def recordingColumns_def recordingOptionsValid_def columnInt_small)

lemma readReplica_columns: "readReplica (replicaColumns policy) = policy"
  by (cases policy) (simp add: readReplica_def replicaColumns_def)

lemma parseRevisionToken_decimal:
  "0 < n \<Longrightarrow> n \<le> int64_max \<Longrightarrow> parseRevisionToken (decimal n) = Some n"
  using accumulateDigits_decimal [of int64_max n] by (simp add: parseRevisionToken_def)

lemma uniqueBoundedIds_small:
  "uniqueBoundedIds vs \<Longrightarrow> v \<in> set vs \<Longrightarrow> length v \<le> size_max"
  by (auto simp: uniqueBoundedIds_iff dest!: nonEmptyBounded_imp)

definition intentRow :: "timer_intent \<Rightarrow> nat \<Rightarrow> intent_row" where
  "intentRow intent n =
     the (bindIntentColumns (intent\<lparr>ti_intentRevision := decimal n\<rparr>)
       (timerIntentSemanticIdentity (ti_spec intent)))"

lemma bindIntentColumns_row:
  assumes "ti_intentRevision m = decimal n" "0 < n" "n \<le> int64_max"
  shows "bindIntentColumns m (timerIntentSemanticIdentity (ti_spec m)) = Some (intentRow m n)"
  using assms parseRevisionToken_decimal [OF assms(2,3)]
  by (simp add: intentRow_def bindIntentColumns_def Let_def)

lemma intentRow_fields:
  assumes "0 < n" "n \<le> int64_max"
  shows "ir_timer_intent_id (intentRow m n) = ti_timerIntentId m"
    and "ir_intent_revision (intentRow m n) = int n"
    and "ir_semantic_identity (intentRow m n) = timerIntentSemanticIdentity (ti_spec m)"
  using parseRevisionToken_decimal [OF assms] by (simp_all add: intentRow_def bindIntentColumns_def
      Let_def)

text \<open>What is bound for a valid intent is what is read back.\<close>

lemma readIntent_row:
  assumes "timerIntentValid m" "ti_intentRevision m = decimal n" "0 < n" "n \<le> int64_max"
  shows "readIntent (intentRow m n) = Some m"
proof -
  let ?s = "ti_spec m"
  have v: "timerIntentValidSpec ?s" using assms(1) by (simp add: timerIntentValid_def)
  note parts = timerIntentValidSpec_parts [OF v]
  have ids: "decodeStrings (encodeStrings (ap_preferredBackendIds (is_assignmentPolicy ?s))) =
      Some (ap_preferredBackendIds (is_assignmentPolicy ?s))"
    "decodeStrings (encodeStrings (ap_excludedBackendIds (is_assignmentPolicy ?s))) =
      Some (ap_excludedBackendIds (is_assignmentPolicy ?s))"
    using parts(1) uniqueBoundedIds_small
    by (auto simp: assignmentPolicyValid_iff intro!: decodeStrings_encode)
  have rep: "rp_desiredAssignments (is_replicaPolicy ?s) \<le> 4" using parts(4) by simp
  have eta: "\<lparr>ti_timerIntentId = ti_timerIntentId m, ti_intentRevision = decimal n,
      ti_state = ti_state m, ti_createdByActorId = ti_createdByActorId m, ti_spec = ?s,
      ti_createdAt = ti_createdAt m, ti_updatedAt = ti_updatedAt m,
      ti_expiresAt = ti_expiresAt m\<rparr> = m"
    using assms(2) by (cases m) simp
  have spec: "\<lparr>is_intentType = is_intentType ?s, is_ownerActorId = is_ownerActorId ?s,
      is_automationSource = is_automationSource ?s, is_programEventId = is_programEventId ?s,
      is_backendEventRef = is_backendEventRef ?s,
      is_channelRequirement = is_channelRequirement ?s, is_schedule = is_schedule ?s,
      is_recordingOptions = is_recordingOptions ?s,
      is_assignmentPolicy =
        \<lparr>ap_allowFailover = ap_allowFailover (is_assignmentPolicy ?s),
         ap_requireOperatorReview = ap_requireOperatorReview (is_assignmentPolicy ?s),
         ap_preferredBackendIds = ap_preferredBackendIds (is_assignmentPolicy ?s),
         ap_excludedBackendIds = ap_excludedBackendIds (is_assignmentPolicy ?s)\<rparr>,
      is_replicaPolicy = is_replicaPolicy ?s,
      is_duplicatePolicy =
        \<lparr>dp_preventEquivalentIntent = dp_preventEquivalentIntent (is_duplicatePolicy ?s),
         dp_requireOperatorReviewOnAmbiguity =
           dp_requireOperatorReviewOnAmbiguity (is_duplicatePolicy ?s)\<rparr>\<rparr> = ?s"
    by (cases ?s) simp
  have bound: "intentRow m n = the (bindIntentColumns m (timerIntentSemanticIdentity ?s))"
    using bindIntentColumns_row [OF assms(2-4)] by simp
  show ?thesis
    using assms rep ids parts(5) to_string_of_nat [of n]
    by (simp add: bound bindIntentColumns_def parseRevisionToken_decimal readIntent_def Let_def
        readRecording_columns readReplica_columns spec eta) (simp add: replicaColumns_def)
qed


section \<open>The abstract journal of intents\<close>

inductive intentJournal :: "intent_row list \<Rightarrow> intent_row list \<Rightarrow> bool" where
  admitIntent: "timerIntentValid m \<Longrightarrow> ti_intentRevision m = decimal 1 \<Longrightarrow>
     intentConstraints rows (intentRow m 1) \<Longrightarrow> intentJournal rows (rows @ [intentRow m 1])"
| reviseIntent: "find (\<lambda>row. ir_timer_intent_id row = ti_timerIntentId new) rows = Some r \<Longrightarrow>
     readIntent r = Some current \<Longrightarrow> ti_intentRevision current = decimal v \<Longrightarrow> 0 < v \<Longrightarrow>
     v < int64_max \<Longrightarrow> updateIntentPermitted current new \<Longrightarrow>
     timerIntentValid (new\<lparr>ti_intentRevision := decimal (v + 1)\<rparr>) \<Longrightarrow>
     intentJournal rows
       (updateIntentRows (ti_timerIntentId new) v (intentRow new (v + 1)) rows)"

inductive intentStep :: "intent_row list database \<Rightarrow> intent_row list database \<Rightarrow> bool" where
  stepCreate: "intentStep db (snd (createIntent failing db m))"
| stepCreateInCurrent: "intentStep db (snd (createIntentInCurrentTransaction failing db m))"
| stepUpdate: "intentStep db (snd (updateIntent failing db m tok))"
| stepUpdateInCurrent: "intentStep db (snd (updateIntentInCurrentTransaction failing db m tok))"
| intentStepBegin: "intentStep db (snd (executeBegin f db))"
| intentStepCommit: "intentStep db (snd (executeCommit f db))"
| intentStepRollback: "intentStep db (executeRollback f db)"

lemma decimal_one [simp]: "decimal (Suc 0) = ''1''"
  by (simp add: decimal.simps digitChar_def char_of_def bit_0)

lemma intentRow_revision [simp]:
  "intentRow (m\<lparr>ti_intentRevision := x\<rparr>) n = intentRow m n"
  by (simp add: intentRow_def)

lemma createIntent_cases:
  fixes m :: timer_intent
  defines "d \<equiv> m\<lparr>ti_intentRevision := ''1'', ti_updatedAt := ti_createdAt m\<rparr>"
  shows "(snd (createIntent failing db m) = db
        \<and> ni_status (fst (createIntent failing db m)) \<noteq> IntentOk)
     \<or> (ti_intentRevision m = [] \<and> timerIntentValid d
        \<and> intentConstraints (visibleTables db) (intentRow d 1)
        \<and> createIntent failing db m =
            (intentResult IntentOk d, writeVisible (visibleTables db @ [intentRow d 1]) db))"
proof -
  have "bindIntentColumns d (timerIntentSemanticIdentity (ti_spec d)) = Some (intentRow d 1)"
    by (rule bindIntentColumns_row) (simp_all add: d_def)
  then show ?thesis
    by (simp add: createIntent_def Let_def d_def)
qed

lemma createIntent_follows: "followsBy intentJournal db (snd (createIntent failing db m))"
proof -
  let ?d = "m\<lparr>ti_intentRevision := ''1'', ti_updatedAt := ti_createdAt m\<rparr>"
  have "timerIntentValid ?d \<Longrightarrow> intentConstraints (visibleTables db) (intentRow ?d 1) \<Longrightarrow>
      intentJournal (visibleTables db) (visibleTables db @ [intentRow ?d 1])"
    by (rule admitIntent) simp_all
  then show ?thesis
    using createIntent_cases [of failing db m] followsBy_refl [of intentJournal db]
      followsBy_writeVisible [of intentJournal db "visibleTables db @ [intentRow ?d 1]"]
    by fastforce
qed

text \<open>The database an update works on.\<close>

definition updateStart :: "bool \<Rightarrow> 't database \<Rightarrow> 't database" where
  "updateStart currentTransaction db =
     (if currentTransaction then db else writeTables (db_committed db) db)"

lemma updateStart_simps:
  assumes "currentTransaction = transactionActive db"
  shows "visibleTables (updateStart currentTransaction db) = visibleTables db"
    and "db_committed (updateStart currentTransaction db) = db_committed db"
    and "transactionActive (updateStart currentTransaction db)"
  using assms by (simp_all add: updateStart_def visible_begun)

lemma updateIntentImpl_cases:
  "(ni_status (fst (updateIntentImpl failing db new tok cur)) \<noteq> IntentOk
      \<and> (snd (updateIntentImpl failing db new tok cur) = db
        \<or> (\<not> cur \<and> \<not> transactionActive db \<and> snd (updateIntentImpl failing db new tok cur) =
             executeRollback (failing IntentRollback) (updateStart cur db))))
   \<or> (cur = transactionActive db \<and> (\<exists>v current. parseRevisionToken tok = Some v
        \<and> ti_intentRevision new = tok
        \<and> selectIntentById failing (visibleTables db) (ti_timerIntentId new) = SelectFound current
        \<and> ti_intentRevision current = tok
        \<and> updateIntentPermitted current new \<and> v \<noteq> int64_max
        \<and> timerIntentValid (new\<lparr>ti_intentRevision := decimal (v + 1)\<rparr>)
        \<and> updateIntentImpl failing db new tok cur =
            updateIntentWrite failing (updateStart cur db)
              (new\<lparr>ti_intentRevision := decimal (v + 1)\<rparr>) v cur))"
  by (cases "transactionActive db"; cases cur)
    (auto simp: updateIntentImpl_def Let_def executeBegin_def writeTables_def [symmetric]
      updateStart_def visible_begun timerIntentRevisionMatches_def revisionMatches_def
      split: option.split select_result.split)


text \<open>The rows after an accepted update.\<close>

definition revisedRows :: "timer_intent \<Rightarrow> nat \<Rightarrow> intent_row list \<Rightarrow> intent_row list" where
  "revisedRows new v rows = updateIntentRows (ti_timerIntentId new) v (intentRow new (v + 1)) rows"

lemma updateIntentWrite_cases:
  assumes "v < int64_max" and d: "d = new\<lparr>ti_intentRevision := decimal (v + 1)\<rparr>"
  shows "(ni_status (fst (updateIntentWrite failing db d v cur)) \<noteq> IntentOk
        \<and> db_committed (snd (updateIntentWrite failing db d v cur)) = db_committed db
        \<and> db_working (snd (updateIntentWrite failing db d v cur))
            \<in> {None, db_working db, Some (revisedRows new v (visibleTables db))})
     \<or> (changedIntentRows (ti_timerIntentId new) v (visibleTables db) = 1
        \<and> updateIntentWrite failing db d v cur =
            (intentResult IntentOk d,
             if cur then writeTables (revisedRows new v (visibleTables db)) db
             else \<lparr>db_committed = revisedRows new v (visibleTables db), db_working = None\<rparr>))"
proof -
  have "bindIntentColumns d (timerIntentSemanticIdentity (ti_spec d)) = Some (intentRow d (v + 1))"
    using assms(1) by (intro bindIntentColumns_row) (simp_all add: d)
  moreover have "intentRow d (v + 1) = intentRow new (v + 1)" by (simp add: d)
  moreover have "ti_timerIntentId d = ti_timerIntentId new" by (simp add: d)
  ultimately show ?thesis
    by (simp add: updateIntentWrite_def Let_def revisedRows_def executeRollback_def writeTables_def
        executeCommit_def split: option.split)
qed

lemma readIntent_fields:
  assumes "readIntent r = Some m"
  shows "timerIntentValid m" and "ti_timerIntentId m = ir_timer_intent_id r"
    and "ti_intentRevision m = to_string (ir_intent_revision r)" and "0 < ir_intent_revision r"
    and "ir_semantic_identity r = timerIntentSemanticIdentity (ti_spec m)"
  using assms by (auto simp: readIntent_def Let_def split: if_splits option.splits)

lemma parseRevisionToken_read:
  assumes "readIntent r = Some m" "parseRevisionToken (ti_intentRevision m) = Some v"
  shows "ir_intent_revision r = int v" and "ti_intentRevision m = decimal v" and "0 < v"
    and "v \<le> int64_max"
proof -
  obtain n where n: "ir_intent_revision r = int n"
    using readIntent_fields(4) [OF assms(1)] by (metis nonneg_int_cases less_imp_le)
  have rev: "ti_intentRevision m = decimal n"
    using readIntent_fields(3) [OF assms(1)] n to_string_of_nat by simp
  have acc: "accumulateDigits int64_max 0 (decimal n) = Some v" "0 < v"
    using assms(2) by (auto simp: rev parseRevisionToken_def split: if_splits option.splits)
  then have "v = n" by (auto dest: accumulateDigits_decimal_inverse)
  moreover have "v \<le> int64_max" by (rule accumulateDigits_le [OF acc(1)]) simp_all
  ultimately show "ir_intent_revision r = int v" "ti_intentRevision m = decimal v" "0 < v"
    "v \<le> int64_max"
    using n rev acc(2) by simp_all
qed

text \<open>An update that passed its checks, as a step of the journal.\<close>

lemma updateIntent_step:
  assumes "parseRevisionToken tok = Some v"
    and "selectIntentById failing rows (ti_timerIntentId new) = SelectFound current"
    and "ti_intentRevision current = tok" "updateIntentPermitted current new" "v \<noteq> int64_max"
    and "timerIntentValid (new\<lparr>ti_intentRevision := decimal (v + 1)\<rparr>)"
  shows "v < int64_max"
    and "intentJournal rows (revisedRows new v rows)"
proof -
  obtain r where r: "find (\<lambda>row. ir_timer_intent_id row = ti_timerIntentId new) rows = Some r"
    "readIntent r = Some current"
    using assms(2) by (auto simp: selectIntentById_def selectFirst_Found)
  note p = parseRevisionToken_read [OF r(2), unfolded assms(3), OF assms(1)]
  show lt: "v < int64_max" using p(4) assms(5) by simp
  show "intentJournal rows (revisedRows new v rows)"
    unfolding revisedRows_def using p(2) assms(3) by (intro reviseIntent [OF r _ p(3) lt assms(4,6)]) simp
qed

lemma updateIntentImpl_follows:
  "followsBy intentJournal db (snd (updateIntentImpl failing db new tok cur))"
proof -
  consider (stopped) "snd (updateIntentImpl failing db new tok cur) = db"
    | (undone) "\<not> cur" "\<not> transactionActive db" "snd (updateIntentImpl failing db new tok cur) =
             executeRollback (failing IntentRollback) (updateStart cur db)"
    | (reached) v current where "cur = transactionActive db" "parseRevisionToken tok = Some v"
        "selectIntentById failing (visibleTables db) (ti_timerIntentId new) = SelectFound current"
        "ti_intentRevision current = tok" "updateIntentPermitted current new" "v \<noteq> int64_max"
        "timerIntentValid (new\<lparr>ti_intentRevision := decimal (v + 1)\<rparr>)"
        "updateIntentImpl failing db new tok cur =
            updateIntentWrite failing (updateStart cur db)
              (new\<lparr>ti_intentRevision := decimal (v + 1)\<rparr>) v cur"
    using updateIntentImpl_cases [of failing db new tok cur] by blast
  then show ?thesis
  proof cases
    case stopped
    then show ?thesis by (simp add: followsBy_refl)
  next
    case undone
    then show ?thesis
      by (auto simp: followsBy_def executeRollback_def updateStart_def writeTables_def visible_begun)
  next
    case reached
    note step = updateIntent_step [OF reached(2-7)]
    define db0 where "db0 = updateStart cur db"
    have v: "visibleTables db0 = visibleTables db" and c: "db_committed db0 = db_committed db"
      using updateStart_simps [OF reached(1)] by (simp_all only: db0_def)
    have w: "db_working db0 = Some (visibleTables db)"
      using updateStart_simps(3) [OF reached(1)] v
      unfolding db0_def [symmetric] transactionActive_def by (auto simp: visibleTables_def)
    show ?thesis
      using updateIntentWrite_cases [OF step(1) refl, of failing db0 new cur]
        r_into_rtranclp [of intentJournal, OF step(2)]
      unfolding reached(8) db0_def [symmetric] v c w
      by (auto simp: followsBy_def c writeTables_def split: if_splits)
  qed
qed

interpretation intent_store: journaled_store intentJournal intentStep
proof unfold_locales
  fix db db'
  assume "intentStep db db'"
  then show "followsBy intentJournal db db'"
    by cases (simp_all add: createIntent_follows createIntentInCurrentTransaction_def
        updateIntentImpl_follows updateIntent_def updateIntentInCurrentTransaction_def
        followsBy_refl followsBy_begin followsBy_commit followsBy_rollback)
qed

end
