(* ===== verification/IntentFence.thy ===== *)
theory IntentFence
  imports IntentStore Lifecycle
begin

text \<open>
  What the intent journal keeps: identifiers unique and every row readable (\<open>intentRowsSound\<close>),
  stored intents only evolve (\<open>intentsEvolve\<close>), and revisions fence updates (the
  interpretation \<open>intent_fence\<close>).
\<close>

section \<open>Sound tables\<close>

definition intentRowsSound :: "intent_row list \<Rightarrow> bool" where
  "intentRowsSound rows \<longleftrightarrow>
     distinct (map ir_timer_intent_id rows) \<and> (\<forall>r \<in> set rows. readIntent r \<noteq> None)"

text \<open>How one stored intent may become another.\<close>

definition intentAdvances :: "timer_intent \<Rightarrow> timer_intent \<Rightarrow> bool" where
  "intentAdvances a b \<longleftrightarrow>
     ti_timerIntentId b = ti_timerIntentId a
     \<and> ti_createdByActorId b = ti_createdByActorId a
     \<and> ti_createdAt b = ti_createdAt a
     \<and> ti_updatedAt a < ti_updatedAt b
     \<and> \<not> timerIntentTerminal (ti_state a)
     \<and> (\<exists>ts. permittedHistory timerIntentCanTransition (ti_state a) ts
          \<and> ti_state b = last (ti_state a # ts))"

definition intentEvolves :: "intent_row \<Rightarrow> intent_row \<Rightarrow> bool" where
  "intentEvolves r r' \<longleftrightarrow> r' = r
     \<or> ir_intent_revision r < ir_intent_revision r'
       \<and> (\<exists>a b. readIntent r = Some a \<and> readIntent r' = Some b \<and> intentAdvances a b)"

definition intentsEvolve :: "intent_row list \<Rightarrow> intent_row list \<Rightarrow> bool" where
  "intentsEvolve rows rows' \<longleftrightarrow> (\<forall>r \<in> set rows. \<exists>r' \<in> set rows'. intentEvolves r r')"

lemma intentAdvances_trans:
  assumes "intentAdvances a b" "intentAdvances b c"
  shows "intentAdvances a c"
proof -
  obtain ts us where
    "permittedHistory timerIntentCanTransition (ti_state a) ts" "ti_state b = last (ti_state a # ts)"
    "permittedHistory timerIntentCanTransition (ti_state b) us" "ti_state c = last (ti_state b # us)"
    using assms unfolding intentAdvances_def by (elim conjE exE) rule
  then have "permittedHistory timerIntentCanTransition (ti_state a) (ts @ us)
      \<and> ti_state c = last (ti_state a # ts @ us)"
    by (simp add: permittedHistory_append)
  then have "\<exists>ts. permittedHistory timerIntentCanTransition (ti_state a) ts
      \<and> ti_state c = last (ti_state a # ts)" ..
  then show ?thesis using assms by (simp add: intentAdvances_def)
qed

lemma intentEvolves_trans:
  assumes "intentEvolves r s" "intentEvolves s t"
  shows "intentEvolves r t"
proof (cases "r = s \<or> s = t")
  case True
  with assms show ?thesis by auto
next
  case False
  obtain a b where 1: "readIntent r = Some a" "readIntent s = Some b" "intentAdvances a b"
    "ir_intent_revision r < ir_intent_revision s"
    using assms(1) False by (auto simp: intentEvolves_def)
  obtain b' c where 2: "readIntent s = Some b'" "readIntent t = Some c" "intentAdvances b' c"
    "ir_intent_revision s < ir_intent_revision t"
    using assms(2) False by (auto simp: intentEvolves_def)
  have "intentAdvances a c" using 1(2,3) 2(1,3) intentAdvances_trans by simp
  with 1 2 show ?thesis by (simp add: intentEvolves_def)
qed

lemma intentsEvolve_refl: "intentsEvolve rows rows"
  by (auto simp: intentsEvolve_def intentEvolves_def)

lemma intentsEvolve_trans: "intentsEvolve t u \<Longrightarrow> intentsEvolve u v \<Longrightarrow> intentsEvolve t v"
  unfolding intentsEvolve_def by (meson intentEvolves_trans)

lemma intentEvolves_id: "intentEvolves r r' \<Longrightarrow> ir_timer_intent_id r' = ir_timer_intent_id r"
  using readIntent_fields(2) by (auto simp: intentEvolves_def intentAdvances_def)

text \<open>What a revision writes.\<close>

lemma revisedRows_single:
  assumes "intentRowsSound rows"
    and "find (\<lambda>row. ir_timer_intent_id row = ti_timerIntentId new) rows = Some r"
    and "ir_intent_revision r = int v" "v < int64_max"
  shows "revisedRows new v rows = map (\<lambda>x. if x = r then intentRow new (v + 1) else x) rows"
proof -
  have "ir_timer_intent_id r = ti_timerIntentId new" using find_Some_in [OF assms(2)] by simp
  then have "(intentRow new (v + 1))\<lparr>ir_timer_intent_id := ir_timer_intent_id r\<rparr>
      = intentRow new (v + 1)"
    using intentRow_fields(1) [of "v + 1" new] assms(4) by (cases "intentRow new (v + 1)") simp
  then show ?thesis
    unfolding revisedRows_def updateIntentRows_def
    using update_unique_row(1) [where Q = "\<lambda>x. ir_intent_revision x = int v"
        and f = "\<lambda>x. (intentRow new (v + 1))\<lparr>ir_timer_intent_id := ir_timer_intent_id x\<rparr>",
        OF _ assms(2,3)] assms(1)
    by (simp add: intentRowsSound_def)
qed

lemma revised_evolves:
  assumes "readIntent r = Some current" "ti_intentRevision current = decimal v" "v < int64_max"
    and "ti_timerIntentId current = ti_timerIntentId new" "updateIntentPermitted current new"
    and "timerIntentValid (new\<lparr>ti_intentRevision := decimal (v + 1)\<rparr>)"
  shows "readIntent (intentRow new (v + 1)) = Some (new\<lparr>ti_intentRevision := decimal (v + 1)\<rparr>)"
    and "intentEvolves r (intentRow new (v + 1))"
proof -
  let ?d = "new\<lparr>ti_intentRevision := decimal (v + 1)\<rparr>"
  show read: "readIntent (intentRow new (v + 1)) = Some ?d"
    using readIntent_row [OF assms(6), of "v + 1"] assms(3) by simp
  have "ir_intent_revision r = int v"
    using readIntent_fields(3) [OF assms(1)] assms(2) to_string_of_nat [of v] to_string_inject
    by metis
  moreover have "ir_intent_revision (intentRow new (v + 1)) = int (v + 1)"
    using assms(3) by (intro intentRow_fields(2)) simp_all
  moreover have "\<exists>ts. permittedHistory timerIntentCanTransition (ti_state current) ts
      \<and> ti_state new = last (ti_state current # ts)"
  proof (cases "ti_state new = ti_state current")
    case True
    then show ?thesis by (intro exI [of _ "[]"]) simp
  next
    case False
    with assms(5) show ?thesis
      by (intro exI [of _ "[ti_state new]"]) (simp add: updateIntentPermitted_def)
  qed
  then have "intentAdvances current ?d"
    using assms(4,5) by (simp add: intentAdvances_def updateIntentPermitted_def)
  ultimately show "intentEvolves r (intentRow new (v + 1))"
    using assms(1) read by (simp add: intentEvolves_def)
qed

lemma intentJournal_step:
  assumes "intentJournal rows rows'" "intentRowsSound rows"
  shows "intentRowsSound rows'" and "intentsEvolve rows rows'"
proof -
  have "intentRowsSound rows' \<and> intentsEvolve rows rows'"
    using assms(1)
  proof cases
    case (admitIntent m)
    have "readIntent (intentRow m 1) = Some m"
      by (rule readIntent_row) (use admitIntent in simp_all)
    then have "intentRowsSound rows'"
      using assms(2) conjunct1 [OF admitIntent(4) [unfolded intentConstraints_def]]
      by (simp add: intentRowsSound_def admitIntent(1))
    moreover have "intentsEvolve rows rows'"
      using intentsEvolve_refl [of rows] by (auto simp: intentsEvolve_def admitIntent(1))
    ultimately show ?thesis ..
  next
    case (reviseIntent new r current v)
    have r: "r \<in> set rows" "ir_timer_intent_id r = ti_timerIntentId new"
      using find_Some_in [OF reviseIntent(2)] by simp_all
    have rev: "ir_intent_revision r = int v"
      using readIntent_fields(3) [OF reviseIntent(3)] reviseIntent(4) to_string_of_nat [of v]
        to_string_inject by metis
    have rows': "rows' = map (\<lambda>x. if x = r then intentRow new (v + 1) else x) rows"
      using revisedRows_single [OF assms(2) reviseIntent(2) rev reviseIntent(6)] reviseIntent(1)
      by (simp add: revisedRows_def)
    have id: "ti_timerIntentId current = ti_timerIntentId new"
      using readIntent_fields(2) [OF reviseIntent(3)] r(2) by simp
    note ev = revised_evolves [OF reviseIntent(3,4,6) id reviseIntent(7,8)]
    have "map ir_timer_intent_id rows' = map ir_timer_intent_id rows"
      using intentEvolves_id [OF ev(2)] by (simp add: rows')
    moreover have "readIntent x \<noteq> None" if "x \<in> set rows'" for x
      using that assms(2) ev(1) by (auto simp: intentRowsSound_def rows' split: if_splits)
    ultimately have "intentRowsSound rows'"
      using assms(2) by (simp add: intentRowsSound_def)
    moreover have "intentsEvolve rows rows'"
      using ev(2) by (auto simp: intentsEvolve_def rows' intentEvolves_def)
    ultimately show ?thesis ..
  qed
  then show "intentRowsSound rows'" "intentsEvolve rows rows'" by simp_all
qed


section \<open>Sound stores\<close>

abbreviation intentSteps :: "intent_row list database \<Rightarrow> intent_row list database \<Rightarrow> bool" where
  "intentSteps \<equiv> intentStep\<^sup>*\<^sup>*"

definition intentStoreSound :: "intent_row list database \<Rightarrow> bool" where
  "intentStoreSound db \<longleftrightarrow>
     intentRowsSound (db_committed db) \<and> transactionFollowsBy intentJournal db"

lemma intentJournals:
  assumes "intentJournal\<^sup>*\<^sup>* rows rows'" "intentRowsSound rows"
  shows "intentRowsSound rows' \<and> intentsEvolve rows rows'"
  using assms
proof (induction rule: rtranclp_induct)
  case base
  then show ?case by (simp add: intentsEvolve_refl)
next
  case (step y z)
  then show ?case using intentJournal_step [of y z] intentsEvolve_trans by blast
qed

lemma intentSteps_sound:
  assumes "intentSteps db db'" "intentStoreSound db"
  shows "intentStoreSound db'" and "intentsEvolve (db_committed db) (db_committed db')"
  using intent_store.steps_journal [OF assms(1)] assms(2) intentJournals
  by (auto simp: intentStoreSound_def)

lemma intentStoreSound_visible:
  "intentStoreSound db \<Longrightarrow> intentRowsSound (visibleTables db)"
  using intentJournals [OF transactionFollowsBy_visible] by (auto simp: intentStoreSound_def)

definition intentRowOf :: "string \<Rightarrow> intent_row list \<Rightarrow> intent_row option" where
  "intentRowOf i rows = find (\<lambda>row. ir_timer_intent_id row = i) rows"

lemma intentRowOf_Some:
  assumes "intentRowsSound rows"
  shows "intentRowOf i rows = Some r \<longleftrightarrow> r \<in> set rows \<and> ir_timer_intent_id r = i"
proof
  assume "intentRowOf i rows = Some r"
  then show "r \<in> set rows \<and> ir_timer_intent_id r = i"
    unfolding intentRowOf_def by (rule find_Some_in)
next
  assume r: "r \<in> set rows \<and> ir_timer_intent_id r = i"
  have "distinct (map ir_timer_intent_id rows)" using assms by (simp add: intentRowsSound_def)
  from find_unique_key [OF this conjunct1 [OF r]] r show "intentRowOf i rows = Some r"
    by (simp add: intentRowOf_def)
qed

lemma intentRowOf_evolves:
  assumes "intentSteps db db'" "intentStoreSound db"
    and "intentRowOf i (db_committed db) = Some r"
  obtains r' where "intentRowOf i (db_committed db') = Some r'" "intentEvolves r r'"
proof -
  have s: "intentRowsSound (db_committed db)" "intentRowsSound (db_committed db')"
    using intentSteps_sound(1) [OF assms(1,2)] assms(2) by (simp_all add: intentStoreSound_def)
  have r: "r \<in> set (db_committed db)" "ir_timer_intent_id r = i"
    using assms(3) intentRowOf_Some [OF s(1)] by auto
  obtain r' where "r' \<in> set (db_committed db')" "intentEvolves r r'"
    using intentSteps_sound(2) [OF assms(1,2)] r(1) by (auto simp: intentsEvolve_def)
  then show thesis
    using that intentRowOf_Some [OF s(2)] intentEvolves_id r(2) by simp
qed

section \<open>Accepted updates\<close>

lemma updateIntent_ok:
  assumes "updateIntent failing db new tok = (res, db')" "ni_status res = IntentOk"
    and "intentStoreSound db"
  obtains v current r where "\<not> transactionActive db" "tok = decimal v" "0 < v" "v < int64_max"
    "intentRowOf (ti_timerIntentId new) (db_committed db) = Some r" "readIntent r = Some current"
    "ir_intent_revision r = int v" "ti_intentRevision current = tok"
    "updateIntentPermitted current new"
    "timerIntentValid (new\<lparr>ti_intentRevision := decimal (v + 1)\<rparr>)"
    "res = intentResult IntentOk (new\<lparr>ti_intentRevision := decimal (v + 1)\<rparr>)"
    "db' = \<lparr>db_committed =
        map (\<lambda>x. if x = r then intentRow new (v + 1) else x) (db_committed db), db_working = None\<rparr>"
proof -
  have ok: "ni_status (fst (updateIntentImpl failing db new tok False)) = IntentOk"
    and out: "updateIntentImpl failing db new tok False = (res, db')"
    using assms(1,2) by (simp_all add: updateIntent_def)
  obtain v current where *: "\<not> transactionActive db" "parseRevisionToken tok = Some v"
      "selectIntentById failing (visibleTables db) (ti_timerIntentId new) = SelectFound current"
      "ti_intentRevision current = tok" "updateIntentPermitted current new" "v \<noteq> int64_max"
      "timerIntentValid (new\<lparr>ti_intentRevision := decimal (v + 1)\<rparr>)"
      "updateIntentImpl failing db new tok False = updateIntentWrite failing (updateStart False db)
              (new\<lparr>ti_intentRevision := decimal (v + 1)\<rparr>) v False"
    using updateIntentImpl_cases [of failing db new tok False] ok by metis
  have vis: "visibleTables db = db_committed db" by (rule visible_begun) (rule *(1))
  obtain r where r: "intentRowOf (ti_timerIntentId new) (db_committed db) = Some r"
    "readIntent r = Some current"
    using *(3) by (auto simp: selectIntentById_def selectFirst_Found intentRowOf_def vis)
  note p = parseRevisionToken_read [OF r(2), unfolded *(4), OF *(2)]
  note lt = updateIntent_step(1) [OF *(2-7)]
  have start: "visibleTables (updateStart False db) = db_committed db"
    by (simp add: updateStart_def)
  have "updateIntentImpl failing db new tok False =
      (intentResult IntentOk (new\<lparr>ti_intentRevision := decimal (v + 1)\<rparr>),
       \<lparr>db_committed = revisedRows new v (db_committed db), db_working = None\<rparr>)"
    using updateIntentWrite_cases [OF lt refl, of failing "updateStart False db" new False] ok
    unfolding *(8) start by (simp del: One_nat_def)
  moreover have "revisedRows new v (db_committed db) =
      map (\<lambda>x. if x = r then intentRow new (v + 1) else x) (db_committed db)"
    using assms(3) r(1) p(1) lt
    by (intro revisedRows_single) (simp_all add: intentStoreSound_def intentRowOf_def)
  ultimately show thesis
    using that [OF *(1) p(2,3) lt r p(1) *(4,5,7)] out by simp
qed

definition storedIntentRevision :: "string \<Rightarrow> intent_row list database \<Rightarrow> int" where
  "storedIntentRevision i db =
     (case intentRowOf i (db_committed db) of None \<Rightarrow> 0 | Some r \<Rightarrow> ir_intent_revision r)"

definition acceptedUpdate ::
  "string \<Rightarrow> intent_row list database \<Rightarrow> int \<Rightarrow> intent_row list database \<Rightarrow> bool" where
  "acceptedUpdate i db v db' \<longleftrightarrow>
     (\<exists>failing new res. ti_timerIntentId new = i
        \<and> updateIntent failing db new (to_string v) = (res, db') \<and> ni_status res = IntentOk)"

lemma acceptedUpdateI:
  "updateIntent failing db new (to_string v) = (res, db') \<Longrightarrow> ni_status res = IntentOk \<Longrightarrow>
     acceptedUpdate (ti_timerIntentId new) db v db'"
  unfolding acceptedUpdate_def by blast

lemma updateIntent_is_step: "updateIntent failing db new tok = (res, db') \<Longrightarrow> intentStep db db'"
  by (metis stepUpdate snd_conv)

lemma storedIntentRevision_mono:
  assumes "intentStep db db'" "intentStoreSound db"
  shows "storedIntentRevision i db \<le> storedIntentRevision i db'"
proof (cases "intentRowOf i (db_committed db)")
  case None
  have "intentRowsSound (db_committed db')"
    using intentSteps_sound(1) [of db db'] assms by (auto simp: intentStoreSound_def)
  then have "intentRowOf i (db_committed db') = Some r \<Longrightarrow> 0 < ir_intent_revision r" for r
    using readIntent_fields(4) by (auto simp: intentRowOf_Some intentRowsSound_def)
  with None show ?thesis
    by (auto simp: storedIntentRevision_def intro: less_imp_le split: option.split)
next
  case (Some r)
  obtain r' where "intentRowOf i (db_committed db') = Some r'" "intentEvolves r r'"
    using intentRowOf_evolves [OF r_into_rtranclp [of intentStep, OF assms(1)] assms(2) Some] .
  with Some show ?thesis by (auto simp: storedIntentRevision_def intentEvolves_def)
qed

interpretation intent_fence: revision_fenced intentStep intentStoreSound "storedIntentRevision i"
  "acceptedUpdate i" for i
proof unfold_locales
  fix db db' v
  show "intentStep db db' \<Longrightarrow> intentStoreSound db \<Longrightarrow> intentStoreSound db'"
    using intentSteps_sound(1) [of db db'] by blast
  show "intentStep db db' \<Longrightarrow> intentStoreSound db \<Longrightarrow>
      storedIntentRevision i db \<le> storedIntentRevision i db'"
    by (rule storedIntentRevision_mono)
  show "acceptedUpdate i db v db' \<Longrightarrow> intentStep db db'"
    by (auto simp: acceptedUpdate_def intro: updateIntent_is_step)
  assume acc: "acceptedUpdate i db v db'" and sound: "intentStoreSound db"
  then obtain failing new res where i: "ti_timerIntentId new = i"
    and u: "updateIntent failing db new (to_string v) = (res, db')" "ni_status res = IntentOk"
    by (auto simp: acceptedUpdate_def)
  obtain n r where n: "to_string v = decimal n" "n < int64_max"
    and r: "intentRowOf i (db_committed db) = Some r" "ir_intent_revision r = int n"
    and db': "db_committed db' =
        map (\<lambda>x. if x = r then intentRow new (n + 1) else x) (db_committed db)"
    by (rule updateIntent_ok [OF u sound, unfolded i], rule that, assumption+, simp)
  have v: "v = int n" using n to_string_of_nat [of n] to_string_inject by metis
  have s: "intentRowsSound (db_committed db)" "intentRowsSound (db_committed db')"
    using intentSteps_sound(1) [OF r_into_rtranclp [of intentStep] sound]
      updateIntent_is_step [OF u(1)] sound by (auto simp: intentStoreSound_def)
  have "r \<in> set (db_committed db)" using r(1) intentRowOf_Some [OF s(1)] by simp
  then have "intentRow new (n + 1) \<in> set (db_committed db')" by (auto simp: db')
  then have "intentRowOf i (db_committed db') = Some (intentRow new (n + 1))"
    using n(2) i intentRow_fields(1) [of "n + 1" new] by (simp add: intentRowOf_Some [OF s(2)])
  then show "storedIntentRevision i db = v \<and> v < storedIntentRevision i db'"
    using r v n(2) intentRow_fields(2) [of "n + 1" new] by (simp add: storedIntentRevision_def)
qed

end
