(* ===== verification/IntentProperties.thy ===== *)
theory IntentProperties
  imports IntentFence "HOL-Library.Code_Target_Nat" "HOL-Library.Code_Target_Int"
begin

text \<open>
  What callers of the intent store may rely on: what was created or updated is what is read back,
  a stored intent only evolves along its lifecycle and never leaves a final state, an update is
  accepted only on the revision it quotes, and a search for equivalent intents is exact.
\<close>

section \<open>Reading\<close>

definition noIntentErrors :: "intent_call \<Rightarrow> bool" where
  "noIntentErrors call = False"

text \<open>A lookup without engine errors, on sound tables.\<close>

lemma findIntentById_sound:
  assumes "intentRowsSound (visibleTables db)" "i \<noteq> []" "length i \<le> int32_max"
  shows "findIntentById noIntentErrors db i =
     (case intentRowOf i (visibleTables db) of
        None \<Rightarrow> intentStatusResult IntentNotFound
      | Some r \<Rightarrow> intentResult IntentOk (the (readIntent r)))"
proof (cases "intentRowOf i (visibleTables db)")
  case None
  with assms show ?thesis
    by (simp add: findIntentById_def noIntentErrors_def selectIntentById_def selectFirst_def
        intentRowOf_def)
next
  case (Some r)
  then have "r \<in> set (visibleTables db)" using intentRowOf_Some [OF assms(1)] by simp
  then obtain m where "readIntent r = Some m" using assms(1) by (auto simp: intentRowsSound_def)
  with Some assms show ?thesis
    by (simp add: findIntentById_def noIntentErrors_def selectIntentById_def selectFirst_def
        intentRowOf_def)
qed

text \<open>Identifiers that no valid intent has are answered without looking at the rows.\<close>

lemma findIntentById_Ok:
  assumes "findIntentById failing db i = intentResult IntentOk a"
  obtains r where "intentRowOf i (visibleTables db) = Some r" "readIntent r = Some a"
    "i \<noteq> []" "length i \<le> int32_max"
proof -
  have "i \<noteq> []" "selectIntentById failing (visibleTables db) i = SelectFound a"
    using assms
    by (auto simp: findIntentById_def intentResult_def intentStatusResult_def
        split: if_splits select_result.splits)
  then show thesis
    using that by (auto simp: selectIntentById_def selectFirst_Found intentRowOf_def)
qed

lemma findIntentById_same_rows:
  assumes "intentRowOf i (visibleTables db) = intentRowOf i (visibleTables db')"
  shows "findIntentById failing db i = findIntentById failing db' i"
  using assms
  by (simp add: findIntentById_def selectIntentById_def selectFirst_def intentRowOf_def)

lemma timerIntentValid_id:
  "timerIntentValid m \<Longrightarrow> ti_timerIntentId m \<noteq> [] \<and> length (ti_timerIntentId m) \<le> int32_max"
  unfolding timerIntentValid_def by (drule conjunct1, drule nonEmptyBounded_imp) simp

lemma find_snoc_other: "\<not> P x \<Longrightarrow> find P (xs @ [x]) = find P xs"
  by (induction xs) auto

lemma find_replaced_other:
  "\<not> P y \<Longrightarrow> \<not> P r \<Longrightarrow> find P (map (\<lambda>x. if x = r then y else x) xs) = find P xs"
  by (induction xs) auto

lemma readIntents_all:
  assumes "\<forall>r \<in> set rows. readIntent r \<noteq> None"
  shows "readIntents rows = Some (map (\<lambda>r. the (readIntent r)) rows)"
  using assms by (induction rows) auto

text \<open>A call that is not accepted leaves the committed tables alone.\<close>

lemma updateIntentImpl_unaccepted:
  assumes "ni_status (fst (updateIntentImpl failing db new tok cur)) \<noteq> IntentOk"
  shows "db_committed (snd (updateIntentImpl failing db new tok cur)) = db_committed db"
proof -
  consider (stopped) "snd (updateIntentImpl failing db new tok cur) = db"
    | (undone) "snd (updateIntentImpl failing db new tok cur) =
             executeRollback (failing IntentRollback) (updateStart cur db)"
    | (reached) v current where "cur = transactionActive db" "parseRevisionToken tok = Some v"
        "selectIntentById failing (visibleTables db) (ti_timerIntentId new) = SelectFound current"
        "ti_intentRevision current = tok" "updateIntentPermitted current new" "v \<noteq> int64_max"
        "timerIntentValid (new\<lparr>ti_intentRevision := decimal (v + 1)\<rparr>)"
        "updateIntentImpl failing db new tok cur =
            updateIntentWrite failing (updateStart cur db)
              (new\<lparr>ti_intentRevision := decimal (v + 1)\<rparr>) v cur"
    using updateIntentImpl_cases [of failing db new tok cur] by blast
  then show ?thesis
  proof cases
    case reached
    note lt = updateIntent_step(1) [OF reached(2-7)]
    show ?thesis
      using updateIntentWrite_cases [OF lt refl, of failing "updateStart cur db" new cur] assms
        updateStart_simps(2) [OF reached(1)]
      unfolding reached(8) by auto
  qed (simp_all add: updateStart_def)
qed

section \<open>Samples\<close>

definition sampleSpec :: timer_intent_spec where
  "sampleSpec =
     \<lparr>is_intentType = ManualWindow, is_ownerActorId = ''anna'',
      is_automationSource = \<lparr>as_sourceType = [], as_sourceId = [], as_occurrenceId = []\<rparr>,
      is_programEventId = [],
      is_backendEventRef =
        \<lparr>be_backendId = [], be_channelId = [], be_eventId = [], be_sourceId = []\<rparr>,
      is_channelRequirement =
        \<lparr>cr_canonicalChannelId = ''zdf'', cr_sourceType = [], cr_sourceId = [],
         cr_sourceChannelId = []\<rparr>,
      is_schedule =
        \<lparr>sc_startAt = 100, sc_stopAt = 200, sc_timezone = ''UTC'', sc_recurrenceRule = []\<rparr>,
      is_recordingOptions =
        \<lparr>ro_startMarginSeconds = 2, ro_stopMarginSeconds = 10, ro_priority = 50,
         ro_lifetimeDays = 99, ro_vpsPreferred = False, ro_directoryPolicy = [],
         ro_namingPolicy = [], ro_retentionPolicyReference = []\<rparr>,
      is_assignmentPolicy =
        \<lparr>ap_allowFailover = True, ap_requireOperatorReview = False,
         ap_preferredBackendIds = [''vdr''], ap_excludedBackendIds = []\<rparr>,
      is_replicaPolicy =
        \<lparr>rp_desiredAssignments = 1, rp_requireBackendDiversity = False,
         rp_requireSiteDiversity = False, rp_simultaneousRecordingIntentional = False,
         rp_storagePolicyReference = [], rp_retentionPolicyReference = [], rp_rationale = []\<rparr>,
      is_duplicatePolicy =
        \<lparr>dp_preventEquivalentIntent = True, dp_requireOperatorReviewOnAmbiguity = True\<rparr>\<rparr>"

definition sampleIntent :: "string \<Rightarrow> timer_intent" where
  "sampleIntent i =
     \<lparr>ti_timerIntentId = i, ti_intentRevision = [], ti_state = IntentActive,
      ti_createdByActorId = ''anna'', ti_spec = sampleSpec, ti_createdAt = 10, ti_updatedAt = 10,
      ti_expiresAt = 0\<rparr>"

definition noIntents :: "intent_row list database" where
  "noIntents = \<lparr>db_committed = [], db_working = None\<rparr>"

definition oneIntent :: "intent_row list database" where
  "oneIntent = snd (createIntent noIntentErrors noIntents (sampleIntent ''i1''))"

definition satisfiedIntent :: timer_intent where
  "satisfiedIntent =
     (sampleIntent ''i1'')\<lparr>ti_intentRevision := ''1'', ti_state := IntentSatisfied,
        ti_updatedAt := 20\<rparr>"

definition oneSatisfied :: "intent_row list database" where
  "oneSatisfied = snd (updateIntent noIntentErrors oneIntent satisfiedIntent ''1'')"

definition pausedIntent :: timer_intent where
  "pausedIntent =
     (sampleIntent ''i1'')\<lparr>ti_intentRevision := ''1'', ti_state := IntentPaused, ti_updatedAt := 20\<rparr>"

definition resumedIntent :: timer_intent where
  "resumedIntent =
     pausedIntent\<lparr>ti_intentRevision := ''2'', ti_state := IntentActive, ti_updatedAt := 30\<rparr>"

definition onePaused :: "intent_row list database" where
  "onePaused = snd (updateIntent noIntentErrors oneIntent pausedIntent ''1'')"

lemma sample_tokens: "to_string 1 = ''1''" "to_string 2 = ''2''"
  by code_simp+

lemma noIntents_sound: "intentStoreSound noIntents"
  by (simp add: intentStoreSound_def intentRowsSound_def transactionFollowsBy_def noIntents_def)

lemma sample_intent_steps:
  "intentSteps noIntents oneIntent" "intentSteps oneIntent oneSatisfied"
  by (simp_all add: oneIntent_def oneSatisfied_def r_into_rtranclp stepCreate stepUpdate)

lemma oneIntent_sound: "intentStoreSound oneIntent"
  by (rule intentSteps_sound(1) [OF sample_intent_steps(1) noIntents_sound])

lemma sample_created: "ni_status (fst (createIntent noIntentErrors noIntents (sampleIntent ''i1''))) = IntentOk"
  by code_simp

lemma sample_updated: "ni_status (fst (updateIntent noIntentErrors oneIntent satisfiedIntent ''1'')) = IntentOk"
  by code_simp

lemma sample_closed: "\<not> transactionActive oneIntent \<and> \<not> transactionActive oneSatisfied"
  by code_simp


section \<open>Properties\<close>

definition firstRevision :: "timer_intent \<Rightarrow> timer_intent" where
  "firstRevision m = m\<lparr>ti_intentRevision := ''1'', ti_updatedAt := ti_createdAt m\<rparr>"

text \<open>When a creation is accepted the intent, at revision 1 and last changed when it was
  created, is what a lookup of its identifier answers, for callers inside and outside the
  transaction; no other identifier is answered differently than before.\<close>

theorem created_intent_is_read_back:
  assumes "intentRowsSound (visibleTables db)" and "createIntent failing db m = (res, db')"
    and "ni_status res = IntentOk"
  shows "ti_intentRevision m = [] \<and> timerIntentValid (firstRevision m)
     \<and> ni_intent res = Some (firstRevision m)
     \<and> findIntentById noIntentErrors db (ti_timerIntentId m) = intentStatusResult IntentNotFound
     \<and> findIntentById noIntentErrors db' (ti_timerIntentId m) =
          intentResult IntentOk (firstRevision m)
     \<and> (i \<noteq> ti_timerIntentId m \<longrightarrow>
          findIntentById noIntentErrors db' i = findIntentById noIntentErrors db i)"
proof -
  define d where "d = firstRevision m"
  obtain e: "ti_intentRevision m = []" "timerIntentValid d"
      "intentConstraints (visibleTables db) (intentRow d 1)"
      "res = intentResult IntentOk d" "db' = writeVisible (visibleTables db @ [intentRow d 1]) db"
    using createIntent_cases [of failing db m] assms(2,3)
    by (auto simp: d_def firstRevision_def)
  have id: "ti_timerIntentId d = ti_timerIntentId m" by (simp add: d_def firstRevision_def)
  note key = timerIntentValid_id [OF e(2), unfolded id]
  have fresh: "ir_timer_intent_id (intentRow d 1) \<notin> set (map ir_timer_intent_id (visibleTables db))"
    using conjunct1 [OF e(3) [unfolded intentConstraints_def]] .
  have row: "ir_timer_intent_id (intentRow d 1) = ti_timerIntentId m"
    using intentRow_fields(1) [of 1 d] by (simp add: id)
  have read: "readIntent (intentRow d 1) = Some d"
    using e(2) by (rule readIntent_row) (simp_all add: d_def firstRevision_def)
  have vis: "visibleTables db' = visibleTables db @ [intentRow d 1]" by (simp add: e(5))
  have sound: "intentRowsSound (visibleTables db')"
    using assms(1) fresh read by (simp add: intentRowsSound_def vis)
  have "intentRowOf (ti_timerIntentId m) (visibleTables db) = None"
    using fresh unfolding row intentRowOf_def find_None_all by (metis image_eqI set_map)
  moreover have "intentRowOf (ti_timerIntentId m) (visibleTables db') = Some (intentRow d 1)"
    unfolding intentRowOf_Some [OF sound] by (simp add: vis row [simplified])
  moreover have "findIntentById noIntentErrors db' i = findIntentById noIntentErrors db i"
    if "i \<noteq> ti_timerIntentId m"
    using that row by (intro findIntentById_same_rows) (simp add: intentRowOf_def vis find_snoc_other)
  ultimately show ?thesis
    using key e(1,2,4) findIntentById_sound [OF assms(1)] findIntentById_sound [OF sound] read
    unfolding d_def [symmetric] by simp
qed

theorem created_intent_is_read_back_witness:
  "findIntentById noIntentErrors oneIntent ''i1'' =
     intentResult IntentOk ((sampleIntent ''i1'')\<lparr>ti_intentRevision := ''1''\<rparr>)"
proof -
  have "intentRowsSound (visibleTables noIntents)"
    using noIntents_sound by (rule intentStoreSound_visible)
  from created_intent_is_read_back [OF this, of noIntentErrors "sampleIntent ''i1''" _ oneIntent,
      OF _ sample_created]
  show ?thesis
    by (simp add: oneIntent_def firstRevision_def sampleIntent_def prod_eq_iff)
qed

text \<open>C39: Whatever calls run and whichever statements fail, an intent that was once committed stays
  readable under its identifier; it is the same intent, or a later one with the same creator and
  creation time that was reached by permitted lifecycle changes. One in a final state is never
  changed again.\<close>

theorem stored_intent_evolves:
  assumes "intentStoreSound db" and "intentSteps db db'"
    and "\<not> transactionActive db" and "\<not> transactionActive db'"
    and "findIntentById failing db i = intentResult IntentOk a"
  shows "\<exists>b. findIntentById noIntentErrors db' i = intentResult IntentOk b
     \<and> (b = a \<or> intentAdvances a b) \<and> (timerIntentTerminal (ti_state a) \<longrightarrow> b = a)"
proof -
  obtain r where r: "intentRowOf i (visibleTables db) = Some r" "readIntent r = Some a" "i \<noteq> []"
    "length i \<le> int32_max"
    using findIntentById_Ok [OF assms(5)] .
  obtain r' where r': "intentRowOf i (db_committed db') = Some r'" "intentEvolves r r'"
    using intentRowOf_evolves [OF assms(2,1)] r(1) visible_begun [OF assms(3)] by metis
  have "intentRowsSound (visibleTables db')"
    using intentSteps_sound(1) [OF assms(2,1)] by (rule intentStoreSound_visible)
  from findIntentById_sound [OF this r(3,4)] r'(1)
  have found: "findIntentById noIntentErrors db' i = intentResult IntentOk (the (readIntent r'))"
    by (simp add: visible_begun [OF assms(4)])
  have "the (readIntent r') = a \<or> intentAdvances a (the (readIntent r'))"
    using r'(2) r(2) by (auto simp: intentEvolves_def)
  moreover have "\<not> timerIntentTerminal (ti_state a)" if "intentAdvances a b" for b
    using that by (simp add: intentAdvances_def)
  ultimately show ?thesis using found by blast
qed

theorem stored_intent_evolves_witness:
  "\<exists>b. findIntentById noIntentErrors oneSatisfied ''i1'' = intentResult IntentOk b
     \<and> (b = (sampleIntent ''i1'')\<lparr>ti_intentRevision := ''1''\<rparr>
        \<or> intentAdvances ((sampleIntent ''i1'')\<lparr>ti_intentRevision := ''1''\<rparr>) b)"
proof -
  have found: "findIntentById noIntentErrors oneIntent ''i1'' =
      intentResult IntentOk ((sampleIntent ''i1'')\<lparr>ti_intentRevision := ''1''\<rparr>)"
    by code_simp
  show ?thesis
    using stored_intent_evolves [OF oneIntent_sound sample_intent_steps(2)
        conjunct1 [OF sample_closed] conjunct2 [OF sample_closed] found] by blast
qed

text \<open>An update is accepted only when it quotes the revision of the stored intent, keeps creator
  and creation time, moves the time forward, changes the state only as the lifecycle permits and
  leaves no final state. The stored intent is then exactly the given one at the next revision,
  and no other is touched. A call that is not accepted changes nothing that is committed.\<close>

theorem intent_update_is_fenced:
  assumes "intentStoreSound db" and "updateIntent failing db new tok = (res, db')"
    and "ti_timerIntentId new = i"
  shows "if ni_status res = IntentOk
     then (\<exists>v current. tok = decimal v \<and> v < int64_max
        \<and> findIntentById noIntentErrors db i = intentResult IntentOk current
        \<and> ti_intentRevision current = tok \<and> updateIntentPermitted current new
        \<and> ni_intent res = Some (new\<lparr>ti_intentRevision := decimal (v + 1)\<rparr>)
        \<and> findIntentById noIntentErrors db' i = res
        \<and> (\<forall>j. j = i \<or> findIntentById noIntentErrors db' j = findIntentById noIntentErrors db j))
     else db_committed db' = db_committed db"
proof (cases "ni_status res = IntentOk")
  case False
  have out: "updateIntentImpl failing db new tok False = (res, db')"
    using assms(2) by (simp add: updateIntent_def)
  have "db_committed (snd (updateIntentImpl failing db new tok False)) = db_committed db"
    using False out updateIntentImpl_unaccepted [of failing db new tok False] by simp
  with False out show ?thesis by simp
next
  case True
  obtain v current r where u: "\<not> transactionActive db" "tok = decimal v" "0 < v" "v < int64_max"
    "intentRowOf (ti_timerIntentId new) (db_committed db) = Some r" "readIntent r = Some current"
    "ir_intent_revision r = int v" "ti_intentRevision current = tok"
    "updateIntentPermitted current new"
    "timerIntentValid (new\<lparr>ti_intentRevision := decimal (v + 1)\<rparr>)"
    "res = intentResult IntentOk (new\<lparr>ti_intentRevision := decimal (v + 1)\<rparr>)"
    "db' = \<lparr>db_committed =
        map (\<lambda>x. if x = r then intentRow new (v + 1) else x) (db_committed db), db_working = None\<rparr>"
    by (rule updateIntent_ok [OF assms(2) True assms(1)])
  have vis: "visibleTables db = db_committed db" "visibleTables db' = db_committed db'"
    by (rule visible_begun [OF u(1)]) (simp add: u(12) visibleTables_def)
  have s: "intentRowsSound (visibleTables db)" "intentRowsSound (visibleTables db')"
    using intentSteps_sound(1) [OF r_into_rtranclp [of intentStep] assms(1)] assms(1)
      updateIntent_is_step [OF assms(2)] intentStoreSound_visible by blast+
  have key: "i \<noteq> []" "length i \<le> int32_max"
    using timerIntentValid_id [OF u(10)] assms(3) by simp_all
  have r: "r \<in> set (db_committed db)" "ir_timer_intent_id r = i"
    using u(5) intentRowOf_Some [OF s(1)] assms(3) by (simp_all add: vis)
  have new: "ir_timer_intent_id (intentRow new (v + 1)) = i"
    using u(4) intentRow_fields(1) [of "v + 1" new] assms(3) by simp
  have read: "readIntent (intentRow new (v + 1)) = Some (new\<lparr>ti_intentRevision := decimal (v + 1)\<rparr>)"
    using readIntent_row [OF u(10), of "v + 1"] u(4) by simp
  have "intentRowOf i (visibleTables db') = Some (intentRow new (v + 1))"
    unfolding intentRowOf_Some [OF s(2)] unfolding vis(2) using r(1) new by (auto simp: u(12))
  then have after: "findIntentById noIntentErrors db' i = res"
    using findIntentById_sound [OF s(2) key] read u(11) by simp
  have before: "findIntentById noIntentErrors db i = intentResult IntentOk current"
    using findIntentById_sound [OF s(1) key] u(5,6) assms(3) by (simp add: vis)
  have "findIntentById noIntentErrors db' j = findIntentById noIntentErrors db j" if "j \<noteq> i" for j
    using that r(2) new
    by (intro findIntentById_same_rows) (simp only: intentRowOf_def vis, simp add: u(12) find_replaced_other)
  then show ?thesis
    using True u(2,4,8,9,11) before after by auto
qed

theorem intent_update_is_fenced_witness:
  "findIntentById noIntentErrors oneSatisfied ''i1'' =
     intentResult IntentOk (satisfiedIntent\<lparr>ti_intentRevision := ''2''\<rparr>)"
proof -
  have "fst (updateIntent noIntentErrors oneIntent satisfiedIntent ''1'') =
      intentResult IntentOk (satisfiedIntent\<lparr>ti_intentRevision := ''2''\<rparr>)"
    by code_simp
  moreover have "ti_timerIntentId satisfiedIntent = ''i1''"
    by (simp add: satisfiedIntent_def sampleIntent_def)
  ultimately show ?thesis
    using intent_update_is_fenced [OF oneIntent_sound, of noIntentErrors satisfiedIntent "''1''"
        "fst (updateIntent noIntentErrors oneIntent satisfiedIntent ''1'')" oneSatisfied "''i1''"]
    by (auto simp: oneSatisfied_def prod_eq_iff)
qed

text \<open>C40: No update is lost: of two accepted updates of one intent, with any calls in between, the
  later one quotes a strictly larger revision.\<close>

theorem no_lost_intent_update:
  assumes "intentStoreSound db" and "updateIntent f1 db new (to_string v) = (res, db1)"
    and "ni_status res = IntentOk" and "intentSteps db1 db2"
    and "updateIntent f2 db2 new2 (to_string w) = (res2, db3)" and "ni_status res2 = IntentOk"
    and "ti_timerIntentId new2 = ti_timerIntentId new"
  shows "v < w"
  using intent_fence.no_lost_update [OF assms(1) acceptedUpdateI [OF assms(2,3)] assms(4)]
    acceptedUpdateI [OF assms(5,6)] assms(7) by simp

theorem no_lost_intent_update_witness: "(1::int) < 2"
proof (rule no_lost_intent_update [OF oneIntent_sound])
  show "updateIntent noIntentErrors oneIntent pausedIntent (to_string 1) =
      (fst (updateIntent noIntentErrors oneIntent pausedIntent ''1''), onePaused)"
    by (simp add: sample_tokens onePaused_def)
  show "ni_status (fst (updateIntent noIntentErrors oneIntent pausedIntent ''1'')) = IntentOk"
    by code_simp
  show "intentSteps onePaused onePaused" by simp
  show "updateIntent noIntentErrors onePaused resumedIntent (to_string 2) =
      (fst (updateIntent noIntentErrors onePaused resumedIntent ''2''),
       snd (updateIntent noIntentErrors onePaused resumedIntent ''2''))"
    by (simp add: sample_tokens)
  show "ni_status (fst (updateIntent noIntentErrors onePaused resumedIntent ''2'')) = IntentOk"
    by code_simp
  show "ti_timerIntentId resumedIntent = ti_timerIntentId pausedIntent"
    by (simp add: resumedIntent_def pausedIntent_def)
qed

text \<open>A search for equivalent intents answers exactly the stored intents with the given valid
  specification, each once, ordered by identifier.\<close>

theorem equivalent_intents_exact:
  assumes "intentRowsSound (visibleTables db)" and "timerIntentValidSpec spec"
  shows "nl_status (findEquivalent noIntentErrors db spec) = IntentOk
     \<and> set (nl_intents (findEquivalent noIntentErrors db spec)) =
         {a. ti_spec a = spec \<and>
            findIntentById noIntentErrors db (ti_timerIntentId a) = intentResult IntentOk a}
     \<and> sorted (map ti_timerIntentId (nl_intents (findEquivalent noIntentErrors db spec)))
     \<and> distinct (map ti_timerIntentId (nl_intents (findEquivalent noIntentErrors db spec)))"
proof -
  let ?same = "\<lambda>row. ir_semantic_identity row = timerIntentSemanticIdentity spec"
  let ?rows = "sort_key ir_timer_intent_id (filter ?same (visibleTables db))"
  have some: "\<exists>a. readIntent r = Some a" if "r \<in> set (visibleTables db)" for r
    using assms(1) that by (auto simp: intentRowsSound_def)
  have id: "ti_timerIntentId (the (readIntent r)) = ir_timer_intent_id r"
    if "r \<in> set (visibleTables db)" for r
    using some [OF that] readIntent_fields(2) by fastforce
  have same: "?same r \<longleftrightarrow> ti_spec (the (readIntent r)) = spec" if r: "r \<in> set (visibleTables db)" for r
  proof -
    obtain a where a: "readIntent r = Some a" using some [OF r] ..
    have "timerIntentValidSpec (ti_spec a)"
      using readIntent_fields(1) [OF a] by (simp add: timerIntentValid_def)
    then have "timerIntentSemanticIdentity (ti_spec a) = timerIntentSemanticIdentity spec
        \<longleftrightarrow> ti_spec a = spec"
      using semantic_fp.fp_identifies [of "ti_spec a" spec] by auto
    then show ?thesis by (simp add: a readIntent_fields(5) [OF a])
  qed
  have res: "findEquivalent noIntentErrors db spec =
      \<lparr>nl_status = IntentOk, nl_intents = map (\<lambda>r. the (readIntent r)) ?rows\<rparr>"
    using semantic_fp.fp_empty_iff [of spec] assms(2) some
      readIntents_all [of ?rows] by (simp add: findEquivalent_def noIntentErrors_def Let_def)
  have ids: "map ti_timerIntentId (map (\<lambda>r. the (readIntent r)) ?rows) =
      map ir_timer_intent_id ?rows"
    using id by simp
  have stored: "findIntentById noIntentErrors db (ti_timerIntentId a) = intentResult IntentOk a
      \<longleftrightarrow> (\<exists>r \<in> set (visibleTables db). readIntent r = Some a)" for a
  proof
    assume "findIntentById noIntentErrors db (ti_timerIntentId a) = intentResult IntentOk a"
    then show "\<exists>r \<in> set (visibleTables db). readIntent r = Some a"
      using intentRowOf_Some [OF assms(1)] by (elim findIntentById_Ok) auto
  next
    assume "\<exists>r \<in> set (visibleTables db). readIntent r = Some a"
    then obtain r where r: "r \<in> set (visibleTables db)" "readIntent r = Some a" ..
    then have "intentRowOf (ti_timerIntentId a) (visibleTables db) = Some r"
      using intentRowOf_Some [OF assms(1)] readIntent_fields(2) by simp
    then show "findIntentById noIntentErrors db (ti_timerIntentId a) = intentResult IntentOk a"
      using findIntentById_sound [OF assms(1)] timerIntentValid_id readIntent_fields(1) r(2)
      by simp
  qed
  have "set (map (\<lambda>r. the (readIntent r)) ?rows) =
      {a. ti_spec a = spec \<and> (\<exists>r \<in> set (visibleTables db). readIntent r = Some a)}"
    using same some by force
  moreover have "distinct (map ir_timer_intent_id ?rows)"
    using assms(1) by (simp add: intentRowsSound_def distinct_map inj_on_def)
  ultimately show ?thesis
    unfolding res stored by (simp only: timer_intent_repository_list_result.simps ids) simp
qed

theorem equivalent_intents_exact_witness:
  "timerIntentValidSpec sampleSpec
     \<and> set (nl_intents (findEquivalent noIntentErrors oneIntent sampleSpec)) =
         {a. ti_spec a = sampleSpec \<and>
            findIntentById noIntentErrors oneIntent (ti_timerIntentId a) = intentResult IntentOk a}"
proof -
  have "timerIntentValidSpec sampleSpec" by code_simp
  with equivalent_intents_exact [OF intentStoreSound_visible [OF oneIntent_sound] this]
  show ?thesis by blast
qed

end
