(* ===== verification/NativeTimerBindingStorage.thy ===== *)
theory NativeTimerBindingStorage
  imports NativeTimerBinding TimerIntentRepository
begin

text \<open>
  Rows of \<open>native_timer_bindings\<close> and their statements
  (\<open>core/timers/src/NativeTimerBindingReadRepository.cpp\<close>,
  \<open>NativeTimerBindingWriteRepository.cpp\<close>). The copied native state keeps its own record; its
  integer and flag columns hold what \<open>sqlite3_bind_int\<close> was given, and reading them keeps the
  low 32 bits.
\<close>

section \<open>Rows\<close>

record binding_row =
  br_native_timer_binding_id :: string
  br_binding_revision :: int
  br_backend_id :: string
  br_backend_generation :: int
  br_backend_native_timer_id :: string
  br_timer_assignment_id :: string
  br_ownership :: string
  br_observed_fingerprint :: string
  br_observed_channel_id :: string
  br_observed_event_id :: string
  br_observed_title :: string
  br_observed_directory :: string
  br_observed_day :: string
  br_observed_weekdays :: string
  br_observed_start_time :: string
  br_observed_end_time :: string
  br_observed_flags :: int
  br_observed_priority :: int
  br_observed_lifetime :: int
  br_observed_enabled :: int
  br_observed_vps :: int
  br_observed_recording :: int
  br_observed_pending :: int
  br_last_observed_at :: int
  br_last_verified_operation_id :: string
  br_missing_since :: int
  br_drift_state :: string

section \<open>Reading\<close>

definition ownershipFromName :: "string \<Rightarrow> native_timer_binding_ownership option" where
  "ownershipFromName value =
     (if value = ''managed'' then Some OwnManaged
      else if value = ''adopted'' then Some OwnAdopted
      else if value = ''external'' then Some OwnExternal
      else if value = ''orphaned_managed'' then Some OwnOrphanedManaged
      else if value = ''ambiguous'' then Some OwnAmbiguous
      else None)"

definition driftFromName :: "string \<Rightarrow> native_timer_binding_drift_state option" where
  "driftFromName value =
     (if value = ''none'' then Some DriftNone
      else if value = ''expected_transition'' then Some DriftExpectedTransition
      else if value = ''external_field_change'' then Some DriftExternalFieldChange
      else if value = ''external_disable'' then Some DriftExternalDisable
      else if value = ''external_delete'' then Some DriftExternalDelete
      else if value = ''native_identity_changed'' then Some DriftNativeIdentityChanged
      else if value = ''ambiguous'' then Some DriftAmbiguous
      else None)"

definition readObservedState :: "binding_row \<Rightarrow> native_timer_observed_state" where
  "readObservedState row =
     \<lparr>os_channelId = br_observed_channel_id row,
      os_eventId = br_observed_event_id row,
      os_title = br_observed_title row,
      os_directory = br_observed_directory row,
      os_day = br_observed_day row,
      os_weekdays = br_observed_weekdays row,
      os_startTime = br_observed_start_time row,
      os_endTime = br_observed_end_time row,
      os_flags = columnInt (br_observed_flags row),
      os_priority = columnInt (br_observed_priority row),
      os_lifetime = columnInt (br_observed_lifetime row),
      os_enabled = columnFlag (br_observed_enabled row),
      os_vps = columnFlag (br_observed_vps row),
      os_recording = columnFlag (br_observed_recording row),
      os_pending = columnFlag (br_observed_pending row)\<rparr>"

definition readBinding :: "binding_row \<Rightarrow> native_timer_binding option" where
  "readBinding row =
     (if br_binding_revision row \<le> 0 \<or> br_backend_generation row \<le> 0 then None
      else case (ownershipFromName (br_ownership row), driftFromName (br_drift_state row)) of
          (Some ownership, Some drift) \<Rightarrow>
            (let b =
               \<lparr>nb_nativeTimerBindingId = br_native_timer_binding_id row,
                nb_bindingRevision = to_string (br_binding_revision row),
                nb_backendId = br_backend_id row,
                nb_backendGeneration = of_int (br_backend_generation row),
                nb_backendNativeTimerId = br_backend_native_timer_id row,
                nb_timerAssignmentId = br_timer_assignment_id row,
                nb_ownership = ownership,
                nb_observedFingerprint = br_observed_fingerprint row,
                nb_observedState = readObservedState row,
                nb_lastObservedAt = br_last_observed_at row,
                nb_lastVerifiedOperationId = br_last_verified_operation_id row,
                nb_missingSince = br_missing_since row,
                nb_driftState = drift\<rparr>
             in if nativeTimerBindingValid b then Some b else None)
        | _ \<Rightarrow> None)"

section \<open>Binding\<close>

definition bindBindingColumns :: "native_timer_binding \<Rightarrow> binding_row option" where
  "bindBindingColumns b =
     (case parseRevisionToken (nb_bindingRevision b) of
        None \<Rightarrow> None
      | Some revision \<Rightarrow>
          if unat (nb_backendGeneration b) > int64_max then None
          else (let s = nb_observedState b
                in Some \<lparr>br_native_timer_binding_id = nb_nativeTimerBindingId b,
                         br_binding_revision = int revision,
                         br_backend_id = nb_backendId b,
                         br_backend_generation = uint (nb_backendGeneration b),
                         br_backend_native_timer_id = nb_backendNativeTimerId b,
                         br_timer_assignment_id = nb_timerAssignmentId b,
                         br_ownership = nativeTimerBindingOwnershipName (nb_ownership b),
                         br_observed_fingerprint = nb_observedFingerprint b,
                         br_observed_channel_id = os_channelId s,
                         br_observed_event_id = os_eventId s,
                         br_observed_title = os_title s,
                         br_observed_directory = os_directory s,
                         br_observed_day = os_day s,
                         br_observed_weekdays = os_weekdays s,
                         br_observed_start_time = os_startTime s,
                         br_observed_end_time = os_endTime s,
                         br_observed_flags = os_flags s,
                         br_observed_priority = os_priority s,
                         br_observed_lifetime = os_lifetime s,
                         br_observed_enabled = flagInt (os_enabled s),
                         br_observed_vps = flagInt (os_vps s),
                         br_observed_recording = flagInt (os_recording s),
                         br_observed_pending = flagInt (os_pending s),
                         br_last_observed_at = nb_lastObservedAt b,
                         br_last_verified_operation_id = nb_lastVerifiedOperationId b,
                         br_missing_since = nb_missingSince b,
                         br_drift_state = nativeTimerBindingDriftStateName (nb_driftState b)\<rparr>))"

section \<open>Keys\<close>

definition managedOwnershipName :: "string \<Rightarrow> bool" where
  "managedOwnershipName value \<longleftrightarrow> value = ''managed'' \<or> value = ''adopted''"

text \<open>Primary key, native identity, and one managed binding per assignment.\<close>

definition bindingConstraints :: "binding_row list \<Rightarrow> binding_row \<Rightarrow> bool" where
  "bindingConstraints rows row \<longleftrightarrow>
     br_native_timer_binding_id row \<notin> set (map br_native_timer_binding_id rows)
     \<and> (br_backend_id row, br_backend_native_timer_id row)
        \<notin> set (map (\<lambda>x. (br_backend_id x, br_backend_native_timer_id x)) rows)
     \<and> \<not> (br_timer_assignment_id row \<noteq> [] \<and> managedOwnershipName (br_ownership row)
          \<and> list_ex (\<lambda>x. br_timer_assignment_id x = br_timer_assignment_id row
               \<and> managedOwnershipName (br_ownership x)) rows)"

end
