(* ===== verification/TimerSchema.thy ===== *)
theory TimerSchema
  imports TimerAssignment NativeTimerBindingStorage MutationOperationRepository
begin

text \<open>
  The tables the timer services share in one database: intents, assignments, the per-intent set
  revisions, the evidence of controlled replacements, native bindings and mutation operations,
  with the constraints and triggers the code declares on \<open>timer_assignments\<close>. Triggers are
  part of the statement that fires them, so \<open>insertAssignmentRow\<close> and
  \<open>updateAssignmentRow\<close> here are whole INSERT and UPDATE statements. Foreign keys are declared
  by the code but never switched on, so they constrain nothing. Integer columns are unbounded:
  that a counter of a row reaches \<open>2 ^ 63\<close> is not modelled.
\<close>

section \<open>Rows\<close>

record assignment_row =
  ar_timer_assignment_id :: string
  ar_assignment_revision :: int
  ar_timer_intent_id :: string
  ar_intent_revision :: string
  ar_assignment_epoch :: int
  ar_backend_id :: string
  ar_backend_generation :: int
  ar_state :: string
  ar_role :: string
  ar_channel :: timer_assignment_channel_binding
  ar_capability_revision :: string
  ar_backend_health_revision :: string
  ar_decision_policy_version :: string
  ar_decision_reasons :: string
  ar_decision_warnings :: string
  ar_decision_exclusions :: string
  ar_decision_conflict_facts :: string
  ar_decision_score :: int
  ar_native_timer_binding_id :: string
  ar_created_at :: int
  ar_updated_at :: int
  ar_desired_native_timer_specification :: string

text \<open>A row of \<open>timer_assignment_reassignments\<close>.\<close>

record reassignment_row =
  rr_replacement_assignment_id :: string
  rr_old_assignment_id :: string
  rr_old_assignment_revision :: string
  rr_old_assignment_epoch :: int
  rr_old_backend_id :: string
  rr_old_backend_generation :: int
  rr_old_native_outcome :: string
  rr_old_operation_id :: string
  rr_old_operation_revision :: string
  rr_old_binding_id :: string
  rr_old_binding_revision :: string
  rr_reason :: string
  rr_new_backend_id :: string
  rr_new_backend_generation :: int
  rr_new_assignment_epoch :: int
  rr_created_at :: int

text \<open>The temporary tables hold at most one row between their creation and their removal.\<close>

datatype 'r temp_table = TempAbsent | TempEmpty | TempRow 'r

record set_expectation_row =
  se_timer_assignment_id :: string
  se_timer_intent_id :: string
  se_expected_set_revision :: int

record replacement_expectation_row =
  re_replacement_assignment_id :: string
  re_expected_set_revision :: int
  re_old_assignment_id :: string
  re_old_assignment_revision :: int
  re_old_assignment_epoch :: int
  re_old_backend_id :: string
  re_old_backend_generation :: int
  re_old_native_outcome :: string
  re_old_operation_id :: string
  re_old_operation_revision :: string
  re_old_binding_id :: string
  re_old_binding_revision :: string
  re_reason :: string
  re_created_at :: int

record timer_tables =
  tt_intents :: "intent_row list"
  tt_assignments :: "assignment_row list"
  tt_setRevisions :: "string \<Rightarrow> int option"
  tt_setInsertTrigger :: bool
  tt_setUpdateTrigger :: bool
  tt_setExpectation :: "set_expectation_row temp_table"
  tt_setExpectationTrigger :: bool
  tt_replacementExpectation :: "replacement_expectation_row temp_table"
  tt_replacementBefore :: bool
  tt_replacementAfter :: bool
  tt_reassignments :: "reassignment_row list"
  tt_bindings :: "binding_row list"
  tt_operations :: operation_tables

section \<open>Constraints of \<open>timer_assignments\<close>\<close>

definition ownershipStateName :: "string \<Rightarrow> bool" where
  "ownershipStateName value \<longleftrightarrow>
     value \<in> set [''selected'', ''provisioning'', ''bound'', ''reconciling'', ''superseding'']"

definition exclusiveRoleName :: "string \<Rightarrow> bool" where
  "exclusiveRoleName value \<longleftrightarrow> value \<in> set [''primary'', ''replacement'']"

text \<open>The rows the partial unique index covers.\<close>

definition activeExclusive :: "assignment_row \<Rightarrow> bool" where
  "activeExclusive row \<longleftrightarrow> exclusiveRoleName (ar_role row) \<and> ownershipStateName (ar_state row)"

definition assignmentChecks :: "assignment_row \<Rightarrow> bool" where
  "assignmentChecks row \<longleftrightarrow>
     ar_assignment_revision row > 0
     \<and> ar_assignment_epoch row > 0
     \<and> ar_backend_generation row \<ge> 0
     \<and> ar_state row \<in> set [''proposed'', ''selected'', ''provisioning'', ''bound'', ''reconciling'',
          ''unassigned'', ''superseding'', ''superseded'', ''cancel_requested'', ''cancelled'',
          ''failed'']
     \<and> ar_role row \<in> set [''primary'', ''replica'', ''replacement'']"

text \<open>A row next to the others: primary key, epoch and exclusive owner.\<close>

definition assignmentKeysFree :: "assignment_row list \<Rightarrow> assignment_row \<Rightarrow> bool" where
  "assignmentKeysFree others row \<longleftrightarrow>
     ar_timer_assignment_id row \<notin> set (map ar_timer_assignment_id others)
     \<and> (ar_timer_intent_id row, ar_assignment_epoch row)
        \<notin> set (map (\<lambda>x. (ar_timer_intent_id x, ar_assignment_epoch x)) others)
     \<and> \<not> (activeExclusive row
          \<and> list_ex (\<lambda>x. activeExclusive x \<and> ar_timer_intent_id x = ar_timer_intent_id row) others)"

definition assignmentConstraints :: "assignment_row list \<Rightarrow> assignment_row \<Rightarrow> bool" where
  "assignmentConstraints others row \<longleftrightarrow> assignmentChecks row \<and> assignmentKeysFree others row"

section \<open>Triggers\<close>

definition setRevisionOf :: "timer_tables \<Rightarrow> string \<Rightarrow> int" where
  "setRevisionOf t timerIntentId =
     (case tt_setRevisions t timerIntentId of None \<Rightarrow> 0 | Some r \<Rightarrow> r)"

text \<open>The permanent triggers count every insert and every update of an assignment per intent;
  the third one, on deletion, never fires: no code deletes an assignment.\<close>

definition countedRevision :: "string \<Rightarrow> timer_tables \<Rightarrow> timer_tables" where
  "countedRevision timerIntentId t =
     t\<lparr>tt_setRevisions := (tt_setRevisions t)(timerIntentId \<mapsto>
        (case tt_setRevisions t timerIntentId of None \<Rightarrow> 1 | Some r \<Rightarrow> r + 1))\<rparr>"

definition countInsert :: "string \<Rightarrow> timer_tables \<Rightarrow> timer_tables" where
  "countInsert timerIntentId t =
     (if tt_setInsertTrigger t then countedRevision timerIntentId t else t)"

definition countUpdate :: "string \<Rightarrow> timer_tables \<Rightarrow> timer_tables" where
  "countUpdate timerIntentId t =
     (if tt_setUpdateTrigger t then countedRevision timerIntentId t else t)"

text \<open>\<open>trg_timer_assignment_set_expectation_insert\<close>:\<close>

definition setExpectationAllows :: "timer_tables \<Rightarrow> assignment_row \<Rightarrow> bool" where
  "setExpectationAllows t new =
     (case tt_setExpectation t of
        TempRow e \<Rightarrow>
          \<not> tt_setExpectationTrigger t
          \<or> ar_timer_assignment_id new \<noteq> se_timer_assignment_id e
          \<or> (se_timer_intent_id e = ar_timer_intent_id new
             \<and> se_expected_set_revision e = setRevisionOf t (ar_timer_intent_id new))
      | _ \<Rightarrow> True)"

text \<open>The conditions of \<open>trg_timer_assignment_reassignment_before\<close>, in its order.\<close>

definition replacementShapeOk :: "replacement_expectation_row \<Rightarrow> assignment_row \<Rightarrow> bool" where
  "replacementShapeOk e new \<longleftrightarrow>
     ar_role new = ''replacement'' \<and> ar_state new = ''selected''
     \<and> ar_backend_id new \<noteq> re_old_backend_id e"

definition oldOwnerMatches ::
  "replacement_expectation_row \<Rightarrow> assignment_row \<Rightarrow> assignment_row \<Rightarrow> bool" where
  "oldOwnerMatches e new old \<longleftrightarrow>
     ar_timer_assignment_id old = re_old_assignment_id e
     \<and> ar_timer_intent_id old = ar_timer_intent_id new
     \<and> ar_assignment_revision old = re_old_assignment_revision e
     \<and> ar_assignment_epoch old = re_old_assignment_epoch e
     \<and> ar_backend_id old = re_old_backend_id e
     \<and> ar_backend_generation old = re_old_backend_generation e
     \<and> exclusiveRoleName (ar_role old)
     \<and> ar_state old \<in> set [''selected'', ''provisioning'', ''bound'', ''reconciling'']
     \<and> (re_old_native_outcome e = ''before_dispatch''
          \<and> ar_state old = ''selected'' \<and> ar_native_timer_binding_id old = []
        \<or> re_old_native_outcome e = ''verified_absent''
          \<and> ar_state old \<in> set [''bound'', ''reconciling'']
          \<and> ar_native_timer_binding_id old = re_old_binding_id e)
     \<and> ar_created_at new > ar_updated_at old"

definition intentAllowsFailover :: "assignment_row \<Rightarrow> intent_row \<Rightarrow> bool" where
  "intentAllowsFailover new intent \<longleftrightarrow>
     ir_timer_intent_id intent = ar_timer_intent_id new
     \<and> to_string (ir_intent_revision intent) = ar_intent_revision new
     \<and> ir_assignment_allow_failover intent = 1"

definition bindingVerifiedAbsent :: "replacement_expectation_row \<Rightarrow> binding_row \<Rightarrow> bool" where
  "bindingVerifiedAbsent e binding \<longleftrightarrow>
     br_native_timer_binding_id binding = re_old_binding_id e
     \<and> to_string (br_binding_revision binding) = re_old_binding_revision e
     \<and> br_timer_assignment_id binding = re_old_assignment_id e
     \<and> br_backend_id binding = re_old_backend_id e
     \<and> br_backend_generation binding = re_old_backend_generation e
     \<and> managedOwnershipName (br_ownership binding)
     \<and> br_missing_since binding > 0
     \<and> br_drift_state binding = ''expected_transition''
     \<and> br_observed_recording binding = 0
     \<and> br_last_verified_operation_id binding = re_old_operation_id e"

definition deletionSucceeded :: "replacement_expectation_row \<Rightarrow> operation_row \<Rightarrow> bool" where
  "deletionSucceeded e operation \<longleftrightarrow>
     or_operation_id operation = re_old_operation_id e
     \<and> to_string (or_operation_revision operation) = re_old_operation_revision e
     \<and> or_state operation = ''succeeded''
     \<and> or_action_family operation = ''timer.delete''
     \<and> or_resource_type operation = ''NativeTimerBinding''
     \<and> or_resource_id operation = re_old_binding_id e
     \<and> or_backend_id operation = re_old_backend_id e
     \<and> or_backend_generation operation = re_old_backend_generation e"

definition replacementAllowed ::
  "timer_tables \<Rightarrow> replacement_expectation_row \<Rightarrow> assignment_row \<Rightarrow> bool" where
  "replacementAllowed t e new \<longleftrightarrow>
     replacementShapeOk e new
     \<and> setRevisionOf t (ar_timer_intent_id new) = re_expected_set_revision e
     \<and> list_ex (oldOwnerMatches e new) (tt_assignments t)
     \<and> list_ex (intentAllowsFailover new) (tt_intents t)
     \<and> (re_old_native_outcome e = ''verified_absent'' \<longrightarrow>
          list_ex (bindingVerifiedAbsent e) (tt_bindings t)
          \<and> list_ex (deletionSucceeded e) (ot_operations (tt_operations t)))"

text \<open>The UPDATE inside that trigger closes the old owner, and counts as a change of its intent.\<close>

definition closedRow :: "int \<Rightarrow> assignment_row \<Rightarrow> assignment_row" where
  "closedRow at row =
     row\<lparr>ar_state := ''superseded'', ar_assignment_revision := ar_assignment_revision row + 1,
         ar_updated_at := at\<rparr>"

definition supersedeOldOwner ::
  "replacement_expectation_row \<Rightarrow> int \<Rightarrow> timer_tables \<Rightarrow> timer_tables" where
  "supersedeOldOwner e at t =
     fold countUpdate
       (map ar_timer_intent_id
         (filter (\<lambda>row. ar_timer_assignment_id row = re_old_assignment_id e) (tt_assignments t)))
       (t\<lparr>tt_assignments := map (\<lambda>row.
            if ar_timer_assignment_id row = re_old_assignment_id e then closedRow at row else row)
          (tt_assignments t)\<rparr>)"

text \<open>The evidence row \<open>trg_timer_assignment_reassignment_after\<close> writes, and the table's
  constraints.\<close>

definition reassignmentRow ::
  "replacement_expectation_row \<Rightarrow> assignment_row \<Rightarrow> reassignment_row" where
  "reassignmentRow e new =
     \<lparr>rr_replacement_assignment_id = ar_timer_assignment_id new,
      rr_old_assignment_id = re_old_assignment_id e,
      rr_old_assignment_revision = to_string (re_old_assignment_revision e),
      rr_old_assignment_epoch = re_old_assignment_epoch e,
      rr_old_backend_id = re_old_backend_id e,
      rr_old_backend_generation = re_old_backend_generation e,
      rr_old_native_outcome = re_old_native_outcome e,
      rr_old_operation_id = re_old_operation_id e,
      rr_old_operation_revision = re_old_operation_revision e,
      rr_old_binding_id = re_old_binding_id e,
      rr_old_binding_revision = re_old_binding_revision e,
      rr_reason = re_reason e,
      rr_new_backend_id = ar_backend_id new,
      rr_new_backend_generation = ar_backend_generation new,
      rr_new_assignment_epoch = ar_assignment_epoch new,
      rr_created_at = re_created_at e\<rparr>"

definition reassignmentConstraints :: "reassignment_row list \<Rightarrow> reassignment_row \<Rightarrow> bool" where
  "reassignmentConstraints rows row \<longleftrightarrow>
     rr_replacement_assignment_id row \<notin> set (map rr_replacement_assignment_id rows)
     \<and> rr_old_assignment_id row \<notin> set (map rr_old_assignment_id rows)
     \<and> rr_old_assignment_epoch row > 0
     \<and> rr_old_backend_generation row > 0
     \<and> rr_old_native_outcome row \<in> set [''before_dispatch'', ''verified_absent'']
     \<and> rr_new_backend_generation row > 0
     \<and> rr_new_assignment_epoch row > 0
     \<and> rr_created_at row > 0"

section \<open>Whole statements\<close>

datatype 't write_outcome = WriteFailed | WriteConstraint | WriteDone 't

text \<open>What the triggers before an insert leave, \<open>None\<close> when one of them raises.\<close>

definition beforeInsert :: "timer_tables \<Rightarrow> assignment_row \<Rightarrow> timer_tables option" where
  "beforeInsert t new =
     (if \<not> setExpectationAllows t new then None
      else case tt_replacementExpectation t of
          TempRow e \<Rightarrow>
            if \<not> tt_replacementBefore t
              \<or> ar_timer_assignment_id new \<noteq> re_replacement_assignment_id e then Some t
            else if replacementAllowed t e new
            then Some (supersedeOldOwner e (ar_created_at new) t)
            else None
        | _ \<Rightarrow> Some t)"

definition afterInsert :: "timer_tables \<Rightarrow> assignment_row \<Rightarrow> timer_tables option" where
  "afterInsert t new =
     (let counted = countInsert (ar_timer_intent_id new) t
      in case tt_replacementExpectation t of
          TempRow e \<Rightarrow>
            if \<not> tt_replacementAfter t
              \<or> ar_timer_assignment_id new \<noteq> re_replacement_assignment_id e then Some counted
            else if reassignmentConstraints (tt_reassignments t) (reassignmentRow e new)
            then Some (counted\<lparr>tt_reassignments :=
                   tt_reassignments t @ [reassignmentRow e new]\<rparr>)
            else None
        | _ \<Rightarrow> Some counted)"

definition insertAssignmentRow ::
  "bool \<Rightarrow> timer_tables \<Rightarrow> assignment_row \<Rightarrow> timer_tables write_outcome" where
  "insertAssignmentRow failing t new =
     (if failing then WriteFailed
      else case beforeInsert t new of
          None \<Rightarrow> WriteConstraint
        | Some t1 \<Rightarrow>
            if \<not> assignmentConstraints (tt_assignments t1) new then WriteConstraint
            else case afterInsert (t1\<lparr>tt_assignments := tt_assignments t1 @ [new]\<rparr>) new of
                None \<Rightarrow> WriteConstraint
              | Some t2 \<Rightarrow> WriteDone t2)"

text \<open>An UPDATE of the selected rows, and the one that selects by identifier and revision, where
  every other column is \<open>new\<close>'s.\<close>

definition updateAssignmentRows ::
  "bool \<Rightarrow> timer_tables \<Rightarrow> (assignment_row \<Rightarrow> bool) \<Rightarrow> (assignment_row \<Rightarrow> assignment_row)
     \<Rightarrow> (nat \<times> timer_tables) write_outcome" where
  "updateAssignmentRows failing t matches written =
     (let selected = filter matches (tt_assignments t);
          others = filter (\<lambda>row. \<not> matches row) (tt_assignments t)
      in if failing then WriteFailed
         else if \<not> list_all (\<lambda>row. assignmentConstraints others (written row)) selected
         then WriteConstraint
         else WriteDone (length selected,
           fold countUpdate (map (\<lambda>row. ar_timer_intent_id (written row)) selected)
             (t\<lparr>tt_assignments := map (\<lambda>row. if matches row then written row else row)
                (tt_assignments t)\<rparr>)))"

definition assignmentSelected :: "string \<Rightarrow> int \<Rightarrow> assignment_row \<Rightarrow> bool" where
  "assignmentSelected timerAssignmentId revision row \<longleftrightarrow>
     ar_timer_assignment_id row = timerAssignmentId \<and> ar_assignment_revision row = revision"

definition updateAssignmentRow ::
  "bool \<Rightarrow> timer_tables \<Rightarrow> string \<Rightarrow> int \<Rightarrow> assignment_row \<Rightarrow> (nat \<times> timer_tables) write_outcome" where
  "updateAssignmentRow failing t timerAssignmentId revision new =
     updateAssignmentRows failing t (assignmentSelected timerAssignmentId revision)
       (\<lambda>row. new\<lparr>ar_timer_assignment_id := ar_timer_assignment_id row\<rparr>)"

end
