(* ===== verification/TimerAssignmentRepository.thy ===== *)
theory TimerAssignmentRepository
  imports TimerSchema
begin

text \<open>
  The durable store of timer assignments (\<open>core/timers/src/TimerAssignmentRepository.cpp\<close>):
  codec of rows, creation with repository-issued revision and epoch, the revision-fenced update,
  lookups and bounded listings. \<open>failing\<close> says of each statement of a call whether the engine
  reports an error; \<open>AsgSchema\<close> stands for \<open>ensureSchema\<close>, whose table and indexes are
  \<open>TimerSchema\<close>'s.
\<close>

datatype assignment_call =
  AsgSchema | AsgBegin | AsgCommit | AsgRollback | AsgSelect | AsgIntentRevision | AsgEpoch
| AsgActivePrimary | AsgExpected | AsgInsert | AsgUpdate | AsgList

section \<open>Results\<close>

datatype timer_assignment_repository_status =
  AsgRepoOk | AsgRepoInvalid | AsgRepoNotFound | AsgRepoConflict | AsgRepoAlreadyExists
| AsgRepoOwnershipConflict | AsgRepoIntentNotFound | AsgRepoIntentRevisionConflict
| AsgRepoStorageError

definition emptyTimerAssignment :: timer_assignment where
  "emptyTimerAssignment =
     \<lparr>ta_timerAssignmentId = [], ta_assignmentRevision = [], ta_timerIntentId = [],
      ta_intentRevision = [], ta_assignmentEpoch = 0, ta_backendId = [], ta_backendGeneration = 0,
      ta_state = AsgProposed, ta_role = RolePrimary, ta_channelBinding = emptyChannelBinding,
      ta_capabilityRevision = [], ta_backendHealthRevision = [], ta_decisionPolicyVersion = [],
      ta_decisionEvidence = emptyDecisionEvidence,
      ta_desiredNativeTimerSpecificationPresent = False,
      ta_desiredNativeTimerSpecification = emptyNativeTimerSpecification,
      ta_nativeTimerBindingId = [], ta_createdAt = 0, ta_updatedAt = 0\<rparr>"

record timer_assignment_repository_result =
  ra_status :: timer_assignment_repository_status
  ra_assignment :: timer_assignment

record timer_assignment_repository_list_result =
  rl_status :: timer_assignment_repository_status
  rl_assignments :: "timer_assignment list"

definition assignmentStatusResult ::
  "timer_assignment_repository_status \<Rightarrow> timer_assignment_repository_result" where
  "assignmentStatusResult status = \<lparr>ra_status = status, ra_assignment = emptyTimerAssignment\<rparr>"

definition assignmentResult ::
  "timer_assignment_repository_status \<Rightarrow> timer_assignment
     \<Rightarrow> timer_assignment_repository_result" where
  "assignmentResult status assignment = \<lparr>ra_status = status, ra_assignment = assignment\<rparr>"

lemma assignment_result_simps [simp]:
  "ra_status (assignmentStatusResult s) = s" "ra_status (assignmentResult s a) = s"
  "ra_assignment (assignmentResult s a) = a"
  "ra_assignment (assignmentStatusResult s) = emptyTimerAssignment"
  by (simp_all add: assignmentStatusResult_def assignmentResult_def)

section \<open>Codec\<close>

definition safeTimerIdentity :: "string \<Rightarrow> bool" where
  "safeTimerIdentity value \<longleftrightarrow> value \<noteq> [] \<and> length value \<le> kMaxIdentityLength"

definition desiredNativeTimerSpecificationValidForAssignment :: "timer_assignment \<Rightarrow> bool" where
  "desiredNativeTimerSpecificationValidForAssignment assignment =
     (if \<not> ta_desiredNativeTimerSpecificationPresent assignment then True
      else ta_state assignment \<noteq> AsgUnassigned
        \<and> nativeTimerSpecificationValid (ta_desiredNativeTimerSpecification assignment)
        \<and> ns_channelId (ta_desiredNativeTimerSpecification assignment)
            = cb_backendChannelId (ta_channelBinding assignment))"

definition desiredNativeTimerSpecificationImmutable ::
  "timer_assignment \<Rightarrow> timer_assignment \<Rightarrow> bool" where
  "desiredNativeTimerSpecificationImmutable current next' =
     (if ta_desiredNativeTimerSpecificationPresent current
        \<noteq> ta_desiredNativeTimerSpecificationPresent next' then False
      else \<not> ta_desiredNativeTimerSpecificationPresent current
        \<or> timerAssignmentDesiredNativeTimerSpecificationEquivalent
            (ta_desiredNativeTimerSpecification current)
            (ta_desiredNativeTimerSpecification next'))"

definition parseAssignmentState :: "string \<Rightarrow> timer_assignment_state option" where
  "parseAssignmentState value =
     (if value = ''proposed'' then Some AsgProposed
      else if value = ''selected'' then Some AsgSelected
      else if value = ''provisioning'' then Some AsgProvisioning
      else if value = ''bound'' then Some AsgBound
      else if value = ''reconciling'' then Some AsgReconciling
      else if value = ''unassigned'' then Some AsgUnassigned
      else if value = ''superseding'' then Some AsgSuperseding
      else if value = ''superseded'' then Some AsgSuperseded
      else if value = ''cancel_requested'' then Some AsgCancelRequested
      else if value = ''cancelled'' then Some AsgCancelled
      else if value = ''failed'' then Some AsgFailed
      else None)"

definition parseAssignmentRole :: "string \<Rightarrow> timer_assignment_role option" where
  "parseAssignmentRole value =
     (if value = ''primary'' then Some RolePrimary
      else if value = ''replica'' then Some RoleReplica
      else if value = ''replacement'' then Some RoleReplacement
      else None)"

definition bindAssignmentColumns :: "timer_assignment \<Rightarrow> assignment_row option" where
  "bindAssignmentColumns a =
     (if \<not> desiredNativeTimerSpecificationValidForAssignment a then None
      else case parseRevisionToken (ta_assignmentRevision a) of
          None \<Rightarrow> None
        | Some revision \<Rightarrow>
            if unat (ta_assignmentEpoch a) > int64_max
              \<or> unat (ta_backendGeneration a) > int64_max then None
            else (let desired = (if ta_desiredNativeTimerSpecificationPresent a
                    then serializeTimerAssignmentDesiredNativeTimerSpecification
                           (ta_desiredNativeTimerSpecification a)
                    else []);
                      evidence = ta_decisionEvidence a
                  in if ta_desiredNativeTimerSpecificationPresent a \<and> desired = [] then None
                     else Some \<lparr>ar_timer_assignment_id = ta_timerAssignmentId a,
                       ar_assignment_revision = int revision,
                       ar_timer_intent_id = ta_timerIntentId a,
                       ar_intent_revision = ta_intentRevision a,
                       ar_assignment_epoch = uint (ta_assignmentEpoch a),
                       ar_backend_id = ta_backendId a,
                       ar_backend_generation = uint (ta_backendGeneration a),
                       ar_state = timerAssignmentStateName (ta_state a),
                       ar_role = timerAssignmentRoleName (ta_role a),
                       ar_channel = ta_channelBinding a,
                       ar_capability_revision = ta_capabilityRevision a,
                       ar_backend_health_revision = ta_backendHealthRevision a,
                       ar_decision_policy_version = ta_decisionPolicyVersion a,
                       ar_decision_reasons = encodeStrings (de_reasons evidence),
                       ar_decision_warnings = encodeStrings (de_warnings evidence),
                       ar_decision_exclusions = encodeStrings (de_exclusions evidence),
                       ar_decision_conflict_facts = encodeStrings (de_conflictFacts evidence),
                       ar_decision_score = de_decisionScore evidence,
                       ar_native_timer_binding_id = ta_nativeTimerBindingId a,
                       ar_created_at = ta_createdAt a,
                       ar_updated_at = ta_updatedAt a,
                       ar_desired_native_timer_specification = desired\<rparr>))"

definition readEvidence :: "assignment_row \<Rightarrow> timer_assignment_decision_evidence option" where
  "readEvidence row =
     (case (decodeStrings (ar_decision_reasons row), decodeStrings (ar_decision_warnings row),
            decodeStrings (ar_decision_exclusions row),
            decodeStrings (ar_decision_conflict_facts row)) of
        (Some reasons, Some warnings, Some exclusions, Some conflictFacts) \<Rightarrow>
          Some \<lparr>de_reasons = reasons, de_warnings = warnings, de_exclusions = exclusions,
                de_conflictFacts = conflictFacts,
                de_decisionScore = columnInt (ar_decision_score row)\<rparr>
      | _ \<Rightarrow> None)"

text \<open>The desired specification: absent, or present and parsed.\<close>

definition readDesired :: "assignment_row \<Rightarrow> (bool \<times> native_timer_specification) option" where
  "readDesired row =
     (if ar_desired_native_timer_specification row = []
      then Some (False, emptyNativeTimerSpecification)
      else map_option (Pair True)
        (parseTimerAssignmentDesiredNativeTimerSpecification
          (ar_desired_native_timer_specification row)))"

definition readAssignment :: "assignment_row \<Rightarrow> timer_assignment option" where
  "readAssignment row =
     (if ar_assignment_revision row \<le> 0 \<or> ar_assignment_epoch row \<le> 0
        \<or> ar_backend_generation row < 0 then None
      else case (parseAssignmentState (ar_state row), parseAssignmentRole (ar_role row),
                 readEvidence row, readDesired row) of
          (Some state, Some role, Some evidence, Some (present, desired)) \<Rightarrow>
            (let assignment =
               \<lparr>ta_timerAssignmentId = ar_timer_assignment_id row,
                ta_assignmentRevision = to_string (ar_assignment_revision row),
                ta_timerIntentId = ar_timer_intent_id row,
                ta_intentRevision = ar_intent_revision row,
                ta_assignmentEpoch = of_int (ar_assignment_epoch row),
                ta_backendId = ar_backend_id row,
                ta_backendGeneration = of_int (ar_backend_generation row),
                ta_state = state,
                ta_role = role,
                ta_channelBinding = ar_channel row,
                ta_capabilityRevision = ar_capability_revision row,
                ta_backendHealthRevision = ar_backend_health_revision row,
                ta_decisionPolicyVersion = ar_decision_policy_version row,
                ta_decisionEvidence = evidence,
                ta_desiredNativeTimerSpecificationPresent = present,
                ta_desiredNativeTimerSpecification = desired,
                ta_nativeTimerBindingId = ar_native_timer_binding_id row,
                ta_createdAt = ar_created_at row,
                ta_updatedAt = ar_updated_at row\<rparr>
             in if timerAssignmentValid assignment
                  \<and> desiredNativeTimerSpecificationValidForAssignment assignment
                then Some assignment else None)
        | _ \<Rightarrow> None)"

section \<open>Queries\<close>

definition selectAssignmentById ::
  "(assignment_call \<Rightarrow> bool) \<Rightarrow> assignment_row list \<Rightarrow> string
     \<Rightarrow> timer_assignment select_result" where
  "selectAssignmentById failing rows timerAssignmentId =
     selectFirst (failing AsgSelect \<or> length timerAssignmentId > int32_max)
       (\<lambda>row. ar_timer_assignment_id row = timerAssignmentId) readAssignment rows"

text \<open>\<open>SelectFailed\<close> is \<open>storageError\<close>, \<open>SelectNone\<close> is \<open>notFound\<close>.\<close>

definition findIntentRevision ::
  "(assignment_call \<Rightarrow> bool) \<Rightarrow> intent_row list \<Rightarrow> string \<Rightarrow> string select_result" where
  "findIntentRevision failing rows timerIntentId =
     selectFirst (failing AsgIntentRevision \<or> length timerIntentId > int32_max)
       (\<lambda>row. ir_timer_intent_id row = timerIntentId)
       (\<lambda>row. Some (to_string (ir_intent_revision row))) rows"

definition maxEpoch :: "assignment_row list \<Rightarrow> string \<Rightarrow> int" where
  "maxEpoch rows timerIntentId =
     (case map ar_assignment_epoch (filter (\<lambda>row. ar_timer_intent_id row = timerIntentId) rows) of
        [] \<Rightarrow> 0
      | e # es \<Rightarrow> fold max es e)"

definition nextAssignmentEpoch ::
  "(assignment_call \<Rightarrow> bool) \<Rightarrow> assignment_row list \<Rightarrow> string \<Rightarrow> uint64 option" where
  "nextAssignmentEpoch failing rows timerIntentId =
     (let current = maxEpoch rows timerIntentId
      in if failing AsgEpoch \<or> current < 0 \<or> current = int int64_max then None
         else (let epoch = of_int current + 1
               in if epoch > 0 then Some epoch else None))"

definition hasOtherActivePrimary ::
  "(assignment_call \<Rightarrow> bool) \<Rightarrow> assignment_row list \<Rightarrow> string \<Rightarrow> string \<Rightarrow> bool option" where
  "hasOtherActivePrimary failing rows timerIntentId excludedAssignmentId =
     (if failing AsgActivePrimary then None
      else Some (list_ex (\<lambda>row. ar_timer_intent_id row = timerIntentId
        \<and> exclusiveRoleName (ar_role row) \<and> ownershipStateName (ar_state row)
        \<and> ar_timer_assignment_id row \<noteq> excludedAssignmentId) rows))"

definition controlledReplacementExpected ::
  "(assignment_call \<Rightarrow> bool) \<Rightarrow> timer_tables \<Rightarrow> string \<Rightarrow> bool" where
  "controlledReplacementExpected failing t timerAssignmentId \<longleftrightarrow>
     \<not> failing AsgExpected
     \<and> (case tt_replacementExpectation t of
          TempRow e \<Rightarrow> re_replacement_assignment_id e = timerAssignmentId
        | _ \<Rightarrow> False)"

definition validateIntentRevision ::
  "(assignment_call \<Rightarrow> bool) \<Rightarrow> timer_tables \<Rightarrow> timer_assignment
     \<Rightarrow> timer_assignment_repository_status" where
  "validateIntentRevision failing t assignment =
     (if \<not> safeTimerIdentity (ta_timerIntentId assignment) \<or> ta_intentRevision assignment = []
      then AsgRepoInvalid
      else case findIntentRevision failing (tt_intents t) (ta_timerIntentId assignment) of
          SelectNone \<Rightarrow> AsgRepoIntentNotFound
        | SelectFailed \<Rightarrow> AsgRepoStorageError
        | SelectFound currentRevision \<Rightarrow>
            if currentRevision \<noteq> ta_intentRevision assignment
            then AsgRepoIntentRevisionConflict else AsgRepoOk)"


section \<open>Creation\<close>

definition exclusiveOwner :: "timer_assignment \<Rightarrow> bool" where
  "exclusiveOwner a \<longleftrightarrow>
     (ta_role a = RolePrimary \<or> ta_role a = RoleReplacement)
     \<and> timerAssignmentActiveOwnershipState (ta_state a)"

text \<open>Who may own: a replacement must be expected, a primary must be alone.\<close>

definition ownershipAdmission ::
  "(assignment_call \<Rightarrow> bool) \<Rightarrow> timer_tables \<Rightarrow> timer_assignment
     \<Rightarrow> timer_assignment_repository_status" where
  "ownershipAdmission failing t durable =
     (if \<not> exclusiveOwner durable then AsgRepoOk
      else if ta_role durable = RoleReplacement
      then (if controlledReplacementExpected failing t (ta_timerAssignmentId durable)
            then AsgRepoOk else AsgRepoOwnershipConflict)
      else case hasOtherActivePrimary failing (tt_assignments t) (ta_timerIntentId durable) [] of
          None \<Rightarrow> AsgRepoStorageError
        | Some present \<Rightarrow> if present then AsgRepoOwnershipConflict else AsgRepoOk)"

text \<open>The checks between BEGIN and the INSERT: the assignment to be stored, or the status to
  report after the rollback.\<close>

definition createAssignmentCheck ::
  "(assignment_call \<Rightarrow> bool) \<Rightarrow> timer_tables \<Rightarrow> timer_assignment
     \<Rightarrow> timer_assignment_repository_status + timer_assignment" where
  "createAssignmentCheck failing t assignment =
     (case selectAssignmentById failing (tt_assignments t) (ta_timerAssignmentId assignment) of
        SelectFailed \<Rightarrow> Inl AsgRepoStorageError
      | SelectFound existing \<Rightarrow> Inl AsgRepoAlreadyExists
      | SelectNone \<Rightarrow>
          (let intentStatus = validateIntentRevision failing t assignment
           in if intentStatus \<noteq> AsgRepoOk then Inl intentStatus
              else case nextAssignmentEpoch failing (tt_assignments t)
                     (ta_timerIntentId assignment) of
                  None \<Rightarrow> Inl AsgRepoInvalid
                | Some epoch \<Rightarrow>
                    (let durable = assignment\<lparr>ta_assignmentRevision := ''1'',
                           ta_updatedAt := ta_createdAt assignment,
                           ta_assignmentEpoch := epoch\<rparr>;
                         admission = ownershipAdmission failing t durable
                     in if \<not> timerAssignmentValid durable then Inl AsgRepoInvalid
                        else if admission \<noteq> AsgRepoOk then Inl admission
                        else Inr durable)))"

text \<open>The INSERT and the COMMIT. After a failed INSERT the code asks for the error of the connection
  only once its own ROLLBACK has run, and a ROLLBACK that succeeds or fails leaves another one than
  a constraint's: an assignment the schema refuses is an ownership conflict only within a transaction
  of the caller.\<close>

definition createAssignmentWrite ::
  "(assignment_call \<Rightarrow> bool) \<Rightarrow> timer_tables database \<Rightarrow> timer_assignment \<Rightarrow> bool
     \<Rightarrow> timer_assignment_repository_result \<times> timer_tables database" where
  "createAssignmentWrite failing db durable currentTransaction =
     (let undo = (\<lambda>d. if currentTransaction then d
                       else executeRollback (failing AsgRollback) d)
      in case bindAssignmentColumns durable of
          None \<Rightarrow> (assignmentStatusResult AsgRepoStorageError, undo db)
        | Some row \<Rightarrow>
            (case insertAssignmentRow (failing AsgInsert) (visibleTables db) row of
               WriteFailed \<Rightarrow> (assignmentStatusResult AsgRepoStorageError, undo db)
             | WriteConstraint \<Rightarrow>
                 (assignmentStatusResult
                    (if currentTransaction then AsgRepoOwnershipConflict else AsgRepoStorageError),
                  undo db)
             | WriteDone t \<Rightarrow>
                 (let db1 = writeTables t db
                  in if currentTransaction then (assignmentResult AsgRepoOk durable, db1)
                     else (case executeCommit (failing AsgCommit) db1 of
                         (False, db2) \<Rightarrow> (assignmentStatusResult AsgRepoStorageError, undo db2)
                       | (True, db2) \<Rightarrow> (assignmentResult AsgRepoOk durable, db2)))))"

definition createAssignmentImpl ::
  "(assignment_call \<Rightarrow> bool) \<Rightarrow> timer_tables database \<Rightarrow> timer_assignment \<Rightarrow> bool
     \<Rightarrow> timer_assignment_repository_result \<times> timer_tables database" where
  "createAssignmentImpl failing db assignment currentTransaction =
     (if ta_assignmentRevision assignment \<noteq> [] \<or> ta_assignmentEpoch assignment \<noteq> 0
        \<or> \<not> safeTimerIdentity (ta_timerAssignmentId assignment)
        \<or> \<not> safeTimerIdentity (ta_timerIntentId assignment)
        \<or> \<not> desiredNativeTimerSpecificationValidForAssignment assignment
      then (assignmentStatusResult AsgRepoInvalid, db)
      else if currentTransaction \<noteq> transactionActive db \<or> failing AsgSchema
      then (assignmentStatusResult AsgRepoStorageError, db)
      else (case (if currentTransaction then (True, db)
                  else executeBegin (failing AsgBegin) db) of
          (False, db0) \<Rightarrow> (assignmentStatusResult AsgRepoStorageError, db0)
        | (True, db0) \<Rightarrow>
            (case createAssignmentCheck failing (visibleTables db0) assignment of
               Inl status \<Rightarrow>
                 (assignmentStatusResult status,
                  if currentTransaction then db0
                  else executeRollback (failing AsgRollback) db0)
             | Inr durable \<Rightarrow> createAssignmentWrite failing db0 durable currentTransaction)))"

definition createAssignment ::
  "(assignment_call \<Rightarrow> bool) \<Rightarrow> timer_tables database \<Rightarrow> timer_assignment
     \<Rightarrow> timer_assignment_repository_result \<times> timer_tables database" where
  "createAssignment failing db assignment = createAssignmentImpl failing db assignment False"

definition createAssignmentInCurrentTransaction ::
  "(assignment_call \<Rightarrow> bool) \<Rightarrow> timer_tables database \<Rightarrow> timer_assignment
     \<Rightarrow> timer_assignment_repository_result \<times> timer_tables database" where
  "createAssignmentInCurrentTransaction failing db assignment =
     createAssignmentImpl failing db assignment True"

section \<open>Lookups\<close>

definition findAssignmentById ::
  "(assignment_call \<Rightarrow> bool) \<Rightarrow> timer_tables database \<Rightarrow> string
     \<Rightarrow> timer_assignment_repository_result" where
  "findAssignmentById failing db timerAssignmentId =
     (if \<not> safeTimerIdentity timerAssignmentId then assignmentStatusResult AsgRepoInvalid
      else if failing AsgSchema then assignmentStatusResult AsgRepoStorageError
      else case selectAssignmentById failing (tt_assignments (visibleTables db))
             timerAssignmentId of
          SelectFailed \<Rightarrow> assignmentStatusResult AsgRepoStorageError
        | SelectNone \<Rightarrow> assignmentStatusResult AsgRepoNotFound
        | SelectFound assignment \<Rightarrow> assignmentResult AsgRepoOk assignment)"

fun readAssignments :: "assignment_row list \<Rightarrow> timer_assignment list option" where
  "readAssignments [] = Some []"
| "readAssignments (row # rows) =
     (case readAssignment row of
        None \<Rightarrow> None
      | Some assignment \<Rightarrow> map_option ((#) assignment) (readAssignments rows))"

definition assignmentListResult ::
  "bool \<Rightarrow> assignment_row list \<Rightarrow> timer_assignment_repository_list_result" where
  "assignmentListResult failed rows =
     (case (if failed then None else readAssignments rows) of
        None \<Rightarrow> \<lparr>rl_status = AsgRepoStorageError, rl_assignments = []\<rparr>
      | Some assignments \<Rightarrow> \<lparr>rl_status = AsgRepoOk, rl_assignments = assignments\<rparr>)"

definition epochOrder :: "assignment_row \<Rightarrow> int \<times> string" where
  "epochOrder row = (ar_assignment_epoch row, ar_timer_assignment_id row)"

definition listForIntent ::
  "(assignment_call \<Rightarrow> bool) \<Rightarrow> timer_tables database \<Rightarrow> string
     \<Rightarrow> timer_assignment_repository_list_result" where
  "listForIntent failing db timerIntentId =
     (if \<not> safeTimerIdentity timerIntentId
      then \<lparr>rl_status = AsgRepoInvalid, rl_assignments = []\<rparr>
      else assignmentListResult (failing AsgSchema \<or> failing AsgList)
        (sort_key epochOrder (filter (\<lambda>row. ar_timer_intent_id row = timerIntentId)
          (tt_assignments (visibleTables db)))))"

abbreviation kMaximumBoundedPageFetch :: nat where
  "kMaximumBoundedPageFetch \<equiv> 101"

definition listForBackendAfter ::
  "(assignment_call \<Rightarrow> bool) \<Rightarrow> timer_tables database \<Rightarrow> string \<Rightarrow> string \<Rightarrow> nat
     \<Rightarrow> timer_assignment_repository_list_result" where
  "listForBackendAfter failing db backendId afterTimerAssignmentId limit =
     (if \<not> safeTimerIdentity backendId
        \<or> (afterTimerAssignmentId \<noteq> [] \<and> \<not> safeTimerIdentity afterTimerAssignmentId)
        \<or> limit = 0 \<or> limit > kMaximumBoundedPageFetch
      then \<lparr>rl_status = AsgRepoInvalid, rl_assignments = []\<rparr>
      else assignmentListResult (failing AsgSchema \<or> failing AsgList)
        (take limit (sort_key ar_timer_assignment_id
          (filter (\<lambda>row. ar_backend_id row = backendId
             \<and> (afterTimerAssignmentId \<noteq> []
                 \<longrightarrow> ar_timer_assignment_id row > afterTimerAssignmentId))
            (tt_assignments (visibleTables db))))))"

definition findActivePrimaryForIntent ::
  "(assignment_call \<Rightarrow> bool) \<Rightarrow> timer_tables database \<Rightarrow> string
     \<Rightarrow> timer_assignment_repository_result" where
  "findActivePrimaryForIntent failing db timerIntentId =
     (if \<not> safeTimerIdentity timerIntentId then assignmentStatusResult AsgRepoInvalid
      else if failing AsgSchema \<or> failing AsgList
      then assignmentStatusResult AsgRepoStorageError
      else case take 2 (sort_key epochOrder
             (filter (\<lambda>row. ar_timer_intent_id row = timerIntentId \<and> activeExclusive row)
               (tt_assignments (visibleTables db)))) of
          [] \<Rightarrow> assignmentStatusResult AsgRepoNotFound
        | row # rest \<Rightarrow>
            (case readAssignment row of
               None \<Rightarrow> assignmentStatusResult AsgRepoStorageError
             | Some assignment \<Rightarrow>
                 if rest \<noteq> [] then assignmentStatusResult AsgRepoStorageError
                 else assignmentResult AsgRepoOk assignment))"

section \<open>Update\<close>

text \<open>\<open>std::to_string(expectedRevisionNumber + 1)\<close> on a signed 64-bit integer, written with the
  wrap-around the usual compilers give it; the code has no guard here.\<close>

definition nextRevisionText :: "nat \<Rightarrow> string" where
  "nextRevisionText v = to_string (sint (of_nat v + 1 :: 64 word))"

lemma nextRevisionText_small: "v < int64_max \<Longrightarrow> nextRevisionText v = decimal (v + 1)"
proof -
  assume "v < int64_max"
  then have "signed_take_bit 63 (int (v + 1)) = int (v + 1)"
    by (intro signed_take_bit_int_eq_self) simp_all
  then have "sint (word_of_int (int (v + 1)) :: 64 word) = int (v + 1)"
    by (simp only: signed_of_int) simp
  moreover have "(of_nat v + 1 :: 64 word) = word_of_int (int (v + 1))"
    by simp
  ultimately have "sint (of_nat v + 1 :: 64 word) = int (v + 1)" by (simp only:)
  then show ?thesis by (simp only: nextRevisionText_def to_string_of_nat)
qed

text \<open>What an update may not change, and how it may move.\<close>

definition updateAssignmentPermitted :: "timer_assignment \<Rightarrow> timer_assignment \<Rightarrow> bool" where
  "updateAssignmentPermitted current next' \<longleftrightarrow>
     \<not> (timerAssignmentTerminal (ta_state current)
       \<or> ta_timerIntentId next' \<noteq> ta_timerIntentId current
       \<or> ta_assignmentEpoch next' \<noteq> ta_assignmentEpoch current
       \<or> ta_role next' \<noteq> ta_role current
       \<or> ta_createdAt next' \<noteq> ta_createdAt current
       \<or> ta_updatedAt next' \<le> ta_updatedAt current
       \<or> \<not> desiredNativeTimerSpecificationValidForAssignment next'
       \<or> \<not> desiredNativeTimerSpecificationImmutable current next'
       \<or> (ta_backendId current \<noteq> [] \<and> ta_backendId next' \<noteq> ta_backendId current)
       \<or> (ta_state next' \<noteq> ta_state current
           \<and> \<not> timerAssignmentCanTransition (ta_state current) (ta_state next')))"

text \<open>The checks before the UPDATE: the assignment to be stored and the quoted revision, or the
  result to report.\<close>

definition updateAssignmentCheck ::
  "(assignment_call \<Rightarrow> bool) \<Rightarrow> timer_tables \<Rightarrow> timer_assignment \<Rightarrow> string
     \<Rightarrow> timer_assignment_repository_result + nat \<times> timer_assignment" where
  "updateAssignmentCheck failing t next' expectedRevision =
     (case (if ta_assignmentRevision next' = expectedRevision
              \<and> safeTimerIdentity (ta_timerAssignmentId next')
            then parseRevisionToken expectedRevision else None) of
        None \<Rightarrow> Inl (assignmentStatusResult AsgRepoInvalid)
      | Some v \<Rightarrow>
          (case selectAssignmentById failing (tt_assignments t) (ta_timerAssignmentId next') of
             SelectFailed \<Rightarrow> Inl (assignmentStatusResult AsgRepoStorageError)
           | SelectNone \<Rightarrow> Inl (assignmentStatusResult AsgRepoNotFound)
           | SelectFound current \<Rightarrow>
               if \<not> timerAssignmentRevisionMatches expectedRevision
                    (ta_assignmentRevision current)
               then Inl (assignmentResult AsgRepoConflict current)
               else if \<not> updateAssignmentPermitted current next'
               then Inl (assignmentStatusResult AsgRepoInvalid)
               else (let intentStatus = validateIntentRevision failing t next';
                         durable = next'\<lparr>ta_assignmentRevision := nextRevisionText v\<rparr>
                     in if intentStatus \<noteq> AsgRepoOk
                        then Inl (assignmentStatusResult intentStatus)
                        else if \<not> timerAssignmentValid durable
                        then Inl (assignmentStatusResult AsgRepoInvalid)
                        else if exclusiveOwner durable
                        then (case hasOtherActivePrimary failing (tt_assignments t)
                                (ta_timerIntentId durable) (ta_timerAssignmentId durable) of
                            None \<Rightarrow> Inl (assignmentStatusResult AsgRepoStorageError)
                          | Some present \<Rightarrow>
                              if present
                              then Inl (assignmentStatusResult AsgRepoOwnershipConflict)
                              else Inr (v, durable))
                        else Inr (v, durable))))"

definition updateInCurrentTransactionInternal ::
  "(assignment_call \<Rightarrow> bool) \<Rightarrow> timer_tables database \<Rightarrow> timer_assignment \<Rightarrow> string
     \<Rightarrow> timer_assignment_repository_result \<times> timer_tables database" where
  "updateInCurrentTransactionInternal failing db next' expectedRevision =
     (if \<not> transactionActive db then (assignmentStatusResult AsgRepoStorageError, db)
      else case updateAssignmentCheck failing (visibleTables db) next' expectedRevision of
          Inl result \<Rightarrow> (result, db)
        | Inr (v, durable) \<Rightarrow>
            (case bindAssignmentColumns durable of
               None \<Rightarrow> (assignmentStatusResult AsgRepoStorageError, db)
             | Some row \<Rightarrow>
                 (case updateAssignmentRow (failing AsgUpdate) (visibleTables db)
                         (ta_timerAssignmentId durable) (int v) row of
                    WriteFailed \<Rightarrow> (assignmentStatusResult AsgRepoStorageError, db)
                  | WriteConstraint \<Rightarrow> (assignmentStatusResult AsgRepoOwnershipConflict, db)
                  | WriteDone (changed, t) \<Rightarrow>
                      if changed \<noteq> 1
                      then (assignmentStatusResult AsgRepoStorageError, writeTables t db)
                      else (assignmentResult AsgRepoOk durable, writeTables t db))))"

definition updateAssignmentInCurrentTransaction ::
  "(assignment_call \<Rightarrow> bool) \<Rightarrow> timer_tables database \<Rightarrow> timer_assignment \<Rightarrow> string
     \<Rightarrow> timer_assignment_repository_result \<times> timer_tables database" where
  "updateAssignmentInCurrentTransaction failing db next' expectedRevision =
     updateInCurrentTransactionInternal failing db next' expectedRevision"

definition updateAssignment ::
  "(assignment_call \<Rightarrow> bool) \<Rightarrow> timer_tables database \<Rightarrow> timer_assignment \<Rightarrow> string
     \<Rightarrow> timer_assignment_repository_result \<times> timer_tables database" where
  "updateAssignment failing db next' expectedRevision =
     (if failing AsgSchema then (assignmentStatusResult AsgRepoStorageError, db)
      else case executeBegin (failing AsgBegin) db of
          (False, db0) \<Rightarrow> (assignmentStatusResult AsgRepoStorageError, db0)
        | (True, db0) \<Rightarrow>
            (case updateInCurrentTransactionInternal failing db0 next' expectedRevision of
               (result, db1) \<Rightarrow>
                 if ra_status result \<noteq> AsgRepoOk
                 then (result, executeRollback (failing AsgRollback) db1)
                 else (case executeCommit (failing AsgCommit) db1 of
                     (False, db2) \<Rightarrow>
                       (assignmentStatusResult AsgRepoStorageError,
                        executeRollback (failing AsgRollback) db2)
                   | (True, db2) \<Rightarrow> (result, db2))))"

end
