(* ===== verification/AssignmentRows.thy ===== *)
theory AssignmentRows
  imports TimerAssignmentRepository IntentStore
begin

text \<open>
  Rows of \<open>timer_assignments\<close>: what is bound is what is read back, the keys of the table as a
  relation between rows, and how one stored assignment may become another. Lemmas: the three ways
  the code writes a row (codec, closing of a replaced owner, refreshed generation) keep it
  readable and are such a change.
\<close>

section \<open>The codec loses nothing\<close>

lemma parseAssignmentState_name [simp]: "parseAssignmentState (timerAssignmentStateName s) = Some s"
  by (cases s) (simp_all add: parseAssignmentState_def)

lemma parseAssignmentRole_name [simp]: "parseAssignmentRole (timerAssignmentRoleName r) = Some r"
  by (cases r) (simp_all add: parseAssignmentRole_def)

lemma state_name_inject [simp]:
  "timerAssignmentStateName s = timerAssignmentStateName t \<longleftrightarrow> s = t"
  by (metis parseAssignmentState_name option.inject)

lemma role_name_inject [simp]:
  "timerAssignmentRoleName s = timerAssignmentRoleName t \<longleftrightarrow> s = t"
  by (metis parseAssignmentRole_name option.inject)

lemma parseAssignmentState_Some:
  "parseAssignmentState n = Some s \<Longrightarrow> n = timerAssignmentStateName s"
  by (auto simp: parseAssignmentState_def split: if_splits)

lemma parseAssignmentRole_Some:
  "parseAssignmentRole n = Some s \<Longrightarrow> n = timerAssignmentRoleName s"
  by (auto simp: parseAssignmentRole_def split: if_splits)

lemma ownershipStateName_iff:
  "ownershipStateName (timerAssignmentStateName s) \<longleftrightarrow> timerAssignmentActiveOwnershipState s"
  by (cases s) (simp_all add: ownershipStateName_def timerAssignmentActiveOwnershipState_def)

lemma exclusiveRoleName_iff:
  "exclusiveRoleName (timerAssignmentRoleName r) \<longleftrightarrow> r = RolePrimary \<or> r = RoleReplacement"
  by (cases r) (simp_all add: exclusiveRoleName_def)

text \<open>Without a desired specification the field reads as its default.\<close>

definition storedAssignment :: "timer_assignment \<Rightarrow> timer_assignment" where
  "storedAssignment a =
     (if ta_desiredNativeTimerSpecificationPresent a then a
      else a\<lparr>ta_desiredNativeTimerSpecification := emptyNativeTimerSpecification\<rparr>)"

lemma storedAssignment_fields [simp]:
  "ta_timerAssignmentId (storedAssignment a) = ta_timerAssignmentId a"
  "ta_assignmentRevision (storedAssignment a) = ta_assignmentRevision a"
  "ta_timerIntentId (storedAssignment a) = ta_timerIntentId a"
  "ta_intentRevision (storedAssignment a) = ta_intentRevision a"
  "ta_assignmentEpoch (storedAssignment a) = ta_assignmentEpoch a"
  "ta_backendId (storedAssignment a) = ta_backendId a"
  "ta_backendGeneration (storedAssignment a) = ta_backendGeneration a"
  "ta_state (storedAssignment a) = ta_state a"
  "ta_role (storedAssignment a) = ta_role a"
  "ta_channelBinding (storedAssignment a) = ta_channelBinding a"
  "ta_desiredNativeTimerSpecificationPresent (storedAssignment a)
    = ta_desiredNativeTimerSpecificationPresent a"
  "ta_nativeTimerBindingId (storedAssignment a) = ta_nativeTimerBindingId a"
  "ta_createdAt (storedAssignment a) = ta_createdAt a"
  "ta_updatedAt (storedAssignment a) = ta_updatedAt a"
  by (simp_all add: storedAssignment_def)

lemma storedAssignment_valid [simp]:
  "timerAssignmentValid (storedAssignment a) = timerAssignmentValid a"
  by (cases "ta_desiredNativeTimerSpecificationPresent a")
    (simp_all add: storedAssignment_def timerAssignmentValid_def unassignedShapeValid_def
      assignedShapeValid_def)

lemma storedAssignment_desired [simp]:
  "desiredNativeTimerSpecificationValidForAssignment (storedAssignment a)
     = desiredNativeTimerSpecificationValidForAssignment a"
  by (cases "ta_desiredNativeTimerSpecificationPresent a")
    (simp_all add: storedAssignment_def desiredNativeTimerSpecificationValidForAssignment_def)

lemma storedAssignment_idem [simp]: "storedAssignment (storedAssignment a) = storedAssignment a"
  by (simp add: storedAssignment_def)

lemma bindAssignmentColumns_Some:
  assumes "bindAssignmentColumns a = Some row"
  obtains n where "parseRevisionToken (ta_assignmentRevision a) = Some n"
    "desiredNativeTimerSpecificationValidForAssignment a"
    "unat (ta_assignmentEpoch a) \<le> int64_max" "unat (ta_backendGeneration a) \<le> int64_max"
    "row = the (bindAssignmentColumns a)" "ar_assignment_revision row = int n"
    "ar_timer_assignment_id row = ta_timerAssignmentId a"
    "ar_timer_intent_id row = ta_timerIntentId a"
    "ar_assignment_epoch row = uint (ta_assignmentEpoch a)"
    "ar_backend_id row = ta_backendId a"
    "ar_backend_generation row = uint (ta_backendGeneration a)"
    "ar_state row = timerAssignmentStateName (ta_state a)"
    "ar_role row = timerAssignmentRoleName (ta_role a)"
    "ar_native_timer_binding_id row = ta_nativeTimerBindingId a"
    "ar_created_at row = ta_createdAt a" "ar_updated_at row = ta_updatedAt a"
  using assms
  by (auto simp: bindAssignmentColumns_def Let_def split: if_splits option.splits)

lemma boundedEvidence_decode:
  "boundedEvidence vs \<Longrightarrow> decodeStrings (encodeStrings vs) = Some vs"
  by (rule decodeStrings_encode)
    (auto simp: boundedEvidence_def list_all_iff dest!: nonEmptyBounded_imp split: if_splits)

lemma columnInt_score:
  assumes "- 1000000 \<le> i" "i \<le> 1000000"
  shows "columnInt i = i"
proof -
  have "signed_take_bit 31 i = i"
    using assms by (intro signed_take_bit_int_eq_self) simp_all
  then show ?thesis by (simp add: columnInt_def signed_of_int)
qed

lemma readDesired_bound:
  assumes "bindAssignmentColumns a = Some row"
  shows "readDesired row = Some (ta_desiredNativeTimerSpecificationPresent a,
     ta_desiredNativeTimerSpecification (storedAssignment a))"
  using assms
  by (auto simp: bindAssignmentColumns_def readDesired_def Let_def storedAssignment_def
      desiredNativeTimerSpecificationValidForAssignment_def parse_serialize
      split: if_splits option.splits)

lemma readEvidence_bound:
  assumes "bindAssignmentColumns a = Some row" "decisionEvidenceValid (ta_decisionEvidence a)"
  shows "readEvidence row = Some (ta_decisionEvidence a)"
proof -
  let ?e = "ta_decisionEvidence a"
  have row: "ar_decision_reasons row = encodeStrings (de_reasons ?e)"
    "ar_decision_warnings row = encodeStrings (de_warnings ?e)"
    "ar_decision_exclusions row = encodeStrings (de_exclusions ?e)"
    "ar_decision_conflict_facts row = encodeStrings (de_conflictFacts ?e)"
    "ar_decision_score row = de_decisionScore ?e"
    using assms(1) by (auto simp: bindAssignmentColumns_def Let_def split: if_splits option.splits)
  have "\<lparr>de_reasons = de_reasons ?e, de_warnings = de_warnings ?e,
      de_exclusions = de_exclusions ?e, de_conflictFacts = de_conflictFacts ?e,
      de_decisionScore = de_decisionScore ?e\<rparr> = ?e"
    by simp
  then show ?thesis
    using assms(2)
    by (simp add: readEvidence_def row decisionEvidenceValid_def boundedEvidence_decode
        columnInt_score)
qed

lemma timerAssignmentValid_parts:
  assumes "timerAssignmentValid a"
  shows "decisionEvidenceValid (ta_decisionEvidence a)" "ta_assignmentEpoch a \<noteq> 0"
    "0 < ta_createdAt a" "ta_createdAt a \<le> ta_updatedAt a"
    "ta_timerAssignmentId a \<noteq> []" "length (ta_timerAssignmentId a) \<le> 160"
    "ta_timerIntentId a \<noteq> []" "length (ta_timerIntentId a) \<le> 160"
  using assms by (rule contrapos_pp; simp add: timerAssignmentValid_def nonEmptyBounded_def bounded_def)+

lemma readAssignment_bound:
  assumes "bindAssignmentColumns a = Some row" "timerAssignmentValid a"
    "ta_assignmentRevision a = decimal n"
  shows "readAssignment row = Some (storedAssignment a)"
proof -
  note v = timerAssignmentValid_parts [OF assms(2)]
  obtain m where m: "parseRevisionToken (ta_assignmentRevision a) = Some m"
    "desiredNativeTimerSpecificationValidForAssignment a"
    "ar_assignment_revision row = int m"
    using assms(1) by (rule bindAssignmentColumns_Some)
  have "m = n" "0 < m"
    using m(1) by (auto simp: assms(3) parseRevisionToken_def split: if_splits option.splits
        dest: accumulateDigits_decimal_inverse)
  then have rev: "to_string (ar_assignment_revision row) = ta_assignmentRevision a"
    using m(3) assms(3) to_string_of_nat [of n] by simp
  have pos: "0 < uint (ta_assignmentEpoch a)"
    using v(2) uint_ge_0 [of "ta_assignmentEpoch a"] uint_0_iff [of "ta_assignmentEpoch a"]
    by linarith
  have row: "ar_timer_assignment_id row = ta_timerAssignmentId a"
    "ar_timer_intent_id row = ta_timerIntentId a" "ar_intent_revision row = ta_intentRevision a"
    "ar_assignment_epoch row = uint (ta_assignmentEpoch a)" "ar_backend_id row = ta_backendId a"
    "ar_backend_generation row = uint (ta_backendGeneration a)"
    "ar_state row = timerAssignmentStateName (ta_state a)"
    "ar_role row = timerAssignmentRoleName (ta_role a)" "ar_channel row = ta_channelBinding a"
    "ar_capability_revision row = ta_capabilityRevision a"
    "ar_backend_health_revision row = ta_backendHealthRevision a"
    "ar_decision_policy_version row = ta_decisionPolicyVersion a"
    "ar_native_timer_binding_id row = ta_nativeTimerBindingId a"
    "ar_created_at row = ta_createdAt a" "ar_updated_at row = ta_updatedAt a"
    using assms(1) by (auto simp: bindAssignmentColumns_def Let_def split: if_splits option.splits)
  have eta: "\<lparr>ta_timerAssignmentId = ta_timerAssignmentId a,
      ta_assignmentRevision = ta_assignmentRevision a, ta_timerIntentId = ta_timerIntentId a,
      ta_intentRevision = ta_intentRevision a, ta_assignmentEpoch = ta_assignmentEpoch a,
      ta_backendId = ta_backendId a, ta_backendGeneration = ta_backendGeneration a,
      ta_state = ta_state a, ta_role = ta_role a, ta_channelBinding = ta_channelBinding a,
      ta_capabilityRevision = ta_capabilityRevision a,
      ta_backendHealthRevision = ta_backendHealthRevision a,
      ta_decisionPolicyVersion = ta_decisionPolicyVersion a,
      ta_decisionEvidence = ta_decisionEvidence a,
      ta_desiredNativeTimerSpecificationPresent = ta_desiredNativeTimerSpecificationPresent a,
      ta_desiredNativeTimerSpecification =
        ta_desiredNativeTimerSpecification (storedAssignment a),
      ta_nativeTimerBindingId = ta_nativeTimerBindingId a, ta_createdAt = ta_createdAt a,
      ta_updatedAt = ta_updatedAt a\<rparr> = storedAssignment a"
    by (cases a) (simp add: storedAssignment_def)
  have m0: "0 < ar_assignment_revision row" using \<open>0 < m\<close> m(3) by simp
  show ?thesis
    using assms(2) m(2) pos m0
    by (simp add: readAssignment_def rev row readEvidence_bound [OF assms(1) v(1)]
        readDesired_bound [OF assms(1)] eta)
qed


section \<open>Keys as a relation between rows\<close>

definition compatible :: "assignment_row \<Rightarrow> assignment_row \<Rightarrow> bool" where
  "compatible x y \<longleftrightarrow>
     ar_timer_assignment_id x \<noteq> ar_timer_assignment_id y
     \<and> (ar_timer_intent_id x, ar_assignment_epoch x) \<noteq> (ar_timer_intent_id y, ar_assignment_epoch y)
     \<and> \<not> (activeExclusive x \<and> activeExclusive y \<and> ar_timer_intent_id x = ar_timer_intent_id y)"

lemma compatible_sym: "compatible x y \<Longrightarrow> compatible y x"
  by (auto simp: compatible_def)

lemma fresh_key: "k \<notin> set (map f rows) \<longleftrightarrow> (\<forall>x \<in> set rows. f x \<noteq> k)"
  by auto

lemma assignmentKeysFree_iff: "assignmentKeysFree rows row \<longleftrightarrow> (\<forall>x \<in> set rows. compatible x row)"
  unfolding assignmentKeysFree_def compatible_def list_ex_iff fresh_key by blast

definition keysSound :: "assignment_row list \<Rightarrow> bool" where
  "keysSound rows \<longleftrightarrow> sorted_wrt compatible rows"

lemma keysSound_append:
  "keysSound rows \<Longrightarrow> assignmentKeysFree rows row \<Longrightarrow> keysSound (rows @ [row])"
  by (simp add: keysSound_def assignmentKeysFree_iff sorted_wrt_append)

lemma keysSound_map:
  assumes "keysSound rows" "\<And>x y. compatible x y \<Longrightarrow> compatible (f x) (f y)"
  shows "keysSound (map f rows)"
  using assms(1) by (auto simp: keysSound_def sorted_wrt_map elim: sorted_wrt_mono_rel [rotated]
      intro: assms(2))

lemma keysSound_update:
  assumes "keysSound rows" "length (filter m rows) = 1"
    and "\<forall>r \<in> set (filter m rows). \<forall>x \<in> set (filter (\<lambda>x. \<not> m x) rows). compatible x (w r)"
  shows "keysSound (map (\<lambda>r. if m r then w r else r) rows)"
  using assms
proof (induction rows)
  case Nil
  then show ?case by simp
next
  case (Cons a rows)
  show ?case
  proof (cases "m a")
    case True
    with Cons.prems(2) have "filter m rows = []" by simp
    then have none: "\<forall>x \<in> set rows. \<not> m x" by (simp add: filter_empty_conv)
    then have "map (\<lambda>r. if m r then w r else r) rows = rows" by (intro map_idI) simp
    moreover have "\<forall>x \<in> set rows. compatible (w a) x"
      using Cons.prems(3) True none compatible_sym by simp
    ultimately show ?thesis using Cons.prems(1) True by (simp add: keysSound_def)
  next
    case False
    have "keysSound (map (\<lambda>r. if m r then w r else r) rows)"
      using Cons False by (simp add: keysSound_def)
    moreover have "\<forall>x \<in> set rows. compatible a (if m x then w x else x)"
      using Cons.prems(1,3) False by (auto simp: keysSound_def)
    ultimately show ?thesis using False by (simp add: keysSound_def del: Ball_def) auto
  qed
qed

lemma keysSound_distinct:
  assumes "keysSound rows"
  shows "distinct (map ar_timer_assignment_id rows)"
    and "distinct (map (\<lambda>r. (ar_timer_intent_id r, ar_assignment_epoch r)) rows)"
  using assms by (induction rows) (auto simp: keysSound_def compatible_def)

lemma keysSound_one_owner:
  assumes "keysSound rows"
  shows "length (filter (\<lambda>r. activeExclusive r \<and> ar_timer_intent_id r = i) rows) \<le> 1"
  using assms
proof (induction rows)
  case Nil
  then show ?case by simp
next
  case (Cons a rows)
  show ?case
  proof (cases "activeExclusive a \<and> ar_timer_intent_id a = i")
    case True
    with Cons.prems have "\<forall>r \<in> set rows. \<not> (activeExclusive r \<and> ar_timer_intent_id r = i)"
      by (auto simp: keysSound_def compatible_def)
    then have "filter (\<lambda>r. activeExclusive r \<and> ar_timer_intent_id r = i) rows = []"
      by (simp add: filter_empty_conv)
    then show ?thesis by simp
  next
    case False
    with Cons show ?thesis by (auto simp: keysSound_def)
  qed
qed

section \<open>How a stored assignment changes\<close>

definition reachesState :: "timer_assignment_state \<Rightarrow> timer_assignment_state \<Rightarrow> bool" where
  "reachesState s t \<longleftrightarrow>
     (\<exists>ts. permittedHistory timerAssignmentCanTransition s ts \<and> t = last (s # ts))"

lemma reachesState_refl [simp]: "reachesState s s"
  unfolding reachesState_def by (intro exI [of _ "[]"]) simp

lemma reachesState_trans:
  assumes "reachesState s t" "reachesState t u"
  shows "reachesState s u"
proof -
  obtain ts us where "permittedHistory timerAssignmentCanTransition s ts" "t = last (s # ts)"
    "permittedHistory timerAssignmentCanTransition t us" "u = last (t # us)"
    using assms unfolding reachesState_def by blast
  then have "permittedHistory timerAssignmentCanTransition s (ts @ us) \<and> u = last (s # ts @ us)"
    by (simp add: permittedHistory_append)
  then show ?thesis unfolding reachesState_def by blast
qed

definition assignmentAdvances :: "timer_assignment \<Rightarrow> timer_assignment \<Rightarrow> bool" where
  "assignmentAdvances a a' \<longleftrightarrow>
     ta_timerAssignmentId a' = ta_timerAssignmentId a
     \<and> ta_timerIntentId a' = ta_timerIntentId a
     \<and> ta_assignmentEpoch a' = ta_assignmentEpoch a
     \<and> ta_role a' = ta_role a
     \<and> ta_createdAt a' = ta_createdAt a
     \<and> ta_updatedAt a < ta_updatedAt a'
     \<and> (ta_backendId a \<noteq> [] \<longrightarrow> ta_backendId a' = ta_backendId a)
     \<and> ta_desiredNativeTimerSpecificationPresent a' = ta_desiredNativeTimerSpecificationPresent a
     \<and> ta_desiredNativeTimerSpecification a' = ta_desiredNativeTimerSpecification a
     \<and> \<not> timerAssignmentTerminal (ta_state a)
     \<and> reachesState (ta_state a) (ta_state a')"

definition assignmentEvolves :: "assignment_row \<Rightarrow> assignment_row \<Rightarrow> bool" where
  "assignmentEvolves r r' \<longleftrightarrow>
     r' = r
     \<or> (ar_assignment_revision r < ar_assignment_revision r'
        \<and> (\<exists>a a'. readAssignment r = Some a \<and> readAssignment r' = Some a'
             \<and> assignmentAdvances a a'))"

lemma assignmentAdvances_trans:
  assumes "assignmentAdvances a b" "assignmentAdvances b c"
  shows "assignmentAdvances a c"
  using assms reachesState_trans unfolding assignmentAdvances_def by auto

lemma assignmentEvolves_refl [simp]: "assignmentEvolves r r"
  by (simp add: assignmentEvolves_def)

lemma assignmentEvolves_trans:
  assumes "assignmentEvolves r s" "assignmentEvolves s t"
  shows "assignmentEvolves r t"
proof (cases "s = r \<or> t = s")
  case True
  then show ?thesis using assms by auto
next
  case False
  then obtain a b b' c where "readAssignment r = Some a" "readAssignment s = Some b"
      "assignmentAdvances a b" "readAssignment s = Some b'" "readAssignment t = Some c"
      "assignmentAdvances b' c" "ar_assignment_revision r < ar_assignment_revision s"
      "ar_assignment_revision s < ar_assignment_revision t"
    using assms by (auto simp: assignmentEvolves_def)
  then show ?thesis using assignmentAdvances_trans [of a b c] by (simp add: assignmentEvolves_def)
qed

lemma readAssignment_fields:
  assumes "readAssignment r = Some a"
  shows "timerAssignmentValid a" "desiredNativeTimerSpecificationValidForAssignment a"
    "ta_timerAssignmentId a = ar_timer_assignment_id r"
    "ta_timerIntentId a = ar_timer_intent_id r"
    "ta_assignmentRevision a = to_string (ar_assignment_revision r)"
    "0 < ar_assignment_revision r" "0 < ar_assignment_epoch r" "0 \<le> ar_backend_generation r"
    "ta_backendId a = ar_backend_id r" "ta_intentRevision a = ar_intent_revision r"
    "ar_state r = timerAssignmentStateName (ta_state a)"
    "ar_role r = timerAssignmentRoleName (ta_role a)"
    "ta_nativeTimerBindingId a = ar_native_timer_binding_id r"
    "ta_createdAt a = ar_created_at r" "ta_updatedAt a = ar_updated_at r"
    "ta_assignmentEpoch a = of_int (ar_assignment_epoch r)"
    "ta_backendGeneration a = of_int (ar_backend_generation r)"
  using assms
  by (auto simp: readAssignment_def Let_def dest: parseAssignmentState_Some
      parseAssignmentRole_Some split: if_splits option.splits prod.splits)


section \<open>The three ways a stored row is changed\<close>

lemma length_decimal: "n < 10 ^ k \<Longrightarrow> 0 < k \<Longrightarrow> length (decimal n) \<le> k"
proof (induction k arbitrary: n)
  case 0
  then show ?case by simp
next
  case (Suc k)
  show ?case
  proof (cases "n < 10")
    case True
    then show ?thesis by (simp add: decimal.simps [of n])
  next
    case False
    then have "0 < k" using Suc.prems(1) by (cases k) auto
    moreover have "n div 10 < 10 ^ k" using Suc.prems(1) by (simp add: less_mult_imp_div_less)
    ultimately have "length (decimal (n div 10)) \<le> k" by (rule Suc.IH [rotated])
    then show ?thesis using False by (simp add: decimal.simps [of n])
  qed
qed

lemma revision_text_bounded:
  assumes "0 < n" "n \<le> int int64_max + 1"
  shows "nonEmptyBounded (to_string n) 160"
proof -
  have "nat n < 10 ^ 19" using assms by simp
  from length_decimal [OF this] show ?thesis
    using assms by (simp add: to_string_def nonEmptyBounded_def bounded_def)
qed

lemma readAssignment_iff:
  "readAssignment r = Some a \<longleftrightarrow>
     0 < ar_assignment_revision r \<and> 0 < ar_assignment_epoch r \<and> 0 \<le> ar_backend_generation r
     \<and> ar_state r = timerAssignmentStateName (ta_state a)
     \<and> ar_role r = timerAssignmentRoleName (ta_role a)
     \<and> readEvidence r = Some (ta_decisionEvidence a)
     \<and> readDesired r = Some (ta_desiredNativeTimerSpecificationPresent a,
          ta_desiredNativeTimerSpecification a)
     \<and> ta_timerAssignmentId a = ar_timer_assignment_id r
     \<and> ta_assignmentRevision a = to_string (ar_assignment_revision r)
     \<and> ta_timerIntentId a = ar_timer_intent_id r \<and> ta_intentRevision a = ar_intent_revision r
     \<and> ta_assignmentEpoch a = of_int (ar_assignment_epoch r)
     \<and> ta_backendId a = ar_backend_id r
     \<and> ta_backendGeneration a = of_int (ar_backend_generation r)
     \<and> ta_channelBinding a = ar_channel r
     \<and> ta_capabilityRevision a = ar_capability_revision r
     \<and> ta_backendHealthRevision a = ar_backend_health_revision r
     \<and> ta_decisionPolicyVersion a = ar_decision_policy_version r
     \<and> ta_nativeTimerBindingId a = ar_native_timer_binding_id r
     \<and> ta_createdAt a = ar_created_at r \<and> ta_updatedAt a = ar_updated_at r
     \<and> timerAssignmentValid a \<and> desiredNativeTimerSpecificationValidForAssignment a"
  (is "?read \<longleftrightarrow> ?fields")
proof
  assume ?read
  then show ?fields
    by (auto simp: readAssignment_def Let_def dest: parseAssignmentState_Some
        parseAssignmentRole_Some split: if_splits option.splits prod.splits)
next
  assume f: ?fields
  then have eta: "\<lparr>ta_timerAssignmentId = ar_timer_assignment_id r,
      ta_assignmentRevision = to_string (ar_assignment_revision r),
      ta_timerIntentId = ar_timer_intent_id r, ta_intentRevision = ar_intent_revision r,
      ta_assignmentEpoch = of_int (ar_assignment_epoch r), ta_backendId = ar_backend_id r,
      ta_backendGeneration = of_int (ar_backend_generation r),
      ta_state = ta_state a, ta_role = ta_role a, ta_channelBinding = ar_channel r,
      ta_capabilityRevision = ar_capability_revision r,
      ta_backendHealthRevision = ar_backend_health_revision r,
      ta_decisionPolicyVersion = ar_decision_policy_version r,
      ta_decisionEvidence = ta_decisionEvidence a,
      ta_desiredNativeTimerSpecificationPresent = ta_desiredNativeTimerSpecificationPresent a,
      ta_desiredNativeTimerSpecification = ta_desiredNativeTimerSpecification a,
      ta_nativeTimerBindingId = ar_native_timer_binding_id r, ta_createdAt = ar_created_at r,
      ta_updatedAt = ar_updated_at r\<rparr> = a"
    by (cases a) simp
  show ?read
    using f by (simp add: readAssignment_def Let_def eta [simplified])
qed

text \<open>A row and its assignment with a new revision, state, generation and time.\<close>

definition changedRow ::
  "int \<Rightarrow> timer_assignment_state \<Rightarrow> int \<Rightarrow> int \<Rightarrow> assignment_row \<Rightarrow> assignment_row" where
  "changedRow n s g u r =
     r\<lparr>ar_assignment_revision := n, ar_state := timerAssignmentStateName s,
       ar_backend_generation := g, ar_updated_at := u\<rparr>"

definition changedAssignment ::
  "int \<Rightarrow> timer_assignment_state \<Rightarrow> int \<Rightarrow> int \<Rightarrow> timer_assignment \<Rightarrow> timer_assignment" where
  "changedAssignment n s g u a =
     a\<lparr>ta_assignmentRevision := to_string n, ta_state := s, ta_backendGeneration := of_int g,
       ta_updatedAt := u\<rparr>"

lemma readAssignment_changed:
  assumes "readAssignment r = Some a" "0 < n" "0 \<le> g"
    "timerAssignmentValid (changedAssignment n s g u a)"
    "desiredNativeTimerSpecificationValidForAssignment (changedAssignment n s g u a)"
  shows "readAssignment (changedRow n s g u r) = Some (changedAssignment n s g u a)"
proof -
  have "readEvidence (changedRow n s g u r) = readEvidence r"
    "readDesired (changedRow n s g u r) = readDesired r"
    by (simp_all add: changedRow_def readEvidence_def readDesired_def split: option.split)
  then show ?thesis
    using assms unfolding readAssignment_iff by (simp add: changedRow_def changedAssignment_def)
qed

text \<open>Such a change of a row whose assignment has a backend.\<close>

lemma changed_evolves:
  assumes "readAssignment r = Some a" "assignedShapeValid a" "s \<noteq> AsgUnassigned"
    "s \<noteq> AsgBound \<or> ta_state a = AsgBound" "0 < g" "g \<le> int int64_max"
    "ar_assignment_revision r \<le> int int64_max" "ar_updated_at r < u"
    "\<not> timerAssignmentTerminal (ta_state a)" "reachesState (ta_state a) s"
  shows "readAssignment (changedRow (ar_assignment_revision r + 1) s g u r) =
      Some (changedAssignment (ar_assignment_revision r + 1) s g u a)"
    and "assignmentEvolves r (changedRow (ar_assignment_revision r + 1) s g u r)"
proof -
  define n where "n = ar_assignment_revision r + 1"
  define a' where "a' = changedAssignment n s g u a"
  note f = readAssignment_fields [OF assms(1)]
  have "uint (of_int g :: 64 word) = g"
    using assms(5,6) by (simp add: unsigned_of_int take_bit_int_eq_self)
  then have "(of_int g :: 64 word) \<noteq> 0" using assms(5) by auto
  then have "assignedShapeValid a'"
    using assms(2) by (simp add: a'_def changedAssignment_def assignedShapeValid_def word_gt_0)
  moreover have "nonEmptyBounded (to_string n) 160"
    using f(6) assms(7) unfolding n_def by (intro revision_text_bounded) simp_all
  ultimately have v: "timerAssignmentValid a'"
    using f(1,15) assms(3,4,8)
    by (auto simp: timerAssignmentValid_def a'_def changedAssignment_def split: if_splits)
  have d: "desiredNativeTimerSpecificationValidForAssignment a'"
    using f(2) assms(3)
    by (simp add: desiredNativeTimerSpecificationValidForAssignment_def a'_def
        changedAssignment_def)
  have read: "readAssignment (changedRow n s g u r) = Some a'"
    unfolding a'_def
    by (rule readAssignment_changed [OF assms(1)])
      (use f(6) assms(5) v d in \<open>simp_all add: n_def a'_def\<close>)
  then show "readAssignment (changedRow (ar_assignment_revision r + 1) s g u r) =
      Some (changedAssignment (ar_assignment_revision r + 1) s g u a)"
    by (simp add: a'_def n_def)
  have "assignmentAdvances a a'"
    using f(15) assms(8-10)
    by (simp add: assignmentAdvances_def a'_def changedAssignment_def)
  moreover have "ar_assignment_revision r < ar_assignment_revision (changedRow n s g u r)"
    by (simp add: changedRow_def n_def)
  ultimately show "assignmentEvolves r (changedRow (ar_assignment_revision r + 1) s g u r)"
    using assms(1) read unfolding assignmentEvolves_def n_def by blast
qed

text \<open>Closing a replaced owner.\<close>

lemma closed_reaches:
  assumes "s \<in> {AsgSelected, AsgProvisioning, AsgBound, AsgReconciling}"
  shows "reachesState s AsgSuperseded"
  unfolding reachesState_def using assms
  by (intro exI [of _ "[AsgSuperseding, AsgSuperseded]"])
    (auto simp: timerAssignmentCanTransition_def)

lemma closedRow_evolves:
  assumes "readAssignment r = Some a" "ar_updated_at r < at"
    "ar_assignment_revision r \<le> int int64_max"
    "ar_state r \<in> set [''selected'', ''provisioning'', ''bound'', ''reconciling'']"
    "ar_backend_generation r \<le> int int64_max"
  shows "readAssignment (closedRow at r) \<noteq> None" and "assignmentEvolves r (closedRow at r)"
proof -
  note f = readAssignment_fields [OF assms(1)]
  have s: "ta_state a \<in> {AsgSelected, AsgProvisioning, AsgBound, AsgReconciling}"
    using assms(4) f(11) by (cases "ta_state a") simp_all
  have shape: "assignedShapeValid a" using f(1) s by (intro valid_assigned_shape) auto
  have g: "0 < ar_backend_generation r"
    using shape f(8,17) by (cases "ar_backend_generation r = 0") (auto simp: assignedShapeValid_def)
  have row: "closedRow at r = changedRow (ar_assignment_revision r + 1) AsgSuperseded
      (ar_backend_generation r) at r"
    by (simp add: closedRow_def changedRow_def)
  have t: "\<not> timerAssignmentTerminal (ta_state a)" using s by (auto simp: timerAssignmentTerminal_def)
  have le: "ar_backend_generation r \<le> int int64_max" by (rule assms(5))
  note * = changed_evolves [OF assms(1) shape _ _ g le assms(3,2) t closed_reaches [OF s]]
  show "readAssignment (closedRow at r) \<noteq> None" "assignmentEvolves r (closedRow at r)"
    using * by (simp_all add: row)
qed

lemma closedRow_keys [simp]:
  "ar_timer_assignment_id (closedRow at r) = ar_timer_assignment_id r"
  "ar_timer_intent_id (closedRow at r) = ar_timer_intent_id r"
  "ar_assignment_epoch (closedRow at r) = ar_assignment_epoch r"
  "\<not> activeExclusive (closedRow at r)"
  by (simp_all add: closedRow_def activeExclusive_def ownershipStateName_def)

lemma closedRow_compatible:
  "compatible x y \<Longrightarrow> compatible (if P x then closedRow at x else x)
     (if P y then closedRow at y else y)"
  by (auto simp: compatible_def)

end
