(* ===== verification/TimerAssignmentSetRevision.thy ===== *)
theory TimerAssignmentSetRevision
  imports TimerAssignmentRepository
begin

text \<open>
  The set revision of an intent's assignments and the creation that is fenced by it
  (\<open>core/timers/src/TimerAssignmentSetRevisionRepository.cpp\<close>). A set revision counts, through
  triggers, every insert and update of an assignment of the intent; a temporary table and trigger
  make the next insert of one identifier fail unless the count is still the expected one. The
  code executes scripts of several statements, which stop at the first error: each statement has
  its own call, and the clean-ups are numbered.
\<close>

datatype set_call =
  SetAssignmentSchema | SetTable | SetBackfill | SetInsertTrigger | SetUpdateTrigger
| SetDeleteTrigger | SetPresence | SetRead | FenceTable | FenceInsert | FenceTrigger
| DropFenceTrigger nat | DropFenceTable nat

definition parseSetRevisionToken :: "string \<Rightarrow> nat option" where
  "parseSetRevisionToken token =
     (if token = [] then None else accumulateDigits int64_max 0 token)"

text \<open>\<open>INSERT OR IGNORE\<close> gives every intent with assignments a first count.\<close>

definition backfillSetRevisions :: "timer_tables \<Rightarrow> timer_tables" where
  "backfillSetRevisions t =
     t\<lparr>tt_setRevisions := (\<lambda>i. case tt_setRevisions t i of
         Some r \<Rightarrow> Some r
       | None \<Rightarrow> if i \<in> set (map ar_timer_intent_id (tt_assignments t))
                then Some (maxEpoch (tt_assignments t) i) else None)\<rparr>"

definition ensureAssignmentSetRevisionSchema ::
  "(set_call \<Rightarrow> bool) \<Rightarrow> timer_tables \<Rightarrow> bool \<times> timer_tables" where
  "ensureAssignmentSetRevisionSchema failing t =
     (if failing SetTable \<or> failing SetBackfill then (False, t)
      else (let t1 = backfillSetRevisions t
            in if failing SetInsertTrigger then (False, t1)
               else (let t2 = t1\<lparr>tt_setInsertTrigger := True\<rparr>
                     in if failing SetUpdateTrigger then (False, t2)
                        else (\<not> failing SetDeleteTrigger, t2\<lparr>tt_setUpdateTrigger := True\<rparr>))))"

definition removeTemporaryExpectationFence ::
  "(set_call \<Rightarrow> bool) \<Rightarrow> nat \<Rightarrow> timer_tables \<Rightarrow> timer_tables" where
  "removeTemporaryExpectationFence failing n t =
     (if failing (DropFenceTrigger n) then t
      else if failing (DropFenceTable n) then t\<lparr>tt_setExpectationTrigger := False\<rparr>
      else t\<lparr>tt_setExpectationTrigger := False, tt_setExpectation := TempAbsent\<rparr>)"

definition installTemporaryExpectationFence ::
  "(set_call \<Rightarrow> bool) \<Rightarrow> timer_tables \<Rightarrow> timer_assignment \<Rightarrow> nat \<Rightarrow> bool \<times> timer_tables" where
  "installTemporaryExpectationFence failing t assignment expectedRevision =
     (let t0 = removeTemporaryExpectationFence failing 0 t
      in if failing FenceTable \<or> tt_setExpectation t0 \<noteq> TempAbsent then (False, t0)
         else (let t1 = t0\<lparr>tt_setExpectation := TempEmpty\<rparr>
               in if failing FenceInsert
                  then (False, removeTemporaryExpectationFence failing 1 t1)
                  else (let t2 = t1\<lparr>tt_setExpectation := TempRow
                            \<lparr>se_timer_assignment_id = ta_timerAssignmentId assignment,
                             se_timer_intent_id = ta_timerIntentId assignment,
                             se_expected_set_revision = int expectedRevision\<rparr>\<rparr>
                        in if failing FenceTrigger \<or> tt_setExpectationTrigger t2
                           then (False, removeTemporaryExpectationFence failing 1 t2)
                           else (True, t2\<lparr>tt_setExpectationTrigger := True\<rparr>))))"

definition readCurrentSetRevision ::
  "(set_call \<Rightarrow> bool) \<Rightarrow> timer_tables \<Rightarrow> string \<Rightarrow> int option" where
  "readCurrentSetRevision failing t timerIntentId =
     (if failing SetRead then None
      else (let revision = setRevisionOf t timerIntentId
            in if revision \<ge> 0 then Some revision else None))"

record timer_assignment_set_revision_result =
  sr_status :: timer_assignment_repository_status
  sr_assignmentSetRevision :: string

definition setRevisionResult ::
  "timer_assignment_repository_status \<Rightarrow> string \<Rightarrow> timer_assignment_set_revision_result" where
  "setRevisionResult status token = \<lparr>sr_status = status, sr_assignmentSetRevision = token\<rparr>"

definition assignmentSetRevisionForIntent ::
  "(set_call \<Rightarrow> bool) \<Rightarrow> timer_tables database \<Rightarrow> string
     \<Rightarrow> timer_assignment_set_revision_result \<times> timer_tables database" where
  "assignmentSetRevisionForIntent failing db timerIntentId =
     (if \<not> safeTimerIdentity timerIntentId then (setRevisionResult AsgRepoInvalid [], db)
      else if failing SetAssignmentSchema then (setRevisionResult AsgRepoStorageError [], db)
      else (case ensureAssignmentSetRevisionSchema failing (visibleTables db) of
          (ready, t) \<Rightarrow>
            (let db1 = writeVisible t db
             in if \<not> ready \<or> failing SetPresence
                then (setRevisionResult AsgRepoStorageError [], db1)
                else if timerIntentId \<notin> set (map ir_timer_intent_id (tt_intents t))
                then (setRevisionResult AsgRepoIntentNotFound [], db1)
                else (case readCurrentSetRevision failing t timerIntentId of
                    None \<Rightarrow> (setRevisionResult AsgRepoStorageError [], db1)
                  | Some revision \<Rightarrow> (setRevisionResult AsgRepoOk (to_string revision), db1)))))"

text \<open>A failed creation under a moved count is reported as a conflict.\<close>

definition fencedStatus ::
  "timer_assignment_repository_status \<Rightarrow> int option \<Rightarrow> nat
     \<Rightarrow> timer_assignment_repository_status" where
  "fencedStatus status currentRevision expectedRevision =
     (case currentRevision of
        None \<Rightarrow> status
      | Some current \<Rightarrow>
          if current \<noteq> int expectedRevision
            \<and> (status = AsgRepoOwnershipConflict \<or> status = AsgRepoStorageError)
          then AsgRepoConflict else status)"

definition createAgainstAssignmentSetRevision ::
  "(set_call \<Rightarrow> bool) \<Rightarrow> (assignment_call \<Rightarrow> bool) \<Rightarrow> timer_tables database
     \<Rightarrow> timer_assignment \<Rightarrow> string
     \<Rightarrow> timer_assignment_repository_result \<times> timer_tables database" where
  "createAgainstAssignmentSetRevision failing failingCreate db assignment
       expectedAssignmentSetRevision =
     (case (if safeTimerIdentity (ta_timerAssignmentId assignment)
              \<and> safeTimerIdentity (ta_timerIntentId assignment)
            then parseSetRevisionToken expectedAssignmentSetRevision else None) of
        None \<Rightarrow> (assignmentStatusResult AsgRepoInvalid, db)
      | Some expectedRevision \<Rightarrow>
          if failing SetAssignmentSchema then (assignmentStatusResult AsgRepoStorageError, db)
          else (case ensureAssignmentSetRevisionSchema failing (visibleTables db) of
              (False, t) \<Rightarrow> (assignmentStatusResult AsgRepoStorageError, writeVisible t db)
            | (True, t) \<Rightarrow>
                (case installTemporaryExpectationFence failing t assignment expectedRevision of
                   (False, t1) \<Rightarrow>
                     (assignmentStatusResult AsgRepoStorageError, writeVisible t1 db)
                 | (True, t1) \<Rightarrow>
                     (case createAssignment failingCreate (writeVisible t1 db) assignment of
                        (result, db2) \<Rightarrow>
                          (let current = readCurrentSetRevision failing (visibleTables db2)
                                 (ta_timerIntentId assignment);
                               db3 = writeVisible (removeTemporaryExpectationFence failing 2
                                 (visibleTables db2)) db2
                           in (result\<lparr>ra_status :=
                                 fencedStatus (ra_status result) current expectedRevision\<rparr>,
                               db3))))))"

end
