(* ===== verification/TimerAssignmentReassignment.thy ===== *)
theory TimerAssignmentReassignment
  imports TimerAssignmentSetRevision
begin

text \<open>
  Controlled replacement of an owner
  (\<open>core/timers/src/TimerAssignmentReassignmentRepository.cpp\<close>): a temporary table holds what
  the caller expects of the old owner, two temporary triggers check it at the INSERT of the
  replacement, close the old owner and write the evidence, all in that one statement
  (\<open>TimerSchema\<close>). Here are the calls around it. Texts of the evidence table are read up to
  their first zero byte, as the code reads them.
\<close>

datatype replacement_call =
  ReEnsure | ReCreateTable | ReInsertExpectation | ReBeforeTrigger | ReAfterTrigger | ReSelect
| ReDropBefore nat | ReDropAfter nat | ReDropTable nat
| ReSet nat set_call | ReAssignment nat assignment_call

datatype timer_assignment_reassignment_native_outcome = OutcomeBeforeDispatch | OutcomeVerifiedAbsent

record timer_assignment_reassignment_evidence =
  ev_oldTimerAssignmentId :: string
  ev_oldAssignmentRevision :: string
  ev_oldAssignmentEpoch :: uint64
  ev_oldBackendId :: string
  ev_oldBackendGeneration :: uint64
  ev_oldNativeOutcome :: timer_assignment_reassignment_native_outcome
  ev_oldOperationId :: string
  ev_oldOperationRevision :: string
  ev_oldNativeTimerBindingId :: string
  ev_oldBindingRevision :: string
  ev_reason :: string
  ev_replacementTimerAssignmentId :: string
  ev_newBackendId :: string
  ev_newBackendGeneration :: uint64
  ev_newAssignmentEpoch :: uint64
  ev_createdAt :: int

text \<open>\<open>None\<close> stands for a result without assignments and evidence.\<close>

record timer_assignment_controlled_replacement_result =
  cr_status :: timer_assignment_repository_status
  cr_found :: "(timer_assignment \<times> timer_assignment \<times> timer_assignment_reassignment_evidence) option"

definition replacementStatusResult ::
  "timer_assignment_repository_status \<Rightarrow> timer_assignment_controlled_replacement_result" where
  "replacementStatusResult status = \<lparr>cr_status = status, cr_found = None\<rparr>"

abbreviation kMaxReasonLength :: nat where
  "kMaxReasonLength \<equiv> 256"

fun outcomeName :: "timer_assignment_reassignment_native_outcome \<Rightarrow> string" where
  "outcomeName OutcomeBeforeDispatch = ''before_dispatch''"
| "outcomeName OutcomeVerifiedAbsent = ''verified_absent''"

definition parseOutcome ::
  "string \<Rightarrow> timer_assignment_reassignment_native_outcome option" where
  "parseOutcome value =
     (if value = ''before_dispatch'' then Some OutcomeBeforeDispatch
      else if value = ''verified_absent'' then Some OutcomeVerifiedAbsent
      else None)"

definition evidenceShapeValid :: "timer_assignment_reassignment_evidence \<Rightarrow> bool" where
  "evidenceShapeValid e =
     (if \<not> safeTimerIdentity (ev_oldTimerAssignmentId e)
        \<or> \<not> safeTimerIdentity (ev_oldAssignmentRevision e)
        \<or> ev_oldAssignmentEpoch e = 0
        \<or> \<not> safeTimerIdentity (ev_oldBackendId e)
        \<or> ev_oldBackendGeneration e = 0
        \<or> \<not> safeTimerIdentity (ev_replacementTimerAssignmentId e)
        \<or> \<not> safeTimerIdentity (ev_newBackendId e)
        \<or> ev_newBackendGeneration e = 0
        \<or> ev_newAssignmentEpoch e \<noteq> 0
        \<or> ev_reason e = []
        \<or> length (ev_reason e) > kMaxReasonLength
        \<or> ev_createdAt e \<le> 0 then False
      else case ev_oldNativeOutcome e of
          OutcomeBeforeDispatch \<Rightarrow>
            ev_oldOperationId e = [] \<and> ev_oldOperationRevision e = []
            \<and> ev_oldNativeTimerBindingId e = [] \<and> ev_oldBindingRevision e = []
        | OutcomeVerifiedAbsent \<Rightarrow>
            safeTimerIdentity (ev_oldOperationId e)
            \<and> safeTimerIdentity (ev_oldOperationRevision e)
            \<and> safeTimerIdentity (ev_oldNativeTimerBindingId e)
            \<and> safeTimerIdentity (ev_oldBindingRevision e))"

section \<open>The expectation\<close>

definition removeExpectation ::
  "(replacement_call \<Rightarrow> bool) \<Rightarrow> nat \<Rightarrow> timer_tables \<Rightarrow> timer_tables" where
  "removeExpectation failing n t =
     (if failing (ReDropBefore n) then t
      else if failing (ReDropAfter n) then t\<lparr>tt_replacementBefore := False\<rparr>
      else if failing (ReDropTable n)
      then t\<lparr>tt_replacementBefore := False, tt_replacementAfter := False\<rparr>
      else t\<lparr>tt_replacementBefore := False, tt_replacementAfter := False,
             tt_replacementExpectation := TempAbsent\<rparr>)"

text \<open>\<open>static_cast<sqlite3_int64>\<close> of an unsigned value is its signed reading.\<close>

definition expectationRow ::
  "nat \<Rightarrow> nat \<Rightarrow> timer_assignment_reassignment_evidence \<Rightarrow> replacement_expectation_row" where
  "expectationRow setRevision oldRevision e =
     \<lparr>re_replacement_assignment_id = ev_replacementTimerAssignmentId e,
      re_expected_set_revision = int setRevision,
      re_old_assignment_id = ev_oldTimerAssignmentId e,
      re_old_assignment_revision = int oldRevision,
      re_old_assignment_epoch = sint (ev_oldAssignmentEpoch e),
      re_old_backend_id = ev_oldBackendId e,
      re_old_backend_generation = sint (ev_oldBackendGeneration e),
      re_old_native_outcome = outcomeName (ev_oldNativeOutcome e),
      re_old_operation_id = ev_oldOperationId e,
      re_old_operation_revision = ev_oldOperationRevision e,
      re_old_binding_id = ev_oldNativeTimerBindingId e,
      re_old_binding_revision = ev_oldBindingRevision e,
      re_reason = ev_reason e,
      re_created_at = ev_createdAt e\<rparr>"

definition installExpectation ::
  "(replacement_call \<Rightarrow> bool) \<Rightarrow> timer_tables \<Rightarrow> string
     \<Rightarrow> timer_assignment_reassignment_evidence \<Rightarrow> bool \<times> timer_tables" where
  "installExpectation failing t expectedSetRevision e =
     (case (parseSetRevisionToken expectedSetRevision,
            parseSetRevisionToken (ev_oldAssignmentRevision e)) of
        (Some setRevision, Some oldRevision) \<Rightarrow>
          (let t0 = removeExpectation failing 0 t
           in if failing ReCreateTable \<or> tt_replacementExpectation t0 \<noteq> TempAbsent
              then (False, t0)
              else if failing ReInsertExpectation
              then (False, removeExpectation failing 1
                     (t0\<lparr>tt_replacementExpectation := TempEmpty\<rparr>))
              else (let t1 = t0\<lparr>tt_replacementExpectation :=
                          TempRow (expectationRow setRevision oldRevision e)\<rparr>
                    in if failing ReBeforeTrigger \<or> tt_replacementBefore t1
                       then (False, removeExpectation failing 1 t1)
                       else if failing ReAfterTrigger \<or> tt_replacementAfter t1
                       then (False, removeExpectation failing 1
                              (t1\<lparr>tt_replacementBefore := True\<rparr>))
                       else (True, t1\<lparr>tt_replacementBefore := True,
                                      tt_replacementAfter := True\<rparr>)))
      | _ \<Rightarrow> (False, t))"

section \<open>Calls\<close>

text \<open>The evidence of a row, with \<open>text\<close> reading up to the first zero byte.\<close>

definition evidenceOfRow ::
  "string \<Rightarrow> reassignment_row \<Rightarrow> timer_assignment_reassignment_evidence option" where
  "evidenceOfRow replacementTimerAssignmentId row =
     map_option (\<lambda>outcome.
       \<lparr>ev_oldTimerAssignmentId = cText (rr_old_assignment_id row),
        ev_oldAssignmentRevision = cText (rr_old_assignment_revision row),
        ev_oldAssignmentEpoch = of_int (rr_old_assignment_epoch row),
        ev_oldBackendId = cText (rr_old_backend_id row),
        ev_oldBackendGeneration = of_int (rr_old_backend_generation row),
        ev_oldNativeOutcome = outcome,
        ev_oldOperationId = cText (rr_old_operation_id row),
        ev_oldOperationRevision = cText (rr_old_operation_revision row),
        ev_oldNativeTimerBindingId = cText (rr_old_binding_id row),
        ev_oldBindingRevision = cText (rr_old_binding_revision row),
        ev_reason = cText (rr_reason row),
        ev_replacementTimerAssignmentId = replacementTimerAssignmentId,
        ev_newBackendId = cText (rr_new_backend_id row),
        ev_newBackendGeneration = of_int (rr_new_backend_generation row),
        ev_newAssignmentEpoch = of_int (rr_new_assignment_epoch row),
        ev_createdAt = rr_created_at row\<rparr>)
     (parseOutcome (cText (rr_old_native_outcome row)))"

definition findControlledReplacement ::
  "(replacement_call \<Rightarrow> bool) \<Rightarrow> timer_tables database \<Rightarrow> string
     \<Rightarrow> timer_assignment_controlled_replacement_result" where
  "findControlledReplacement failing db replacementTimerAssignmentId =
     (if \<not> safeTimerIdentity replacementTimerAssignmentId
      then replacementStatusResult AsgRepoInvalid
      else if failing (ReAssignment 0 AsgSchema) \<or> failing ReEnsure
      then replacementStatusResult AsgRepoStorageError
      else case selectFirst (failing ReSelect)
             (\<lambda>row. rr_replacement_assignment_id row = replacementTimerAssignmentId)
             (evidenceOfRow replacementTimerAssignmentId)
             (tt_reassignments (visibleTables db)) of
          SelectNone \<Rightarrow> replacementStatusResult AsgRepoNotFound
        | SelectFailed \<Rightarrow> replacementStatusResult AsgRepoStorageError
        | SelectFound evidence \<Rightarrow>
            (let old = findAssignmentById (\<lambda>c. failing (ReAssignment 1 c)) db
                   (ev_oldTimerAssignmentId evidence);
                 replacement = findAssignmentById (\<lambda>c. failing (ReAssignment 2 c)) db
                   replacementTimerAssignmentId
             in if ra_status old \<noteq> AsgRepoOk \<or> ra_status replacement \<noteq> AsgRepoOk
                then replacementStatusResult AsgRepoStorageError
                else \<lparr>cr_status = AsgRepoOk,
                      cr_found = Some (ra_assignment old, ra_assignment replacement, evidence)\<rparr>))"

definition createControlledReplacement ::
  "(replacement_call \<Rightarrow> bool) \<Rightarrow> timer_tables database \<Rightarrow> timer_assignment \<Rightarrow> string
     \<Rightarrow> timer_assignment_reassignment_evidence
     \<Rightarrow> timer_assignment_controlled_replacement_result \<times> timer_tables database" where
  "createControlledReplacement failing db replacement expectedAssignmentSetRevision e =
     (if ta_timerAssignmentId replacement \<noteq> ev_replacementTimerAssignmentId e
        \<or> ta_backendId replacement \<noteq> ev_newBackendId e
        \<or> ta_backendGeneration replacement \<noteq> ev_newBackendGeneration e
        \<or> ta_createdAt replacement \<noteq> ev_createdAt e
        \<or> ta_role replacement \<noteq> RoleReplacement
        \<or> ta_state replacement \<noteq> AsgSelected
        \<or> \<not> evidenceShapeValid e then (replacementStatusResult AsgRepoInvalid, db)
      else (case assignmentSetRevisionForIntent (\<lambda>c. failing (ReSet 0 c)) db
              (ta_timerIntentId replacement) of
          (currentSet, db1) \<Rightarrow>
            if sr_status currentSet \<noteq> AsgRepoOk
            then (replacementStatusResult (sr_status currentSet), db1)
            else if sr_assignmentSetRevision currentSet \<noteq> expectedAssignmentSetRevision
            then (replacementStatusResult AsgRepoConflict, db1)
            else if failing ReEnsure then (replacementStatusResult AsgRepoStorageError, db1)
            else (case installExpectation failing (visibleTables db1)
                    expectedAssignmentSetRevision e of
                (False, t) \<Rightarrow> (replacementStatusResult AsgRepoStorageError, writeVisible t db1)
              | (True, t) \<Rightarrow>
                  (case createAssignment (\<lambda>c. failing (ReAssignment 3 c)) (writeVisible t db1)
                          replacement of
                     (created, db2) \<Rightarrow>
                       (let db3 = writeVisible (removeExpectation failing 2
                              (visibleTables db2)) db2
                        in if ra_status created \<noteq> AsgRepoOk
                           then (case assignmentSetRevisionForIntent
                                   (\<lambda>c. failing (ReSet 1 c)) db3
                                   (ta_timerIntentId replacement) of
                               (afterFailure, db4) \<Rightarrow>
                                 if sr_status afterFailure = AsgRepoOk
                                   \<and> sr_assignmentSetRevision afterFailure
                                       \<noteq> expectedAssignmentSetRevision
                                 then (replacementStatusResult AsgRepoConflict, db4)
                                 else (replacementStatusResult (ra_status created), db4))
                           else (findControlledReplacement failing db3
                                   (ta_timerAssignmentId replacement), db3))))))"

end
