(* ===== verification/NativeTimerBindingRepository.thy ===== *)
theory NativeTimerBindingRepository
  imports TimerAssignmentRepository
begin

text \<open>
  The durable store of native timer bindings
  (\<open>core/timers/src/NativeTimerBindingRepository.cpp\<close>): creation next to the unique keys,
  lookups, the page of stale bindings a poll refreshes, the revision-fenced update with its
  passive refresh, which moves the bound assignment's generation in the same transaction, and the
  verified change of the native identity. \<open>failing\<close> says of each statement whether the engine
  reports an error; the schema is \<open>NativeTimerBindingStorage\<close>'s.
\<close>

datatype binding_call =
  BindBegin | BindCommit | BindRollback | BindSelectId | BindSelectNative | BindSelectManaged
| BindInsert | BindUpdate | BindPending | BindRefreshRead | BindRefreshWrite | BindList
| BindFreshness | BindFind string | BindGuardPrepare | BindGuard | BindRenamePrepare | BindRename

section \<open>Results\<close>

datatype native_timer_binding_repository_status =
  BindOk | BindInvalid | BindNotFound | BindConflict | BindAlreadyExists
| BindNativeIdentityConflict | BindAssignmentBindingConflict | BindImmutableConflict
| BindGenerationConflict | BindObservationConflict | BindStorageError

text \<open>\<open>None\<close> stands for the default binding of a result that carries only a status.\<close>

record native_timer_binding_repository_result =
  nr_status :: native_timer_binding_repository_status
  nr_binding :: "native_timer_binding option"

record native_timer_binding_repository_list_result =
  nl_status :: native_timer_binding_repository_status
  nl_bindings :: "native_timer_binding list"

definition bindingStatusResult ::
  "native_timer_binding_repository_status \<Rightarrow> native_timer_binding_repository_result" where
  "bindingStatusResult status = \<lparr>nr_status = status, nr_binding = None\<rparr>"

definition bindingResult ::
  "native_timer_binding_repository_status \<Rightarrow> native_timer_binding
     \<Rightarrow> native_timer_binding_repository_result" where
  "bindingResult status binding = \<lparr>nr_status = status, nr_binding = Some binding\<rparr>"

lemma binding_result_simps [simp]:
  "nr_status (bindingStatusResult s) = s" "nr_status (bindingResult s b) = s"
  "nr_binding (bindingStatusResult s) = None" "nr_binding (bindingResult s b) = Some b"
  by (simp_all add: bindingStatusResult_def bindingResult_def)

definition nativeTimerBindingRevisionMatches :: "string \<Rightarrow> string \<Rightarrow> bool" where
  "nativeTimerBindingRevisionMatches expectedRevision currentRevision \<longleftrightarrow>
     revisionMatches expectedRevision currentRevision"

definition representableGeneration :: "uint64 \<Rightarrow> bool" where
  "representableGeneration value \<longleftrightarrow> unat value \<le> int64_max"

definition managedOwnership :: "native_timer_binding_ownership \<Rightarrow> bool" where
  "managedOwnership ownership \<longleftrightarrow> ownership = OwnManaged \<or> ownership = OwnAdopted"

section \<open>Statements on the table\<close>

definition nativeBindingSelectById ::
  "bool \<Rightarrow> binding_row list \<Rightarrow> string \<Rightarrow> native_timer_binding select_result" where
  "nativeBindingSelectById failing rows nativeTimerBindingId =
     selectFirst (failing \<or> length nativeTimerBindingId > int32_max)
       (\<lambda>row. br_native_timer_binding_id row = nativeTimerBindingId) readBinding rows"

definition nativeBindingSelectByNativeIdentity ::
  "bool \<Rightarrow> binding_row list \<Rightarrow> string \<Rightarrow> string \<Rightarrow> native_timer_binding select_result" where
  "nativeBindingSelectByNativeIdentity failing rows backendId nativeId =
     selectFirst (failing \<or> length backendId > int32_max \<or> length nativeId > int32_max)
       (\<lambda>row. br_backend_id row = backendId \<and> br_backend_native_timer_id row = nativeId)
       readBinding rows"

definition nativeBindingSelectManagedForAssignment ::
  "bool \<Rightarrow> binding_row list \<Rightarrow> string \<Rightarrow> native_timer_binding select_result" where
  "nativeBindingSelectManagedForAssignment failing rows assignmentId =
     selectFirst (failing \<or> length assignmentId > int32_max)
       (\<lambda>row. br_timer_assignment_id row = assignmentId
          \<and> managedOwnershipName (br_ownership row))
       readBinding rows"

fun readBindings :: "binding_row list \<Rightarrow> native_timer_binding list option" where
  "readBindings [] = Some []"
| "readBindings (row # rows) =
     (case readBinding row of
        None \<Rightarrow> None
      | Some binding \<Rightarrow> map_option ((#) binding) (readBindings rows))"

definition nativeBindingListForAssignment ::
  "bool \<Rightarrow> binding_row list \<Rightarrow> string \<Rightarrow> native_timer_binding list option" where
  "nativeBindingListForAssignment failing rows assignmentId =
     (if failing \<or> length assignmentId > int32_max then None
      else readBindings (sort_key br_native_timer_binding_id
        (filter (\<lambda>row. br_timer_assignment_id row = assignmentId) rows)))"

definition nativeBindingInsert ::
  "bool \<Rightarrow> binding_row list \<Rightarrow> native_timer_binding \<Rightarrow> binding_row list option" where
  "nativeBindingInsert failing rows binding =
     (case bindBindingColumns binding of
        None \<Rightarrow> None
      | Some row \<Rightarrow>
          if failing \<or> \<not> bindingConstraints rows row then None else Some (rows @ [row]))"

text \<open>The UPDATE leaves the identifying columns; no other column has a constraint.\<close>

definition writeMutableColumns :: "binding_row \<Rightarrow> binding_row \<Rightarrow> binding_row" where
  "writeMutableColumns new row =
     new\<lparr>br_native_timer_binding_id := br_native_timer_binding_id row,
         br_backend_id := br_backend_id row,
         br_backend_native_timer_id := br_backend_native_timer_id row,
         br_timer_assignment_id := br_timer_assignment_id row,
         br_ownership := br_ownership row\<rparr>"

definition bindingSelected :: "string \<Rightarrow> int \<Rightarrow> binding_row \<Rightarrow> bool" where
  "bindingSelected nativeTimerBindingId revision row \<longleftrightarrow>
     br_native_timer_binding_id row = nativeTimerBindingId \<and> br_binding_revision row = revision"

definition nativeBindingUpdate ::
  "bool \<Rightarrow> binding_row list \<Rightarrow> native_timer_binding \<Rightarrow> nat \<Rightarrow> binding_row list option" where
  "nativeBindingUpdate failing rows binding expectedRevision =
     (case bindBindingColumns binding of
        None \<Rightarrow> None
      | Some new \<Rightarrow>
          (let matches = bindingSelected (nb_nativeTimerBindingId binding) (int expectedRevision)
           in if failing \<or> length (filter matches rows) \<noteq> 1 then None
              else Some (map (\<lambda>row. if matches row then writeMutableColumns new row else row)
                rows)))"

section \<open>Creation and lookups\<close>

text \<open>The three lookups before the INSERT: the result to report, if any of them ends the call.\<close>

definition createBindingCheck ::
  "(binding_call \<Rightarrow> bool) \<Rightarrow> binding_row list \<Rightarrow> native_timer_binding
     \<Rightarrow> native_timer_binding_repository_result option" where
  "createBindingCheck failing rows durable =
     (case nativeBindingSelectById (failing BindSelectId) rows
             (nb_nativeTimerBindingId durable) of
        SelectFailed \<Rightarrow> Some (bindingStatusResult BindStorageError)
      | SelectFound existing \<Rightarrow> Some (bindingResult BindAlreadyExists existing)
      | SelectNone \<Rightarrow>
          (case nativeBindingSelectByNativeIdentity (failing BindSelectNative) rows
                  (nb_backendId durable) (nb_backendNativeTimerId durable) of
             SelectFailed \<Rightarrow> Some (bindingStatusResult BindStorageError)
           | SelectFound existing \<Rightarrow> Some (bindingResult BindNativeIdentityConflict existing)
           | SelectNone \<Rightarrow>
               if \<not> managedOwnership (nb_ownership durable) then None
               else (case nativeBindingSelectManagedForAssignment (failing BindSelectManaged) rows
                       (nb_timerAssignmentId durable) of
                   SelectFailed \<Rightarrow> Some (bindingStatusResult BindStorageError)
                 | SelectFound existing \<Rightarrow>
                     Some (bindingResult BindAssignmentBindingConflict existing)
                 | SelectNone \<Rightarrow> None)))"

definition putBindings :: "binding_row list \<Rightarrow> timer_tables database \<Rightarrow> timer_tables database" where
  "putBindings rows db = writeTables ((visibleTables db)\<lparr>tt_bindings := rows\<rparr>) db"

definition createBinding ::
  "(binding_call \<Rightarrow> bool) \<Rightarrow> timer_tables database \<Rightarrow> native_timer_binding
     \<Rightarrow> native_timer_binding_repository_result \<times> timer_tables database" where
  "createBinding failing db binding =
     (let durable = binding\<lparr>nb_bindingRevision := ''1''\<rparr>;
          undo = executeRollback (failing BindRollback)
      in if \<not> safeTimerIdentity (nb_nativeTimerBindingId binding)
           \<or> nb_bindingRevision binding \<noteq> []
           \<or> \<not> representableGeneration (nb_backendGeneration binding)
           \<or> \<not> nativeTimerBindingValid durable
         then (bindingStatusResult BindInvalid, db)
         else case executeBegin (failing BindBegin) db of
             (False, db0) \<Rightarrow> (bindingStatusResult BindStorageError, db0)
           | (True, db0) \<Rightarrow>
               (let rows = tt_bindings (visibleTables db0)
                in case createBindingCheck failing rows durable of
                     Some result \<Rightarrow> (result, undo db0)
                   | None \<Rightarrow>
                       (case nativeBindingInsert (failing BindInsert) rows durable of
                          None \<Rightarrow> (bindingStatusResult BindStorageError, undo db0)
                        | Some rows' \<Rightarrow>
                            (case executeCommit (failing BindCommit) (putBindings rows' db0) of
                               (False, db2) \<Rightarrow> (bindingStatusResult BindStorageError, undo db2)
                             | (True, db2) \<Rightarrow> (bindingResult BindOk durable, db2)))))"

definition lookupResult ::
  "native_timer_binding select_result \<Rightarrow> native_timer_binding_repository_result" where
  "lookupResult selected =
     (case selected of
        SelectFailed \<Rightarrow> bindingStatusResult BindStorageError
      | SelectNone \<Rightarrow> bindingStatusResult BindNotFound
      | SelectFound binding \<Rightarrow> bindingResult BindOk binding)"

definition findBindingById ::
  "bool \<Rightarrow> timer_tables database \<Rightarrow> string \<Rightarrow> native_timer_binding_repository_result" where
  "findBindingById failing db nativeTimerBindingId =
     (if \<not> safeTimerIdentity nativeTimerBindingId then bindingStatusResult BindInvalid
      else lookupResult (nativeBindingSelectById failing (tt_bindings (visibleTables db))
        nativeTimerBindingId))"

definition findByBackendNativeTimer ::
  "bool \<Rightarrow> timer_tables database \<Rightarrow> string \<Rightarrow> string
     \<Rightarrow> native_timer_binding_repository_result" where
  "findByBackendNativeTimer failing db backendId backendNativeTimerId =
     (if \<not> safeTimerIdentity backendId \<or> \<not> safeTimerIdentity backendNativeTimerId
      then bindingStatusResult BindInvalid
      else lookupResult (nativeBindingSelectByNativeIdentity failing
        (tt_bindings (visibleTables db)) backendId backendNativeTimerId))"

definition listBindingsForAssignment ::
  "bool \<Rightarrow> timer_tables database \<Rightarrow> string \<Rightarrow> native_timer_binding_repository_list_result" where
  "listBindingsForAssignment failing db timerAssignmentId =
     (if \<not> safeTimerIdentity timerAssignmentId
      then \<lparr>nl_status = BindInvalid, nl_bindings = []\<rparr>
      else case nativeBindingListForAssignment failing (tt_bindings (visibleTables db))
             timerAssignmentId of
          None \<Rightarrow> \<lparr>nl_status = BindStorageError, nl_bindings = []\<rparr>
        | Some bindings \<Rightarrow> \<lparr>nl_status = BindOk, nl_bindings = bindings\<rparr>)"

definition freshnessCandidate :: "string \<Rightarrow> int \<Rightarrow> binding_row \<Rightarrow> bool" where
  "freshnessCandidate afterId staleBefore row \<longleftrightarrow>
     br_native_timer_binding_id row > afterId
     \<and> managedOwnershipName (br_ownership row) \<and> br_missing_since row = 0
     \<and> br_drift_state row = ''none'' \<and> br_observed_recording row = 0
     \<and> br_observed_pending row = 0 \<and> br_last_observed_at row < staleBefore"

text \<open>The identifiers of a page are read as C strings and looked up one by one.\<close>

fun hydrateBindings ::
  "(binding_call \<Rightarrow> bool) \<Rightarrow> timer_tables database \<Rightarrow> string list
     \<Rightarrow> native_timer_binding list option" where
  "hydrateBindings failing db [] = Some []"
| "hydrateBindings failing db (i # ids) =
     (let found = findBindingById (failing (BindFind i)) db i
      in if nr_status found \<noteq> BindOk then None
         else (case (nr_binding found, hydrateBindings failing db ids) of
             (Some binding, Some bindings) \<Rightarrow> Some (binding # bindings)
           | _ \<Rightarrow> None))"

definition listManagedForFreshness ::
  "(binding_call \<Rightarrow> bool) \<Rightarrow> timer_tables database \<Rightarrow> string \<Rightarrow> int \<Rightarrow> nat
     \<Rightarrow> native_timer_binding_repository_list_result" where
  "listManagedForFreshness failing db afterId staleBefore limit =
     (if length afterId > kMaxIdentityLength \<or> staleBefore \<le> 0 \<or> limit = 0 \<or> limit > 8
      then \<lparr>nl_status = BindInvalid, nl_bindings = []\<rparr>
      else if failing BindFreshness then \<lparr>nl_status = BindStorageError, nl_bindings = []\<rparr>
      else case hydrateBindings failing db
             (map (\<lambda>row. cText (br_native_timer_binding_id row))
               (take limit (sort_key br_native_timer_binding_id
                 (filter (freshnessCandidate (cText afterId) staleBefore)
                   (tt_bindings (visibleTables db)))))) of
          None \<Rightarrow> \<lparr>nl_status = BindStorageError, nl_bindings = []\<rparr>
        | Some bindings \<Rightarrow> \<lparr>nl_status = BindOk, nl_bindings = bindings\<rparr>)"

section \<open>The passive refresh of the bound assignment\<close>

text \<open>\<open>CAST(text AS INTEGER)\<close>: the longest numeric prefix after white space, clamped.\<close>

definition sqliteSpace :: "char \<Rightarrow> bool" where
  "sqliteSpace c \<longleftrightarrow> of_char c = (32 :: nat) \<or> (9 \<le> (of_char c :: nat) \<and> (of_char c :: nat) \<le> 13)"

definition digitsValue :: "string \<Rightarrow> nat" where
  "digitsValue s = foldl (\<lambda>acc c. acc * 10 + digitOf c) 0 (takeWhile isDigit s)"

definition sqliteCastInteger :: "string \<Rightarrow> int" where
  "sqliteCastInteger value =
     (case dropWhile sqliteSpace value of
        [] \<Rightarrow> 0
      | c # cs \<Rightarrow>
          if c = CHR ''-'' then max (- (2 ^ 63)) (- int (digitsValue cs))
          else if c = CHR ''+'' then min (2 ^ 63 - 1) (int (digitsValue cs))
          else min (2 ^ 63 - 1) (int (digitsValue (c # cs))))"

definition refreshable :: "timer_tables \<Rightarrow> native_timer_binding \<Rightarrow> assignment_row \<Rightarrow> bool" where
  "refreshable t binding row \<longleftrightarrow>
     ar_timer_assignment_id row = cText (nb_timerAssignmentId binding)
     \<and> ar_native_timer_binding_id row = cText (nb_nativeTimerBindingId binding)
     \<and> ar_backend_id row = cText (nb_backendId binding)
     \<and> ar_state row = ''bound''
     \<and> list_ex (\<lambda>intent. ir_timer_intent_id intent = ar_timer_intent_id row
          \<and> sqliteCastInteger (ar_intent_revision row) = ir_intent_revision intent
          \<and> ir_state intent \<in> set [''active'', ''paused'']) (tt_intents t)"

definition refreshTarget ::
  "native_timer_binding \<Rightarrow> int \<Rightarrow> int \<Rightarrow> assignment_row \<Rightarrow> bool" where
  "refreshTarget binding oldGeneration oldRevision row \<longleftrightarrow>
     ar_timer_assignment_id row = cText (nb_timerAssignmentId binding)
     \<and> ar_native_timer_binding_id row = cText (nb_nativeTimerBindingId binding)
     \<and> ar_backend_id row = cText (nb_backendId binding)
     \<and> ar_state row = ''bound''
     \<and> ar_backend_generation row = oldGeneration
     \<and> ar_assignment_revision row = oldRevision"

definition refreshedRow :: "int \<Rightarrow> int \<Rightarrow> assignment_row \<Rightarrow> assignment_row" where
  "refreshedRow generation observedAt row =
     row\<lparr>ar_backend_generation := generation,
         ar_assignment_revision := ar_assignment_revision row + 1,
         ar_updated_at := max (ar_updated_at row + 1) observedAt\<rparr>"

text \<open>\<open>None\<close> when the refresh is refused; the tables after it otherwise.\<close>

definition refreshBoundAssignmentGeneration ::
  "(binding_call \<Rightarrow> bool) \<Rightarrow> timer_tables \<Rightarrow> native_timer_binding \<Rightarrow> uint64 \<Rightarrow> int
     \<Rightarrow> timer_tables option" where
  "refreshBoundAssignmentGeneration failing t binding generation observedAt =
     (if failing BindRefreshRead then None
      else case find (refreshable t binding) (tt_assignments t) of
          None \<Rightarrow> None
        | Some row \<Rightarrow>
            (let oldGeneration = ar_backend_generation row;
                 oldRevision = ar_assignment_revision row;
                 oldTime = ar_updated_at row
             in if oldGeneration \<le> 0 \<or> oldGeneration > sint generation
                  \<or> oldRevision \<le> 0 \<or> oldRevision = int int64_max
                  \<or> oldTime \<le> 0 \<or> oldTime = int int64_max then None
                else if oldGeneration = sint generation then Some t
                else (case updateAssignmentRows (failing BindRefreshWrite) t
                         (refreshTarget binding oldGeneration oldRevision)
                         (refreshedRow (sint generation) observedAt) of
                    WriteDone (changed, t') \<Rightarrow> if changed = 1 then Some t' else None
                  | _ \<Rightarrow> None)))"

section \<open>Update\<close>

definition terminalOperationName :: "string \<Rightarrow> bool" where
  "terminalOperationName value \<longleftrightarrow>
     value \<in> set [''rejected'', ''conflict'', ''succeeded'', ''failed_before_dispatch'',
       ''failed_verified'', ''cancelled'']"

definition mutationPending :: "native_timer_binding \<Rightarrow> operation_row \<Rightarrow> bool" where
  "mutationPending current operation \<longleftrightarrow>
     (or_resource_type operation = ''NativeTimerBinding''
        \<and> or_resource_id operation = cText (nb_nativeTimerBindingId current)
      \<or> or_resource_type operation = ''TimerAssignment''
        \<and> or_resource_id operation = cText (nb_timerAssignmentId current))
     \<and> \<not> terminalOperationName (or_state operation)"

definition passiveRefreshPermitted :: "native_timer_binding \<Rightarrow> native_timer_binding \<Rightarrow> bool" where
  "passiveRefreshPermitted current next' \<longleftrightarrow>
     \<not> (\<not> managedOwnership (nb_ownership current)
       \<or> nb_missingSince current \<noteq> 0
       \<or> nb_driftState current \<noteq> DriftNone
       \<or> os_recording (nb_observedState current) \<or> os_pending (nb_observedState current)
       \<or> nb_backendGeneration current > nb_backendGeneration next'
       \<or> (nb_observedFingerprint current \<noteq> nb_observedFingerprint next'
           \<and> \<not> nativeTimerObservedStateSameExceptEventId
               (nb_observedState current) (nb_observedState next'))
       \<or> nb_lastVerifiedOperationId current \<noteq> nb_lastVerifiedOperationId next'
       \<or> nb_missingSince current \<noteq> nb_missingSince next'
       \<or> nb_driftState current \<noteq> nb_driftState next'
       \<or> nb_lastObservedAt current \<ge> nb_lastObservedAt next')"

text \<open>The checks of an update, in the code's order: the result to report, if any.\<close>

definition updateBindingCheck ::
  "(binding_call \<Rightarrow> bool) \<Rightarrow> timer_tables \<Rightarrow> native_timer_binding \<Rightarrow> string \<Rightarrow> nat \<Rightarrow> bool
     \<Rightarrow> native_timer_binding_repository_result + native_timer_binding" where
  "updateBindingCheck failing t next' expectedRevision expected passiveFreshnessRefresh =
     (case nativeBindingSelectById (failing BindSelectId) (tt_bindings t)
             (nb_nativeTimerBindingId next') of
        SelectFailed \<Rightarrow> Inl (bindingStatusResult BindStorageError)
      | SelectNone \<Rightarrow> Inl (bindingStatusResult BindNotFound)
      | SelectFound current \<Rightarrow>
          if \<not> nativeTimerBindingRevisionMatches expectedRevision (nb_bindingRevision current)
          then Inl (bindingResult BindConflict current)
          else if nb_backendId next' \<noteq> nb_backendId current
            \<or> nb_backendNativeTimerId next' \<noteq> nb_backendNativeTimerId current
            \<or> nb_timerAssignmentId next' \<noteq> nb_timerAssignmentId current
            \<or> nb_ownership next' \<noteq> nb_ownership current
          then Inl (bindingResult BindImmutableConflict current)
          else if nb_backendGeneration next' < nb_backendGeneration current
          then Inl (bindingResult BindGenerationConflict current)
          else if nb_lastObservedAt next' < nb_lastObservedAt current
          then Inl (bindingResult BindObservationConflict current)
          else if passiveFreshnessRefresh \<and> \<not> passiveRefreshPermitted current next'
          then Inl (bindingResult BindConflict current)
          else if passiveFreshnessRefresh \<and> failing BindPending
          then Inl (bindingStatusResult BindStorageError)
          else if passiveFreshnessRefresh
            \<and> list_ex (mutationPending current) (ot_operations (tt_operations t))
          then Inl (bindingResult BindConflict current)
          else if expected = int64_max then Inl (bindingResult BindConflict current)
          else Inr current)"

definition updateBinding ::
  "(binding_call \<Rightarrow> bool) \<Rightarrow> timer_tables database \<Rightarrow> native_timer_binding \<Rightarrow> string \<Rightarrow> bool
     \<Rightarrow> native_timer_binding_repository_result \<times> timer_tables database" where
  "updateBinding failing db next' expectedRevision passiveFreshnessRefresh =
     (case (if safeTimerIdentity (nb_nativeTimerBindingId next')
              \<and> nb_bindingRevision next' = expectedRevision
              \<and> representableGeneration (nb_backendGeneration next')
              \<and> nativeTimerBindingValid next'
            then parseRevisionToken expectedRevision else None) of
        None \<Rightarrow> (bindingStatusResult BindInvalid, db)
      | Some expected \<Rightarrow>
          (let undo = executeRollback (failing BindRollback)
           in case executeBegin (failing BindBegin) db of
                (False, db0) \<Rightarrow> (bindingStatusResult BindStorageError, db0)
              | (True, db0) \<Rightarrow>
                  (let t = visibleTables db0
                   in case updateBindingCheck failing t next' expectedRevision expected
                             passiveFreshnessRefresh of
                        Inl result \<Rightarrow> (result, undo db0)
                      | Inr current \<Rightarrow>
                          (let durable = next'\<lparr>nb_bindingRevision := decimal (expected + 1)\<rparr>
                           in case (if nativeTimerBindingValid durable
                                    then nativeBindingUpdate (failing BindUpdate) (tt_bindings t)
                                           durable expected
                                    else None) of
                                None \<Rightarrow> (bindingStatusResult BindStorageError, undo db0)
                              | Some rows \<Rightarrow>
                                  (let t1 = t\<lparr>tt_bindings := rows\<rparr>
                                   in case (if passiveFreshnessRefresh
                                            then refreshBoundAssignmentGeneration failing t1
                                                   current (nb_backendGeneration durable)
                                                   (nb_lastObservedAt durable)
                                            else Some t1) of
                                        None \<Rightarrow>
                                          (bindingStatusResult BindConflict,
                                           undo (writeTables t1 db0))
                                      | Some t2 \<Rightarrow>
                                          (case executeCommit (failing BindCommit)
                                                  (writeTables t2 db0) of
                                             (False, db2) \<Rightarrow>
                                               (bindingStatusResult BindStorageError, undo db2)
                                           | (True, db2) \<Rightarrow>
                                               (bindingResult BindOk durable, db2)))))))"

section \<open>The verified change of the native identity\<close>

definition identityChangePermitted :: "native_timer_binding \<Rightarrow> native_timer_binding \<Rightarrow> bool" where
  "identityChangePermitted current next' \<longleftrightarrow>
     \<not> (nb_backendNativeTimerId next' = nb_backendNativeTimerId current
       \<or> nb_backendId next' \<noteq> nb_backendId current
       \<or> nb_timerAssignmentId next' \<noteq> nb_timerAssignmentId current
       \<or> nb_ownership next' \<noteq> nb_ownership current
       \<or> \<not> managedOwnership (nb_ownership current)
       \<or> nb_missingSince current \<noteq> 0
       \<or> nb_driftState current \<noteq> DriftNone
       \<or> nb_backendGeneration current \<noteq> nb_backendGeneration next'
       \<or> nb_lastObservedAt next' < nb_lastObservedAt current
       \<or> nb_observedFingerprint next' = nb_observedFingerprint current
       \<or> os_recording (nb_observedState current) \<or> os_pending (nb_observedState current)
       \<or> os_recording (nb_observedState next') \<or> os_pending (nb_observedState next')
       \<or> nb_missingSince next' \<noteq> 0
       \<or> nb_driftState next' \<noteq> DriftNone
       \<or> nb_lastVerifiedOperationId next' = nb_lastVerifiedOperationId current)"

definition identityChangeAuthorized ::
  "native_timer_binding \<Rightarrow> native_timer_binding \<Rightarrow> string \<Rightarrow> operation_row \<Rightarrow> bool" where
  "identityChangeAuthorized current next' expectedRevision operation \<longleftrightarrow>
     or_operation_id operation = cText (nb_lastVerifiedOperationId next')
     \<and> or_action_family operation = ''timer.update''
     \<and> or_resource_type operation = ''NativeTimerBinding''
     \<and> or_resource_id operation = cText (nb_nativeTimerBindingId current)
     \<and> or_backend_id operation = cText (nb_backendId current)
     \<and> or_backend_generation operation = sint (nb_backendGeneration current)
     \<and> or_expected_revision operation = cText expectedRevision
     \<and> or_expected_resource_fingerprint operation = cText (nb_observedFingerprint current)
     \<and> or_state operation \<in> set [''executed_unverified'', ''outcome_unknown'']"

text \<open>The UPDATE that renames; the unique native identity can refuse it.\<close>

definition renameNativeIdentity ::
  "bool \<Rightarrow> binding_row list \<Rightarrow> native_timer_binding \<Rightarrow> nat \<Rightarrow> string \<Rightarrow> binding_row list option" where
  "renameNativeIdentity failing rows current revision newNativeId =
     (let matches = (\<lambda>row. bindingSelected (cText (nb_nativeTimerBindingId current)) (int revision)
            row \<and> br_backend_native_timer_id row = cText (nb_backendNativeTimerId current));
          selected = filter matches rows
      in if failing \<or> length selected \<noteq> 1
           \<or> list_ex (\<lambda>row. list_ex (\<lambda>x. \<not> matches x \<and> br_backend_id x = br_backend_id row
                \<and> br_backend_native_timer_id x = newNativeId) rows) selected
         then None
         else Some (map (\<lambda>row. if matches row
           then row\<lparr>br_backend_native_timer_id := newNativeId\<rparr> else row) rows))"

definition updateVerifiedNativeIdentity ::
  "(binding_call \<Rightarrow> bool) \<Rightarrow> timer_tables database \<Rightarrow> native_timer_binding \<Rightarrow> string
     \<Rightarrow> native_timer_binding_repository_result \<times> timer_tables database" where
  "updateVerifiedNativeIdentity failing db next' expectedRevision =
     (case parseRevisionToken expectedRevision of
        None \<Rightarrow> (bindingStatusResult BindInvalid, db)
      | Some revision \<Rightarrow>
          if revision = int64_max
            \<or> nb_bindingRevision next' \<noteq> expectedRevision
            \<or> \<not> nativeTimerBindingValid next'
            \<or> \<not> safeTimerIdentity (nb_backendNativeTimerId next')
            \<or> nb_lastVerifiedOperationId next' = []
            \<or> \<not> representableGeneration (nb_backendGeneration next')
          then (bindingStatusResult BindInvalid, db)
          else (case executeBegin (failing BindBegin) db of
              (False, db0) \<Rightarrow> (bindingStatusResult BindStorageError, db0)
            | (True, db0) \<Rightarrow>
                (let t = visibleTables db0; undo = executeRollback (failing BindRollback)
                 in case nativeBindingSelectById (failing BindSelectId) (tt_bindings t)
                           (nb_nativeTimerBindingId next') of
                      SelectFailed \<Rightarrow> (bindingStatusResult BindStorageError, undo db0)
                    | SelectNone \<Rightarrow> (bindingStatusResult BindConflict, undo db0)
                    | SelectFound current \<Rightarrow>
                        if nb_bindingRevision current \<noteq> expectedRevision
                        then (bindingStatusResult BindConflict, undo db0)
                        else if \<not> identityChangePermitted current next'
                        then (bindingStatusResult BindImmutableConflict, undo db0)
                        else if failing BindGuardPrepare
                        then (bindingStatusResult BindStorageError, undo db0)
                        else if failing BindGuard
                          \<or> \<not> list_ex (identityChangeAuthorized current next' expectedRevision)
                               (ot_operations (tt_operations t))
                        then (bindingStatusResult BindConflict, undo db0)
                        else if failing BindRenamePrepare
                        then (bindingStatusResult BindStorageError, undo db0)
                        else (case renameNativeIdentity (failing BindRename) (tt_bindings t)
                                current revision (cText (nb_backendNativeTimerId next')) of
                            None \<Rightarrow> (bindingStatusResult BindNativeIdentityConflict, undo db0)
                          | Some rows \<Rightarrow>
                              (case nativeBindingUpdate (failing BindUpdate) rows
                                      (next'\<lparr>nb_bindingRevision := decimal (revision + 1)\<rparr>)
                                      revision of
                                 None \<Rightarrow>
                                   (bindingStatusResult BindStorageError,
                                    undo (putBindings rows db0))
                               | Some rows' \<Rightarrow>
                                   (case executeCommit (failing BindCommit)
                                           (putBindings rows' db0) of
                                      (False, db2) \<Rightarrow>
                                        (bindingStatusResult BindStorageError, undo db2)
                                    | (True, db2) \<Rightarrow>
                                        (bindingResult BindOk
                                          (next'\<lparr>nb_bindingRevision :=
                                             decimal (revision + 1)\<rparr>), db2)))))))"

end
