(* ===== verification/AssignmentStore.thy ===== *)
theory AssignmentStore
  imports AssignmentRows TimerAssignmentReassignment NativeTimerBindingRepository
begin

text \<open>
  The assignment store against its abstract journal. A journal step admits an assignment (closing
  the owner a controlled replacement names), revises one under its revision, moves a bound one to
  a newer backend generation, or leaves all assignments alone. Lemmas: every step keeps rows
  readable and their keys apart, turns rows only into later states of the same assignment, and is
  counted by the set revisions once the triggers are on; every call of the repositories is a run
  of such steps and of BEGIN, COMMIT and ROLLBACK.
\<close>

section \<open>Counting changes\<close>

lemma countUpdate_simps [simp]:
  "tt_assignments (countUpdate i t) = tt_assignments t"
  "tt_intents (countUpdate i t) = tt_intents t"
  "tt_setInsertTrigger (countUpdate i t) = tt_setInsertTrigger t"
  "tt_setUpdateTrigger (countUpdate i t) = tt_setUpdateTrigger t"
  "tt_replacementExpectation (countUpdate i t) = tt_replacementExpectation t"
  "tt_replacementBefore (countUpdate i t) = tt_replacementBefore t"
  "tt_replacementAfter (countUpdate i t) = tt_replacementAfter t"
  "tt_reassignments (countUpdate i t) = tt_reassignments t"
  "tt_bindings (countUpdate i t) = tt_bindings t"
  "tt_operations (countUpdate i t) = tt_operations t"
  by (simp_all add: countUpdate_def countedRevision_def)

lemma fold_countUpdate_simps [simp]:
  "tt_assignments (fold countUpdate is t) = tt_assignments t"
  "tt_intents (fold countUpdate is t) = tt_intents t"
  "tt_setInsertTrigger (fold countUpdate is t) = tt_setInsertTrigger t"
  "tt_setUpdateTrigger (fold countUpdate is t) = tt_setUpdateTrigger t"
  "tt_replacementExpectation (fold countUpdate is t) = tt_replacementExpectation t"
  "tt_replacementBefore (fold countUpdate is t) = tt_replacementBefore t"
  "tt_replacementAfter (fold countUpdate is t) = tt_replacementAfter t"
  "tt_reassignments (fold countUpdate is t) = tt_reassignments t"
  "tt_bindings (fold countUpdate is t) = tt_bindings t"
  "tt_operations (fold countUpdate is t) = tt_operations t"
  by (induction "is" arbitrary: t) simp_all

lemma countInsert_simps [simp]:
  "tt_assignments (countInsert i t) = tt_assignments t"
  "tt_intents (countInsert i t) = tt_intents t"
  "tt_setInsertTrigger (countInsert i t) = tt_setInsertTrigger t"
  "tt_setUpdateTrigger (countInsert i t) = tt_setUpdateTrigger t"
  "tt_replacementExpectation (countInsert i t) = tt_replacementExpectation t"
  "tt_reassignments (countInsert i t) = tt_reassignments t"
  "tt_bindings (countInsert i t) = tt_bindings t"
  "tt_operations (countInsert i t) = tt_operations t"
  by (simp_all add: countInsert_def countedRevision_def)

lemma setRevisionOf_counted [simp]:
  "setRevisionOf (countedRevision i t) j = setRevisionOf t j + (if j = i then 1 else 0)"
  by (auto simp: setRevisionOf_def countedRevision_def split: option.split)

lemma setRevisionOf_countInsert [simp]:
  "setRevisionOf (countInsert i t) j =
     setRevisionOf t j + (if tt_setInsertTrigger t \<and> j = i then 1 else 0)"
  by (simp add: countInsert_def)

lemma setRevisionOf_countUpdate:
  "setRevisionOf (countUpdate i t) j =
     setRevisionOf t j + (if tt_setUpdateTrigger t \<and> j = i then 1 else 0)"
  by (simp add: countUpdate_def)

lemma setRevisionOf_fold [simp]:
  "setRevisionOf (fold countUpdate is t) j =
     setRevisionOf t j + (if tt_setUpdateTrigger t then int (count_list is j) else 0)"
  by (induction "is" arbitrary: t) (auto simp: setRevisionOf_countUpdate)

lemma setRevisionOf_assignments [simp]:
  "setRevisionOf (t\<lparr>tt_assignments := rows\<rparr>) j = setRevisionOf t j"
  "setRevisionOf (t\<lparr>tt_reassignments := evidence\<rparr>) j = setRevisionOf t j"
  by (simp_all add: setRevisionOf_def)

definition triggersOn :: "timer_tables \<Rightarrow> bool" where
  "triggersOn t \<longleftrightarrow> tt_setInsertTrigger t \<and> tt_setUpdateTrigger t"

definition intentRows :: "string \<Rightarrow> assignment_row list \<Rightarrow> assignment_row list" where
  "intentRows i rows = filter (\<lambda>row. ar_timer_intent_id row = i) rows"

text \<open>Counts never fall, triggers stay, and with the triggers on a changed intent has a new
  count.\<close>

definition countsChanges :: "timer_tables \<Rightarrow> timer_tables \<Rightarrow> bool" where
  "countsChanges t t' \<longleftrightarrow>
     (tt_setInsertTrigger t \<longrightarrow> tt_setInsertTrigger t')
     \<and> (tt_setUpdateTrigger t \<longrightarrow> tt_setUpdateTrigger t')
     \<and> (\<forall>i. setRevisionOf t i \<le> setRevisionOf t' i
          \<and> (triggersOn t \<and> intentRows i (tt_assignments t') \<noteq> intentRows i (tt_assignments t)
             \<longrightarrow> setRevisionOf t i < setRevisionOf t' i))"

lemma countsChanges_refl [simp]: "countsChanges t t"
  by (simp add: countsChanges_def)

lemma countsChanges_trans:
  assumes "countsChanges t u" "countsChanges u v"
  shows "countsChanges t v"
proof -
  have "setRevisionOf t i < setRevisionOf v i"
    if "triggersOn t" "intentRows i (tt_assignments v) \<noteq> intentRows i (tt_assignments t)" for i
  proof (cases "intentRows i (tt_assignments u) = intentRows i (tt_assignments t)")
    case True
    moreover have "triggersOn u" using assms(1) that(1) by (simp add: countsChanges_def triggersOn_def)
    ultimately have "setRevisionOf u i < setRevisionOf v i"
      using assms(2) that(2) by (simp add: countsChanges_def)
    then show ?thesis using assms(1) unfolding countsChanges_def by (meson le_less_trans)
  next
    case False
    then have "setRevisionOf t i < setRevisionOf u i"
      using assms(1) that(1) by (simp add: countsChanges_def)
    then show ?thesis using assms(2) unfolding countsChanges_def by (meson less_le_trans)
  qed
  moreover have "setRevisionOf t i \<le> setRevisionOf v i" for i
    using assms unfolding countsChanges_def by (meson order_trans)
  ultimately show ?thesis using assms by (simp add: countsChanges_def)
qed

section \<open>Statements on the table\<close>

definition closedOwner :: "replacement_expectation_row \<Rightarrow> int \<Rightarrow> assignment_row \<Rightarrow> assignment_row" where
  "closedOwner e at row =
     (if ar_timer_assignment_id row = re_old_assignment_id e then closedRow at row else row)"

text \<open>What an insert does to the rows before: nothing, or it closes the expected owner.\<close>

definition insertEffect ::
  "timer_tables \<Rightarrow> assignment_row \<Rightarrow> (assignment_row \<Rightarrow> assignment_row) \<Rightarrow> bool" where
  "insertEffect t row g \<longleftrightarrow>
     g = (\<lambda>r. r)
     \<or> (\<exists>e. tt_replacementExpectation t = TempRow e
          \<and> re_replacement_assignment_id e = ar_timer_assignment_id row
          \<and> tt_replacementBefore t \<and> replacementAllowed t e row
          \<and> g = closedOwner e (ar_created_at row))"

lemma supersedeOldOwner_simps [simp]:
  "tt_assignments (supersedeOldOwner e at t) = map (closedOwner e at) (tt_assignments t)"
  "tt_setInsertTrigger (supersedeOldOwner e at t) = tt_setInsertTrigger t"
  "tt_setUpdateTrigger (supersedeOldOwner e at t) = tt_setUpdateTrigger t"
  "tt_replacementExpectation (supersedeOldOwner e at t) = tt_replacementExpectation t"
  "tt_replacementAfter (supersedeOldOwner e at t) = tt_replacementAfter t"
  "tt_reassignments (supersedeOldOwner e at t) = tt_reassignments t"
  "tt_intents (supersedeOldOwner e at t) = tt_intents t"
  "tt_bindings (supersedeOldOwner e at t) = tt_bindings t"
  "tt_operations (supersedeOldOwner e at t) = tt_operations t"
  by (simp_all add: supersedeOldOwner_def closedOwner_def)

lemma intentRows_append [simp]: "intentRows i (xs @ ys) = intentRows i xs @ intentRows i ys"
  by (simp add: intentRows_def)

lemma intentRows_map_unchanged:
  assumes "\<And>r. r \<in> set rows \<Longrightarrow> ar_timer_intent_id (g r) = ar_timer_intent_id r"
    and "\<And>r. r \<in> set rows \<Longrightarrow> ar_timer_intent_id r = i \<Longrightarrow> g r = r"
  shows "intentRows i (map g rows) = intentRows i rows"
  using assms by (induction rows) (auto simp: intentRows_def)

lemma changed_intent_listed:
  assumes "\<And>r. r \<in> set rows \<Longrightarrow> m r \<Longrightarrow> ar_timer_intent_id (w r) = ar_timer_intent_id r"
    and "intentRows i (map (\<lambda>r. if m r then w r else r) rows) \<noteq> intentRows i rows"
  shows "0 < count_list (map ar_timer_intent_id (filter m rows)) i"
proof -
  have keep: "ar_timer_intent_id (if m r then w r else r) = ar_timer_intent_id r"
    if "r \<in> set rows" for r
    using assms(1) that by simp
  obtain r where "r \<in> set rows" "ar_timer_intent_id r = i" "(if m r then w r else r) \<noteq> r"
    using intentRows_map_unchanged [of rows "\<lambda>r. if m r then w r else r" i, OF keep] assms(2)
    by blast
  then have "i \<in> set (map ar_timer_intent_id (filter m rows))" by (auto split: if_splits)
  then show ?thesis by (metis count_list_0_iff gr0I)
qed

lemma closedOwner_intent [simp]:
  "ar_timer_intent_id (closedOwner e at r) = ar_timer_intent_id r"
  "ar_timer_assignment_id (closedOwner e at r) = ar_timer_assignment_id r"
  "ar_assignment_epoch (closedOwner e at r) = ar_assignment_epoch r"
  by (simp_all add: closedOwner_def)

lemma supersedeOldOwner_counts: "countsChanges t (supersedeOldOwner e at t)"
proof -
  let ?is = "map ar_timer_intent_id
    (filter (\<lambda>row. ar_timer_assignment_id row = re_old_assignment_id e) (tt_assignments t))"
  have "0 < count_list ?is i"
    if "intentRows i (map (closedOwner e at) (tt_assignments t)) \<noteq> intentRows i (tt_assignments t)"
    for i
    by (rule changed_intent_listed [where w = "closedRow at"])
      (use that in \<open>simp_all add: closedOwner_def [abs_def]\<close>)
  moreover have "setRevisionOf (supersedeOldOwner e at t) i =
      setRevisionOf t i + (if tt_setUpdateTrigger t then int (count_list ?is i) else 0)" for i
    by (simp add: supersedeOldOwner_def)
  ultimately show ?thesis by (auto simp: countsChanges_def triggersOn_def)
qed

lemma beforeInsert_Some:
  assumes "beforeInsert t row = Some u"
  obtains g where "insertEffect t row g" "tt_assignments u = map g (tt_assignments t)"
    "countsChanges t u" "setExpectationAllows t row"
    "tt_reassignments u = tt_reassignments t" "tt_setInsertTrigger u = tt_setInsertTrigger t"
    "tt_replacementExpectation u = tt_replacementExpectation t"
proof -
  have allowed: "setExpectationAllows t row" using assms by (auto simp: beforeInsert_def split: if_splits)
  consider "u = t"
    | e where "tt_replacementExpectation t = TempRow e" "tt_replacementBefore t"
      "ar_timer_assignment_id row = re_replacement_assignment_id e" "replacementAllowed t e row"
      "u = supersedeOldOwner e (ar_created_at row) t"
    using assms by (auto simp: beforeInsert_def split: if_splits temp_table.splits)
  then show thesis
  proof cases
    case 1
    then show thesis using that [of "\<lambda>r. r"] allowed by (simp add: insertEffect_def)
  next
    case (2 e)
    show thesis
      by (rule that [of "closedOwner e (ar_created_at row)"])
        (use 2 allowed supersedeOldOwner_counts in \<open>auto simp: insertEffect_def\<close>)
  qed
qed

lemma afterInsert_Some:
  assumes "afterInsert u row = Some t'"
  shows "tt_assignments t' = tt_assignments u" and "tt_setInsertTrigger t' = tt_setInsertTrigger u"
    and "tt_setUpdateTrigger t' = tt_setUpdateTrigger u"
    and "setRevisionOf t' i = setRevisionOf u i
      + (if tt_setInsertTrigger u \<and> i = ar_timer_intent_id row then 1 else 0)"
  using assms by (auto simp: afterInsert_def Let_def split: if_splits temp_table.splits)

lemma insertAssignmentRow_Done:
  assumes "insertAssignmentRow f t row = WriteDone t'"
  obtains g where "insertEffect t row g" "tt_assignments t' = map g (tt_assignments t) @ [row]"
    "assignmentKeysFree (map g (tt_assignments t)) row" "countsChanges t t'"
    "setExpectationAllows t row"
proof -
  obtain u where u: "beforeInsert t row = Some u" "assignmentConstraints (tt_assignments u) row"
    "afterInsert (u\<lparr>tt_assignments := tt_assignments u @ [row]\<rparr>) row = Some t'"
    using assms by (auto simp: insertAssignmentRow_def split: if_splits option.splits)
  obtain g where g: "insertEffect t row g" "tt_assignments u = map g (tt_assignments t)"
    "countsChanges t u" "setExpectationAllows t row"
    by (rule beforeInsert_Some [OF u(1)])
  note after = afterInsert_Some [OF u(3)]
  have "countsChanges u t'"
    using after(1-3) after(4)
    by (auto simp: countsChanges_def triggersOn_def intentRows_def split: if_splits)
  then have "countsChanges t t'" by (rule countsChanges_trans [OF g(3)])
  moreover have "tt_assignments t' = map g (tt_assignments t) @ [row]"
    using after(1) g(2) by simp
  moreover have "assignmentKeysFree (map g (tt_assignments t)) row"
    using u(2) g(2) by (simp add: assignmentConstraints_def)
  ultimately show thesis using that g(1,4) by blast
qed

lemma updateAssignmentRows_Done:
  assumes "updateAssignmentRows f t m w = WriteDone (n, t')"
    and "\<forall>r \<in> set (filter m (tt_assignments t)). ar_timer_intent_id (w r) = ar_timer_intent_id r"
  shows "tt_assignments t' = map (\<lambda>r. if m r then w r else r) (tt_assignments t)"
    and "n = length (filter m (tt_assignments t))"
    and "\<forall>r \<in> set (filter m (tt_assignments t)).
      \<forall>x \<in> set (filter (\<lambda>x. \<not> m x) (tt_assignments t)). compatible x (w r)"
    and "countsChanges t t'"
proof -
  let ?is = "map ar_timer_intent_id (filter m (tt_assignments t))"
  let ?g = "\<lambda>r. if m r then w r else r"
  have ok: "list_all (\<lambda>r. assignmentConstraints (filter (\<lambda>x. \<not> m x) (tt_assignments t)) (w r))
      (filter m (tt_assignments t))"
    and t': "t' = fold countUpdate ?is (t\<lparr>tt_assignments := map ?g (tt_assignments t)\<rparr>)"
    and n: "n = length (filter m (tt_assignments t))"
  proof -
    have is_eq: "map (\<lambda>r. ar_timer_intent_id (w r)) (filter m (tt_assignments t)) = ?is"
      using assms(2) by (intro map_cong) auto
    show "list_all (\<lambda>r. assignmentConstraints (filter (\<lambda>x. \<not> m x) (tt_assignments t)) (w r))
        (filter m (tt_assignments t))"
      "t' = fold countUpdate ?is (t\<lparr>tt_assignments := map ?g (tt_assignments t)\<rparr>)"
      "n = length (filter m (tt_assignments t))"
      using assms(1)
      by (simp_all add: updateAssignmentRows_def Let_def is_eq split: if_splits)
  qed
  show rows: "tt_assignments t' = map ?g (tt_assignments t)" by (simp add: t')
  show "n = length (filter m (tt_assignments t))" by (rule n)
  show "\<forall>r \<in> set (filter m (tt_assignments t)).
      \<forall>x \<in> set (filter (\<lambda>x. \<not> m x) (tt_assignments t)). compatible x (w r)"
    using ok by (simp add: list_all_iff assignmentConstraints_def assignmentKeysFree_iff)
  have "0 < count_list ?is i"
    if "intentRows i (map ?g (tt_assignments t)) \<noteq> intentRows i (tt_assignments t)" for i
    by (rule changed_intent_listed [OF _ that]) (use assms(2) in simp)
  then show "countsChanges t t'"
    using rows by (auto simp: countsChanges_def triggersOn_def t')
qed


section \<open>The journal\<close>

text \<open>Statements succeed with \<open>False\<close>, their flag of failure.\<close>

inductive timerJournal :: "timer_tables \<Rightarrow> timer_tables \<Rightarrow> bool" where
  admitAssignment: "timerAssignmentValid d \<Longrightarrow> ta_assignmentRevision d = ''1'' \<Longrightarrow>
     nextAssignmentEpoch (\<lambda>_. False) (tt_assignments t) (ta_timerIntentId d)
       = Some (ta_assignmentEpoch d) \<Longrightarrow>
     bindAssignmentColumns d = Some row \<Longrightarrow>
     insertAssignmentRow False t row = WriteDone t' \<Longrightarrow> timerJournal t t'"
| reviseAssignment: "find (\<lambda>r. ar_timer_assignment_id r = ta_timerAssignmentId new)
       (tt_assignments t) = Some r \<Longrightarrow>
     readAssignment r = Some current \<Longrightarrow>
     parseRevisionToken (ta_assignmentRevision current) = Some v \<Longrightarrow>
     updateAssignmentPermitted current new \<Longrightarrow>
     d = new\<lparr>ta_assignmentRevision := nextRevisionText v\<rparr> \<Longrightarrow> timerAssignmentValid d \<Longrightarrow>
     bindAssignmentColumns d = Some row \<Longrightarrow>
     updateAssignmentRow False t (ta_timerAssignmentId new) (int v) row = WriteDone (n, t') \<Longrightarrow>
     timerJournal t t'"
| refreshAssignment:
    "refreshBoundAssignmentGeneration (\<lambda>_. False) t binding generation observedAt = Some t' \<Longrightarrow>
     timerJournal t t'"
| elsewhere: "tt_assignments t' = tt_assignments t \<Longrightarrow> countsChanges t t' \<Longrightarrow> timerJournal t t'"

definition rowBounded :: "assignment_row \<Rightarrow> bool" where
  "rowBounded r \<longleftrightarrow>
     ar_backend_generation r \<le> int int64_max \<and> ar_assignment_epoch r \<le> int int64_max
     \<and> (ar_assignment_revision r \<le> int int64_max \<or> ar_state r = ''superseded'')"

definition rowSound :: "assignment_row \<Rightarrow> bool" where
  "rowSound r \<longleftrightarrow> readAssignment r \<noteq> None \<and> rowBounded r"

definition rowsSound :: "assignment_row list \<Rightarrow> bool" where
  "rowsSound rows \<longleftrightarrow> keysSound rows \<and> (\<forall>r \<in> set rows. rowSound r)"

text \<open>Rows become later states of the same assignments; new rows follow, with new epochs.\<close>

definition assignmentsEvolve :: "assignment_row list \<Rightarrow> assignment_row list \<Rightarrow> bool" where
  "assignmentsEvolve rows rows' \<longleftrightarrow>
     (\<exists>g news. rows' = map g rows @ news \<and> (\<forall>r \<in> set rows. assignmentEvolves r (g r))
        \<and> (\<forall>r \<in> set rows. \<forall>n \<in> set news. ar_timer_intent_id n = ar_timer_intent_id r \<longrightarrow>
             ar_assignment_epoch r < ar_assignment_epoch n))"

lemma assignmentEvolves_keys:
  assumes "assignmentEvolves r r'" "rowSound r" "rowSound r'"
  shows "ar_timer_assignment_id r' = ar_timer_assignment_id r"
    and "ar_timer_intent_id r' = ar_timer_intent_id r"
    and "ar_assignment_epoch r' = ar_assignment_epoch r"
proof -
  obtain a a' where a: "readAssignment r = Some a" "readAssignment r' = Some a'"
    using assms(2,3) by (auto simp: rowSound_def)
  have round: "uint (of_int (ar_assignment_epoch x) :: 64 word) = ar_assignment_epoch x"
    if "rowSound x" "readAssignment x = Some b" for x b
    using that readAssignment_fields(7) [OF that(2)]
    by (simp add: rowSound_def rowBounded_def unsigned_of_int take_bit_int_eq_self)
  have "r' = r \<or> assignmentAdvances a a'" using assms(1) a by (auto simp: assignmentEvolves_def)
  then show "ar_timer_assignment_id r' = ar_timer_assignment_id r"
    "ar_timer_intent_id r' = ar_timer_intent_id r"
    "ar_assignment_epoch r' = ar_assignment_epoch r"
    using readAssignment_fields(3,4,16) [OF a(1)] readAssignment_fields(3,4,16) [OF a(2)]
      round [OF assms(2) a(1)] round [OF assms(3) a(2)]
    by (auto simp: assignmentAdvances_def)
qed

lemma assignmentsEvolve_refl [simp]: "assignmentsEvolve rows rows"
  unfolding assignmentsEvolve_def by (intro exI [of _ "\<lambda>r. r"] exI [of _ "[]"]) simp

lemma assignmentsEvolve_trans:
  assumes "assignmentsEvolve r s" "assignmentsEvolve s t" "rowsSound r" "rowsSound s" "rowsSound t"
  shows "assignmentsEvolve r t"
proof -
  obtain g n where g: "s = map g r @ n" "\<And>x. x \<in> set r \<Longrightarrow> assignmentEvolves x (g x)"
    "\<And>x y. x \<in> set r \<Longrightarrow> y \<in> set n \<Longrightarrow> ar_timer_intent_id y = ar_timer_intent_id x \<Longrightarrow>
      ar_assignment_epoch x < ar_assignment_epoch y"
    using assms(1) unfolding assignmentsEvolve_def by blast
  obtain h m where h: "t = map h s @ m" "\<And>x. x \<in> set s \<Longrightarrow> assignmentEvolves x (h x)"
    "\<And>x y. x \<in> set s \<Longrightarrow> y \<in> set m \<Longrightarrow> ar_timer_intent_id y = ar_timer_intent_id x \<Longrightarrow>
      ar_assignment_epoch x < ar_assignment_epoch y"
    using assms(2) unfolding assignmentsEvolve_def by blast
  have rs: "rowSound x" if "x \<in> set r" for x using assms(3) that by (simp add: rowsSound_def)
  have ss: "rowSound x" if "x \<in> set s" for x using assms(4) that by (simp add: rowsSound_def)
  have ts: "rowSound x" if "x \<in> set t" for x using assms(5) that by (simp add: rowsSound_def)
  have gs: "g x \<in> set s" if "x \<in> set r" for x using that by (simp add: g(1))
  have ht: "h x \<in> set t" if "x \<in> set s" for x using that by (simp add: h(1))
  have gk: "ar_timer_intent_id (g x) = ar_timer_intent_id x"
    "ar_assignment_epoch (g x) = ar_assignment_epoch x" if "x \<in> set r" for x
    using assignmentEvolves_keys [OF g(2) [OF that] rs [OF that] ss [OF gs [OF that]]] by simp_all
  have hk: "ar_timer_intent_id (h x) = ar_timer_intent_id x"
    "ar_assignment_epoch (h x) = ar_assignment_epoch x" if "x \<in> set s" for x
    using assignmentEvolves_keys [OF h(2) [OF that] ss [OF that] ts [OF ht [OF that]]] by simp_all
  have "t = map (h \<circ> g) r @ (map h n @ m)" by (simp add: g(1) h(1))
  moreover have "assignmentEvolves x ((h \<circ> g) x)" if "x \<in> set r" for x
    using assignmentEvolves_trans [OF g(2) [OF that] h(2) [OF gs [OF that]]] by simp
  moreover have "ar_assignment_epoch x < ar_assignment_epoch y"
    if x: "x \<in> set r" and y: "y \<in> set (map h n @ m)"
      and same: "ar_timer_intent_id y = ar_timer_intent_id x" for x y
  proof (cases "y \<in> set m")
    case True
    then show ?thesis using h(3) [OF gs [OF x] True] same gk [OF x] by simp
  next
    case False
    then obtain z where z: "z \<in> set n" "y = h z" using y by auto
    then have "z \<in> set s" by (simp add: g(1))
    then show ?thesis using g(3) [OF x z(1)] same hk z(2) by simp
  qed
  ultimately show ?thesis unfolding assignmentsEvolve_def by blast
qed

section \<open>A step of the journal\<close>

lemma insertEffect_cases:
  assumes "insertEffect t row g" "rowsSound (tt_assignments t)" "r \<in> set (tt_assignments t)"
  shows "assignmentEvolves r (g r) \<and> rowSound (g r)"
proof -
  have r: "rowSound r" and keys: "keysSound (tt_assignments t)"
    using assms(2,3) by (simp_all add: rowsSound_def)
  from assms(1) consider "g = (\<lambda>r. r)"
    | e where "replacementAllowed t e row" "g = closedOwner e (ar_created_at row)"
    unfolding insertEffect_def by blast
  then show ?thesis
  proof cases
    case 1
    then show ?thesis using r by simp
  next
    case (2 e)
    show ?thesis
    proof (cases "ar_timer_assignment_id r = re_old_assignment_id e")
      case False
      then show ?thesis using r by (simp add: 2 closedOwner_def)
    next
      case True
      obtain old where old: "old \<in> set (tt_assignments t)" "oldOwnerMatches e row old"
        using 2(1) by (auto simp: replacementAllowed_def list_ex_iff)
      then have "old = r"
        using distinct_key_unique [OF keysSound_distinct(1) [OF keys] old(1) assms(3)] True
        by (simp add: oldOwnerMatches_def)
      then have m: "ar_updated_at r < ar_created_at row"
        "ar_state r \<in> set [''selected'', ''provisioning'', ''bound'', ''reconciling'']"
        using old(2) by (simp_all add: oldOwnerMatches_def)
      obtain a where a: "readAssignment r = Some a" using r by (auto simp: rowSound_def)
      have b: "ar_assignment_revision r \<le> int int64_max" "ar_backend_generation r \<le> int int64_max"
        using r m(2) by (auto simp: rowSound_def rowBounded_def)
      note c = closedRow_evolves [OF a m(1) b(1) m(2) b(2)]
      have "rowBounded (closedRow (ar_created_at row) r)"
        using r by (simp add: rowBounded_def closedRow_def rowSound_def)
      then show ?thesis using c True by (simp add: 2 closedOwner_def rowSound_def)
    qed
  qed
qed

lemma insertEffect_keys:
  assumes "insertEffect t row g" "keysSound (tt_assignments t)"
  shows "keysSound (map g (tt_assignments t))"
proof -
  have "compatible (closedOwner e at x) (closedOwner e at y)" if "compatible x y" for e at x y
    unfolding closedOwner_def using that by (rule closedRow_compatible)
  then show ?thesis using assms by (auto simp: insertEffect_def intro: keysSound_map)
qed

lemma maxEpoch_ge:
  assumes "r \<in> set rows" "ar_timer_intent_id r = i"
  shows "ar_assignment_epoch r \<le> maxEpoch rows i"
proof -
  have fold_first: "x \<le> fold max es x" for x :: int and es
  proof (induction es arbitrary: x)
    case (Cons e es)
    show ?case using Cons [of "max e x"] by simp
  qed simp
  have fold_ge: "y \<in> set es \<Longrightarrow> y \<le> fold max es x" for x y :: int and es
  proof (induction es arbitrary: x)
    case (Cons e es)
    then show ?case using fold_first [of "max e x" es] by auto
  qed simp
  have "ar_assignment_epoch r \<in> set (map ar_assignment_epoch (filter (\<lambda>row. ar_timer_intent_id row = i) rows))"
    using assms by simp
  then show ?thesis unfolding maxEpoch_def
    by (cases "map ar_assignment_epoch (filter (\<lambda>row. ar_timer_intent_id row = i) rows)")
      (use fold_ge fold_first in auto)
qed

lemma maxEpoch_le:
  assumes "\<And>r. r \<in> set rows \<Longrightarrow> ar_assignment_epoch r \<le> b" "0 \<le> b"
  shows "maxEpoch rows i \<le> b"
proof -
  have fold_le: "x \<le> b \<Longrightarrow> (\<And>y. y \<in> set es \<Longrightarrow> y \<le> b) \<Longrightarrow> fold max es x \<le> b" for x :: int and es
    by (induction es arbitrary: x) auto
  show ?thesis
  proof (cases "map ar_assignment_epoch (filter (\<lambda>row. ar_timer_intent_id row = i) rows)")
    case Nil
    then show ?thesis using assms(2) by (simp add: maxEpoch_def)
  next
    case (Cons e es)
    have "y \<le> b" if "y \<in> set (e # es)" for y
      using that assms(1) unfolding Cons [symmetric] by auto
    then show ?thesis using fold_le [of e es] by (simp add: maxEpoch_def Cons)
  qed
qed

lemma nextAssignmentEpoch_Some:
  assumes "nextAssignmentEpoch f rows i = Some e" "\<forall>r \<in> set rows. rowSound r"
  shows "uint e = maxEpoch rows i + 1" and "0 \<le> maxEpoch rows i" and "maxEpoch rows i < int int64_max"
proof -
  have le: "maxEpoch rows i \<le> int int64_max"
    using assms(2) by (intro maxEpoch_le) (auto simp: rowSound_def rowBounded_def)
  have c: "0 \<le> maxEpoch rows i" "maxEpoch rows i \<noteq> int int64_max"
    "e = of_int (maxEpoch rows i) + 1"
    using assms(1) by (auto simp: nextAssignmentEpoch_def Let_def split: if_splits)
  then show "0 \<le> maxEpoch rows i" "maxEpoch rows i < int int64_max" using le by simp_all
  have "e = of_int (maxEpoch rows i + 1)" using c(3) by simp
  moreover have "uint (of_int (maxEpoch rows i + 1) :: 64 word) = maxEpoch rows i + 1"
    using c(1) le by (simp only: unsigned_of_int) (simp add: take_bit_int_eq_self)
  ultimately show "uint e = maxEpoch rows i + 1" by simp
qed


lemma parseRevisionToken_to_string:
  assumes "parseRevisionToken (to_string i) = Some v"
  shows "i = int v" and "0 < v" and "v \<le> int64_max"
proof -
  have "0 \<le> i"
    using assms by (cases "i < 0") (simp_all add: parseRevisionToken_def to_string_def)
  then obtain n where n: "i = int n" by (metis nonneg_int_cases)
  then have acc: "accumulateDigits int64_max 0 (decimal n) = Some v" "0 < v"
    using assms by (auto simp: to_string_of_nat parseRevisionToken_def split: if_splits option.splits)
  then show "i = int v" "0 < v" using n by (auto dest: accumulateDigits_decimal_inverse)
  show "v \<le> int64_max" by (rule accumulateDigits_le [OF acc(1)]) simp_all
qed

lemma parse_next_revision:
  assumes "v \<le> int64_max" "parseRevisionToken (nextRevisionText v) = Some n"
  shows "v < int64_max" and "n = v + 1" and "nextRevisionText v = decimal (v + 1)"
proof -
  show lt: "v < int64_max"
  proof (rule ccontr)
    assume "\<not> v < int64_max"
    then have v: "v = int64_max" using assms(1) by simp
    have "sint (of_nat v + 1 :: 64 word) < 0" by (simp add: v)
    then show False
      using assms(2) parseRevisionToken_to_string(1,2) [of "sint (of_nat v + 1 :: 64 word)" n]
      by (simp add: nextRevisionText_def)
  qed
  show next_text: "nextRevisionText v = decimal (v + 1)" by (rule nextRevisionText_small [OF lt])
  show "n = v + 1"
    using assms(2) parseRevisionToken_decimal [of "v + 1"] lt by (simp add: next_text)
qed

lemma read_undesired:
  "readAssignment r = Some a \<Longrightarrow> \<not> ta_desiredNativeTimerSpecificationPresent a \<Longrightarrow>
     ta_desiredNativeTimerSpecification a = emptyNativeTimerSpecification"
  by (auto simp: readAssignment_iff readDesired_def split: if_splits)

lemma equivalent_specifications:
  "timerAssignmentDesiredNativeTimerSpecificationEquivalent s t \<Longrightarrow> s = t"
  by (cases s; cases t) (auto simp: timerAssignmentDesiredNativeTimerSpecificationEquivalent_def)

lemma permitted_advances:
  assumes "readAssignment r = Some current" "updateAssignmentPermitted current new"
    "ta_timerAssignmentId new = ta_timerAssignmentId current"
  shows "assignmentAdvances current (storedAssignment (new\<lparr>ta_assignmentRevision := x\<rparr>))"
proof -
  have "reachesState (ta_state current) (ta_state new)"
  proof (cases "ta_state new = ta_state current")
    case False
    then show ?thesis unfolding reachesState_def using assms(2)
      by (intro exI [of _ "[ta_state new]"]) (simp add: updateAssignmentPermitted_def)
  qed simp
  moreover have "ta_desiredNativeTimerSpecificationPresent new
      = ta_desiredNativeTimerSpecificationPresent current"
    using assms(2)
    by (auto simp: updateAssignmentPermitted_def desiredNativeTimerSpecificationImmutable_def
        split: if_splits)
  moreover have "ta_desiredNativeTimerSpecification
      (storedAssignment (new\<lparr>ta_assignmentRevision := x\<rparr>)) = ta_desiredNativeTimerSpecification current"
    using assms(2) read_undesired [OF assms(1)]
    by (auto simp: updateAssignmentPermitted_def desiredNativeTimerSpecificationImmutable_def
        storedAssignment_def dest: equivalent_specifications split: if_splits)
  ultimately show ?thesis
    using assms(2,3) by (auto simp: assignmentAdvances_def updateAssignmentPermitted_def)
qed


lemma bound_rowSound:
  assumes "bindAssignmentColumns d = Some row" "timerAssignmentValid d"
    "ta_assignmentRevision d = decimal n"
  shows "rowSound row" and "readAssignment row = Some (storedAssignment d)"
proof -
  show read: "readAssignment row = Some (storedAssignment d)"
    using assms by (rule readAssignment_bound)
  have le: "uint w \<le> int int64_max" if "unat w \<le> int64_max" for w :: uint64
    using that by (simp only: uint_nat)
  obtain m where m: "parseRevisionToken (ta_assignmentRevision d) = Some m"
      "unat (ta_assignmentEpoch d) \<le> int64_max" "unat (ta_backendGeneration d) \<le> int64_max"
      "ar_assignment_revision row = int m"
      "ar_assignment_epoch row = uint (ta_assignmentEpoch d)"
      "ar_backend_generation row = uint (ta_backendGeneration d)"
    by (rule bindAssignmentColumns_Some [OF assms(1)])
  have "parseRevisionToken (to_string (int n)) = Some m"
    using m(1) assms(3) by (simp only: to_string_of_nat)
  from parseRevisionToken_to_string(3) [OF this] have "rowBounded row"
    using le [OF m(2)] le [OF m(3)] unfolding rowBounded_def m(4-6) by simp
  then show "rowSound row" using read by (simp add: rowSound_def)
qed

lemma revise_step:
  assumes found: "find (\<lambda>r. ar_timer_assignment_id r = ta_timerAssignmentId new)
      (tt_assignments t) = Some r" and read: "readAssignment r = Some current"
    and parse: "parseRevisionToken (ta_assignmentRevision current) = Some v"
    and permitted: "updateAssignmentPermitted current new"
    and d: "d = new\<lparr>ta_assignmentRevision := nextRevisionText v\<rparr>" and valid: "timerAssignmentValid d"
    and row: "bindAssignmentColumns d = Some row"
    and upd1: "updateAssignmentRow False t (ta_timerAssignmentId new) (int v) row
      = WriteDone (n, t')"
    and sound: "rowsSound (tt_assignments t)"
  shows "tt_assignments t' = map (\<lambda>x. if x = r then row else x) (tt_assignments t)"
    and "v < int64_max" and "ta_assignmentRevision d = decimal (v + 1)"
    and "ar_assignment_revision r = int v" and "n = 1"
    and "assignmentEvolves r row" and "rowSound row" and "countsChanges t t'"
    and "keysSound (tt_assignments t')" and "readAssignment row = Some (storedAssignment d)"
proof -
  define m where "m = assignmentSelected (ta_timerAssignmentId new) (int v)"
  define w where "w = (\<lambda>x :: assignment_row. row\<lparr>ar_timer_assignment_id := ar_timer_assignment_id x\<rparr>)"
  have keys: "keysSound (tt_assignments t)" using sound by (simp add: rowsSound_def)
  note f = readAssignment_fields [OF read]
  note p = parseRevisionToken_to_string [OF parse [unfolded f(5)]]
  have r: "r \<in> set (tt_assignments t)" "ar_timer_assignment_id r = ta_timerAssignmentId new"
    using find_Some_in [OF found] by simp_all
  show rev: "ar_assignment_revision r = int v" by (rule p(1))
  obtain k where k: "parseRevisionToken (ta_assignmentRevision d) = Some k"
      "ar_timer_assignment_id row = ta_timerAssignmentId d"
      "ar_timer_intent_id row = ta_timerIntentId d" "ar_assignment_revision row = int k"
    by (rule bindAssignmentColumns_Some [OF row])
  have k': "parseRevisionToken (nextRevisionText v) = Some k" using k(1) by (simp add: d)
  note nx = parse_next_revision [OF p(3) k']
  show "v < int64_max" by (rule nx(1))
  show rd: "ta_assignmentRevision d = decimal (v + 1)" by (simp add: d nx(3))
  note rs = bound_rowSound [OF row valid rd]
  show "rowSound row" "readAssignment row = Some (storedAssignment d)" by (rule rs)+
  have id: "ta_timerAssignmentId new = ta_timerAssignmentId current" using f(3) r(2) by simp
  have intent: "ta_timerIntentId new = ta_timerIntentId current"
    using permitted by (simp add: updateAssignmentPermitted_def)
  have m_iff: "m x \<longleftrightarrow> x = r" if "x \<in> set (tt_assignments t)" for x
  proof
    assume "m x"
    then have "ar_timer_assignment_id x = ar_timer_assignment_id r"
      by (simp add: m_def assignmentSelected_def r(2))
    then show "x = r"
      using distinct_key_unique [OF keysSound_distinct(1) [OF keys] that r(1)] by simp
  qed (simp add: m_def assignmentSelected_def r(2) rev)
  have wr: "w r = row" using k(2) r(2) by (cases row) (simp add: w_def d)
  have write': "updateAssignmentRows False t m w = WriteDone (n, t')"
    using upd1 by (simp add: updateAssignmentRow_def m_def w_def)
  have wi: "\<forall>x \<in> set (filter m (tt_assignments t)). ar_timer_intent_id (w x) = ar_timer_intent_id x"
    using m_iff wr k(3) f(4) intent by (auto simp: d)
  note upd = updateAssignmentRows_Done [OF write' wi]
  have len: "length (filter m (tt_assignments t)) = 1"
  proof -
    have "filter m (tt_assignments t) = filter (\<lambda>x. x = r) (tt_assignments t)"
      using m_iff by (rule filter_cong [OF refl])
    also have "\<dots> = [r]"
      using keysSound_distinct(1) [OF keys] r(1)
      by (intro filter_single) (simp_all add: distinct_map)
    finally show ?thesis by simp
  qed
  then show "n = 1" using upd(2) by simp
  show "countsChanges t t'" by (rule upd(4))
  show rows: "tt_assignments t' = map (\<lambda>x. if x = r then row else x) (tt_assignments t)"
    unfolding upd(1) by (rule map_cong [OF refl]) (simp add: m_iff wr)
  show "keysSound (tt_assignments t')"
    unfolding upd(1) by (rule keysSound_update [OF keys len upd(3)])
  have "assignmentAdvances current (storedAssignment d)"
    unfolding d by (rule permitted_advances [OF read permitted id])
  moreover have "ar_assignment_revision r < ar_assignment_revision row"
    using rev k(4) nx(2) by simp
  ultimately show "assignmentEvolves r row"
    using read rs(2) unfolding assignmentEvolves_def by blast
qed

lemma refreshed_evolves:
  assumes "rowSound r" "ar_state r = ''bound''" "0 < ar_backend_generation r"
    "ar_backend_generation r \<le> sint generation" "ar_assignment_revision r \<noteq> int int64_max"
  shows "assignmentEvolves r (refreshedRow (sint (generation :: uint64)) observedAt r)"
    and "rowSound (refreshedRow (sint generation) observedAt r)"
proof -
  obtain a where a: "readAssignment r = Some a" using assms(1) by (auto simp: rowSound_def)
  note f = readAssignment_fields [OF a]
  have s: "ta_state a = AsgBound" using assms(2) f(11) by (cases "ta_state a") simp_all
  have shape: "assignedShapeValid a" using f(1) s by (intro valid_assigned_shape) auto
  have g: "0 < sint generation" "sint generation \<le> int int64_max"
    using assms(3,4) sint_lt [of generation] by simp_all
  have rev: "ar_assignment_revision r < int int64_max"
    using assms(1,2,5) by (auto simp: rowSound_def rowBounded_def)
  define u where "u = max (ar_updated_at r + 1) observedAt"
  have row: "refreshedRow (sint generation) observedAt r =
      changedRow (ar_assignment_revision r + 1) AsgBound (sint generation) u r"
    using assms(2) by (simp add: refreshedRow_def changedRow_def u_def)
  have t: "\<not> timerAssignmentTerminal (ta_state a)" by (simp add: s timerAssignmentTerminal_def)
  have b: "ar_assignment_revision r \<le> int int64_max" "ar_updated_at r < u"
    using rev by (simp_all add: u_def)
  have ch: "readAssignment (changedRow (ar_assignment_revision r + 1) AsgBound (sint generation) u r)
      = Some (changedAssignment (ar_assignment_revision r + 1) AsgBound (sint generation) u a)"
    "assignmentEvolves r (changedRow (ar_assignment_revision r + 1) AsgBound (sint generation) u r)"
    by (rule changed_evolves [OF a shape _ _ g b t]; simp add: s)+
  show "assignmentEvolves r (refreshedRow (sint generation) observedAt r)"
    using ch(2) by (simp only: row)
  have "rowBounded (refreshedRow (sint generation) observedAt r)"
    using assms(1) g(2) rev by (simp add: rowBounded_def refreshedRow_def rowSound_def)
  then show "rowSound (refreshedRow (sint generation) observedAt r)"
    using ch(1) by (simp add: rowSound_def row)
qed


section \<open>Every step of the journal\<close>

lemma rowsSound_map:
  assumes "rowsSound rows" "keysSound (map g rows)" "\<forall>r \<in> set rows. rowSound (g r)"
  shows "rowsSound (map g rows)"
  using assms by (simp add: rowsSound_def)

lemma assignmentsEvolve_map:
  "\<forall>r \<in> set rows. assignmentEvolves r (g r) \<Longrightarrow> assignmentsEvolve rows (map g rows)"
  unfolding assignmentsEvolve_def by (intro exI [of _ g] exI [of _ "[]"]) simp

lemma admit_step:
  assumes valid: "timerAssignmentValid d" and rev: "ta_assignmentRevision d = ''1''"
    and epoch: "nextAssignmentEpoch (\<lambda>_. False) (tt_assignments t) (ta_timerIntentId d)
       = Some (ta_assignmentEpoch d)"
    and row: "bindAssignmentColumns d = Some row"
    and ins: "insertAssignmentRow False t row = WriteDone t'"
    and sound: "rowsSound (tt_assignments t)"
  shows "rowsSound (tt_assignments t')" and "assignmentsEvolve (tt_assignments t) (tt_assignments t')"
    and "countsChanges t t'" and "readAssignment row = Some (storedAssignment d)"
    and "row \<in> set (tt_assignments t')"
proof -
  obtain g where g: "insertEffect t row g" "tt_assignments t' = map g (tt_assignments t) @ [row]"
    "assignmentKeysFree (map g (tt_assignments t)) row" "countsChanges t t'"
    by (rule insertAssignmentRow_Done [OF ins])
  show "countsChanges t t'" by (rule g(4))
  have "ta_assignmentRevision d = decimal 1" by (simp add: rev)
  note rs = bound_rowSound [OF row valid this]
  show "readAssignment row = Some (storedAssignment d)" by (rule rs(2))
  show "row \<in> set (tt_assignments t')" by (simp add: g(2))
  note ie = insertEffect_cases [OF g(1) sound]
  have "keysSound (map g (tt_assignments t))"
    using g(1) sound by (intro insertEffect_keys) (simp_all add: rowsSound_def)
  then have "keysSound (tt_assignments t')"
    unfolding g(2) by (rule keysSound_append [OF _ g(3)])
  then show "rowsSound (tt_assignments t')"
    using ie rs(1) by (auto simp: rowsSound_def g(2))
  have "uint (ta_assignmentEpoch d) = maxEpoch (tt_assignments t) (ta_timerIntentId d) + 1"
    using sound by (intro nextAssignmentEpoch_Some(1) [OF epoch]) (simp add: rowsSound_def)
  moreover have "ar_assignment_epoch row = uint (ta_assignmentEpoch d)"
    "ar_timer_intent_id row = ta_timerIntentId d"
    using row by (auto elim: bindAssignmentColumns_Some)
  ultimately have "ar_assignment_epoch r < ar_assignment_epoch row"
    if "r \<in> set (tt_assignments t)" "ar_timer_intent_id row = ar_timer_intent_id r" for r
    using maxEpoch_ge [OF that(1), of "ta_timerIntentId d"] that(2) by simp
  then show "assignmentsEvolve (tt_assignments t) (tt_assignments t')"
    unfolding assignmentsEvolve_def g(2) using ie
    by (intro exI [of _ g] exI [of _ "[row]"]) simp
qed

lemma refresh_step:
  assumes refresh: "refreshBoundAssignmentGeneration (\<lambda>_. False) t binding generation observedAt
      = Some t'"
    and sound: "rowsSound (tt_assignments t)"
  shows "rowsSound (tt_assignments t')" and "assignmentsEvolve (tt_assignments t) (tt_assignments t')"
    and "countsChanges t t'"
proof -
  obtain row where row: "find (refreshable t binding) (tt_assignments t) = Some row"
    and le: "0 < ar_backend_generation row" "ar_backend_generation row \<le> sint generation"
      "ar_assignment_revision row \<noteq> int int64_max"
    using refresh by (auto simp: refreshBoundAssignmentGeneration_def Let_def not_le
        split: if_splits option.splits)
  define m where "m = refreshTarget binding (ar_backend_generation row) (ar_assignment_revision row)"
  define w where "w = refreshedRow (sint generation) observedAt"
  have "t' = t \<or> updateAssignmentRows False t m w = WriteDone (1, t')"
    using refresh unfolding m_def w_def
    by (auto simp: refreshBoundAssignmentGeneration_def Let_def row
        split: if_splits write_outcome.splits)
  then consider "t' = t" | "updateAssignmentRows False t m w = WriteDone (1, t')" by blast
  then have "rowsSound (tt_assignments t')
      \<and> assignmentsEvolve (tt_assignments t) (tt_assignments t') \<and> countsChanges t t'"
  proof cases
    case 1
    then show ?thesis using sound by simp
  next
    case 2
    have "\<forall>r \<in> set (filter m (tt_assignments t)). ar_timer_intent_id (w r) = ar_timer_intent_id r"
      by (simp add: w_def refreshedRow_def)
    note upd = updateAssignmentRows_Done [OF 2 this]
    have ev: "assignmentEvolves r (w r) \<and> rowSound (w r)" if "m r" "r \<in> set (tt_assignments t)" for r
    proof -
      have "rowSound r" using sound that(2) by (simp add: rowsSound_def)
      then show ?thesis
        using that(1) le refreshed_evolves [of r generation observedAt]
        by (auto simp: m_def refreshTarget_def w_def)
    qed
    have "keysSound (tt_assignments t')"
      unfolding upd(1) using sound upd(2,3) by (intro keysSound_update) (simp_all add: rowsSound_def)
    then have "rowsSound (tt_assignments t')"
      using ev sound unfolding upd(1) by (intro rowsSound_map) (auto simp: rowsSound_def)
    moreover have "assignmentsEvolve (tt_assignments t) (tt_assignments t')"
      unfolding upd(1) using ev by (intro assignmentsEvolve_map) simp
    ultimately show ?thesis using upd(4) by simp
  qed
  then show "rowsSound (tt_assignments t')" "assignmentsEvolve (tt_assignments t) (tt_assignments t')"
    "countsChanges t t'" by simp_all
qed

lemma timerJournal_step:
  assumes "timerJournal t t'" "rowsSound (tt_assignments t)"
  shows "rowsSound (tt_assignments t')
    \<and> assignmentsEvolve (tt_assignments t) (tt_assignments t') \<and> countsChanges t t'"
  using assms(1)
proof cases
  case (admitAssignment d row)
  then show ?thesis using admit_step [OF admitAssignment assms(2)] by simp
next
  case (reviseAssignment new r current v d row n)
  note rs = revise_step [OF reviseAssignment assms(2)]
  have "rowsSound (tt_assignments t')"
    using rs(7,9) assms(2) unfolding rs(1) by (intro rowsSound_map) (auto simp: rowsSound_def)
  moreover have "assignmentsEvolve (tt_assignments t) (tt_assignments t')"
    unfolding rs(1) using rs(6) by (intro assignmentsEvolve_map) simp
  ultimately show ?thesis using rs(8) by simp
next
  case (refreshAssignment binding generation observedAt)
  then show ?thesis using refresh_step [OF refreshAssignment assms(2)] by simp
next
  case elsewhere
  then show ?thesis using assms(2) by simp
qed

lemma timerJournal_steps:
  assumes "timerJournal\<^sup>*\<^sup>* t t'" "rowsSound (tt_assignments t)"
  shows "rowsSound (tt_assignments t')
    \<and> assignmentsEvolve (tt_assignments t) (tt_assignments t') \<and> countsChanges t t'"
  using assms
proof (induction rule: rtranclp_induct)
  case base
  then show ?case by simp
next
  case (step y z)
  then show ?case
    using timerJournal_step [OF step.hyps(2)] assignmentsEvolve_trans countsChanges_trans
    by (metis assms(2))
qed

end
