(* ===== verification/AssignmentRuns.thy ===== *)
theory AssignmentRuns
  imports AssignmentStore JournaledStore RevisionFence
begin

text \<open>
  Every call on the timer tables as a run of elementary steps: BEGIN, COMMIT, ROLLBACK, and one
  statement that follows the journal. So the committed tables follow the journal whatever the
  calls do, fail at, or leave open.
\<close>

section \<open>Runs\<close>

abbreviation timerRun :: "timer_tables database \<Rightarrow> timer_tables database \<Rightarrow> bool" where
  "timerRun \<equiv> storeRun timerJournal"

interpretation timer_store: journaled_store timerJournal "storeStep timerJournal"
  by unfold_locales (rule storeStep_follows)

lemmas run_begin = store_begin [of timerJournal]
lemmas run_commit = store_commit [of timerJournal]
lemmas run_rollback = store_rollback [of timerJournal]
lemmas run_write = store_write [where journal = timerJournal]
lemmas run_write_commit = store_write_commit [where journal = timerJournal]
lemmas run_commit_or_undo = store_commit_or_undo [where journal = timerJournal]

section \<open>Creation\<close>

lemma createAssignmentCheck_Inr:
  assumes "createAssignmentCheck failing t a = Inr d"
  shows "d = a\<lparr>ta_assignmentRevision := ''1'', ta_updatedAt := ta_createdAt a,
      ta_assignmentEpoch := ta_assignmentEpoch d\<rparr>"
    and "timerAssignmentValid d"
    and "nextAssignmentEpoch (\<lambda>_. False) (tt_assignments t) (ta_timerIntentId a)
      = Some (ta_assignmentEpoch d)"
    and "ownershipAdmission failing t d = AsgRepoOk"
    and "validateIntentRevision failing t a = AsgRepoOk"
    and "\<forall>r \<in> set (tt_assignments t). ar_timer_assignment_id r \<noteq> ta_timerAssignmentId a"
  using assms
  by (auto simp: createAssignmentCheck_def Let_def selectAssignmentById_def selectFirst_None
      nextAssignmentEpoch_def split: select_result.splits option.splits if_splits)

lemma insertAssignmentRow_flag:
  "insertAssignmentRow f t row = WriteDone t' \<Longrightarrow> insertAssignmentRow False t row = WriteDone t'"
  by (auto simp: insertAssignmentRow_def split: if_splits)

lemma admitted:
  assumes "createAssignmentCheck failing t a = Inr d" "bindAssignmentColumns d = Some row"
    "insertAssignmentRow f t row = WriteDone t'"
  shows "timerJournal t t'"
proof (rule admitAssignment [of d])
  note c = createAssignmentCheck_Inr [OF assms(1)]
  have "ta_timerIntentId d = ta_timerIntentId a" "ta_assignmentRevision d = ''1''"
    by (subst c(1); simp)+
  then show "ta_assignmentRevision d = ''1''"
    "nextAssignmentEpoch (\<lambda>_. False) (tt_assignments t) (ta_timerIntentId d)
      = Some (ta_assignmentEpoch d)"
    using c(3) by simp_all
  show "timerAssignmentValid d" by (rule c(2))
  show "bindAssignmentColumns d = Some row" by (rule assms(2))
  show "insertAssignmentRow False t row = WriteDone t'"
    by (rule insertAssignmentRow_flag [OF assms(3)])
qed

lemma createAssignmentWrite_run:
  assumes "transactionActive db" "createAssignmentCheck failing (visibleTables db) a = Inr d"
  shows "timerRun db (snd (createAssignmentWrite failing db d cur))"
proof (cases "bindAssignmentColumns d")
  case None
  then show ?thesis using run_rollback by (simp add: createAssignmentWrite_def)
next
  case (Some row)
  show ?thesis
  proof (cases "insertAssignmentRow (failing AsgInsert) (visibleTables db) row")
    case (WriteDone t)
    note w = run_write_commit [OF assms(1) admitted [OF assms(2) Some WriteDone]]
    obtain ok db2 where c: "executeCommit (failing AsgCommit) (writeTables t db) = (ok, db2)"
      by fastforce
    then have "timerRun db db2" "timerRun db (executeRollback (failing AsgRollback) db2)"
      using w(2) [of "failing AsgCommit"] w(3) [of "failing AsgRollback" "failing AsgCommit"]
      by (simp_all del: executeCommit_writeTables)
    then show ?thesis
      using w(1) c by (cases ok) (simp_all add: createAssignmentWrite_def Some WriteDone Let_def
          del: executeCommit_writeTables)
  qed (use run_rollback in \<open>simp_all add: createAssignmentWrite_def Some\<close>)
qed

lemma createAssignmentImpl_run: "timerRun db (snd (createAssignmentImpl failing db a cur))"
proof -
  obtain ok db0 where start: "(if cur then (True, db) else executeBegin (failing AsgBegin) db)
      = (ok, db0)"
    by fastforce
  have run0: "timerRun db db0"
    using start run_begin [of db "failing AsgBegin"] by (auto split: if_splits)
  have active: "transactionActive db0" if "cur = transactionActive db" ok
    using start that by (auto simp: executeBegin_True split: if_splits)
  have undo: "timerRun db (executeRollback f db0)" for f
    using run0 run_rollback by (rule rtranclp_trans)
  have create: "timerRun db (snd (createAssignmentWrite failing db0 d cur'))"
    if "createAssignmentCheck failing (visibleTables db0) a = Inr d" "cur = transactionActive db" ok
    for d cur'
    using run0 createAssignmentWrite_run [OF active [OF that(2,3)] that(1)] by (rule rtranclp_trans)
  show ?thesis
    unfolding createAssignmentImpl_def start
    using run0 undo create by (simp split: bool.split sum.split)
qed

section \<open>Update\<close>

lemma updateAssignmentRow_flag:
  "updateAssignmentRow f t i v row = WriteDone r \<Longrightarrow> updateAssignmentRow False t i v row = WriteDone r"
  by (auto simp: updateAssignmentRow_def updateAssignmentRows_def Let_def split: if_splits)

lemma updateAssignmentCheck_Inr:
  assumes "updateAssignmentCheck failing t new tok = Inr (v, d)"
  obtains r current where
    "find (\<lambda>r. ar_timer_assignment_id r = ta_timerAssignmentId new) (tt_assignments t) = Some r"
    "readAssignment r = Some current" "ta_assignmentRevision current = tok"
    "parseRevisionToken tok = Some v" "updateAssignmentPermitted current new"
    "d = new\<lparr>ta_assignmentRevision := nextRevisionText v\<rparr>" "timerAssignmentValid d"
    "ta_assignmentRevision new = tok" "validateIntentRevision failing t new = AsgRepoOk"
  using assms
  by (auto simp: updateAssignmentCheck_def Let_def selectAssignmentById_def selectFirst_Found
      timerAssignmentRevisionMatches_def revisionMatches_def
      split: select_result.splits option.splits if_splits)

lemma revised:
  assumes "updateAssignmentCheck failing t new tok = Inr (v, d)"
    "bindAssignmentColumns d = Some row"
    "updateAssignmentRow f t (ta_timerAssignmentId d) (int v) row = WriteDone (n, t')"
  shows "timerJournal t t'"
proof -
  obtain r current where c:
    "find (\<lambda>r. ar_timer_assignment_id r = ta_timerAssignmentId new) (tt_assignments t) = Some r"
    "readAssignment r = Some current" "ta_assignmentRevision current = tok"
    "parseRevisionToken tok = Some v" "updateAssignmentPermitted current new"
    "d = new\<lparr>ta_assignmentRevision := nextRevisionText v\<rparr>" "timerAssignmentValid d"
    by (rule updateAssignmentCheck_Inr [OF assms(1)])
  have "updateAssignmentRow False t (ta_timerAssignmentId new) (int v) row = WriteDone (n, t')"
    using updateAssignmentRow_flag [OF assms(3)] by (simp add: c(6))
  then show ?thesis
    using c(3,4) by (intro reviseAssignment [OF c(1,2) _ c(5,6,7) assms(2)]) simp_all
qed

lemma updateInCurrentTransactionInternal_cases:
  "snd (updateInCurrentTransactionInternal failing db new tok) = db
     \<and> ra_status (fst (updateInCurrentTransactionInternal failing db new tok)) \<noteq> AsgRepoOk
   \<or> transactionActive db \<and> (\<exists>t. timerJournal (visibleTables db) t
        \<and> snd (updateInCurrentTransactionInternal failing db new tok) = writeTables t db)"
proof -
  have "\<exists>t. timerJournal (visibleTables db) t \<and> d' = writeTables t db"
    if "updateAssignmentCheck failing (visibleTables db) new tok = Inr (v, d)"
      "bindAssignmentColumns d = Some row"
      "updateAssignmentRow f (visibleTables db) (ta_timerAssignmentId d) (int v) row
        = WriteDone (n, t')" "d' = writeTables t' db" for v d row f n t' d'
    using revised [OF that(1-3)] that(4) by blast
  moreover have "ra_status r \<noteq> AsgRepoOk"
    if "updateAssignmentCheck failing (visibleTables db) new tok = Inl r" for r
    using that
    by (auto simp: updateAssignmentCheck_def Let_def split: select_result.splits option.splits
        if_splits)
  ultimately show ?thesis
    unfolding updateInCurrentTransactionInternal_def
    by (auto split: sum.splits prod.splits option.splits write_outcome.splits)
qed

lemma updateInCurrentTransactionInternal_run:
  "timerRun db (snd (updateInCurrentTransactionInternal failing db new tok))"
  using updateInCurrentTransactionInternal_cases [of failing db new tok] run_write_commit(1)
  by auto

lemma updateAssignment_run: "timerRun db (snd (updateAssignment failing db new tok))"
proof (cases "executeBegin (failing AsgBegin) db")
  case (Pair ok db0)
  obtain res db1 where u: "updateInCurrentTransactionInternal failing db0 new tok = (res, db1)"
    by fastforce
  obtain ok' db2 where c: "executeCommit (failing AsgCommit) db1 = (ok', db2)" by fastforce
  have 0: "timerRun db db0" using run_begin [of db "failing AsgBegin"] Pair by simp
  have 1: "timerRun db db1"
    using 0 updateInCurrentTransactionInternal_run [of db0 failing new tok] u
    by (auto intro: rtranclp_trans)
  have 2: "timerRun db db2" using 1 run_commit [of db1 "failing AsgCommit"] c
    by (auto intro: rtranclp_trans)
  have "timerRun db (executeRollback f db1)" "timerRun db (executeRollback f db2)" for f
    using 1 2 run_rollback by (auto intro: rtranclp_trans)
  then show ?thesis using 0 1 2
    by (simp add: updateAssignment_def Pair u c split: bool.split)
qed


section \<open>Sound databases\<close>

definition timerDbSound :: "timer_tables database \<Rightarrow> bool" where
  "timerDbSound db \<longleftrightarrow>
     rowsSound (tt_assignments (db_committed db)) \<and> transactionFollowsBy timerJournal db"

lemma timerDbSound_visible:
  assumes "timerDbSound db"
  shows "rowsSound (tt_assignments (visibleTables db))"
  using assms timerJournal_steps transactionFollowsBy_visible unfolding timerDbSound_def by blast

lemma timerRun_sound:
  assumes "timerRun db db'" "timerDbSound db"
  shows "timerDbSound db'"
    and "assignmentsEvolve (tt_assignments (db_committed db)) (tt_assignments (db_committed db'))"
    and "countsChanges (db_committed db) (db_committed db')"
proof -
  have *: "timerJournal\<^sup>*\<^sup>* (db_committed db) (db_committed db')" "transactionFollowsBy timerJournal db'"
    using timer_store.steps_journal [OF assms(1)] assms(2) by (simp_all add: timerDbSound_def)
  have s: "rowsSound (tt_assignments (db_committed db))" using assms(2) by (simp add: timerDbSound_def)
  note j = timerJournal_steps [OF *(1) s]
  show "timerDbSound db'" using j *(2) by (simp add: timerDbSound_def)
  show "assignmentsEvolve (tt_assignments (db_committed db)) (tt_assignments (db_committed db'))"
    "countsChanges (db_committed db) (db_committed db')" using j by simp_all
qed

section \<open>Statements on other tables\<close>

definition sameAssignments :: "timer_tables \<Rightarrow> timer_tables \<Rightarrow> bool" where
  "sameAssignments t t' \<longleftrightarrow>
     tt_assignments t' = tt_assignments t \<and> tt_setRevisions t' = tt_setRevisions t
     \<and> tt_setInsertTrigger t' = tt_setInsertTrigger t
     \<and> tt_setUpdateTrigger t' = tt_setUpdateTrigger t"

lemma sameAssignments_journal: "sameAssignments t t' \<Longrightarrow> timerJournal t t'"
  by (rule elsewhere)
    (simp_all add: sameAssignments_def countsChanges_def setRevisionOf_def)

lemma run_elsewhere: "sameAssignments (visibleTables db) t \<Longrightarrow> timerRun db (writeVisible t db)"
  by (rule run_write [OF sameAssignments_journal])

lemma sameAssignments_refl [simp]: "sameAssignments t t"
  by (simp add: sameAssignments_def)

section \<open>Set revisions\<close>

lemma maxEpoch_nonneg:
  assumes "\<forall>r \<in> set rows. rowSound r"
  shows "0 \<le> maxEpoch rows i"
proof (cases "filter (\<lambda>r. ar_timer_intent_id r = i) rows")
  case Nil
  then show ?thesis by (simp add: maxEpoch_def)
next
  case (Cons r rs)
  then have "r \<in> set (filter (\<lambda>r. ar_timer_intent_id r = i) rows)" by simp
  then have r: "r \<in> set rows" "ar_timer_intent_id r = i" by simp_all
  then obtain a where "readAssignment r = Some a" using assms by (auto simp: rowSound_def)
  then have "0 < ar_assignment_epoch r" by (rule readAssignment_fields(7))
  then show ?thesis using maxEpoch_ge [OF r] by linarith
qed

lemma ensureSchema_facts:
  assumes "ensureAssignmentSetRevisionSchema failing t = (ok, t')"
    and "\<forall>r \<in> set (tt_assignments t). rowSound r"
  shows "tt_assignments t' = tt_assignments t" and "countsChanges t t'" and "ok \<Longrightarrow> triggersOn t'"
    and "tt_intents t' = tt_intents t"
proof -
  have "setRevisionOf t i \<le> setRevisionOf (backfillSetRevisions t) i" for i
    using maxEpoch_nonneg [OF assms(2)]
    by (simp add: setRevisionOf_def backfillSetRevisions_def split: option.split)
  moreover have "t' = t \<or> setRevisionOf t' = setRevisionOf (backfillSetRevisions t)
      \<and> tt_assignments t' = tt_assignments t
      \<and> tt_intents t' = tt_intents t
      \<and> (tt_setInsertTrigger t \<longrightarrow> tt_setInsertTrigger t')
      \<and> (tt_setUpdateTrigger t \<longrightarrow> tt_setUpdateTrigger t')"
    using assms(1)
    by (auto simp: ensureAssignmentSetRevisionSchema_def Let_def backfillSetRevisions_def
        setRevisionOf_def [abs_def] split: if_splits)
  ultimately show "tt_assignments t' = tt_assignments t" "countsChanges t t'"
    "tt_intents t' = tt_intents t"
    by (auto simp: countsChanges_def)
  show "triggersOn t'" if ok
    using assms(1) that
    by (auto simp: ensureAssignmentSetRevisionSchema_def Let_def triggersOn_def split: if_splits)
qed

lemma ensureSchema_journal:
  assumes "ensureAssignmentSetRevisionSchema failing t = (ok, t')" "rowsSound (tt_assignments t)"
  shows "timerJournal t t'"
  using ensureSchema_facts(1,2) [OF assms(1)] assms(2) by (auto simp: rowsSound_def intro: elsewhere)

lemma assignmentSetRevision_run:
  assumes "timerDbSound db"
  shows "timerRun db (snd (assignmentSetRevisionForIntent failing db i))"
proof -
  obtain ok t where e: "ensureAssignmentSetRevisionSchema failing (visibleTables db) = (ok, t)"
    by fastforce
  have "timerRun db (writeVisible t db)"
    by (rule run_write [OF ensureSchema_journal [OF e timerDbSound_visible [OF assms]]])
  then show ?thesis
    by (simp add: assignmentSetRevisionForIntent_def e Let_def split: option.split)
qed

lemma removeFence_same [simp]: "sameAssignments t (removeTemporaryExpectationFence failing n t)"
  by (simp add: removeTemporaryExpectationFence_def sameAssignments_def)

lemma sameAssignments_trans:
  "sameAssignments t u \<Longrightarrow> sameAssignments u v \<Longrightarrow> sameAssignments t v"
  by (simp add: sameAssignments_def)

lemma installFence_same:
  "installTemporaryExpectationFence failing t a v = (ok, t') \<Longrightarrow> sameAssignments t t'"
  by (auto simp: installTemporaryExpectationFence_def Let_def sameAssignments_def
      removeTemporaryExpectationFence_def split: if_splits)

lemma visible_then:
  assumes "timerRun db (writeVisible t db)" "sameAssignments t t'"
  shows "timerRun db (writeVisible t' db)"
proof -
  have "writeVisible t' (writeVisible t db) = writeVisible t' db"
    by (simp add: writeVisible_def writeTables_def split: option.split)
  moreover have "timerRun (writeVisible t db) (writeVisible t' (writeVisible t db))"
    using assms(2) by (intro run_elsewhere) simp
  ultimately show ?thesis using assms(1) by simp
qed

lemma createAgainstSet_run:
  assumes "timerDbSound db"
  shows "timerRun db (snd (createAgainstAssignmentSetRevision failing failing' db a tok))"
proof -
  obtain ok t where e: "ensureAssignmentSetRevisionSchema failing (visibleTables db) = (ok, t)"
    by fastforce
  have r: "timerRun db (writeVisible t db)"
    by (rule run_write [OF ensureSchema_journal [OF e timerDbSound_visible [OF assms]]])
  show ?thesis
  proof (cases "if safeTimerIdentity (ta_timerAssignmentId a) \<and> safeTimerIdentity (ta_timerIntentId a)
      then parseSetRevisionToken tok else None")
    case None
    then show ?thesis by (simp add: createAgainstAssignmentSetRevision_def)
  next
    case (Some v)
    obtain ok' t1 where f: "installTemporaryExpectationFence failing t a v = (ok', t1)" by fastforce
    have r1: "timerRun db (writeVisible t1 db)"
      by (rule visible_then [OF r installFence_same [OF f]])
    obtain res db2 where c: "createAssignment failing' (writeVisible t1 db) a = (res, db2)"
      by fastforce
    have r2: "timerRun db db2"
      using r1 createAssignmentImpl_run [of "writeVisible t1 db" failing' a False] c
      by (auto simp: createAssignment_def intro: rtranclp_trans)
    have "timerRun db (writeVisible (removeTemporaryExpectationFence failing 2 (visibleTables db2)) db2)"
      by (rule rtranclp_trans [OF r2 run_elsewhere]) simp
    then show ?thesis
      using r r1 unfolding createAgainstAssignmentSetRevision_def Some
      by (simp add: e f c Let_def split: bool.split)
  qed
qed


section \<open>Controlled replacement\<close>

lemma removeExpectation_same [simp]: "sameAssignments t (removeExpectation failing n t)"
  by (simp add: removeExpectation_def sameAssignments_def)

lemma installExpectation_same:
  "installExpectation failing t tok e = (ok, t') \<Longrightarrow> sameAssignments t t'"
  by (auto simp: installExpectation_def Let_def sameAssignments_def removeExpectation_def
      split: if_splits option.splits)

lemma createControlledReplacement_run:
  assumes "timerDbSound db"
  shows "timerRun db (snd (createControlledReplacement failing db a tok e))"
proof -
  obtain cur db1 where s: "assignmentSetRevisionForIntent (\<lambda>c. failing (ReSet 0 c)) db
      (ta_timerIntentId a) = (cur, db1)" by fastforce
  have r1: "timerRun db db1"
    using assignmentSetRevision_run [OF assms, of "\<lambda>c. failing (ReSet 0 c)" "ta_timerIntentId a"] s
    by simp
  obtain ok t where i: "installExpectation failing (visibleTables db1) tok e = (ok, t)" by fastforce
  have r2: "timerRun db (writeVisible t db1)"
    by (rule rtranclp_trans [OF r1 run_elsewhere]) (rule installExpectation_same [OF i])
  obtain res db2 where c: "createAssignment (\<lambda>c. failing (ReAssignment 3 c)) (writeVisible t db1) a
      = (res, db2)" by fastforce
  have r3: "timerRun db db2"
    using r2 createAssignmentImpl_run [of "writeVisible t db1" "\<lambda>c. failing (ReAssignment 3 c)" a False] c
    by (auto simp: createAssignment_def intro: rtranclp_trans)
  define db3 where "db3 = writeVisible (removeExpectation failing 2 (visibleTables db2)) db2"
  have r4: "timerRun db db3"
    unfolding db3_def by (rule rtranclp_trans [OF r3 run_elsewhere]) simp
  obtain aft db4 where f: "assignmentSetRevisionForIntent (\<lambda>c. failing (ReSet 1 c)) db3
      (ta_timerIntentId a) = (aft, db4)" by fastforce
  have r5: "timerRun db db4"
    using rtranclp_trans [OF r4 assignmentSetRevision_run [OF timerRun_sound(1) [OF r4 assms],
          of "\<lambda>c. failing (ReSet 1 c)" "ta_timerIntentId a"]] f by simp
  show ?thesis
    using r1 r2 r4 r5 f
    by (simp add: createControlledReplacement_def s i c Let_def db3_def [symmetric] split: bool.split)
qed

section \<open>Bindings\<close>

lemma same_bindings [simp]: "sameAssignments t (t\<lparr>tt_bindings := rows\<rparr>)"
  by (simp add: sameAssignments_def)

lemma run_bindings:
  assumes "transactionActive db"
  shows "timerRun db (putBindings rows db)"
    and "timerRun db (snd (executeCommit f (putBindings rows db)))"
    and "timerRun db (executeRollback f' (snd (executeCommit f (putBindings rows db))))"
    and "timerRun db (executeRollback f' (putBindings rows db))"
  unfolding putBindings_def
  by (rule run_write_commit [OF assms sameAssignments_journal], simp)+

lemma createBinding_run: "timerRun db (snd (createBinding failing db b))"
proof (cases "executeBegin (failing BindBegin) db")
  case (Pair ok db0)
  have 0: "timerRun db db0" using run_begin [of db "failing BindBegin"] Pair by simp
  have undo: "timerRun db (executeRollback f db0)" for f by (rule rtranclp_trans [OF 0 run_rollback])
  have active: "transactionActive db0" if ok
    using that Pair by (intro executeBegin_True(2) [of "failing BindBegin" db]) simp
  have put: "timerRun db (putBindings rows db0)" if ok for rows
    by (rule rtranclp_trans [OF 0 run_bindings(1) [OF active [OF that]]])
  have "timerRun db db2" "timerRun db (executeRollback f' db2)"
    if ok "executeCommit f (putBindings rows db0) = (ok', db2)" for rows f ok' db2 f'
    using run_commit_or_undo [OF put [OF that(1)] that(2)] .
  then show ?thesis
    using 0 undo Pair
    by (auto simp: createBinding_def Let_def split: bool.split option.split prod.split)
qed

lemma refresh_flag:
  assumes "refreshBoundAssignmentGeneration failing t b g o' = Some t'"
  shows "refreshBoundAssignmentGeneration (\<lambda>_. False) t b g o' = Some t'"
  using assms
  by (auto simp: refreshBoundAssignmentGeneration_def updateAssignmentRows_def Let_def
      split: if_splits option.splits write_outcome.splits)

lemma updateBinding_run: "timerRun db (snd (updateBinding failing db b tok fresh))"
proof (cases "executeBegin (failing BindBegin) db")
  case (Pair ok db0)
  have 0: "timerRun db db0" using run_begin [of db "failing BindBegin"] Pair by simp
  have undo: "timerRun db (executeRollback f db0)" for f by (rule rtranclp_trans [OF 0 run_rollback])
  have active: "transactionActive db0" if ok
    using that Pair by (intro executeBegin_True(2) [of "failing BindBegin" db]) simp
  have w1: "timerRun db (writeTables ((visibleTables db0)\<lparr>tt_bindings := rows\<rparr>) db0)" if ok for rows
    using rtranclp_trans [OF 0 run_bindings(1) [OF active [OF that]]] by (simp add: putBindings_def)
  have undo1: "timerRun db (executeRollback f (writeTables ((visibleTables db0)\<lparr>tt_bindings := rows\<rparr>) db0))"
    if ok for rows f
    by (rule rtranclp_trans [OF w1 [OF that] run_rollback])
  have w2: "timerRun db (writeTables t2 db0)"
    if ok and t2: "refreshBoundAssignmentGeneration failing' ((visibleTables db0)\<lparr>tt_bindings := rows\<rparr>)
      c g o' = Some t2" for rows failing' c g o' t2
  proof -
    let ?d = "writeTables ((visibleTables db0)\<lparr>tt_bindings := rows\<rparr>) db0"
    have "timerJournal (visibleTables ?d) t2"
      using refreshAssignment [OF refresh_flag [OF t2]] by simp
    then have "timerRun ?d (writeTables t2 ?d)" by (intro run_write_commit(1)) simp_all
    then show ?thesis using w1 [OF that(1)] by (auto intro: rtranclp_trans)
  qed
  have end2: "timerRun db db2" "timerRun db (executeRollback f' db2)"
    if ok "(if fresh then refreshBoundAssignmentGeneration failing'
        ((visibleTables db0)\<lparr>tt_bindings := rows\<rparr>) c g o'
        else Some ((visibleTables db0)\<lparr>tt_bindings := rows\<rparr>)) = Some t2"
      "executeCommit f (writeTables t2 db0) = (ok', db2)"
    for rows failing' c g o' t2 f ok' db2 f'
  proof -
    have "timerRun db (writeTables t2 db0)"
      using that(2) w1 [OF that(1)] w2 [OF that(1)] by (cases fresh) auto
    from run_commit_or_undo [OF this that(3)] show "timerRun db db2"
      "timerRun db (executeRollback f' db2)" .
  qed
  show ?thesis
    unfolding updateBinding_def Let_def Pair
    using 0 undo undo1 end2
    by (simp split: option.split bool.split sum.split prod.split del: executeCommit_writeTables)
qed


lemma updateVerifiedNativeIdentity_run:
  "timerRun db (snd (updateVerifiedNativeIdentity failing db b tok))"
proof (cases "executeBegin (failing BindBegin) db")
  case (Pair ok db0)
  have 0: "timerRun db db0" using run_begin [of db "failing BindBegin"] Pair by simp
  have undo: "timerRun db (executeRollback f db0)" for f by (rule rtranclp_trans [OF 0 run_rollback])
  have active: "transactionActive db0" if ok
    using that Pair by (intro executeBegin_True(2) [of "failing BindBegin" db]) simp
  have put: "timerRun db (putBindings rows db0)" if ok for rows
    by (rule rtranclp_trans [OF 0 run_bindings(1) [OF active [OF that]]])
  have undo1: "timerRun db (executeRollback f (putBindings rows db0))" if ok for rows f
    by (rule rtranclp_trans [OF put [OF that] run_rollback])
  have end2: "timerRun db db2" "timerRun db (executeRollback f' db2)"
    if ok "executeCommit f (putBindings rows db0) = (ok', db2)" for rows f ok' db2 f'
    using run_commit_or_undo [OF put [OF that(1)] that(2)] .
  show ?thesis
    unfolding updateVerifiedNativeIdentity_def Let_def Pair
    using 0 undo undo1 end2
    by (simp split: option.split bool.split select_result.split prod.split
        del: executeCommit_writeTables)
qed

section \<open>The calls of the program\<close>

text \<open>\<open>callElsewhere\<close> stands for every statement of the intent, operation and evidence
  repositories: none of them names the assignment tables.\<close>

inductive timerCall :: "timer_tables database \<Rightarrow> timer_tables database \<Rightarrow> bool" where
  callCreate: "timerCall db (snd (createAssignment failing db a))"
| callCreateInCurrent: "timerCall db (snd (createAssignmentInCurrentTransaction failing db a))"
| callUpdate: "timerCall db (snd (updateAssignment failing db a tok))"
| callUpdateInCurrent: "timerCall db (snd (updateAssignmentInCurrentTransaction failing db a tok))"
| callSetRevision: "timerCall db (snd (assignmentSetRevisionForIntent setFailing db i))"
| callCreateAgainst:
    "timerCall db (snd (createAgainstAssignmentSetRevision setFailing failing db a tok))"
| callReplace: "timerCall db (snd (createControlledReplacement reFailing db a tok e))"
| callCreateBinding: "timerCall db (snd (createBinding bindFailing db b))"
| callUpdateBinding: "timerCall db (snd (updateBinding bindFailing db b tok fresh))"
| callUpdateIdentity: "timerCall db (snd (updateVerifiedNativeIdentity bindFailing db b tok))"
| callElsewhere: "sameAssignments (visibleTables db) t \<Longrightarrow> timerCall db (writeVisible t db)"
| callBegin: "timerCall db (snd (executeBegin f db))"
| callCommit: "timerCall db (snd (executeCommit f db))"
| callRollback: "timerCall db (executeRollback f db)"

abbreviation timerCalls :: "timer_tables database \<Rightarrow> timer_tables database \<Rightarrow> bool" where
  "timerCalls \<equiv> timerCall\<^sup>*\<^sup>*"

lemma timerCall_run:
  assumes "timerCall db db'" "timerDbSound db"
  shows "timerRun db db'"
  using assms(1)
proof cases
  case (callCreate failing a)
  then show ?thesis using createAssignmentImpl_run by (simp add: createAssignment_def)
next
  case (callCreateInCurrent failing a)
  then show ?thesis using createAssignmentImpl_run
    by (simp add: createAssignmentInCurrentTransaction_def)
next
  case (callUpdate failing a tok)
  then show ?thesis using updateAssignment_run by simp
next
  case (callUpdateInCurrent failing a tok)
  then show ?thesis using updateInCurrentTransactionInternal_run
    by (simp add: updateAssignmentInCurrentTransaction_def)
next
  case (callSetRevision setFailing i)
  then show ?thesis using assignmentSetRevision_run [OF assms(2)] by simp
next
  case (callCreateAgainst setFailing failing a tok)
  then show ?thesis using createAgainstSet_run [OF assms(2)] by simp
next
  case (callReplace reFailing a tok e)
  then show ?thesis using createControlledReplacement_run [OF assms(2)] by simp
next
  case (callCreateBinding bindFailing b)
  then show ?thesis using createBinding_run by simp
next
  case (callUpdateBinding bindFailing b tok fresh)
  then show ?thesis using updateBinding_run by simp
next
  case (callUpdateIdentity bindFailing b tok)
  then show ?thesis using updateVerifiedNativeIdentity_run by simp
next
  case (callElsewhere t)
  then show ?thesis using run_elsewhere by simp
qed (use run_begin run_commit run_rollback in simp_all)

lemma timerCalls_sound:
  assumes "timerCalls db db'" "timerDbSound db"
  shows "timerDbSound db' \<and> timerRun db db'"
  using assms
proof (induction rule: rtranclp_induct)
  case base
  then show ?case by simp
next
  case (step y z)
  then show ?case
    using timerCall_run [of y z] timerRun_sound(1) [of y z] by (auto intro: rtranclp_trans)
qed

lemmas timerCalls_facts = timerRun_sound [OF conjunct2 [OF timerCalls_sound]]

end
