(* ===== verification/AssignmentFence.thy ===== *)
theory AssignmentFence
  imports AssignmentRuns
begin

text \<open>
  Accepted calls on the assignment store: what a successful update or creation did to the
  committed tables, and the store's revisions as a fence between writers.
\<close>

section \<open>Accepted updates\<close>

text \<open>What an accepted update did, relative to the tables it saw.\<close>

definition acceptedRevision ::
  "timer_tables \<Rightarrow> timer_assignment \<Rightarrow> string \<Rightarrow> timer_assignment \<Rightarrow> timer_tables \<Rightarrow> bool" where
  "acceptedRevision t new tok d t' \<longleftrightarrow>
     (\<exists>v r current row. r \<in> set (tt_assignments t)
        \<and> ar_timer_assignment_id r = ta_timerAssignmentId new
        \<and> readAssignment r = Some current \<and> ta_assignmentRevision current = tok
        \<and> tok = decimal v \<and> 0 < v \<and> v < int64_max \<and> ar_assignment_revision r = int v
        \<and> updateAssignmentPermitted current new
        \<and> d = new\<lparr>ta_assignmentRevision := decimal (v + 1)\<rparr> \<and> timerAssignmentValid d
        \<and> readAssignment row = Some (storedAssignment d) \<and> rowSound row
        \<and> ar_assignment_revision row = int (v + 1)
        \<and> tt_assignments t' = map (\<lambda>x. if x = r then row else x) (tt_assignments t))"

lemma updateInternal_Ok:
  assumes "updateInCurrentTransactionInternal failing db new tok = (res, db')"
    and "ra_status res = AsgRepoOk" and sound: "rowsSound (tt_assignments (visibleTables db))"
  obtains d t' where "acceptedRevision (visibleTables db) new tok d t'"
    "res = assignmentResult AsgRepoOk d" "db' = writeTables t' db"
    "timerJournal (visibleTables db) t'"
proof -
  obtain v d where chk: "updateAssignmentCheck failing (visibleTables db) new tok = Inr (v, d)"
  proof (cases "updateAssignmentCheck failing (visibleTables db) new tok")
    case (Inl r)
    have "ra_status r \<noteq> AsgRepoOk"
      using Inl by (auto simp: updateAssignmentCheck_def Let_def split: select_result.splits
          option.splits if_splits)
    then show thesis using assms(1,2) Inl
      by (auto simp: updateInCurrentTransactionInternal_def split: if_splits)
  qed auto
  obtain row n t' where w: "bindAssignmentColumns d = Some row"
    "updateAssignmentRow (failing AsgUpdate) (visibleTables db) (ta_timerAssignmentId d) (int v) row
      = WriteDone (n, t')"
    and out: "res = assignmentResult AsgRepoOk d" "db' = writeTables t' db"
  proof -
    note def = assms(1) [unfolded updateInCurrentTransactionInternal_def chk sum.case prod.case]
    show thesis
    proof (cases "bindAssignmentColumns d")
      case None
      then show thesis using def assms(2) by (auto split: if_splits)
    next
      case (Some row)
      note row = this
      show thesis
      proof (cases "updateAssignmentRow (failing AsgUpdate) (visibleTables db)
          (ta_timerAssignmentId d) (int v) row")
        case (WriteDone nt)
        obtain n t' where nt: "nt = (n, t')" by fastforce
        show thesis
          by (rule that [OF row WriteDone [unfolded nt]])
            (use def assms(2) in \<open>auto simp: row WriteDone nt split: if_splits\<close>)
      qed (use def assms(2) in \<open>auto simp: row split: if_splits\<close>)
    qed
  qed
  obtain r current where c:
    "find (\<lambda>r. ar_timer_assignment_id r = ta_timerAssignmentId new)
      (tt_assignments (visibleTables db)) = Some r"
    "readAssignment r = Some current" "ta_assignmentRevision current = tok"
    "parseRevisionToken tok = Some v" "updateAssignmentPermitted current new"
    "d = new\<lparr>ta_assignmentRevision := nextRevisionText v\<rparr>" "timerAssignmentValid d"
    by (rule updateAssignmentCheck_Inr [OF chk])
  have w': "updateAssignmentRow False (visibleTables db) (ta_timerAssignmentId new) (int v) row
      = WriteDone (n, t')"
    using updateAssignmentRow_flag [OF w(2)] by (simp add: c(6))
  have p: "parseRevisionToken (ta_assignmentRevision current) = Some v" using c(3,4) by simp
  note rs = revise_step [OF c(1,2) p c(5,6,7) w(1) w' sound]
  note f = readAssignment_fields [OF c(2)]
  have pv: "0 < v" using parseRevisionToken_to_string(2) [OF p [unfolded f(5)]] .
  have tok: "tok = decimal v" using c(3) f(5) rs(4) to_string_of_nat [of v] by simp
  have d: "d = new\<lparr>ta_assignmentRevision := decimal (v + 1)\<rparr>" using c(6) rs(3) by simp
  obtain k where k: "parseRevisionToken (ta_assignmentRevision d) = Some k"
    "ar_assignment_revision row = int k" by (rule bindAssignmentColumns_Some [OF w(1)])
  have "k = v + 1"
    using k(1) parseRevisionToken_decimal [of "v + 1"] rs(2) by (simp add: d)
  then have "acceptedRevision (visibleTables db) new tok d t'"
    unfolding acceptedRevision_def
    using find_Some_in [OF c(1)] c(2,3,5,7) tok pv rs(1,2,4,7,10) d k(2) by blast
  then show thesis using that out revised [OF chk w] by blast
qed

lemma updateAssignment_ok:
  assumes "updateAssignment failing db new tok = (res, db')" "ra_status res = AsgRepoOk"
    and "timerDbSound db"
  obtains d where "acceptedRevision (db_committed db) new tok d (db_committed db')"
    "res = assignmentResult AsgRepoOk d" "\<not> transactionActive db" "\<not> transactionActive db'"
proof -
  obtain ok db0 where b: "executeBegin (failing AsgBegin) db = (ok, db0)" by fastforce
  have ok: ok using assms(1,2) b by (cases ok) (auto simp: updateAssignment_def split: if_splits)
  note eb = executeBegin_True [OF b [unfolded eqTrueI [OF ok]]]
  obtain res1 db1 where u: "updateInCurrentTransactionInternal failing db0 new tok = (res1, db1)"
    by fastforce
  obtain ok' db2 where c: "executeCommit (failing AsgCommit) db1 = (ok', db2)" by fastforce
  have parts: "ra_status res1 = AsgRepoOk" "ok'" "res = res1" "db' = db2"
    using assms(1,2) by (auto simp: updateAssignment_def b ok u c split: if_splits bool.splits)
  have s: "rowsSound (tt_assignments (visibleTables db0))"
    using assms(3) eb(3) by (simp add: timerDbSound_def)
  obtain d t' where d: "acceptedRevision (visibleTables db0) new tok d t'"
    "res1 = assignmentResult AsgRepoOk d" "db1 = writeTables t' db0"
    by (rule updateInternal_Ok [OF u parts(1) s])
  have "db2 = \<lparr>db_committed = t', db_working = None\<rparr>"
    using c parts(2) by (auto simp: d(3) split: if_splits)
  then show thesis
    using that [of d] d(1,2) eb(1,3) parts(3,4) by (simp add: transactionActive_def)
qed

section \<open>The fence\<close>

definition assignmentRowOf :: "string \<Rightarrow> assignment_row list \<Rightarrow> assignment_row option" where
  "assignmentRowOf i rows = find (\<lambda>row. ar_timer_assignment_id row = i) rows"

definition storedAssignmentRevision :: "string \<Rightarrow> timer_tables database \<Rightarrow> int" where
  "storedAssignmentRevision i db =
     (case assignmentRowOf i (tt_assignments (db_committed db)) of
        None \<Rightarrow> 0 | Some r \<Rightarrow> ar_assignment_revision r)"

lemma assignmentRowOf_Some:
  assumes "rowsSound rows"
  shows "assignmentRowOf i rows = Some r \<longleftrightarrow> r \<in> set rows \<and> ar_timer_assignment_id r = i"
proof
  assume "assignmentRowOf i rows = Some r"
  then show "r \<in> set rows \<and> ar_timer_assignment_id r = i"
    unfolding assignmentRowOf_def by (rule find_Some_in)
next
  assume r: "r \<in> set rows \<and> ar_timer_assignment_id r = i"
  have "distinct (map ar_timer_assignment_id rows)"
    using assms by (intro keysSound_distinct(1)) (simp add: rowsSound_def)
  from find_unique_key [OF this conjunct1 [OF r]] r show "assignmentRowOf i rows = Some r"
    by (simp add: assignmentRowOf_def)
qed

lemma assignmentRowOf_evolves:
  assumes "assignmentsEvolve rows rows'" "rowsSound rows" "rowsSound rows'"
    and "assignmentRowOf i rows = Some r"
  obtains r' where "assignmentRowOf i rows' = Some r'" "assignmentEvolves r r'"
proof -
  have r: "r \<in> set rows" "ar_timer_assignment_id r = i"
    using assms(4) assignmentRowOf_Some [OF assms(2)] by auto
  obtain g news where g: "rows' = map g rows @ news" "assignmentEvolves r (g r)"
    using assms(1) r(1) unfolding assignmentsEvolve_def by blast
  have "g r \<in> set rows'" using r(1) by (simp add: g(1))
  moreover have "ar_timer_assignment_id (g r) = ar_timer_assignment_id r"
    using assms(2,3) r(1) calculation
    by (intro assignmentEvolves_keys(1) [OF g(2)]) (simp_all add: rowsSound_def)
  ultimately show thesis using that [of "g r"] g(2) r(2) assignmentRowOf_Some [OF assms(3)] by simp
qed

definition acceptedAssignmentUpdate ::
  "string \<Rightarrow> timer_tables database \<Rightarrow> int \<Rightarrow> timer_tables database \<Rightarrow> bool" where
  "acceptedAssignmentUpdate i db v db' \<longleftrightarrow>
     (\<exists>failing new res. ta_timerAssignmentId new = i
        \<and> updateAssignment failing db new (to_string v) = (res, db') \<and> ra_status res = AsgRepoOk)"

lemma acceptedAssignmentUpdateI:
  "updateAssignment failing db new (to_string v) = (res, db') \<Longrightarrow> ra_status res = AsgRepoOk \<Longrightarrow>
     acceptedAssignmentUpdate (ta_timerAssignmentId new) db v db'"
  unfolding acceptedAssignmentUpdate_def by blast

lemma updateAssignment_is_call: "updateAssignment failing db new tok = (res, db') \<Longrightarrow> timerCall db db'"
  by (metis callUpdate snd_conv)

lemma storedAssignmentRevision_mono:
  assumes "timerCall db db'" "timerDbSound db"
  shows "storedAssignmentRevision i db \<le> storedAssignmentRevision i db'"
proof -
  note run = timerRun_sound [OF timerCall_run [OF assms] assms(2)]
  have s: "rowsSound (tt_assignments (db_committed db))" "rowsSound (tt_assignments (db_committed db'))"
    using assms(2) run(1) by (simp_all add: timerDbSound_def)
  show ?thesis
  proof (cases "assignmentRowOf i (tt_assignments (db_committed db))")
    case None
    have "0 < ar_assignment_revision r"
      if "assignmentRowOf i (tt_assignments (db_committed db')) = Some r" for r
    proof -
      have "r \<in> set (tt_assignments (db_committed db'))"
        using that assignmentRowOf_Some [OF s(2)] by simp
      then obtain a where "readAssignment r = Some a"
        using s(2) by (auto simp: rowsSound_def rowSound_def)
      then show ?thesis by (rule readAssignment_fields(6))
    qed
    with None show ?thesis
      by (auto simp: storedAssignmentRevision_def intro: less_imp_le split: option.split)
  next
    case (Some r)
    obtain r' where "assignmentRowOf i (tt_assignments (db_committed db')) = Some r'"
      "assignmentEvolves r r'"
      by (rule assignmentRowOf_evolves [OF run(2) s Some])
    with Some show ?thesis by (auto simp: storedAssignmentRevision_def assignmentEvolves_def)
  qed
qed

interpretation assignment_fence: revision_fenced timerCall timerDbSound
  "storedAssignmentRevision i" "acceptedAssignmentUpdate i" for i
proof unfold_locales
  fix db db' v
  show "timerCall db db' \<Longrightarrow> timerDbSound db \<Longrightarrow> timerDbSound db'"
    using timerCall_run timerRun_sound(1) by blast
  show "timerCall db db' \<Longrightarrow> timerDbSound db \<Longrightarrow>
      storedAssignmentRevision i db \<le> storedAssignmentRevision i db'"
    by (rule storedAssignmentRevision_mono)
  show "acceptedAssignmentUpdate i db v db' \<Longrightarrow> timerCall db db'"
    by (auto simp: acceptedAssignmentUpdate_def intro: updateAssignment_is_call)
  assume acc: "acceptedAssignmentUpdate i db v db'" and sound: "timerDbSound db"
  then obtain failing new res where i: "ta_timerAssignmentId new = i"
    and u: "updateAssignment failing db new (to_string v) = (res, db')" "ra_status res = AsgRepoOk"
    by (auto simp: acceptedAssignmentUpdate_def)
  obtain d where d: "acceptedRevision (db_committed db) new (to_string v) d (db_committed db')"
    by (rule updateAssignment_ok [OF u sound])
  then obtain n r current row where r: "r \<in> set (tt_assignments (db_committed db))"
      "ar_timer_assignment_id r = ta_timerAssignmentId new" "to_string v = decimal n"
      "ar_assignment_revision r = int n" "readAssignment row = Some (storedAssignment d)"
      "d = new\<lparr>ta_assignmentRevision := decimal (n + 1)\<rparr>" "ar_assignment_revision row = int (n + 1)"
      "tt_assignments (db_committed db')
        = map (\<lambda>x. if x = r then row else x) (tt_assignments (db_committed db))"
    unfolding acceptedRevision_def by blast
  have v: "v = int n" using r(3) to_string_of_nat [of n] to_string_inject by metis
  have s: "rowsSound (tt_assignments (db_committed db))" "rowsSound (tt_assignments (db_committed db'))"
    using timerRun_sound(1) [OF timerCall_run [OF updateAssignment_is_call [OF u(1)] sound] sound]
      sound by (simp_all add: timerDbSound_def)
  have "row \<in> set (tt_assignments (db_committed db'))" using r(1) by (auto simp: r(8))
  moreover have "ar_timer_assignment_id row = i"
    using readAssignment_fields(3) [OF r(5)] i by (simp add: r(6))
  ultimately have "assignmentRowOf i (tt_assignments (db_committed db')) = Some row"
    by (simp add: assignmentRowOf_Some [OF s(2)])
  moreover have "assignmentRowOf i (tt_assignments (db_committed db)) = Some r"
    using r(1,2) i by (simp add: assignmentRowOf_Some [OF s(1)])
  ultimately show "storedAssignmentRevision i db = v \<and> v < storedAssignmentRevision i db'"
    using r(4,7) v by (simp add: storedAssignmentRevision_def)
qed

section \<open>Accepted creations\<close>

definition createdAssignment :: "timer_assignment \<Rightarrow> uint64 \<Rightarrow> timer_assignment" where
  "createdAssignment a e =
     a\<lparr>ta_assignmentRevision := ''1'', ta_updatedAt := ta_createdAt a, ta_assignmentEpoch := e\<rparr>"

text \<open>What an accepted creation did, relative to the tables it saw.\<close>

definition acceptedCreation ::
  "timer_tables \<Rightarrow> timer_assignment \<Rightarrow> timer_assignment \<Rightarrow> timer_tables \<Rightarrow> bool" where
  "acceptedCreation t a d t' \<longleftrightarrow>
     (\<exists>row g. d = createdAssignment a (ta_assignmentEpoch d) \<and> timerAssignmentValid d
        \<and> uint (ta_assignmentEpoch d) = maxEpoch (tt_assignments t) (ta_timerIntentId a) + 1
        \<and> readAssignment row = Some (storedAssignment d)
        \<and> (\<forall>r \<in> set (tt_assignments t). ar_timer_assignment_id r \<noteq> ta_timerAssignmentId a)
        \<and> setExpectationAllows t row
        \<and> insertAssignmentRow False t row = WriteDone t'
        \<and> insertEffect t row g \<and> tt_assignments t' = map g (tt_assignments t) @ [row])"

lemma createAssignment_ok:
  assumes "createAssignment failing db a = (res, db')" "ra_status res = AsgRepoOk"
    and "timerDbSound db"
  obtains d where "acceptedCreation (db_committed db) a d (db_committed db')"
    "res = assignmentResult AsgRepoOk d" "\<not> transactionActive db" "\<not> transactionActive db'"
    "ownershipAdmission failing (db_committed db) d = AsgRepoOk"
    "validateIntentRevision failing (db_committed db) a = AsgRepoOk"
proof -
  obtain ok db0 where b: "executeBegin (failing AsgBegin) db = (ok, db0)" by fastforce
  have ok: ok using assms(1,2) b
    by (cases ok) (auto simp: createAssignment_def createAssignmentImpl_def split: if_splits)
  note eb = executeBegin_True [OF b [unfolded eqTrueI [OF ok]]]
  obtain d where chk: "createAssignmentCheck failing (visibleTables db0) a = Inr d"
    and w: "createAssignmentWrite failing db0 d False = (res, db')"
  proof (cases "createAssignmentCheck failing (visibleTables db0) a")
    case (Inl s)
    have "s \<noteq> AsgRepoOk"
      using Inl by (auto simp: createAssignmentCheck_def Let_def split: select_result.splits
          option.splits if_splits)
    then show thesis using assms(1,2) Inl
      by (auto simp: createAssignment_def createAssignmentImpl_def b ok split: if_splits)
  next
    case (Inr d)
    then show thesis using assms(1,2) that
      by (auto simp: createAssignment_def createAssignmentImpl_def b ok split: if_splits)
  qed
  obtain row t where row: "bindAssignmentColumns d = Some row"
    "insertAssignmentRow (failing AsgInsert) (visibleTables db0) row = WriteDone t"
    "res = assignmentResult AsgRepoOk d" "db' = \<lparr>db_committed = t, db_working = None\<rparr>"
    using w assms(2) by (auto simp: createAssignmentWrite_def Let_def split: option.splits
        write_outcome.splits if_splits)
  note c = createAssignmentCheck_Inr [OF chk, unfolded eb(3)]
  have s: "rowsSound (tt_assignments (db_committed db))" using assms(3) by (simp add: timerDbSound_def)
  have ins: "insertAssignmentRow False (db_committed db) row = WriteDone t"
    using insertAssignmentRow_flag [OF row(2)] eb(3) by simp
  have d: "d = createdAssignment a (ta_assignmentEpoch d)"
    using c(1) unfolding createdAssignment_def .
  have "ta_assignmentRevision d = decimal 1" by (subst d) (simp add: createdAssignment_def)
  note rs = bound_rowSound [OF row(1) c(2) this]
  obtain g where g: "insertEffect (db_committed db) row g"
    "tt_assignments t = map g (tt_assignments (db_committed db)) @ [row]"
    "setExpectationAllows (db_committed db) row"
    by (rule insertAssignmentRow_Done [OF ins])
  have "uint (ta_assignmentEpoch d)
      = maxEpoch (tt_assignments (db_committed db)) (ta_timerIntentId a) + 1"
    using s by (intro nextAssignmentEpoch_Some(1) [OF c(3)]) (simp add: rowsSound_def)
  then have "acceptedCreation (db_committed db) a d t"
    unfolding acceptedCreation_def using d c(2,6) rs(2) g ins by blast
  then show thesis
    using that [of d] row(3,4) eb(1) c(4,5) by (simp add: transactionActive_def)
qed

end
