(* ===== verification/AssignmentSamples.thy ===== *)
theory AssignmentSamples
  imports AssignmentFence IntentProperties
begin

text \<open>
  Concrete tables and calls the witnesses of the assignment store evaluate: one active intent, an
  assignment that is created, revised and bound, and its controlled replacement.
\<close>

definition noAssignmentErrors :: "assignment_call \<Rightarrow> bool" where
  "noAssignmentErrors call = False"

definition noSetErrors :: "set_call \<Rightarrow> bool" where
  "noSetErrors call = False"

definition noReplacementErrors :: "replacement_call \<Rightarrow> bool" where
  "noReplacementErrors call = False"

definition noBindingErrors :: "binding_call \<Rightarrow> bool" where
  "noBindingErrors call = False"

definition sampleTables :: timer_tables where
  "sampleTables =
     \<lparr>tt_intents = db_committed oneIntent, tt_assignments = [], tt_setRevisions = (\<lambda>_. None),
      tt_setInsertTrigger = False, tt_setUpdateTrigger = False, tt_setExpectation = TempAbsent,
      tt_setExpectationTrigger = False, tt_replacementExpectation = TempAbsent,
      tt_replacementBefore = False, tt_replacementAfter = False, tt_reassignments = [],
      tt_bindings = [],
      tt_operations = \<lparr>ot_operations = [], ot_payloads = [], ot_maintenance = []\<rparr>\<rparr>"

definition noAssignments :: "timer_tables database" where
  "noAssignments = \<lparr>db_committed = sampleTables, db_working = None\<rparr>"

definition sampleAssignment :: "string \<Rightarrow> string \<Rightarrow> int \<Rightarrow> timer_assignment" where
  "sampleAssignment i backend at =
     emptyTimerAssignment\<lparr>ta_timerAssignmentId := i, ta_timerIntentId := ''i1'',
       ta_intentRevision := ''1'', ta_backendId := backend, ta_backendGeneration := 7,
       ta_state := AsgSelected, ta_role := RolePrimary,
       ta_channelBinding := \<lparr>cb_canonicalChannelId = ''zdf'', cb_backendChannelId = ''S19-1'',
         cb_mappingSource = ''catalog'', cb_mappingRevision = ''3''\<rparr>,
       ta_capabilityRevision := ''c1'', ta_backendHealthRevision := ''h1'',
       ta_decisionPolicyVersion := ''p1'',
       ta_decisionEvidence := \<lparr>de_reasons = [''ok''], de_warnings = [], de_exclusions = [],
         de_conflictFacts = [], de_decisionScore = 5\<rparr>,
       ta_createdAt := at, ta_updatedAt := at\<rparr>"

definition firstAssignment :: timer_assignment where
  "firstAssignment = sampleAssignment ''a1'' ''vdr1'' 100"

definition oneAssignment :: "timer_tables database" where
  "oneAssignment = snd (createAssignment noAssignmentErrors noAssignments firstAssignment)"

definition provisioningAssignment :: timer_assignment where
  "provisioningAssignment =
     firstAssignment\<lparr>ta_assignmentRevision := ''1'', ta_assignmentEpoch := 1,
       ta_state := AsgProvisioning, ta_updatedAt := 110\<rparr>"

definition oneProvisioning :: "timer_tables database" where
  "oneProvisioning = snd (updateAssignment noAssignmentErrors oneAssignment provisioningAssignment ''1'')"

definition reconcilingAssignment :: timer_assignment where
  "reconcilingAssignment =
     provisioningAssignment\<lparr>ta_assignmentRevision := ''2'', ta_state := AsgReconciling,
       ta_updatedAt := 120\<rparr>"

lemma noAssignments_sound: "timerDbSound noAssignments"
  by (simp add: timerDbSound_def rowsSound_def keysSound_def transactionFollowsBy_def
      noAssignments_def sampleTables_def)

lemma sample_first_created:
  "fst (createAssignment noAssignmentErrors noAssignments firstAssignment) =
     assignmentResult AsgRepoOk (createdAssignment firstAssignment 1)"
  by code_simp

lemma sample_provisioned:
  "fst (updateAssignment noAssignmentErrors oneAssignment provisioningAssignment ''1'') =
     assignmentResult AsgRepoOk (provisioningAssignment\<lparr>ta_assignmentRevision := ''2''\<rparr>)"
  by code_simp

lemma sample_assignment_calls:
  "timerCalls noAssignments oneAssignment" "timerCalls oneAssignment oneProvisioning"
  by (simp_all add: oneAssignment_def oneProvisioning_def r_into_rtranclp callCreate callUpdate)

lemma oneAssignment_sound: "timerDbSound oneAssignment"
  using timerCalls_sound [OF sample_assignment_calls(1) noAssignments_sound] ..

end
