(* ===== verification/AssignmentProperties.thy ===== *)
theory AssignmentProperties
  imports AssignmentSamples
begin

text \<open>
  What callers of the assignment store may rely on, whatever calls run, in which order, and
  whichever statements fail: one active owner per intent, unique identifiers and epochs, stored
  assignments that only evolve along their lifecycle, no lost update, creations that are read
  back, and refused calls that change nothing.
\<close>

section \<open>Reading\<close>

text \<open>A lookup without engine errors, on sound tables.\<close>

lemma findAssignmentById_sound:
  assumes "rowsSound (tt_assignments (visibleTables db))" "i \<noteq> []" "length i \<le> 160"
  shows "findAssignmentById noAssignmentErrors db i =
     (case assignmentRowOf i (tt_assignments (visibleTables db)) of
        None \<Rightarrow> assignmentStatusResult AsgRepoNotFound
      | Some r \<Rightarrow> assignmentResult AsgRepoOk (the (readAssignment r)))"
proof (cases "assignmentRowOf i (tt_assignments (visibleTables db))")
  case None
  with assms show ?thesis
    by (simp add: findAssignmentById_def safeTimerIdentity_def noAssignmentErrors_def
        selectAssignmentById_def selectFirst_def assignmentRowOf_def)
next
  case (Some r)
  then have "r \<in> set (tt_assignments (visibleTables db))"
    using assignmentRowOf_Some [OF assms(1)] by simp
  then obtain a where "readAssignment r = Some a"
    using assms(1) by (auto simp: rowsSound_def rowSound_def)
  with Some assms show ?thesis
    by (simp add: findAssignmentById_def safeTimerIdentity_def noAssignmentErrors_def
        selectAssignmentById_def selectFirst_def assignmentRowOf_def)
qed

lemma findAssignmentById_Ok:
  assumes "findAssignmentById failing db i = assignmentResult AsgRepoOk a"
  obtains r where "assignmentRowOf i (tt_assignments (visibleTables db)) = Some r"
    "readAssignment r = Some a" "i \<noteq> []" "length i \<le> 160"
proof -
  have "safeTimerIdentity i"
    "selectAssignmentById failing (tt_assignments (visibleTables db)) i = SelectFound a"
    using assms
    by (auto simp: findAssignmentById_def assignmentResult_def assignmentStatusResult_def
        split: if_splits select_result.splits)
  then show thesis
    using that
    by (auto simp: selectAssignmentById_def selectFirst_Found assignmentRowOf_def
        safeTimerIdentity_def)
qed

section \<open>Refused calls\<close>

lemma executeCommit_committed:
  "executeCommit f db = (False, db2) \<Longrightarrow> db_committed db2 = db_committed db"
  by (auto simp: executeCommit_def split: option.splits if_splits)

lemma executeBegin_committed: "executeBegin f db = (ok, db0) \<Longrightarrow> db_committed db0 = db_committed db"
  by (auto simp: executeBegin_def split: if_splits)

lemma createAssignmentWrite_refused:
  assumes "ra_status (fst (createAssignmentWrite failing db d cur)) \<noteq> AsgRepoOk"
  shows "db_committed (snd (createAssignmentWrite failing db d cur)) = db_committed db"
  using assms
  by (auto simp: createAssignmentWrite_def Let_def split: option.split write_outcome.split)

lemma createAssignmentImpl_refused:
  assumes "ra_status (fst (createAssignmentImpl failing db a cur)) \<noteq> AsgRepoOk"
  shows "db_committed (snd (createAssignmentImpl failing db a cur)) = db_committed db"
proof -
  obtain ok db0 where start: "(if cur then (True, db) else executeBegin (failing AsgBegin) db)
      = (ok, db0)"
    by fastforce
  have c: "db_committed db0 = db_committed db"
    using start by (auto dest: executeBegin_committed split: if_splits)
  have w: "ra_status (fst (createAssignmentWrite failing db0 d cur')) \<noteq> AsgRepoOk \<Longrightarrow>
      db_committed (snd (createAssignmentWrite failing db0 d cur')) = db_committed db" for d cur'
    using createAssignmentWrite_refused [of failing db0 d cur'] c by simp
  have "ra_status (fst (createAssignmentImpl failing db a cur)) \<noteq> AsgRepoOk \<longrightarrow>
      db_committed (snd (createAssignmentImpl failing db a cur)) = db_committed db"
    unfolding createAssignmentImpl_def start
    by (simp add: c w split: bool.split sum.split)
  then show ?thesis using assms by simp
qed

lemma updateInternal_committed:
  "db_committed (snd (updateInCurrentTransactionInternal failing db new tok)) = db_committed db"
  by (auto simp: updateInCurrentTransactionInternal_def split: sum.split prod.split option.split
      write_outcome.split)

lemma updateAssignment_refused:
  assumes "ra_status (fst (updateAssignment failing db new tok)) \<noteq> AsgRepoOk"
  shows "db_committed (snd (updateAssignment failing db new tok)) = db_committed db"
proof (cases "executeBegin (failing AsgBegin) db")
  case (Pair ok db0)
  obtain res db1 where u: "updateInCurrentTransactionInternal failing db0 new tok = (res, db1)"
    by fastforce
  obtain ok' db2 where c: "executeCommit (failing AsgCommit) db1 = (ok', db2)" by fastforce
  have 1: "db_committed db1 = db_committed db"
    using updateInternal_committed [of failing db0 new tok] executeBegin_committed [OF Pair] u
    by simp
  have "db_committed db2 = db_committed db" if "\<not> ok'"
    using executeCommit_committed [of "failing AsgCommit" db1 db2] c that 1 by simp
  then show ?thesis using assms executeBegin_committed [OF Pair] 1
    by (auto simp: updateAssignment_def Pair u c split: bool.splits if_splits)
qed

section \<open>Properties\<close>

text \<open>C1: Whatever calls run on a sound database, at most one assignment of an intent is in an
  active state with the exclusive role of primary or replacement; identifiers are unique, epochs
  are unique within an intent, and every committed row can be read.\<close>

theorem one_active_owner:
  assumes "timerDbSound db" and "timerCalls db db'"
  shows "length (filter (\<lambda>r. activeExclusive r \<and> ar_timer_intent_id r = i)
        (tt_assignments (db_committed db'))) \<le> 1
     \<and> distinct (map ar_timer_assignment_id (tt_assignments (db_committed db')))
     \<and> distinct (map (\<lambda>r. (ar_timer_intent_id r, ar_assignment_epoch r))
          (tt_assignments (db_committed db')))
     \<and> (\<forall>r \<in> set (tt_assignments (db_committed db')). readAssignment r \<noteq> None)"
proof -
  have "rowsSound (tt_assignments (db_committed db'))"
    using timerCalls_facts(1) [OF assms(2,1) assms(1)] by (simp add: timerDbSound_def)
  then show ?thesis
    using keysSound_one_owner keysSound_distinct by (auto simp: rowsSound_def rowSound_def)
qed

theorem one_active_owner_witness:
  "length (filter (\<lambda>r. activeExclusive r \<and> ar_timer_intent_id r = ''i1'')
     (tt_assignments (db_committed oneProvisioning))) \<le> 1"
  using one_active_owner [OF oneAssignment_sound sample_assignment_calls(2)] by blast

text \<open>C4: Whatever calls run, an assignment that was once committed stays readable under its
  identifier: it is unchanged, or it has the same intent, epoch, role, backend, creation time and
  desired specification, a strictly larger revision, a later time, and a state reached by permitted
  lifecycle changes. One in a final state is never changed again.\<close>

theorem stored_assignment_evolves:
  assumes "timerDbSound db" and "timerCalls db db'"
    and "\<not> transactionActive db" and "\<not> transactionActive db'"
    and "findAssignmentById failing db i = assignmentResult AsgRepoOk a"
  shows "\<exists>b. findAssignmentById noAssignmentErrors db' i = assignmentResult AsgRepoOk b
     \<and> (b = a \<or> assignmentAdvances a b
          \<and> (\<exists>m n. ta_assignmentRevision a = to_string m \<and> ta_assignmentRevision b = to_string n
               \<and> m < n))
     \<and> (timerAssignmentTerminal (ta_state a) \<longrightarrow> b = a)"
proof -
  obtain r where r: "assignmentRowOf i (tt_assignments (visibleTables db)) = Some r"
    "readAssignment r = Some a" "i \<noteq> []" "length i \<le> 160"
    by (rule findAssignmentById_Ok [OF assms(5)])
  note f = timerCalls_facts [OF assms(2,1) assms(1)]
  have s: "rowsSound (tt_assignments (db_committed db))" "rowsSound (tt_assignments (db_committed db'))"
    using f(1) assms(1) by (simp_all add: timerDbSound_def)
  have r0: "assignmentRowOf i (tt_assignments (db_committed db)) = Some r"
    using r(1) by (simp add: visible_begun [OF assms(3)])
  obtain r' where r': "assignmentRowOf i (tt_assignments (db_committed db')) = Some r'"
    "assignmentEvolves r r'"
    by (rule assignmentRowOf_evolves [OF f(2) s r0])
  from findAssignmentById_sound [of db', OF _ r(3,4)] s(2) r'(1)
  have found: "findAssignmentById noAssignmentErrors db' i =
      assignmentResult AsgRepoOk (the (readAssignment r'))"
    by (simp add: visible_begun [OF assms(4)])
  have "the (readAssignment r') = a \<or> assignmentAdvances a (the (readAssignment r'))
      \<and> (\<exists>m n. ta_assignmentRevision a = to_string m
           \<and> ta_assignmentRevision (the (readAssignment r')) = to_string n \<and> m < n)"
  proof (cases "r' = r")
    case False
    then obtain b where "readAssignment r' = Some b" "assignmentAdvances a b"
      "ar_assignment_revision r < ar_assignment_revision r'"
      using r'(2) r(2) by (auto simp: assignmentEvolves_def)
    then show ?thesis using readAssignment_fields(5) r(2) by fastforce
  qed (use r(2) in simp)
  moreover have "\<not> timerAssignmentTerminal (ta_state a)" if "assignmentAdvances a b" for b
    using that by (simp add: assignmentAdvances_def)
  ultimately show ?thesis using found by blast
qed

theorem stored_assignment_evolves_witness:
  "\<exists>b. findAssignmentById noAssignmentErrors oneProvisioning ''a1'' = assignmentResult AsgRepoOk b
     \<and> (b = createdAssignment firstAssignment 1
        \<or> assignmentAdvances (createdAssignment firstAssignment 1) b)"
proof -
  have found: "findAssignmentById noAssignmentErrors oneAssignment ''a1'' =
      assignmentResult AsgRepoOk (createdAssignment firstAssignment 1)"
    by code_simp
  have "\<not> transactionActive oneAssignment" "\<not> transactionActive oneProvisioning" by code_simp+
  from stored_assignment_evolves [OF oneAssignment_sound sample_assignment_calls(2) this found]
  show ?thesis by blast
qed

text \<open>C5: No update of an assignment is lost: of two accepted updates, with any calls in between, the
  later one quotes a strictly larger revision.\<close>

theorem no_lost_assignment_update:
  assumes "timerDbSound db" and "updateAssignment f1 db new (to_string v) = (res, db1)"
    and "ra_status res = AsgRepoOk" and "timerCalls db1 db2"
    and "updateAssignment f2 db2 new2 (to_string w) = (res2, db3)" and "ra_status res2 = AsgRepoOk"
    and "ta_timerAssignmentId new2 = ta_timerAssignmentId new"
  shows "v < w"
  using assignment_fence.no_lost_update [OF assms(1) acceptedAssignmentUpdateI [OF assms(2,3)] assms(4)]
    acceptedAssignmentUpdateI [OF assms(5,6)] assms(7) by simp

theorem no_lost_assignment_update_witness: "(1::int) < 2"
proof (rule no_lost_assignment_update [OF oneAssignment_sound])
  show "updateAssignment noAssignmentErrors oneAssignment provisioningAssignment (to_string 1) =
      (fst (updateAssignment noAssignmentErrors oneAssignment provisioningAssignment ''1''),
       oneProvisioning)"
    by (simp add: sample_tokens oneProvisioning_def)
  show "ra_status (fst (updateAssignment noAssignmentErrors oneAssignment provisioningAssignment
      ''1'')) = AsgRepoOk"
    by (simp add: sample_provisioned)
  show "timerCalls oneProvisioning oneProvisioning" by simp
  show "updateAssignment noAssignmentErrors oneProvisioning reconcilingAssignment (to_string 2) =
      (fst (updateAssignment noAssignmentErrors oneProvisioning reconcilingAssignment ''2''),
       snd (updateAssignment noAssignmentErrors oneProvisioning reconcilingAssignment ''2''))"
    by (simp add: sample_tokens)
  show "ra_status (fst (updateAssignment noAssignmentErrors oneProvisioning reconcilingAssignment
      ''2'')) = AsgRepoOk"
    by code_simp
  show "ta_timerAssignmentId reconcilingAssignment = ta_timerAssignmentId provisioningAssignment"
    by (simp add: reconcilingAssignment_def)
qed

text \<open>An accepted creation stores exactly the given assignment, at revision 1 and under the epoch
  after the highest epoch its intent has seen, and a lookup of its identifier, free before,
  answers it; the current revision of its intent is the one it names, and a primary that owns
  found no other owner. A refused creation changes nothing that is committed.\<close>

theorem created_assignment_is_read_back:
  assumes "timerDbSound db" and "createAssignment failing db a = (res, db')"
  shows "if ra_status res = AsgRepoOk
     then (\<exists>e. uint e = maxEpoch (tt_assignments (db_committed db)) (ta_timerIntentId a) + 1
        \<and> res = assignmentResult AsgRepoOk (createdAssignment a e)
        \<and> findAssignmentById noAssignmentErrors db (ta_timerAssignmentId a)
            = assignmentStatusResult AsgRepoNotFound
        \<and> findAssignmentById noAssignmentErrors db' (ta_timerAssignmentId a)
            = assignmentResult AsgRepoOk (storedAssignment (createdAssignment a e))
        \<and> findIntentRevision failing (tt_intents (db_committed db)) (ta_timerIntentId a)
            = SelectFound (ta_intentRevision a)
        \<and> (exclusiveOwner a \<and> ta_role a = RolePrimary \<longrightarrow>
             (\<forall>r \<in> set (tt_assignments (db_committed db)).
                ar_timer_intent_id r = ta_timerIntentId a \<longrightarrow> \<not> activeExclusive r)))
     else db_committed db' = db_committed db"
proof (cases "ra_status res = AsgRepoOk")
  case False
  then show ?thesis
    using createAssignmentImpl_refused [of failing db a False] assms(2)
    by (simp add: createAssignment_def)
next
  case True
  obtain d where d: "acceptedCreation (db_committed db) a d (db_committed db')"
    "res = assignmentResult AsgRepoOk d" "\<not> transactionActive db" "\<not> transactionActive db'"
    "ownershipAdmission failing (db_committed db) d = AsgRepoOk"
    "validateIntentRevision failing (db_committed db) a = AsgRepoOk"
    by (rule createAssignment_ok [OF assms(2) True assms(1)])
  define e where "e = ta_assignmentEpoch d"
  obtain row g where c: "d = createdAssignment a e" "timerAssignmentValid d"
    "uint e = maxEpoch (tt_assignments (db_committed db)) (ta_timerIntentId a) + 1"
    "readAssignment row = Some (storedAssignment d)"
    "\<forall>r \<in> set (tt_assignments (db_committed db)). ar_timer_assignment_id r \<noteq> ta_timerAssignmentId a"
    "tt_assignments (db_committed db') = map g (tt_assignments (db_committed db)) @ [row]"
    using d(1) unfolding acceptedCreation_def e_def by blast
  have call: "timerCall db db'" using assms(2) callCreate [of db failing a] by simp
  have s: "rowsSound (tt_assignments (db_committed db))" "rowsSound (tt_assignments (db_committed db'))"
    using timerRun_sound(1) [OF timerCall_run [OF call assms(1)] assms(1)] assms(1)
    by (simp_all add: timerDbSound_def)
  have id: "ta_timerAssignmentId d = ta_timerAssignmentId a" by (simp add: c(1) createdAssignment_def)
  note key = timerAssignmentValid_parts(5,6) [OF c(2), unfolded id]
  have "assignmentRowOf (ta_timerAssignmentId a) (tt_assignments (db_committed db)) = None"
    using c(5) by (simp add: assignmentRowOf_def find_None_iff)
  then have before: "findAssignmentById noAssignmentErrors db (ta_timerAssignmentId a)
      = assignmentStatusResult AsgRepoNotFound"
    using findAssignmentById_sound [of db, OF _ key] s(1) by (simp add: visible_begun [OF d(3)])
  have "ar_timer_assignment_id row = ta_timerAssignmentId a"
    using readAssignment_fields(3) [OF c(4)] id by simp
  then have "assignmentRowOf (ta_timerAssignmentId a) (tt_assignments (db_committed db')) = Some row"
    unfolding assignmentRowOf_Some [OF s(2)] by (simp add: c(6))
  then have after: "findAssignmentById noAssignmentErrors db' (ta_timerAssignmentId a)
      = assignmentResult AsgRepoOk (storedAssignment d)"
    using findAssignmentById_sound [of db', OF _ key] s(2) c(4)
    by (simp add: visible_begun [OF d(4)])
  have intent: "findIntentRevision failing (tt_intents (db_committed db)) (ta_timerIntentId a)
      = SelectFound (ta_intentRevision a)"
    using d(6) by (auto simp: validateIntentRevision_def split: if_splits select_result.splits)
  have "\<not> activeExclusive r"
    if own: "exclusiveOwner a" "ta_role a = RolePrimary"
      and r: "r \<in> set (tt_assignments (db_committed db))" "ar_timer_intent_id r = ta_timerIntentId a" for r
  proof -
    obtain b where "readAssignment r = Some b"
      using s(1) r(1) by (auto simp: rowsSound_def rowSound_def)
    then have "ar_timer_assignment_id r \<noteq> []"
      using readAssignment_fields(1,3) timerAssignmentValid_parts(5) by metis
    moreover have "exclusiveOwner d" "ta_role d = RolePrimary" "ta_timerIntentId d = ta_timerIntentId a"
      using own by (simp_all add: c(1) createdAssignment_def exclusiveOwner_def)
    ultimately show ?thesis
      using d(5) r
      by (auto simp: ownershipAdmission_def hasOtherActivePrimary_def activeExclusive_def
          list_ex_iff split: if_splits)
  qed
  then show ?thesis
    using True c(1,3) d(2) before after intent by auto
qed

theorem created_assignment_is_read_back_witness:
  "findAssignmentById noAssignmentErrors oneAssignment ''a1''
     = assignmentResult AsgRepoOk (storedAssignment (createdAssignment firstAssignment 1))
   \<and> db_committed (snd (createAssignment noAssignmentErrors oneAssignment firstAssignment))
     = db_committed oneAssignment"
proof -
  have "createAssignment noAssignmentErrors noAssignments firstAssignment =
      (assignmentResult AsgRepoOk (createdAssignment firstAssignment 1), oneAssignment)"
    using sample_first_created by (simp add: oneAssignment_def prod_eq_iff)
  from created_assignment_is_read_back [OF noAssignments_sound this]
  have 1: "findAssignmentById noAssignmentErrors oneAssignment ''a1''
     = assignmentResult AsgRepoOk (storedAssignment (createdAssignment firstAssignment 1))"
    by (auto simp: assignmentResult_def firstAssignment_def sampleAssignment_def)
  have "ra_status (fst (createAssignment noAssignmentErrors oneAssignment firstAssignment))
      = AsgRepoAlreadyExists"
    by code_simp
  with created_assignment_is_read_back [OF oneAssignment_sound,
      of noAssignmentErrors firstAssignment
        "fst (createAssignment noAssignmentErrors oneAssignment firstAssignment)"
        "snd (createAssignment noAssignmentErrors oneAssignment firstAssignment)"] 1
  show ?thesis by simp
qed

lemma updateAssignment_effect:
  assumes "timerDbSound db" and "updateAssignment failing db new tok = (res, db')" "ra_status res = AsgRepoOk"
  obtains v current where "tok = decimal v" "v < int64_max"
    "findAssignmentById noAssignmentErrors db (ta_timerAssignmentId new) = assignmentResult AsgRepoOk current"
    "ta_assignmentRevision current = tok" "updateAssignmentPermitted current new"
    "res = assignmentResult AsgRepoOk (new\<lparr>ta_assignmentRevision := decimal (v + 1)\<rparr>)"
    "findAssignmentById noAssignmentErrors db' (ta_timerAssignmentId new)
       = assignmentResult AsgRepoOk (storedAssignment (new\<lparr>ta_assignmentRevision := decimal (v + 1)\<rparr>))"
    "\<not> transactionActive db'"
proof -
  obtain d where d: "acceptedRevision (db_committed db) new tok d (db_committed db')"
    "res = assignmentResult AsgRepoOk d" "\<not> transactionActive db" "\<not> transactionActive db'"
    by (rule updateAssignment_ok [OF assms(2,3,1)])
  obtain v r current row where c: "r \<in> set (tt_assignments (db_committed db))"
      "ar_timer_assignment_id r = ta_timerAssignmentId new" "readAssignment r = Some current"
      "ta_assignmentRevision current = tok" "tok = decimal v" "v < int64_max"
      "updateAssignmentPermitted current new" "d = new\<lparr>ta_assignmentRevision := decimal (v + 1)\<rparr>"
      "timerAssignmentValid d" "readAssignment row = Some (storedAssignment d)"
      "tt_assignments (db_committed db')
        = map (\<lambda>x. if x = r then row else x) (tt_assignments (db_committed db))"
    using d(1) unfolding acceptedRevision_def by blast
  have s: "rowsSound (tt_assignments (db_committed db))" "rowsSound (tt_assignments (db_committed db'))"
    using timerRun_sound(1) [OF timerCall_run [OF updateAssignment_is_call [OF assms(2)] assms(1)]
        assms(1)] assms(1)
    by (simp_all add: timerDbSound_def)
  have id: "ta_timerAssignmentId d = ta_timerAssignmentId new" by (simp add: c(8))
  note key = timerAssignmentValid_parts(5,6) [OF c(9), unfolded id]
  have "assignmentRowOf (ta_timerAssignmentId new) (tt_assignments (db_committed db)) = Some r"
    using c(1,2) by (simp add: assignmentRowOf_Some [OF s(1)])
  then have before: "findAssignmentById noAssignmentErrors db (ta_timerAssignmentId new)
      = assignmentResult AsgRepoOk current"
    using findAssignmentById_sound [of db, OF _ key] s(1) c(3) by (simp add: visible_begun [OF d(3)])
  have "row \<in> set (tt_assignments (db_committed db'))" using c(1) by (auto simp: c(11))
  moreover have "ar_timer_assignment_id row = ta_timerAssignmentId new"
    using readAssignment_fields(3) [OF c(10)] id by simp
  ultimately have
    "assignmentRowOf (ta_timerAssignmentId new) (tt_assignments (db_committed db')) = Some row"
    by (simp add: assignmentRowOf_Some [OF s(2)])
  then have after: "findAssignmentById noAssignmentErrors db' (ta_timerAssignmentId new)
      = assignmentResult AsgRepoOk (storedAssignment d)"
    using findAssignmentById_sound [of db', OF _ key] s(2) c(10)
    by (simp add: visible_begun [OF d(4)])
  show thesis using that c(4-8) d(2,4) before after by auto
qed

text \<open>C6: An update is accepted only on the revision it quotes, and only as a permitted change of an
  open assignment; the stored assignment is then exactly the given one at the next revision. A
  refused update changes nothing that is committed.\<close>

theorem assignment_update_is_fenced:
  assumes "timerDbSound db" and "updateAssignment failing db new tok = (res, db')"
  shows "if ra_status res = AsgRepoOk
     then (\<exists>v current. tok = decimal v \<and> v < int64_max
        \<and> findAssignmentById noAssignmentErrors db (ta_timerAssignmentId new)
            = assignmentResult AsgRepoOk current
        \<and> ta_assignmentRevision current = tok \<and> updateAssignmentPermitted current new
        \<and> res = assignmentResult AsgRepoOk (new\<lparr>ta_assignmentRevision := decimal (v + 1)\<rparr>)
        \<and> findAssignmentById noAssignmentErrors db' (ta_timerAssignmentId new)
            = assignmentResult AsgRepoOk
                (storedAssignment (new\<lparr>ta_assignmentRevision := decimal (v + 1)\<rparr>)))
     else db_committed db' = db_committed db"
proof (cases "ra_status res = AsgRepoOk")
  case False
  then show ?thesis using updateAssignment_refused [of failing db new tok] assms(2) by simp
next
  case True
  show ?thesis by (rule updateAssignment_effect [OF assms True]) (use True in auto)
qed

theorem assignment_update_is_fenced_witness:
  "findAssignmentById noAssignmentErrors oneProvisioning ''a1''
     = assignmentResult AsgRepoOk
         (storedAssignment (provisioningAssignment\<lparr>ta_assignmentRevision := ''2''\<rparr>))"
proof -
  have "updateAssignment noAssignmentErrors oneAssignment provisioningAssignment ''1'' =
      (assignmentResult AsgRepoOk (provisioningAssignment\<lparr>ta_assignmentRevision := ''2''\<rparr>),
       oneProvisioning)"
    using sample_provisioned by (simp add: oneProvisioning_def prod_eq_iff)
  from assignment_update_is_fenced [OF oneAssignment_sound this]
  show ?thesis
    by (auto simp: assignmentResult_def provisioningAssignment_def firstAssignment_def
        sampleAssignment_def)
qed

end
