(* ===== verification/AssignmentReplacement.thy ===== *)
theory AssignmentReplacement
  imports AssignmentProperties
begin

text \<open>
  The two fences around a set of assignments: a creation against a set revision, and the
  controlled replacement of an owner, which happens as a whole or not at all.
\<close>

section \<open>The set revision\<close>

lemma parseSetRevisionToken_to_string:
  assumes "parseSetRevisionToken (to_string i) = Some v"
  shows "i = int v"
proof -
  have "0 \<le> i"
    using assms by (cases "i < 0") (simp_all add: parseSetRevisionToken_def to_string_def)
  then obtain n where n: "i = int n" by (metis nonneg_int_cases)
  then have "accumulateDigits int64_max 0 (decimal n) = Some v"
    using assms by (auto simp: to_string_of_nat parseSetRevisionToken_def split: if_splits)
  then show ?thesis using n by (auto dest: accumulateDigits_decimal_inverse)
qed

lemma assignmentSetRevision_Ok:
  assumes "assignmentSetRevisionForIntent failing db i = (res, db')" "sr_status res = AsgRepoOk"
    and sound: "timerDbSound db"
  obtains t where "db' = writeVisible t db" "triggersOn t" "countsChanges (visibleTables db) t"
    "tt_assignments t = tt_assignments (visibleTables db)"
    "sr_assignmentSetRevision res = to_string (setRevisionOf t i)"
proof -
  obtain ok t where e: "ensureAssignmentSetRevisionSchema failing (visibleTables db) = (ok, t)"
    by fastforce
  have "rowsSound (tt_assignments (visibleTables db))" by (rule timerDbSound_visible [OF sound])
  then have "\<forall>r \<in> set (tt_assignments (visibleTables db)). rowSound r" by (simp add: rowsSound_def)
  note f = ensureSchema_facts [OF e this]
  have "ok \<and> db' = writeVisible t db \<and> sr_assignmentSetRevision res = to_string (setRevisionOf t i)"
    using assms(1,2)
    by (auto simp: assignmentSetRevisionForIntent_def e Let_def setRevisionResult_def
        readCurrentSetRevision_def split: if_splits option.splits)
  then show thesis using that f by blast
qed

lemma installFence_True:
  assumes "installTemporaryExpectationFence failing t a v = (True, t')"
  shows "tt_setExpectation t' = TempRow \<lparr>se_timer_assignment_id = ta_timerAssignmentId a,
      se_timer_intent_id = ta_timerIntentId a, se_expected_set_revision = int v\<rparr>"
    and "tt_setExpectationTrigger t'" and "sameAssignments t t'"
  using assms installFence_same [OF assms]
  by (auto simp: installTemporaryExpectationFence_def Let_def split: if_splits)

lemma installFence_intents:
  "installTemporaryExpectationFence failing t a v = (ok, t') \<Longrightarrow> tt_intents t' = tt_intents t"
  by (auto simp: installTemporaryExpectationFence_def Let_def removeTemporaryExpectationFence_def
      split: if_splits)

lemma validateIntentRevision_Ok:
  assumes "validateIntentRevision failing t a = AsgRepoOk"
  shows "findIntentRevision (\<lambda>_. False) (tt_intents t) (ta_timerIntentId a)
     = SelectFound (ta_intentRevision a)"
  using assms
  by (auto simp: validateIntentRevision_def findIntentRevision_def selectFirst_def
      split: if_splits select_result.splits option.splits)

lemma writeVisible_committed:
  "\<not> transactionActive db \<Longrightarrow> db_committed (writeVisible t db) = t"
  "transactionActive db \<Longrightarrow> db_committed (writeVisible t db) = db_committed db"
  by (auto simp: writeVisible_def writeTables_def transactionActive_def split: option.split)

lemma fencedStatus_Ok: "fencedStatus s c v = AsgRepoOk \<Longrightarrow> s = AsgRepoOk"
  by (auto simp: fencedStatus_def split: option.splits if_splits)

lemma createAgainstSet_Ok:
  assumes "createAgainstAssignmentSetRevision failing failing' db a tok = (res, db')"
    and "ra_status res = AsgRepoOk" and sound: "timerDbSound db"
  obtains v t1 d where "parseSetRevisionToken tok = Some v" "int v = setRevisionOf t1 (ta_timerIntentId a)"
    "countsChanges (db_committed db) t1" "tt_assignments t1 = tt_assignments (db_committed db)"
    "\<not> transactionActive db" "ra_assignment res = d"
    "\<exists>row. readAssignment row = Some (storedAssignment d)
       \<and> row \<in> set (tt_assignments (db_committed db'))"
    "d = createdAssignment a (ta_assignmentEpoch d)"
    "findIntentRevision (\<lambda>_. False) (tt_intents (db_committed db)) (ta_timerIntentId a)
       = SelectFound (ta_intentRevision a)"
proof -
  obtain v where v: "parseSetRevisionToken tok = Some v"
    "safeTimerIdentity (ta_timerAssignmentId a)" "safeTimerIdentity (ta_timerIntentId a)"
    using assms(1,2)
    by (cases "if safeTimerIdentity (ta_timerAssignmentId a) \<and> safeTimerIdentity (ta_timerIntentId a)
        then parseSetRevisionToken tok else None")
      (auto simp: createAgainstAssignmentSetRevision_def split: if_splits)
  obtain ok t where e: "ensureAssignmentSetRevisionSchema failing (visibleTables db) = (ok, t)"
    by fastforce
  obtain ok' t1 where i: "installTemporaryExpectationFence failing t a v = (ok', t1)" by fastforce
  obtain res' db2 where c: "createAssignment failing' (writeVisible t1 db) a = (res', db2)"
    by fastforce
  have parts: "ok" "ok'" "ra_status res' = AsgRepoOk" "ra_assignment res = ra_assignment res'"
    "db_committed db' = db_committed db2 \<or> db' = writeVisible
       (removeTemporaryExpectationFence failing 2 (visibleTables db2)) db2"
    using assms(1,2)
    by (auto simp: createAgainstAssignmentSetRevision_def v e i c Let_def
        dest: fencedStatus_Ok split: if_splits bool.splits)
  have rs: "\<forall>r \<in> set (tt_assignments (visibleTables db)). rowSound r"
    using timerDbSound_visible [OF sound] by (simp add: rowsSound_def)
  note ef = ensureSchema_facts [OF e rs]
  note fi = installFence_True [OF i [unfolded eqTrueI [OF parts(2)]]]
  have run: "timerRun db (writeVisible t1 db)"
    by (rule visible_then [OF run_write fi(3)])
      (rule ensureSchema_journal [OF e timerDbSound_visible [OF sound]])
  obtain d where d: "acceptedCreation (db_committed (writeVisible t1 db)) a d (db_committed db2)"
    "res' = assignmentResult AsgRepoOk d" "\<not> transactionActive (writeVisible t1 db)"
    "\<not> transactionActive db2"
    "validateIntentRevision failing' (db_committed (writeVisible t1 db)) a = AsgRepoOk"
    by (rule createAssignment_ok [OF c parts(3) timerRun_sound(1) [OF run sound]])
  have idle: "\<not> transactionActive db" using d(3) by simp
  have com: "db_committed (writeVisible t1 db) = t1"
    using idle by (simp add: writeVisible_def transactionActive_def)
  have vis: "visibleTables db = db_committed db" by (rule visible_begun [OF idle])
  have same1: "countsChanges t t1"
    using fi(3) by (simp add: sameAssignments_def countsChanges_def setRevisionOf_def)
  obtain row g where row: "d = createdAssignment a (ta_assignmentEpoch d)"
    "readAssignment row = Some (storedAssignment d)" "setExpectationAllows t1 row"
    "tt_assignments (db_committed db2) = map g (tt_assignments t1) @ [row]"
    using d(1) unfolding acceptedCreation_def com by blast
  have keys: "ta_timerAssignmentId d = ta_timerAssignmentId a" "ta_timerIntentId d = ta_timerIntentId a"
    by (subst row(1); simp add: createdAssignment_def)+
  have "ar_timer_assignment_id row = ta_timerAssignmentId a" "ar_timer_intent_id row = ta_timerIntentId a"
    using readAssignment_fields(3,4) [OF row(2)] keys by simp_all
  then have expected: "int v = setRevisionOf t1 (ta_timerIntentId a)"
    using row(3) by (simp add: setExpectationAllows_def fi(1,2))
  have "tt_assignments (db_committed db') = tt_assignments (db_committed db2)"
    using parts(5)
  proof
    assume "db' = writeVisible (removeTemporaryExpectationFence failing 2 (visibleTables db2)) db2"
    moreover have "visibleTables db2 = db_committed db2" by (rule visible_begun [OF d(4)])
    ultimately show ?thesis
      using d(4) by (simp add: writeVisible_def transactionActive_def removeTemporaryExpectationFence_def)
  qed simp
  then have "row \<in> set (tt_assignments (db_committed db'))" by (simp add: row(4))
  moreover have "countsChanges (db_committed db) t1"
    using countsChanges_trans [OF ef(2) same1] by (simp add: vis)
  moreover have "tt_assignments t1 = tt_assignments (db_committed db)"
    using fi(3) ef(1) by (simp add: sameAssignments_def vis)
  moreover have "ra_assignment res = d" using parts(4) d(2) by simp
  moreover have "tt_intents t1 = tt_intents (db_committed db)"
    using installFence_intents [OF i] ef(4) by (simp add: vis)
  then have "findIntentRevision (\<lambda>_. False) (tt_intents (db_committed db)) (ta_timerIntentId a)
       = SelectFound (ta_intentRevision a)"
    using validateIntentRevision_Ok [OF d(5)] by (simp add: com)
  ultimately show thesis using that [of v t1 d] v(1) expected idle row(1,2) by blast
qed

text \<open>
  Between the reading of the set revision and an accepted creation against it, the assignments of
  the intent did not change, whatever calls ran.
\<close>

lemma set_revision_unchanged:
  assumes sound: "timerDbSound db" and idle: "\<not> transactionActive db"
    and token: "assignmentSetRevisionForIntent f db i = (token, db1)" "sr_status token = AsgRepoOk"
    and calls: "timerCalls db1 d" "timerCalls d db2"
    and later: "countsChanges (db_committed db2) t'" "sr_assignmentSetRevision token = to_string (setRevisionOf t' i)"
  shows "intentRows i (tt_assignments (db_committed d)) = intentRows i (tt_assignments (db_committed db))"
    and "intentRows i (tt_assignments (db_committed db2)) = intentRows i (tt_assignments (db_committed db))"
    and "timerDbSound db2"
proof -
  obtain t where t: "db1 = writeVisible t db" "triggersOn t" "countsChanges (visibleTables db) t"
    "tt_assignments t = tt_assignments (visibleTables db)"
    "sr_assignmentSetRevision token = to_string (setRevisionOf t i)"
    by (rule assignmentSetRevision_Ok [OF token sound])
  have com: "db_committed db1 = t" using idle by (simp add: t(1) writeVisible_committed)
  have "timerCalls db db1" using token(1) callSetRevision [of db f i] by (simp add: r_into_rtranclp)
  then have s1: "timerDbSound db1" using timerCalls_sound sound by blast
  have run: "timerRun db1 d" "timerDbSound d" using timerCalls_sound [OF calls(1) s1] by simp_all
  have run2: "timerRun d db2" "timerDbSound db2" using timerCalls_sound [OF calls(2) run(2)] by simp_all
  show "timerDbSound db2" by (rule run2(2))
  note counts = timerRun_sound(3) [OF run(1) s1] timerRun_sound(3) [OF run2(1) run(2)]
  have eq: "setRevisionOf t i = setRevisionOf t' i" using t(5) later(2) by simp
  have mono: "setRevisionOf (db_committed db2) i \<le> setRevisionOf t' i"
    "setRevisionOf (db_committed d) i \<le> setRevisionOf (db_committed db2) i"
    using later(1) counts(2) by (simp_all add: countsChanges_def)
  have c12: "countsChanges t (db_committed d)" "countsChanges t (db_committed db2)"
    using counts countsChanges_trans unfolding com by blast+
  have "\<not> setRevisionOf t i < setRevisionOf (db_committed d) i"
    "\<not> setRevisionOf t i < setRevisionOf (db_committed db2) i" using eq mono by simp_all
  then have rows: "intentRows i (tt_assignments (db_committed d)) = intentRows i (tt_assignments t)"
    "intentRows i (tt_assignments (db_committed db2)) = intentRows i (tt_assignments t)"
    using c12 t(2) unfolding countsChanges_def by blast+
  show "intentRows i (tt_assignments (db_committed d)) = intentRows i (tt_assignments (db_committed db))"
    "intentRows i (tt_assignments (db_committed db2)) = intentRows i (tt_assignments (db_committed db))"
    using rows by (simp_all add: t(4) visible_begun [OF idle])
qed

lemma set_revision_fence:
  assumes sound: "timerDbSound db" and idle: "\<not> transactionActive db"
    and token: "assignmentSetRevisionForIntent f db (ta_timerIntentId a) = (token, db1)"
      "sr_status token = AsgRepoOk"
    and calls: "timerCalls db1 d" "timerCalls d db2"
    and create: "createAgainstAssignmentSetRevision g h db2 a (sr_assignmentSetRevision token) = (res, db3)"
      "ra_status res = AsgRepoOk"
  shows "intentRows (ta_timerIntentId a) (tt_assignments (db_committed d))
       = intentRows (ta_timerIntentId a) (tt_assignments (db_committed db))"
    and "intentRows (ta_timerIntentId a) (tt_assignments (db_committed db2))
       = intentRows (ta_timerIntentId a) (tt_assignments (db_committed db))"
    and "\<exists>row \<in> set (tt_assignments (db_committed db3)).
          readAssignment row = Some (storedAssignment (ra_assignment res))"
    and "ra_assignment res = createdAssignment a (ta_assignmentEpoch (ra_assignment res))"
    and "findIntentRevision (\<lambda>_. False) (tt_intents (db_committed db2)) (ta_timerIntentId a)
       = SelectFound (ta_intentRevision a)"
proof -
  let ?i = "ta_timerIntentId a"
  have "timerCalls db db1" using token(1) callSetRevision [of db f ?i] by (simp add: r_into_rtranclp)
  then have "timerDbSound db2" using timerCalls_sound sound calls by blast
  then obtain v t1 da where v: "parseSetRevisionToken (sr_assignmentSetRevision token) = Some v"
    "int v = setRevisionOf t1 ?i" "countsChanges (db_committed db2) t1"
    "ra_assignment res = da"
    "\<exists>row. readAssignment row = Some (storedAssignment da)
       \<and> row \<in> set (tt_assignments (db_committed db3))"
    "da = createdAssignment a (ta_assignmentEpoch da)"
    "findIntentRevision (\<lambda>_. False) (tt_intents (db_committed db2)) ?i = SelectFound (ta_intentRevision a)"
    using createAgainstSet_Ok [OF create] by metis
  obtain t where t: "sr_assignmentSetRevision token = to_string (setRevisionOf t ?i)"
    by (rule assignmentSetRevision_Ok [OF token sound])
  have "sr_assignmentSetRevision token = to_string (setRevisionOf t1 ?i)"
    using parseSetRevisionToken_to_string [OF v(1) [unfolded t]] v(2) t by simp
  note rows = set_revision_unchanged [OF sound idle token calls v(3) this]
  show "intentRows ?i (tt_assignments (db_committed d)) = intentRows ?i (tt_assignments (db_committed db))"
    "intentRows ?i (tt_assignments (db_committed db2)) = intentRows ?i (tt_assignments (db_committed db))"
    by (rule rows(1), rule rows(2))
  show "\<exists>row \<in> set (tt_assignments (db_committed db3)).
          readAssignment row = Some (storedAssignment (ra_assignment res))"
    using v(4,5) by blast
  show "ra_assignment res = createdAssignment a (ta_assignmentEpoch (ra_assignment res))"
    using v(4,6) by simp
  show "findIntentRevision (\<lambda>_. False) (tt_intents (db_committed db2)) ?i = SelectFound (ta_intentRevision a)"
    by (rule v(7))
qed

section \<open>The replacement\<close>

lemma removeExpectation_fields [simp]:
  "tt_assignments (removeExpectation failing n t) = tt_assignments t"
  "tt_intents (removeExpectation failing n t) = tt_intents t"
  "tt_bindings (removeExpectation failing n t) = tt_bindings t"
  "tt_operations (removeExpectation failing n t) = tt_operations t"
  "tt_reassignments (removeExpectation failing n t) = tt_reassignments t"
  "tt_setRevisions (removeExpectation failing n t) = tt_setRevisions t"
  by (simp_all add: removeExpectation_def)

lemma installExpectation_fields:
  assumes "installExpectation failing t tok e = (ok, t')"
  shows "tt_assignments t' = tt_assignments t" "tt_intents t' = tt_intents t"
    "tt_bindings t' = tt_bindings t" "tt_operations t' = tt_operations t"
    "tt_reassignments t' = tt_reassignments t" "tt_setRevisions t' = tt_setRevisions t"
  using assms by (auto simp: installExpectation_def Let_def split: if_splits option.splits)

lemma installExpectation_True:
  assumes "installExpectation failing t tok e = (True, t')"
  obtains v n where "parseSetRevisionToken tok = Some v"
    "parseSetRevisionToken (ev_oldAssignmentRevision e) = Some n"
    "tt_replacementExpectation t' = TempRow (expectationRow v n e)"
    "tt_replacementBefore t'" "tt_replacementAfter t'"
  using assms by (auto simp: installExpectation_def Let_def split: if_splits option.splits)

text \<open>An insert under an expectation of its identifier closes the owner and writes the evidence.\<close>

lemma expected_insert:
  assumes "insertAssignmentRow f t row = WriteDone t'"
    and "tt_replacementExpectation t = TempRow e" "tt_replacementBefore t" "tt_replacementAfter t"
    and "ar_timer_assignment_id row = re_replacement_assignment_id e"
  shows "replacementAllowed t e row"
    and "tt_assignments t' = map (closedOwner e (ar_created_at row)) (tt_assignments t) @ [row]"
    and "tt_reassignments t' = tt_reassignments t @ [reassignmentRow e row]"
  using assms
  by (auto simp: insertAssignmentRow_def beforeInsert_def afterInsert_def Let_def
      split: if_splits option.splits)

definition replacementCarriedOut ::
  "timer_tables \<Rightarrow> timer_assignment \<Rightarrow> timer_assignment_reassignment_evidence \<Rightarrow> timer_tables \<Rightarrow> bool"
  where
  "replacementCarriedOut t a e t' \<longleftrightarrow>
     (\<exists>v n old row epoch. let x = expectationRow v n e in
        old \<in> set (tt_assignments t) \<and> oldOwnerMatches x row old \<and> activeExclusive old
        \<and> parseSetRevisionToken (ev_oldAssignmentRevision e) = Some n
        \<and> list_ex (intentAllowsFailover row) (tt_intents t)
        \<and> (ev_oldNativeOutcome e = OutcomeVerifiedAbsent \<longrightarrow>
             list_ex (bindingVerifiedAbsent x) (tt_bindings t)
             \<and> list_ex (deletionSucceeded x) (ot_operations (tt_operations t)))
        \<and> readAssignment row = Some (storedAssignment (createdAssignment a epoch))
        \<and> ar_assignment_epoch old < uint epoch
        \<and> tt_assignments t' = map (\<lambda>r. if r = old then closedRow (ta_createdAt a) old else r)
            (tt_assignments t) @ [row]
        \<and> tt_reassignments t' = tt_reassignments t @ [reassignmentRow x row])"

lemma outcomeName_absent [simp]:
  "outcomeName o' = ''verified_absent'' \<longleftrightarrow> o' = OutcomeVerifiedAbsent"
  by (cases o') simp_all

lemma carried_out:
  assumes "acceptedCreation t a d t'" "rowsSound (tt_assignments t)"
    and x: "tt_replacementExpectation t = TempRow (expectationRow v n e)" "tt_replacementBefore t"
      "tt_replacementAfter t"
    and n: "parseSetRevisionToken (ev_oldAssignmentRevision e) = Some n"
    and a: "ta_timerAssignmentId a = ev_replacementTimerAssignmentId e"
  shows "replacementCarriedOut t a e t'"
proof -
  define epoch where "epoch = ta_assignmentEpoch d"
  obtain row where row: "d = createdAssignment a epoch" "timerAssignmentValid d"
    "uint epoch = maxEpoch (tt_assignments t) (ta_timerIntentId a) + 1"
    "readAssignment row = Some (storedAssignment d)"
    "insertAssignmentRow False t row = WriteDone t'"
    using assms(1) unfolding acceptedCreation_def epoch_def by blast
  have keys: "ta_timerAssignmentId d = ta_timerAssignmentId a" "ta_timerIntentId d = ta_timerIntentId a"
    "ta_createdAt d = ta_createdAt a"
    by (simp_all add: row(1) createdAssignment_def)
  note f = readAssignment_fields [OF row(4)]
  have id: "ar_timer_assignment_id row = re_replacement_assignment_id (expectationRow v n e)"
    using f(3) keys(1) a by (simp add: expectationRow_def)
  note ins = expected_insert [OF row(5) x id]
  obtain old where old: "old \<in> set (tt_assignments t)" "oldOwnerMatches (expectationRow v n e) row old"
    using ins(1) by (auto simp: replacementAllowed_def list_ex_iff)
  have "exclusiveRoleName (ar_role old)"
    "ar_state old \<in> set [''selected'', ''provisioning'', ''bound'', ''reconciling'']"
    using old(2) by (simp_all add: oldOwnerMatches_def)
  then have active: "activeExclusive old" by (auto simp: activeExclusive_def ownershipStateName_def)
  have at: "ar_created_at row = ta_createdAt a" using f(14) keys(3) by simp
  have distinct: "distinct (map ar_timer_assignment_id (tt_assignments t))"
    using assms(2) by (intro keysSound_distinct(1)) (simp add: rowsSound_def)
  have old_id: "ar_timer_assignment_id old = re_old_assignment_id (expectationRow v n e)"
    using old(2) by (simp only: oldOwnerMatches_def)
  have "closedOwner (expectationRow v n e) (ar_created_at row) r
      = (if r = old then closedRow (ta_createdAt a) old else r)" if "r \<in> set (tt_assignments t)" for r
  proof (cases "r = old")
    case True
    then show ?thesis by (simp add: closedOwner_def old_id at)
  next
    case False
    then have "ar_timer_assignment_id r \<noteq> ar_timer_assignment_id old"
      using distinct_key_unique [OF distinct that old(1)] by blast
    then show ?thesis using False by (simp add: closedOwner_def old_id)
  qed
  then have rows: "tt_assignments t' = map (\<lambda>r. if r = old then closedRow (ta_createdAt a) old else r)
      (tt_assignments t) @ [row]"
    using ins(2) by simp
  have "ar_timer_intent_id old = ta_timerIntentId a"
    using old(2) f(4) keys(2) by (simp add: oldOwnerMatches_def)
  then have "ar_assignment_epoch old < uint epoch"
    using maxEpoch_ge [OF old(1)] row(3) by fastforce
  moreover have "list_ex (intentAllowsFailover row) (tt_intents t)"
    and "ev_oldNativeOutcome e = OutcomeVerifiedAbsent \<longrightarrow>
      list_ex (bindingVerifiedAbsent (expectationRow v n e)) (tt_bindings t)
      \<and> list_ex (deletionSucceeded (expectationRow v n e)) (ot_operations (tt_operations t))"
    using ins(1) by (auto simp: replacementAllowed_def expectationRow_def)
  ultimately show ?thesis
    unfolding replacementCarriedOut_def Let_def
    using old active n row(1,4) rows ins(3) by blast
qed

lemma replacementCarriedOut_cong:
  assumes "replacementCarriedOut t a e t'"
    and "tt_assignments s = tt_assignments t" "tt_intents s = tt_intents t"
    "tt_bindings s = tt_bindings t" "tt_operations s = tt_operations t"
    "tt_reassignments s = tt_reassignments t"
    "tt_assignments s' = tt_assignments t'" "tt_reassignments s' = tt_reassignments t'"
  shows "replacementCarriedOut s a e s'"
  using assms(1) unfolding replacementCarriedOut_def assms(2-) .


lemma assignmentSetRevision_fields:
  "tt_assignments (db_committed (snd (assignmentSetRevisionForIntent failing db i)))
     = tt_assignments (db_committed db)"
  "tt_reassignments (db_committed (snd (assignmentSetRevisionForIntent failing db i)))
     = tt_reassignments (db_committed db)"
  "tt_intents (db_committed (snd (assignmentSetRevisionForIntent failing db i)))
     = tt_intents (db_committed db)"
  "tt_bindings (db_committed (snd (assignmentSetRevisionForIntent failing db i)))
     = tt_bindings (db_committed db)"
  "tt_operations (db_committed (snd (assignmentSetRevisionForIntent failing db i)))
     = tt_operations (db_committed db)"
  "transactionActive (snd (assignmentSetRevisionForIntent failing db i)) = transactionActive db"
  by (auto simp: assignmentSetRevisionForIntent_def ensureAssignmentSetRevisionSchema_def Let_def
      backfillSetRevisions_def writeVisible_def writeTables_def visibleTables_def transactionActive_def
      split: option.split)

text \<open>The replacement, up to the final lookup.\<close>

lemma createControlledReplacement_cases:
  assumes "createControlledReplacement failing db a tok e = (res, db')" "timerDbSound db"
  shows "(cr_status res \<noteq> AsgRepoOk \<and> tt_assignments (db_committed db') = tt_assignments (db_committed db)
        \<and> tt_reassignments (db_committed db') = tt_reassignments (db_committed db))
     \<or> (replacementCarriedOut (db_committed db) a e (db_committed db')
        \<and> \<not> transactionActive db'
        \<and> res = findControlledReplacement failing db' (ta_timerAssignmentId a))"
proof -
  obtain cur db1 where s: "assignmentSetRevisionForIntent (\<lambda>c. failing (ReSet 0 c)) db
      (ta_timerIntentId a) = (cur, db1)" by fastforce
  have run1: "timerRun db db1"
    using assignmentSetRevision_run [OF assms(2), of "\<lambda>c. failing (ReSet 0 c)" "ta_timerIntentId a"] s
    by simp
  have f1: "tt_assignments (db_committed db1) = tt_assignments (db_committed db)"
    "tt_reassignments (db_committed db1) = tt_reassignments (db_committed db)"
    "tt_intents (db_committed db1) = tt_intents (db_committed db)"
    "tt_bindings (db_committed db1) = tt_bindings (db_committed db)"
    "tt_operations (db_committed db1) = tt_operations (db_committed db)"
    using assignmentSetRevision_fields [of "\<lambda>c. failing (ReSet 0 c)" db "ta_timerIntentId a"]
    by (simp_all add: s)
  obtain ok t where i: "installExpectation failing (visibleTables db1) tok e = (ok, t)" by fastforce
  define w where "w = writeVisible t db1"
  have runw: "timerRun db w"
    unfolding w_def
    by (rule rtranclp_trans [OF run1 run_elsewhere]) (rule installExpectation_same [OF i])
  note fi = installExpectation_fields [OF i]
  have fw: "tt_assignments (db_committed w) = tt_assignments (db_committed db1)"
    "tt_reassignments (db_committed w) = tt_reassignments (db_committed db1)"
    "tt_intents (db_committed w) = tt_intents (db_committed db1)"
    "tt_bindings (db_committed w) = tt_bindings (db_committed db1)"
    "tt_operations (db_committed w) = tt_operations (db_committed db1)"
    by (cases "transactionActive db1"; simp add: w_def writeVisible_committed visible_begun fi)+
  obtain cre db2 where c: "createAssignment (\<lambda>c. failing (ReAssignment 3 c)) w a = (cre, db2)"
    by fastforce
  define db3 where "db3 = writeVisible (removeExpectation failing 2 (visibleTables db2)) db2"
  have f3: "tt_assignments (db_committed db3) = tt_assignments (db_committed db2)"
    "tt_reassignments (db_committed db3) = tt_reassignments (db_committed db2)"
    "transactionActive db3 = transactionActive db2"
    by (cases "transactionActive db2"; simp add: db3_def writeVisible_committed visible_begun)+
  obtain aft db4 where f: "assignmentSetRevisionForIntent (\<lambda>c. failing (ReSet 1 c)) db3
      (ta_timerIntentId a) = (aft, db4)" by fastforce
  have f4: "tt_assignments (db_committed db4) = tt_assignments (db_committed db3)"
    "tt_reassignments (db_committed db4) = tt_reassignments (db_committed db3)"
    using assignmentSetRevision_fields(1,2) [of "\<lambda>c. failing (ReSet 1 c)" db3 "ta_timerIntentId a"]
    unfolding f snd_conv .
  have refused: "db_committed db2 = db_committed w" if "ra_status cre \<noteq> AsgRepoOk"
    using createAssignmentImpl_refused [of "\<lambda>c. failing (ReAssignment 3 c)" w a False] c that
    by (simp add: createAssignment_def)
  consider (stopped) "cr_status res \<noteq> AsgRepoOk" "db' = db \<or> db' = db1 \<or> db' = w"
    | (failed) "cr_status res \<noteq> AsgRepoOk" "ra_status cre \<noteq> AsgRepoOk" "db' = db4"
    | (created) ok "ra_status cre = AsgRepoOk" "db' = db3"
      "res = findControlledReplacement failing db3 (ta_timerAssignmentId a)"
      "ta_timerAssignmentId a = ev_replacementTimerAssignmentId e"
    using assms(1)
    by (auto simp: createControlledReplacement_def s i c f Let_def w_def [symmetric]
        db3_def [symmetric] replacementStatusResult_def split: if_splits bool.splits
        simp del: One_nat_def)
  then show ?thesis
  proof cases
    case stopped
    then show ?thesis using f1 fw by auto
  next
    case failed
    then show ?thesis using f1 fw f3 f4 refused by auto
  next
    case created
    note soundw = timerRun_sound(1) [OF runw assms(2)]
    obtain d where d: "acceptedCreation (db_committed w) a d (db_committed db2)"
      "\<not> transactionActive w" "\<not> transactionActive db2"
      by (rule createAssignment_ok [OF c created(2) soundw])
    have "db_committed w = t"
      using d(2) by (simp add: w_def writeVisible_committed)
    moreover obtain v n where "parseSetRevisionToken (ev_oldAssignmentRevision e) = Some n"
      "tt_replacementExpectation t = TempRow (expectationRow v n e)"
      "tt_replacementBefore t" "tt_replacementAfter t"
      using i created(1) by (auto elim: installExpectation_True)
    moreover have "rowsSound (tt_assignments (db_committed w))"
      using soundw by (simp add: timerDbSound_def)
    ultimately have "replacementCarriedOut (db_committed w) a e (db_committed db2)"
      using d(1) created(5) by (intro carried_out) auto
    then have "replacementCarriedOut (db_committed db) a e (db_committed db3)"
      by (rule replacementCarriedOut_cong) (simp_all add: f1 fw f3)
    then show ?thesis using created d(3) f3(3) by simp
  qed
qed

lemma findControlledReplacement_Ok:
  assumes "cr_status (findControlledReplacement failing db i) = AsgRepoOk"
  obtains old new evidence where
    "cr_found (findControlledReplacement failing db i) = Some (old, new, evidence)"
    "\<exists>f. findAssignmentById f db i = assignmentResult AsgRepoOk new"
    "\<exists>f. findAssignmentById f db (ev_oldTimerAssignmentId evidence) = assignmentResult AsgRepoOk old"
    "\<exists>row \<in> set (tt_reassignments (visibleTables db)). rr_replacement_assignment_id row = i
       \<and> evidenceOfRow i row = Some evidence"
proof -
  have Ok: "findAssignmentById f db j = assignmentResult AsgRepoOk (ra_assignment (findAssignmentById f db j))"
    if "ra_status (findAssignmentById f db j) = AsgRepoOk" for f j
    using that by (cases "findAssignmentById f db j") (simp add: assignmentResult_def)
  obtain evidence where ev: "selectFirst (failing ReSelect) (\<lambda>row. rr_replacement_assignment_id row = i)
      (evidenceOfRow i) (tt_reassignments (visibleTables db)) = SelectFound evidence"
    and st: "ra_status (findAssignmentById (\<lambda>c. failing (ReAssignment 1 c)) db
        (ev_oldTimerAssignmentId evidence)) = AsgRepoOk"
      "ra_status (findAssignmentById (\<lambda>c. failing (ReAssignment 2 c)) db i) = AsgRepoOk"
    and found: "cr_found (findControlledReplacement failing db i) = Some
      (ra_assignment (findAssignmentById (\<lambda>c. failing (ReAssignment 1 c)) db
        (ev_oldTimerAssignmentId evidence)),
       ra_assignment (findAssignmentById (\<lambda>c. failing (ReAssignment 2 c)) db i), evidence)"
    using assms
    by (auto simp: findControlledReplacement_def replacementStatusResult_def Let_def
        split: if_splits select_result.splits)
  have "\<exists>row \<in> set (tt_reassignments (visibleTables db)). rr_replacement_assignment_id row = i
       \<and> evidenceOfRow i row = Some evidence"
    using ev find_Some_in by (fastforce simp: selectFirst_Found)
  then show thesis using that [OF found] Ok [OF st(1)] Ok [OF st(2)] by blast
qed


section \<open>Samples\<close>

definition secondAssignment :: timer_assignment where
  "secondAssignment = (sampleAssignment ''a2'' ''vdr2'' 300)\<lparr>ta_role := RoleReplacement\<rparr>"

definition sampleEvidence :: timer_assignment_reassignment_evidence where
  "sampleEvidence =
     \<lparr>ev_oldTimerAssignmentId = ''a1'', ev_oldAssignmentRevision = ''1'',
      ev_oldAssignmentEpoch = 1, ev_oldBackendId = ''vdr1'', ev_oldBackendGeneration = 7,
      ev_oldNativeOutcome = OutcomeBeforeDispatch, ev_oldOperationId = [],
      ev_oldOperationRevision = [], ev_oldNativeTimerBindingId = [], ev_oldBindingRevision = [],
      ev_reason = ''backend lost'', ev_replacementTimerAssignmentId = ''a2'',
      ev_newBackendId = ''vdr2'', ev_newBackendGeneration = 7, ev_newAssignmentEpoch = 0,
      ev_createdAt = 300\<rparr>"

definition oneReplaced :: "timer_tables database" where
  "oneReplaced =
     snd (createControlledReplacement noReplacementErrors oneAssignment secondAssignment ''1''
       sampleEvidence)"

definition tokenAssignment :: timer_assignment where
  "tokenAssignment = (sampleAssignment ''a3'' ''vdr3'' 300)\<lparr>ta_role := RoleReplica\<rparr>"

section \<open>Properties\<close>

text \<open>C3: An accepted creation against a set revision found, when it wrote, exactly the assignments of
  the intent that were committed when the revision was read: no call in between had added or
  changed one. The new assignment is among the committed ones afterwards.\<close>

theorem set_revision_fences_creation:
  assumes "timerDbSound db" and "\<not> transactionActive db"
    and "assignmentSetRevisionForIntent f db (ta_timerIntentId a) = (token, db1)"
    and "sr_status token = AsgRepoOk"
    and "timerCalls db1 db2"
    and "createAgainstAssignmentSetRevision g h db2 a (sr_assignmentSetRevision token) = (res, db3)"
    and "ra_status res = AsgRepoOk"
  shows "intentRows (ta_timerIntentId a) (tt_assignments (db_committed db2))
       = intentRows (ta_timerIntentId a) (tt_assignments (db_committed db))
     \<and> (\<exists>row \<in> set (tt_assignments (db_committed db3)).
          readAssignment row = Some (storedAssignment (ra_assignment res)))"
  using set_revision_fence(1,3) [OF assms(1-5) rtranclp.rtrancl_refl assms(6,7)] by blast

theorem set_revision_fences_creation_witness:
  "\<exists>row \<in> set (tt_assignments (db_committed (snd (createAgainstAssignmentSetRevision noSetErrors
        noAssignmentErrors (snd (assignmentSetRevisionForIntent noSetErrors oneAssignment ''i1''))
        tokenAssignment ''1'')))).
     readAssignment row = Some (storedAssignment (createdAssignment tokenAssignment 2))"
proof -
  have 1: "\<not> transactionActive oneAssignment" by code_simp
  have 2: "fst (assignmentSetRevisionForIntent noSetErrors oneAssignment ''i1'')
      = setRevisionResult AsgRepoOk ''1''" by code_simp
  have 3: "fst (createAgainstAssignmentSetRevision noSetErrors noAssignmentErrors
        (snd (assignmentSetRevisionForIntent noSetErrors oneAssignment ''i1'')) tokenAssignment ''1'')
      = assignmentResult AsgRepoOk (createdAssignment tokenAssignment 2)" by code_simp
  have i: "ta_timerIntentId tokenAssignment = ''i1''"
    by (simp add: tokenAssignment_def sampleAssignment_def)
  show ?thesis
    using set_revision_fences_creation [OF oneAssignment_sound 1, of noSetErrors tokenAssignment
        "setRevisionResult AsgRepoOk ''1''"
        "snd (assignmentSetRevisionForIntent noSetErrors oneAssignment ''i1'')"
        "snd (assignmentSetRevisionForIntent noSetErrors oneAssignment ''i1'')"
        noSetErrors noAssignmentErrors "assignmentResult AsgRepoOk (createdAssignment tokenAssignment 2)"]
      2 3
    by (simp add: i prod_eq_iff setRevisionResult_def)
qed

lemma controlled_replacement_effect:
  assumes "timerDbSound db" "createControlledReplacement failing db a tok e = (res, db')" "cr_status res = AsgRepoOk"
  shows "replacementCarriedOut (db_committed db) a e (db_committed db')"
    and "\<exists>old new evidence. cr_found res = Some (old, new, evidence)
      \<and> ta_timerAssignmentId new = ta_timerAssignmentId a
      \<and> findAssignmentById noAssignmentErrors db' (ta_timerAssignmentId a) = assignmentResult AsgRepoOk new"
proof -
  note cases = createControlledReplacement_cases [OF assms(2,1)]
  show "replacementCarriedOut (db_committed db) a e (db_committed db')" using cases assms(3) by blast
  have r: "res = findControlledReplacement failing db' (ta_timerAssignmentId a)" using cases assms(3) by simp
  obtain old new evidence h where f: "cr_found res = Some (old, new, evidence)"
    "findAssignmentById h db' (ta_timerAssignmentId a) = assignmentResult AsgRepoOk new"
    using findControlledReplacement_Ok [OF assms(3) [unfolded r]] unfolding r by metis
  obtain row where row: "assignmentRowOf (ta_timerAssignmentId a) (tt_assignments (visibleTables db'))
      = Some row" "readAssignment row = Some new" "ta_timerAssignmentId a \<noteq> []"
    "length (ta_timerAssignmentId a) \<le> 160"
    by (rule findAssignmentById_Ok [OF f(2)])
  have "timerCall db db'" using assms(2) callReplace [of db failing a tok e] by simp
  then have "timerDbSound db'" using timerCalls_sound [of db db'] assms(1) by blast
  note sound = timerDbSound_visible [OF this]
  from findAssignmentById_sound [OF sound row(3,4)] row(1,2)
  have "findAssignmentById noAssignmentErrors db' (ta_timerAssignmentId a) = assignmentResult AsgRepoOk new" by simp
  moreover have "ta_timerAssignmentId new = ta_timerAssignmentId a"
    using row(1) readAssignment_fields(3) [OF row(2)] by (simp add: assignmentRowOf_Some [OF sound])
  ultimately show "\<exists>old new evidence. cr_found res = Some (old, new, evidence)
      \<and> ta_timerAssignmentId new = ta_timerAssignmentId a
      \<and> findAssignmentById noAssignmentErrors db' (ta_timerAssignmentId a) = assignmentResult AsgRepoOk new"
    using f(1) by blast
qed

text \<open>C2: A controlled replacement happens as a whole or not at all. When it happens, the old owner is
  the one the evidence names, at the quoted revision, epoch, backend and generation, selected
  without a native timer or bound to one that a succeeded deletion left verified absent; it is
  closed, the replacement is stored under a later epoch, and the evidence is written. Otherwise
  assignments and evidence are as before. A reported success is a replacement that happened and
  can be looked up.\<close>

theorem controlled_replacement_all_or_nothing:
  assumes "timerDbSound db"
    and "createControlledReplacement failing db a tok e = (res, db')"
  shows "(replacementCarriedOut (db_committed db) a e (db_committed db')
        \<or> (cr_status res \<noteq> AsgRepoOk
           \<and> tt_assignments (db_committed db') = tt_assignments (db_committed db)
           \<and> tt_reassignments (db_committed db') = tt_reassignments (db_committed db)))
     \<and> (cr_status res = AsgRepoOk \<longrightarrow> (\<exists>old new evidence. cr_found res = Some (old, new, evidence)
          \<and> findAssignmentById noAssignmentErrors db' (ta_timerAssignmentId a)
              = assignmentResult AsgRepoOk new))"
  using createControlledReplacement_cases [OF assms(2,1)] controlled_replacement_effect(2) [OF assms] by blast

theorem controlled_replacement_all_or_nothing_witness:
  "replacementCarriedOut (db_committed oneAssignment) secondAssignment sampleEvidence
     (db_committed oneReplaced)"
proof -
  have "cr_status (fst (createControlledReplacement noReplacementErrors oneAssignment secondAssignment
      ''1'' sampleEvidence)) = AsgRepoOk"
    by code_simp
  with controlled_replacement_all_or_nothing [OF oneAssignment_sound, of noReplacementErrors
      secondAssignment "''1''" sampleEvidence "fst (createControlledReplacement noReplacementErrors
        oneAssignment secondAssignment ''1'' sampleEvidence)" oneReplaced]
  show ?thesis by (simp add: oneReplaced_def)
qed

end
