(* ===== verification/KeysetPages.thy ===== *)
theory KeysetPages
  imports Prelude
begin

text \<open>
  Pages of a keyset cursor, as a locale: a page holds the eligible rows with the least keys above
  the cursor. Two clients are proved once: the poll that moves its cursor behind each page and
  starts over at an empty one visits every row that stays eligible, and the reader that follows
  the pages to the last one misses no row that was there all along. The freshness poll of the
  bindings and the assignment listing of a backend interpret it.
\<close>

section \<open>The page of a table\<close>

lemma keyset_page:
  fixes key :: "'r \<Rightarrow> 'k :: linorder"
  assumes "distinct (map key rows)" and page_def: "page = take n (sort_key key (filter P rows))"
  shows "set page \<subseteq> set (filter P rows)" and "sorted_wrt (<) (map key page)"
    and "r \<in> set rows \<Longrightarrow> P r \<Longrightarrow> r \<notin> set page \<Longrightarrow> length page = n \<and> (\<forall>p \<in> set page. key p < key r)"
proof -
  let ?all = "sort_key key (filter P rows)"
  have d: "distinct (map key ?all)" and s: "sorted (map key ?all)"
  proof -
    have "distinct (map key (filter P rows))" using assms(1) by (rule distinct_map_filter)
    then show "distinct (map key ?all)" by (simp add: distinct_map)
  qed simp
  then have strict: "sorted_wrt (<) (map key ?all)" by (simp add: strict_sorted_iff)
  then show "sorted_wrt (<) (map key page)"
    unfolding page_def take_map [symmetric] by (rule sorted_wrt_take)
  show "set page \<subseteq> set (filter P rows)" unfolding page_def using set_take_subset [of n ?all] by simp
  assume r: "r \<in> set rows" "P r" "r \<notin> set page"
  then have "r \<in> set ?all" by simp
  then have rest: "r \<in> set (drop n ?all)"
    using r(3) append_take_drop_id [of n ?all] unfolding page_def by (metis Un_iff set_append)
  have "map key ?all = map key page @ map key (drop n ?all)"
    by (metis append_take_drop_id map_append page_def)
  then have "\<forall>p \<in> set page. key p < key r"
    using strict rest by (auto simp: sorted_wrt_append)
  moreover have "length page = n"
    using rest unfolding page_def by (cases "n \<le> length ?all") auto
  ultimately show "length page = n \<and> (\<forall>p \<in> set page. key p < key r)" by simp
qed

section \<open>Polling\<close>

text \<open>The poll: the cursor of each round, in the order the rounds see the store.\<close>

primrec pollCursor :: "('s \<Rightarrow> 'k \<Rightarrow> 'r list) \<Rightarrow> ('r \<Rightarrow> 'k) \<Rightarrow> 'k \<Rightarrow> (nat \<Rightarrow> 's) \<Rightarrow> 'k \<Rightarrow> nat \<Rightarrow> 'k" where
  "pollCursor page key start stores c 0 = c"
| "pollCursor page key start stores c (Suc k) =
     (let rows = page (stores k) (pollCursor page key start stores c k)
      in if rows = [] then start else key (last rows))"

locale keyset_pages =
  fixes page :: "'s \<Rightarrow> 'k :: linorder \<Rightarrow> 'r list" and key :: "'r \<Rightarrow> 'k"
    and eligible :: "'s \<Rightarrow> 'r \<Rightarrow> bool" and ok :: "'s \<Rightarrow> 'k \<Rightarrow> bool"
  assumes page_sound: "ok s c \<Longrightarrow> r \<in> set (page s c) \<Longrightarrow> eligible s r \<and> c < key r"
    and page_sorted: "ok s c \<Longrightarrow> sorted_wrt (<) (map key (page s c))"
    and page_complete: "ok s c \<Longrightarrow> eligible s r \<Longrightarrow> c < key r \<Longrightarrow> r \<notin> set (page s c) \<Longrightarrow>
      page s c \<noteq> [] \<and> (\<forall>p \<in> set (page s c). key p < key r)"
begin

lemma last_above: "ok s c \<Longrightarrow> page s c \<noteq> [] \<Longrightarrow> c < key (last (page s c))"
  using page_sound [of s c "last (page s c)"] by simp

lemma last_greatest:
  assumes "ok s c" "r \<in> set (page s c)"
  shows "key r \<le> key (last (page s c))"
proof -
  have ne: "page s c \<noteq> []" using assms(2) by auto
  have "sorted_wrt (<) (map key (butlast (page s c) @ [last (page s c)]))"
    using page_sorted [OF assms(1)] ne by simp
  moreover have "r \<in> set (butlast (page s c)) \<or> r = last (page s c)"
    using assms(2) ne append_butlast_last_id [OF ne] by (metis rotate1.simps(2) set_ConsD set_rotate1)
  ultimately show ?thesis by (auto simp: sorted_wrt_append intro: less_imp_le)
qed

text \<open>Every round that does not visit the row brings the cursor closer to it.\<close>

lemma poll_visits:
  assumes K: "finite K" "\<And>k r. eligible (stores k) r \<Longrightarrow> key r \<in> K"
    and stays: "\<And>k. k < bound \<Longrightarrow> \<exists>r. eligible (stores k) r \<and> key r = i"
    and oks: "\<And>k. ok (stores k) (pollCursor page key start stores c k)"
    and start: "start < i"
    and bound: "2 * card K \<le> bound" "0 < bound"
  shows "\<exists>k < bound. \<exists>r \<in> set (page (stores k) (pollCursor page key start stores c k)). key r = i"
proof (rule ccontr)
  assume never: "\<not> ?thesis"
  let ?c = "pollCursor page key start stores c"
  define m where "m x = (if x < i then card {y \<in> K. x < y \<and> y < i}
      else card {y \<in> K. x < y} + 1 + card {y \<in> K. y < i})" for x
  have step: "m (?c (Suc k)) < m (?c k)" if k: "k < bound" for k
  proof -
    let ?p = "page (stores k) (?c k)"
    have okk: "ok (stores k) (?c k)" by (rule oks)
    obtain r where r: "eligible (stores k) r" "key r = i" using stays [OF k] by blast
    have unseen: "r \<notin> set ?p" using never k r(2) by blast
    have inK: "?p \<noteq> [] \<Longrightarrow> key (last ?p) \<in> K"
      using page_sound [OF okk, of "last ?p"] K(2) [of k "last ?p"] by simp
    show ?thesis
    proof (cases "?c k < i")
      case True
      have p: "?p \<noteq> []" "key (last ?p) < i"
        using page_complete [OF okk r(1)] True r(2) unseen by auto
      have "{y \<in> K. key (last ?p) < y \<and> y < i} \<subset> {y \<in> K. ?c k < y \<and> y < i}"
        using last_above [OF okk p(1)] inK [OF p(1)] p(2) by auto
      then have "card {y \<in> K. key (last ?p) < y \<and> y < i} < card {y \<in> K. ?c k < y \<and> y < i}"
        using K(1) by (intro psubset_card_mono) auto
      then show ?thesis using True p by (simp add: m_def Let_def)
    next
      case False
      show ?thesis
      proof (cases "?p = []")
        case True
        have "card {y \<in> K. start < y \<and> y < i} \<le> card {y \<in> K. y < i}"
          using K(1) by (intro card_mono) auto
        then show ?thesis using True False start by (simp add: m_def Let_def)
      next
        case p: False
        have up: "?c k < key (last ?p)" by (rule last_above [OF okk p])
        then have "{y \<in> K. key (last ?p) < y} \<subset> {y \<in> K. ?c k < y}" using inK [OF p] by auto
        then have "card {y \<in> K. key (last ?p) < y} < card {y \<in> K. ?c k < y}"
          using K(1) by (intro psubset_card_mono) auto
        moreover have "\<not> key (last ?p) < i" using False up by auto
        ultimately show ?thesis using False p by (simp add: m_def Let_def)
      qed
    qed
  qed
  have down: "k \<le> bound \<Longrightarrow> m (?c k) + k \<le> m (?c 0)" for k
  proof (induction k)
    case (Suc k)
    then show ?case using step [of k] by linarith
  qed simp
  have i: "i \<in> K" using stays [OF bound(2)] K(2) by blast
  have "m (?c 0) < 2 * card K"
  proof -
    have pos: "card K > 0" using i K(1) by (auto simp: card_gt_0_iff)
    have less: "card {y \<in> K. Q y} \<le> card K - 1" if "\<not> Q i" for Q
    proof -
      have "card {y \<in> K. Q y} \<le> card (K - {i})" using that K(1) by (intro card_mono) auto
      then show ?thesis using i K(1) by simp
    qed
    have "card {y \<in> K. c < y \<and> y < i} \<le> card K - 1" "card {y \<in> K. y < i} \<le> card K - 1"
      "\<not> c < i \<Longrightarrow> card {y \<in> K. c < y} \<le> card K - 1"
      by (rule less, simp)+
    then show ?thesis using pos by (auto simp: m_def)
  qed
  moreover have "m (?c bound) + bound \<le> m (?c 0)" by (rule down) simp
  ultimately show False using bound by auto
qed

end

section \<open>Reading to the last page\<close>

text \<open>
  A reader follows the pages while more rows are announced, from the last key of each page; the
  store may change between two pages, and \<open>fuel\<close> pages are read at most.
\<close>

fun readPages ::
  "('s \<Rightarrow> 'k \<Rightarrow> ('r list \<times> bool) option) \<Rightarrow> ('r \<Rightarrow> 'k) \<Rightarrow> (nat \<Rightarrow> 's) \<Rightarrow> nat \<Rightarrow> nat \<Rightarrow> 'k
     \<Rightarrow> 'r list option" where
  "readPages fetch key stores n 0 c = None"
| "readPages fetch key stores n (Suc fuel) c =
     (case fetch (stores n) c of
        None \<Rightarrow> None
      | Some (rows, more) \<Rightarrow>
          if \<not> more then Some rows
          else map_option ((@) rows)
            (readPages fetch key stores (Suc n) fuel (key (last rows))))"

locale keyset_reader = keyset_pages page key eligible ok
  for page :: "'s \<Rightarrow> 'k :: linorder \<Rightarrow> 'r list" and key eligible ok +
  fixes fetch :: "'s \<Rightarrow> 'k \<Rightarrow> ('r list \<times> bool) option"
  assumes fetch_page: "ok s c \<Longrightarrow> \<exists>more. fetch s c = Some (page s c, more)
      \<and> (more \<longrightarrow> page s c \<noteq> [] \<and> (\<exists>r. eligible s r \<and> r \<notin> set (page s c) \<and> c < key r))
      \<and> (\<not> more \<longrightarrow> (\<forall>r. eligible s r \<longrightarrow> c < key r \<longrightarrow> r \<in> set (page s c)))"
    and ok_next: "ok s c \<Longrightarrow> r \<in> set (page s c) \<Longrightarrow> ok s' c' \<Longrightarrow> ok s' (key r)"
begin

text \<open>What is read is in order, was eligible at its page, and misses no row that stays.\<close>

lemma read_sound:
  assumes "readPages fetch key stores n fuel c = Some rows"
    and "\<And>k. ok (stores k) c"
  shows "sorted_wrt (<) (map key rows) \<and> (\<forall>r \<in> set rows. c < key r \<and> (\<exists>k. eligible (stores k) r))
     \<and> (\<forall>i. c < i \<longrightarrow> (\<forall>k. \<exists>r. eligible (stores k) r \<and> key r = i) \<longrightarrow> (\<exists>r \<in> set rows. key r = i))"
  using assms
proof (induction fuel arbitrary: n c rows)
  case 0
  then show ?case by simp
next
  case (Suc fuel)
  let ?p = "page (stores n) c"
  have okn: "ok (stores n) c" by (rule Suc.prems(2))
  obtain more where f: "fetch (stores n) c = Some (?p, more)"
      "more \<longrightarrow> ?p \<noteq> []" "\<not> more \<longrightarrow> (\<forall>r. eligible (stores n) r \<longrightarrow> c < key r \<longrightarrow> r \<in> set ?p)"
    using fetch_page [OF okn] by blast
  note ps = page_sorted [OF okn] page_sound [OF okn]
  show ?case
  proof (cases more)
    case False
    then have "rows = ?p" using Suc.prems(1) f(1) by simp
    then show ?thesis using ps f(3) False by blast
  next
    case True
    let ?c = "key (last ?p)"
    obtain rest where rest: "readPages fetch key stores (Suc n) fuel ?c = Some rest" "rows = ?p @ rest"
      using Suc.prems(1) f(1) True by auto
    have ne: "?p \<noteq> []" using f(2) True by simp
    have oks: "ok (stores k) ?c" for k
      using ok_next [OF okn, of "last ?p" "stores k" c] ne Suc.prems(2) by simp
    note ih = Suc.IH [OF rest(1) oks]
    have up: "c < ?c" by (rule last_above [OF okn ne])
    have "sorted_wrt (<) (map key rows)"
      using ps(1) ih last_greatest [OF okn]
      by (auto simp: rest(2) sorted_wrt_append intro: le_less_trans)
    moreover have "\<forall>r \<in> set rows. c < key r \<and> (\<exists>k. eligible (stores k) r)"
      using ih ps(2) up by (auto simp: rest(2))
    moreover have "\<exists>r \<in> set rows. key r = i"
      if i: "c < i" "\<forall>k. \<exists>r. eligible (stores k) r \<and> key r = i" for i
    proof (cases "?c < i")
      case True
      then show ?thesis using ih i(2) by (auto simp: rest(2))
    next
      case False
      obtain r where r: "eligible (stores n) r" "key r = i" using i(2) by blast
      have "r \<in> set ?p"
      proof (rule ccontr)
        assume "r \<notin> set ?p"
        then have "key (last ?p) < i"
          using page_complete [OF okn r(1)] i(1) r(2) ne by auto
        then show False using False by simp
      qed
      then show ?thesis using r(2) by (auto simp: rest(2))
    qed
    ultimately show ?thesis by blast
  qed
qed

text \<open>When nothing changes, as many pages as there are rows above the cursor, and one, suffice.\<close>

lemma read_ends:
  assumes "ok s c" "finite {r. eligible s r \<and> c < key r}"
    and "card {r. eligible s r \<and> c < key r} < fuel"
  shows "\<exists>rows. readPages fetch key (\<lambda>_. s) n fuel c = Some rows"
  using assms
proof (induction fuel arbitrary: n c)
  case 0
  then show ?case by simp
next
  case (Suc fuel)
  let ?p = "page s c" and ?E = "\<lambda>c. {r. eligible s r \<and> c < key r}"
  obtain more where f: "fetch s c = Some (?p, more)" "more \<longrightarrow> ?p \<noteq> []"
    using fetch_page [OF Suc.prems(1)] by blast
  show ?case
  proof (cases more)
    case False
    then show ?thesis using f by simp
  next
    case True
    let ?c = "key (last ?p)"
    have ne: "?p \<noteq> []" using f True by simp
    have last: "eligible s (last ?p)" "c < ?c"
      using page_sound [OF Suc.prems(1), of "last ?p"] ne by simp_all
    then have sub: "?E ?c \<subset> ?E c" by (auto intro: less_trans)
    have fin: "finite (?E ?c)" by (rule finite_subset [OF psubset_imp_subset [OF sub] Suc.prems(2)])
    have "card (?E ?c) < card (?E c)" by (rule psubset_card_mono [OF Suc.prems(2) sub])
    then have less: "card (?E ?c) < fuel" using Suc.prems(3) by simp
    have ok': "ok s ?c"
      using ne by (intro ok_next [OF Suc.prems(1) _ Suc.prems(1)]) simp
    obtain rows where "readPages fetch key (\<lambda>_. s) (Suc n) fuel ?c = Some rows"
      using Suc.IH [OF ok' fin less] by blast
    then show ?thesis using f True by simp
  qed
qed

end

end
