(* ===== verification/TimerAssignmentReadService.thy ===== *)
theory TimerAssignmentReadService
  imports KeysetPages AssignmentProperties
begin

text \<open>
  The read-only facade over stored assignments
  (\<open>core/timers/src/TimerAssignmentReadService.cpp\<close>): a lookup that answers only for the backend
  the caller may see, and the page of one backend's assignments behind a cursor. Lemmas: on sound
  tables a page is exactly the next assignments of the backend, so the facade is a
  \<open>keyset_reader\<close>: following its pages ends, and misses no assignment.
\<close>

section \<open>The service\<close>

datatype timer_assignment_read_status =
  AsgReadOk | AsgReadInvalid | AsgReadNotFound | AsgReadStorageError

record timer_assignment_read_result =
  rd_status :: timer_assignment_read_status
  rd_assignment :: timer_assignment

datatype timer_assignment_collection_read_status =
  AsgPageOk | AsgPageInvalid | AsgPageStorageError

record timer_assignment_collection_read_result =
  cr_pageStatus :: timer_assignment_collection_read_status
  cr_assignments :: "timer_assignment list"
  cr_hasMore :: bool

definition readResult ::
  "timer_assignment_read_status \<Rightarrow> timer_assignment \<Rightarrow> timer_assignment_read_result" where
  "readResult status assignment = \<lparr>rd_status = status, rd_assignment = assignment\<rparr>"

definition findForBackend ::
  "(assignment_call \<Rightarrow> bool) \<Rightarrow> timer_tables database \<Rightarrow> string \<Rightarrow> string
     \<Rightarrow> timer_assignment_read_result" where
  "findForBackend failing db timerAssignmentId backendId =
     (if timerAssignmentId = [] \<or> backendId = []
      then readResult AsgReadInvalid emptyTimerAssignment
      else (let found = findAssignmentById failing db timerAssignmentId
            in if ra_status found = AsgRepoInvalid
               then readResult AsgReadInvalid emptyTimerAssignment
               else if ra_status found = AsgRepoNotFound
               then readResult AsgReadNotFound emptyTimerAssignment
               else if ra_status found \<noteq> AsgRepoOk
               then readResult AsgReadStorageError emptyTimerAssignment
               else if ta_backendId (ra_assignment found) \<noteq> backendId
               then readResult AsgReadNotFound emptyTimerAssignment
               else readResult AsgReadOk (ra_assignment found)))"

abbreviation kMaximumPublicLimit :: nat where
  "kMaximumPublicLimit \<equiv> 100"

text \<open>The check of a page: one backend, identifiers strictly ascending behind the cursor.\<close>

fun pageInOrder :: "string \<Rightarrow> string \<Rightarrow> timer_assignment list \<Rightarrow> bool" where
  "pageInOrder backendId previous [] = True"
| "pageInOrder backendId previous (assignment # rest) =
     (if ta_backendId assignment \<noteq> backendId \<or> ta_timerAssignmentId assignment = []
        \<or> (previous \<noteq> [] \<and> ta_timerAssignmentId assignment \<le> previous) then False
      else pageInOrder backendId (ta_timerAssignmentId assignment) rest)"

definition listForBackend ::
  "(assignment_call \<Rightarrow> bool) \<Rightarrow> timer_tables database \<Rightarrow> string \<Rightarrow> string \<Rightarrow> nat
     \<Rightarrow> timer_assignment_collection_read_result" where
  "listForBackend failing db backendId afterTimerAssignmentId limit =
     (let failed = (\<lambda>status. \<lparr>cr_pageStatus = status, cr_assignments = [], cr_hasMore = False\<rparr>)
      in if backendId = [] \<or> limit = 0 \<or> limit > kMaximumPublicLimit then failed AsgPageInvalid
         else (let listed = listForBackendAfter failing db backendId afterTimerAssignmentId
                      (limit + 1)
               in if rl_status listed = AsgRepoInvalid then failed AsgPageInvalid
                  else if rl_status listed \<noteq> AsgRepoOk then failed AsgPageStorageError
                  else if \<not> pageInOrder backendId afterTimerAssignmentId (rl_assignments listed)
                  then failed AsgPageStorageError
                  else \<lparr>cr_pageStatus = AsgPageOk,
                        cr_assignments = take limit (rl_assignments listed),
                        cr_hasMore = length (rl_assignments listed) > limit\<rparr>))"

section \<open>What a page holds\<close>

lemma readAssignments_sound:
  assumes "\<forall>r \<in> set rows. readAssignment r \<noteq> None"
  shows "readAssignments rows = Some (map (\<lambda>r. the (readAssignment r)) rows)"
  using assms by (induction rows) auto

definition backendRows :: "string \<Rightarrow> string \<Rightarrow> assignment_row list \<Rightarrow> assignment_row list" where
  "backendRows b c rows =
     sort_key ar_timer_assignment_id
       (filter (\<lambda>r. ar_backend_id r = b \<and> c < ar_timer_assignment_id r) rows)"

lemma read_identity:
  assumes "readAssignment r = Some a"
  shows "ar_timer_assignment_id r \<noteq> []" "length (ar_timer_assignment_id r) \<le> 160"
    "ta_timerAssignmentId a = ar_timer_assignment_id r" "ta_backendId a = ar_backend_id r"
  using readAssignment_fields(1,3,9) [OF assms]
  by (auto simp: timerAssignmentValid_def nonEmptyBounded_def bounded_def split: if_splits)

lemma Nil_less_iff [simp]: "([] :: string) < s \<longleftrightarrow> s \<noteq> []"
  by (cases s) simp_all

lemma listForBackendAfter_sound:
  assumes "rowsSound (tt_assignments (visibleTables db))"
    and "safeTimerIdentity b" "c = [] \<or> safeTimerIdentity c" "0 < n" "n \<le> 101"
  shows "listForBackendAfter noAssignmentErrors db b c n =
     \<lparr>rl_status = AsgRepoOk, rl_assignments = map (\<lambda>r. the (readAssignment r))
        (take n (backendRows b c (tt_assignments (visibleTables db))))\<rparr>"
proof -
  let ?rows = "tt_assignments (visibleTables db)"
  have sound: "\<forall>r \<in> set ?rows. readAssignment r \<noteq> None"
    using assms(1) by (auto simp: rowsSound_def rowSound_def)
  then have ids: "\<forall>r \<in> set ?rows. ar_timer_assignment_id r \<noteq> []" using read_identity(1) by blast
  have filt: "filter (\<lambda>row. ar_backend_id row = b \<and> (c \<noteq> [] \<longrightarrow> c < ar_timer_assignment_id row)) ?rows =
      filter (\<lambda>r. ar_backend_id r = b \<and> c < ar_timer_assignment_id r) ?rows"
    using ids by (intro filter_cong [OF refl]) auto
  have "\<forall>r \<in> set (take n (backendRows b c ?rows)). readAssignment r \<noteq> None"
    using sound by (auto simp: backendRows_def dest: in_set_takeD)
  note list = readAssignments_sound [OF this]
  have "listForBackendAfter noAssignmentErrors db b c n =
      assignmentListResult False (take n (backendRows b c ?rows))"
    unfolding listForBackendAfter_def filt backendRows_def
    using assms(2-5) by (auto simp: noAssignmentErrors_def)
  then show ?thesis by (simp add: assignmentListResult_def list)
qed

lemma pageInOrder_sorted:
  assumes "sorted_wrt (<) (map ta_timerAssignmentId as)"
    and "\<forall>a \<in> set as. ta_backendId a = b \<and> p < ta_timerAssignmentId a"
  shows "pageInOrder b p as"
  using assms
proof (induction as arbitrary: p)
  case Nil
  then show ?case by simp
next
  case (Cons a as)
  have "sorted_wrt (<) (map ta_timerAssignmentId as)"
    "\<forall>x \<in> set as. ta_backendId x = b \<and> ta_timerAssignmentId a < ta_timerAssignmentId x"
    using Cons.prems by simp_all
  then have rest: "pageInOrder b (ta_timerAssignmentId a) as" by (rule Cons.IH)
  have a: "ta_backendId a = b" "p < ta_timerAssignmentId a" using Cons.prems(2) by simp_all
  then have "ta_timerAssignmentId a \<noteq> []" "\<not> ta_timerAssignmentId a \<le> p"
    by (auto simp: not_le)
  then show ?case using a(1) rest by simp
qed

definition pageRequest :: "string \<Rightarrow> nat \<Rightarrow> timer_tables database \<Rightarrow> string \<Rightarrow> bool" where
  "pageRequest b limit db c \<longleftrightarrow>
     rowsSound (tt_assignments (visibleTables db)) \<and> safeTimerIdentity b
     \<and> (c = [] \<or> safeTimerIdentity c) \<and> 0 < limit \<and> limit \<le> 100"

definition assignmentPage :: "string \<Rightarrow> nat \<Rightarrow> timer_tables database \<Rightarrow> string \<Rightarrow> timer_assignment list" where
  "assignmentPage b limit db c = map (\<lambda>r. the (readAssignment r))
     (take limit (backendRows b c (tt_assignments (visibleTables db))))"

definition assignmentsOf :: "string \<Rightarrow> timer_tables database \<Rightarrow> timer_assignment \<Rightarrow> bool" where
  "assignmentsOf b db a \<longleftrightarrow>
     (\<exists>r \<in> set (tt_assignments (visibleTables db)). readAssignment r = Some a \<and> ar_backend_id r = b)"

lemma backendRows_sound:
  assumes "rowsSound rows"
  shows "sorted_wrt (<) (map ar_timer_assignment_id (take n (backendRows b c rows)))"
    and "r \<in> set (take n (backendRows b c rows)) \<Longrightarrow> r \<in> set rows \<and> ar_backend_id r = b
      \<and> c < ar_timer_assignment_id r \<and> readAssignment r = Some (the (readAssignment r))"
    and "map ta_timerAssignmentId (map (\<lambda>r. the (readAssignment r)) (take n (backendRows b c rows)))
      = map ar_timer_assignment_id (take n (backendRows b c rows))"
    and "r \<in> set rows \<Longrightarrow> ar_backend_id r = b \<Longrightarrow> c < ar_timer_assignment_id r \<Longrightarrow>
      r \<notin> set (take n (backendRows b c rows)) \<Longrightarrow>
      length (take n (backendRows b c rows)) = n
        \<and> (\<forall>p \<in> set (take n (backendRows b c rows)). ar_timer_assignment_id p < ar_timer_assignment_id r)"
proof -
  have d: "distinct (map ar_timer_assignment_id rows)"
    using assms by (intro keysSound_distinct(1)) (simp add: rowsSound_def)
  note p = keyset_page [OF d refl, where n = n
    and P = "\<lambda>r. ar_backend_id r = b \<and> c < ar_timer_assignment_id r", folded backendRows_def]
  show "sorted_wrt (<) (map ar_timer_assignment_id (take n (backendRows b c rows)))" by (rule p(2))
  have in_page: "r \<in> set (take n (backendRows b c rows)) \<Longrightarrow> r \<in> set rows \<and> ar_backend_id r = b
      \<and> c < ar_timer_assignment_id r \<and> readAssignment r = Some (the (readAssignment r))" for r
    using p(1) assms by (force simp: rowsSound_def rowSound_def)
  then show "r \<in> set (take n (backendRows b c rows)) \<Longrightarrow> r \<in> set rows \<and> ar_backend_id r = b
      \<and> c < ar_timer_assignment_id r \<and> readAssignment r = Some (the (readAssignment r))" .
  show "map ta_timerAssignmentId (map (\<lambda>r. the (readAssignment r)) (take n (backendRows b c rows)))
      = map ar_timer_assignment_id (take n (backendRows b c rows))"
    using in_page read_identity(3) by auto
  show "r \<in> set rows \<Longrightarrow> ar_backend_id r = b \<Longrightarrow> c < ar_timer_assignment_id r \<Longrightarrow>
      r \<notin> set (take n (backendRows b c rows)) \<Longrightarrow>
      length (take n (backendRows b c rows)) = n
        \<and> (\<forall>p \<in> set (take n (backendRows b c rows)). ar_timer_assignment_id p < ar_timer_assignment_id r)"
    using p(3) by simp
qed

text \<open>On sound tables the facade answers with the page, and announces more exactly when there is.\<close>

lemma listForBackend_sound:
  assumes "pageRequest b limit db c"
  shows "listForBackend noAssignmentErrors db b c limit =
     \<lparr>cr_pageStatus = AsgPageOk, cr_assignments = assignmentPage b limit db c,
      cr_hasMore = length (backendRows b c (tt_assignments (visibleTables db))) > limit\<rparr>"
proof -
  let ?rows = "tt_assignments (visibleTables db)"
  note a = assms [unfolded pageRequest_def]
  let ?page = "map (\<lambda>r. the (readAssignment r)) (take (limit + 1) (backendRows b c ?rows))"
  have l: "listForBackendAfter noAssignmentErrors db b c (limit + 1) =
      \<lparr>rl_status = AsgRepoOk, rl_assignments = ?page\<rparr>"
    using a by (intro listForBackendAfter_sound) auto
  have s: "rowsSound ?rows" using a by simp
  have "pageInOrder b c ?page"
  proof (rule pageInOrder_sorted)
    show "sorted_wrt (<) (map ta_timerAssignmentId ?page)"
      using backendRows_sound(1,3) [OF s] by metis
    show "\<forall>a \<in> set ?page. ta_backendId a = b \<and> c < ta_timerAssignmentId a"
      using backendRows_sound(2) [OF s] read_identity(3,4) by fastforce
  qed
  moreover have "b \<noteq> []" using a by (simp add: safeTimerIdentity_def)
  ultimately show ?thesis
    using a l by (auto simp: listForBackend_def Let_def assignmentPage_def take_map min_def)
qed

definition fetchPage ::
  "string \<Rightarrow> nat \<Rightarrow> timer_tables database \<Rightarrow> string \<Rightarrow> (timer_assignment list \<times> bool) option" where
  "fetchPage b limit db c =
     (let page = listForBackend noAssignmentErrors db b c limit
      in if cr_pageStatus page = AsgPageOk then Some (cr_assignments page, cr_hasMore page)
         else None)"

interpretation assignment_pages: keyset_reader "assignmentPage b limit" ta_timerAssignmentId
  "assignmentsOf b" "pageRequest b limit" "fetchPage b limit" for b limit
proof unfold_locales
  fix db c a
  assume ok: "pageRequest b limit db c"
  let ?rows = "tt_assignments (visibleTables db)" and ?page = "assignmentPage b limit db c"
  have s: "rowsSound ?rows" and pos: "0 < limit" using ok by (simp_all add: pageRequest_def)
  note br = backendRows_sound [OF s, where b = b and c = c and n = limit]
  show sound: "assignmentsOf b db a \<and> c < ta_timerAssignmentId a" if "a \<in> set ?page"
    using that br(2) read_identity(3) by (fastforce simp: assignmentPage_def assignmentsOf_def)
  show "sorted_wrt (<) (map ta_timerAssignmentId ?page)"
    using br(1,3) unfolding assignmentPage_def by metis
  have complete: "length ?page = limit \<and> (\<forall>p \<in> set ?page. ta_timerAssignmentId p < ta_timerAssignmentId a')"
    if of_b: "assignmentsOf b db a'" and "c < ta_timerAssignmentId a'" "a' \<notin> set ?page" for a'
  proof -
    obtain r where r: "r \<in> set ?rows" "readAssignment r = Some a'" "ar_backend_id r = b"
      using of_b unfolding assignmentsOf_def by blast
    have "r \<notin> set (take limit (backendRows b c ?rows))"
      using that(3) r(2) by (force simp: assignmentPage_def)
    from br(4) [OF r(1,3) _ this] that(2) read_identity(3) [OF r(2)]
    have "length ?page = limit" "\<forall>p \<in> set (take limit (backendRows b c ?rows)).
        ar_timer_assignment_id p < ta_timerAssignmentId a'" by (simp_all add: assignmentPage_def)
    then show ?thesis using br(2) read_identity(3) by (fastforce simp: assignmentPage_def)
  qed
  then show "?page \<noteq> [] \<and> (\<forall>p \<in> set ?page. ta_timerAssignmentId p < ta_timerAssignmentId a)"
    if "assignmentsOf b db a" "c < ta_timerAssignmentId a" "a \<notin> set ?page"
    using that pos by force
  let ?all = "backendRows b c ?rows"
  have f: "fetchPage b limit db c = Some (?page, length ?all > limit)"
    by (simp add: fetchPage_def listForBackend_sound [OF ok])
  have more: "?page \<noteq> [] \<and> (\<exists>a. assignmentsOf b db a \<and> a \<notin> set ?page \<and> c < ta_timerAssignmentId a)"
    if "length ?all > limit"
  proof -
    let ?r = "?all ! limit"
    have r: "?r \<in> set ?all" using that by simp
    then have rr: "?r \<in> set ?rows" "ar_backend_id ?r = b" "c < ar_timer_assignment_id ?r"
      by (auto simp: backendRows_def)
    then obtain a where a: "readAssignment ?r = Some a" using s by (auto simp: rowsSound_def rowSound_def)
    have "sorted_wrt (<) (map ar_timer_assignment_id ?all)"
      using backendRows_sound(1) [OF s, of "length ?all" b c] by simp
    then have "?all ! i \<noteq> ?r" if "i < limit" for i
      using that \<open>length ?all > limit\<close> sorted_wrt_nth_less [of "(<)" "map ar_timer_assignment_id ?all" i limit]
      by auto
    then have below: "ar_timer_assignment_id x < ar_timer_assignment_id ?r" if "x \<in> set (take limit ?all)" for x
      using that \<open>length ?all > limit\<close> \<open>sorted_wrt (<) (map ar_timer_assignment_id ?all)\<close>
        sorted_wrt_nth_less [of "(<)" "map ar_timer_assignment_id ?all" _ limit]
      by (fastforce simp: in_set_conv_nth)
    have "a \<notin> set ?page"
    proof
      assume "a \<in> set ?page"
      then obtain x where x: "x \<in> set (take limit ?all)" "a = the (readAssignment x)"
        by (auto simp: assignmentPage_def)
      have "readAssignment x = Some a" using br(2) [OF x(1)] x(2) by simp
      then show False
        using below [OF x(1)] read_identity(3) [OF a] read_identity(3) [of x a] by simp
    qed
    moreover have "?page \<noteq> []" using that pos by (auto simp: assignmentPage_def)
    ultimately show ?thesis
      using rr a read_identity(3) [OF a] by (auto simp: assignmentsOf_def)
  qed
  have less: "a \<in> set ?page"
    if "\<not> length ?all > limit" and of_b: "assignmentsOf b db a" and "c < ta_timerAssignmentId a" for a
  proof -
    obtain r where r: "r \<in> set ?rows" "readAssignment r = Some a" "ar_backend_id r = b"
      using of_b unfolding assignmentsOf_def by blast
    then have "r \<in> set ?all" using that(3) read_identity(3) [OF r(2)] by (simp add: backendRows_def)
    then show ?thesis using that(1) r(2) by (force simp: assignmentPage_def)
  qed
  show "\<exists>more. fetchPage b limit db c = Some (?page, more)
      \<and> (more \<longrightarrow> ?page \<noteq> [] \<and> (\<exists>r. assignmentsOf b db r \<and> r \<notin> set ?page \<and> c < ta_timerAssignmentId r))
      \<and> (\<not> more \<longrightarrow> (\<forall>r. assignmentsOf b db r \<longrightarrow> c < ta_timerAssignmentId r \<longrightarrow> r \<in> set ?page))"
    using f more less by blast
  show "pageRequest b limit s' (ta_timerAssignmentId a)"
    if "a \<in> set ?page" "pageRequest b limit s' c'" for s' c'
    using that br(2) read_identity(1-3) 
    by (fastforce simp: pageRequest_def assignmentPage_def safeTimerIdentity_def)
qed


section \<open>Reading all assignments of a backend\<close>

lemma findForBackend_iff:
  assumes "rowsSound (tt_assignments (visibleTables db))"
  shows "findForBackend noAssignmentErrors db i b = readResult AsgReadOk a \<longleftrightarrow>
     b \<noteq> [] \<and> assignmentsOf b db a \<and> ta_timerAssignmentId a = i"
proof -
  let ?rows = "tt_assignments (visibleTables db)"
  have found: "(\<exists>r. assignmentRowOf i ?rows = Some r \<and> readAssignment r = Some a \<and> ar_backend_id r = b) \<longleftrightarrow>
      assignmentsOf b db a \<and> ta_timerAssignmentId a = i"
    unfolding assignmentsOf_def assignmentRowOf_Some [OF assms]
    using read_identity(3) by (auto dest: read_identity(3))
  show ?thesis
  proof (cases "i \<noteq> [] \<and> length i \<le> 160")
    case True
    have "readAssignment r = Some (the (readAssignment r))" "ta_backendId (the (readAssignment r)) = ar_backend_id r"
      if "assignmentRowOf i ?rows = Some r" for r
    proof -
      have "r \<in> set ?rows" using that assignmentRowOf_Some [OF assms] by simp
      then show "readAssignment r = Some (the (readAssignment r))"
        using assms by (auto simp: rowsSound_def rowSound_def)
      from read_identity(4) [OF this] show "ta_backendId (the (readAssignment r)) = ar_backend_id r" .
    qed
    then have "findForBackend noAssignmentErrors db i b = readResult AsgReadOk a \<longleftrightarrow>
        b \<noteq> [] \<and> (\<exists>r. assignmentRowOf i ?rows = Some r \<and> readAssignment r = Some a \<and> ar_backend_id r = b)"
      using True findAssignmentById_sound [OF assms, of i]
      by (cases "assignmentRowOf i ?rows")
        (auto simp: findForBackend_def Let_def readResult_def)
    then show ?thesis using found by blast
  next
    case False
    have "\<not> (assignmentsOf b db a \<and> ta_timerAssignmentId a = i)"
      using False read_identity(1-3) unfolding assignmentsOf_def by metis
    moreover have "findForBackend noAssignmentErrors db i b \<noteq> readResult AsgReadOk a"
      using False by (auto simp: findForBackend_def Let_def readResult_def findAssignmentById_def
          safeTimerIdentity_def)
    ultimately show ?thesis by blast
  qed
qed

lemma visible_evolves:
  assumes "timerDbSound db"
  shows "assignmentsEvolve (tt_assignments (db_committed db)) (tt_assignments (visibleTables db))"
  using assms timerJournal_steps transactionFollowsBy_visible unfolding timerDbSound_def by blast

lemma store_sequence:
  assumes "\<forall>k. timerCalls (stores k) (stores (Suc k))" "timerDbSound (stores 0)"
  shows "timerDbSound (stores k) \<and> assignmentsEvolve (tt_assignments (db_committed (stores 0)))
     (tt_assignments (visibleTables (stores k)))"
proof -
  have calls: "timerCalls (stores 0) (stores k)"
    by (induction k) (use assms(1) in \<open>auto intro: rtranclp_trans\<close>)
  note f = timerCalls_facts [OF calls assms(2) assms(2)]
  have s: "rowsSound (tt_assignments (db_committed (stores k)))"
    "rowsSound (tt_assignments (db_committed (stores 0)))"
    "rowsSound (tt_assignments (visibleTables (stores k)))"
    using f(1) assms(2) timerDbSound_visible [OF f(1)] by (simp_all add: timerDbSound_def)
  show ?thesis
    using assignmentsEvolve_trans [OF f(2) visible_evolves [OF f(1)] s(2,1,3)] f(1) by blast
qed

lemma stays_of_backend:
  assumes "assignmentsEvolve rows rows'" "rowsSound rows" "rowsSound rows'"
    and "r \<in> set rows" "ar_backend_id r = b" "b \<noteq> []"
  obtains r' where "r' \<in> set rows'" "ar_backend_id r' = b"
    "ar_timer_assignment_id r' = ar_timer_assignment_id r"
proof -
  have of_r: "assignmentRowOf (ar_timer_assignment_id r) rows = Some r"
    using assms(4) assignmentRowOf_Some [OF assms(2)] by blast
  obtain r' where r': "assignmentRowOf (ar_timer_assignment_id r) rows' = Some r'" "assignmentEvolves r r'"
    by (rule assignmentRowOf_evolves [OF assms(1-3) of_r])
  have "ar_backend_id r' = b"
    using r'(2) assms(5,6) read_identity(4)
    by (force simp: assignmentEvolves_def assignmentAdvances_def)
  then show thesis using that r'(1) assignmentRowOf_Some [OF assms(3)] by blast
qed

text \<open>C22: Reading a backend's assignments page by page, with any page size and any calls between two
  pages, answers strictly ascending identifiers without repetition, each with an assignment that
  the backend had stored, and misses none that was stored before the first page. When nothing
  changes meanwhile, the reading ends after at most one page more than there are rows.\<close>

theorem assignment_pages_complete:
  assumes "\<forall>k. timerCalls (stores k) (stores (Suc k))" and "timerDbSound (stores 0)"
    and "\<not> transactionActive (stores 0)"
    and "safeTimerIdentity b" "0 < limit" "limit \<le> 100"
  shows "(\<forall>rows. readPages (fetchPage b limit) ta_timerAssignmentId stores 0 fuel [] = Some rows \<longrightarrow>
        sorted_wrt (<) (map ta_timerAssignmentId rows)
        \<and> (\<forall>a \<in> set rows. \<exists>k. findForBackend noAssignmentErrors (stores k) (ta_timerAssignmentId a) b
              = readResult AsgReadOk a)
        \<and> (\<forall>i a. findForBackend noAssignmentErrors (stores 0) i b = readResult AsgReadOk a \<longrightarrow>
              (\<exists>a' \<in> set rows. ta_timerAssignmentId a' = i)))
     \<and> (length (tt_assignments (db_committed (stores 0))) < fuel \<longrightarrow>
        (\<exists>rows. readPages (fetchPage b limit) ta_timerAssignmentId (\<lambda>_. stores 0) 0 fuel [] = Some rows))"
proof -
  note seq = store_sequence [OF assms(1,2)]
  have sound: "rowsSound (tt_assignments (visibleTables (stores k)))" for k
    using seq timerDbSound_visible by blast
  have req: "pageRequest b limit (stores k) []" for k
    using sound assms(4-6) by (simp add: pageRequest_def)
  have b: "b \<noteq> []" using assms(4) by (simp add: safeTimerIdentity_def)
  have vis0: "visibleTables (stores 0) = db_committed (stores 0)" by (rule visible_begun [OF assms(3)])
  have stays: "\<exists>a'. assignmentsOf b (stores k) a' \<and> ta_timerAssignmentId a' = ta_timerAssignmentId a"
    if of_b: "assignmentsOf b (stores 0) a" for a k
  proof -
    obtain r where r: "r \<in> set (tt_assignments (db_committed (stores 0)))" "readAssignment r = Some a"
      "ar_backend_id r = b" using of_b vis0 by (auto simp: assignmentsOf_def)
    obtain r' where r': "r' \<in> set (tt_assignments (visibleTables (stores k)))" "ar_backend_id r' = b"
      "ar_timer_assignment_id r' = ar_timer_assignment_id r"
      using stays_of_backend [OF conjunct2 [OF seq] sound [of 0, unfolded vis0] sound r(1,3) b] .
    obtain a' where "readAssignment r' = Some a'"
      using sound r'(1) by (auto simp: rowsSound_def rowSound_def)
    then show ?thesis
      using r' read_identity(3) r(2) unfolding assignmentsOf_def by metis
  qed
  have first: "sorted_wrt (<) (map ta_timerAssignmentId rows)
        \<and> (\<forall>a \<in> set rows. \<exists>k. findForBackend noAssignmentErrors (stores k) (ta_timerAssignmentId a) b
              = readResult AsgReadOk a)
        \<and> (\<forall>i a. findForBackend noAssignmentErrors (stores 0) i b = readResult AsgReadOk a \<longrightarrow>
              (\<exists>a' \<in> set rows. ta_timerAssignmentId a' = i))"
    if read: "readPages (fetchPage b limit) ta_timerAssignmentId stores 0 fuel [] = Some rows" for rows
  proof -
    note rs = assignment_pages.read_sound [OF read req]
    have "\<exists>a' \<in> set rows. ta_timerAssignmentId a' = i"
      if "findForBackend noAssignmentErrors (stores 0) i b = readResult AsgReadOk a" for i a
    proof -
      have a: "assignmentsOf b (stores 0) a" "ta_timerAssignmentId a = i"
        using that findForBackend_iff [OF sound] by blast+
      have "i \<noteq> []" using a read_identity(1,3) unfolding assignmentsOf_def by metis
      then show ?thesis using rs stays [OF a(1)] a(2) by (metis Nil_less_iff)
    qed
    then show ?thesis using rs findForBackend_iff [OF sound] b by blast
  qed
  let ?E = "{a. assignmentsOf b (stores 0) a \<and> [] < ta_timerAssignmentId a}"
  let ?rows = "tt_assignments (db_committed (stores 0))"
  have sub: "?E \<subseteq> (\<lambda>r. the (readAssignment r)) ` set ?rows"
    using vis0 by (force simp: assignmentsOf_def)
  have "card ?E \<le> card ((\<lambda>r. the (readAssignment r)) ` set ?rows)"
    by (rule card_mono [OF _ sub]) simp
  also have "\<dots> \<le> length ?rows" by (rule order_trans [OF card_image_le card_length]) simp
  finally have "card ?E \<le> length ?rows" .
  then have "\<exists>rows. readPages (fetchPage b limit) ta_timerAssignmentId (\<lambda>_. stores 0) 0 fuel [] = Some rows"
    if "length ?rows < fuel"
    using assignment_pages.read_ends [OF req, of 0 fuel 0] finite_subset [OF sub] that by simp
  then show ?thesis using first by blast
qed

theorem assignment_pages_complete_witness:
  "\<exists>rows. readPages (fetchPage ''vdr1'' 2) ta_timerAssignmentId (\<lambda>_. oneAssignment) 0 2 [] = Some rows
     \<and> (\<exists>a' \<in> set rows. ta_timerAssignmentId a' = ''a1'')"
proof -
  have found: "findForBackend noAssignmentErrors oneAssignment ''a1'' ''vdr1'' =
      readResult AsgReadOk (createdAssignment firstAssignment 1)" by code_simp
  have off: "\<not> transactionActive oneAssignment" and n: "length (tt_assignments (db_committed oneAssignment)) < 2"
    by code_simp+
  have "\<forall>k. timerCalls ((\<lambda>_. oneAssignment) k) ((\<lambda>_. oneAssignment) (Suc k))" for k :: nat by simp
  from assignment_pages_complete [where stores = "\<lambda>_. oneAssignment" and b = "''vdr1''" and limit = 2 and fuel = 2]
  have "(\<forall>rows. readPages (fetchPage ''vdr1'' 2) ta_timerAssignmentId (\<lambda>_. oneAssignment) 0 2 [] = Some rows \<longrightarrow>
        (\<exists>a' \<in> set rows. ta_timerAssignmentId a' = ''a1''))
     \<and> (\<exists>rows. readPages (fetchPage ''vdr1'' 2) ta_timerAssignmentId (\<lambda>_. oneAssignment) 0 2 [] = Some rows)"
    using found off n oneAssignment_sound by (simp add: safeTimerIdentity_def) blast
  then show ?thesis by blast
qed

end
