(* ===== verification/BindingRows.thy ===== *)
theory BindingRows
  imports NativeTimerBindingRepository AssignmentStore
begin

text \<open>
  Rows of the binding table: the codec loses nothing, the unique keys as a relation between rows,
  and how a stored row changes: a revision keeps its identifying columns, and its generation and
  observation time never fall.
\<close>

section \<open>The codec loses nothing\<close>

lemma ownershipFromName_name [simp]:
  "ownershipFromName (nativeTimerBindingOwnershipName own) = Some own"
  by (cases own) (simp_all add: ownershipFromName_def)

lemma driftFromName_name [simp]: "driftFromName (nativeTimerBindingDriftStateName d) = Some d"
  by (cases d) (simp_all add: driftFromName_def)

lemma ownershipFromName_Some:
  "ownershipFromName n = Some own \<Longrightarrow> n = nativeTimerBindingOwnershipName own"
  by (auto simp: ownershipFromName_def split: if_splits)

lemma driftFromName_Some: "driftFromName n = Some d \<Longrightarrow> n = nativeTimerBindingDriftStateName d"
  by (auto simp: driftFromName_def split: if_splits)

lemma managedOwnershipName_name [simp]:
  "managedOwnershipName (nativeTimerBindingOwnershipName own) = managedOwnership own"
  by (cases own) (simp_all add: managedOwnershipName_def managedOwnership_def)

text \<open>
  The bindings the lemmas on the table are about. That the flags stay below \<open>2 ^ 31\<close> is their type
  (\<open>int32_t\<close>). That the identifier and the native identity hold no zero byte is a restriction on the
  callers, which the code does not check: it tests identities for being non-empty and bounded only,
  and SQLite would store an identity with a zero byte cut at that byte.
\<close>

definition bindingInput :: "native_timer_binding \<Rightarrow> bool" where
  "bindingInput b \<longleftrightarrow>
     os_flags (nb_observedState b) < 2 ^ 31 \<and> nulFree (nb_nativeTimerBindingId b)
     \<and> nulFree (nb_backendNativeTimerId b)"

lemma readObservedState_bound:
  assumes "nativeTimerObservedStateValid s" "os_flags s < 2 ^ 31"
    and "bindBindingColumns b = Some row" "nb_observedState b = s"
  shows "readObservedState row = s"
proof -
  have "columnInt (os_flags s) = os_flags s" "columnInt (os_priority s) = os_priority s"
    "columnInt (os_lifetime s) = os_lifetime s"
    using assms(1,2) by (auto simp: nativeTimerObservedStateValid_def intro!: columnInt_small)
  then show ?thesis
    using assms(3,4)
    by (cases s) (auto simp: bindBindingColumns_def Let_def readObservedState_def
        split: option.splits if_splits)
qed

lemma bindBindingColumns_Some:
  assumes "bindBindingColumns b = Some row"
  obtains n where "parseRevisionToken (nb_bindingRevision b) = Some n"
    "br_binding_revision row = int n" "unat (nb_backendGeneration b) \<le> int64_max"
    "br_native_timer_binding_id row = nb_nativeTimerBindingId b"
    "br_backend_id row = nb_backendId b"
    "br_backend_generation row = uint (nb_backendGeneration b)"
    "br_backend_native_timer_id row = nb_backendNativeTimerId b"
    "br_timer_assignment_id row = nb_timerAssignmentId b"
    "br_ownership row = nativeTimerBindingOwnershipName (nb_ownership b)"
    "br_observed_fingerprint row = nb_observedFingerprint b"
    "br_last_observed_at row = nb_lastObservedAt b"
    "br_last_verified_operation_id row = nb_lastVerifiedOperationId b"
    "br_missing_since row = nb_missingSince b"
    "br_drift_state row = nativeTimerBindingDriftStateName (nb_driftState b)"
    "br_observed_recording row = flagInt (os_recording (nb_observedState b))"
    "br_observed_pending row = flagInt (os_pending (nb_observedState b))"
  using assms by (auto simp: bindBindingColumns_def Let_def split: option.splits if_splits)

lemma readBinding_bound:
  assumes "bindBindingColumns b = Some row" "nativeTimerBindingValid b" "bindingInput b"
    and "nb_bindingRevision b = decimal n"
  shows "readBinding row = Some b"
proof -
  obtain m where m: "parseRevisionToken (nb_bindingRevision b) = Some m"
    "br_binding_revision row = int m" "unat (nb_backendGeneration b) \<le> int64_max"
    "br_native_timer_binding_id row = nb_nativeTimerBindingId b"
    "br_backend_id row = nb_backendId b"
    "br_backend_generation row = uint (nb_backendGeneration b)"
    "br_backend_native_timer_id row = nb_backendNativeTimerId b"
    "br_timer_assignment_id row = nb_timerAssignmentId b"
    "br_ownership row = nativeTimerBindingOwnershipName (nb_ownership b)"
    "br_observed_fingerprint row = nb_observedFingerprint b"
    "br_last_observed_at row = nb_lastObservedAt b"
    "br_last_verified_operation_id row = nb_lastVerifiedOperationId b"
    "br_missing_since row = nb_missingSince b"
    "br_drift_state row = nativeTimerBindingDriftStateName (nb_driftState b)"
    by (rule bindBindingColumns_Some [OF assms(1)])
  note parts = nativeTimerBindingValid_parts [OF assms(2)]
  have obs: "readObservedState row = nb_observedState b"
    using assms(3) by (intro readObservedState_bound [OF parts(1) _ assms(1) refl])
      (simp add: bindingInput_def)
  have "0 < m" "decimal m = decimal n"
    using m(1) assms(4) parseRevisionToken_to_string [of "int n" m]
    by (auto simp: to_string_of_nat parseRevisionToken_def split: if_splits option.splits)
  then have pos: "0 < br_binding_revision row" "to_string (br_binding_revision row) = nb_bindingRevision b"
    using m(2) assms(4) by (simp_all add: to_string_of_nat)
  have gen: "0 < uint (nb_backendGeneration b)"
    using parts(6) uint_0_iff [of "nb_backendGeneration b"] uint_ge_0 [of "nb_backendGeneration b"]
    by linarith
  have eta: "\<lparr>nb_nativeTimerBindingId = nb_nativeTimerBindingId b,
      nb_bindingRevision = nb_bindingRevision b, nb_backendId = nb_backendId b,
      nb_backendGeneration = nb_backendGeneration b,
      nb_backendNativeTimerId = nb_backendNativeTimerId b,
      nb_timerAssignmentId = nb_timerAssignmentId b, nb_ownership = nb_ownership b,
      nb_observedFingerprint = nb_observedFingerprint b, nb_observedState = nb_observedState b,
      nb_lastObservedAt = nb_lastObservedAt b,
      nb_lastVerifiedOperationId = nb_lastVerifiedOperationId b,
      nb_missingSince = nb_missingSince b, nb_driftState = nb_driftState b\<rparr> = b"
    by (cases b) simp
  show ?thesis
    using pos gen m assms(2) obs by (simp add: readBinding_def Let_def eta)
qed

lemma readBinding_fields:
  assumes "readBinding r = Some b"
  shows "nativeTimerBindingValid b" "nb_nativeTimerBindingId b = br_native_timer_binding_id r"
    "nb_bindingRevision b = to_string (br_binding_revision r)" "0 < br_binding_revision r"
    "0 < br_backend_generation r" "nb_backendId b = br_backend_id r"
    "nb_backendGeneration b = of_int (br_backend_generation r)"
    "nb_backendNativeTimerId b = br_backend_native_timer_id r"
    "nb_timerAssignmentId b = br_timer_assignment_id r"
    "br_ownership r = nativeTimerBindingOwnershipName (nb_ownership b)"
    "br_drift_state r = nativeTimerBindingDriftStateName (nb_driftState b)"
    "nb_lastObservedAt b = br_last_observed_at r" "nb_missingSince b = br_missing_since r"
    "nb_lastVerifiedOperationId b = br_last_verified_operation_id r"
    "nb_observedFingerprint b = br_observed_fingerprint r"
    "nb_observedState b = readObservedState r"
  using assms
  by (auto simp: readBinding_def Let_def dest: ownershipFromName_Some driftFromName_Some
      split: if_splits option.splits)

section \<open>Keys\<close>

definition bindingCompatible :: "binding_row \<Rightarrow> binding_row \<Rightarrow> bool" where
  "bindingCompatible x y \<longleftrightarrow>
     br_native_timer_binding_id x \<noteq> br_native_timer_binding_id y
     \<and> (br_backend_id x, br_backend_native_timer_id x) \<noteq> (br_backend_id y, br_backend_native_timer_id y)
     \<and> \<not> (br_timer_assignment_id x \<noteq> [] \<and> br_timer_assignment_id x = br_timer_assignment_id y
          \<and> managedOwnershipName (br_ownership x) \<and> managedOwnershipName (br_ownership y))"

lemma bindingCompatible_sym: "bindingCompatible x y \<Longrightarrow> bindingCompatible y x"
  by (auto simp: bindingCompatible_def)

lemma bindingCompatible_irrefl: "\<not> bindingCompatible x x"
  by (simp add: bindingCompatible_def)

lemma bindingConstraints_iff:
  "bindingConstraints rows row \<longleftrightarrow> (\<forall>x \<in> set rows. bindingCompatible x row)"
  unfolding bindingConstraints_def bindingCompatible_def list_ex_iff fresh_key by auto

definition bindingKeysSound :: "binding_row list \<Rightarrow> bool" where
  "bindingKeysSound rows \<longleftrightarrow> sorted_wrt bindingCompatible rows"

definition bindingRowsSound :: "binding_row list \<Rightarrow> bool" where
  "bindingRowsSound rows \<longleftrightarrow>
     bindingKeysSound rows \<and> (\<forall>r \<in> set rows. readBinding r \<noteq> None \<and> br_binding_revision r \<le> int int64_max
        \<and> br_backend_generation r \<le> int int64_max \<and> nulFree (br_native_timer_binding_id r))"

lemma bindingKeysSound_distinct:
  assumes "bindingKeysSound rows"
  shows "distinct (map br_native_timer_binding_id rows)"
    and "distinct (map (\<lambda>r. (br_backend_id r, br_backend_native_timer_id r)) rows)"
  using assms by (induction rows) (auto simp: bindingKeysSound_def bindingCompatible_def)

lemma bindingKeysSound_one_managed:
  assumes "bindingKeysSound rows" "a \<noteq> []"
  shows "length (filter (\<lambda>r. br_timer_assignment_id r = a \<and> managedOwnershipName (br_ownership r)) rows) \<le> 1"
  using assms
proof (induction rows)
  case Nil
  then show ?case by simp
next
  case (Cons r rows)
  show ?case
  proof (cases "br_timer_assignment_id r = a \<and> managedOwnershipName (br_ownership r)")
    case True
    have "\<forall>x \<in> set rows. \<not> (br_timer_assignment_id x = a \<and> managedOwnershipName (br_ownership x))"
      using Cons.prems True by (auto simp: bindingKeysSound_def bindingCompatible_def)
    then have "filter (\<lambda>r. br_timer_assignment_id r = a \<and> managedOwnershipName (br_ownership r)) rows = []"
      by (simp add: filter_empty_conv)
    then show ?thesis by simp
  next
    case False
    with Cons show ?thesis by (auto simp: bindingKeysSound_def)
  qed
qed

section \<open>How a stored binding changes\<close>

definition bindingEvolves :: "binding_row \<Rightarrow> binding_row \<Rightarrow> bool" where
  "bindingEvolves r r' \<longleftrightarrow>
     br_native_timer_binding_id r' = br_native_timer_binding_id r
     \<and> br_backend_id r' = br_backend_id r
     \<and> br_timer_assignment_id r' = br_timer_assignment_id r
     \<and> br_ownership r' = br_ownership r
     \<and> br_backend_generation r \<le> br_backend_generation r'
     \<and> br_last_observed_at r \<le> br_last_observed_at r'
     \<and> (br_binding_revision r < br_binding_revision r'
        \<or> (\<exists>n. r' = r\<lparr>br_backend_native_timer_id := n\<rparr>))"

lemma bindingEvolves_refl [simp]: "bindingEvolves r r"
  unfolding bindingEvolves_def
  by (intro conjI disjI2 exI [of _ "br_backend_native_timer_id r"]) simp_all

lemma bindingEvolves_later:
  "bindingEvolves r s \<Longrightarrow>
     br_binding_revision r < br_binding_revision s \<or> (\<exists>n. s = r\<lparr>br_backend_native_timer_id := n\<rparr>)"
  by (simp only: bindingEvolves_def)

lemma bindingEvolves_revision:
  assumes "bindingEvolves r s"
  shows "br_binding_revision r \<le> br_binding_revision s"
  using bindingEvolves_later [OF assms]
proof (elim disjE exE)
  fix n
  assume "s = r\<lparr>br_backend_native_timer_id := n\<rparr>"
  then have "br_binding_revision s = br_binding_revision (r\<lparr>br_backend_native_timer_id := n\<rparr>)" by (rule arg_cong)
  then show ?thesis by simp
qed simp

lemma bindingEvolves_trans:
  assumes "bindingEvolves r s" "bindingEvolves s t"
  shows "bindingEvolves r t"
proof -
  note le = bindingEvolves_revision [OF assms(1)] bindingEvolves_revision [OF assms(2)]
  have "br_binding_revision r < br_binding_revision t
      \<or> (\<exists>n. t = r\<lparr>br_backend_native_timer_id := n\<rparr>)"
  proof (cases "br_binding_revision r < br_binding_revision s
      \<or> br_binding_revision s < br_binding_revision t")
    case True
    then show ?thesis using le by linarith
  next
    case False
    then obtain n m where "s = r\<lparr>br_backend_native_timer_id := n\<rparr>" "t = s\<lparr>br_backend_native_timer_id := m\<rparr>"
      using bindingEvolves_later [OF assms(1)] bindingEvolves_later [OF assms(2)] by blast
    then have "t = r\<lparr>br_backend_native_timer_id := m\<rparr>" by (cases r) (simp only: binding_row.simps)
    then show ?thesis by blast
  qed
  then show ?thesis using assms unfolding bindingEvolves_def by (elim conjE) (intro conjI; metis order_trans)
qed

lemma binding_shapes_native [simp]:
  "assignmentOwnershipShapeValid (b\<lparr>nb_backendNativeTimerId := n\<rparr>) = assignmentOwnershipShapeValid b"
  "missingDriftShapeValid (b\<lparr>nb_backendNativeTimerId := n\<rparr>) = missingDriftShapeValid b"
  by (cases "nb_ownership b"; simp add: assignmentOwnershipShapeValid_def missingDriftShapeValid_def)+

lemma binding_shapes_revision [simp]:
  "assignmentOwnershipShapeValid (b\<lparr>nb_bindingRevision := n\<rparr>) = assignmentOwnershipShapeValid b"
  "missingDriftShapeValid (b\<lparr>nb_bindingRevision := n\<rparr>) = missingDriftShapeValid b"
  by (cases "nb_ownership b"; simp add: assignmentOwnershipShapeValid_def missingDriftShapeValid_def)+

lemma valid_identities:
  assumes "nativeTimerBindingValid b"
  shows "nonEmptyBounded (nb_backendNativeTimerId b) kMaxOperationIdentityLength"
    and "nonEmptyBounded (nb_bindingRevision b) kMaxOperationIdentityLength"
    and "nonEmptyBounded (nb_nativeTimerBindingId b) kMaxOperationIdentityLength"
  by (rule contrapos_pp [OF assms], simp only: nativeTimerBindingValid_def simp_thms if_True)+

lemma valid_native_identity:
  assumes "nativeTimerBindingValid b" "nonEmptyBounded n kMaxOperationIdentityLength"
  shows "nativeTimerBindingValid (b\<lparr>nb_backendNativeTimerId := n\<rparr>)"
proof -
  have "nativeTimerBindingValid (b\<lparr>nb_backendNativeTimerId := n\<rparr>) = nativeTimerBindingValid b"
    unfolding nativeTimerBindingValid_def using valid_identities(1) [OF assms(1)] assms(2) by simp
  then show ?thesis using assms(1) by blast
qed

lemma valid_revision:
  assumes "nativeTimerBindingValid b" "0 < n" "n \<le> int64_max"
  shows "nativeTimerBindingValid (b\<lparr>nb_bindingRevision := decimal n\<rparr>)"
proof -
  have "nonEmptyBounded (decimal n) kMaxOperationIdentityLength"
    using revision_text_bounded [of "int n"] assms(2,3)
    by (simp add: to_string_of_nat)
  then have "nativeTimerBindingValid (b\<lparr>nb_bindingRevision := decimal n\<rparr>) = nativeTimerBindingValid b"
    unfolding nativeTimerBindingValid_def using valid_identities(2) [OF assms(1)] by simp
  then show ?thesis using assms(1) by blast
qed

lemma readBinding_renamed:
  assumes "readBinding r = Some b" "nonEmptyBounded n kMaxOperationIdentityLength"
  shows "readBinding (r\<lparr>br_backend_native_timer_id := n\<rparr>) = Some (b\<lparr>nb_backendNativeTimerId := n\<rparr>)"
proof -
  have obs: "readObservedState (r\<lparr>br_backend_native_timer_id := n\<rparr>) = readObservedState r"
    by (simp add: readObservedState_def)
  have "nativeTimerBindingValid b" by (rule readBinding_fields(1) [OF assms(1)])
  note v = valid_native_identity [OF this assms(2)]
  show ?thesis
    using assms(1) v
    by (auto simp: readBinding_def Let_def obs split: if_splits option.splits)
qed

definition bindingsEvolve :: "binding_row list \<Rightarrow> binding_row list \<Rightarrow> bool" where
  "bindingsEvolve rows rows' \<longleftrightarrow>
     (\<exists>g news. rows' = map g rows @ news \<and> (\<forall>r \<in> set rows. bindingEvolves r (g r)))"

lemma bindingsEvolve_refl [simp]: "bindingsEvolve rows rows"
  unfolding bindingsEvolve_def by (intro exI [of _ "\<lambda>r. r"] exI [of _ "[]"]) simp

lemma bindingsEvolve_trans:
  assumes "bindingsEvolve r s" "bindingsEvolve s t"
  shows "bindingsEvolve r t"
proof -
  obtain g n where g: "s = map g r @ n" "\<forall>x \<in> set r. bindingEvolves x (g x)"
    using assms(1) unfolding bindingsEvolve_def by blast
  obtain h m where h: "t = map h s @ m" "\<forall>x \<in> set s. bindingEvolves x (h x)"
    using assms(2) unfolding bindingsEvolve_def by blast
  have "t = map (\<lambda>x. h (g x)) r @ (map h n @ m)" by (simp add: g(1) h(1))
  moreover have "\<forall>x \<in> set r. bindingEvolves x (h (g x))"
    using g h(2) by (auto intro: bindingEvolves_trans)
  ultimately show ?thesis unfolding bindingsEvolve_def by blast
qed

end
