(* ===== verification/BindingStore.thy ===== *)
theory BindingStore
  imports BindingRows JournaledStore RevisionFence
begin

text \<open>
  The binding table against its abstract journal: a valid binding is admitted once at revision 1;
  a stored one is revised to a later generation and observation under its own identity; its native
  identity is renamed only when a durable update operation of exactly its revision and state
  authorises the change. Every call follows the journal, so keys and readability are invariants.
\<close>

section \<open>The journal\<close>

inductive bindingJournal :: "timer_tables \<Rightarrow> timer_tables \<Rightarrow> bool" where
  admitBinding: "nativeTimerBindingValid b \<Longrightarrow> bindingInput b \<Longrightarrow> nb_bindingRevision b = decimal 1 \<Longrightarrow>
     bindBindingColumns b = Some row \<Longrightarrow> bindingConstraints (tt_bindings t) row \<Longrightarrow>
     tt_bindings t' = tt_bindings t @ [row] \<Longrightarrow> bindingJournal t t'"
| reviseBinding: "r \<in> set (tt_bindings t) \<Longrightarrow> readBinding r = Some current \<Longrightarrow>
     nativeTimerBindingValid new \<Longrightarrow> bindingInput new \<Longrightarrow> bindBindingColumns new = Some row \<Longrightarrow>
     br_binding_revision r = int v \<Longrightarrow> nb_bindingRevision new = decimal (v + 1) \<Longrightarrow>
     nb_nativeTimerBindingId new = nb_nativeTimerBindingId current \<Longrightarrow>
     nb_backendId new = nb_backendId current \<Longrightarrow>
     nb_timerAssignmentId new = nb_timerAssignmentId current \<Longrightarrow>
     nb_ownership new = nb_ownership current \<Longrightarrow>
     nb_backendGeneration current \<le> nb_backendGeneration new \<Longrightarrow>
     nb_lastObservedAt current \<le> nb_lastObservedAt new \<Longrightarrow>
     nb_backendNativeTimerId new = nb_backendNativeTimerId current \<Longrightarrow>
     tt_bindings t' = map (\<lambda>x. if x = r then row else x) (tt_bindings t) \<Longrightarrow>
     bindingJournal t t'"
| renameBinding: "r \<in> set (tt_bindings t) \<Longrightarrow> readBinding r = Some current \<Longrightarrow>
     identityChangePermitted current new \<Longrightarrow> nonEmptyBounded (nb_backendNativeTimerId new) kMaxOperationIdentityLength \<Longrightarrow>
     list_ex (identityChangeAuthorized current new (nb_bindingRevision current))
       (ot_operations (tt_operations t)) \<Longrightarrow>
     \<forall>x \<in> set (tt_bindings t). x \<noteq> r \<longrightarrow> br_backend_id x = br_backend_id r \<longrightarrow>
       br_backend_native_timer_id x \<noteq> nb_backendNativeTimerId new \<Longrightarrow>
     tt_bindings t' = map (\<lambda>x. if x = r
       then r\<lparr>br_backend_native_timer_id := nb_backendNativeTimerId new\<rparr> else x) (tt_bindings t) \<Longrightarrow>
     bindingJournal t t'"
| bindingsElsewhere: "tt_bindings t' = tt_bindings t \<Longrightarrow> bindingJournal t t'"

section \<open>Its invariants\<close>

lemma sorted_wrt_replace:
  assumes "sorted_wrt C rows" "\<And>x y. C x y \<Longrightarrow> C y x"
    and "\<forall>x \<in> set rows. x \<noteq> r \<longrightarrow> C x new" "\<And>x. \<not> C x x"
  shows "sorted_wrt C (map (\<lambda>x. if x = r then new else x) rows)"
  using assms(1,3)
proof (induction rows)
  case Nil
  then show ?case by simp
next
  case (Cons a rows)
  have "sorted_wrt C (map (\<lambda>x. if x = r then new else x) rows)" using Cons by simp
  moreover have "C (if a = r then new else a) (if x = r then new else x)" if "x \<in> set rows" for x
  proof -
    have "C a x" using Cons.prems(1) that by simp
    moreover from this have "a \<noteq> x" using assms(4) by blast
    ultimately show ?thesis using Cons.prems(2) that assms(2) by auto
  qed
  ultimately show ?case by (simp only: list.map sorted_wrt.simps set_map ball_simps) blast
qed

lemma sorted_wrt_members:
  assumes "sorted_wrt C rows" "\<And>x y. C x y \<Longrightarrow> C y x" "x \<in> set rows" "y \<in> set rows" "x \<noteq> y"
  shows "C x y"
  using assms by (induction rows) auto

lemma bound_revision:
  assumes "bindBindingColumns b = Some row" "nb_bindingRevision b = decimal n"
  shows "br_binding_revision row = int n" "0 < n" "n \<le> int64_max"
    "br_backend_generation row \<le> int int64_max"
proof -
  obtain m where m: "parseRevisionToken (nb_bindingRevision b) = Some m"
    "br_binding_revision row = int m" "unat (nb_backendGeneration b) \<le> int64_max"
    "br_backend_generation row = uint (nb_backendGeneration b)"
    by (rule bindBindingColumns_Some [OF assms(1)]) blast
  have p: "parseRevisionToken (to_string (int n)) = Some m"
    using m(1) assms(2) by (simp add: to_string_of_nat)
  note q = parseRevisionToken_to_string [OF p]
  show "br_binding_revision row = int n" "0 < n" "n \<le> int64_max"
    using q m(2) by simp_all
  show "br_backend_generation row \<le> int int64_max"
    unfolding m(4) uint_nat of_nat_le_iff by (rule m(3))
qed

lemma revise_binding_row:
  assumes "readBinding r = Some current" "bindBindingColumns new = Some row"
    and "nativeTimerBindingValid new" "bindingInput new" "nb_bindingRevision new = decimal (v + 1)"
    and "br_binding_revision r = int v"
    and "nb_nativeTimerBindingId new = nb_nativeTimerBindingId current"
    and "nb_backendId new = nb_backendId current"
    and "nb_timerAssignmentId new = nb_timerAssignmentId current"
    and "nb_ownership new = nb_ownership current"
    and "nb_backendGeneration current \<le> nb_backendGeneration new"
    and "nb_lastObservedAt current \<le> nb_lastObservedAt new"
    and "br_backend_generation r \<le> int int64_max"
  shows "readBinding row = Some new" "bindingEvolves r row"
    "br_native_timer_binding_id row = br_native_timer_binding_id r"
    "br_backend_id row = br_backend_id r" "br_timer_assignment_id row = br_timer_assignment_id r"
    "br_ownership row = br_ownership r"
    "br_backend_native_timer_id row = nb_backendNativeTimerId new"
    "br_binding_revision row \<le> int int64_max" "br_backend_generation row \<le> int int64_max"
proof -
  show read: "readBinding row = Some new" by (rule readBinding_bound [OF assms(2-5)])
  note f = readBinding_fields [OF assms(1)] and g = readBinding_fields [OF read]
  note rev = bound_revision [OF assms(2,5)]
  show "br_native_timer_binding_id row = br_native_timer_binding_id r"
    "br_backend_id row = br_backend_id r" "br_timer_assignment_id row = br_timer_assignment_id r"
    "br_ownership row = br_ownership r"
    "br_backend_native_timer_id row = nb_backendNativeTimerId new"
    using f g assms(7-10) by simp_all
  moreover show "br_binding_revision row \<le> int int64_max" "br_backend_generation row \<le> int int64_max"
    using rev by simp_all
  moreover have "br_backend_generation r \<le> br_backend_generation row"
  proof -
    have u: "uint (of_int i :: uint64) = i" if "0 < i" "i \<le> int int64_max" for i
      using that by (simp add: unsigned_of_int take_bit_int_eq_self)
    have "br_backend_generation r = uint (nb_backendGeneration current)"
      "br_backend_generation row = uint (nb_backendGeneration new)"
      using u [OF f(5) assms(13)] u [OF g(5)] rev(4) f(7) g(7) by simp_all
    then show ?thesis using assms(11) by (simp add: word_le_def)
  qed
  moreover have "br_last_observed_at r \<le> br_last_observed_at row"
    using f(12) g(12) assms(12) by simp
  moreover have "br_binding_revision r < br_binding_revision row" using rev(1) assms(6) by simp
  ultimately show "bindingEvolves r row" unfolding bindingEvolves_def by simp
qed

lemma replaced_keys':
  assumes "bindingRowsSound rows" "r \<in> set rows"
    and "\<And>x. x \<in> set rows \<Longrightarrow> x \<noteq> r \<Longrightarrow> bindingCompatible x r \<Longrightarrow> bindingCompatible x row"
  shows "bindingKeysSound (map (\<lambda>x. if x = r then row else x) rows)"
proof -
  have sorted: "sorted_wrt bindingCompatible rows"
    using assms(1) by (simp add: bindingRowsSound_def bindingKeysSound_def)
  have "\<forall>x \<in> set rows. x \<noteq> r \<longrightarrow> bindingCompatible x row"
    using sorted_wrt_members [OF sorted bindingCompatible_sym _ assms(2)] assms(3) by blast
  from sorted_wrt_replace [OF sorted bindingCompatible_sym this bindingCompatible_irrefl]
  show ?thesis by (simp only: bindingKeysSound_def)
qed

lemma replaced_keys:
  assumes "bindingRowsSound rows" "r \<in> set rows"
    and "\<And>x. bindingCompatible x r \<Longrightarrow> bindingCompatible x row"
  shows "bindingKeysSound (map (\<lambda>x. if x = r then row else x) rows)"
  using replaced_keys' [OF assms(1,2)] assms(3) by blast

lemma replaced_evolves:
  assumes "bindingEvolves r row"
  shows "bindingsEvolve rows (map (\<lambda>x. if x = r then row else x) rows)"
  unfolding bindingsEvolve_def
  by (intro exI [of _ "\<lambda>x. if x = r then row else x"] exI [of _ "[]"]) (simp add: assms)

lemma bindingJournal_step:
  assumes "bindingJournal t t'" "bindingRowsSound (tt_bindings t)"
  shows "bindingRowsSound (tt_bindings t') \<and> bindingsEvolve (tt_bindings t) (tt_bindings t')"
  using assms(1)
proof cases
  case (admitBinding b row)
  have "readBinding row = Some b"
    by (rule readBinding_bound [OF admitBinding(4,1,2,3)])
  moreover from readBinding_fields(2) [OF this] have "nulFree (br_native_timer_binding_id row)"
    using admitBinding(2) by (simp add: bindingInput_def)
  moreover note bound_revision [OF admitBinding(4,3)]
  moreover have "bindingKeysSound (tt_bindings t @ [row])"
    using admitBinding(5) assms(2) unfolding bindingConstraints_iff
    by (simp add: bindingRowsSound_def bindingKeysSound_def sorted_wrt_append)
  moreover have "bindingsEvolve (tt_bindings t) (tt_bindings t @ [row])"
    unfolding bindingsEvolve_def by (intro exI [of _ "\<lambda>r. r"] exI [of _ "[row]"]) simp
  ultimately show ?thesis using admitBinding(6) assms(2) by (simp add: bindingRowsSound_def)
next
  case (reviseBinding r current new row v)
  have bounds: "br_backend_generation r \<le> int int64_max"
    using assms(2) reviseBinding(1) by (simp add: bindingRowsSound_def)
  note rb = revise_binding_row [OF reviseBinding(2,5,3,4,7,6,8-13) bounds]
  have native: "br_backend_native_timer_id row = br_backend_native_timer_id r"
    using rb(7) reviseBinding(14) readBinding_fields(8) [OF reviseBinding(2)] by simp
  have "bindingCompatible x row" if "bindingCompatible x r" for x
    using that unfolding bindingCompatible_def rb(3-6) native .
  from replaced_keys [OF assms(2) reviseBinding(1) this]
  have "bindingKeysSound (tt_bindings t')" unfolding reviseBinding(15) by blast
  moreover have "bindingsEvolve (tt_bindings t) (tt_bindings t')"
    unfolding reviseBinding(15) by (rule replaced_evolves [OF rb(2)])
  moreover have "nulFree (br_native_timer_binding_id row)"
    using assms(2) reviseBinding(1) rb(3) by (simp add: bindingRowsSound_def)
  ultimately show ?thesis
    using assms(2) rb(1,8,9) unfolding reviseBinding(15) by (auto simp: bindingRowsSound_def)
next
  case (renameBinding r current new)
  let ?row = "r\<lparr>br_backend_native_timer_id := nb_backendNativeTimerId new\<rparr>"
  have "bindingCompatible x ?row" if "x \<in> set (tt_bindings t)" "x \<noteq> r" "bindingCompatible x r" for x
    using renameBinding(6) that unfolding bindingCompatible_def by simp
  from replaced_keys' [OF assms(2) renameBinding(1) this]
  have "bindingKeysSound (tt_bindings t')" unfolding renameBinding(7) by blast
  moreover have "bindingEvolves r ?row"
    unfolding bindingEvolves_def by (intro conjI disjI2 exI [of _ "nb_backendNativeTimerId new"]) simp_all
  then have "bindingsEvolve (tt_bindings t) (tt_bindings t')"
    unfolding renameBinding(7) by (rule replaced_evolves)
  moreover have "readBinding ?row \<noteq> None" using readBinding_renamed [OF renameBinding(2,4)] by simp
  ultimately show ?thesis
    using assms(2) renameBinding(1) unfolding renameBinding(7) by (auto simp: bindingRowsSound_def)
next
  case bindingsElsewhere
  then show ?thesis using assms(2) by simp
qed

lemma bindingJournal_steps:
  assumes "bindingJournal\<^sup>*\<^sup>* t t'" "bindingRowsSound (tt_bindings t)"
  shows "bindingRowsSound (tt_bindings t') \<and> bindingsEvolve (tt_bindings t) (tt_bindings t')"
  using assms
proof (induction rule: rtranclp_induct)
  case base
  then show ?case by simp
next
  case (step y z)
  then show ?case using bindingJournal_step [OF step.hyps(2)] bindingsEvolve_trans by blast
qed

end
