(* ===== verification/BindingRuns.thy ===== *)
theory BindingRuns
  imports BindingStore
begin

text \<open>
  Every call on the binding table as a run that follows its journal, the sound databases, and the
  calls of the program on them: keys, readability and the order of revisions are then invariants
  of every run.
\<close>

section \<open>Runs\<close>

abbreviation bindingRun :: "timer_tables database \<Rightarrow> timer_tables database \<Rightarrow> bool" where
  "bindingRun \<equiv> storeRun bindingJournal"

interpretation binding_store: journaled_store bindingJournal "storeStep bindingJournal"
  by unfold_locales (rule storeStep_follows)

definition bindingDbSound :: "timer_tables database \<Rightarrow> bool" where
  "bindingDbSound db \<longleftrightarrow>
     bindingRowsSound (tt_bindings (db_committed db)) \<and> transactionFollowsBy bindingJournal db"

lemma bindingDbSound_visible:
  assumes "bindingDbSound db"
  shows "bindingRowsSound (tt_bindings (visibleTables db))"
    and "bindingsEvolve (tt_bindings (db_committed db)) (tt_bindings (visibleTables db))"
  using assms bindingJournal_steps transactionFollowsBy_visible unfolding bindingDbSound_def by blast+

lemma bindingRun_sound:
  assumes "bindingRun db db'" "bindingDbSound db"
  shows "bindingDbSound db'"
    and "bindingsEvolve (tt_bindings (db_committed db)) (tt_bindings (db_committed db'))"
proof -
  have *: "bindingJournal\<^sup>*\<^sup>* (db_committed db) (db_committed db')"
    "transactionFollowsBy bindingJournal db'"
    using binding_store.steps_journal [OF assms(1)] assms(2) by (simp_all add: bindingDbSound_def)
  have "bindingRowsSound (tt_bindings (db_committed db))"
    using assms(2) by (simp add: bindingDbSound_def)
  note j = bindingJournal_steps [OF *(1) this]
  show "bindingDbSound db'" using j *(2) by (simp add: bindingDbSound_def)
  show "bindingsEvolve (tt_bindings (db_committed db)) (tt_bindings (db_committed db'))"
    using j by simp
qed

section \<open>What the statements do to sound rows\<close>

lemma binding_selected:
  assumes "nativeBindingSelectById f rows i = SelectFound b"
  obtains r where "r \<in> set rows" "br_native_timer_binding_id r = i" "readBinding r = Some b"
    "find (\<lambda>row. br_native_timer_binding_id row = i) rows = Some r"
  using assms find_Some_in by (fastforce simp: nativeBindingSelectById_def selectFirst_Found)

lemma nativeBindingInsert_Some:
  assumes "nativeBindingInsert f rows b = Some rows'"
  obtains row where "bindBindingColumns b = Some row" "bindingConstraints rows row"
    "rows' = rows @ [row]"
  using assms by (auto simp: nativeBindingInsert_def split: option.splits if_splits)

lemma writeMutableColumns_same:
  assumes "br_native_timer_binding_id new = br_native_timer_binding_id row"
    and "br_backend_id new = br_backend_id row"
    and "br_backend_native_timer_id new = br_backend_native_timer_id row"
    and "br_timer_assignment_id new = br_timer_assignment_id row"
    and "br_ownership new = br_ownership row"
  shows "writeMutableColumns new row = new"
  using assms by (cases new) (simp add: writeMutableColumns_def)

lemma nativeBindingUpdate_Some:
  assumes "nativeBindingUpdate f rows b v = Some rows'" "distinct (map br_native_timer_binding_id rows)"
    and "find (\<lambda>row. br_native_timer_binding_id row = nb_nativeTimerBindingId b) rows = Some r"
    and "br_binding_revision r = int v"
    and "br_backend_id r = nb_backendId b" "br_backend_native_timer_id r = nb_backendNativeTimerId b"
    and "br_timer_assignment_id r = nb_timerAssignmentId b"
    and "br_ownership r = nativeTimerBindingOwnershipName (nb_ownership b)"
  obtains row where "bindBindingColumns b = Some row" "rows' = map (\<lambda>x. if x = r then row else x) rows"
proof -
  obtain row where row: "bindBindingColumns b = Some row"
    "rows' = map (\<lambda>x. if bindingSelected (nb_nativeTimerBindingId b) (int v) x
       then writeMutableColumns row x else x) rows"
    using assms(1) by (auto simp: nativeBindingUpdate_def Let_def split: option.splits if_splits)
  have "writeMutableColumns row r = row"
    using find_Some_in [OF assms(3)] assms(5-8) bindBindingColumns_Some [OF row(1)]
    by (intro writeMutableColumns_same) metis+
  then have "rows' = map (\<lambda>x. if x = r then row else x) rows"
    unfolding row(2) bindingSelected_def
    using update_unique_row(1) [OF assms(2,3), of "\<lambda>x. br_binding_revision x = int v" "writeMutableColumns row"]
      assms(4) by simp
  then show thesis using that row(1) by blast
qed

lemma binding_revision_is:
  assumes "readBinding r = Some b" "nb_bindingRevision b = tok" "parseRevisionToken tok = Some v"
  shows "br_binding_revision r = int v" "0 < v" "v \<le> int64_max"
proof -
  have "parseRevisionToken (to_string (br_binding_revision r)) = Some v"
    using assms readBinding_fields(3) [OF assms(1)] by simp
  from parseRevisionToken_to_string [OF this]
  show "br_binding_revision r = int v" "0 < v" "v \<le> int64_max" by simp_all
qed

section \<open>Creation\<close>

lemma createBinding_follows:
  assumes "bindingInput b"
  shows "bindingRun db (snd (createBinding failing db b))"
proof (cases "executeBegin (failing BindBegin) db")
  case (Pair ok db0)
  let ?d = "b\<lparr>nb_bindingRevision := ''1''\<rparr>"
  have 0: "bindingRun db db0" using store_begin [of bindingJournal db "failing BindBegin"] Pair by simp
  have undo: "bindingRun db (executeRollback f db0)" for f by (rule rtranclp_trans [OF 0 store_rollback])
  have active: "transactionActive db0" if ok
    using that Pair by (intro executeBegin_True(2) [of "failing BindBegin" db]) simp
  have put: "bindingRun db (putBindings rows db0)"
    if ok "nativeTimerBindingValid ?d"
      and ins: "nativeBindingInsert f (tt_bindings (visibleTables db0)) ?d = Some rows" for f rows
  proof -
    obtain row where row: "bindBindingColumns ?d = Some row"
      "bindingConstraints (tt_bindings (visibleTables db0)) row"
      "rows = tt_bindings (visibleTables db0) @ [row]"
      by (rule nativeBindingInsert_Some [OF ins])
    have "bindingJournal (visibleTables db0) ((visibleTables db0)\<lparr>tt_bindings := rows\<rparr>)"
      using assms that(2) row
      by (intro admitBinding [where b = ?d]) (simp_all add: bindingInput_def decimal.simps [of 1])
    then show ?thesis
      unfolding putBindings_def
      by (intro rtranclp_trans [OF 0] store_write_commit(1) active) (rule that(1))
  qed
  have "bindingRun db db2" "bindingRun db (executeRollback f' db2)"
    if "ok" "nativeTimerBindingValid ?d"
      "nativeBindingInsert f (tt_bindings (visibleTables db0)) ?d = Some rows"
      "executeCommit f'' (putBindings rows db0) = (ok', db2)" for rows f f'' ok' db2 f'
    using store_commit_or_undo [OF put [OF that(1-3)] that(4)] .
  then show ?thesis
    using 0 undo Pair
    by (auto simp: createBinding_def Let_def split: bool.split option.split prod.split)
qed

section \<open>Update\<close>

lemma updateBindingCheck_Inr:
  assumes "updateBindingCheck failing t new tok expected fresh = Inr current"
  obtains r where "r \<in> set (tt_bindings t)" "readBinding r = Some current"
    "find (\<lambda>row. br_native_timer_binding_id row = nb_nativeTimerBindingId new) (tt_bindings t) = Some r"
    "nb_bindingRevision current = tok" "nb_backendId new = nb_backendId current"
    "nb_backendNativeTimerId new = nb_backendNativeTimerId current"
    "nb_timerAssignmentId new = nb_timerAssignmentId current"
    "nb_ownership new = nb_ownership current"
    "nb_backendGeneration current \<le> nb_backendGeneration new"
    "nb_lastObservedAt current \<le> nb_lastObservedAt new" "expected \<noteq> int64_max"
    "nb_nativeTimerBindingId new = nb_nativeTimerBindingId current"
proof -
  have sel: "nativeBindingSelectById (failing BindSelectId) (tt_bindings t) (nb_nativeTimerBindingId new)
      = SelectFound current"
    using assms by (auto simp: updateBindingCheck_def split: select_result.splits if_splits)
  obtain r where r: "r \<in> set (tt_bindings t)" "br_native_timer_binding_id r = nb_nativeTimerBindingId new"
    "readBinding r = Some current"
    "find (\<lambda>row. br_native_timer_binding_id row = nb_nativeTimerBindingId new) (tt_bindings t) = Some r"
    by (rule binding_selected [OF sel])
  show thesis
    using that [OF r(1,3,4)] assms sel readBinding_fields(2) [OF r(3)] r(2)
    by (auto simp: updateBindingCheck_def nativeTimerBindingRevisionMatches_def revisionMatches_def
        split: if_splits)
qed

lemma updated_binding_row:
  assumes check: "updateBindingCheck failing t new tok v fresh = Inr current"
    and tok: "parseRevisionToken tok = Some v" and sound: "bindingRowsSound (tt_bindings t)"
    and upd: "nativeBindingUpdate f (tt_bindings t) (new\<lparr>nb_bindingRevision := decimal (v + 1)\<rparr>) v = Some rows"
  obtains r row where "r \<in> set (tt_bindings t)" "readBinding r = Some current"
    "nb_bindingRevision current = tok" "br_binding_revision r = int v"
    "nb_nativeTimerBindingId new = nb_nativeTimerBindingId current"
    "bindBindingColumns (new\<lparr>nb_bindingRevision := decimal (v + 1)\<rparr>) = Some row"
    "rows = map (\<lambda>x. if x = r then row else x) (tt_bindings t)"
    "nb_backendId new = nb_backendId current"
    "nb_backendNativeTimerId new = nb_backendNativeTimerId current"
    "nb_timerAssignmentId new = nb_timerAssignmentId current"
    "nb_ownership new = nb_ownership current"
    "nb_backendGeneration current \<le> nb_backendGeneration new"
    "nb_lastObservedAt current \<le> nb_lastObservedAt new"
proof -
  let ?d = "new\<lparr>nb_bindingRevision := decimal (v + 1)\<rparr>"
  obtain r where r: "r \<in> set (tt_bindings t)" "readBinding r = Some current"
    "find (\<lambda>row. br_native_timer_binding_id row = nb_nativeTimerBindingId new) (tt_bindings t) = Some r"
    "nb_bindingRevision current = tok" "nb_backendId new = nb_backendId current"
    "nb_backendNativeTimerId new = nb_backendNativeTimerId current"
    "nb_timerAssignmentId new = nb_timerAssignmentId current"
    "nb_ownership new = nb_ownership current"
    "nb_backendGeneration current \<le> nb_backendGeneration new"
    "nb_lastObservedAt current \<le> nb_lastObservedAt new"
    "nb_nativeTimerBindingId new = nb_nativeTimerBindingId current"
    by (rule updateBindingCheck_Inr [OF check])
  note f = readBinding_fields [OF r(2)] and rev = binding_revision_is [OF r(2,4) tok]
  have keys: "bindingKeysSound (tt_bindings t)" using sound by (simp add: bindingRowsSound_def)
  obtain row where row: "bindBindingColumns ?d = Some row"
    "rows = map (\<lambda>x. if x = r then row else x) (tt_bindings t)"
    by (rule nativeBindingUpdate_Some [OF upd bindingKeysSound_distinct(1) [OF keys], of r])
      (use r(3,5-8) f rev(1) in simp_all)
  show thesis by (rule that [OF r(1,2,4) rev(1) r(11) row r(5-10)])
qed

lemma updated_binding_journal:
  assumes "updateBindingCheck failing t new tok v fresh = Inr current"
    and "parseRevisionToken tok = Some v" "bindingRowsSound (tt_bindings t)"
    and "nativeBindingUpdate f (tt_bindings t) (new\<lparr>nb_bindingRevision := decimal (v + 1)\<rparr>) v = Some rows"
    and "nativeTimerBindingValid (new\<lparr>nb_bindingRevision := decimal (v + 1)\<rparr>)" "bindingInput new"
  shows "bindingJournal t (t\<lparr>tt_bindings := rows\<rparr>)"
proof -
  let ?d = "new\<lparr>nb_bindingRevision := decimal (v + 1)\<rparr>"
  obtain r row where r: "r \<in> set (tt_bindings t)" "readBinding r = Some current"
    "nb_bindingRevision current = tok" "br_binding_revision r = int v"
    "nb_nativeTimerBindingId new = nb_nativeTimerBindingId current"
    "bindBindingColumns ?d = Some row" "rows = map (\<lambda>x. if x = r then row else x) (tt_bindings t)"
    "nb_backendId new = nb_backendId current"
    "nb_backendNativeTimerId new = nb_backendNativeTimerId current"
    "nb_timerAssignmentId new = nb_timerAssignmentId current"
    "nb_ownership new = nb_ownership current"
    "nb_backendGeneration current \<le> nb_backendGeneration new"
    "nb_lastObservedAt current \<le> nb_lastObservedAt new"
    by (rule updated_binding_row [OF assms(1-4)])
  show ?thesis
    using r assms(5,6)
    by (intro reviseBinding [where r = r and current = current and new = ?d and row = row and v = v])
      (simp_all add: bindingInput_def)
qed

lemma updateBinding_follows:
  assumes "bindingInput new" "bindingDbSound db"
  shows "bindingRun db (snd (updateBinding failing db new tok fresh))"
proof (cases "executeBegin (failing BindBegin) db")
  case (Pair ok db0)
  let ?t = "visibleTables db0"
  have 0: "bindingRun db db0" using store_begin [of bindingJournal db "failing BindBegin"] Pair by simp
  have sound: "bindingRowsSound (tt_bindings ?t)"
    by (rule bindingDbSound_visible(1) [OF bindingRun_sound(1) [OF 0 assms(2)]])
  have undo: "bindingRun db (executeRollback f db0)" for f by (rule rtranclp_trans [OF 0 store_rollback])
  have active: "transactionActive db0" if ok
    using that Pair by (intro executeBegin_True(2) [of "failing BindBegin" db]) simp
  define good where "good v current rows \<longleftrightarrow> ok \<and> nativeTimerBindingValid new
      \<and> parseRevisionToken tok = Some v
      \<and> updateBindingCheck failing ?t new tok v fresh = Inr current
      \<and> nativeTimerBindingValid (new\<lparr>nb_bindingRevision := decimal (v + 1)\<rparr>)
      \<and> nativeBindingUpdate (failing BindUpdate) (tt_bindings ?t)
          (new\<lparr>nb_bindingRevision := decimal (v + 1)\<rparr>) v = Some rows" for v current rows
  have w1: "bindingRun db (writeTables (?t\<lparr>tt_bindings := rows\<rparr>) db0)"
    if "good v current rows" for v current rows
    using that active updated_binding_journal [OF _ _ sound _ _ assms(1)] unfolding good_def
    by (intro rtranclp_trans [OF 0] store_write_commit(1)) blast+
  have undo1: "bindingRun db (executeRollback f (writeTables (?t\<lparr>tt_bindings := rows\<rparr>) db0))"
    if "good v current rows" for v current rows f
    by (rule rtranclp_trans [OF w1 [OF that] store_rollback])
  have w2: "bindingRun db (writeTables t2 db0)"
    if g: "good v current rows"
      and t2: "(if fresh then refreshBoundAssignmentGeneration failing (?t\<lparr>tt_bindings := rows\<rparr>)
        current gen at else Some (?t\<lparr>tt_bindings := rows\<rparr>)) = Some t2"
    for v current rows gen at t2
  proof -
    let ?d = "writeTables (?t\<lparr>tt_bindings := rows\<rparr>) db0"
    have "tt_bindings t2 = rows"
      using t2 by (auto simp: refreshBoundAssignmentGeneration_def updateAssignmentRows_def Let_def
          split: if_splits option.splits write_outcome.splits)
    then have "bindingRun ?d (writeTables t2 ?d)"
      by (intro store_write_commit(1) bindingsElsewhere) simp_all
    then show ?thesis using w1 [OF g] by (auto intro: rtranclp_trans)
  qed
  have end2: "bindingRun db db2" "bindingRun db (executeRollback f' db2)"
    if "good v current rows"
      "(if fresh then refreshBoundAssignmentGeneration failing (?t\<lparr>tt_bindings := rows\<rparr>)
        current gen at else Some (?t\<lparr>tt_bindings := rows\<rparr>)) = Some t2"
      "executeCommit f (writeTables t2 db0) = (ok', db2)"
    for v current rows gen at t2 f ok' db2 f'
    using store_commit_or_undo [OF w2 [OF that(1,2)] that(3)] .
  show ?thesis
    unfolding updateBinding_def Let_def Pair
    using 0 undo undo1 [unfolded good_def] end2 [unfolded good_def]
    by (simp split: option.split bool.split sum.split prod.split del: executeCommit_writeTables)
qed


section \<open>The verified change of the native identity\<close>

lemma renameNativeIdentity_Some:
  assumes "renameNativeIdentity f rows current v newId = Some rows1"
    and "r \<in> set rows" "br_native_timer_binding_id r = nb_nativeTimerBindingId current"
    and "nulFree (nb_nativeTimerBindingId current)" "distinct (map br_native_timer_binding_id rows)"
  shows "rows1 = map (\<lambda>x. if x = r then r\<lparr>br_backend_native_timer_id := newId\<rparr> else x) rows"
    and "\<forall>x \<in> set rows. x \<noteq> r \<longrightarrow> br_backend_id x = br_backend_id r \<longrightarrow> br_backend_native_timer_id x \<noteq> newId"
proof -
  let ?m = "\<lambda>row. bindingSelected (nb_nativeTimerBindingId current) (int v) row
    \<and> br_backend_native_timer_id row = cText (nb_backendNativeTimerId current)"
  have sel: "length (filter ?m rows) = 1"
    "\<not> list_ex (\<lambda>row. list_ex (\<lambda>x. \<not> ?m x \<and> br_backend_id x = br_backend_id row
      \<and> br_backend_native_timer_id x = newId) rows) (filter ?m rows)"
    "rows1 = map (\<lambda>row. if ?m row then row\<lparr>br_backend_native_timer_id := newId\<rparr> else row) rows"
    using assms(1,4) by (auto simp: renameNativeIdentity_def Let_def split: if_splits)
  have only: "x = r" if "x \<in> set rows" "?m x" for x
    using that assms(2,3) by (intro distinct_key_unique [OF assms(5)]) (simp_all add: bindingSelected_def)
  have "filter ?m rows \<noteq> []" using sel(1) by (intro notI) simp
  then obtain y where "y \<in> set rows" "?m y" unfolding filter_empty_conv by blast
  then have m: "?m x \<longleftrightarrow> x = r" if "x \<in> set rows" for x using only that by blast
  show "rows1 = map (\<lambda>x. if x = r then r\<lparr>br_backend_native_timer_id := newId\<rparr> else x) rows"
    unfolding sel(3) by (rule map_cong [OF refl]) (simp only: m split: if_split, blast)
  have "r \<in> set (filter ?m rows)" using m [OF assms(2)] assms(2) by simp
  then show "\<forall>x \<in> set rows. x \<noteq> r \<longrightarrow> br_backend_id x = br_backend_id r \<longrightarrow> br_backend_native_timer_id x \<noteq> newId"
    using sel(2) m unfolding list_ex_iff by blast
qed

lemma identity_change_rows:
  assumes sound: "bindingRowsSound (tt_bindings t)" and input: "bindingInput new"
    and sel: "nativeBindingSelectById f (tt_bindings t) (nb_nativeTimerBindingId new) = SelectFound current"
    and tok: "nb_bindingRevision current = tok" "parseRevisionToken tok = Some v" "v \<noteq> int64_max"
    and valid: "nativeTimerBindingValid new" and permitted: "identityChangePermitted current new"
    and ren: "renameNativeIdentity f' (tt_bindings t) current v (cText (nb_backendNativeTimerId new)) = Some rows1"
    and r1_def: "r1 = (\<lambda>r. r\<lparr>br_backend_native_timer_id := nb_backendNativeTimerId new\<rparr>)"
  obtains r where "r \<in> set (tt_bindings t)" "readBinding r = Some current" "br_binding_revision r = int v"
    "rows1 = map (\<lambda>x. if x = r then r1 r else x) (tt_bindings t)"
    "\<forall>x \<in> set (tt_bindings t). x \<noteq> r \<longrightarrow> br_backend_id x = br_backend_id r \<longrightarrow>
      br_backend_native_timer_id x \<noteq> nb_backendNativeTimerId new"
    "nb_nativeTimerBindingId new = nb_nativeTimerBindingId current" "0 < v" "v \<le> int64_max"
    "\<forall>f'' rows. nativeBindingUpdate f'' rows1 (new\<lparr>nb_bindingRevision := decimal (v + 1)\<rparr>) v = Some rows \<longrightarrow>
      (\<exists>row. bindBindingColumns (new\<lparr>nb_bindingRevision := decimal (v + 1)\<rparr>) = Some row
        \<and> rows = map (\<lambda>x. if x = r1 r then row else x) rows1
        \<and> rows = map (\<lambda>x. if x = r then row else x) (tt_bindings t))"
proof -
  let ?d = "new\<lparr>nb_bindingRevision := decimal (v + 1)\<rparr>" and ?rows = "tt_bindings t"
  obtain r where r: "r \<in> set ?rows" "br_native_timer_binding_id r = nb_nativeTimerBindingId new"
    "readBinding r = Some current" by (rule binding_selected [OF sel])
  note f = readBinding_fields [OF r(3)] and rev = binding_revision_is [OF r(3) tok(1,2)]
  have keys: "distinct (map br_native_timer_binding_id ?rows)"
    using sound bindingKeysSound_distinct(1) by (simp add: bindingRowsSound_def)
  have same: "nb_nativeTimerBindingId new = nb_nativeTimerBindingId current" using f(2) r(2) by simp
  have native: "cText (nb_backendNativeTimerId new) = nb_backendNativeTimerId new"
    using input by (simp add: bindingInput_def)
  have fixed: "nb_backendId new = nb_backendId current" "nb_timerAssignmentId new = nb_timerAssignmentId current"
    "nb_ownership new = nb_ownership current"
    using permitted by (simp_all add: identityChangePermitted_def)
  have nf: "nulFree (nb_nativeTimerBindingId current)" using input same by (simp add: bindingInput_def)
  have id_r: "br_native_timer_binding_id r = nb_nativeTimerBindingId current" using r(2) same by simp
  note ren' = renameNativeIdentity_Some [OF ren [unfolded native] r(1) id_r nf keys]
  have ren1: "rows1 = map (\<lambda>x. if x = r then r1 r else x) ?rows" unfolding r1_def by (rule ren'(1))
  have r1_id: "br_native_timer_binding_id (r1 r) = br_native_timer_binding_id r" by (simp add: r1_def)
  have ids1: "map br_native_timer_binding_id rows1 = map br_native_timer_binding_id ?rows"
    unfolding ren1 using r1_id by simp
  have in1: "r1 r \<in> set rows1" using r(1) unfolding ren1 by force
  have find1: "find (\<lambda>row. br_native_timer_binding_id row = nb_nativeTimerBindingId ?d) rows1 = Some (r1 r)"
    using find_unique_key [of br_native_timer_binding_id rows1 "r1 r"] ids1 keys in1 r(2) r1_id by simp
  have other: "x = r1 r \<longleftrightarrow> False" if "x \<in> set ?rows" "x \<noteq> r" for x
  proof -
    have "x \<noteq> r1 r"
    proof
      assume "x = r1 r"
      then have "br_native_timer_binding_id x = br_native_timer_binding_id r" using r1_id by simp
      then have "x = r" by (rule distinct_key_unique [OF keys that(1) r(1)])
      then show False using that(2) by simp
    qed
    then show ?thesis by simp
  qed
  have upd: "\<exists>row. bindBindingColumns ?d = Some row \<and> rows = map (\<lambda>x. if x = r1 r then row else x) rows1
        \<and> rows = map (\<lambda>x. if x = r then row else x) ?rows"
    if u: "nativeBindingUpdate f'' rows1 ?d v = Some rows" for f'' rows
  proof -
    obtain row where row: "bindBindingColumns ?d = Some row"
      "rows = map (\<lambda>x. if x = r1 r then row else x) rows1"
      by (rule nativeBindingUpdate_Some [OF u _ find1])
        (use ids1 keys f rev(1) fixed in \<open>simp_all add: r1_def\<close>)
    moreover have "rows = map (\<lambda>x. if x = r then row else x) ?rows"
      unfolding row(2) ren1 map_map by (intro map_cong [OF refl]) (simp add: other)
    ultimately show ?thesis by blast
  qed
  show thesis by (rule that [OF r(1,3) rev(1) ren1 ren'(2) same rev(2,3)]) (use upd in blast)
qed

lemma identity_change_journal:
  assumes sound: "bindingRowsSound (tt_bindings t)" and input: "bindingInput new"
    and sel: "nativeBindingSelectById f (tt_bindings t) (nb_nativeTimerBindingId new) = SelectFound current"
    and tok: "nb_bindingRevision current = tok" "parseRevisionToken tok = Some v" "v \<noteq> int64_max"
    and valid: "nativeTimerBindingValid new" and permitted: "identityChangePermitted current new"
    and auth: "list_ex (identityChangeAuthorized current new tok) (ot_operations (tt_operations t))"
    and ren: "renameNativeIdentity f' (tt_bindings t) current v (cText (nb_backendNativeTimerId new)) = Some rows1"
  shows "bindingJournal t (t\<lparr>tt_bindings := rows1\<rparr>)"
    and "nativeBindingUpdate f'' rows1 (new\<lparr>nb_bindingRevision := decimal (v + 1)\<rparr>) v = Some rows \<Longrightarrow>
      bindingJournal (t\<lparr>tt_bindings := rows1\<rparr>) (t\<lparr>tt_bindings := rows\<rparr>)"
proof -
  let ?d = "new\<lparr>nb_bindingRevision := decimal (v + 1)\<rparr>"
  let ?r1 = "\<lambda>r. r\<lparr>br_backend_native_timer_id := nb_backendNativeTimerId new\<rparr>"
  obtain r where r: "r \<in> set (tt_bindings t)" "readBinding r = Some current" "br_binding_revision r = int v"
    "rows1 = map (\<lambda>x. if x = r then ?r1 r else x) (tt_bindings t)"
    "\<forall>x \<in> set (tt_bindings t). x \<noteq> r \<longrightarrow> br_backend_id x = br_backend_id r \<longrightarrow>
      br_backend_native_timer_id x \<noteq> nb_backendNativeTimerId new"
    "nb_nativeTimerBindingId new = nb_nativeTimerBindingId current" "0 < v" "v \<le> int64_max"
    and upd: "\<forall>f'' rows. nativeBindingUpdate f'' rows1 ?d v = Some rows \<longrightarrow>
      (\<exists>row. bindBindingColumns ?d = Some row \<and> rows = map (\<lambda>x. if x = ?r1 r then row else x) rows1
        \<and> rows = map (\<lambda>x. if x = r then row else x) (tt_bindings t))"
    by (rule identity_change_rows [OF sound input sel tok valid permitted ren refl])
  have fixed: "nb_backendId new = nb_backendId current" "nb_timerAssignmentId new = nb_timerAssignmentId current"
    "nb_ownership new = nb_ownership current" "nb_backendGeneration current \<le> nb_backendGeneration new"
    "nb_lastObservedAt current \<le> nb_lastObservedAt new"
    using permitted by (simp_all add: identityChangePermitted_def)
  note nat = valid_identities(1) [OF valid]
  show "bindingJournal t (t\<lparr>tt_bindings := rows1\<rparr>)"
    using r(1,2,4,5) permitted nat auth tok(1)
    by (intro renameBinding [where r = r and current = current and new = new]) simp_all
  assume "nativeBindingUpdate f'' rows1 ?d v = Some rows"
  with upd obtain row where row: "bindBindingColumns ?d = Some row"
    "rows = map (\<lambda>x. if x = ?r1 r then row else x) rows1" by blast
  have in1: "?r1 r \<in> set rows1" using r(1) unfolding r(4) by force
  have valid': "nativeTimerBindingValid ?d" using valid_revision [OF valid] r(8) tok(3) by simp
  show "bindingJournal (t\<lparr>tt_bindings := rows1\<rparr>) (t\<lparr>tt_bindings := rows\<rparr>)"
    by (rule reviseBinding [where r = "?r1 r" and new = ?d and row = row and v = v,
          OF _ readBinding_renamed [OF r(2) nat] valid' _ row(1)])
      (use in1 input r(3,6) fixed row(2) in \<open>simp_all add: bindingInput_def\<close>)
qed

lemma updateVerifiedNativeIdentity_follows:
  assumes "bindingInput new" "bindingDbSound db"
  shows "bindingRun db (snd (updateVerifiedNativeIdentity failing db new tok))"
proof (cases "executeBegin (failing BindBegin) db")
  case (Pair ok db0)
  let ?t = "visibleTables db0"
  have 0: "bindingRun db db0" using store_begin [of bindingJournal db "failing BindBegin"] Pair by simp
  have sound: "bindingRowsSound (tt_bindings ?t)"
    by (rule bindingDbSound_visible(1) [OF bindingRun_sound(1) [OF 0 assms(2)]])
  have undo: "bindingRun db (executeRollback f db0)" for f by (rule rtranclp_trans [OF 0 store_rollback])
  have active: "transactionActive db0" if ok
    using that Pair by (intro executeBegin_True(2) [of "failing BindBegin" db]) simp
  define good where "good v current rows1 \<longleftrightarrow> ok \<and> nativeTimerBindingValid new
      \<and> parseRevisionToken tok = Some v \<and> v \<noteq> int64_max
      \<and> nativeBindingSelectById (failing BindSelectId) (tt_bindings ?t) (nb_nativeTimerBindingId new)
          = SelectFound current
      \<and> nb_bindingRevision current = tok \<and> identityChangePermitted current new
      \<and> list_ex (identityChangeAuthorized current new tok) (ot_operations (tt_operations ?t))
      \<and> renameNativeIdentity (failing BindRename) (tt_bindings ?t) current v
          (cText (nb_backendNativeTimerId new)) = Some rows1" for v current rows1
  have w1: "bindingRun db (putBindings rows1 db0)" if g: "good v current rows1" for v current rows1
    using g active identity_change_journal(1) [OF sound assms(1)] unfolding good_def putBindings_def
    by (intro rtranclp_trans [OF 0] store_write_commit(1)) blast+
  have undo1: "bindingRun db (executeRollback f (putBindings rows1 db0))"
    if "good v current rows1" for v current rows1 f
    by (rule rtranclp_trans [OF w1 [OF that] store_rollback])
  have w2: "bindingRun db (putBindings rows db0)"
    if g: "good v current rows1"
      and u: "nativeBindingUpdate (failing BindUpdate) rows1 (new\<lparr>nb_bindingRevision := decimal (v + 1)\<rparr>) v
        = Some rows" for v current rows1 rows
  proof -
    have "bindingJournal (?t\<lparr>tt_bindings := rows1\<rparr>) (?t\<lparr>tt_bindings := rows\<rparr>)"
      using g u identity_change_journal(2) [OF sound assms(1)] unfolding good_def by blast
    then have "bindingRun (putBindings rows1 db0) (writeTables (?t\<lparr>tt_bindings := rows\<rparr>) (putBindings rows1 db0))"
      unfolding putBindings_def by (intro store_write_commit(1)) simp_all
    then show ?thesis using w1 [OF g] by (auto simp: putBindings_def intro: rtranclp_trans)
  qed
  have end2: "bindingRun db db2" "bindingRun db (executeRollback f' db2)"
    if "good v current rows1"
      "nativeBindingUpdate (failing BindUpdate) rows1 (new\<lparr>nb_bindingRevision := decimal (v + 1)\<rparr>) v
        = Some rows"
      "executeCommit f (putBindings rows db0) = (ok', db2)" for v current rows1 rows f ok' db2 f'
    using store_commit_or_undo [OF w2 [OF that(1,2)] that(3)] .
  show ?thesis
    unfolding updateVerifiedNativeIdentity_def Let_def Pair
    using 0 undo undo1 [unfolded good_def] end2 [unfolded good_def]
    by (simp split: option.split bool.split select_result.split prod.split)
      (intro conjI allI impI; blast)
qed

section \<open>Every run of the program\<close>

text \<open>
  The calls of the program on the database as the binding table sees them: its own writers, for
  bindings whose identifier and native identity hold no zero byte (\<open>bindingInput\<close>, a restriction the
  code leaves to its callers), transaction control, and any statement on another table.
\<close>

inductive bindingCall :: "timer_tables database \<Rightarrow> timer_tables database \<Rightarrow> bool" where
  bindingCallCreate: "bindingInput b \<Longrightarrow> bindingCall db (snd (createBinding failing db b))"
| bindingCallUpdate: "bindingInput b \<Longrightarrow> bindingCall db (snd (updateBinding failing db b tok fresh))"
| bindingCallIdentity: "bindingInput b \<Longrightarrow>
     bindingCall db (snd (updateVerifiedNativeIdentity failing db b tok))"
| bindingCallElsewhere: "tt_bindings t = tt_bindings (visibleTables db) \<Longrightarrow>
     bindingCall db (writeVisible t db)"
| bindingCallBegin: "bindingCall db (snd (executeBegin f db))"
| bindingCallCommit: "bindingCall db (snd (executeCommit f db))"
| bindingCallRollback: "bindingCall db (executeRollback f db)"

abbreviation bindingCalls :: "timer_tables database \<Rightarrow> timer_tables database \<Rightarrow> bool" where
  "bindingCalls \<equiv> bindingCall\<^sup>*\<^sup>*"

lemma bindingCall_run:
  assumes "bindingCall db db'" "bindingDbSound db"
  shows "bindingRun db db'"
  using assms(1)
proof cases
  case (bindingCallCreate b failing)
  show ?thesis unfolding bindingCallCreate(1) by (rule createBinding_follows [OF bindingCallCreate(2)])
next
  case (bindingCallUpdate b failing tok fresh)
  show ?thesis unfolding bindingCallUpdate(1)
    by (rule updateBinding_follows [OF bindingCallUpdate(2) assms(2)])
next
  case (bindingCallIdentity b failing tok)
  show ?thesis unfolding bindingCallIdentity(1)
    by (rule updateVerifiedNativeIdentity_follows [OF bindingCallIdentity(2) assms(2)])
next
  case (bindingCallElsewhere t)
  show ?thesis unfolding bindingCallElsewhere(1)
    by (rule store_write, rule bindingsElsewhere, rule bindingCallElsewhere(2))
next
  case bindingCallBegin
  then show ?thesis using store_begin by simp
next
  case bindingCallCommit
  then show ?thesis using store_commit by simp
next
  case bindingCallRollback
  then show ?thesis using store_rollback by simp
qed

lemma bindingCalls_sound:
  assumes "bindingCalls db db'" "bindingDbSound db"
  shows "bindingDbSound db' \<and> bindingsEvolve (tt_bindings (db_committed db)) (tt_bindings (db_committed db'))"
  using assms
proof (induction rule: rtranclp_induct)
  case base
  then show ?case by simp
next
  case (step y z)
  note run = bindingCall_run [OF step.hyps(2)]
  show ?case
    using step run bindingRun_sound bindingsEvolve_trans by blast
qed

lemma bindingDbSound_empty: "tt_bindings t = [] \<Longrightarrow> bindingDbSound \<lparr>db_committed = t, db_working = None\<rparr>"
  by (simp add: bindingDbSound_def bindingRowsSound_def bindingKeysSound_def transactionFollowsBy_def)

end
