(* ===== verification/BindingFreshness.thy ===== *)
theory BindingFreshness
  imports BindingRuns KeysetPages AssignmentSamples
begin

text \<open>
  The freshness poll of the daemon (\<open>DaemonRuntime::pollVdrAndUpdateChangeFeed\<close>): every tick lists
  four stale managed bindings behind its cursor, moves the cursor to the last of them, or back to the
  start, and reads those again whose backend has a usable agent and an HTTP client. The listing is a
  keyset page and a binding that is skipped moves the cursor like one that is read, so no binding that
  stays due and readable is starved.
\<close>

section \<open>One tick\<close>

text \<open>
  What a tick takes from elsewhere. The agent repository answers \<open>findAgentForBackend\<close> with the agent
  of a backend or none: the four fields the tick looks at, asked once per listed binding. The runtime
  contexts of the daemon are pointers that may be null (\<open>None\<close>) with a backend and perhaps an HTTP
  client. \<open>en_clock\<close> is the clock when the request for a binding is put together.
\<close>

record refresh_agent =
  ag_revoked :: bool
  ag_incompatible :: bool
  ag_leaseExpiresAt :: int
  ag_backendGeneration :: uint64

record refresh_context =
  cx_backendId :: string
  cx_httpClient :: bool

record refresh_environment =
  en_agent :: "native_timer_binding \<Rightarrow> refresh_agent option"
  en_contexts :: "refresh_context option list"
  en_clock :: "native_timer_binding \<Rightarrow> int"

text \<open>The read request of the backend's reader; the fields the tick leaves alone are left out.\<close>

record native_timer_read_request =
  rd_backendId :: string
  rd_backendGeneration :: uint64
  rd_backendNativeTimerId :: string
  rd_observedAt :: int
  rd_notBefore :: int

definition agentUsable :: "int \<Rightarrow> native_timer_binding \<Rightarrow> refresh_agent \<Rightarrow> bool" where
  "agentUsable now binding agent \<longleftrightarrow>
     \<not> (ag_revoked agent \<or> ag_incompatible agent \<or> ag_leaseExpiresAt agent < now
        \<or> ag_backendGeneration agent < nb_backendGeneration binding)"

definition contextServes :: "native_timer_binding \<Rightarrow> refresh_context option \<Rightarrow> bool" where
  "contextServes binding context \<longleftrightarrow>
     (case context of None \<Rightarrow> False
      | Some c \<Rightarrow> cx_httpClient c \<and> cx_backendId c = nb_backendId binding)"

text \<open>The body of the loop over the listed bindings: the request to the first client of the backend,
  or none where the binding is skipped.\<close>

definition refreshRequest ::
  "refresh_environment \<Rightarrow> int \<Rightarrow> native_timer_binding \<Rightarrow> native_timer_read_request option" where
  "refreshRequest env now binding =
     (case en_agent env binding of
        None \<Rightarrow> None
      | Some agent \<Rightarrow>
          if \<not> agentUsable now binding agent then None
          else case find (contextServes binding) (en_contexts env) of
              None \<Rightarrow> None
            | Some context \<Rightarrow>
                Some \<lparr>rd_backendId = nb_backendId binding,
                      rd_backendGeneration = ag_backendGeneration agent,
                      rd_backendNativeTimerId = nb_backendNativeTimerId binding,
                      rd_observedAt = en_clock env binding, rd_notBefore = en_clock env binding\<rparr>)"

text \<open>The bindings a tick reads again, each with its request, and the cursor afterwards: it follows
  every listed binding, skipped or not, and a failed listing leaves it.\<close>

definition nativeTimerRefreshTick ::
  "(binding_call \<Rightarrow> bool) \<Rightarrow> refresh_environment \<Rightarrow> timer_tables database \<Rightarrow> int \<Rightarrow> string
     \<Rightarrow> (native_timer_binding \<times> native_timer_read_request) list \<times> string" where
  "nativeTimerRefreshTick failing env db now cursor =
     (if now > 210
      then (let candidates = listManagedForFreshness failing db cursor (now - 180) 4
            in if nl_status candidates = BindOk
               then (List.map_filter
                       (\<lambda>binding. map_option (Pair binding) (refreshRequest env now binding))
                       (nl_bindings candidates),
                     if nl_bindings candidates = [] then []
                     else nb_nativeTimerBindingId (last (nl_bindings candidates)))
               else ([], cursor))
      else ([], cursor))"

lemma refreshRequest_Some:
  "refreshRequest env now b = Some q \<longleftrightarrow>
     (\<exists>agent. en_agent env b = Some agent \<and> agentUsable now b agent
        \<and> list_ex (contextServes b) (en_contexts env)
        \<and> q = \<lparr>rd_backendId = nb_backendId b, rd_backendGeneration = ag_backendGeneration agent,
               rd_backendNativeTimerId = nb_backendNativeTimerId b,
               rd_observedAt = en_clock env b, rd_notBefore = en_clock env b\<rparr>)"
  by (auto simp: refreshRequest_def list_ex_iff find_None_iff split: option.split if_split
      dest: find_Some_in)

lemma set_map_filter_pairs:
  "(b, q) \<in> set (List.map_filter (\<lambda>x. map_option (Pair x) (f x)) xs) \<longleftrightarrow> b \<in> set xs \<and> f b = Some q"
  by (force simp: map_filter_def)

text \<open>The ticks of a run: the database and the clock each of them sees.\<close>

primrec refreshCursor ::
  "(nat \<Rightarrow> refresh_environment) \<Rightarrow> (nat \<Rightarrow> timer_tables database \<times> int) \<Rightarrow> string \<Rightarrow> nat \<Rightarrow> string" where
  "refreshCursor envs ticks c 0 = c"
| "refreshCursor envs ticks c (Suc k) =
     snd (nativeTimerRefreshTick noBindingErrors (envs k) (fst (ticks k)) (snd (ticks k))
       (refreshCursor envs ticks c k))"

section \<open>The listing is a keyset page\<close>

definition refreshPage :: "timer_tables database \<times> int \<Rightarrow> string \<Rightarrow> native_timer_binding list" where
  "refreshPage tick c =
     nl_bindings (listManagedForFreshness noBindingErrors (fst tick) c (snd tick - 180) 4)"

text \<open>A binding that is due for a refresh: managed, present, without drift, idle and stale.\<close>

definition refreshDue :: "timer_tables database \<times> int \<Rightarrow> native_timer_binding \<Rightarrow> bool" where
  "refreshDue tick b \<longleftrightarrow>
     list_ex (\<lambda>r. readBinding r = Some b \<and> br_observed_recording r = 0 \<and> br_observed_pending r = 0)
       (tt_bindings (visibleTables (fst tick)))
     \<and> managedOwnership (nb_ownership b) \<and> nb_missingSince b = 0 \<and> nb_driftState b = DriftNone
     \<and> nb_lastObservedAt b < snd tick - 180"

definition refreshTickOk :: "timer_tables database \<times> int \<Rightarrow> string \<Rightarrow> bool" where
  "refreshTickOk tick c \<longleftrightarrow>
     bindingRowsSound (tt_bindings (visibleTables (fst tick))) \<and> snd tick > 210
     \<and> length c \<le> kMaxIdentityLength \<and> nulFree c"

lemma drift_none: "nativeTimerBindingDriftStateName d = ''none'' \<longleftrightarrow> d = DriftNone"
  by (cases d) simp_all

lemma freshness_due:
  assumes "readBinding r = Some b"
  shows "freshnessCandidate c stale r \<longleftrightarrow>
     c < nb_nativeTimerBindingId b \<and> managedOwnership (nb_ownership b) \<and> nb_missingSince b = 0
     \<and> nb_driftState b = DriftNone \<and> br_observed_recording r = 0 \<and> br_observed_pending r = 0
     \<and> nb_lastObservedAt b < stale"
  using readBinding_fields [OF assms] unfolding freshnessCandidate_def
  by (simp add: drift_none)

lemma hydrate_sound:
  assumes sound: "bindingRowsSound (tt_bindings (visibleTables db))"
    and rows: "set rows \<subseteq> set (tt_bindings (visibleTables db))"
  shows "hydrateBindings noBindingErrors db (map (\<lambda>row. cText (br_native_timer_binding_id row)) rows) =
     Some (map (\<lambda>row. the (readBinding row)) rows)"
  using rows
proof (induction rows)
  case Nil
  then show ?case by simp
next
  case (Cons r rows)
  let ?rows = "tt_bindings (visibleTables db)"
  have r: "r \<in> set ?rows" using Cons.prems by simp
  obtain b where b: "readBinding r = Some b" using sound r by (auto simp: bindingRowsSound_def)
  have nul: "nulFree (br_native_timer_binding_id r)" using sound r by (simp add: bindingRowsSound_def)
  have safe: "nonEmptyBounded (br_native_timer_binding_id r) 160"
    using valid_identities(3) [OF readBinding_fields(1) [OF b]] readBinding_fields(2) [OF b] by simp
  have keys: "distinct (map br_native_timer_binding_id ?rows)"
    using sound bindingKeysSound_distinct(1) by (simp add: bindingRowsSound_def)
  have "find (\<lambda>row. br_native_timer_binding_id row = br_native_timer_binding_id r) ?rows = Some r"
    by (rule find_unique_key [OF keys r])
  then have "findBindingById False db (br_native_timer_binding_id r) = bindingResult BindOk b"
    using safe b
    by (simp add: findBindingById_def safeTimerIdentity_def nonEmptyBounded_def bounded_def nativeBindingSelectById_def
        selectFirst_def lookupResult_def)
  then show ?case using Cons nul b by (simp add: noBindingErrors_def)
qed


lemma refreshPage_is:
  assumes "refreshTickOk tick c"
  shows "listManagedForFreshness noBindingErrors (fst tick) c (snd tick - 180) 4 =
      \<lparr>nl_status = BindOk, nl_bindings = refreshPage tick c\<rparr>"
    and "refreshPage tick c = map (\<lambda>row. the (readBinding row))
      (take 4 (sort_key br_native_timer_binding_id
        (filter (freshnessCandidate c (snd tick - 180)) (tt_bindings (visibleTables (fst tick))))))"
proof -
  let ?rows = "tt_bindings (visibleTables (fst tick))"
  let ?ids = "take 4 (sort_key br_native_timer_binding_id (filter (freshnessCandidate c (snd tick - 180)) ?rows))"
  have ok: "bindingRowsSound ?rows" "snd tick > 210" "length c \<le> kMaxIdentityLength" "nulFree c"
    using assms by (simp_all add: refreshTickOk_def)
  have "set ?ids \<subseteq> set ?rows" using set_take_subset by fastforce
  note h = hydrate_sound [OF ok(1) this]
  show l: "listManagedForFreshness noBindingErrors (fst tick) c (snd tick - 180) 4 =
      \<lparr>nl_status = BindOk, nl_bindings = refreshPage tick c\<rparr>"
    and "refreshPage tick c = map (\<lambda>row. the (readBinding row)) ?ids"
    using ok(2-4) h by (simp_all add: refreshPage_def listManagedForFreshness_def noBindingErrors_def)
qed

interpretation refresh_pages: keyset_pages refreshPage nb_nativeTimerBindingId refreshDue refreshTickOk
proof unfold_locales
  fix tick c b
  assume ok: "refreshTickOk tick c"
  let ?rows = "tt_bindings (visibleTables (fst tick))" and ?P = "freshnessCandidate c (snd tick - 180)"
  let ?raw = "take 4 (sort_key br_native_timer_binding_id (filter ?P ?rows))"
  have sound: "bindingRowsSound ?rows" using ok by (simp add: refreshTickOk_def)
  have keys: "distinct (map br_native_timer_binding_id ?rows)"
    using sound bindingKeysSound_distinct(1) by (simp add: bindingRowsSound_def)
  note kp = keyset_page [where n = 4 and P = ?P, OF keys refl]
  have page: "refreshPage tick c = map (\<lambda>row. the (readBinding row)) ?raw" by (rule refreshPage_is(2) [OF ok])
  have reads: "readBinding r = Some (the (readBinding r))" if "r \<in> set ?rows" for r
    using sound that by (auto simp: bindingRowsSound_def)
  have raw: "r \<in> set ?rows \<and> ?P r" if "r \<in> set ?raw" for r using kp(1) that by auto
  have ids: "nb_nativeTimerBindingId (the (readBinding r)) = br_native_timer_binding_id r"
    if "r \<in> set ?raw" for r using readBinding_fields(2) [OF reads] raw [OF that] by blast
  have map_ids: "map nb_nativeTimerBindingId (refreshPage tick c) = map br_native_timer_binding_id ?raw"
    unfolding page map_map by (rule map_cong [OF refl]) (simp add: ids)
  show "b \<in> set (refreshPage tick c) \<Longrightarrow> refreshDue tick b \<and> c < nb_nativeTimerBindingId b"
  proof -
    assume "b \<in> set (refreshPage tick c)"
    then obtain r where r: "r \<in> set ?raw" "b = the (readBinding r)" unfolding page by auto
    note rr = raw [OF r(1)]
    have read: "readBinding r = Some b" using reads rr r(2) by simp
    show ?thesis
      using rr read freshness_due [OF read] unfolding refreshDue_def list_ex_iff by blast
  qed
  show "sorted_wrt (<) (map nb_nativeTimerBindingId (refreshPage tick c))"
    unfolding map_ids by (rule kp(2))
  assume due: "refreshDue tick b" and above: "c < nb_nativeTimerBindingId b"
    and missing: "b \<notin> set (refreshPage tick c)"
  obtain r where r: "r \<in> set ?rows" "readBinding r = Some b"
    "br_observed_recording r = 0" "br_observed_pending r = 0"
    using due unfolding refreshDue_def list_ex_iff by blast
  have "?P r" using freshness_due [OF r(2)] r(3,4) due above unfolding refreshDue_def by blast
  moreover have "r \<notin> set ?raw" using missing r(2) unfolding page by force
  ultimately have *: "length ?raw = 4" "\<forall>p \<in> set ?raw. br_native_timer_binding_id p < br_native_timer_binding_id r"
    using kp(3) [OF r(1)] by blast+
  have "refreshPage tick c \<noteq> []" using *(1) unfolding page by (metis length_0_conv length_map zero_neq_numeral)
  moreover have "\<forall>p \<in> set (refreshPage tick c). nb_nativeTimerBindingId p < nb_nativeTimerBindingId b"
    using *(2) ids readBinding_fields(2) [OF r(2)] unfolding page by auto
  ultimately show "refreshPage tick c \<noteq> []
      \<and> (\<forall>p \<in> set (refreshPage tick c). nb_nativeTimerBindingId p < nb_nativeTimerBindingId b)" by blast
qed

section \<open>No due binding is starved\<close>

lemma refreshTick_is:
  assumes "refreshTickOk tick c"
  shows "nativeTimerRefreshTick noBindingErrors env (fst tick) (snd tick) c =
     (List.map_filter (\<lambda>b. map_option (Pair b) (refreshRequest env (snd tick) b)) (refreshPage tick c),
      if refreshPage tick c = [] then [] else nb_nativeTimerBindingId (last (refreshPage tick c)))"
  using refreshPage_is(1) [OF assms] assms
  by (simp add: nativeTimerRefreshTick_def Let_def refreshTickOk_def)

lemma refreshTick_cursor:
  assumes "refreshTickOk tick c"
  shows "length (snd (nativeTimerRefreshTick noBindingErrors env (fst tick) (snd tick) c)) \<le> kMaxIdentityLength
    \<and> nulFree (snd (nativeTimerRefreshTick noBindingErrors env (fst tick) (snd tick) c))"
proof (cases "refreshPage tick c = []")
  case True
  then show ?thesis by (simp add: refreshTick_is [OF assms] nulFree_def)
next
  case False
  then have "refreshDue tick (last (refreshPage tick c))"
    using refresh_pages.page_sound [OF assms] by simp
  then obtain r where r: "r \<in> set (tt_bindings (visibleTables (fst tick)))"
    "readBinding r = Some (last (refreshPage tick c))" unfolding refreshDue_def list_ex_iff by blast
  have "nulFree (br_native_timer_binding_id r)"
    using assms r(1) by (simp add: refreshTickOk_def bindingRowsSound_def)
  moreover have "nonEmptyBounded (nb_nativeTimerBindingId (last (refreshPage tick c))) 160"
    by (rule valid_identities(3) [OF readBinding_fields(1) [OF r(2)]])
  ultimately show ?thesis using False readBinding_fields(2) [OF r(2)]
    by (simp add: refreshTick_is [OF assms] nonEmptyBounded_def bounded_def)
qed

lemma refreshCursor_poll:
  assumes "\<And>k. refreshTickOk (ticks k) []" "length c \<le> kMaxIdentityLength" "nulFree c"
  shows "refreshTickOk (ticks k) (refreshCursor envs ticks c k)
    \<and> refreshCursor envs ticks c k = pollCursor refreshPage nb_nativeTimerBindingId [] ticks c k"
proof (induction k)
  case 0
  then show ?case using assms by (simp add: refreshTickOk_def)
next
  case (Suc k)
  have ok: "refreshTickOk (ticks k) (refreshCursor envs ticks c k)"
    and eq: "refreshCursor envs ticks c k = pollCursor refreshPage nb_nativeTimerBindingId [] ticks c k"
    using Suc.IH by blast+
  have "refreshCursor envs ticks c (Suc k) = pollCursor refreshPage nb_nativeTimerBindingId [] ticks c (Suc k)"
    using refreshTick_is [OF ok] by (simp add: Let_def eq [symmetric])
  moreover have "refreshTickOk (ticks (Suc k)) (refreshCursor envs ticks c (Suc k))"
    using refreshTick_cursor [OF ok] assms(1) [of "Suc k"] by (simp add: refreshTickOk_def)
  ultimately show ?case by blast
qed

lemma refresh_sequence:
  assumes "\<And>k. bindingCalls (fst (ticks k)) (fst (ticks (Suc k)))" "bindingDbSound (fst (ticks 0))"
  shows "bindingDbSound (fst (ticks k)) \<and> bindingsEvolve (tt_bindings (db_committed (fst (ticks 0))))
    (tt_bindings (db_committed (fst (ticks k))))"
proof (induction k)
  case 0
  then show ?case using assms(2) by simp
next
  case (Suc k)
  then show ?case using bindingCalls_sound [OF assms(1)] bindingsEvolve_trans by blast
qed

lemma refreshDue_unique:
  assumes "bindingRowsSound (tt_bindings (visibleTables (fst tick)))"
    and "refreshDue tick b" "refreshDue tick b'" "nb_nativeTimerBindingId b = nb_nativeTimerBindingId b'"
  shows "b = b'"
proof -
  let ?rows = "tt_bindings (visibleTables (fst tick))"
  have keys: "distinct (map br_native_timer_binding_id ?rows)"
    using assms(1) bindingKeysSound_distinct(1) by (simp add: bindingRowsSound_def)
  obtain r r' where r: "r \<in> set ?rows" "readBinding r = Some b" "r' \<in> set ?rows" "readBinding r' = Some b'"
    using assms(2,3) unfolding refreshDue_def list_ex_iff by blast
  then have "br_native_timer_binding_id r = br_native_timer_binding_id r'"
    using readBinding_fields(2) assms(4) by metis
  then have "r = r'" using keys r by (simp add: distinct_map inj_on_def)
  then show ?thesis using r by simp
qed

text \<open>A binding is readable in a tick when its backend has an agent the tick accepts and a client.\<close>

definition refreshReadable :: "refresh_environment \<Rightarrow> int \<Rightarrow> native_timer_binding \<Rightarrow> bool" where
  "refreshReadable env now b \<longleftrightarrow>
     (case en_agent env b of None \<Rightarrow> False
      | Some agent \<Rightarrow> agentUsable now b agent \<and> list_ex (contextServes b) (en_contexts env))"

lemma readable_request:
  assumes "refreshReadable env now b"
  obtains q where "refreshRequest env now b = Some q" "rd_backendId q = nb_backendId b"
    "rd_backendNativeTimerId q = nb_backendNativeTimerId b"
  using assms by (auto simp: refreshReadable_def refreshRequest_Some split: option.splits)

lemma refresh_visits:
  assumes calls: "\<And>k. bindingCalls (fst (ticks k)) (fst (ticks (Suc k)))"
    and sound: "bindingDbSound (fst (ticks 0))" and clock: "\<And>k. 210 < snd (ticks k)"
    and cursor: "length c \<le> kMaxIdentityLength" "nulFree c"
    and K: "finite K" "\<And>k b. refreshDue (ticks k) b \<Longrightarrow> nb_nativeTimerBindingId b \<in> K"
    and due: "\<And>k. k < bound \<Longrightarrow> \<exists>b. refreshDue (ticks k) b \<and> nb_nativeTimerBindingId b = i
      \<and> refreshReadable (envs k) (snd (ticks k)) b"
    and bound: "2 * card K \<le> bound" "0 < bound"
  shows "\<exists>k < bound. \<exists>b q. (b, q) \<in> set (fst (nativeTimerRefreshTick noBindingErrors (envs k)
        (fst (ticks k)) (snd (ticks k)) (refreshCursor envs ticks c k)))
      \<and> nb_nativeTimerBindingId b = i \<and> rd_backendId q = nb_backendId b
      \<and> rd_backendNativeTimerId q = nb_backendNativeTimerId b"
proof -
  have rows: "bindingRowsSound (tt_bindings (visibleTables (fst (ticks k))))" for k
    by (rule bindingDbSound_visible(1) [OF conjunct1 [OF refresh_sequence [OF calls sound]]])
  have ok: "refreshTickOk (ticks k) []" for k
    using rows clock by (simp add: refreshTickOk_def nulFree_def)
  note cur = refreshCursor_poll [where ticks = ticks and envs = envs, OF ok cursor]
  obtain b where b: "refreshDue (ticks 0) b" "nb_nativeTimerBindingId b = i" using due bound(2) by blast
  obtain r where "readBinding r = Some b" using b(1) unfolding refreshDue_def list_ex_iff by blast
  then have "i \<noteq> []" using valid_identities(3) readBinding_fields(1) b(2)
    by (fastforce simp: nonEmptyBounded_def)
  then have start: "[] < i" by (cases i) simp_all
  have oks: "refreshTickOk (ticks k) (pollCursor refreshPage nb_nativeTimerBindingId [] ticks c k)" for k
    unfolding conjunct2 [OF cur, symmetric] by (rule conjunct1 [OF cur])
  have dues: "\<exists>b. refreshDue (ticks k) b \<and> nb_nativeTimerBindingId b = i" if "k < bound" for k
    using due [OF that] by blast
  have "\<exists>k < bound. \<exists>b \<in> set (refreshPage (ticks k) (pollCursor refreshPage nb_nativeTimerBindingId [] ticks c k)).
      nb_nativeTimerBindingId b = i"
    by (rule refresh_pages.poll_visits [OF K(1) K(2) dues oks start bound])
  then obtain k b where k: "k < bound" "nb_nativeTimerBindingId b = i"
    "b \<in> set (refreshPage (ticks k) (refreshCursor envs ticks c k))"
    unfolding conjunct2 [OF cur, symmetric] by blast
  obtain b' where b': "refreshDue (ticks k) b'" "nb_nativeTimerBindingId b' = i"
    "refreshReadable (envs k) (snd (ticks k)) b'" using due [OF k(1)] by blast
  have "refreshDue (ticks k) b" using refresh_pages.page_sound [OF conjunct1 [OF cur] k(3)] by blast
  from refreshDue_unique [OF rows this b'(1)] k(2) b'(2) have "b = b'" by simp
  then obtain q where q: "refreshRequest (envs k) (snd (ticks k)) b = Some q" "rd_backendId q = nb_backendId b"
    "rd_backendNativeTimerId q = nb_backendNativeTimerId b"
    using readable_request b'(3) by blast
  have "(b, q) \<in> set (fst (nativeTimerRefreshTick noBindingErrors (envs k) (fst (ticks k)) (snd (ticks k))
      (refreshCursor envs ticks c k)))"
    unfolding refreshTick_is [OF conjunct1 [OF cur]] fst_conv set_map_filter_pairs using k(3) q(1) by simp
  then show ?thesis using k(1,2) q(2,3) by blast
qed

end
