(* ===== verification/BindingProperties.thy ===== *)
theory BindingProperties
  imports BindingFreshness
begin

text \<open>
  The properties of the binding store: what it holds can always be read, its keys are kept, and
  its native identity and its observation change only under their guards; and the fairness of the
  freshness poll. The witnesses evaluate the calls on a small store.
\<close>

section \<open>What an accepted change did\<close>

lemma executeCommit_fails: "executeCommit f db = (False, d) \<Longrightarrow> db_committed d = db_committed db"
  by (auto simp: executeCommit_def split: option.splits if_splits)

lemma executeCommit_done:
  "executeCommit f (writeTables t db) = (True, d) \<Longrightarrow> d = \<lparr>db_committed = t, db_working = None\<rparr>"
  by (auto simp: executeCommit_def writeTables_def split: if_splits)

text \<open>
  The one row \<open>r\<close> of the binding was read as \<open>current\<close> under the quoted revision, and became a
  row that reads as the requested binding one revision later; no other row changed.
\<close>

definition bindingReplaced ::
  "timer_tables \<Rightarrow> native_timer_binding \<Rightarrow> native_timer_binding \<Rightarrow> string \<Rightarrow> native_timer_binding
     \<Rightarrow> timer_tables \<Rightarrow> bool" where
  "bindingReplaced t current new tok stored t' \<longleftrightarrow>
     (\<exists>r row v. r \<in> set (tt_bindings t) \<and> readBinding r = Some current
        \<and> nb_nativeTimerBindingId current = nb_nativeTimerBindingId new
        \<and> nb_bindingRevision current = tok \<and> br_binding_revision r = int v
        \<and> stored = new\<lparr>nb_bindingRevision := decimal (v + 1)\<rparr> \<and> readBinding row = Some stored
        \<and> br_binding_revision row = int (v + 1)
        \<and> tt_bindings t' = map (\<lambda>x. if x = r then row else x) (tt_bindings t))"

lemma bindingReplacedI:
  assumes "r \<in> set (tt_bindings t)" "readBinding r = Some current"
    and "nb_nativeTimerBindingId new = nb_nativeTimerBindingId current"
    and "nb_bindingRevision current = tok" "br_binding_revision r = int v"
    and "bindBindingColumns (new\<lparr>nb_bindingRevision := decimal (v + 1)\<rparr>) = Some row"
    and "nativeTimerBindingValid (new\<lparr>nb_bindingRevision := decimal (v + 1)\<rparr>)" "bindingInput new"
    and "tt_bindings t' = map (\<lambda>x. if x = r then row else x) (tt_bindings t)"
  shows "bindingReplaced t current new tok (new\<lparr>nb_bindingRevision := decimal (v + 1)\<rparr>) t'"
proof -
  have "readBinding row = Some (new\<lparr>nb_bindingRevision := decimal (v + 1)\<rparr>)"
    using assms(8) by (intro readBinding_bound [OF assms(6,7)]) (simp_all add: bindingInput_def)
  moreover have "br_binding_revision row = int (v + 1)"
    using bound_revision(1) [OF assms(6), of "v + 1"] by simp
  ultimately show ?thesis
    using assms unfolding bindingReplaced_def
    by (intro exI [of _ r] exI [of _ row] exI [of _ v] conjI) simp_all
qed

lemma verified_identity_effect:
  assumes call: "updateVerifiedNativeIdentity failing db new tok = (res, db')"
    and input: "bindingInput new" and sound: "bindingDbSound db"
  shows "nr_status res \<noteq> BindOk \<Longrightarrow> db_committed db' = db_committed db"
    and "nr_status res = BindOk \<Longrightarrow> \<exists>current stored. res = bindingResult BindOk stored
      \<and> bindingReplaced (db_committed db) current new tok stored (db_committed db')
      \<and> identityChangePermitted current new
      \<and> list_ex (identityChangeAuthorized current new tok) (ot_operations (tt_operations (db_committed db)))
      \<and> (\<exists>rows. db_committed db' = (db_committed db)\<lparr>tt_bindings := rows\<rparr>)"
proof -
  obtain ok db0 where b: "executeBegin (failing BindBegin) db = (ok, db0)" by fastforce
  have com0: "db_committed db0 = db_committed db"
    using arg_cong [OF b, of "\<lambda>p. db_committed (snd p)"] by simp
  show "db_committed db' = db_committed db" if "nr_status res \<noteq> BindOk"
    using call that com0
    by (auto simp: updateVerifiedNativeIdentity_def Let_def b putBindings_def dest!: executeCommit_fails
        split: option.splits bool.splits prod.splits select_result.splits if_splits)
  assume "nr_status res = BindOk"
  then obtain v current rows1 rows where acc: "parseRevisionToken tok = Some v" "v \<noteq> int64_max"
    "nativeTimerBindingValid new" "ok" "nb_bindingRevision current = tok"
    "nativeBindingSelectById (failing BindSelectId) (tt_bindings (visibleTables db0))
      (nb_nativeTimerBindingId new) = SelectFound current"
    "identityChangePermitted current new"
    "list_ex (identityChangeAuthorized current new tok) (ot_operations (tt_operations (visibleTables db0)))"
    "renameNativeIdentity (failing BindRename) (tt_bindings (visibleTables db0)) current v
      (cText (nb_backendNativeTimerId new)) = Some rows1"
    "nativeBindingUpdate (failing BindUpdate) rows1 (new\<lparr>nb_bindingRevision := decimal (v + 1)\<rparr>) v = Some rows"
    "executeCommit (failing BindCommit) (putBindings rows db0) = (True, db')"
    "res = bindingResult BindOk (new\<lparr>nb_bindingRevision := decimal (v + 1)\<rparr>)"
    using call
    by (auto simp: updateVerifiedNativeIdentity_def Let_def b
        split: option.splits bool.splits prod.splits select_result.splits if_splits)
  let ?t = "db_committed db"
  have vis: "visibleTables db0 = ?t" using executeBegin_True(3) [of "failing BindBegin" db db0] b acc(4) by simp
  have rs: "bindingRowsSound (tt_bindings ?t)" using sound by (simp add: bindingDbSound_def)
  obtain r where r: "r \<in> set (tt_bindings ?t)" "readBinding r = Some current" "br_binding_revision r = int v"
    "nb_nativeTimerBindingId new = nb_nativeTimerBindingId current" "0 < v" "v \<le> int64_max"
    and upd: "\<forall>f'' rows. nativeBindingUpdate f'' rows1 (new\<lparr>nb_bindingRevision := decimal (v + 1)\<rparr>) v = Some rows \<longrightarrow>
      (\<exists>row. bindBindingColumns (new\<lparr>nb_bindingRevision := decimal (v + 1)\<rparr>) = Some row
        \<and> rows = map (\<lambda>x. if x = r\<lparr>br_backend_native_timer_id := nb_backendNativeTimerId new\<rparr> then row else x) rows1
        \<and> rows = map (\<lambda>x. if x = r then row else x) (tt_bindings ?t))"
    by (rule identity_change_rows [OF rs input acc(6) [unfolded vis] acc(5,1,2,3,7) acc(9) [unfolded vis] refl])
  obtain row where row: "bindBindingColumns (new\<lparr>nb_bindingRevision := decimal (v + 1)\<rparr>) = Some row"
    "rows = map (\<lambda>x. if x = r then row else x) (tt_bindings ?t)" using upd acc(10) by blast
  have d: "db_committed db' = ?t\<lparr>tt_bindings := rows\<rparr>"
    using executeCommit_done [OF acc(11) [unfolded putBindings_def]] vis by simp
  have "nativeTimerBindingValid (new\<lparr>nb_bindingRevision := decimal (v + 1)\<rparr>)"
    using valid_revision [OF acc(3)] r(6) acc(2) by simp
  then have "bindingReplaced ?t current new tok (new\<lparr>nb_bindingRevision := decimal (v + 1)\<rparr>) (db_committed db')"
    by (rule bindingReplacedI [OF r(1,2,4) acc(5) r(3) row(1) _ input]) (simp add: d row(2))
  then show "\<exists>current stored. res = bindingResult BindOk stored
      \<and> bindingReplaced ?t current new tok stored (db_committed db')
      \<and> identityChangePermitted current new
      \<and> list_ex (identityChangeAuthorized current new tok) (ot_operations (tt_operations ?t))
      \<and> (\<exists>rows. db_committed db' = ?t\<lparr>tt_bindings := rows\<rparr>)"
    using acc(7) acc(8) [unfolded vis] acc(12) d by blast
qed


lemma updateBindingCheck_refused:
  "updateBindingCheck failing t new tok v fresh = Inl res \<Longrightarrow> nr_status res \<noteq> BindOk"
  by (auto simp: updateBindingCheck_def split: select_result.splits if_splits)

text \<open>What the passive refresh does to the assignments: at most the bound one is moved on.\<close>

definition generationRefreshed ::
  "assignment_row list \<Rightarrow> native_timer_binding \<Rightarrow> uint64 \<Rightarrow> int \<Rightarrow> assignment_row list \<Rightarrow> bool" where
  "generationRefreshed rows current generation observedAt rows' \<longleftrightarrow>
     rows' = map (\<lambda>x. if ar_timer_assignment_id x = cText (nb_timerAssignmentId current)
          \<and> ar_native_timer_binding_id x = cText (nb_nativeTimerBindingId current)
          \<and> ar_backend_id x = cText (nb_backendId current)
          \<and> ar_state x = ''bound'' \<and> ar_backend_generation x < sint generation
        then refreshedRow (sint generation) observedAt x else x) rows"

lemma refresh_rows:
  assumes "refreshBoundAssignmentGeneration failing t current generation observedAt = Some t'"
    and "rowsSound (tt_assignments t)"
  shows "generationRefreshed (tt_assignments t) current generation observedAt (tt_assignments t')"
    and "tt_bindings t' = tt_bindings t" "tt_intents t' = tt_intents t" "tt_operations t' = tt_operations t"
proof -
  obtain row where row: "find (refreshable t current) (tt_assignments t) = Some row"
    "ar_backend_generation row \<le> sint generation"
    and cases: "ar_backend_generation row = sint generation \<and> t' = t
      \<or> ar_backend_generation row < sint generation
        \<and> updateAssignmentRows (failing BindRefreshWrite) t
            (refreshTarget current (ar_backend_generation row) (ar_assignment_revision row))
            (refreshedRow (sint generation) observedAt) = WriteDone (1, t')"
    using assms(1)
    by (auto simp: refreshBoundAssignmentGeneration_def Let_def not_le not_less
        split: if_splits option.splits write_outcome.splits)
  have r: "row \<in> set (tt_assignments t)" "refreshable t current row"
    using find_Some_in [OF row(1)] by simp_all
  have only: "x = row" if "x \<in> set (tt_assignments t)"
    "ar_timer_assignment_id x = cText (nb_timerAssignmentId current)" for x
    using that r assignmentRowOf_Some [OF assms(2), of "cText (nb_timerAssignmentId current)"]
    by (metis refreshable_def option.inject)
  show "tt_bindings t' = tt_bindings t" "tt_intents t' = tt_intents t" "tt_operations t' = tt_operations t"
    using cases by (auto simp: updateAssignmentRows_def Let_def split: if_splits)
  show "generationRefreshed (tt_assignments t) current generation observedAt (tt_assignments t')"
    using cases
  proof (elim disjE conjE)
    assume "ar_backend_generation row = sint generation" "t' = t"
    then show ?thesis
      unfolding generationRefreshed_def
      by (simp only:) (rule sym, rule map_idI, auto dest: only)
  next
    assume less: "ar_backend_generation row < sint generation"
      and w: "updateAssignmentRows (failing BindRefreshWrite) t
            (refreshTarget current (ar_backend_generation row) (ar_assignment_revision row))
            (refreshedRow (sint generation) observedAt) = WriteDone (1, t')"
    have "tt_assignments t' = map (\<lambda>x. if refreshTarget current (ar_backend_generation row)
        (ar_assignment_revision row) x then refreshedRow (sint generation) observedAt x else x) (tt_assignments t)"
      using updateAssignmentRows_Done(1) [OF w] by (simp add: refreshedRow_def)
    also have "\<dots> = map (\<lambda>x. if ar_timer_assignment_id x = cText (nb_timerAssignmentId current)
          \<and> ar_native_timer_binding_id x = cText (nb_nativeTimerBindingId current)
          \<and> ar_backend_id x = cText (nb_backendId current)
          \<and> ar_state x = ''bound'' \<and> ar_backend_generation x < sint generation
        then refreshedRow (sint generation) observedAt x else x) (tt_assignments t)"
    proof (rule map_cong [OF refl])
      fix x
      assume "x \<in> set (tt_assignments t)"
      then have "refreshTarget current (ar_backend_generation row) (ar_assignment_revision row) x \<longleftrightarrow>
          ar_timer_assignment_id x = cText (nb_timerAssignmentId current)
          \<and> ar_native_timer_binding_id x = cText (nb_nativeTimerBindingId current)
          \<and> ar_backend_id x = cText (nb_backendId current)
          \<and> ar_state x = ''bound'' \<and> ar_backend_generation x < sint generation"
        using only less unfolding refreshTarget_def by blast
      then show "(if refreshTarget current (ar_backend_generation row) (ar_assignment_revision row) x
          then refreshedRow (sint generation) observedAt x else x) =
        (if ar_timer_assignment_id x = cText (nb_timerAssignmentId current)
          \<and> ar_native_timer_binding_id x = cText (nb_nativeTimerBindingId current)
          \<and> ar_backend_id x = cText (nb_backendId current)
          \<and> ar_state x = ''bound'' \<and> ar_backend_generation x < sint generation
        then refreshedRow (sint generation) observedAt x else x)" by (simp only:)
    qed
    finally show ?thesis unfolding generationRefreshed_def .
  qed
qed

lemma passive_refresh_effect:
  assumes call: "updateBinding failing db new tok True = (res, db')"
    and input: "bindingInput new" and sound: "bindingDbSound db" "timerDbSound db"
  shows "nr_status res \<noteq> BindOk \<Longrightarrow> db_committed db' = db_committed db"
    and "nr_status res = BindOk \<Longrightarrow> \<exists>current stored. res = bindingResult BindOk stored
      \<and> bindingReplaced (db_committed db) current new tok stored (db_committed db')
      \<and> passiveRefreshPermitted current new
      \<and> \<not> list_ex (mutationPending current) (ot_operations (tt_operations (db_committed db)))
      \<and> generationRefreshed (tt_assignments (db_committed db)) current
          (nb_backendGeneration new) (nb_lastObservedAt new) (tt_assignments (db_committed db'))
      \<and> tt_operations (db_committed db') = tt_operations (db_committed db)
      \<and> tt_intents (db_committed db') = tt_intents (db_committed db)"
proof -
  obtain ok db0 where b: "executeBegin (failing BindBegin) db = (ok, db0)" by fastforce
  have com0: "db_committed db0 = db_committed db"
    using arg_cong [OF b, of "\<lambda>p. db_committed (snd p)"] by simp
  show "db_committed db' = db_committed db" if "nr_status res \<noteq> BindOk"
    using call that com0
    by (auto simp: updateBinding_def Let_def b dest!: executeCommit_fails simp del: executeCommit_writeTables
        split: option.splits bool.splits prod.splits sum.splits if_splits)
  assume "nr_status res = BindOk"
  then obtain v current rows t2 where acc: "parseRevisionToken tok = Some v"
    "nativeTimerBindingValid new" "ok"
    "updateBindingCheck failing (visibleTables db0) new tok v True = Inr current"
    "nativeTimerBindingValid (new\<lparr>nb_bindingRevision := decimal (v + 1)\<rparr>)"
    "nativeBindingUpdate (failing BindUpdate) (tt_bindings (visibleTables db0))
      (new\<lparr>nb_bindingRevision := decimal (v + 1)\<rparr>) v = Some rows"
    "refreshBoundAssignmentGeneration failing ((visibleTables db0)\<lparr>tt_bindings := rows\<rparr>) current
      (nb_backendGeneration new) (nb_lastObservedAt new) = Some t2"
    "executeCommit (failing BindCommit) (writeTables t2 db0) = (True, db')"
    "res = bindingResult BindOk (new\<lparr>nb_bindingRevision := decimal (v + 1)\<rparr>)"
    using call
    by (auto simp: updateBinding_def Let_def b simp del: executeCommit_writeTables
        dest!: updateBindingCheck_refused
        split: option.splits bool.splits prod.splits sum.splits if_splits)
  let ?t = "db_committed db" and ?d = "new\<lparr>nb_bindingRevision := decimal (v + 1)\<rparr>"
  have vis: "visibleTables db0 = ?t" using executeBegin_True(3) [of "failing BindBegin" db db0] b acc(3) by simp
  have rs: "bindingRowsSound (tt_bindings ?t)" using sound by (simp add: bindingDbSound_def)
  have as: "rowsSound (tt_assignments ?t)" using sound by (simp add: timerDbSound_def)
  obtain r row where row: "r \<in> set (tt_bindings ?t)" "readBinding r = Some current"
    "nb_bindingRevision current = tok" "br_binding_revision r = int v"
    "nb_nativeTimerBindingId new = nb_nativeTimerBindingId current"
    "bindBindingColumns ?d = Some row" "rows = map (\<lambda>x. if x = r then row else x) (tt_bindings ?t)"
    by (rule updated_binding_row [OF acc(4) [unfolded vis] acc(1) rs acc(6) [unfolded vis]])
  have chk: "passiveRefreshPermitted current new"
    "\<not> list_ex (mutationPending current) (ot_operations (tt_operations ?t))"
    using acc(4) unfolding vis
    by (auto simp: updateBindingCheck_def split: select_result.splits if_splits)
  have "rowsSound (tt_assignments (?t\<lparr>tt_bindings := rows\<rparr>))" using as by simp
  note ref = refresh_rows [OF acc(7) [unfolded vis] this]
  have d: "db_committed db' = t2" using executeCommit_done [OF acc(8)] by simp
  have "bindingReplaced ?t current new tok ?d (db_committed db')"
    by (rule bindingReplacedI [OF row(1,2,5,3,4,6) acc(5) input]) (simp add: d ref(2) row(7))
  then show "\<exists>current stored. res = bindingResult BindOk stored
      \<and> bindingReplaced ?t current new tok stored (db_committed db')
      \<and> passiveRefreshPermitted current new
      \<and> \<not> list_ex (mutationPending current) (ot_operations (tt_operations ?t))
      \<and> generationRefreshed (tt_assignments ?t) current
          (nb_backendGeneration new) (nb_lastObservedAt new) (tt_assignments (db_committed db'))
      \<and> tt_operations (db_committed db') = tt_operations ?t
      \<and> tt_intents (db_committed db') = tt_intents ?t"
    using chk acc(9) ref by (auto simp: d)
qed


section \<open>Samples\<close>

definition sampleObserved :: "string \<Rightarrow> native_timer_observed_state" where
  "sampleObserved start =
     \<lparr>os_channelId = ''S19-1'', os_eventId = ''77'', os_title = ''News'', os_directory = [],
      os_day = ''2026-07-29'', os_weekdays = ''-------'', os_startTime = start,
      os_endTime = ''2100'', os_flags = 1, os_priority = 50, os_lifetime = 99,
      os_enabled = True, os_vps = False, os_recording = False, os_pending = False\<rparr>"

definition sampleBinding ::
  "string \<Rightarrow> uint64 \<Rightarrow> string \<Rightarrow> string \<Rightarrow> int \<Rightarrow> string \<Rightarrow> native_timer_binding" where
  "sampleBinding revision generation native start at operation =
     \<lparr>nb_nativeTimerBindingId = ''b1'', nb_bindingRevision = revision, nb_backendId = ''vdr1'',
      nb_backendGeneration = generation, nb_backendNativeTimerId = native,
      nb_timerAssignmentId = ''a1'', nb_ownership = OwnManaged,
      nb_observedFingerprint = nativeTimerObservedStateFingerprint (sampleObserved start),
      nb_observedState = sampleObserved start, nb_lastObservedAt = at,
      nb_lastVerifiedOperationId = operation, nb_missingSince = 0, nb_driftState = DriftNone\<rparr>"

definition firstBinding :: native_timer_binding where
  "firstBinding = sampleBinding [] 7 ''4'' ''2000'' 150 ''op1''"

text \<open>A store with the binding, its bound assignment, and an update whose outcome is unknown.\<close>

definition boundRow :: assignment_row where
  "boundRow = (hd (tt_assignments (db_committed oneAssignment)))
     \<lparr>ar_state := ''bound'', ar_native_timer_binding_id := ''b1''\<rparr>"

definition updateOperation :: operation_row where
  "updateOperation =
     \<lparr>or_operation_id = ''op2'', or_operation_revision = 3, or_idempotency_key = ''k2'',
      or_actor_id = ''actor'', or_backend_id = ''vdr1'', or_backend_generation = 7,
      or_resource_type = ''NativeTimerBinding'', or_resource_id = ''b1'',
      or_expected_revision = ''1'',
      or_expected_resource_fingerprint = nb_observedFingerprint firstBinding,
      or_action_family = ''timer.update'', or_request_fingerprint = ''f'', or_requested_at = 160,
      or_deadline = 300, or_verification_policy = ''readback'', or_state = ''outcome_unknown'',
      or_result_reference = [], or_updated_at = 170\<rparr>"

definition boundTables :: "operation_row list \<Rightarrow> timer_tables" where
  "boundTables operations =
     (db_committed (snd (createBinding noBindingErrors oneAssignment firstBinding)))
       \<lparr>tt_assignments := [boundRow],
        tt_operations := \<lparr>ot_operations = operations, ot_payloads = [], ot_maintenance = []\<rparr>\<rparr>"

definition boundStore :: "operation_row list \<Rightarrow> timer_tables database" where
  "boundStore operations = \<lparr>db_committed = boundTables operations, db_working = None\<rparr>"

lemma boundStore_sound:
  "bindingDbSound (boundStore operations)" "timerDbSound (boundStore operations)"
proof -
  have "bindingRowsSound (tt_bindings (db_committed (snd (createBinding noBindingErrors oneAssignment firstBinding))))"
    "rowsSound [boundRow]" by code_simp+
  then show "bindingDbSound (boundStore operations)" "timerDbSound (boundStore operations)"
    by (simp_all add: bindingDbSound_def timerDbSound_def boundStore_def boundTables_def transactionFollowsBy_def)
qed

section \<open>The stored bindings\<close>

text \<open>C21: Whatever calls run on an empty binding table, as long as the bindings they write have an
  identifier and a native identity without a zero byte (the calls of \<open>bindingCalls\<close>; the code does not
  check it), every stored row reads back as a valid binding under its own identifier: no lookup ever
  reports a storage error for what the program stored, and reading a binding under an identifier
  answers it or that there is none.\<close>

theorem stored_bindings_readable:
  assumes "bindingCalls \<lparr>db_committed = t, db_working = None\<rparr> db" "tt_bindings t = []"
    and "safeTimerIdentity i"
  shows "(\<exists>b. findBindingById False db i = bindingResult BindOk b \<and> nb_nativeTimerBindingId b = i
        \<and> nativeTimerBindingValid b)
     \<or> findBindingById False db i = bindingStatusResult BindNotFound
        \<and> i \<notin> set (map br_native_timer_binding_id (tt_bindings (visibleTables db)))"
proof -
  let ?rows = "tt_bindings (visibleTables db)"
  have sound: "bindingRowsSound ?rows"
    using bindingCalls_sound [OF assms(1) bindingDbSound_empty [OF assms(2)]] bindingDbSound_visible(1) by blast
  have len: "\<not> length i > int32_max" using assms(3) by (simp add: safeTimerIdentity_def)
  show ?thesis
  proof (cases "find (\<lambda>row. br_native_timer_binding_id row = i) ?rows")
    case None
    then have "i \<notin> set (map br_native_timer_binding_id ?rows)" by (auto simp: find_None_iff)
    then show ?thesis using None len assms(3)
      by (simp add: findBindingById_def nativeBindingSelectById_def selectFirst_def lookupResult_def)
  next
    case (Some r)
    note r = find_Some_in [OF Some]
    obtain b where b: "readBinding r = Some b" using sound r by (auto simp: bindingRowsSound_def)
    have "findBindingById False db i = bindingResult BindOk b"
      using Some len assms(3) b
      by (simp add: findBindingById_def nativeBindingSelectById_def selectFirst_def lookupResult_def)
    then show ?thesis using readBinding_fields(1,2) [OF b] r by auto
  qed
qed

theorem stored_bindings_readable_witness:
  "findBindingById False (snd (createBinding noBindingErrors noAssignments firstBinding)) ''b1''
     \<noteq> bindingStatusResult BindStorageError"
proof -
  have "bindingInput firstBinding" by code_simp
  from bindingCallCreate [OF this] have "bindingCalls \<lparr>db_committed = sampleTables, db_working = None\<rparr>
      (snd (createBinding noBindingErrors noAssignments firstBinding))"
    unfolding noAssignments_def [symmetric] by (rule r_into_rtranclp [of bindingCall])
  from stored_bindings_readable [OF this, of "''b1''"]
  show ?thesis
    by (auto simp: sampleTables_def safeTimerIdentity_def bindingResult_def bindingStatusResult_def)
qed

text \<open>C17: Whatever calls run on a sound store (those of \<open>bindingCalls\<close>, which write bindings whose
  identifier and native identity hold no zero byte), no native timer is bound twice and no assignment has two
  managed bindings, and the bindings already stored stay where they are: same identifier, backend,
  assignment and ownership, with a generation and an observation time that never fall.\<close>

theorem one_managed_binding:
  assumes "bindingCalls db db'" "bindingDbSound db"
  shows "distinct (map br_native_timer_binding_id (tt_bindings (visibleTables db')))
    \<and> distinct (map (\<lambda>r. (br_backend_id r, br_backend_native_timer_id r)) (tt_bindings (visibleTables db')))
    \<and> (\<forall>a. a \<noteq> [] \<longrightarrow> length (filter (\<lambda>r. br_timer_assignment_id r = a
        \<and> managedOwnershipName (br_ownership r)) (tt_bindings (visibleTables db'))) \<le> 1)
    \<and> bindingsEvolve (tt_bindings (db_committed db)) (tt_bindings (db_committed db'))"
proof -
  note s = bindingCalls_sound [OF assms]
  have keys: "bindingKeysSound (tt_bindings (visibleTables db'))"
    using bindingDbSound_visible(1) s by (simp add: bindingRowsSound_def)
  show ?thesis using bindingKeysSound_distinct [OF keys] bindingKeysSound_one_managed [OF keys] s by blast
qed

theorem one_managed_binding_witness:
  "length (filter (\<lambda>r. br_timer_assignment_id r = ''a1'' \<and> managedOwnershipName (br_ownership r))
     (tt_bindings (visibleTables (snd (createBinding noBindingErrors (boundStore []) firstBinding))))) \<le> 1"
proof -
  have "bindingInput firstBinding" by code_simp
  from bindingCallCreate [OF this]
  have "bindingCalls (boundStore []) (snd (createBinding noBindingErrors (boundStore []) firstBinding))"
    by (rule r_into_rtranclp [of bindingCall])
  from one_managed_binding [OF this boundStore_sound(1)] show ?thesis by blast
qed

section \<open>Guarded changes\<close>

text \<open>C18: The native identity of a binding changes only as an authorised whole, where the binding and
  native identifiers handed in hold no zero byte (\<open>bindingInput\<close>; the code does not check it, and would
  store an identity with a zero byte cut there while it answers with the uncut one). An accepted change
  replaced the one row read under the quoted revision, no other table changed, the change was a
  permitted one (another native timer of the same managed, drift-free binding, neither recording),
  and a timer update of exactly that binding, revision and fingerprint was waiting for its outcome.
  A refused change leaves every committed table as it was.\<close>

theorem verified_identity_change:
  assumes "updateVerifiedNativeIdentity failing db new tok = (res, db')"
    and "bindingInput new" "bindingDbSound db"
  shows "(nr_status res \<noteq> BindOk \<longrightarrow> db_committed db' = db_committed db)
     \<and> (nr_status res = BindOk \<longrightarrow> (\<exists>current stored. res = bindingResult BindOk stored
          \<and> bindingReplaced (db_committed db) current new tok stored (db_committed db')
          \<and> identityChangePermitted current new
          \<and> list_ex (identityChangeAuthorized current new tok)
              (ot_operations (tt_operations (db_committed db)))
          \<and> (\<exists>rows. db_committed db' = (db_committed db)\<lparr>tt_bindings := rows\<rparr>)))"
  using verified_identity_effect [OF assms] by blast

theorem verified_identity_change_witness:
  "\<exists>current. identityChangePermitted current (sampleBinding ''1'' 7 ''5'' ''2015'' 180 ''op2'')"
proof -
  let ?new = "sampleBinding ''1'' 7 ''5'' ''2015'' 180 ''op2''"
  let ?call = "updateVerifiedNativeIdentity noBindingErrors (boundStore [updateOperation]) ?new ''1''"
  have "bindingInput ?new" "nr_status (fst ?call) = BindOk" by code_simp+
  with verified_identity_change [of noBindingErrors "boundStore [updateOperation]" ?new "''1''"
      "fst ?call" "snd ?call", OF _ _ boundStore_sound(1)]
  show ?thesis by auto
qed

text \<open>C19: The passive freshness refresh never interferes with a mutation, where the identifiers handed
  in hold no zero byte (\<open>bindingInput\<close>). An accepted refresh found the
  binding under the quoted revision, managed, present and without drift, with no unfinished operation
  on the binding or its assignment, and an observation that differs in the event at most; it stored
  the newer observation, moved at most the bound assignment to the newer generation, and touched
  neither operations nor intents. A refused refresh leaves every committed table as it was.\<close>

theorem passive_refresh_guarded:
  assumes "updateBinding failing db new tok True = (res, db')"
    and "bindingInput new" "bindingDbSound db" "timerDbSound db"
  shows "(nr_status res \<noteq> BindOk \<longrightarrow> db_committed db' = db_committed db)
     \<and> (nr_status res = BindOk \<longrightarrow> (\<exists>current stored. res = bindingResult BindOk stored
          \<and> bindingReplaced (db_committed db) current new tok stored (db_committed db')
          \<and> passiveRefreshPermitted current new
          \<and> \<not> list_ex (mutationPending current) (ot_operations (tt_operations (db_committed db)))
          \<and> generationRefreshed (tt_assignments (db_committed db)) current
              (nb_backendGeneration new) (nb_lastObservedAt new) (tt_assignments (db_committed db'))
          \<and> tt_operations (db_committed db') = tt_operations (db_committed db)
          \<and> tt_intents (db_committed db') = tt_intents (db_committed db)))"
  using passive_refresh_effect [OF assms] by blast

theorem passive_refresh_guarded_witness:
  "\<exists>current. passiveRefreshPermitted current (sampleBinding ''1'' 8 ''4'' ''2000'' 180 ''op1'')"
proof -
  let ?new = "sampleBinding ''1'' 8 ''4'' ''2000'' 180 ''op1''"
  let ?call = "updateBinding noBindingErrors (boundStore []) ?new ''1'' True"
  have "bindingInput ?new" "nr_status (fst ?call) = BindOk" by code_simp+
  with passive_refresh_guarded [of noBindingErrors "boundStore []" ?new "''1''"
      "fst ?call" "snd ?call", OF _ _ boundStore_sound]
  show ?thesis by auto
qed

section \<open>The freshness poll\<close>

text \<open>C20: The freshness poll starves no binding: whatever calls run between the ticks and at whatever
  identifier (bounded, without a zero byte, or empty) the cursor starts, a binding that stays due, and whose backend has a usable agent (neither revoked nor
  incompatible, its lease running, its generation not older than the binding's) and an HTTP client at
  each tick, is read again within twice as many ticks as there are identifiers that are ever due: some
  tick asks that backend for that native timer. Other bindings may be skipped by any tick. The listings
  are taken not to fail, the clock to be past 210 seconds, the calls to be those of \<open>bindingCalls\<close>.\<close>

theorem freshness_poll_fair:
  assumes "\<forall>k. bindingCalls (fst (ticks k)) (fst (ticks (Suc k)))"
    and "bindingDbSound (fst (ticks 0))" "\<forall>k. 210 < snd (ticks k)"
    and "length c \<le> kMaxIdentityLength" "nulFree c"
    and "finite K" "\<forall>k b. refreshDue (ticks k) b \<longrightarrow> nb_nativeTimerBindingId b \<in> K"
    and "\<forall>k < 2 * card K. \<exists>b. refreshDue (ticks k) b \<and> nb_nativeTimerBindingId b = i
      \<and> refreshReadable (envs k) (snd (ticks k)) b" "K \<noteq> {}"
  shows "\<exists>k < 2 * card K. \<exists>b q. (b, q) \<in> set (fst (nativeTimerRefreshTick noBindingErrors (envs k)
        (fst (ticks k)) (snd (ticks k)) (refreshCursor envs ticks c k)))
      \<and> nb_nativeTimerBindingId b = i \<and> rd_backendId q = nb_backendId b
      \<and> rd_backendNativeTimerId q = nb_backendNativeTimerId b"
proof -
  have pos: "0 < 2 * card K" using assms(6,9) by (simp add: card_gt_0_iff)
  show ?thesis
    by (rule refresh_visits [where ticks = ticks and c = c and K = K and i = i and envs = envs,
        OF _ assms(2) _ assms(4,5,6) _ _ order_refl pos]) (use assms(1,3,7,8) in blast)+
qed

definition sampleEnvironment :: refresh_environment where
  "sampleEnvironment =
     \<lparr>en_agent = (\<lambda>b. Some \<lparr>ag_revoked = False, ag_incompatible = False, ag_leaseExpiresAt = 2000,
        ag_backendGeneration = nb_backendGeneration b\<rparr>),
      en_contexts = [None, Some \<lparr>cx_backendId = nb_backendId firstBinding, cx_httpClient = True\<rparr>],
      en_clock = (\<lambda>_. 1000)\<rparr>"

theorem freshness_poll_fair_witness:
  "\<exists>k < 2. \<exists>b q. (b, q) \<in> set (fst (nativeTimerRefreshTick noBindingErrors sampleEnvironment
        (boundStore []) 1000 (refreshCursor (\<lambda>_. sampleEnvironment) (\<lambda>_. (boundStore [], 1000)) ''b7'' k)))
      \<and> nb_nativeTimerBindingId b = ''b1''"
proof -
  let ?b = "firstBinding\<lparr>nb_bindingRevision := ''1''\<rparr>"
  have rows: "map readBinding (tt_bindings (visibleTables (boundStore []))) = [Some ?b]"
    "list_ex (\<lambda>r. readBinding r = Some ?b \<and> br_observed_recording r = 0 \<and> br_observed_pending r = 0)
      (tt_bindings (visibleTables (boundStore [])))" by code_simp+
  have id: "nb_nativeTimerBindingId b = ''b1''" if due: "refreshDue (boundStore [], 1000) b" for b
  proof -
    have "Some b \<in> set (map readBinding (tt_bindings (visibleTables (boundStore []))))"
      using due by (force simp: refreshDue_def list_ex_iff)
    then show ?thesis unfolding rows(1) by (simp add: firstBinding_def sampleBinding_def)
  qed
  have due: "refreshDue (boundStore [], 1000) ?b"
    using rows(2) by (simp add: refreshDue_def firstBinding_def sampleBinding_def managedOwnership_def)
  have b7: "length ''b7'' \<le> kMaxIdentityLength" "nulFree ''b7''" by code_simp+
  have "nb_nativeTimerBindingId ?b = ''b1''" "refreshReadable sampleEnvironment 1000 ?b" by code_simp+
  then have "\<exists>b. refreshDue (boundStore [], 1000) b \<and> nb_nativeTimerBindingId b = ''b1''
      \<and> refreshReadable sampleEnvironment 1000 b" using due by blast
  then show ?thesis
    using freshness_poll_fair [of "\<lambda>_. (boundStore [], 1000)" "''b7''" "{''b1''}" "''b1''" "\<lambda>_. sampleEnvironment"]
      boundStore_sound(1) id b7 by (simp del: One_nat_def) blast
qed

end
