(* ===== verification/TimerStore.thy ===== *)
theory TimerStore
  imports AssignmentRuns
begin

text \<open>
  The store the timer services share: one connection over the tables of every repository. The
  intent and the operation repository are modelled over their own tables; \<open>intentView\<close> and
  \<open>operationView\<close> are what they see of the shared connection, and \<open>putIntents\<close> is the shared
  connection after an intent call. The services are sequences of repository calls, each under a
  transaction lease of its own, so other calls may run in between: every service takes the
  interference \<open>between\<close>, what happened before its \<open>n\<close>-th repository call, and the
  failures \<open>failing\<close> of its \<open>n\<close>-th call.
\<close>

section \<open>Views\<close>

definition viewOf :: "('t \<Rightarrow> 's) \<Rightarrow> 't database \<Rightarrow> 's database" where
  "viewOf get db =
     \<lparr>db_committed = get (db_committed db), db_working = map_option get (db_working db)\<rparr>"

definition putView :: "('s \<Rightarrow> 't \<Rightarrow> 't) \<Rightarrow> 't database \<Rightarrow> 's database \<Rightarrow> 't database" where
  "putView put db d =
     \<lparr>db_committed = put (db_committed d) (db_committed db),
      db_working = map_option (\<lambda>s. put s (visibleTables db)) (db_working d)\<rparr>"

abbreviation intentView :: "timer_tables database \<Rightarrow> intent_row list database" where
  "intentView \<equiv> viewOf tt_intents"

abbreviation operationView :: "timer_tables database \<Rightarrow> operation_tables database" where
  "operationView \<equiv> viewOf tt_operations"

definition putIntents ::
  "timer_tables database \<Rightarrow> intent_row list database \<Rightarrow> timer_tables database" where
  "putIntents = putView (\<lambda>rows t. t\<lparr>tt_intents := rows\<rparr>)"

lemma viewOf_simps [simp]:
  "visibleTables (viewOf get db) = get (visibleTables db)"
  "transactionActive (viewOf get db) = transactionActive db"
  by (simp_all add: viewOf_def visibleTables_def transactionActive_def split: option.split)

text \<open>
  What an intent call leaves behind: one write, or, after a rollback that failed, a transaction
  of its own left open.
\<close>

definition writesOnce :: "'t database \<Rightarrow> 't database \<Rightarrow> bool" where
  "writesOnce d d' \<longleftrightarrow> (\<exists>t. d' = writeVisible t d) \<or> (\<not> transactionActive d \<and> (\<exists>t. d' = writeTables t d))"

lemma writeVisible_same [simp]: "writeVisible (visibleTables db) db = db"
  by (cases db) (simp add: writeVisible_def visibleTables_def writeTables_def split: option.split)

lemma writesOnce_refl [simp]: "writesOnce d d"
  unfolding writesOnce_def by (rule disjI1, rule exI [of _ "visibleTables d"]) simp

lemma writesOnceI:
  "writesOnce d (writeVisible t d)"
  "transactionActive d \<Longrightarrow> writesOnce d (writeTables t d)"
  "\<not> transactionActive d \<Longrightarrow> writesOnce d (writeTables t d)"
  by (auto simp: writesOnce_def writeVisible_def transactionActive_def)

lemma putIntents_writeVisible:
  "putIntents db (writeVisible rows (intentView db)) =
     writeVisible ((visibleTables db)\<lparr>tt_intents := rows\<rparr>) db"
  by (cases db) (simp add: putIntents_def putView_def writeVisible_def writeTables_def viewOf_def
      visibleTables_def split: option.split)

lemma putIntents_writeTables:
  "putIntents db (writeTables rows (intentView db)) =
     writeTables ((visibleTables db)\<lparr>tt_intents := rows\<rparr>) db"
  by (cases db) (simp add: putIntents_def putView_def writeTables_def viewOf_def visibleTables_def)

lemma same_intents [simp]: "sameAssignments t (t\<lparr>tt_intents := rows\<rparr>)"
  by (simp add: sameAssignments_def)

lemma putIntents_calls:
  assumes "writesOnce (intentView db) d"
  shows "timerCalls db (putIntents db d)"
  using assms unfolding writesOnce_def
proof (elim disjE conjE exE)
  fix t
  assume "d = writeVisible t (intentView db)"
  then show ?thesis
    by (simp only: putIntents_writeVisible) (rule r_into_rtranclp, rule callElsewhere, simp)
next
  fix t
  let ?t = "(visibleTables db)\<lparr>tt_intents := t\<rparr>"
  assume "\<not> transactionActive (intentView db)" and d: "d = writeTables t (intentView db)"
  then have off: "\<not> transactionActive db" by simp
  let ?db0 = "db\<lparr>db_working := Some (db_committed db)\<rparr>"
  have "timerCall db ?db0" using callBegin [of db False] off by (simp add: executeBegin_def)
  moreover have "timerCall ?db0 (writeVisible ?t ?db0)"
    using off by (intro callElsewhere) (simp add: visible_begun)
  moreover have "writeVisible ?t ?db0 = writeTables ?t db"
    by (simp add: writeVisible_def writeTables_def)
  ultimately show ?thesis
    using d by (simp add: putIntents_writeTables)
qed

section \<open>The calls of the intent repository\<close>

lemma createIntent_writesOnce: "writesOnce d (snd (createIntent failing d m))"
  by (simp add: createIntent_def Let_def writesOnceI split: option.split)

lemma updateIntentWrite_writesOnce:
  assumes "db0 = (if cur then d else writeTables rows d)" "cur = transactionActive d"
  shows "writesOnce d (snd (updateIntentWrite failing db0 m v cur))"
proof (cases cur)
  case True
  then show ?thesis
    using assms by (simp add: updateIntentWrite_def Let_def writesOnceI split: option.split)
next
  case False
  then have off: "\<not> transactionActive d" using assms by simp
  then have none: "d\<lparr>db_working := None\<rparr> = d" by (cases d) (simp add: transactionActive_def)
  have done': "\<lparr>db_committed = t, db_working = None\<rparr> = writeVisible t d" for t
    using off by (cases d) (simp add: writeVisible_def transactionActive_def)
  have undo: "writesOnce d (executeRollback f (writeTables t d))" for f t
    using off writesOnceI(3) [of d t] none
    by (simp add: executeRollback_def) (simp add: writeTables_def)
  show ?thesis
    using assms(1) False off undo
    by (simp add: updateIntentWrite_def Let_def done' writesOnceI split: option.split)
qed

lemma updateIntentImpl_writesOnce: "writesOnce d (snd (updateIntentImpl failing d m tok cur))"
proof (cases "cur = transactionActive d")
  case False
  then show ?thesis by (simp add: updateIntentImpl_def split: option.split)
next
  case True
  have act: "cur \<Longrightarrow> executeBegin f d = (False, d)" for f
    using True by (simp add: executeBegin_def)
  have begun: "executeBegin f d = (if f then (False, d) else (True, writeTables (db_committed d) d))"
    if "\<not> cur" for f
    using that True by (simp add: executeBegin_def writeTables_def)
  have none: "d\<lparr>db_working := None\<rparr> = d" if "\<not> cur"
    using that True by (cases d) (simp add: transactionActive_def)
  have undo: "writesOnce d (executeRollback f (writeTables t d))" if "\<not> cur" for f t
    using True writesOnceI(3) [of d t] none that
    by (simp add: executeRollback_def) (simp add: writeTables_def)
  have w: "writesOnce d (snd (updateIntentWrite failing d m v True))" if cur for m v
    using updateIntentWrite_writesOnce [of d True d undefined failing m v] that True by simp
  have w': "writesOnce d (snd (updateIntentWrite failing (writeTables (db_committed d) d) m v False))"
    if "\<not> cur" for m v
    using updateIntentWrite_writesOnce [of _ False d "db_committed d" failing m v] that True by simp
  show ?thesis
  proof (cases cur)
    case True
    then show ?thesis
      using w by (simp add: updateIntentImpl_def Let_def split: option.split select_result.split)
  next
    case False
    then show ?thesis
      using w' undo begun
      by (simp add: updateIntentImpl_def Let_def split: option.split select_result.split)
  qed
qed

end
