(* ===== verification/TimerAssignmentSchedulingService.thy ===== *)
theory TimerAssignmentSchedulingService
  imports TimerStore TimerAssignmentPlanner MutationOperationRepository
begin

text \<open>
  \<open>core/timers/src/TimerAssignmentSchedulingService.cpp\<close>: one request is planned on what the
  repositories answer and written through the assignment repository, a primary under its
  exclusive-owner rule, a replica under the set revision that was read before the planning.
  Every repository call has a lease of its own, so \<open>between n\<close> stands for whatever happened
  before the \<open>n\<close>-th call, and \<open>failing\<close> for the engine errors inside each call.
\<close>

section \<open>Requests and results\<close>

datatype store_call =
  SvcIntent nat intent_call | SvcAssignment nat assignment_call | SvcSet nat set_call
| SvcReplacement nat replacement_call | SvcBinding nat binding_call | SvcOperation nat sql_call

datatype timer_assignment_scheduling_status =
  SchedPersisted | SchedAlreadyPersisted | SchedActivePrimaryExists | SchedReplicaTargetSatisfied
| SchedInvalidRequest | SchedAssignmentIdConflict | SchedIntentNotFound
| SchedIntentRevisionConflict | SchedPlanningInvalid | SchedOwnershipConflict
| SchedAssignmentSetConflict | SchedRepositoryConflict | SchedStorageError

record timer_assignment_primary_scheduling_request =
  sq_timerAssignmentId :: string
  sq_timerIntentId :: string
  sq_expectedIntentRevision :: string
  sq_createdAt :: int
  sq_candidates :: "planning_backend_candidate list"

text \<open>The replica request has the same fields.\<close>

type_synonym timer_assignment_replica_scheduling_request = timer_assignment_primary_scheduling_request

record timer_assignment_scheduling_result =
  sc_status :: timer_assignment_scheduling_status
  sc_decision :: planning_decision
  sc_assignment :: timer_assignment

definition emptyPlanningDecision :: planning_decision where
  "emptyPlanningDecision =
     \<lparr>pd_outcome = PlanInvalid, pd_timerIntentId = [], pd_intentRevision = [],
      pd_role = RolePrimary, pd_decisionPolicyVersion = [],
      pd_selectedBackendId = [], pd_selectedBackendGeneration = 0,
      pd_selectedChannelBinding = emptyChannelBinding, pd_selectedCapabilityRevision = [],
      pd_selectedBackendHealthRevision = [],
      pd_selectedNativeTimerSpecificationPresent = False,
      pd_selectedNativeTimerSpecification = emptyNativeTimerSpecification,
      pd_decisionEvidence = emptyDecisionEvidence, pd_candidates = []\<rparr>"

definition schedulingOk :: "timer_assignment_scheduling_result \<Rightarrow> bool" where
  "schedulingOk r \<longleftrightarrow>
     sc_status r = SchedPersisted \<or> sc_status r = SchedAlreadyPersisted
     \<or> sc_status r = SchedActivePrimaryExists \<or> sc_status r = SchedReplicaTargetSatisfied"

definition schedulingStatusResult ::
  "timer_assignment_scheduling_status \<Rightarrow> timer_assignment_scheduling_result" where
  "schedulingStatusResult status =
     \<lparr>sc_status = status, sc_decision = emptyPlanningDecision, sc_assignment = emptyTimerAssignment\<rparr>"

definition schedulingResult ::
  "timer_assignment_scheduling_status \<Rightarrow> timer_assignment \<Rightarrow> timer_assignment_scheduling_result" where
  "schedulingResult status assignment = (schedulingStatusResult status)\<lparr>sc_assignment := assignment\<rparr>"

definition validSchedulingRequest :: "string \<Rightarrow> string \<Rightarrow> string \<Rightarrow> int \<Rightarrow> bool" where
  "validSchedulingRequest timerAssignmentId timerIntentId expectedIntentRevision createdAt \<longleftrightarrow>
     safeTimerIdentity timerAssignmentId \<and> safeTimerIdentity timerIntentId
     \<and> safeTimerIdentity expectedIntentRevision \<and> createdAt > 0"

definition idempotentAssignmentMatches ::
  "timer_assignment \<Rightarrow> string \<Rightarrow> string \<Rightarrow> string \<Rightarrow> timer_assignment_role \<Rightarrow> int \<Rightarrow> bool" where
  "idempotentAssignmentMatches assignment timerAssignmentId timerIntentId expectedIntentRevision
       role createdAt \<longleftrightarrow>
     ta_timerAssignmentId assignment = timerAssignmentId
     \<and> ta_timerIntentId assignment = timerIntentId
     \<and> ta_intentRevision assignment = expectedIntentRevision
     \<and> ta_role assignment = role
     \<and> ta_createdAt assignment = createdAt
     \<and> (ta_state assignment = AsgSelected \<or> ta_state assignment = AsgUnassigned)
     \<and> ta_decisionPolicyVersion assignment = timerAssignmentPlanningPolicyVersion"

definition activeAssignments :: "timer_assignment list \<Rightarrow> timer_assignment list" where
  "activeAssignments assignments =
     filter (\<lambda>a. timerAssignmentActiveOwnershipState (ta_state a)) assignments"

definition decisionHasReason :: "planning_decision \<Rightarrow> string \<Rightarrow> bool" where
  "decisionHasReason decision reason \<longleftrightarrow> reason \<in> set (de_reasons (pd_decisionEvidence decision))"

definition assignmentFromDecision ::
  "string \<Rightarrow> int \<Rightarrow> timer_assignment_role \<Rightarrow> planning_decision \<Rightarrow> timer_assignment" where
  "assignmentFromDecision timerAssignmentId createdAt role decision =
     (let assignment = emptyTimerAssignment
        \<lparr>ta_timerAssignmentId := timerAssignmentId, ta_timerIntentId := pd_timerIntentId decision,
         ta_intentRevision := pd_intentRevision decision, ta_role := role,
         ta_createdAt := createdAt, ta_updatedAt := createdAt,
         ta_decisionPolicyVersion := pd_decisionPolicyVersion decision,
         ta_decisionEvidence := pd_decisionEvidence decision\<rparr>
      in if pd_outcome decision = PlanSelected
         then assignment
           \<lparr>ta_state := AsgSelected, ta_backendId := pd_selectedBackendId decision,
            ta_backendGeneration := pd_selectedBackendGeneration decision,
            ta_channelBinding := pd_selectedChannelBinding decision,
            ta_capabilityRevision := pd_selectedCapabilityRevision decision,
            ta_backendHealthRevision := pd_selectedBackendHealthRevision decision,
            ta_desiredNativeTimerSpecificationPresent :=
              pd_selectedNativeTimerSpecificationPresent decision,
            ta_desiredNativeTimerSpecification := pd_selectedNativeTimerSpecification decision\<rparr>
         else assignment\<lparr>ta_state := AsgUnassigned\<rparr>)"

fun mapRepositoryStatus ::
  "timer_assignment_repository_status \<Rightarrow> timer_assignment_scheduling_status" where
  "mapRepositoryStatus AsgRepoOwnershipConflict = SchedOwnershipConflict"
| "mapRepositoryStatus AsgRepoIntentNotFound = SchedIntentNotFound"
| "mapRepositoryStatus AsgRepoIntentRevisionConflict = SchedIntentRevisionConflict"
| "mapRepositoryStatus AsgRepoInvalid = SchedPlanningInvalid"
| "mapRepositoryStatus AsgRepoConflict = SchedRepositoryConflict"
| "mapRepositoryStatus AsgRepoStorageError = SchedStorageError"
| "mapRepositoryStatus AsgRepoAlreadyExists = SchedAssignmentIdConflict"
| "mapRepositoryStatus AsgRepoNotFound = SchedRepositoryConflict"
| "mapRepositoryStatus AsgRepoOk = SchedPersisted"

fun mapIntentReadStatus ::
  "timer_intent_repository_status \<Rightarrow> timer_assignment_scheduling_status" where
  "mapIntentReadStatus IntentNotFound = SchedIntentNotFound"
| "mapIntentReadStatus IntentInvalid = SchedInvalidRequest"
| "mapIntentReadStatus IntentStorageError = SchedStorageError"
| "mapIntentReadStatus IntentConflict = SchedRepositoryConflict"
| "mapIntentReadStatus IntentAlreadyExists = SchedRepositoryConflict"
| "mapIntentReadStatus IntentOk = SchedPersisted"

fun timerAssignmentSchedulingStatusName :: "timer_assignment_scheduling_status \<Rightarrow> string" where
  "timerAssignmentSchedulingStatusName SchedPersisted = ''persisted''"
| "timerAssignmentSchedulingStatusName SchedAlreadyPersisted = ''already_persisted''"
| "timerAssignmentSchedulingStatusName SchedActivePrimaryExists = ''active_primary_exists''"
| "timerAssignmentSchedulingStatusName SchedReplicaTargetSatisfied = ''replica_target_satisfied''"
| "timerAssignmentSchedulingStatusName SchedInvalidRequest = ''invalid_request''"
| "timerAssignmentSchedulingStatusName SchedAssignmentIdConflict = ''assignment_id_conflict''"
| "timerAssignmentSchedulingStatusName SchedIntentNotFound = ''intent_not_found''"
| "timerAssignmentSchedulingStatusName SchedIntentRevisionConflict = ''intent_revision_conflict''"
| "timerAssignmentSchedulingStatusName SchedPlanningInvalid = ''planning_invalid''"
| "timerAssignmentSchedulingStatusName SchedOwnershipConflict = ''ownership_conflict''"
| "timerAssignmentSchedulingStatusName SchedAssignmentSetConflict = ''assignment_set_conflict''"
| "timerAssignmentSchedulingStatusName SchedRepositoryConflict = ''repository_conflict''"
| "timerAssignmentSchedulingStatusName SchedStorageError = ''storage_error''"

section \<open>The existing assignment and the result of a creation\<close>

text \<open>\<open>None\<close> when the request is not yet handled.\<close>

definition existingAssignmentResult ::
  "(assignment_call \<Rightarrow> bool) \<Rightarrow> timer_tables database \<Rightarrow> string \<Rightarrow> string \<Rightarrow> string
     \<Rightarrow> timer_assignment_role \<Rightarrow> int \<Rightarrow> timer_assignment_scheduling_result option" where
  "existingAssignmentResult failing db timerAssignmentId timerIntentId expectedIntentRevision
       role createdAt =
     (let existing = findAssignmentById failing db timerAssignmentId
      in if ra_status existing = AsgRepoOk
         then Some (if idempotentAssignmentMatches (ra_assignment existing) timerAssignmentId
                         timerIntentId expectedIntentRevision role createdAt
           then schedulingResult SchedAlreadyPersisted (ra_assignment existing)
           else schedulingResult SchedAssignmentIdConflict (ra_assignment existing))
         else if ra_status existing \<noteq> AsgRepoNotFound
         then Some (schedulingStatusResult (mapRepositoryStatus (ra_status existing)))
         else None)"

text \<open>\<open>retry\<close> is the lookup after a creation that met an existing identifier.\<close>

definition applyCreateResult ::
  "timer_assignment_scheduling_result \<Rightarrow> timer_assignment_repository_result
     \<Rightarrow> timer_assignment_repository_result \<Rightarrow> string \<Rightarrow> string \<Rightarrow> string
     \<Rightarrow> timer_assignment_role \<Rightarrow> int \<Rightarrow> bool \<Rightarrow> timer_assignment_scheduling_result" where
  "applyCreateResult result created retry timerAssignmentId timerIntentId expectedIntentRevision
       role createdAt assignmentSetFenced =
     (if ra_status created = AsgRepoOk
      then result\<lparr>sc_status := SchedPersisted, sc_assignment := ra_assignment created\<rparr>
      else if ra_status created = AsgRepoAlreadyExists
      then (if ra_status retry = AsgRepoOk
              \<and> idempotentAssignmentMatches (ra_assignment retry) timerAssignmentId timerIntentId
                  expectedIntentRevision role createdAt
            then result\<lparr>sc_status := SchedAlreadyPersisted, sc_assignment := ra_assignment retry\<rparr>
            else if ra_status retry = AsgRepoOk
            then result\<lparr>sc_status := SchedAssignmentIdConflict, sc_assignment := ra_assignment retry\<rparr>
            else result\<lparr>sc_status := SchedAssignmentIdConflict\<rparr>)
      else if assignmentSetFenced \<and> ra_status created = AsgRepoConflict
      then result\<lparr>sc_status := SchedAssignmentSetConflict, sc_assignment := ra_assignment created\<rparr>
      else result\<lparr>sc_status := mapRepositoryStatus (ra_status created),
                  sc_assignment := ra_assignment created\<rparr>)"

section \<open>Scheduling a primary\<close>

definition schedulePrimaryImpl ::
  "(store_call \<Rightarrow> bool) \<Rightarrow> (nat \<Rightarrow> timer_tables database \<Rightarrow> timer_tables database)
     \<Rightarrow> timer_tables database \<Rightarrow> timer_assignment_primary_scheduling_request \<Rightarrow> bool
     \<Rightarrow> timer_assignment_scheduling_result \<times> timer_tables database" where
  "schedulePrimaryImpl failing between db request currentTransaction =
     (if \<not> validSchedulingRequest (sq_timerAssignmentId request) (sq_timerIntentId request)
            (sq_expectedIntentRevision request) (sq_createdAt request)
      then (schedulingStatusResult SchedInvalidRequest, db)
      else let db0 = between 0 db
      in case existingAssignmentResult (\<lambda>c. failing (SvcAssignment 0 c)) db0
             (sq_timerAssignmentId request) (sq_timerIntentId request)
             (sq_expectedIntentRevision request) RolePrimary (sq_createdAt request) of
          Some r \<Rightarrow> (r, db0)
        | None \<Rightarrow>
      (let db1 = between 1 db0;
           found = findIntentById (\<lambda>c. failing (SvcIntent 1 c)) (intentView db1)
             (sq_timerIntentId request)
       in case (ni_status found, ni_intent found) of
          (IntentOk, Some intent) \<Rightarrow>
      (if ti_intentRevision intent \<noteq> sq_expectedIntentRevision request
       then (schedulingStatusResult SchedIntentRevisionConflict, db1)
       else let db2 = between 2 db1;
           listed = listForIntent (\<lambda>c. failing (SvcAssignment 2 c)) db2 (sq_timerIntentId request)
       in if rl_status listed \<noteq> AsgRepoOk
          then (schedulingStatusResult (mapRepositoryStatus (rl_status listed)), db2)
          else let decision = planTimerAssignment
                 \<lparr>rq_intent = intent, rq_role = RolePrimary,
                  rq_currentAssignments = activeAssignments (rl_assignments listed),
                  rq_candidates = sq_candidates request\<rparr>;
               result = (schedulingStatusResult SchedStorageError)\<lparr>sc_decision := decision\<rparr>
          in if pd_outcome decision = PlanInvalid
             then (result\<lparr>sc_status := SchedPlanningInvalid\<rparr>, db2)
             else if pd_outcome decision = PlanUnassigned
               \<and> decisionHasReason decision ''active_primary_exists''
             then let db3 = between 3 db2;
                      active = findActivePrimaryForIntent (\<lambda>c. failing (SvcAssignment 3 c)) db3
                        (sq_timerIntentId request)
                  in (if ra_status active = AsgRepoOk
                      then result\<lparr>sc_status := SchedActivePrimaryExists,
                                  sc_assignment := ra_assignment active\<rparr>
                      else result\<lparr>sc_status :=
                        if ra_status active = AsgRepoStorageError then SchedStorageError
                        else SchedRepositoryConflict\<rparr>, db3)
             else let candidate = assignmentFromDecision (sq_timerAssignmentId request)
                        (sq_createdAt request) RolePrimary decision;
                      (created, db4) =
                        (if currentTransaction then createAssignmentInCurrentTransaction
                         else createAssignment) (\<lambda>c. failing (SvcAssignment 3 c)) (between 3 db2) candidate;
                      db5 = (if ra_status created = AsgRepoAlreadyExists then between 4 db4 else db4)
                  in (applyCreateResult result created
                        (findAssignmentById (\<lambda>c. failing (SvcAssignment 4 c)) db5
                          (sq_timerAssignmentId request))
                        (sq_timerAssignmentId request) (sq_timerIntentId request)
                        (sq_expectedIntentRevision request) RolePrimary (sq_createdAt request) False,
                      db5))
        | (status, _) \<Rightarrow> (schedulingStatusResult (mapIntentReadStatus status), db1)))"

definition schedulePrimary ::
  "(store_call \<Rightarrow> bool) \<Rightarrow> (nat \<Rightarrow> timer_tables database \<Rightarrow> timer_tables database)
     \<Rightarrow> timer_tables database \<Rightarrow> timer_assignment_primary_scheduling_request
     \<Rightarrow> timer_assignment_scheduling_result \<times> timer_tables database" where
  "schedulePrimary failing between db request = schedulePrimaryImpl failing between db request False"

definition schedulePrimaryInCurrentTransaction ::
  "(store_call \<Rightarrow> bool) \<Rightarrow> (nat \<Rightarrow> timer_tables database \<Rightarrow> timer_tables database)
     \<Rightarrow> timer_tables database \<Rightarrow> timer_assignment_primary_scheduling_request
     \<Rightarrow> timer_assignment_scheduling_result \<times> timer_tables database" where
  "schedulePrimaryInCurrentTransaction failing between db request =
     schedulePrimaryImpl failing between db request True"

section \<open>Scheduling a replica\<close>

definition scheduleReplica ::
  "(store_call \<Rightarrow> bool) \<Rightarrow> (nat \<Rightarrow> timer_tables database \<Rightarrow> timer_tables database)
     \<Rightarrow> timer_tables database \<Rightarrow> timer_assignment_replica_scheduling_request
     \<Rightarrow> timer_assignment_scheduling_result \<times> timer_tables database" where
  "scheduleReplica failing between db request =
     (if \<not> validSchedulingRequest (sq_timerAssignmentId request) (sq_timerIntentId request)
            (sq_expectedIntentRevision request) (sq_createdAt request)
      then (schedulingStatusResult SchedInvalidRequest, db)
      else let db0 = between 0 db
      in case existingAssignmentResult (\<lambda>c. failing (SvcAssignment 0 c)) db0
             (sq_timerAssignmentId request) (sq_timerIntentId request)
             (sq_expectedIntentRevision request) RoleReplica (sq_createdAt request) of
          Some r \<Rightarrow> (r, db0)
        | None \<Rightarrow>
      (let db1 = between 1 db0;
           found = findIntentById (\<lambda>c. failing (SvcIntent 1 c)) (intentView db1)
             (sq_timerIntentId request)
       in case (ni_status found, ni_intent found) of
          (IntentOk, Some intent) \<Rightarrow>
      (if ti_intentRevision intent \<noteq> sq_expectedIntentRevision request
       then (schedulingStatusResult SchedIntentRevisionConflict, db1)
       else let (setRevision, db2) = assignmentSetRevisionForIntent (\<lambda>c. failing (SvcSet 2 c))
             (between 2 db1) (sq_timerIntentId request)
       in if sr_status setRevision \<noteq> AsgRepoOk
          then (schedulingStatusResult (mapRepositoryStatus (sr_status setRevision)), db2)
          else let db3 = between 3 db2;
             listed = listForIntent (\<lambda>c. failing (SvcAssignment 3 c)) db3 (sq_timerIntentId request)
       in if rl_status listed \<noteq> AsgRepoOk
          then (schedulingStatusResult (mapRepositoryStatus (rl_status listed)), db3)
          else let decision = planTimerAssignment
                 \<lparr>rq_intent = intent, rq_role = RoleReplica,
                  rq_currentAssignments = activeAssignments (rl_assignments listed),
                  rq_candidates = sq_candidates request\<rparr>;
               result = (schedulingStatusResult SchedStorageError)\<lparr>sc_decision := decision\<rparr>
          in if pd_outcome decision = PlanInvalid
             then (result\<lparr>sc_status := SchedPlanningInvalid\<rparr>, db3)
             else if pd_outcome decision = PlanUnassigned
               \<and> decisionHasReason decision ''replica_target_satisfied''
             then (result\<lparr>sc_status := SchedReplicaTargetSatisfied\<rparr>, db3)
             else let candidate = assignmentFromDecision (sq_timerAssignmentId request)
                        (sq_createdAt request) RoleReplica decision;
                      (created, db4) = createAgainstAssignmentSetRevision
                        (\<lambda>c. failing (SvcSet 4 c)) (\<lambda>c. failing (SvcAssignment 4 c))
                        (between 4 db3) candidate (sr_assignmentSetRevision setRevision);
                      db5 = (if ra_status created = AsgRepoAlreadyExists then between 5 db4 else db4)
                  in (applyCreateResult result created
                        (findAssignmentById (\<lambda>c. failing (SvcAssignment 5 c)) db5
                          (sq_timerAssignmentId request))
                        (sq_timerAssignmentId request) (sq_timerIntentId request)
                        (sq_expectedIntentRevision request) RoleReplica (sq_createdAt request) True,
                      db5))
        | (status, _) \<Rightarrow> (schedulingStatusResult (mapIntentReadStatus status), db1)))"

end
