(* ===== verification/SchedulingProperties.thy ===== *)
theory SchedulingProperties
  imports TimerAssignmentSchedulingService TimerAssignmentReadService AssignmentReplacement
    PlannerCorrectness
begin

text \<open>
  What callers of the scheduling service may rely on while other callers use the same store: a
  persisted replica was planned on exactly the assignments it was added to, a persisted primary
  found no other owner, and a request may be repeated.
\<close>

section \<open>Interference\<close>

text \<open>Other callers make any calls, each of which has ended its transaction.\<close>

definition interference :: "(nat \<Rightarrow> timer_tables database \<Rightarrow> timer_tables database) \<Rightarrow> bool" where
  "interference between \<longleftrightarrow> (\<forall>n db. timerCalls db (between n db) \<and> \<not> transactionActive (between n db))"

lemma interference_calls: "interference between \<Longrightarrow> timerCalls db (between n db)"
  by (simp add: interference_def)

lemma interference_idle: "interference between \<Longrightarrow> \<not> transactionActive (between n db)"
  by (simp add: interference_def)

lemma interference_trans: "interference between \<Longrightarrow> timerCalls db d \<Longrightarrow> timerCalls db (between n d)"
  using interference_calls rtranclp_trans by metis

section \<open>Helpers\<close>

lemma plan_request [simp]:
  "pd_timerIntentId (planTimerAssignment r) = ti_timerIntentId (rq_intent r)"
  "pd_intentRevision (planTimerAssignment r) = ti_intentRevision (rq_intent r)"
  "pd_decisionPolicyVersion (planTimerAssignment r) = timerAssignmentPlanningPolicyVersion"
  by (simp_all add: planTimerAssignment_def Let_def withReason_def unassignedDecision_def
      initialDecision_def selectedDecision_def split: option.split prod.split)

lemma assignmentFromDecision_fields [simp]:
  "ta_timerAssignmentId (assignmentFromDecision i at role d) = i"
  "ta_timerIntentId (assignmentFromDecision i at role d) = pd_timerIntentId d"
  "ta_intentRevision (assignmentFromDecision i at role d) = pd_intentRevision d"
  "ta_role (assignmentFromDecision i at role d) = role"
  "ta_createdAt (assignmentFromDecision i at role d) = at"
  "ta_decisionPolicyVersion (assignmentFromDecision i at role d) = pd_decisionPolicyVersion d"
  "ta_state (assignmentFromDecision i at role d) =
     (if pd_outcome d = PlanSelected then AsgSelected else AsgUnassigned)"
  by (simp_all add: assignmentFromDecision_def Let_def)

lemma mapRepositoryStatus_persisted [simp]: "mapRepositoryStatus s = SchedPersisted \<longleftrightarrow> s = AsgRepoOk"
  by (cases s) simp_all

lemma mapIntentReadStatus_persisted [simp]: "mapIntentReadStatus s = SchedPersisted \<longleftrightarrow> s = IntentOk"
  by (cases s) simp_all

lemma existing_not_persisted:
  "existingAssignmentResult failing db i j tok role at = Some r \<Longrightarrow> sc_status r \<noteq> SchedPersisted"
  by (auto simp: existingAssignmentResult_def Let_def schedulingResult_def schedulingStatusResult_def
      split: if_splits)

lemma applyCreateResult_persisted:
  assumes "sc_status (applyCreateResult r created retry i j tok role at fenced) = SchedPersisted"
  shows "ra_status created = AsgRepoOk"
    and "applyCreateResult r created retry i j tok role at fenced
      = r\<lparr>sc_status := SchedPersisted, sc_assignment := ra_assignment created\<rparr>"
  using assms by (auto simp: applyCreateResult_def split: if_splits)

lemma findIntentById_found:
  assumes "ni_status (findIntentById failing db i) = IntentOk"
  obtains intent where "ni_intent (findIntentById failing db i) = Some intent"
    "ti_timerIntentId intent = i"
proof -
  obtain intent where f: "findIntentById failing db i = intentResult IntentOk intent"
    using assms by (auto simp: findIntentById_def split: if_splits select_result.splits)
  obtain r where r: "intentRowOf i (visibleTables db) = Some r" "readIntent r = Some intent"
    by (rule findIntentById_Ok [OF f])
  have "ti_timerIntentId intent = i"
    using readIntent_fields(2) [OF r(2)] find_Some_in r(1) by (force simp: intentRowOf_def)
  then show thesis using that f by simp
qed

lemma readAssignments_map:
  "readAssignments rows = Some xs \<Longrightarrow> xs = map (\<lambda>r. the (readAssignment r)) rows"
  by (induction rows arbitrary: xs) (auto split: option.splits)

text \<open>The assignments of an intent in the order the listing answers them.\<close>

definition assignmentsOfIntent :: "string \<Rightarrow> assignment_row list \<Rightarrow> timer_assignment list" where
  "assignmentsOfIntent i rows = map (\<lambda>r. the (readAssignment r)) (sort_key epochOrder (intentRows i rows))"

lemma listForIntent_Ok:
  assumes "rl_status (listForIntent failing db i) = AsgRepoOk"
  shows "rl_assignments (listForIntent failing db i) = assignmentsOfIntent i (tt_assignments (visibleTables db))"
    and "safeTimerIdentity i"
  using assms readAssignments_map
  by (auto simp: listForIntent_def assignmentListResult_def assignmentsOfIntent_def intentRows_def
      split: if_splits option.splits)

lemma assignmentsOfIntent_cong:
  "intentRows i rows = intentRows i rows' \<Longrightarrow> assignmentsOfIntent i rows = assignmentsOfIntent i rows'"
  by (simp add: assignmentsOfIntent_def)


section \<open>What a persisted request did\<close>

lemma schedulePrimary_persisted:
  assumes "schedulePrimary failing between db q = (res, db')" "sc_status res = SchedPersisted"
  obtains intent created f where
    "ti_timerIntentId intent = sq_timerIntentId q" "ti_intentRevision intent = sq_expectedIntentRevision q"
    "sc_decision res = planTimerAssignment \<lparr>rq_intent = intent, rq_role = RolePrimary,
       rq_currentAssignments = activeAssignments (assignmentsOfIntent (sq_timerIntentId q)
         (tt_assignments (visibleTables (between 2 (between 1 (between 0 db)))))),
       rq_candidates = sq_candidates q\<rparr>"
    "createAssignment f (between 3 (between 2 (between 1 (between 0 db))))
       (assignmentFromDecision (sq_timerAssignmentId q) (sq_createdAt q) RolePrimary (sc_decision res))
       = (created, db')"
    "ra_status created = AsgRepoOk" "sc_assignment res = ra_assignment created"
proof -
  let ?d1 = "between 1 (between 0 db)" and ?d2 = "between 2 (between 1 (between 0 db))"
  let ?found = "findIntentById (\<lambda>c. failing (SvcIntent 1 c)) (intentView ?d1) (sq_timerIntentId q)"
  let ?listed = "listForIntent (\<lambda>c. failing (SvcAssignment 2 c)) ?d2 (sq_timerIntentId q)"
  note def = schedulePrimary_def schedulePrimaryImpl_def Let_def
  have valid: "validSchedulingRequest (sq_timerAssignmentId q) (sq_timerIntentId q)
      (sq_expectedIntentRevision q) (sq_createdAt q)"
    using assms by (auto simp: def schedulingStatusResult_def split: if_splits)
  have fresh: "existingAssignmentResult (\<lambda>c. failing (SvcAssignment 0 c)) (between 0 db)
      (sq_timerAssignmentId q) (sq_timerIntentId q) (sq_expectedIntentRevision q) RolePrimary (sq_createdAt q) = None"
    using assms valid existing_not_persisted by (auto simp: def split: option.splits)
  have ok: "ni_status ?found = IntentOk"
    using assms valid fresh
    by (cases "ni_status ?found") (auto simp: def schedulingStatusResult_def split: option.splits)
  obtain intent where intent: "ni_intent ?found = Some intent" "ti_timerIntentId intent = sq_timerIntentId q"
    by (rule findIntentById_found [OF ok])
  have rev: "ti_intentRevision intent = sq_expectedIntentRevision q" and lok: "rl_status ?listed = AsgRepoOk"
    using assms valid fresh ok intent(1)
    by (auto simp: def schedulingStatusResult_def split: if_splits)
  define decision where "decision = planTimerAssignment \<lparr>rq_intent = intent, rq_role = RolePrimary,
       rq_currentAssignments = activeAssignments (rl_assignments ?listed), rq_candidates = sq_candidates q\<rparr>"
  define cand where "cand = assignmentFromDecision (sq_timerAssignmentId q) (sq_createdAt q) RolePrimary decision"
  obtain created db4 where c: "createAssignment (\<lambda>c. failing (SvcAssignment 3 c)) (between 3 ?d2) cand
      = (created, db4)" by fastforce
  have split: "res = applyCreateResult ((schedulingStatusResult SchedStorageError)\<lparr>sc_decision := decision\<rparr>)
        created (findAssignmentById (\<lambda>c. failing (SvcAssignment 4 c)) db' (sq_timerAssignmentId q))
        (sq_timerAssignmentId q) (sq_timerIntentId q) (sq_expectedIntentRevision q) RolePrimary (sq_createdAt q) False
      \<and> db' = (if ra_status created = AsgRepoAlreadyExists then between 4 db4 else db4)"
    using assms valid fresh ok intent(1) rev lok c [unfolded cand_def decision_def]
    by (auto simp: def schedulingStatusResult_def decision_def split: if_splits)
  have ap: "ra_status created = AsgRepoOk" "res = (schedulingStatusResult SchedStorageError)
      \<lparr>sc_decision := decision, sc_status := SchedPersisted, sc_assignment := ra_assignment created\<rparr>"
    using applyCreateResult_persisted split assms(2) by metis+
  have "sc_decision res = decision" "sc_assignment res = ra_assignment created" "db' = db4"
    using ap split by simp_all
  then show thesis
    using that intent(2) rev ap(1) c listForIntent_Ok(1) [OF lok] by (simp add: cand_def decision_def)
qed

lemma scheduleReplica_persisted:
  assumes "scheduleReplica failing between db q = (res, db')" "sc_status res = SchedPersisted"
  obtains intent token db2 created f g h where
    "ti_timerIntentId intent = sq_timerIntentId q" "ti_intentRevision intent = sq_expectedIntentRevision q"
    "assignmentSetRevisionForIntent f (between 2 (between 1 (between 0 db))) (sq_timerIntentId q) = (token, db2)"
    "sr_status token = AsgRepoOk"
    "sc_decision res = planTimerAssignment \<lparr>rq_intent = intent, rq_role = RoleReplica,
       rq_currentAssignments = activeAssignments (assignmentsOfIntent (sq_timerIntentId q)
         (tt_assignments (visibleTables (between 3 db2)))), rq_candidates = sq_candidates q\<rparr>"
    "createAgainstAssignmentSetRevision g h (between 4 (between 3 db2))
       (assignmentFromDecision (sq_timerAssignmentId q) (sq_createdAt q) RoleReplica (sc_decision res))
       (sr_assignmentSetRevision token) = (created, db')"
    "ra_status created = AsgRepoOk" "sc_assignment res = ra_assignment created"
proof -
  let ?d1 = "between 1 (between 0 db)"
  let ?found = "findIntentById (\<lambda>c. failing (SvcIntent 1 c)) (intentView ?d1) (sq_timerIntentId q)"
  note def = scheduleReplica_def Let_def
  have valid: "validSchedulingRequest (sq_timerAssignmentId q) (sq_timerIntentId q)
      (sq_expectedIntentRevision q) (sq_createdAt q)"
    using assms by (auto simp: def schedulingStatusResult_def split: if_splits)
  have fresh: "existingAssignmentResult (\<lambda>c. failing (SvcAssignment 0 c)) (between 0 db)
      (sq_timerAssignmentId q) (sq_timerIntentId q) (sq_expectedIntentRevision q) RoleReplica (sq_createdAt q) = None"
    using assms valid existing_not_persisted by (auto simp: def split: option.splits)
  have ok: "ni_status ?found = IntentOk"
    using assms valid fresh
    by (cases "ni_status ?found") (auto simp: def schedulingStatusResult_def split: option.splits)
  obtain intent where intent: "ni_intent ?found = Some intent" "ti_timerIntentId intent = sq_timerIntentId q"
    by (rule findIntentById_found [OF ok])
  obtain token db2 where tok: "assignmentSetRevisionForIntent (\<lambda>c. failing (SvcSet 2 c)) (between 2 ?d1)
      (sq_timerIntentId q) = (token, db2)" by fastforce
  let ?listed = "listForIntent (\<lambda>c. failing (SvcAssignment 3 c)) (between 3 db2) (sq_timerIntentId q)"
  have rev: "ti_intentRevision intent = sq_expectedIntentRevision q" and tokOk: "sr_status token = AsgRepoOk"
    and lok: "rl_status ?listed = AsgRepoOk"
    using assms valid fresh ok intent(1) tok
    by (auto simp: def schedulingStatusResult_def split: if_splits)
  define decision where "decision = planTimerAssignment \<lparr>rq_intent = intent, rq_role = RoleReplica,
       rq_currentAssignments = activeAssignments (rl_assignments ?listed), rq_candidates = sq_candidates q\<rparr>"
  define cand where "cand = assignmentFromDecision (sq_timerAssignmentId q) (sq_createdAt q) RoleReplica decision"
  obtain created db4 where c: "createAgainstAssignmentSetRevision (\<lambda>c. failing (SvcSet 4 c))
      (\<lambda>c. failing (SvcAssignment 4 c)) (between 4 (between 3 db2)) cand (sr_assignmentSetRevision token)
      = (created, db4)" by fastforce
  have split: "res = applyCreateResult ((schedulingStatusResult SchedStorageError)\<lparr>sc_decision := decision\<rparr>)
        created (findAssignmentById (\<lambda>c. failing (SvcAssignment 5 c)) db' (sq_timerAssignmentId q))
        (sq_timerAssignmentId q) (sq_timerIntentId q) (sq_expectedIntentRevision q) RoleReplica (sq_createdAt q) True
      \<and> db' = (if ra_status created = AsgRepoAlreadyExists then between 5 db4 else db4)"
    using assms valid fresh ok intent(1) rev tok tokOk lok c [unfolded cand_def decision_def]
    by (auto simp: def schedulingStatusResult_def decision_def split: if_splits)
  have ap: "ra_status created = AsgRepoOk" "res = (schedulingStatusResult SchedStorageError)
      \<lparr>sc_decision := decision, sc_status := SchedPersisted, sc_assignment := ra_assignment created\<rparr>"
    using applyCreateResult_persisted split assms(2) by metis+
  have "sc_decision res = decision" "sc_assignment res = ra_assignment created" "db' = db4"
    using ap split by simp_all
  then show thesis
    using that intent(2) rev tok tokOk ap(1) c listForIntent_Ok(1) [OF lok]
    by (simp add: cand_def decision_def)
qed


section \<open>Reading back what was scheduled\<close>

text \<open>A committed assignment is what the lookup of its identifier answers.\<close>

lemma stored_is_found:
  assumes "timerDbSound db" "\<not> transactionActive db"
    and "row \<in> set (tt_assignments (db_committed db))" "readAssignment row = Some a"
  shows "findAssignmentById noAssignmentErrors db (ta_timerAssignmentId a) = assignmentResult AsgRepoOk a"
proof -
  have vis: "visibleTables db = db_committed db" by (rule visible_begun [OF assms(2)])
  have sound: "rowsSound (tt_assignments (db_committed db))" using assms(1) by (simp add: timerDbSound_def)
  have id: "ta_timerAssignmentId a = ar_timer_assignment_id row" by (rule readAssignment_fields(3) [OF assms(4)])
  have "assignmentRowOf (ta_timerAssignmentId a) (tt_assignments (db_committed db)) = Some row"
    using assms(3) by (simp add: assignmentRowOf_Some [OF sound] id)
  moreover have "ta_timerAssignmentId a \<noteq> []" "length (ta_timerAssignmentId a) \<le> 160"
    using read_identity(1,2) [OF assms(4)] by (simp_all add: id)
  ultimately show ?thesis
    using findAssignmentById_sound [of db "ta_timerAssignmentId a"] sound assms(4) by (simp add: vis)
qed

text \<open>After any calls the assignment is still found, under the same intent, epoch, role and time.\<close>

lemma stored_stays_found:
  assumes "timerDbSound db" "timerCalls db d" "\<not> transactionActive d"
    and "row \<in> set (tt_assignments (db_committed db))" "readAssignment row = Some a"
  obtains b where "findAssignmentById noAssignmentErrors d (ta_timerAssignmentId a) = assignmentResult AsgRepoOk b"
    "ta_timerAssignmentId b = ta_timerAssignmentId a" "ta_timerIntentId b = ta_timerIntentId a"
    "ta_assignmentEpoch b = ta_assignmentEpoch a" "ta_role b = ta_role a" "ta_createdAt b = ta_createdAt a"
    "d = db \<longrightarrow> b = a"
proof -
  note f = timerCalls_facts [OF assms(2,1,1)]
  have s: "rowsSound (tt_assignments (db_committed db))" "rowsSound (tt_assignments (db_committed d))"
    using assms(1) f(1) by (simp_all add: timerDbSound_def)
  have id: "ta_timerAssignmentId a = ar_timer_assignment_id row" by (rule readAssignment_fields(3) [OF assms(5)])
  have of_row: "assignmentRowOf (ar_timer_assignment_id row) (tt_assignments (db_committed db)) = Some row"
    using assms(4) by (simp add: assignmentRowOf_Some [OF s(1)])
  obtain r' where r': "assignmentRowOf (ar_timer_assignment_id row) (tt_assignments (db_committed d)) = Some r'"
    "assignmentEvolves row r'" by (rule assignmentRowOf_evolves [OF f(2) s of_row])
  have in': "r' \<in> set (tt_assignments (db_committed d))" "ar_timer_assignment_id r' = ar_timer_assignment_id row"
    using r'(1) assignmentRowOf_Some [OF s(2)] by simp_all
  obtain b where b: "readAssignment r' = Some b" using s(2) in'(1) by (auto simp: rowsSound_def rowSound_def)
  have idb: "ta_timerAssignmentId b = ta_timerAssignmentId a"
    using readAssignment_fields(3) [OF b] in'(2) id by simp
  have "findAssignmentById noAssignmentErrors d (ta_timerAssignmentId a) = assignmentResult AsgRepoOk b"
    using stored_is_found [OF f(1) assms(3) in'(1) b] idb by simp
  moreover have "a = b \<or> assignmentAdvances a b"
    using r'(2) assms(5) b by (auto simp: assignmentEvolves_def)
  moreover have "b = a" if "d = db" using r'(1) of_row b assms(5) that by simp
  ultimately show thesis using that idb by (auto simp: assignmentAdvances_def)
qed

section \<open>Repeated requests\<close>

text \<open>How a persisted request is answered when it is repeated.\<close>

definition repeatedAnswer ::
  "timer_assignment_scheduling_result \<Rightarrow> timer_assignment_scheduling_result \<Rightarrow> bool" where
  "repeatedAnswer first again \<longleftrightarrow>
     (sc_status again = SchedAlreadyPersisted \<or> sc_status again = SchedAssignmentIdConflict)
     \<and> ta_timerAssignmentId (sc_assignment again) = ta_timerAssignmentId (sc_assignment first)
     \<and> ta_timerIntentId (sc_assignment again) = ta_timerIntentId (sc_assignment first)
     \<and> ta_assignmentEpoch (sc_assignment again) = ta_assignmentEpoch (sc_assignment first)
     \<and> ta_role (sc_assignment again) = ta_role (sc_assignment first)
     \<and> ta_createdAt (sc_assignment again) = ta_createdAt (sc_assignment first)"

lemma existingAssignmentResult_found:
  assumes "findAssignmentById failing db i = assignmentResult AsgRepoOk a"
  shows "existingAssignmentResult failing db i j tok role at = Some
     (schedulingResult (if idempotentAssignmentMatches a i j tok role at then SchedAlreadyPersisted
        else SchedAssignmentIdConflict) a)"
  using assms by (simp add: existingAssignmentResult_def assignmentResult_def)

lemma schedulingResult_simps [simp]:
  "sc_status (schedulingResult s a) = s" "sc_assignment (schedulingResult s a) = a"
  by (simp_all add: schedulingResult_def schedulingStatusResult_def)


lemma schedule_needs_valid:
  assumes "\<not> validSchedulingRequest (sq_timerAssignmentId q) (sq_timerIntentId q)
      (sq_expectedIntentRevision q) (sq_createdAt q)"
  shows "sc_status (fst (schedulePrimary failing between db q)) \<noteq> SchedPersisted"
    and "sc_status (fst (scheduleReplica failing between db q)) \<noteq> SchedPersisted"
  using assms
  by (simp_all add: schedulePrimary_def schedulePrimaryImpl_def scheduleReplica_def schedulingStatusResult_def)

lemma schedule_existing:
  assumes "validSchedulingRequest (sq_timerAssignmentId q) (sq_timerIntentId q)
      (sq_expectedIntentRevision q) (sq_createdAt q)"
  shows "existingAssignmentResult (\<lambda>c. failing (SvcAssignment 0 c)) (between 0 db) (sq_timerAssignmentId q)
        (sq_timerIntentId q) (sq_expectedIntentRevision q) RolePrimary (sq_createdAt q) = Some r \<Longrightarrow>
      schedulePrimary failing between db q = (r, between 0 db)"
    and "existingAssignmentResult (\<lambda>c. failing (SvcAssignment 0 c)) (between 0 db) (sq_timerAssignmentId q)
        (sq_timerIntentId q) (sq_expectedIntentRevision q) RoleReplica (sq_createdAt q) = Some r \<Longrightarrow>
      scheduleReplica failing between db q = (r, between 0 db)"
  using assms by (simp_all add: schedulePrimary_def schedulePrimaryImpl_def scheduleReplica_def Let_def)

lemma createdAssignment_fields [simp]:
  "ta_timerAssignmentId (createdAssignment a e) = ta_timerAssignmentId a"
  "ta_timerIntentId (createdAssignment a e) = ta_timerIntentId a"
  "ta_role (createdAssignment a e) = ta_role a" "ta_createdAt (createdAssignment a e) = ta_createdAt a"
  "ta_assignmentEpoch (createdAssignment a e) = e" "ta_state (createdAssignment a e) = ta_state a"
  "ta_intentRevision (createdAssignment a e) = ta_intentRevision a"
  "ta_decisionPolicyVersion (createdAssignment a e) = ta_decisionPolicyVersion a"
  by (simp_all add: createdAssignment_def)

lemma storedAssignment_scheduling [simp]:
  "ta_timerIntentId (storedAssignment a) = ta_timerIntentId a"
  "ta_role (storedAssignment a) = ta_role a" "ta_createdAt (storedAssignment a) = ta_createdAt a"
  "ta_assignmentEpoch (storedAssignment a) = ta_assignmentEpoch a"
  "ta_state (storedAssignment a) = ta_state a" "ta_intentRevision (storedAssignment a) = ta_intentRevision a"
  "ta_decisionPolicyVersion (storedAssignment a) = ta_decisionPolicyVersion a"
  by (simp_all add: storedAssignment_def)

lemma schedulePrimary_effect:
  assumes call: "schedulePrimary failing between db q = (res, db')" "sc_status res = SchedPersisted"
    and sound: "timerDbSound db" and inter: "interference between"
  obtains intent d row f where "timerCalls db d" "timerDbSound d"
    "ti_timerIntentId intent = sq_timerIntentId q" "ti_intentRevision intent = sq_expectedIntentRevision q"
    "sc_decision res = planTimerAssignment \<lparr>rq_intent = intent, rq_role = RolePrimary,
       rq_currentAssignments = activeAssignments (assignmentsOfIntent (sq_timerIntentId q)
         (tt_assignments (visibleTables (between 2 (between 1 (between 0 db)))))),
       rq_candidates = sq_candidates q\<rparr>"
    "acceptedCreation (db_committed d) (assignmentFromDecision (sq_timerAssignmentId q) (sq_createdAt q)
       RolePrimary (sc_decision res)) (sc_assignment res) (db_committed db')"
    "ownershipAdmission f (db_committed d) (sc_assignment res) = AsgRepoOk"
    "findIntentRevision (\<lambda>_. False) (tt_intents (db_committed d)) (sq_timerIntentId q)
       = SelectFound (sq_expectedIntentRevision q)"
    "\<not> transactionActive db'" "timerCalls d db'"
    "row \<in> set (tt_assignments (db_committed db'))" "readAssignment row = Some (storedAssignment (sc_assignment res))"
proof -
  let ?d = "between 3 (between 2 (between 1 (between 0 db)))"
  obtain intent created f where p: "ti_timerIntentId intent = sq_timerIntentId q"
    "ti_intentRevision intent = sq_expectedIntentRevision q"
    "sc_decision res = planTimerAssignment \<lparr>rq_intent = intent, rq_role = RolePrimary,
       rq_currentAssignments = activeAssignments (assignmentsOfIntent (sq_timerIntentId q)
         (tt_assignments (visibleTables (between 2 (between 1 (between 0 db)))))),
       rq_candidates = sq_candidates q\<rparr>"
    "createAssignment f ?d (assignmentFromDecision (sq_timerAssignmentId q) (sq_createdAt q) RolePrimary
       (sc_decision res)) = (created, db')"
    "ra_status created = AsgRepoOk" "sc_assignment res = ra_assignment created"
    by (rule schedulePrimary_persisted [OF call])
  have calls: "timerCalls db ?d"
    by (intro interference_trans [OF inter] rtranclp.rtrancl_refl)
  have sd: "timerDbSound ?d" using timerCalls_sound [OF calls sound] ..
  obtain d' where d': "acceptedCreation (db_committed ?d) (assignmentFromDecision (sq_timerAssignmentId q)
      (sq_createdAt q) RolePrimary (sc_decision res)) d' (db_committed db')"
    "created = assignmentResult AsgRepoOk d'" "\<not> transactionActive db'"
    "ownershipAdmission f (db_committed ?d) d' = AsgRepoOk"
    "validateIntentRevision f (db_committed ?d) (assignmentFromDecision (sq_timerAssignmentId q)
      (sq_createdAt q) RolePrimary (sc_decision res)) = AsgRepoOk"
    by (rule createAssignment_ok [OF p(4,5) sd])
  have d'_is: "sc_assignment res = d'" using p(6) d'(2) by (simp add: assignmentResult_def)
  have fresh: "findIntentRevision (\<lambda>_. False) (tt_intents (db_committed ?d)) (sq_timerIntentId q)
       = SelectFound (sq_expectedIntentRevision q)"
    using validateIntentRevision_Ok [OF d'(5)] p(1-3) by simp
  obtain row where row: "row \<in> set (tt_assignments (db_committed db'))"
    "readAssignment row = Some (storedAssignment d')"
    using d'(1) unfolding acceptedCreation_def by force
  have "timerCalls ?d db'" using callCreate [of ?d f] p(4) by (metis r_into_rtranclp snd_conv)
  then show thesis using that calls sd p(1-3) d'(1,3,4) fresh row unfolding d'_is by blast
qed

lemma scheduleReplica_effect:
  assumes call: "scheduleReplica failing between db q = (res, db')" "sc_status res = SchedPersisted"
    and sound: "timerDbSound db" and inter: "interference between"
  obtains intent d f g tok created row where "timerCalls db d" "timerDbSound d"
    "ti_timerIntentId intent = sq_timerIntentId q" "ti_intentRevision intent = sq_expectedIntentRevision q"
    "sc_decision res = planTimerAssignment \<lparr>rq_intent = intent, rq_role = RoleReplica,
       rq_currentAssignments = activeAssignments (assignmentsOfIntent (sq_timerIntentId q)
         (tt_assignments (db_committed d))), rq_candidates = sq_candidates q\<rparr>"
    "createAgainstAssignmentSetRevision f g d (assignmentFromDecision (sq_timerAssignmentId q)
       (sq_createdAt q) RoleReplica (sc_decision res)) tok = (created, db')"
    "sc_assignment res = createdAssignment (assignmentFromDecision (sq_timerAssignmentId q)
       (sq_createdAt q) RoleReplica (sc_decision res)) (ta_assignmentEpoch (sc_assignment res))"
    "findIntentRevision (\<lambda>_. False) (tt_intents (db_committed d)) (sq_timerIntentId q)
       = SelectFound (sq_expectedIntentRevision q)"
    "timerCalls d db'"
    "row \<in> set (tt_assignments (db_committed db'))" "readAssignment row = Some (storedAssignment (sc_assignment res))"
proof -
  let ?d1 = "between 2 (between 1 (between 0 db))"
  obtain intent token db2 created f g h where p:
    "ti_timerIntentId intent = sq_timerIntentId q" "ti_intentRevision intent = sq_expectedIntentRevision q"
    "assignmentSetRevisionForIntent f ?d1 (sq_timerIntentId q) = (token, db2)" "sr_status token = AsgRepoOk"
    "sc_decision res = planTimerAssignment \<lparr>rq_intent = intent, rq_role = RoleReplica,
       rq_currentAssignments = activeAssignments (assignmentsOfIntent (sq_timerIntentId q)
         (tt_assignments (visibleTables (between 3 db2)))), rq_candidates = sq_candidates q\<rparr>"
    "createAgainstAssignmentSetRevision g h (between 4 (between 3 db2))
       (assignmentFromDecision (sq_timerAssignmentId q) (sq_createdAt q) RoleReplica (sc_decision res))
       (sr_assignmentSetRevision token) = (created, db')"
    "ra_status created = AsgRepoOk" "sc_assignment res = ra_assignment created"
    by (rule scheduleReplica_persisted [OF call])
  let ?a = "assignmentFromDecision (sq_timerAssignmentId q) (sq_createdAt q) RoleReplica (sc_decision res)"
  let ?d3 = "between 3 db2" and ?d = "between 4 (between 3 db2)"
  have i: "ta_timerIntentId ?a = sq_timerIntentId q" "ta_intentRevision ?a = sq_expectedIntentRevision q"
    using p(1,2,5) by simp_all
  have c1: "timerCalls db ?d1" by (intro interference_trans [OF inter] rtranclp.rtrancl_refl)
  have s1: "timerDbSound ?d1" using timerCalls_sound [OF c1 sound] ..
  have c2: "timerCalls db db2"
    using p(3) callSetRevision [of ?d1 f "sq_timerIntentId q"] c1 by (auto intro: rtranclp.rtrancl_into_rtrancl)
  have c3: "timerCalls db2 ?d3" "timerCalls ?d3 ?d" by (rule interference_calls [OF inter])+
  have c: "timerCalls db ?d" using c2 c3 by (meson rtranclp_trans)
  have sd: "timerDbSound ?d" using timerCalls_sound [OF c sound] ..
  note fence = set_revision_fence [OF s1 interference_idle [OF inter] p(3) [folded i(1)] p(4) c3 p(6,7), unfolded i]
  have vis: "visibleTables ?d3 = db_committed ?d3" by (rule visible_begun [OF interference_idle [OF inter]])
  have "intentRows (sq_timerIntentId q) (tt_assignments (db_committed ?d3))
      = intentRows (sq_timerIntentId q) (tt_assignments (db_committed ?d))" using fence(1,2) by simp
  note rows = assignmentsOfIntent_cong [OF this]
  have "timerCalls ?d db'"
    using callCreateAgainst [of ?d g h ?a "sr_assignmentSetRevision token"] p(6) by (simp add: r_into_rtranclp)
  then show thesis
    using that [OF c sd p(1,2) p(5) [unfolded vis rows] p(6)] fence(3-5) p(8) by (metis)
qed


lemma primary_alone:
  assumes "ownershipAdmission f t a = AsgRepoOk" "ta_role a = RolePrimary" "ta_state a = AsgSelected"
    and "rowsSound (tt_assignments t)"
  shows "\<not> list_ex (\<lambda>row. ar_timer_intent_id row = ta_timerIntentId a \<and> activeExclusive row) (tt_assignments t)"
proof -
  have "ar_timer_assignment_id row \<noteq> []" if "row \<in> set (tt_assignments t)" for row
    using assms(4) that read_identity(1) by (auto simp: rowsSound_def rowSound_def)
  then show ?thesis
    using assms(1-3)
    by (auto simp: ownershipAdmission_def exclusiveOwner_def hasOtherActivePrimary_def
        timerAssignmentActiveOwnershipState_def list_ex_iff activeExclusive_def
        split: option.splits if_splits)
qed

text \<open>A stored assignment answers the request it was stored for.\<close>

lemma existing_answers:
  assumes sound: "timerDbSound db" and inter: "interference between"
    and calls: "timerCalls db d" and row: "row \<in> set (tt_assignments (db_committed db))"
    and read: "readAssignment row = Some (storedAssignment (sc_assignment first))"
    and same: "idempotentAssignmentMatches (sc_assignment first) i j tok role at"
  shows "\<exists>again. existingAssignmentResult (\<lambda>_. False) (between 0 d) i j tok role at = Some again
    \<and> repeatedAnswer first again \<and> (between 0 d = db \<longrightarrow> sc_status again = SchedAlreadyPersisted)"
proof -
  have c: "timerCalls db (between 0 d)" by (rule interference_trans [OF inter calls])
  have errors: "noAssignmentErrors = (\<lambda>_. False)" by (rule ext) (simp add: noAssignmentErrors_def)
  obtain b where "findAssignmentById noAssignmentErrors (between 0 d) (ta_timerAssignmentId
      (storedAssignment (sc_assignment first))) = assignmentResult AsgRepoOk b"
    and b: "ta_timerAssignmentId b = ta_timerAssignmentId (storedAssignment (sc_assignment first))"
    "ta_timerIntentId b = ta_timerIntentId (storedAssignment (sc_assignment first))"
    "ta_assignmentEpoch b = ta_assignmentEpoch (storedAssignment (sc_assignment first))"
    "ta_role b = ta_role (storedAssignment (sc_assignment first))"
    "ta_createdAt b = ta_createdAt (storedAssignment (sc_assignment first))"
    "between 0 d = db \<longrightarrow> b = storedAssignment (sc_assignment first)"
    by (rule stored_stays_found [OF sound c interference_idle [OF inter] row read])
  then have "findAssignmentById (\<lambda>_. False) (between 0 d) i = assignmentResult AsgRepoOk b"
    using same by (simp add: errors idempotentAssignmentMatches_def)
  moreover have "between 0 d = db \<Longrightarrow> idempotentAssignmentMatches b i j tok role at"
    using b(6) same by (simp add: idempotentAssignmentMatches_def)
  ultimately show ?thesis
    using existingAssignmentResult_found [of "\<lambda>_. False" "between 0 d" i b j tok role at] b(1-5)
    by (auto simp: repeatedAnswer_def)
qed

lemma schedulePrimary_again:
  assumes "timerDbSound db" "interference between" "interference between'" "timerCalls db' d"
    and call: "schedulePrimary failing between db q = (first, db')" "sc_status first = SchedPersisted"
  shows "\<exists>again. schedulePrimary (\<lambda>_. False) between' d q = (again, between' 0 d) \<and> repeatedAnswer first again
    \<and> (between' 0 d = db' \<longrightarrow> sc_status again = SchedAlreadyPersisted)"
proof -
  let ?c = "assignmentFromDecision (sq_timerAssignmentId q) (sq_createdAt q) RolePrimary (sc_decision first)"
  obtain b row intent as where e: "timerCalls db b"
    "acceptedCreation (db_committed b) ?c (sc_assignment first) (db_committed db')" "timerCalls b db'"
    "row \<in> set (tt_assignments (db_committed db'))" "readAssignment row = Some (storedAssignment (sc_assignment first))"
    "ti_timerIntentId intent = sq_timerIntentId q" "ti_intentRevision intent = sq_expectedIntentRevision q"
    "sc_decision first = planTimerAssignment \<lparr>rq_intent = intent, rq_role = RolePrimary,
       rq_currentAssignments = as, rq_candidates = sq_candidates q\<rparr>"
    by (rule schedulePrimary_effect [OF call assms(1,2)]) blast
  have sound: "timerDbSound db'" using timerCalls_sound e(1,3) assms(1) by blast
  have c: "sc_assignment first = createdAssignment ?c (ta_assignmentEpoch (sc_assignment first))"
    using e(2) unfolding acceptedCreation_def by blast
  have same: "idempotentAssignmentMatches (sc_assignment first) (sq_timerAssignmentId q)
      (sq_timerIntentId q) (sq_expectedIntentRevision q) RolePrimary (sq_createdAt q)"
    by (subst c) (simp add: idempotentAssignmentMatches_def e(6-8))
  have valid: "validSchedulingRequest (sq_timerAssignmentId q) (sq_timerIntentId q)
      (sq_expectedIntentRevision q) (sq_createdAt q)"
    using schedule_needs_valid(1) [of q failing between db] call by auto
  obtain again where "existingAssignmentResult (\<lambda>_. False) (between' 0 d) (sq_timerAssignmentId q)
      (sq_timerIntentId q) (sq_expectedIntentRevision q) RolePrimary (sq_createdAt q) = Some again"
    "repeatedAnswer first again" "between' 0 d = db' \<longrightarrow> sc_status again = SchedAlreadyPersisted"
    using existing_answers [OF sound assms(3,4) e(4,5) same] by blast
  then show ?thesis using schedule_existing(1) [OF valid, of "\<lambda>_. False" between' d again] by simp
qed

lemma scheduleReplica_again:
  assumes "timerDbSound db" "interference between" "interference between'" "timerCalls db' d"
    and call: "scheduleReplica failing between db q = (first, db')" "sc_status first = SchedPersisted"
  shows "\<exists>again. scheduleReplica (\<lambda>_. False) between' d q = (again, between' 0 d) \<and> repeatedAnswer first again
    \<and> (between' 0 d = db' \<longrightarrow> sc_status again = SchedAlreadyPersisted)"
proof -
  let ?c = "assignmentFromDecision (sq_timerAssignmentId q) (sq_createdAt q) RoleReplica (sc_decision first)"
  obtain b row intent as where e: "timerCalls db b"
    "sc_assignment first = createdAssignment ?c (ta_assignmentEpoch (sc_assignment first))" "timerCalls b db'"
    "row \<in> set (tt_assignments (db_committed db'))" "readAssignment row = Some (storedAssignment (sc_assignment first))"
    "ti_timerIntentId intent = sq_timerIntentId q" "ti_intentRevision intent = sq_expectedIntentRevision q"
    "sc_decision first = planTimerAssignment \<lparr>rq_intent = intent, rq_role = RoleReplica,
       rq_currentAssignments = as, rq_candidates = sq_candidates q\<rparr>"
    by (rule scheduleReplica_effect [OF call assms(1,2)]) blast
  have sound: "timerDbSound db'" using timerCalls_sound e(1,3) assms(1) by blast
  have same: "idempotentAssignmentMatches (sc_assignment first) (sq_timerAssignmentId q)
      (sq_timerIntentId q) (sq_expectedIntentRevision q) RoleReplica (sq_createdAt q)"
    by (subst e(2)) (simp add: idempotentAssignmentMatches_def e(6-8))
  have valid: "validSchedulingRequest (sq_timerAssignmentId q) (sq_timerIntentId q)
      (sq_expectedIntentRevision q) (sq_createdAt q)"
    using schedule_needs_valid(2) [of q failing between db] call by auto
  obtain again where "existingAssignmentResult (\<lambda>_. False) (between' 0 d) (sq_timerAssignmentId q)
      (sq_timerIntentId q) (sq_expectedIntentRevision q) RoleReplica (sq_createdAt q) = Some again"
    "repeatedAnswer first again" "between' 0 d = db' \<longrightarrow> sc_status again = SchedAlreadyPersisted"
    using existing_answers [OF sound assms(3,4) e(4,5) same] by blast
  then show ?thesis using schedule_existing(2) [OF valid, of "\<lambda>_. False" between' d again] by simp
qed

section \<open>Samples\<close>

definition noStoreErrors :: "store_call \<Rightarrow> bool" where
  "noStoreErrors call = False"

text \<open>Nobody else is there.\<close>

definition quiet :: "nat \<Rightarrow> timer_tables database \<Rightarrow> timer_tables database" where
  "quiet n db = executeRollback False db"

lemma quiet_interference: "interference quiet"
  unfolding interference_def quiet_def
  using callRollback [of _ False] by (auto simp: executeRollback_def transactionActive_def)

lemma quiet_idle [simp]: "\<not> transactionActive db \<Longrightarrow> quiet n db = db"
  by (cases db) (simp add: quiet_def executeRollback_def transactionActive_def)

definition replicatedIntent :: timer_intent where
  "replicatedIntent =
     (let intent = IntentProperties.sampleIntent ''i1''
      in intent\<lparr>ti_spec := (ti_spec intent)\<lparr>is_replicaPolicy := (is_replicaPolicy (ti_spec intent))
           \<lparr>rp_desiredAssignments := 2, rp_simultaneousRecordingIntentional := True,
            rp_rationale := ''twice''\<rparr>\<rparr>\<rparr>)"

definition schedulingStore :: "timer_tables database" where
  "schedulingStore =
     \<lparr>db_committed = sampleTables\<lparr>tt_intents :=
        db_committed (snd (createIntent noIntentErrors noIntents replicatedIntent))\<rparr>,
      db_working = None\<rparr>"

definition zdfCandidate :: "string \<Rightarrow> planning_backend_candidate" where
  "zdfCandidate b =
     (let c = sampleCandidate b
      in c\<lparr>bc_channel := (bc_channel c)\<lparr>pl_canonicalChannelId := ''zdf''\<rparr>\<rparr>)"

definition sampleScheduling ::
  "string \<Rightarrow> int \<Rightarrow> string list \<Rightarrow> timer_assignment_primary_scheduling_request" where
  "sampleScheduling i at backends =
     \<lparr>sq_timerAssignmentId = i, sq_timerIntentId = ''i1'', sq_expectedIntentRevision = ''1'',
      sq_createdAt = at, sq_candidates = map zdfCandidate backends\<rparr>"

definition storedIntent :: timer_intent where
  "storedIntent = replicatedIntent\<lparr>ti_intentRevision := ''1''\<rparr>"

definition primaryDecision :: planning_decision where
  "primaryDecision = planTimerAssignment \<lparr>rq_intent = storedIntent, rq_role = RolePrimary,
     rq_currentAssignments = [], rq_candidates = map zdfCandidate [''b1'', ''b2'']\<rparr>"

definition primaryStore :: "timer_tables database" where
  "primaryStore = snd (createAssignment (\<lambda>_. False) schedulingStore
     (assignmentFromDecision ''a1'' 100 RolePrimary primaryDecision))"

lemma schedulingStore_idle [simp]: "\<not> transactionActive schedulingStore"
  by (simp add: schedulingStore_def transactionActive_def)

lemma schedulingStore_sound: "timerDbSound schedulingStore"
  by (simp add: schedulingStore_def timerDbSound_def rowsSound_def keysSound_def sampleTables_def
      transactionFollowsBy_def)

lemma primary_steps:
  "findAssignmentById (\<lambda>c. noStoreErrors (SvcAssignment 0 c)) schedulingStore ''a1'' = assignmentStatusResult AsgRepoNotFound"
  "findIntentById (\<lambda>c. noStoreErrors (SvcIntent 1 c)) (intentView schedulingStore) ''i1'' = intentResult IntentOk storedIntent"
  "listForIntent (\<lambda>c. noStoreErrors (SvcAssignment 2 c)) schedulingStore ''i1'' = \<lparr>rl_status = AsgRepoOk, rl_assignments = []\<rparr>"
  "pd_outcome primaryDecision = PlanSelected"
  "fst (createAssignment (\<lambda>c. noStoreErrors (SvcAssignment 3 c)) schedulingStore
     (assignmentFromDecision ''a1'' 100 RolePrimary primaryDecision))
   = assignmentResult AsgRepoOk (createdAssignment (assignmentFromDecision ''a1'' 100 RolePrimary primaryDecision) 1)"
  by code_simp+


definition primaryScheduled :: "timer_assignment_scheduling_result \<times> timer_tables database" where
  "primaryScheduled =
     schedulePrimary noStoreErrors quiet schedulingStore (sampleScheduling ''a1'' 100 [''b1'', ''b2''])"

lemma noStoreErrors_call: "(\<lambda>c. noStoreErrors (k c)) = (\<lambda>_. False)"
  by (simp add: noStoreErrors_def)

lemma sample_primary:
  "sc_status (fst primaryScheduled) = SchedPersisted" "sc_decision (fst primaryScheduled) = primaryDecision"
  "snd primaryScheduled = primaryStore"
proof -
  have valid: "validSchedulingRequest ''a1'' ''i1'' ''1'' 100" by code_simp
  have rev: "ti_intentRevision storedIntent = ''1''" by (simp add: storedIntent_def)
  let ?c = "assignmentFromDecision ''a1'' 100 RolePrimary primaryDecision"
  have created: "createAssignment (\<lambda>_. False) schedulingStore ?c = (assignmentResult AsgRepoOk (createdAssignment ?c 1), primaryStore)"
    using primary_steps(5) by (simp add: prod_eq_iff primaryStore_def noStoreErrors_def)
  have dec: "planTimerAssignment \<lparr>rq_intent = storedIntent, rq_role = RolePrimary,
     rq_currentAssignments = activeAssignments [], rq_candidates = map zdfCandidate [''b1'', ''b2'']\<rparr> = primaryDecision"
    by (simp add: primaryDecision_def activeAssignments_def)
  have *: "primaryScheduled = (applyCreateResult ((schedulingStatusResult SchedStorageError)\<lparr>sc_decision := primaryDecision\<rparr>)
      (assignmentResult AsgRepoOk (createdAssignment ?c 1)) (findAssignmentById (\<lambda>_. False) primaryStore ''a1'')
      ''a1'' ''i1'' ''1'' RolePrimary 100 False, primaryStore)"
    using primary_steps(1-4) valid rev created dec
    by (simp add: primaryScheduled_def schedulePrimary_def schedulePrimaryImpl_def Let_def sampleScheduling_def
        noStoreErrors_call existingAssignmentResult_def assignmentStatusResult_def assignmentResult_def del: list.map)
  show "sc_status (fst primaryScheduled) = SchedPersisted" "sc_decision (fst primaryScheduled) = primaryDecision"
    "snd primaryScheduled = primaryStore"
    unfolding * by (simp_all add: applyCreateResult_def assignmentResult_def)
qed

text \<open>A store with one owner on another backend, and a request for a replica.\<close>

definition ownedStore :: "timer_tables database" where
  "ownedStore = snd (createAssignment noAssignmentErrors schedulingStore firstAssignment)"

definition replicaRequest :: timer_assignment_replica_scheduling_request where
  "replicaRequest = sampleScheduling ''a2'' 110 [''b1'']"

definition firstOwner :: timer_assignment where
  "firstOwner = createdAssignment firstAssignment 1"

definition replicaDecision :: planning_decision where
  "replicaDecision = planTimerAssignment \<lparr>rq_intent = storedIntent, rq_role = RoleReplica,
     rq_currentAssignments = [firstOwner], rq_candidates = map zdfCandidate [''b1'']\<rparr>"

definition fencedStore :: "timer_tables database" where
  "fencedStore = snd (assignmentSetRevisionForIntent (\<lambda>_. False) ownedStore ''i1'')"

definition replicaStore :: "timer_tables database" where
  "replicaStore = snd (createAgainstAssignmentSetRevision (\<lambda>_. False) (\<lambda>_. False) fencedStore
     (assignmentFromDecision ''a2'' 110 RoleReplica replicaDecision) ''1'')"

lemma replica_steps:
  "\<not> transactionActive ownedStore" "\<not> transactionActive fencedStore"
  "findAssignmentById (\<lambda>_. False) ownedStore ''a2'' = assignmentStatusResult AsgRepoNotFound"
  "findIntentById (\<lambda>_. False) (intentView ownedStore) ''i1'' = intentResult IntentOk storedIntent"
  "fst (assignmentSetRevisionForIntent (\<lambda>_. False) ownedStore ''i1'') = setRevisionResult AsgRepoOk ''1''"
  "listForIntent (\<lambda>_. False) fencedStore ''i1'' = \<lparr>rl_status = AsgRepoOk, rl_assignments = [firstOwner]\<rparr>"
  "activeAssignments [firstOwner] = [firstOwner]"
  "pd_outcome replicaDecision = PlanSelected"
  by code_simp+

lemma replica_created:
  "fst (createAgainstAssignmentSetRevision (\<lambda>_. False) (\<lambda>_. False) fencedStore
     (assignmentFromDecision ''a2'' 110 RoleReplica replicaDecision) ''1'')
   = assignmentResult AsgRepoOk (createdAssignment (assignmentFromDecision ''a2'' 110 RoleReplica replicaDecision) 2)"
  by code_simp

lemma ownedStore_sound: "timerDbSound ownedStore"
proof -
  have "timerCalls schedulingStore ownedStore" by (simp add: ownedStore_def r_into_rtranclp callCreate)
  then show ?thesis using timerCalls_sound schedulingStore_sound by blast
qed

lemma sample_replica:
  "sc_status (fst (scheduleReplica noStoreErrors quiet ownedStore replicaRequest)) = SchedPersisted"
proof -
  have valid: "validSchedulingRequest ''a2'' ''i1'' ''1'' 110" by code_simp
  have rev: "ti_intentRevision storedIntent = ''1''" by (simp add: storedIntent_def)
  let ?c = "assignmentFromDecision ''a2'' 110 RoleReplica replicaDecision"
  have created: "createAgainstAssignmentSetRevision (\<lambda>_. False) (\<lambda>_. False) fencedStore ?c ''1''
      = (assignmentResult AsgRepoOk (createdAssignment ?c 2), replicaStore)"
    using replica_created by (simp add: prod_eq_iff replicaStore_def)
  have tok: "assignmentSetRevisionForIntent (\<lambda>_. False) ownedStore ''i1'' = (setRevisionResult AsgRepoOk ''1'', fencedStore)"
    using replica_steps(5) by (simp add: prod_eq_iff fencedStore_def)
  have dec: "planTimerAssignment \<lparr>rq_intent = storedIntent, rq_role = RoleReplica,
     rq_currentAssignments = [firstOwner], rq_candidates = map zdfCandidate [''b1'']\<rparr> = replicaDecision"
    by (simp add: replicaDecision_def)
  have *: "scheduleReplica noStoreErrors quiet ownedStore replicaRequest
    = (applyCreateResult ((schedulingStatusResult SchedStorageError)\<lparr>sc_decision := replicaDecision\<rparr>)
      (assignmentResult AsgRepoOk (createdAssignment ?c 2)) (findAssignmentById (\<lambda>_. False) replicaStore ''a2'')
      ''a2'' ''i1'' ''1'' RoleReplica 110 True, replicaStore)"
    using replica_steps(1-4,6-8) valid rev created dec tok
    by (simp add: replicaRequest_def scheduleReplica_def Let_def sampleScheduling_def setRevisionResult_def
        noStoreErrors_call existingAssignmentResult_def assignmentStatusResult_def assignmentResult_def del: list.map)
  show ?thesis unfolding * by (simp add: applyCreateResult_def assignmentResult_def)
qed

section \<open>Properties\<close>

text \<open>C9: A persisted replica was planned on the current owners. Whatever other callers do between the
  steps of the service, when the replica is written the intent is still at the quoted revision, and
  the planner had been given exactly the active assignments the intent has at that moment; what is
  stored is the planner's decision under the requested identifier.\<close>

theorem replica_planned_on_current_set:
  assumes "timerDbSound db" and "interference between"
    and "scheduleReplica failing between db request = (res, db')" and "sc_status res = SchedPersisted"
  shows "\<exists>intent d f g token created. timerCalls db d
     \<and> createAgainstAssignmentSetRevision f g d (assignmentFromDecision (sq_timerAssignmentId request)
         (sq_createdAt request) RoleReplica (sc_decision res)) token = (created, db')
     \<and> findIntentRevision (\<lambda>_. False) (tt_intents (db_committed d)) (sq_timerIntentId request)
         = SelectFound (sq_expectedIntentRevision request)
     \<and> ti_timerIntentId intent = sq_timerIntentId request
     \<and> ti_intentRevision intent = sq_expectedIntentRevision request
     \<and> sc_decision res = planTimerAssignment \<lparr>rq_intent = intent, rq_role = RoleReplica,
         rq_currentAssignments = activeAssignments
           (assignmentsOfIntent (sq_timerIntentId request) (tt_assignments (db_committed d))),
         rq_candidates = sq_candidates request\<rparr>
     \<and> (\<exists>row \<in> set (tt_assignments (db_committed db')).
         readAssignment row = Some (storedAssignment (sc_assignment res)))
     \<and> sc_assignment res = createdAssignment (assignmentFromDecision (sq_timerAssignmentId request)
         (sq_createdAt request) RoleReplica (sc_decision res)) (ta_assignmentEpoch (sc_assignment res))"
  by (rule scheduleReplica_effect [OF assms(3,4,1,2)]) blast

theorem replica_planned_on_current_set_witness:
  "\<exists>row \<in> set (tt_assignments (db_committed (snd (scheduleReplica noStoreErrors quiet ownedStore replicaRequest)))).
     readAssignment row = Some (storedAssignment (sc_assignment
       (fst (scheduleReplica noStoreErrors quiet ownedStore replicaRequest))))"
proof -
  let ?call = "scheduleReplica noStoreErrors quiet ownedStore replicaRequest"
  from replica_planned_on_current_set [OF ownedStore_sound quiet_interference, of noStoreErrors replicaRequest
      "fst ?call" "snd ?call"] sample_replica
  show ?thesis by auto
qed


text \<open>C12: A persisted primary is alone. When the service stores a primary, the intent is at the quoted
  revision at that moment, the stored assignment is the planner's decision on the intent and the
  active assignments it was given, and when the decision selected a backend, no other assignment of
  the intent owned its recording when the primary was written, whatever other callers did between
  the planning and the write.\<close>

theorem persisted_primary_is_alone:
  assumes "timerDbSound db" and "interference between"
    and "schedulePrimary failing between db request = (res, db')" and "sc_status res = SchedPersisted"
  shows "\<exists>intent d listed. timerCalls db d
     \<and> acceptedCreation (db_committed d) (assignmentFromDecision (sq_timerAssignmentId request)
         (sq_createdAt request) RolePrimary (sc_decision res)) (sc_assignment res) (db_committed db')
     \<and> findIntentRevision (\<lambda>_. False) (tt_intents (db_committed d)) (sq_timerIntentId request)
         = SelectFound (sq_expectedIntentRevision request)
     \<and> ti_timerIntentId intent = sq_timerIntentId request
     \<and> ti_intentRevision intent = sq_expectedIntentRevision request
     \<and> sc_decision res = planTimerAssignment \<lparr>rq_intent = intent, rq_role = RolePrimary,
         rq_currentAssignments = activeAssignments listed, rq_candidates = sq_candidates request\<rparr>
     \<and> (pd_outcome (sc_decision res) = PlanSelected \<longrightarrow>
          \<not> list_ex (\<lambda>row. ar_timer_intent_id row = sq_timerIntentId request \<and> activeExclusive row)
              (tt_assignments (db_committed d)))"
proof -
  let ?c = "assignmentFromDecision (sq_timerAssignmentId request) (sq_createdAt request) RolePrimary (sc_decision res)"
  obtain intent d row f where e: "timerCalls db d" "timerDbSound d"
    "ti_timerIntentId intent = sq_timerIntentId request"
    "ti_intentRevision intent = sq_expectedIntentRevision request"
    "sc_decision res = planTimerAssignment \<lparr>rq_intent = intent, rq_role = RolePrimary,
       rq_currentAssignments = activeAssignments (assignmentsOfIntent (sq_timerIntentId request)
         (tt_assignments (visibleTables (between 2 (between 1 (between 0 db)))))),
       rq_candidates = sq_candidates request\<rparr>"
    "acceptedCreation (db_committed d) ?c (sc_assignment res) (db_committed db')"
    "ownershipAdmission f (db_committed d) (sc_assignment res) = AsgRepoOk"
    "findIntentRevision (\<lambda>_. False) (tt_intents (db_committed d)) (sq_timerIntentId request)
       = SelectFound (sq_expectedIntentRevision request)"
    by (rule schedulePrimary_effect [OF assms(3,4,1,2)])
  have c: "sc_assignment res = createdAssignment ?c (ta_assignmentEpoch (sc_assignment res))"
    using e(6) unfolding acceptedCreation_def by blast
  have fields: "ta_role (sc_assignment res) = RolePrimary"
    "ta_timerIntentId (sc_assignment res) = sq_timerIntentId request"
    "pd_outcome (sc_decision res) = PlanSelected \<Longrightarrow> ta_state (sc_assignment res) = AsgSelected"
    by (subst c, simp add: e(3,5))+
  have "\<not> list_ex (\<lambda>row. ar_timer_intent_id row = sq_timerIntentId request \<and> activeExclusive row)
      (tt_assignments (db_committed d))" if "pd_outcome (sc_decision res) = PlanSelected"
    using primary_alone [OF e(7) fields(1) fields(3) [OF that]] e(2) by (simp add: timerDbSound_def fields(2))
  then show ?thesis using e by blast
qed

theorem persisted_primary_is_alone_witness:
  "\<exists>d. timerCalls schedulingStore d
     \<and> \<not> list_ex (\<lambda>row. ar_timer_intent_id row = ''i1'' \<and> activeExclusive row) (tt_assignments (db_committed d))"
proof -
  let ?q = "sampleScheduling ''a1'' 100 [''b1'', ''b2'']"
  have i: "sq_timerIntentId ?q = ''i1''" by (simp add: sampleScheduling_def)
  from persisted_primary_is_alone [OF schedulingStore_sound quiet_interference, of noStoreErrors ?q
      "fst primaryScheduled" "snd primaryScheduled"] sample_primary primary_steps(4)
  show ?thesis unfolding i by (auto simp: primaryScheduled_def)
qed

text \<open>C13: A scheduling request may be repeated. Once it was persisted, then after any calls and whoever
  interferes, the same request writes nothing: it is answered as already persisted, or, when the
  assignment has moved on since, as a conflict of its identifier, in both cases with the assignment
  that the first answer announced: same identifier, intent, epoch, role and time.\<close>

theorem scheduling_may_be_repeated:
  assumes "timerDbSound db" and "interference between" and "interference between'"
    and "timerCalls db' d" and "sc_status first = SchedPersisted"
  shows "(schedulePrimary failing between db request = (first, db') \<longrightarrow>
       (\<exists>again. schedulePrimary (\<lambda>_. False) between' d request = (again, between' 0 d)
          \<and> repeatedAnswer first again
          \<and> (between' 0 d = db' \<longrightarrow> sc_status again = SchedAlreadyPersisted)))
     \<and> (scheduleReplica failing between db request = (first, db') \<longrightarrow>
       (\<exists>again. scheduleReplica (\<lambda>_. False) between' d request = (again, between' 0 d)
          \<and> repeatedAnswer first again
          \<and> (between' 0 d = db' \<longrightarrow> sc_status again = SchedAlreadyPersisted)))"
  using schedulePrimary_again [OF assms(1-4) _ assms(5)] scheduleReplica_again [OF assms(1-4) _ assms(5)]
  by blast

theorem scheduling_may_be_repeated_witness:
  "\<exists>again. schedulePrimary (\<lambda>_. False) quiet (snd primaryScheduled) (sampleScheduling ''a1'' 100 [''b1'', ''b2''])
       = (again, quiet 0 (snd primaryScheduled))
     \<and> repeatedAnswer (fst primaryScheduled) again"
  using scheduling_may_be_repeated [OF schedulingStore_sound quiet_interference quiet_interference,
      of "snd primaryScheduled" "snd primaryScheduled" "fst primaryScheduled" noStoreErrors
        "sampleScheduling ''a1'' 100 [''b1'', ''b2'']"] sample_primary(1)
  by (auto simp: primaryScheduled_def)

end
