(* ===== verification/TimerAssignmentFulfillmentService.thy ===== *)
theory TimerAssignmentFulfillmentService
  imports TimerAssignmentSchedulingService
begin

text \<open>
  \<open>core/timers/src/TimerAssignmentFulfillmentService.cpp\<close>: a selected assignment starts being
  provisioned, and a provisioning or reconciling one is bound to the managed native timer that an
  operation has verified for it. The revisions and the backend generation quoted by the caller are
  compared with what the repositories answer before anything is written, and the write itself is
  fenced again by the revision of the assignment that was read.
\<close>

datatype timer_assignment_fulfillment_status =
  FulProvisioningStarted | FulAlreadyProvisioning | FulBound | FulAlreadyBound
| FulAssignmentNotFound | FulBindingNotFound | FulAssignmentRevisionConflict
| FulBindingRevisionConflict | FulIntentRevisionConflict | FulStateConflict
| FulIdentityConflict | FulGenerationConflict | FulOwnershipConflict | FulBindingStateConflict
| FulRepositoryConflict | FulRepositoryError | FulInvalid

text \<open>
  The binding of the result is \<open>None\<close> where the service leaves the default one.
\<close>

record timer_assignment_fulfillment_result =
  fr_status :: timer_assignment_fulfillment_status
  fr_assignment :: timer_assignment
  fr_binding :: "native_timer_binding option"

definition fulfillmentOk :: "timer_assignment_fulfillment_result \<Rightarrow> bool" where
  "fulfillmentOk r \<longleftrightarrow>
     fr_status r = FulProvisioningStarted \<or> fr_status r = FulAlreadyProvisioning
     \<or> fr_status r = FulBound \<or> fr_status r = FulAlreadyBound"

definition fulfillmentResult ::
  "timer_assignment_fulfillment_status \<Rightarrow> timer_assignment \<Rightarrow> native_timer_binding option
     \<Rightarrow> timer_assignment_fulfillment_result" where
  "fulfillmentResult status assignment binding =
     \<lparr>fr_status = status, fr_assignment = assignment, fr_binding = binding\<rparr>"

definition validCommon :: "string \<Rightarrow> string \<Rightarrow> string \<Rightarrow> uint64 \<Rightarrow> int \<Rightarrow> bool" where
  "validCommon timerAssignmentId expectedAssignmentRevision expectedIntentRevision
       expectedBackendGeneration updatedAt \<longleftrightarrow>
     timerAssignmentId \<noteq> [] \<and> expectedAssignmentRevision \<noteq> [] \<and> expectedIntentRevision \<noteq> []
     \<and> expectedBackendGeneration > 0 \<and> updatedAt > 0"

fun assignmentRepositoryFailure ::
  "timer_assignment_repository_status \<Rightarrow> timer_assignment_fulfillment_status" where
  "assignmentRepositoryFailure AsgRepoConflict = FulRepositoryConflict"
| "assignmentRepositoryFailure AsgRepoIntentRevisionConflict = FulIntentRevisionConflict"
| "assignmentRepositoryFailure AsgRepoOwnershipConflict = FulOwnershipConflict"
| "assignmentRepositoryFailure AsgRepoInvalid = FulInvalid"
| "assignmentRepositoryFailure _ = FulRepositoryError"

definition bindingVerifiedForAssignment :: "native_timer_binding \<Rightarrow> timer_assignment \<Rightarrow> bool" where
  "bindingVerifiedForAssignment binding assignment \<longleftrightarrow>
     nb_timerAssignmentId binding = ta_timerAssignmentId assignment
     \<and> nb_backendId binding = ta_backendId assignment
     \<and> nb_backendGeneration binding = ta_backendGeneration assignment
     \<and> nb_ownership binding = OwnManaged
     \<and> nb_lastVerifiedOperationId binding \<noteq> []
     \<and> nb_missingSince binding = 0
     \<and> nb_driftState binding = DriftNone"

section \<open>Starting to provision\<close>

definition beginProvisioningImpl ::
  "(store_call \<Rightarrow> bool) \<Rightarrow> (nat \<Rightarrow> timer_tables database \<Rightarrow> timer_tables database)
     \<Rightarrow> timer_tables database \<Rightarrow> string \<Rightarrow> string \<Rightarrow> string \<Rightarrow> uint64 \<Rightarrow> int \<Rightarrow> bool
     \<Rightarrow> timer_assignment_fulfillment_result \<times> timer_tables database" where
  "beginProvisioningImpl failing between db timerAssignmentId expectedAssignmentRevision
       expectedIntentRevision expectedBackendGeneration updatedAt currentTransaction =
     (if \<not> validCommon timerAssignmentId expectedAssignmentRevision expectedIntentRevision
            expectedBackendGeneration updatedAt
      then (fulfillmentResult FulInvalid emptyTimerAssignment None, db)
      else let db0 = between 0 db;
               found = findAssignmentById (\<lambda>c. failing (SvcAssignment 0 c)) db0 timerAssignmentId;
               current = ra_assignment found
      in if ra_status found = AsgRepoNotFound
         then (fulfillmentResult FulAssignmentNotFound emptyTimerAssignment None, db0)
         else if ra_status found \<noteq> AsgRepoOk
         then (fulfillmentResult FulRepositoryError emptyTimerAssignment None, db0)
         else if ta_intentRevision current \<noteq> expectedIntentRevision
         then (fulfillmentResult FulIntentRevisionConflict current None, db0)
         else if ta_backendGeneration current \<noteq> expectedBackendGeneration
         then (fulfillmentResult FulGenerationConflict current None, db0)
         else if ta_assignmentRevision current \<noteq> expectedAssignmentRevision
         then (fulfillmentResult FulAssignmentRevisionConflict current None, db0)
         else if ta_state current = AsgProvisioning
         then (fulfillmentResult FulAlreadyProvisioning current None, db0)
         else if ta_state current \<noteq> AsgSelected
         then (fulfillmentResult FulStateConflict current None, db0)
         else if updatedAt \<le> ta_updatedAt current
         then (fulfillmentResult FulInvalid current None, db0)
         else let next' = current\<lparr>ta_state := AsgProvisioning, ta_updatedAt := updatedAt\<rparr>;
                  (updated, db1) =
                    (if currentTransaction then updateAssignmentInCurrentTransaction
                     else updateAssignment) (\<lambda>c. failing (SvcAssignment 1 c)) (between 1 db0) next'
                      (ta_assignmentRevision current)
              in (fulfillmentResult
                    (if ra_status updated = AsgRepoOk then FulProvisioningStarted
                     else assignmentRepositoryFailure (ra_status updated))
                    (ra_assignment updated) None, db1))"

definition beginProvisioning ::
  "(store_call \<Rightarrow> bool) \<Rightarrow> (nat \<Rightarrow> timer_tables database \<Rightarrow> timer_tables database)
     \<Rightarrow> timer_tables database \<Rightarrow> string \<Rightarrow> string \<Rightarrow> string \<Rightarrow> uint64 \<Rightarrow> int
     \<Rightarrow> timer_assignment_fulfillment_result \<times> timer_tables database" where
  "beginProvisioning failing between db timerAssignmentId expectedAssignmentRevision
       expectedIntentRevision expectedBackendGeneration updatedAt =
     beginProvisioningImpl failing between db timerAssignmentId expectedAssignmentRevision
       expectedIntentRevision expectedBackendGeneration updatedAt False"

definition beginProvisioningInCurrentTransaction ::
  "(store_call \<Rightarrow> bool) \<Rightarrow> (nat \<Rightarrow> timer_tables database \<Rightarrow> timer_tables database)
     \<Rightarrow> timer_tables database \<Rightarrow> string \<Rightarrow> string \<Rightarrow> string \<Rightarrow> uint64 \<Rightarrow> int
     \<Rightarrow> timer_assignment_fulfillment_result \<times> timer_tables database" where
  "beginProvisioningInCurrentTransaction failing between db timerAssignmentId
       expectedAssignmentRevision expectedIntentRevision expectedBackendGeneration updatedAt =
     beginProvisioningImpl failing between db timerAssignmentId expectedAssignmentRevision
       expectedIntentRevision expectedBackendGeneration updatedAt True"

section \<open>Binding the verified native timer\<close>

text \<open>
  The comparison of an assignment with a binding that were both found; \<open>None\<close> when the
  assignment is to be written.
\<close>

definition bindVerifiedCheck ::
  "timer_assignment \<Rightarrow> native_timer_binding \<Rightarrow> string \<Rightarrow> uint64 \<Rightarrow> string \<Rightarrow> string \<Rightarrow> int
     \<Rightarrow> timer_assignment_fulfillment_status option" where
  "bindVerifiedCheck assignment binding expectedAssignmentRevision expectedBackendGeneration
       nativeTimerBindingId expectedBindingRevision updatedAt =
     (if nb_bindingRevision binding \<noteq> expectedBindingRevision then Some FulBindingRevisionConflict
      else if nb_timerAssignmentId binding \<noteq> ta_timerAssignmentId assignment
        \<or> nb_backendId binding \<noteq> ta_backendId assignment then Some FulIdentityConflict
      else if nb_backendGeneration binding \<noteq> expectedBackendGeneration then Some FulGenerationConflict
      else if nb_ownership binding \<noteq> OwnManaged then Some FulOwnershipConflict
      else if \<not> bindingVerifiedForAssignment binding assignment then Some FulBindingStateConflict
      else if ta_state assignment = AsgBound
      then (if ta_nativeTimerBindingId assignment = nativeTimerBindingId then Some FulAlreadyBound
            else Some FulIdentityConflict)
      else if ta_assignmentRevision assignment \<noteq> expectedAssignmentRevision
      then Some FulAssignmentRevisionConflict
      else if ta_state assignment \<noteq> AsgProvisioning \<and> ta_state assignment \<noteq> AsgReconciling
      then Some FulStateConflict
      else if updatedAt \<le> ta_updatedAt assignment then Some FulInvalid
      else None)"

definition bindVerified ::
  "(store_call \<Rightarrow> bool) \<Rightarrow> (nat \<Rightarrow> timer_tables database \<Rightarrow> timer_tables database)
     \<Rightarrow> timer_tables database \<Rightarrow> string \<Rightarrow> string \<Rightarrow> string \<Rightarrow> uint64 \<Rightarrow> string \<Rightarrow> string \<Rightarrow> int
     \<Rightarrow> timer_assignment_fulfillment_result \<times> timer_tables database" where
  "bindVerified failing between db timerAssignmentId expectedAssignmentRevision
       expectedIntentRevision expectedBackendGeneration nativeTimerBindingId
       expectedBindingRevision updatedAt =
     (if \<not> validCommon timerAssignmentId expectedAssignmentRevision expectedIntentRevision
            expectedBackendGeneration updatedAt
         \<or> nativeTimerBindingId = [] \<or> expectedBindingRevision = []
      then (fulfillmentResult FulInvalid emptyTimerAssignment None, db)
      else let db0 = between 0 db;
               found = findAssignmentById (\<lambda>c. failing (SvcAssignment 0 c)) db0 timerAssignmentId;
               assignment = ra_assignment found
      in if ra_status found = AsgRepoNotFound
         then (fulfillmentResult FulAssignmentNotFound emptyTimerAssignment None, db0)
         else if ra_status found \<noteq> AsgRepoOk
         then (fulfillmentResult FulRepositoryError emptyTimerAssignment None, db0)
         else if ta_intentRevision assignment \<noteq> expectedIntentRevision
         then (fulfillmentResult FulIntentRevisionConflict assignment None, db0)
         else if ta_backendGeneration assignment \<noteq> expectedBackendGeneration
         then (fulfillmentResult FulGenerationConflict assignment None, db0)
         else let db1 = between 1 db0;
                  foundBinding = findBindingById (failing (SvcBinding 1 BindSelectId)) db1 nativeTimerBindingId
         in case (nr_status foundBinding, nr_binding foundBinding) of
            (BindNotFound, _) \<Rightarrow> (fulfillmentResult FulBindingNotFound assignment None, db1)
          | (BindOk, Some binding) \<Rightarrow>
              (case bindVerifiedCheck assignment binding expectedAssignmentRevision
                      expectedBackendGeneration nativeTimerBindingId expectedBindingRevision updatedAt of
                 Some status \<Rightarrow> (fulfillmentResult status assignment (Some binding), db1)
               | None \<Rightarrow>
                  (let next' = assignment\<lparr>ta_state := AsgBound,
                         ta_nativeTimerBindingId := nativeTimerBindingId, ta_updatedAt := updatedAt\<rparr>;
                       (updated, db2) = updateAssignment (\<lambda>c. failing (SvcAssignment 2 c))
                         (between 2 db1) next' (ta_assignmentRevision assignment)
                   in (fulfillmentResult
                         (if ra_status updated = AsgRepoOk then FulBound
                          else assignmentRepositoryFailure (ra_status updated))
                         (ra_assignment updated) (Some binding), db2)))
          | _ \<Rightarrow> (fulfillmentResult FulRepositoryError assignment None, db1))"

end
