(* ===== verification/FulfillmentProperties.thy ===== *)
theory FulfillmentProperties
  imports TimerAssignmentFulfillmentService SchedulingProperties BindingProperties
begin

text \<open>
  What callers of the fulfilment service may rely on while other callers use the same store: the
  assignment that is written is the one that was compared, and it is bound only to a native timer
  that was found managed, verified and without drift.
\<close>

section \<open>Writing what was compared\<close>

lemma readAssignment_revision_inj:
  assumes "readAssignment r = Some a" "readAssignment r' = Some a'"
    and "ta_assignmentRevision a' = ta_assignmentRevision a" "assignmentEvolves r r'"
  shows "a' = a"
proof -
  have "ar_assignment_revision r = ar_assignment_revision r'"
    using readAssignment_fields(5) [OF assms(1)] readAssignment_fields(5) [OF assms(2)] assms(3) by simp
  then show ?thesis using assms by (simp add: assignmentEvolves_def)
qed

text \<open>One row of the assignments is replaced: the one that was read as \<open>current\<close> by one that is read as
  \<open>stored\<close>.\<close>

definition assignmentReplaced ::
  "timer_tables \<Rightarrow> timer_assignment \<Rightarrow> timer_assignment \<Rightarrow> timer_tables \<Rightarrow> bool" where
  "assignmentReplaced t current stored t' \<longleftrightarrow>
     (\<exists>row row'. row \<in> set (tt_assignments t) \<and> readAssignment row = Some current
        \<and> readAssignment row' = Some stored
        \<and> tt_assignments t' = map (\<lambda>x. if x = row then row' else x) (tt_assignments t))"

lemma fenced_write:
  assumes "timerDbSound d0" "\<not> transactionActive d0" "timerCalls d0 d"
    and read: "findAssignmentById f d0 i = assignmentResult AsgRepoOk current"
    and upd: "updateAssignment g d new (ta_assignmentRevision current) = (res, db')" "ra_status res = AsgRepoOk"
    and key: "ta_timerAssignmentId new = ta_timerAssignmentId current"
  obtains v where "ta_assignmentRevision current = decimal v" "v < int64_max"
    "findAssignmentById noAssignmentErrors d i = assignmentResult AsgRepoOk current"
    "updateAssignmentPermitted current new"
    "res = assignmentResult AsgRepoOk (new\<lparr>ta_assignmentRevision := decimal (v + 1)\<rparr>)"
    "findAssignmentById noAssignmentErrors db' i
       = assignmentResult AsgRepoOk (storedAssignment (new\<lparr>ta_assignmentRevision := decimal (v + 1)\<rparr>))"
    "\<not> transactionActive db'"
    "findAssignmentById noAssignmentErrors d0 i = assignmentResult AsgRepoOk current"
    "assignmentReplaced (db_committed d) current
       (storedAssignment (new\<lparr>ta_assignmentRevision := decimal (v + 1)\<rparr>)) (db_committed db')"
proof -
  note f = timerCalls_facts [OF assms(3,1,1)]
  have s: "rowsSound (tt_assignments (db_committed d0))" "rowsSound (tt_assignments (db_committed d))"
    using assms(1) f(1) by (simp_all add: timerDbSound_def)
  obtain r where r: "assignmentRowOf i (tt_assignments (db_committed d0)) = Some r"
    "readAssignment r = Some current" "i \<noteq> []" "length i \<le> 160"
    using findAssignmentById_Ok [OF read] by (auto simp: visible_begun [OF assms(2)])
  have id: "ta_timerAssignmentId current = i"
    using r(1) readAssignment_fields(3) [OF r(2)] by (simp add: assignmentRowOf_Some [OF s(1)])
  obtain v now where u: "ta_assignmentRevision current = decimal v" "v < int64_max"
    "findAssignmentById noAssignmentErrors d i = assignmentResult AsgRepoOk now"
    "ta_assignmentRevision now = ta_assignmentRevision current" "updateAssignmentPermitted now new"
    "res = assignmentResult AsgRepoOk (new\<lparr>ta_assignmentRevision := decimal (v + 1)\<rparr>)"
    "findAssignmentById noAssignmentErrors db' i
       = assignmentResult AsgRepoOk (storedAssignment (new\<lparr>ta_assignmentRevision := decimal (v + 1)\<rparr>))"
    "\<not> transactionActive db'"
    by (rule updateAssignment_effect [OF f(1) upd, unfolded key id])
  obtain written where written: "acceptedRevision (db_committed d) new (ta_assignmentRevision current)
      written (db_committed db')" "res = assignmentResult AsgRepoOk written" and off: "\<not> transactionActive d"
    by (rule updateAssignment_ok [OF upd f(1)])
  obtain r' where r': "assignmentRowOf i (tt_assignments (db_committed d)) = Some r'" "assignmentEvolves r r'"
    by (rule assignmentRowOf_evolves [OF f(2) s r(1)])
  have "readAssignment r' = Some now"
    using findAssignmentById_Ok [OF u(3)] r'(1) by (auto simp: visible_begun [OF off])
  from readAssignment_revision_inj [OF r(2) this u(4) r'(2)] have same: "now = current" .
  have w: "written = new\<lparr>ta_assignmentRevision := decimal (v + 1)\<rparr>"
    using written(2) u(6) by (simp add: assignmentResult_def)
  obtain x now' row where x: "x \<in> set (tt_assignments (db_committed d))"
    "ar_timer_assignment_id x = i" "readAssignment x = Some now'"
    "readAssignment row = Some (storedAssignment written)"
    "tt_assignments (db_committed db') = map (\<lambda>y. if y = x then row else y) (tt_assignments (db_committed d))"
    using written(1) unfolding acceptedRevision_def key id by blast
  have "x = r'" using x(1,2) r'(1) s(2) by (metis assignmentRowOf_Some option.inject)
  then have "now' = current" using x(3) \<open>readAssignment r' = Some now\<close> same by simp
  then have replaced: "assignmentReplaced (db_committed d) current (storedAssignment written) (db_committed db')"
    unfolding assignmentReplaced_def using x by blast
  have before: "findAssignmentById noAssignmentErrors d0 i = assignmentResult AsgRepoOk current"
    using findAssignmentById_sound [of d0, OF _ r(3,4)] s(1) r(1,2) by (simp add: visible_begun [OF assms(2)])
  show thesis by (rule that [OF u(1,2) u(3) [unfolded same] u(5) [unfolded same] u(6-8) before])
      (use replaced w in simp)
qed

section \<open>The two steps\<close>

lemma findAssignmentById_result:
  "ra_status (findAssignmentById f d i) = AsgRepoOk \<Longrightarrow>
     findAssignmentById f d i = assignmentResult AsgRepoOk (ra_assignment (findAssignmentById f d i))"
  by (simp add: assignmentResult_def)

lemma assignmentRepositoryFailure_not_ok [simp]:
  "assignmentRepositoryFailure s \<noteq> FulProvisioningStarted" "assignmentRepositoryFailure s \<noteq> FulBound"
  by (cases s; simp)+

lemma beginProvisioning_started:
  assumes "beginProvisioning failing between db i tok irev gen at = (res, db')"
    and "fr_status res = FulProvisioningStarted"
  obtains f g current updated where
    "findAssignmentById f (between 0 db) i = assignmentResult AsgRepoOk current"
    "ta_intentRevision current = irev" "ta_backendGeneration current = gen"
    "ta_assignmentRevision current = tok" "ta_state current = AsgSelected"
    "updateAssignment g (between 1 (between 0 db))
       (current\<lparr>ta_state := AsgProvisioning, ta_updatedAt := at\<rparr>) (ta_assignmentRevision current) = (updated, db')"
    "ra_status updated = AsgRepoOk" "fr_assignment res = ra_assignment updated"
proof -
  let ?f = "\<lambda>c. failing (SvcAssignment 0 c)" and ?g = "\<lambda>c. failing (SvcAssignment 1 c)"
  let ?found = "findAssignmentById ?f (between 0 db) i"
  note def = beginProvisioning_def beginProvisioningImpl_def Let_def fulfillmentResult_def
  have ok: "ra_status ?found = AsgRepoOk"
    using assms by (auto simp: def split: if_splits)
  obtain updated db1 where u: "updateAssignment ?g (between 1 (between 0 db))
      ((ra_assignment ?found)\<lparr>ta_state := AsgProvisioning, ta_updatedAt := at\<rparr>)
      (ta_assignmentRevision (ra_assignment ?found)) = (updated, db1)" by fastforce
  have "ta_intentRevision (ra_assignment ?found) = irev" "ta_backendGeneration (ra_assignment ?found) = gen"
    "ta_assignmentRevision (ra_assignment ?found) = tok" "ta_state (ra_assignment ?found) = AsgSelected"
    "db1 = db'" "ra_status updated = AsgRepoOk" "fr_assignment res = ra_assignment updated"
    using assms ok u by (auto simp: def split: if_splits)
  then show thesis using that findAssignmentById_result [OF ok] u by blast
qed

lemma bindVerified_bound:
  assumes "bindVerified failing between db i tok irev gen b brev at = (res, db')"
    and "fr_status res = FulBound"
  obtains f g h current binding updated where
    "findAssignmentById f (between 0 db) i = assignmentResult AsgRepoOk current"
    "ta_intentRevision current = irev" "ta_backendGeneration current = gen"
    "findBindingById h (between 1 (between 0 db)) b = bindingResult BindOk binding"
    "bindVerifiedCheck current binding tok gen b brev at = None"
    "updateAssignment g (between 2 (between 1 (between 0 db)))
       (current\<lparr>ta_state := AsgBound, ta_nativeTimerBindingId := b, ta_updatedAt := at\<rparr>)
       (ta_assignmentRevision current) = (updated, db')"
    "ra_status updated = AsgRepoOk" "fr_assignment res = ra_assignment updated"
    "fr_binding res = Some binding"
proof -
  let ?f = "\<lambda>c. failing (SvcAssignment 0 c)" and ?g = "\<lambda>c. failing (SvcAssignment 2 c)"
  let ?h = "failing (SvcBinding 1 BindSelectId)"
  let ?found = "findAssignmentById ?f (between 0 db) i"
  let ?foundB = "findBindingById ?h (between 1 (between 0 db)) b"
  note def = bindVerified_def Let_def fulfillmentResult_def
  have ok: "ra_status ?found = AsgRepoOk"
    using assms by (auto simp: def split: if_splits)
  have okB: "nr_status ?foundB = BindOk"
    using assms ok by (auto simp: def split: if_splits native_timer_binding_repository_status.splits option.splits)
  then obtain binding where b: "?foundB = bindingResult BindOk binding"
    by (auto simp: findBindingById_def lookupResult_def bindingStatusResult_def bindingResult_def
        split: if_splits select_result.splits)
  obtain updated db1 where u: "updateAssignment ?g (between 2 (between 1 (between 0 db)))
      ((ra_assignment ?found)\<lparr>ta_state := AsgBound, ta_nativeTimerBindingId := b, ta_updatedAt := at\<rparr>)
      (ta_assignmentRevision (ra_assignment ?found)) = (updated, db1)" by fastforce
  have nb: "bindVerifiedCheck x y p q r s t \<noteq> Some FulBound" for x y p q r s t
    by (simp add: bindVerifiedCheck_def)
  have chk: "bindVerifiedCheck (ra_assignment ?found) binding tok gen b brev at = None"
    using assms ok b nb by (auto simp: def bindingResult_def split: if_splits option.splits)
  have "ta_intentRevision (ra_assignment ?found) = irev" "ta_backendGeneration (ra_assignment ?found) = gen"
    "db1 = db'" "ra_status updated = AsgRepoOk" "fr_assignment res = ra_assignment updated"
    "fr_binding res = Some binding"
    using assms ok u b chk by (auto simp: def bindingResult_def split: if_splits)
  then show thesis using that findAssignmentById_result [OF ok] b chk u by blast
qed

lemma bindVerifiedCheck_None:
  assumes "bindVerifiedCheck current binding tok gen b brev at = None"
  shows "nb_bindingRevision binding = brev" "nb_backendGeneration binding = gen"
    "bindingVerifiedForAssignment binding current" "ta_assignmentRevision current = tok"
    "ta_state current = AsgProvisioning \<or> ta_state current = AsgReconciling" "ta_updatedAt current < at"
  using assms by (auto simp: bindVerifiedCheck_def split: if_splits)

lemma findBindingById_Ok:
  "findBindingById f d b = bindingResult BindOk binding \<Longrightarrow> findBindingById False d b = bindingResult BindOk binding"
  by (cases f) (auto simp: findBindingById_def lookupResult_def bindingStatusResult_def bindingResult_def
      nativeBindingSelectById_def selectFirst_def split: if_splits select_result.splits)

lemma provisioning_effect:
  assumes "timerDbSound db" and "interference between"
    and "beginProvisioning failing between db i tok irev gen at = (res, db')"
    and "fr_status res = FulProvisioningStarted"
    and stores: "d0 = between 0 db" "d1 = between 1 d0"
  shows "\<exists>v current. timerCalls db d1 \<and> tok = decimal v \<and> v < int64_max
    \<and> findAssignmentById noAssignmentErrors d0 i = assignmentResult AsgRepoOk current
    \<and> assignmentReplaced (db_committed d1) current (storedAssignment (fr_assignment res)) (db_committed db')
    \<and> findAssignmentById noAssignmentErrors d1 i = assignmentResult AsgRepoOk current
    \<and> ta_assignmentRevision current = tok \<and> ta_intentRevision current = irev
    \<and> ta_backendGeneration current = gen \<and> ta_state current = AsgSelected
    \<and> fr_assignment res = current\<lparr>ta_state := AsgProvisioning, ta_updatedAt := at,
        ta_assignmentRevision := decimal (v + 1)\<rparr>
    \<and> findAssignmentById noAssignmentErrors db' i
        = assignmentResult AsgRepoOk (storedAssignment (fr_assignment res))"
proof -
  let ?r = "between 0 db" and ?d = "between 1 (between 0 db)"
  obtain f g current updated where p: "findAssignmentById f ?r i = assignmentResult AsgRepoOk current"
    "ta_intentRevision current = irev" "ta_backendGeneration current = gen"
    "ta_assignmentRevision current = tok" "ta_state current = AsgSelected"
    "updateAssignment g ?d (current\<lparr>ta_state := AsgProvisioning, ta_updatedAt := at\<rparr>)
       (ta_assignmentRevision current) = (updated, db')"
    "ra_status updated = AsgRepoOk" "fr_assignment res = ra_assignment updated"
    by (rule beginProvisioning_started [OF assms(3,4)])
  have c: "timerCalls db ?r" "timerCalls ?r ?d" "timerCalls db ?d"
    using interference_calls [OF assms(2)] by (blast intro: rtranclp_trans)+
  have s: "timerDbSound ?r" using timerCalls_sound [OF c(1) assms(1)] ..
  obtain v where w: "ta_assignmentRevision current = decimal v" "v < int64_max"
    "findAssignmentById noAssignmentErrors ?d i = assignmentResult AsgRepoOk current"
    "updated = assignmentResult AsgRepoOk (current\<lparr>ta_state := AsgProvisioning, ta_updatedAt := at,
       ta_assignmentRevision := decimal (v + 1)\<rparr>)"
    "findAssignmentById noAssignmentErrors db' i = assignmentResult AsgRepoOk (storedAssignment
       (current\<lparr>ta_state := AsgProvisioning, ta_updatedAt := at, ta_assignmentRevision := decimal (v + 1)\<rparr>))"
    "findAssignmentById noAssignmentErrors ?r i = assignmentResult AsgRepoOk current"
    "assignmentReplaced (db_committed ?d) current (storedAssignment
       (current\<lparr>ta_state := AsgProvisioning, ta_updatedAt := at, ta_assignmentRevision := decimal (v + 1)\<rparr>))
       (db_committed db')"
    by (rule fenced_write [OF s interference_idle [OF assms(2)] c(2) p(1,6,7)]) simp_all
  have stored: "fr_assignment res = current\<lparr>ta_state := AsgProvisioning, ta_updatedAt := at,
      ta_assignmentRevision := decimal (v + 1)\<rparr>"
    using p(8) w(4) by (simp add: assignmentResult_def)
  show ?thesis unfolding stores
    using c(3) p(2-5) w(1-3) w(5) [folded stored] w(6) w(7) [folded stored] stored by blast
qed

lemma binding_effect:
  assumes "timerDbSound db" and "interference between"
    and "bindVerified failing between db i tok irev gen b brev at = (res, db')"
    and "fr_status res = FulBound"
    and stores: "d0 = between 0 db" "d1 = between 1 d0" "d2 = between 2 d1"
  shows "\<exists>v current binding. timerCalls db d1 \<and> timerCalls d1 d2 \<and> tok = decimal v \<and> v < int64_max
    \<and> findAssignmentById noAssignmentErrors d0 i = assignmentResult AsgRepoOk current
    \<and> assignmentReplaced (db_committed d2) current (storedAssignment (fr_assignment res)) (db_committed db')
    \<and> findBindingById False d1 b = bindingResult BindOk binding
    \<and> nb_bindingRevision binding = brev \<and> bindingVerifiedForAssignment binding current
    \<and> findAssignmentById noAssignmentErrors d2 i = assignmentResult AsgRepoOk current
    \<and> ta_assignmentRevision current = tok \<and> ta_intentRevision current = irev
    \<and> ta_backendGeneration current = gen
    \<and> (ta_state current = AsgProvisioning \<or> ta_state current = AsgReconciling)
    \<and> fr_assignment res = current\<lparr>ta_state := AsgBound, ta_nativeTimerBindingId := b,
        ta_updatedAt := at, ta_assignmentRevision := decimal (v + 1)\<rparr>
    \<and> findAssignmentById noAssignmentErrors db' i
        = assignmentResult AsgRepoOk (storedAssignment (fr_assignment res))"
proof -
  let ?r = "between 0 db" and ?d1 = "between 1 (between 0 db)" and ?d = "between 2 (between 1 (between 0 db))"
  obtain f g h current binding updated where p:
    "findAssignmentById f ?r i = assignmentResult AsgRepoOk current"
    "ta_intentRevision current = irev" "ta_backendGeneration current = gen"
    "findBindingById h ?d1 b = bindingResult BindOk binding"
    "bindVerifiedCheck current binding tok gen b brev at = None"
    "updateAssignment g ?d (current\<lparr>ta_state := AsgBound, ta_nativeTimerBindingId := b, ta_updatedAt := at\<rparr>)
       (ta_assignmentRevision current) = (updated, db')"
    "ra_status updated = AsgRepoOk" "fr_assignment res = ra_assignment updated"
    by (rule bindVerified_bound [OF assms(3,4)])
  have c: "timerCalls db ?r" "timerCalls ?r ?d" "timerCalls db ?d1" "timerCalls ?d1 ?d"
    using interference_calls [OF assms(2)] by (blast intro: rtranclp_trans)+
  have s: "timerDbSound ?r" using timerCalls_sound [OF c(1) assms(1)] ..
  note chk = bindVerifiedCheck_None [OF p(5)]
  obtain v where w: "ta_assignmentRevision current = decimal v" "v < int64_max"
    "findAssignmentById noAssignmentErrors ?d i = assignmentResult AsgRepoOk current"
    "updated = assignmentResult AsgRepoOk (current\<lparr>ta_state := AsgBound, ta_nativeTimerBindingId := b,
       ta_updatedAt := at, ta_assignmentRevision := decimal (v + 1)\<rparr>)"
    "findAssignmentById noAssignmentErrors db' i = assignmentResult AsgRepoOk (storedAssignment
       (current\<lparr>ta_state := AsgBound, ta_nativeTimerBindingId := b, ta_updatedAt := at,
         ta_assignmentRevision := decimal (v + 1)\<rparr>))"
    "findAssignmentById noAssignmentErrors ?r i = assignmentResult AsgRepoOk current"
    "assignmentReplaced (db_committed ?d) current (storedAssignment
       (current\<lparr>ta_state := AsgBound, ta_nativeTimerBindingId := b, ta_updatedAt := at,
         ta_assignmentRevision := decimal (v + 1)\<rparr>)) (db_committed db')"
    by (rule fenced_write [OF s interference_idle [OF assms(2)] c(2) p(1,6,7)]) simp_all
  have found: "findBindingById False ?d1 b = bindingResult BindOk binding" by (rule findBindingById_Ok [OF p(4)])
  have stored: "fr_assignment res = current\<lparr>ta_state := AsgBound, ta_nativeTimerBindingId := b,
      ta_updatedAt := at, ta_assignmentRevision := decimal (v + 1)\<rparr>"
    using p(8) w(4) by (simp add: assignmentResult_def)
  show ?thesis unfolding stores
    using c(3,4) p(2,3) w(1-3) w(5) [folded stored] w(6) w(7) [folded stored] stored found chk by blast
qed

section \<open>Samples\<close>

text \<open>A store whose provisioning assignment has a verified native timer.\<close>

definition provisionedStore :: "timer_tables database" where
  "provisionedStore = snd (createBinding noBindingErrors oneProvisioning firstBinding)"

definition sampleBound :: "timer_assignment_fulfillment_result \<times> timer_tables database" where
  "sampleBound = bindVerified noStoreErrors quiet provisionedStore ''a1'' ''2'' ''1'' 7 ''b1'' ''1'' 200"

lemma provisionedStore_sound: "timerDbSound provisionedStore"
proof -
  have "timerCall noAssignments oneAssignment" by (simp add: oneAssignment_def callCreate)
  moreover have "timerCall oneAssignment oneProvisioning" by (simp add: oneProvisioning_def callUpdate)
  moreover have "timerCall oneProvisioning provisionedStore" by (simp add: provisionedStore_def callCreateBinding)
  ultimately have "timerCalls noAssignments provisionedStore"
    by (meson converse_rtranclp_into_rtranclp rtranclp.rtrancl_refl)
  from timerCalls_sound [OF this noAssignments_sound] show ?thesis ..
qed

lemma bound_steps:
  "\<not> transactionActive provisionedStore"
  "findAssignmentById (\<lambda>_. False) provisionedStore ''a1''
     = assignmentResult AsgRepoOk (provisioningAssignment\<lparr>ta_assignmentRevision := ''2''\<rparr>)"
  "findBindingById False provisionedStore ''b1''
     = bindingResult BindOk (firstBinding\<lparr>nb_bindingRevision := ''1''\<rparr>)"
  "bindVerifiedCheck (provisioningAssignment\<lparr>ta_assignmentRevision := ''2''\<rparr>)
     (firstBinding\<lparr>nb_bindingRevision := ''1''\<rparr>) ''2'' 7 ''b1'' ''1'' 200 = None"
  "ra_status (fst (updateAssignment (\<lambda>_. False) provisionedStore
     (provisioningAssignment\<lparr>ta_assignmentRevision := ''2'', ta_state := AsgBound,
        ta_nativeTimerBindingId := ''b1'', ta_updatedAt := 200\<rparr>) ''2'')) = AsgRepoOk"
  by code_simp+

lemma sample_bound: "fr_status (fst sampleBound) = FulBound"
proof -
  have off: "noStoreErrors (SvcBinding 1 BindSelectId) = False" by (simp add: noStoreErrors_def)
  have valid: "validCommon ''a1'' ''2'' ''1'' 7 200" by code_simp
  have keys: "ta_intentRevision (provisioningAssignment\<lparr>ta_assignmentRevision := ''2''\<rparr>) = ''1''"
    "ta_backendGeneration (provisioningAssignment\<lparr>ta_assignmentRevision := ''2''\<rparr>) = 7" by code_simp+
  show ?thesis
    using bound_steps valid keys off
    by (simp add: sampleBound_def bindVerified_def Let_def noStoreErrors_call assignmentResult_def
        bindingResult_def fulfillmentResult_def split_beta del: One_nat_def)
qed

section \<open>Property\<close>

text \<open>C11: A fulfilment step is written on the assignment it compared. Other callers may do anything
  before the step reads (\<open>d0\<close>), before its second call (\<open>d1\<close>) and before the third (\<open>d2\<close>). When
  provisioning starts, the store that its write finds, \<open>d1\<close>, holds column for column the assignment that
  was read in \<open>d0\<close> and compared with the quoted intent revision, assignment revision and generation; the
  write replaces exactly that row of \<open>d1\<close>, changing only state, time and the revision to the next. A native
  timer is bound likewise: the assignment read in \<open>d0\<close> is the one in \<open>d2\<close>, whose row the write replaces,
  changing its native timer as well, and the binding is the one \<open>d1\<close> has under the quoted revision:
  managed, for this assignment and generation, verified by an operation, neither missing nor drifted.\<close>

theorem fulfilment_writes_what_it_compared:
  assumes "timerDbSound db" and "interference between"
    and "d0 = between 0 db" and "d1 = between 1 d0" and "d2 = between 2 d1"
  shows "(beginProvisioning failing between db i tok irev gen at = (res, db')
       \<and> fr_status res = FulProvisioningStarted \<longrightarrow>
       (\<exists>v current. timerCalls db d1 \<and> tok = decimal v \<and> v < int64_max
          \<and> findAssignmentById noAssignmentErrors d0 i = assignmentResult AsgRepoOk current
          \<and> assignmentReplaced (db_committed d1) current (storedAssignment (fr_assignment res))
              (db_committed db')
          \<and> findAssignmentById noAssignmentErrors d1 i = assignmentResult AsgRepoOk current
          \<and> ta_assignmentRevision current = tok \<and> ta_intentRevision current = irev
          \<and> ta_backendGeneration current = gen \<and> ta_state current = AsgSelected
          \<and> fr_assignment res = current\<lparr>ta_state := AsgProvisioning, ta_updatedAt := at,
              ta_assignmentRevision := decimal (v + 1)\<rparr>
          \<and> findAssignmentById noAssignmentErrors db' i
              = assignmentResult AsgRepoOk (storedAssignment (fr_assignment res))))
     \<and> (bindVerified failing between db i tok irev gen b brev at = (res, db')
       \<and> fr_status res = FulBound \<longrightarrow>
       (\<exists>v current binding. timerCalls db d1 \<and> timerCalls d1 d2 \<and> tok = decimal v \<and> v < int64_max
          \<and> findAssignmentById noAssignmentErrors d0 i = assignmentResult AsgRepoOk current
          \<and> assignmentReplaced (db_committed d2) current (storedAssignment (fr_assignment res))
              (db_committed db')
          \<and> findBindingById False d1 b = bindingResult BindOk binding
          \<and> nb_bindingRevision binding = brev \<and> bindingVerifiedForAssignment binding current
          \<and> findAssignmentById noAssignmentErrors d2 i = assignmentResult AsgRepoOk current
          \<and> ta_assignmentRevision current = tok \<and> ta_intentRevision current = irev
          \<and> ta_backendGeneration current = gen
          \<and> (ta_state current = AsgProvisioning \<or> ta_state current = AsgReconciling)
          \<and> fr_assignment res = current\<lparr>ta_state := AsgBound, ta_nativeTimerBindingId := b,
              ta_updatedAt := at, ta_assignmentRevision := decimal (v + 1)\<rparr>
          \<and> findAssignmentById noAssignmentErrors db' i
              = assignmentResult AsgRepoOk (storedAssignment (fr_assignment res))))"
proof (rule conjI; rule impI; elim conjE)
  assume "beginProvisioning failing between db i tok irev gen at = (res, db')"
    "fr_status res = FulProvisioningStarted"
  then show "\<exists>v current. timerCalls db d1 \<and> tok = decimal v \<and> v < int64_max
          \<and> findAssignmentById noAssignmentErrors d0 i = assignmentResult AsgRepoOk current
          \<and> assignmentReplaced (db_committed d1) current (storedAssignment (fr_assignment res))
              (db_committed db')
          \<and> findAssignmentById noAssignmentErrors d1 i = assignmentResult AsgRepoOk current
          \<and> ta_assignmentRevision current = tok \<and> ta_intentRevision current = irev
          \<and> ta_backendGeneration current = gen \<and> ta_state current = AsgSelected
          \<and> fr_assignment res = current\<lparr>ta_state := AsgProvisioning, ta_updatedAt := at,
              ta_assignmentRevision := decimal (v + 1)\<rparr>
          \<and> findAssignmentById noAssignmentErrors db' i
              = assignmentResult AsgRepoOk (storedAssignment (fr_assignment res))"
    by (rule provisioning_effect [OF assms(1,2) _ _ assms(3,4)])
next
  assume "bindVerified failing between db i tok irev gen b brev at = (res, db')" "fr_status res = FulBound"
  from binding_effect [OF assms(1,2) this assms(3-5)]
  show "\<exists>v current binding. timerCalls db d1 \<and> timerCalls d1 d2 \<and> tok = decimal v \<and> v < int64_max
          \<and> findAssignmentById noAssignmentErrors d0 i = assignmentResult AsgRepoOk current
          \<and> assignmentReplaced (db_committed d2) current (storedAssignment (fr_assignment res))
              (db_committed db')
          \<and> findBindingById False d1 b = bindingResult BindOk binding
          \<and> nb_bindingRevision binding = brev \<and> bindingVerifiedForAssignment binding current
          \<and> findAssignmentById noAssignmentErrors d2 i = assignmentResult AsgRepoOk current
          \<and> ta_assignmentRevision current = tok \<and> ta_intentRevision current = irev
          \<and> ta_backendGeneration current = gen
          \<and> (ta_state current = AsgProvisioning \<or> ta_state current = AsgReconciling)
          \<and> fr_assignment res = current\<lparr>ta_state := AsgBound, ta_nativeTimerBindingId := b,
              ta_updatedAt := at, ta_assignmentRevision := decimal (v + 1)\<rparr>
          \<and> findAssignmentById noAssignmentErrors db' i
              = assignmentResult AsgRepoOk (storedAssignment (fr_assignment res))" .
qed

theorem fulfilment_writes_what_it_compared_witness:
  "\<exists>a. findAssignmentById noAssignmentErrors (snd sampleBound) ''a1'' = assignmentResult AsgRepoOk a
     \<and> ta_state a = AsgBound \<and> ta_nativeTimerBindingId a = ''b1''"
proof -
  have "bindVerified noStoreErrors quiet provisionedStore ''a1'' ''2'' ''1'' 7 ''b1'' ''1'' 200
      = (fst sampleBound, snd sampleBound)" by (simp add: sampleBound_def)
  with fulfilment_writes_what_it_compared [OF provisionedStore_sound quiet_interference refl refl refl, of noStoreErrors
      "''a1''" "''2''" "''1''" 7 200 "fst sampleBound" "snd sampleBound" "''b1''" "''1''"] sample_bound
  show ?thesis by auto
qed

end
