(* ===== verification/TimerAssignmentReassignmentService.thy ===== *)
theory TimerAssignmentReassignmentService
  imports TimerAssignmentSchedulingService
begin

text \<open>
  \<open>core/timers/src/TimerAssignmentReassignmentService.cpp\<close>: an owner is replaced by another
  backend once its own native timer can no longer record, either because nothing was dispatched
  for it or because a succeeded deletion left its timer verified absent. The service compares what
  the caller quotes with what the repositories answer, plans the replacement on the active
  assignments and hands the controlled replacement to the repository, which checks the same
  expectations again inside its own statement.
\<close>

section \<open>Requests and results\<close>

datatype timer_assignment_reassignment_status =
  RsgPersisted | RsgAlreadyPersisted | RsgInvalidRequest | RsgReplacementIdConflict
| RsgIntentNotFound | RsgIntentRevisionConflict | RsgAssignmentNotFound
| RsgAssignmentRevisionConflict | RsgAssignmentEpochConflict | RsgAssignmentStateConflict
| RsgBackendConflict | RsgGenerationConflict | RsgAssignmentSetConflict | RsgNativeOutcomeUnsafe
| RsgBindingNotFound | RsgBindingConflict | RsgOperationNotFound | RsgOperationConflict
| RsgPlanningInvalid | RsgNoEligibleBackend | RsgOwnershipConflict | RsgRepositoryError

record timer_assignment_reassignment_request =
  rs_replacementTimerAssignmentId :: string
  rs_oldTimerAssignmentId :: string
  rs_expectedOldAssignmentRevision :: string
  rs_expectedOldAssignmentEpoch :: uint64
  rs_expectedIntentRevision :: string
  rs_expectedOldBackendId :: string
  rs_expectedOldBackendGeneration :: uint64
  rs_oldNativeOutcome :: timer_assignment_reassignment_native_outcome
  rs_oldOperationId :: string
  rs_expectedOldOperationRevision :: string
  rs_oldNativeTimerBindingId :: string
  rs_expectedOldBindingRevision :: string
  rs_reason :: string
  rs_createdAt :: int
  rs_candidates :: "planning_backend_candidate list"

text \<open>\<open>None\<close> stands for the default assignments and evidence of a result.\<close>

record timer_assignment_reassignment_result =
  rx_status :: timer_assignment_reassignment_status
  rx_decision :: planning_decision
  rx_found :: "(timer_assignment \<times> timer_assignment \<times> timer_assignment_reassignment_evidence) option"

definition reassignmentOk :: "timer_assignment_reassignment_result \<Rightarrow> bool" where
  "reassignmentOk r \<longleftrightarrow> rx_status r = RsgPersisted \<or> rx_status r = RsgAlreadyPersisted"

definition reassignmentResult ::
  "timer_assignment_reassignment_status \<Rightarrow> timer_assignment_reassignment_result" where
  "reassignmentResult status =
     \<lparr>rx_status = status, rx_decision = emptyPlanningDecision, rx_found = None\<rparr>"

definition validReassignmentRequest :: "timer_assignment_reassignment_request \<Rightarrow> bool" where
  "validReassignmentRequest q \<longleftrightarrow>
     (if \<not> safeTimerIdentity (rs_replacementTimerAssignmentId q)
        \<or> \<not> safeTimerIdentity (rs_oldTimerAssignmentId q)
        \<or> \<not> safeTimerIdentity (rs_expectedOldAssignmentRevision q)
        \<or> rs_expectedOldAssignmentEpoch q = 0
        \<or> \<not> safeTimerIdentity (rs_expectedIntentRevision q)
        \<or> \<not> safeTimerIdentity (rs_expectedOldBackendId q)
        \<or> rs_expectedOldBackendGeneration q = 0
        \<or> rs_reason q = [] \<or> length (rs_reason q) > kMaxReasonLength
        \<or> rs_createdAt q \<le> 0 then False
      else case rs_oldNativeOutcome q of
          OutcomeBeforeDispatch \<Rightarrow>
            rs_oldOperationId q = [] \<and> rs_expectedOldOperationRevision q = []
            \<and> rs_oldNativeTimerBindingId q = [] \<and> rs_expectedOldBindingRevision q = []
        | OutcomeVerifiedAbsent \<Rightarrow>
            safeTimerIdentity (rs_oldOperationId q)
            \<and> safeTimerIdentity (rs_expectedOldOperationRevision q)
            \<and> safeTimerIdentity (rs_oldNativeTimerBindingId q)
            \<and> safeTimerIdentity (rs_expectedOldBindingRevision q))"

definition replayMatches ::
  "timer_assignment \<times> timer_assignment \<times> timer_assignment_reassignment_evidence
     \<Rightarrow> timer_assignment_reassignment_request \<Rightarrow> bool" where
  "replayMatches existing q =
     (case existing of (oldAssignment, replacementAssignment, evidence) \<Rightarrow>
        ta_timerIntentId replacementAssignment = ta_timerIntentId oldAssignment
        \<and> ta_intentRevision replacementAssignment = rs_expectedIntentRevision q
        \<and> ta_createdAt replacementAssignment = rs_createdAt q
        \<and> ev_replacementTimerAssignmentId evidence = rs_replacementTimerAssignmentId q
        \<and> ev_oldTimerAssignmentId evidence = rs_oldTimerAssignmentId q
        \<and> ev_oldAssignmentRevision evidence = rs_expectedOldAssignmentRevision q
        \<and> ev_oldAssignmentEpoch evidence = rs_expectedOldAssignmentEpoch q
        \<and> ev_oldBackendId evidence = rs_expectedOldBackendId q
        \<and> ev_oldBackendGeneration evidence = rs_expectedOldBackendGeneration q
        \<and> ev_oldNativeOutcome evidence = rs_oldNativeOutcome q
        \<and> ev_oldOperationId evidence = rs_oldOperationId q
        \<and> ev_oldOperationRevision evidence = rs_expectedOldOperationRevision q
        \<and> ev_oldNativeTimerBindingId evidence = rs_oldNativeTimerBindingId q
        \<and> ev_oldBindingRevision evidence = rs_expectedOldBindingRevision q
        \<and> ev_reason evidence = rs_reason q)"

definition replacementFromDecision ::
  "timer_assignment_reassignment_request \<Rightarrow> planning_decision \<Rightarrow> timer_assignment" where
  "replacementFromDecision q decision =
     emptyTimerAssignment
       \<lparr>ta_timerAssignmentId := rs_replacementTimerAssignmentId q,
        ta_timerIntentId := pd_timerIntentId decision,
        ta_intentRevision := pd_intentRevision decision,
        ta_backendId := pd_selectedBackendId decision,
        ta_backendGeneration := pd_selectedBackendGeneration decision,
        ta_state := AsgSelected, ta_role := RoleReplacement,
        ta_channelBinding := pd_selectedChannelBinding decision,
        ta_capabilityRevision := pd_selectedCapabilityRevision decision,
        ta_backendHealthRevision := pd_selectedBackendHealthRevision decision,
        ta_desiredNativeTimerSpecificationPresent :=
          pd_selectedNativeTimerSpecificationPresent decision,
        ta_desiredNativeTimerSpecification := pd_selectedNativeTimerSpecification decision,
        ta_decisionPolicyVersion := pd_decisionPolicyVersion decision,
        ta_decisionEvidence := pd_decisionEvidence decision,
        ta_createdAt := rs_createdAt q, ta_updatedAt := rs_createdAt q\<rparr>"

definition evidenceFor ::
  "timer_assignment_reassignment_request \<Rightarrow> timer_assignment
     \<Rightarrow> timer_assignment_reassignment_evidence" where
  "evidenceFor q replacement =
     \<lparr>ev_oldTimerAssignmentId = rs_oldTimerAssignmentId q,
      ev_oldAssignmentRevision = rs_expectedOldAssignmentRevision q,
      ev_oldAssignmentEpoch = rs_expectedOldAssignmentEpoch q,
      ev_oldBackendId = rs_expectedOldBackendId q,
      ev_oldBackendGeneration = rs_expectedOldBackendGeneration q,
      ev_oldNativeOutcome = rs_oldNativeOutcome q,
      ev_oldOperationId = rs_oldOperationId q,
      ev_oldOperationRevision = rs_expectedOldOperationRevision q,
      ev_oldNativeTimerBindingId = rs_oldNativeTimerBindingId q,
      ev_oldBindingRevision = rs_expectedOldBindingRevision q,
      ev_reason = rs_reason q,
      ev_replacementTimerAssignmentId = rs_replacementTimerAssignmentId q,
      ev_newBackendId = ta_backendId replacement,
      ev_newBackendGeneration = ta_backendGeneration replacement,
      ev_newAssignmentEpoch = 0,
      ev_createdAt = rs_createdAt q\<rparr>"

section \<open>Guards\<close>

text \<open>The old assignment against the request; \<open>None\<close> when it may be replaced so far.\<close>

definition oldAssignmentCheck ::
  "timer_assignment \<Rightarrow> timer_intent \<Rightarrow> timer_assignment_reassignment_request
     \<Rightarrow> timer_assignment_reassignment_status option" where
  "oldAssignmentCheck old intent q =
     (if ti_intentRevision intent \<noteq> rs_expectedIntentRevision q
        \<or> ta_intentRevision old \<noteq> rs_expectedIntentRevision q then Some RsgIntentRevisionConflict
      else if ta_assignmentRevision old \<noteq> rs_expectedOldAssignmentRevision q
      then Some RsgAssignmentRevisionConflict
      else if ta_assignmentEpoch old \<noteq> rs_expectedOldAssignmentEpoch q
      then Some RsgAssignmentEpochConflict
      else if ta_backendId old \<noteq> rs_expectedOldBackendId q then Some RsgBackendConflict
      else if ta_backendGeneration old \<noteq> rs_expectedOldBackendGeneration q
      then Some RsgGenerationConflict
      else if ta_role old \<noteq> RolePrimary \<and> ta_role old \<noteq> RoleReplacement
      then Some RsgAssignmentStateConflict
      else None)"

definition absentBindingCheck ::
  "timer_assignment \<Rightarrow> native_timer_binding \<Rightarrow> timer_assignment_reassignment_request
     \<Rightarrow> timer_assignment_reassignment_status option" where
  "absentBindingCheck old binding q =
     (if nb_bindingRevision binding \<noteq> rs_expectedOldBindingRevision q
        \<or> nb_timerAssignmentId binding \<noteq> ta_timerAssignmentId old
        \<or> nb_backendId binding \<noteq> ta_backendId old
        \<or> nb_backendGeneration binding \<noteq> ta_backendGeneration old then Some RsgBindingConflict
      else if \<not> managedOwnership (nb_ownership binding)
        \<or> nb_missingSince binding = 0
        \<or> nb_driftState binding \<noteq> DriftExpectedTransition
        \<or> os_recording (nb_observedState binding)
        \<or> nb_lastVerifiedOperationId binding \<noteq> rs_oldOperationId q then Some RsgNativeOutcomeUnsafe
      else None)"

definition deletionCheck ::
  "timer_assignment \<Rightarrow> native_timer_binding \<Rightarrow> mutation_operation
     \<Rightarrow> timer_assignment_reassignment_request \<Rightarrow> timer_assignment_reassignment_status option" where
  "deletionCheck old binding operation q =
     (if mo_operationRevision operation \<noteq> rs_expectedOldOperationRevision q
        \<or> mo_state operation \<noteq> OpSucceeded
        \<or> mo_actionFamily operation \<noteq> ''timer.delete''
        \<or> mo_resourceType operation \<noteq> ''NativeTimerBinding''
        \<or> mo_resourceId operation \<noteq> nb_nativeTimerBindingId binding
        \<or> mo_backendId operation \<noteq> ta_backendId old
        \<or> mo_backendGeneration operation \<noteq> ta_backendGeneration old then Some RsgOperationConflict
      else None)"

text \<open>The proof that the old native timer cannot record: \<open>None\<close> when it is given.\<close>

definition nativeOutcomeCheck ::
  "(store_call \<Rightarrow> bool) \<Rightarrow> (nat \<Rightarrow> timer_tables database \<Rightarrow> timer_tables database)
     \<Rightarrow> timer_tables database \<Rightarrow> timer_assignment \<Rightarrow> timer_assignment_reassignment_request
     \<Rightarrow> timer_assignment_reassignment_status option \<times> timer_tables database" where
  "nativeOutcomeCheck failing between db old q =
     (case rs_oldNativeOutcome q of
        OutcomeBeforeDispatch \<Rightarrow>
          ((if ta_state old \<noteq> AsgSelected \<or> ta_nativeTimerBindingId old \<noteq> []
            then Some RsgNativeOutcomeUnsafe else None), db)
      | OutcomeVerifiedAbsent \<Rightarrow>
          if (ta_state old \<noteq> AsgBound \<and> ta_state old \<noteq> AsgReconciling)
             \<or> ta_nativeTimerBindingId old \<noteq> rs_oldNativeTimerBindingId q
          then (Some RsgNativeOutcomeUnsafe, db)
          else let db3 = between 3 db;
                   found = findBindingById (failing (SvcBinding 3 BindSelectId)) db3
                     (rs_oldNativeTimerBindingId q)
          in case (nr_status found, nr_binding found) of
              (BindNotFound, _) \<Rightarrow> (Some RsgBindingNotFound, db3)
            | (BindOk, Some binding) \<Rightarrow>
                (case absentBindingCheck old binding q of
                   Some status \<Rightarrow> (Some status, db3)
                 | None \<Rightarrow>
                     let db4 = between 4 db3;
                         operation = findById (\<lambda>c. failing (SvcOperation 4 c)) (operationView db4)
                           (rs_oldOperationId q)
                     in if rr_status operation = RepoNotFound then (Some RsgOperationNotFound, db4)
                        else if rr_status operation \<noteq> RepoOk then (Some RsgRepositoryError, db4)
                        else (deletionCheck old binding (rr_operation operation) q, db4))
            | _ \<Rightarrow> (Some RsgRepositoryError, db3))"

section \<open>Reassignment\<close>

fun replacementFailure ::
  "timer_assignment_repository_status \<Rightarrow> timer_assignment_reassignment_status" where
  "replacementFailure AsgRepoConflict = RsgAssignmentSetConflict"
| "replacementFailure AsgRepoOwnershipConflict = RsgOwnershipConflict"
| "replacementFailure AsgRepoAlreadyExists = RsgReplacementIdConflict"
| "replacementFailure _ = RsgRepositoryError"

text \<open>Planning and writing, once the old owner may be replaced.\<close>

definition planReplacement ::
  "(store_call \<Rightarrow> bool) \<Rightarrow> (nat \<Rightarrow> timer_tables database \<Rightarrow> timer_tables database)
     \<Rightarrow> timer_tables database \<Rightarrow> timer_assignment \<Rightarrow> timer_intent
     \<Rightarrow> timer_assignment_reassignment_request
     \<Rightarrow> timer_assignment_reassignment_result \<times> timer_tables database" where
  "planReplacement failing between db old intent q =
     (let (setRevision, db5) = assignmentSetRevisionForIntent (\<lambda>c. failing (SvcSet 5 c))
            (between 5 db) (ta_timerIntentId old)
      in if sr_status setRevision \<noteq> AsgRepoOk then (reassignmentResult RsgRepositoryError, db5)
         else let db6 = between 6 db5;
             listed = listForIntent (\<lambda>c. failing (SvcAssignment 6 c)) db6 (ta_timerIntentId old)
         in if rl_status listed \<noteq> AsgRepoOk then (reassignmentResult RsgRepositoryError, db6)
            else let decision = planTimerAssignment
                   \<lparr>rq_intent = intent, rq_role = RoleReplacement,
                    rq_currentAssignments = activeAssignments (rl_assignments listed),
                    rq_candidates = rs_candidates q\<rparr>;
                 value' = (reassignmentResult RsgRepositoryError)\<lparr>rx_decision := decision\<rparr>
            in if pd_outcome decision = PlanInvalid
               then (value'\<lparr>rx_status := RsgPlanningInvalid\<rparr>, db6)
               else if pd_outcome decision \<noteq> PlanSelected
               then (value'\<lparr>rx_status := RsgNoEligibleBackend\<rparr>, db6)
               else let replacement = replacementFromDecision q decision;
                        (persisted, db7) = createControlledReplacement
                          (\<lambda>c. failing (SvcReplacement 7 c)) (between 7 db6) replacement
                          (sr_assignmentSetRevision setRevision) (evidenceFor q replacement)
                    in (if cr_status persisted \<noteq> AsgRepoOk
                        then value'\<lparr>rx_status := replacementFailure (cr_status persisted)\<rparr>
                        else value'\<lparr>rx_status := RsgPersisted, rx_found := cr_found persisted\<rparr>, db7))"

definition reassign ::
  "(store_call \<Rightarrow> bool) \<Rightarrow> (nat \<Rightarrow> timer_tables database \<Rightarrow> timer_tables database)
     \<Rightarrow> timer_tables database \<Rightarrow> timer_assignment_reassignment_request
     \<Rightarrow> timer_assignment_reassignment_result \<times> timer_tables database" where
  "reassign failing between db q =
     (if \<not> validReassignmentRequest q then (reassignmentResult RsgInvalidRequest, db)
      else let db0 = between 0 db;
               replay = findControlledReplacement (\<lambda>c. failing (SvcReplacement 0 c)) db0
                 (rs_replacementTimerAssignmentId q)
      in case (cr_status replay, cr_found replay) of
          (AsgRepoOk, Some existing) \<Rightarrow>
            ((if replayMatches existing q
              then (reassignmentResult RsgAlreadyPersisted)\<lparr>rx_found := Some existing\<rparr>
              else reassignmentResult RsgReplacementIdConflict), db0)
        | (AsgRepoNotFound, _) \<Rightarrow>
            (let db1 = between 1 db0;
                 oldFound = findAssignmentById (\<lambda>c. failing (SvcAssignment 1 c)) db1
                   (rs_oldTimerAssignmentId q);
                 old = ra_assignment oldFound
             in if ra_status oldFound = AsgRepoNotFound
                then (reassignmentResult RsgAssignmentNotFound, db1)
                else if ra_status oldFound \<noteq> AsgRepoOk
                then (reassignmentResult RsgRepositoryError, db1)
                else let db2 = between 2 db1;
                    intentFound = findIntentById (\<lambda>c. failing (SvcIntent 2 c)) (intentView db2)
                      (ta_timerIntentId old)
                in case (ni_status intentFound, ni_intent intentFound) of
                    (IntentNotFound, _) \<Rightarrow> (reassignmentResult RsgIntentNotFound, db2)
                  | (IntentOk, Some intent) \<Rightarrow>
                      (case oldAssignmentCheck old intent q of
                         Some status \<Rightarrow> (reassignmentResult status, db2)
                       | None \<Rightarrow>
                           (case nativeOutcomeCheck failing between db2 old q of
                              (Some status, db') \<Rightarrow> (reassignmentResult status, db')
                            | (None, db') \<Rightarrow> planReplacement failing between db' old intent q))
                  | _ \<Rightarrow> (reassignmentResult RsgRepositoryError, db2))
        | _ \<Rightarrow> (reassignmentResult RsgRepositoryError, db0))"

fun timerAssignmentReassignmentStatusName :: "timer_assignment_reassignment_status \<Rightarrow> string" where
  "timerAssignmentReassignmentStatusName RsgPersisted = ''persisted''"
| "timerAssignmentReassignmentStatusName RsgAlreadyPersisted = ''already_persisted''"
| "timerAssignmentReassignmentStatusName RsgInvalidRequest = ''invalid_request''"
| "timerAssignmentReassignmentStatusName RsgReplacementIdConflict = ''replacement_id_conflict''"
| "timerAssignmentReassignmentStatusName RsgIntentNotFound = ''intent_not_found''"
| "timerAssignmentReassignmentStatusName RsgIntentRevisionConflict = ''intent_revision_conflict''"
| "timerAssignmentReassignmentStatusName RsgAssignmentNotFound = ''assignment_not_found''"
| "timerAssignmentReassignmentStatusName RsgAssignmentRevisionConflict = ''assignment_revision_conflict''"
| "timerAssignmentReassignmentStatusName RsgAssignmentEpochConflict = ''assignment_epoch_conflict''"
| "timerAssignmentReassignmentStatusName RsgAssignmentStateConflict = ''assignment_state_conflict''"
| "timerAssignmentReassignmentStatusName RsgBackendConflict = ''backend_conflict''"
| "timerAssignmentReassignmentStatusName RsgGenerationConflict = ''generation_conflict''"
| "timerAssignmentReassignmentStatusName RsgAssignmentSetConflict = ''assignment_set_conflict''"
| "timerAssignmentReassignmentStatusName RsgNativeOutcomeUnsafe = ''native_outcome_unsafe''"
| "timerAssignmentReassignmentStatusName RsgBindingNotFound = ''binding_not_found''"
| "timerAssignmentReassignmentStatusName RsgBindingConflict = ''binding_conflict''"
| "timerAssignmentReassignmentStatusName RsgOperationNotFound = ''operation_not_found''"
| "timerAssignmentReassignmentStatusName RsgOperationConflict = ''operation_conflict''"
| "timerAssignmentReassignmentStatusName RsgPlanningInvalid = ''planning_invalid''"
| "timerAssignmentReassignmentStatusName RsgNoEligibleBackend = ''no_eligible_backend''"
| "timerAssignmentReassignmentStatusName RsgOwnershipConflict = ''ownership_conflict''"
| "timerAssignmentReassignmentStatusName RsgRepositoryError = ''repository_error''"

end
