(* ===== verification/ReassignmentProperties.thy ===== *)
theory ReassignmentProperties
  imports TimerAssignmentReassignmentService SchedulingProperties
begin

text \<open>
  What callers of the reassignment service may rely on while other callers use the same store: a
  persisted reassignment was planned on exactly the owners the intent had when it was written, and
  it closed the quoted owner in the same statement that stored its replacement.
\<close>

section \<open>The guards\<close>

lemma oldAssignmentCheck_not_persisted [simp]: "oldAssignmentCheck old intent q \<noteq> Some RsgPersisted"
  by (simp add: oldAssignmentCheck_def)

lemma nativeOutcomeCheck_not_persisted:
  "nativeOutcomeCheck failing between db old q = (Some s, db') \<Longrightarrow> s \<noteq> RsgPersisted"
  by (auto simp: nativeOutcomeCheck_def Let_def absentBindingCheck_def deletionCheck_def
      split: if_splits option.splits timer_assignment_reassignment_native_outcome.splits
        native_timer_binding_repository_status.splits)

lemma nativeOutcomeCheck_calls:
  assumes "interference between" "nativeOutcomeCheck failing between db old q = (s, db')"
  shows "timerCalls db db'"
proof -
  have c: "timerCalls db (between 3 db)" "timerCalls db (between 4 (between 3 db))"
    by (intro interference_trans [OF assms(1)] rtranclp.rtrancl_refl)+
  have "db' = db \<or> db' = between 3 db \<or> db' = between 4 (between 3 db)"
    using assms(2)
    by (auto simp: nativeOutcomeCheck_def Let_def
      split: if_splits option.splits timer_assignment_reassignment_native_outcome.splits
        native_timer_binding_repository_status.splits)
  then show ?thesis using c by auto
qed

lemma replacementFailure_not_persisted [simp]: "replacementFailure s \<noteq> RsgPersisted"
  by (cases s) simp_all

lemma reassignmentResult_status [simp]: "rx_status (reassignmentResult s) = s"
  by (simp add: reassignmentResult_def)

section \<open>What a persisted reassignment did\<close>

lemma planReplacement_persisted:
  assumes "planReplacement failing between db old intent q = (res, db')" "rx_status res = RsgPersisted"
  obtains f g token db5 persisted where
    "assignmentSetRevisionForIntent f (between 5 db) (ta_timerIntentId old) = (token, db5)"
    "sr_status token = AsgRepoOk"
    "rx_decision res = planTimerAssignment \<lparr>rq_intent = intent, rq_role = RoleReplacement,
       rq_currentAssignments = activeAssignments (assignmentsOfIntent (ta_timerIntentId old)
         (tt_assignments (visibleTables (between 6 db5)))), rq_candidates = rs_candidates q\<rparr>"
    "pd_outcome (rx_decision res) = PlanSelected"
    "createControlledReplacement g (between 7 (between 6 db5)) (replacementFromDecision q (rx_decision res))
       (sr_assignmentSetRevision token) (evidenceFor q (replacementFromDecision q (rx_decision res)))
       = (persisted, db')"
    "cr_status persisted = AsgRepoOk" "rx_found res = cr_found persisted"
proof -
  obtain token db5 where tok: "assignmentSetRevisionForIntent (\<lambda>c. failing (SvcSet 5 c)) (between 5 db)
      (ta_timerIntentId old) = (token, db5)" by fastforce
  let ?listed = "listForIntent (\<lambda>c. failing (SvcAssignment 6 c)) (between 6 db5) (ta_timerIntentId old)"
  note def = planReplacement_def Let_def
  have ok: "sr_status token = AsgRepoOk" "rl_status ?listed = AsgRepoOk"
    using assms tok by (auto simp: def split: if_splits)
  define decision where "decision = planTimerAssignment \<lparr>rq_intent = intent, rq_role = RoleReplacement,
       rq_currentAssignments = activeAssignments (rl_assignments ?listed), rq_candidates = rs_candidates q\<rparr>"
  define a where "a = replacementFromDecision q decision"
  obtain persisted db7 where c: "createControlledReplacement (\<lambda>c. failing (SvcReplacement 7 c))
      (between 7 (between 6 db5)) a (sr_assignmentSetRevision token) (evidenceFor q a) = (persisted, db7)"
    by fastforce
  have sel: "pd_outcome decision = PlanSelected"
    using assms tok ok by (auto simp: def decision_def [symmetric] split: if_splits)
  have "res = (reassignmentResult RsgRepositoryError)\<lparr>rx_decision := decision,
      rx_status := if cr_status persisted \<noteq> AsgRepoOk then replacementFailure (cr_status persisted) else RsgPersisted,
      rx_found := if cr_status persisted \<noteq> AsgRepoOk then None else cr_found persisted\<rparr> \<and> db' = db7"
    using assms(1) tok ok sel c [unfolded a_def]
    by (auto simp: def decision_def [symmetric] reassignmentResult_def split: if_splits)
  then have r: "db' = db7" "cr_status persisted = AsgRepoOk" "rx_decision res = decision"
      "rx_found res = cr_found persisted"
    using assms(2) by (auto split: if_splits)
  show thesis
    using that [OF tok ok(1) _ _ c [unfolded a_def r(1) [symmetric] r(3) [symmetric]] r(2,4)] sel r(3)
      listForIntent_Ok(1) [OF ok(2)]
    by (simp add: decision_def)
qed

lemma reassign_persisted:
  assumes inter: "interference between" and "reassign failing between db q = (res, db')" "rx_status res = RsgPersisted"
  obtains d old intent where "timerCalls db d"
    "ti_timerIntentId intent = ta_timerIntentId old" "oldAssignmentCheck old intent q = None"
    "planReplacement failing between d old intent q = (res, db')"
proof -
  let ?d1 = "between 1 (between 0 db)" and ?d2 = "between 2 (between 1 (between 0 db))"
  let ?replay = "findControlledReplacement (\<lambda>c. failing (SvcReplacement 0 c)) (between 0 db)
      (rs_replacementTimerAssignmentId q)"
  let ?old = "findAssignmentById (\<lambda>c. failing (SvcAssignment 1 c)) ?d1 (rs_oldTimerAssignmentId q)"
  let ?found = "findIntentById (\<lambda>c. failing (SvcIntent 2 c)) (intentView ?d2) (ta_timerIntentId (ra_assignment ?old))"
  note def = reassign_def Let_def
  have valid: "validReassignmentRequest q" using assms(2,3) by (auto simp: def split: if_splits)
  have fresh: "cr_status ?replay = AsgRepoNotFound"
    using assms(2,3) valid
    by (auto simp: def split: if_splits timer_assignment_repository_status.splits option.splits)
  have old: "ra_status ?old = AsgRepoOk"
    using assms(2,3) valid fresh by (auto simp: def split: if_splits)
  have ok: "ni_status ?found = IntentOk"
    using assms(2,3) valid fresh old
    by (cases "ni_status ?found") (auto simp: def split: option.splits)
  obtain intent where intent: "ni_intent ?found = Some intent"
    "ti_timerIntentId intent = ta_timerIntentId (ra_assignment ?old)"
    by (rule findIntentById_found [OF ok])
  have chk: "oldAssignmentCheck (ra_assignment ?old) intent q = None"
    using assms(2,3) valid fresh old ok intent(1) by (auto simp: def split: option.splits)
  obtain s d where n: "nativeOutcomeCheck failing between ?d2 (ra_assignment ?old) q = (s, d)" by fastforce
  have "s = None"
    using assms(2,3) valid fresh old ok intent(1) chk n nativeOutcomeCheck_not_persisted
    by (cases s) (auto simp: def)
  then have "planReplacement failing between d (ra_assignment ?old) intent q = (res, db')"
    using assms(2) valid fresh old ok intent(1) chk n by (simp add: def)
  moreover have "timerCalls db ?d2" by (intro interference_trans [OF inter] rtranclp.rtrancl_refl)
  then have "timerCalls db d" using nativeOutcomeCheck_calls [OF inter n] by (rule rtranclp_trans)
  ultimately show thesis using that intent(2) chk by blast
qed

lemma createControlledReplacement_read:
  assumes "createControlledReplacement f db a tok e = (res, db')" "cr_status res = AsgRepoOk"
  obtains g cur db1 where "assignmentSetRevisionForIntent g db (ta_timerIntentId a) = (cur, db1)"
    "sr_status cur = AsgRepoOk" "sr_assignmentSetRevision cur = tok"
  using assms
  by (auto simp: createControlledReplacement_def replacementStatusResult_def split: if_splits prod.splits)

lemma reassign_effect:
  assumes "timerDbSound db" and inter: "interference between"
    and "reassign failing between db q = (res, db')" "rx_status res = RsgPersisted"
  obtains intent d f tok persisted where "timerCalls db d" "timerDbSound d"
    "ti_intentRevision intent = rs_expectedIntentRevision q"
    "rx_decision res = planTimerAssignment \<lparr>rq_intent = intent, rq_role = RoleReplacement,
       rq_currentAssignments = activeAssignments (assignmentsOfIntent (ti_timerIntentId intent)
         (tt_assignments (db_committed d))), rq_candidates = rs_candidates q\<rparr>"
    "pd_outcome (rx_decision res) = PlanSelected"
    "createControlledReplacement f d (replacementFromDecision q (rx_decision res)) tok
       (evidenceFor q (replacementFromDecision q (rx_decision res))) = (persisted, db')"
    "cr_status persisted = AsgRepoOk" "rx_found res = cr_found persisted"
proof -
  obtain b old intent where b: "timerCalls db b" "ti_timerIntentId intent = ta_timerIntentId old"
    "oldAssignmentCheck old intent q = None" "planReplacement failing between b old intent q = (res, db')"
    by (rule reassign_persisted [OF inter assms(3,4)])
  obtain f g token db5 persisted where p:
    "assignmentSetRevisionForIntent f (between 5 b) (ta_timerIntentId old) = (token, db5)"
    "sr_status token = AsgRepoOk"
    "rx_decision res = planTimerAssignment \<lparr>rq_intent = intent, rq_role = RoleReplacement,
       rq_currentAssignments = activeAssignments (assignmentsOfIntent (ta_timerIntentId old)
         (tt_assignments (visibleTables (between 6 db5)))), rq_candidates = rs_candidates q\<rparr>"
    "pd_outcome (rx_decision res) = PlanSelected"
    "createControlledReplacement g (between 7 (between 6 db5)) (replacementFromDecision q (rx_decision res))
       (sr_assignmentSetRevision token) (evidenceFor q (replacementFromDecision q (rx_decision res)))
       = (persisted, db')"
    "cr_status persisted = AsgRepoOk" "rx_found res = cr_found persisted"
    by (rule planReplacement_persisted [OF b(4) assms(4)])
  let ?c = "between 5 b" and ?m = "between 6 db5" and ?d = "between 7 (between 6 db5)"
  let ?i = "ta_timerIntentId old"
  have i: "ta_timerIntentId (replacementFromDecision q (rx_decision res)) = ?i"
    using p(3) b(2) by (simp add: replacementFromDecision_def)
  have c1: "timerCalls db ?c" using b(1) by (rule interference_trans [OF inter])
  have s1: "timerDbSound ?c" using timerCalls_sound [OF c1 assms(1)] ..
  have c2: "timerCalls db5 ?m" "timerCalls ?m ?d" by (rule interference_calls [OF inter])+
  have "timerCall ?c db5" using p(1) callSetRevision [of ?c f ?i] by simp
  with c1 c2 have c: "timerCalls db ?d" by (meson rtranclp.rtrancl_into_rtrancl rtranclp_trans)
  have sd: "timerDbSound ?d" using timerCalls_sound [OF c assms(1)] ..
  obtain h cur dc where cur: "assignmentSetRevisionForIntent h ?d ?i = (cur, dc)" "sr_status cur = AsgRepoOk"
    "sr_assignmentSetRevision cur = sr_assignmentSetRevision token"
    by (rule createControlledReplacement_read [OF p(5,6), unfolded i])
  obtain t where t: "countsChanges (visibleTables ?d) t"
    "sr_assignmentSetRevision cur = to_string (setRevisionOf t ?i)"
    by (rule assignmentSetRevision_Ok [OF cur(1,2) sd])
  have vis: "visibleTables ?d = db_committed ?d" "visibleTables ?m = db_committed ?m"
    by (rule visible_begun [OF interference_idle [OF inter]])+
  note same = set_revision_unchanged [OF s1 interference_idle [OF inter] p(1,2) c2 t(1) [unfolded vis]
      t(2) [unfolded cur(3)]]
  have "assignmentsOfIntent ?i (tt_assignments (visibleTables ?m)) = assignmentsOfIntent ?i (tt_assignments (db_committed ?d))"
    by (rule assignmentsOfIntent_cong) (simp add: same vis)
  moreover have "ti_intentRevision intent = rs_expectedIntentRevision q"
    using b(3) by (simp add: oldAssignmentCheck_def split: if_splits)
  ultimately show thesis using that c sd p(3-7) b(2) by simp
qed

section \<open>Samples\<close>

definition reassignmentRequest :: timer_assignment_reassignment_request where
  "reassignmentRequest =
     \<lparr>rs_replacementTimerAssignmentId = ''a2'', rs_oldTimerAssignmentId = ''a1'',
      rs_expectedOldAssignmentRevision = ''1'', rs_expectedOldAssignmentEpoch = 1,
      rs_expectedIntentRevision = ''1'', rs_expectedOldBackendId = ''vdr1'',
      rs_expectedOldBackendGeneration = 7, rs_oldNativeOutcome = OutcomeBeforeDispatch,
      rs_oldOperationId = [], rs_expectedOldOperationRevision = [],
      rs_oldNativeTimerBindingId = [], rs_expectedOldBindingRevision = [],
      rs_reason = ''moved'', rs_createdAt = 120, rs_candidates = map zdfCandidate [''b1'']\<rparr>"

definition reassignmentDecision :: planning_decision where
  "reassignmentDecision = planTimerAssignment \<lparr>rq_intent = storedIntent, rq_role = RoleReplacement,
     rq_currentAssignments = [firstOwner], rq_candidates = map zdfCandidate [''b1'']\<rparr>"

definition sampleReassigned :: "timer_assignment_reassignment_result \<times> timer_tables database" where
  "sampleReassigned = reassign noStoreErrors quiet ownedStore reassignmentRequest"

lemma reassignment_steps:
  "validReassignmentRequest reassignmentRequest"
  "findControlledReplacement (\<lambda>_. False) ownedStore ''a2'' = replacementStatusResult AsgRepoNotFound"
  "findAssignmentById (\<lambda>_. False) ownedStore ''a1'' = assignmentResult AsgRepoOk firstOwner"
  "oldAssignmentCheck firstOwner storedIntent reassignmentRequest = None"
  "ta_timerIntentId firstOwner = ''i1''" "ta_state firstOwner = AsgSelected" "ta_nativeTimerBindingId firstOwner = []"
  "pd_outcome reassignmentDecision = PlanSelected"
  by code_simp+

text \<open>The assignment and the evidence of that reassignment.\<close>

definition movedAssignment :: timer_assignment where
  "movedAssignment =
     \<lparr>ta_timerAssignmentId = ''a2'', ta_assignmentRevision = [], ta_timerIntentId = ''i1'',
      ta_intentRevision = ''1'', ta_assignmentEpoch = 0, ta_backendId = ''b1'',
      ta_backendGeneration = 3, ta_state = AsgSelected, ta_role = RoleReplacement,
      ta_channelBinding = \<lparr>cb_canonicalChannelId = ''zdf'', cb_backendChannelId = ''C-1'',
        cb_mappingSource = ''map'', cb_mappingRevision = ''m1''\<rparr>,
      ta_capabilityRevision = ''c1'', ta_backendHealthRevision = ''h1'',
      ta_decisionPolicyVersion = ''timer-assignment-planner/1'',
      ta_decisionEvidence =
        \<lparr>de_reasons = [''selected_eligible_backend'', ''selected_deterministic_backend_id''],
         de_warnings = [''preferred_backends_ineligible''], de_exclusions = [],
         de_conflictFacts = [''b1:confirmed_clear''], de_decisionScore = - 32\<rparr>,
      ta_desiredNativeTimerSpecificationPresent = True,
      ta_desiredNativeTimerSpecification =
        \<lparr>ns_channelId = ''C-1'', ns_title = ''News'', ns_directory = [], ns_day = ''2026-01-01'',
         ns_weekdays = ''-------'', ns_startTime = ''930'', ns_endTime = ''1030'',
         ns_priority = 50, ns_lifetime = 99, ns_enabled = True, ns_vps = False\<rparr>,
      ta_nativeTimerBindingId = [], ta_createdAt = 120, ta_updatedAt = 120\<rparr>"

definition movedEvidence :: timer_assignment_reassignment_evidence where
  "movedEvidence =
     \<lparr>ev_oldTimerAssignmentId = ''a1'', ev_oldAssignmentRevision = ''1'', ev_oldAssignmentEpoch = 1,
      ev_oldBackendId = ''vdr1'', ev_oldBackendGeneration = 7,
      ev_oldNativeOutcome = OutcomeBeforeDispatch, ev_oldOperationId = [],
      ev_oldOperationRevision = [], ev_oldNativeTimerBindingId = [], ev_oldBindingRevision = [],
      ev_reason = ''moved'', ev_replacementTimerAssignmentId = ''a2'', ev_newBackendId = ''b1'',
      ev_newBackendGeneration = 3, ev_newAssignmentEpoch = 0, ev_createdAt = 120\<rparr>"

lemma moved: "replacementFromDecision reassignmentRequest reassignmentDecision = movedAssignment"
  by code_simp

lemma moved_evidence: "evidenceFor reassignmentRequest movedAssignment = movedEvidence"
  by (simp add: evidenceFor_def reassignmentRequest_def movedAssignment_def movedEvidence_def)

text \<open>Its write, one step after the other.\<close>

definition countedStore :: "timer_tables database" where
  "countedStore = snd (assignmentSetRevisionForIntent (\<lambda>_. False) fencedStore ''i1'')"

definition expectingStore :: "timer_tables database" where
  "expectingStore = writeVisible (snd (installExpectation (\<lambda>_. False) (visibleTables countedStore) ''1''
     movedEvidence)) countedStore"

definition movedStore :: "timer_tables database" where
  "movedStore = snd (createAssignment (\<lambda>_. False) expectingStore movedAssignment)"

definition reassignedStore :: "timer_tables database" where
  "reassignedStore = writeVisible (removeExpectation (\<lambda>_. False) 2 (visibleTables movedStore)) movedStore"

lemma written_counted:
  "fst (assignmentSetRevisionForIntent (\<lambda>_. False) fencedStore ''i1'') = setRevisionResult AsgRepoOk ''1''"
  "fst (installExpectation (\<lambda>_. False) (visibleTables countedStore) ''1'' movedEvidence)"
  by code_simp+

lemma written_created:
  "ra_status (fst (createAssignment (\<lambda>_. False) expectingStore movedAssignment)) = AsgRepoOk"
  by code_simp

lemma written_evidence:
  "selectFirst False (\<lambda>row. rr_replacement_assignment_id row = ''a2'') (evidenceOfRow ''a2'')
     (tt_reassignments (visibleTables reassignedStore)) = SelectFound (movedEvidence\<lparr>ev_newAssignmentEpoch := 2\<rparr>)"
  by code_simp

lemma written_closed:
  "ra_status (findAssignmentById (\<lambda>_. False) reassignedStore ''a1'') = AsgRepoOk"
  by code_simp

lemmas written_steps = written_counted written_created written_evidence written_closed

lemma replacement_found: "ra_status (findAssignmentById (\<lambda>_. False) reassignedStore ''a2'') = AsgRepoOk"
proof -
  obtain ok t where i: "installExpectation (\<lambda>_. False) (visibleTables countedStore) ''1'' movedEvidence = (ok, t)"
    by fastforce
  have "timerCall ownedStore fencedStore" "timerCall fencedStore countedStore"
    by (simp_all add: fencedStore_def countedStore_def callSetRevision)
  moreover have "timerCall countedStore expectingStore"
    unfolding expectingStore_def i by (simp add: callElsewhere installExpectation_same [OF i])
  ultimately have "timerCalls ownedStore expectingStore" by (simp add: rtranclp.rtrancl_into_rtrancl)
  then have sound: "timerDbSound expectingStore" using timerCalls_sound ownedStore_sound by blast
  have created: "createAssignment (\<lambda>_. False) expectingStore movedAssignment
      = (fst (createAssignment (\<lambda>_. False) expectingStore movedAssignment), movedStore)"
    by (simp add: movedStore_def prod_eq_iff)
  obtain d where d: "acceptedCreation (db_committed expectingStore) movedAssignment d (db_committed movedStore)"
    "\<not> transactionActive movedStore"
    by (rule createAssignment_ok [OF created written_steps(3) sound])
  obtain row g where r: "d = createdAssignment movedAssignment (ta_assignmentEpoch d)"
    "readAssignment row = Some (storedAssignment d)"
    "tt_assignments (db_committed movedStore) = map g (tt_assignments (db_committed expectingStore)) @ [row]"
    using d(1) unfolding acceptedCreation_def by blast
  have row: "row \<in> set (tt_assignments (db_committed movedStore))" by (simp add: r(3))
  have id: "ta_timerAssignmentId d = ''a2''" by (subst r(1)) (simp add: movedAssignment_def)
  have "timerCall expectingStore movedStore" "timerCall movedStore reassignedStore"
    by (simp_all add: movedStore_def reassignedStore_def callCreate callElsewhere)
  then have "timerCalls expectingStore reassignedStore" by (simp add: rtranclp.rtrancl_into_rtrancl)
  then have s: "timerDbSound reassignedStore" using timerCalls_sound sound by blast
  have c: "tt_assignments (db_committed reassignedStore) = tt_assignments (db_committed movedStore)"
    using d(2) by (simp add: reassignedStore_def writeVisible_committed visible_begun)
  have off: "\<not> transactionActive reassignedStore"
    using d(2) by (simp add: reassignedStore_def writeVisible_def transactionActive_def)
  have n: "(\<lambda>_. False) = noAssignmentErrors" by (simp add: noAssignmentErrors_def fun_eq_iff)
  from stored_is_found [OF s off row [folded c] r(2)] id
  show ?thesis by (simp add: n assignmentResult_def)
qed

lemma reassignment_written:
  "cr_status (fst (createControlledReplacement (\<lambda>_. False) fencedStore movedAssignment ''1'' movedEvidence))
     = AsgRepoOk"
proof -
  have shape: "evidenceShapeValid movedEvidence" "safeTimerIdentity ''a2''" by code_simp+
  have fields: "ta_timerAssignmentId movedAssignment = ''a2''" "ta_backendId movedAssignment = ''b1''"
    "ta_backendGeneration movedAssignment = 3" "ta_createdAt movedAssignment = 120"
    "ta_role movedAssignment = RoleReplacement" "ta_state movedAssignment = AsgSelected"
    "ta_timerIntentId movedAssignment = ''i1''" "ev_replacementTimerAssignmentId movedEvidence = ''a2''"
    "ev_newBackendId movedEvidence = ''b1''" "ev_newBackendGeneration movedEvidence = 3"
    "ev_createdAt movedEvidence = 120"
    by (simp_all add: movedAssignment_def movedEvidence_def)
  have set: "assignmentSetRevisionForIntent (\<lambda>_. False) fencedStore ''i1''
      = (setRevisionResult AsgRepoOk ''1'', countedStore)"
    using written_steps(1) by (simp add: countedStore_def prod_eq_iff)
  obtain t where t: "installExpectation (\<lambda>_. False) (visibleTables countedStore) ''1'' movedEvidence = (True, t)"
    using written_steps(2) by (cases "installExpectation (\<lambda>_. False) (visibleTables countedStore) ''1'' movedEvidence") simp
  have e: "expectingStore = writeVisible t countedStore" by (simp add: expectingStore_def t)
  have found: "cr_status (findControlledReplacement (\<lambda>_. False) reassignedStore ''a2'') = AsgRepoOk"
    using written_steps(4,5) replacement_found shape(2)
    by (simp add: findControlledReplacement_def movedEvidence_def)
  show ?thesis
    using set t written_steps(3) found shape(1) fields
    by (simp add: createControlledReplacement_def Let_def split_beta e [symmetric] movedStore_def [symmetric]
        reassignedStore_def [symmetric] setRevisionResult_def)
qed

lemma sample_reassigned: "rx_status (fst sampleReassigned) = RsgPersisted"
proof -
  have tok: "assignmentSetRevisionForIntent (\<lambda>_. False) ownedStore ''i1'' = (setRevisionResult AsgRepoOk ''1'', fencedStore)"
    using replica_steps(5) by (simp add: prod_eq_iff fencedStore_def)
  have q: "rs_replacementTimerAssignmentId reassignmentRequest = ''a2''" "rs_oldTimerAssignmentId reassignmentRequest = ''a1''"
    "rs_oldNativeOutcome reassignmentRequest = OutcomeBeforeDispatch"
    "rs_candidates reassignmentRequest = map zdfCandidate [''b1'']"
    by (simp_all add: reassignmentRequest_def)
  have dec: "planTimerAssignment \<lparr>rq_intent = storedIntent, rq_role = RoleReplacement,
     rq_currentAssignments = [firstOwner], rq_candidates = map zdfCandidate [''b1'']\<rparr> = reassignmentDecision"
    by (simp add: reassignmentDecision_def)
  have plan: "rx_status (fst (planReplacement noStoreErrors quiet ownedStore firstOwner storedIntent reassignmentRequest))
      = RsgPersisted"
    using replica_steps reassignment_steps reassignment_written tok dec moved moved_evidence
    by (simp add: planReplacement_def Let_def noStoreErrors_call q setRevisionResult_def split_beta del: list.map)
  have native: "nativeOutcomeCheck noStoreErrors quiet ownedStore firstOwner reassignmentRequest = (None, ownedStore)"
    using reassignment_steps(6,7) by (simp add: nativeOutcomeCheck_def q)
  show ?thesis
    using replica_steps(1,4) reassignment_steps(1-5) plan native
    by (simp add: sampleReassigned_def reassign_def Let_def noStoreErrors_call q replacementStatusResult_def
        assignmentResult_def intentResult_def)
qed

section \<open>Property\<close>

text \<open>C10: A persisted reassignment was planned on the owners it changes. Whatever other callers do
  between the steps, the planner selected the new backend from exactly the active assignments the
  intent has in the store that the write finds; that one write closes the quoted owner, stores the
  planned replacement and its evidence, under every condition of a controlled replacement; and what is
  reported is what the store then answers.\<close>

theorem reassignment_planned_and_carried_out:
  assumes "timerDbSound db" and "interference between"
    and "reassign failing between db q = (res, db')" and "rx_status res = RsgPersisted"
  shows "\<exists>intent d. timerCalls db d
     \<and> ti_intentRevision intent = rs_expectedIntentRevision q
     \<and> rx_decision res = planTimerAssignment \<lparr>rq_intent = intent, rq_role = RoleReplacement,
         rq_currentAssignments = activeAssignments (assignmentsOfIntent (ti_timerIntentId intent)
           (tt_assignments (db_committed d))), rq_candidates = rs_candidates q\<rparr>
     \<and> pd_outcome (rx_decision res) = PlanSelected
     \<and> replacementCarriedOut (db_committed d) (replacementFromDecision q (rx_decision res))
         (evidenceFor q (replacementFromDecision q (rx_decision res))) (db_committed db')
     \<and> (\<exists>old new evidence. rx_found res = Some (old, new, evidence)
          \<and> ta_timerAssignmentId new = rs_replacementTimerAssignmentId q
          \<and> findAssignmentById noAssignmentErrors db' (rs_replacementTimerAssignmentId q)
              = assignmentResult AsgRepoOk new)"
proof -
  obtain intent d f tok persisted where e: "timerCalls db d" "timerDbSound d"
    "ti_intentRevision intent = rs_expectedIntentRevision q"
    "rx_decision res = planTimerAssignment \<lparr>rq_intent = intent, rq_role = RoleReplacement,
       rq_currentAssignments = activeAssignments (assignmentsOfIntent (ti_timerIntentId intent)
         (tt_assignments (db_committed d))), rq_candidates = rs_candidates q\<rparr>"
    "pd_outcome (rx_decision res) = PlanSelected"
    "createControlledReplacement f d (replacementFromDecision q (rx_decision res)) tok
       (evidenceFor q (replacementFromDecision q (rx_decision res))) = (persisted, db')"
    "cr_status persisted = AsgRepoOk" "rx_found res = cr_found persisted"
    by (rule reassign_effect [OF assms])
  have "ta_timerAssignmentId (replacementFromDecision q (rx_decision res)) = rs_replacementTimerAssignmentId q"
    by (simp add: replacementFromDecision_def)
  note w = controlled_replacement_effect [OF e(2,6,7), unfolded this]
  then show ?thesis using e(1,3,4,5) unfolding e(8) by blast
qed

theorem reassignment_planned_and_carried_out_witness:
  "\<exists>d. timerCalls ownedStore d \<and> replacementCarriedOut (db_committed d)
     (replacementFromDecision reassignmentRequest (rx_decision (fst sampleReassigned)))
     (evidenceFor reassignmentRequest (replacementFromDecision reassignmentRequest (rx_decision (fst sampleReassigned))))
     (db_committed (snd sampleReassigned))"
proof -
  have "reassign noStoreErrors quiet ownedStore reassignmentRequest = (fst sampleReassigned, snd sampleReassigned)"
    by (simp add: sampleReassigned_def)
  from reassignment_planned_and_carried_out [OF ownedStore_sound quiet_interference this sample_reassigned]
  show ?thesis by blast
qed

end
