(* ===== verification/TimerIntentApplicationService.thy ===== *)
theory TimerIntentApplicationService
  imports TimerAssignmentFulfillmentService
begin

text \<open>
  \<open>core/timers/src/TimerIntentApplicationService.cpp\<close>: one submission stores an intent or finds
  the same one, activates it, finds or schedules its primary assignment and, for the owners that
  ask for it, starts to provision. The calls of the two inner services are numbered after the ones
  of this service: scheduling from 4, provisioning from 9.
\<close>

datatype timer_intent_application_status =
  AppProvisioningStarted | AppAssignmentSelected | AppAlreadyProvisioning | AppAlreadyBound
| AppNoEligibleBackend | AppIntentConflict | AppAssignmentConflict | AppSchedulingConflict
| AppProvisioningConflict | AppRepositoryError | AppInvalid

record timer_intent_application_request =
  aq_intent :: timer_intent
  aq_timerAssignmentId :: string
  aq_candidates :: "planning_backend_candidate list"
  aq_activatedAt :: int
  aq_scheduledAt :: int
  aq_provisioningAt :: int

text \<open>The intent of the result is \<open>None\<close> where the service leaves the default one.\<close>

record timer_intent_application_result =
  ap_status :: timer_intent_application_status
  ap_intent :: "timer_intent option"
  ap_assignment :: timer_assignment

definition applicationOk :: "timer_intent_application_result \<Rightarrow> bool" where
  "applicationOk r \<longleftrightarrow>
     ap_status r = AppAssignmentSelected \<or> ap_status r = AppProvisioningStarted
     \<or> ap_status r = AppAlreadyProvisioning \<or> ap_status r = AppAlreadyBound"

definition applicationResult ::
  "timer_intent_application_status \<Rightarrow> timer_intent option \<Rightarrow> timer_assignment
     \<Rightarrow> timer_intent_application_result" where
  "applicationResult status intent assignment =
     \<lparr>ap_status = status, ap_intent = intent, ap_assignment = assignment\<rparr>"

definition applicationRequestValid :: "timer_intent_application_request \<Rightarrow> bool" where
  "applicationRequestValid request \<longleftrightarrow>
     (let intent = aq_intent request
      in ti_intentRevision intent = []
         \<and> timerIntentValid (intent\<lparr>ti_intentRevision := ''1''\<rparr>)
         \<and> ti_state intent = IntentDraft
         \<and> aq_timerAssignmentId request \<noteq> [] \<and> length (aq_timerAssignmentId request) \<le> 160
         \<and> aq_activatedAt request > ti_updatedAt intent
         \<and> aq_scheduledAt request > aq_activatedAt request
         \<and> aq_provisioningAt request > aq_scheduledAt request)"

definition sameIntentRequest :: "timer_intent \<Rightarrow> timer_intent \<Rightarrow> bool" where
  "sameIntentRequest current requested \<longleftrightarrow>
     ti_timerIntentId current = ti_timerIntentId requested
     \<and> ti_createdByActorId current = ti_createdByActorId requested
     \<and> ti_createdAt current = ti_createdAt requested
     \<and> ti_expiresAt current = ti_expiresAt requested
     \<and> timerIntentSemanticIdentity (ti_spec current) = timerIntentSemanticIdentity (ti_spec requested)"

section \<open>The intent of a submission\<close>

text \<open>The stored intent, created or found; \<open>Inl\<close> is the answer that ends the submission.\<close>

definition submittedIntent ::
  "(store_call \<Rightarrow> bool) \<Rightarrow> (nat \<Rightarrow> timer_tables database \<Rightarrow> timer_tables database)
     \<Rightarrow> timer_tables database \<Rightarrow> timer_intent \<Rightarrow> bool
     \<Rightarrow> (timer_intent_application_result + timer_intent) \<times> timer_tables database" where
  "submittedIntent failing between db requested currentTransaction =
     (let db0 = between 0 db;
          (created, d) = (if currentTransaction then createIntentInCurrentTransaction else createIntent)
            (\<lambda>c. failing (SvcIntent 0 c)) (intentView db0) requested;
          db1 = putIntents db0 d
      in case (ni_status created, ni_intent created) of
          (IntentOk, Some intent) \<Rightarrow> (Inr intent, db1)
        | (IntentAlreadyExists, _) \<Rightarrow>
            (let db2 = between 1 db1;
                 found = findIntentById (\<lambda>c. failing (SvcIntent 1 c)) (intentView db2)
                   (ti_timerIntentId requested)
             in case (ni_status found, ni_intent found) of
                 (IntentOk, Some current) \<Rightarrow>
                   ((if sameIntentRequest current requested then Inr current
                     else Inl (applicationResult AppIntentConflict (Some current) emptyTimerAssignment)),
                    db2)
               | _ \<Rightarrow> (Inl (applicationResult AppRepositoryError None emptyTimerAssignment), db2))
        | (IntentInvalid, _) \<Rightarrow> (Inl (applicationResult AppInvalid None emptyTimerAssignment), db1)
        | _ \<Rightarrow> (Inl (applicationResult AppRepositoryError None emptyTimerAssignment), db1))"

text \<open>The same intent, activated when it is a draft.\<close>

definition activatedIntent ::
  "(store_call \<Rightarrow> bool) \<Rightarrow> (nat \<Rightarrow> timer_tables database \<Rightarrow> timer_tables database)
     \<Rightarrow> timer_tables database \<Rightarrow> timer_intent \<Rightarrow> int \<Rightarrow> bool
     \<Rightarrow> (timer_intent_application_result + timer_intent) \<times> timer_tables database" where
  "activatedIntent failing between db intent activatedAt currentTransaction =
     (if ti_state intent = IntentDraft
      then let db0 = between 2 db;
               active = intent\<lparr>ti_state := IntentActive, ti_updatedAt := activatedAt\<rparr>;
               (activated, d) =
                 (if currentTransaction then updateIntentInCurrentTransaction else updateIntent)
                   (\<lambda>c. failing (SvcIntent 2 c)) (intentView db0) active (ti_intentRevision intent)
           in ((case (ni_status activated, ni_intent activated) of
                  (IntentOk, Some stored) \<Rightarrow> Inr stored
                | (status, found) \<Rightarrow> Inl (applicationResult
                    (if status = IntentConflict then AppIntentConflict else AppRepositoryError)
                    found emptyTimerAssignment)),
               putIntents db0 d)
      else if ti_state intent \<noteq> IntentActive
      then (Inl (applicationResult AppIntentConflict (Some intent) emptyTimerAssignment), db)
      else (Inr intent, db))"

section \<open>Its primary assignment\<close>

fun laterCall :: "nat \<Rightarrow> store_call \<Rightarrow> store_call" where
  "laterCall k (SvcIntent n c) = SvcIntent (n + k) c"
| "laterCall k (SvcAssignment n c) = SvcAssignment (n + k) c"
| "laterCall k (SvcSet n c) = SvcSet (n + k) c"
| "laterCall k (SvcReplacement n c) = SvcReplacement (n + k) c"
| "laterCall k (SvcBinding n c) = SvcBinding (n + k) c"
| "laterCall k (SvcOperation n c) = SvcOperation (n + k) c"

definition submittedAssignment ::
  "(store_call \<Rightarrow> bool) \<Rightarrow> (nat \<Rightarrow> timer_tables database \<Rightarrow> timer_tables database)
     \<Rightarrow> timer_tables database \<Rightarrow> timer_intent_application_request \<Rightarrow> timer_intent \<Rightarrow> bool
     \<Rightarrow> (timer_intent_application_result + timer_assignment) \<times> timer_tables database" where
  "submittedAssignment failing between db request intent currentTransaction =
     (let db0 = between 3 db;
          existing = findAssignmentById (\<lambda>c. failing (SvcAssignment 3 c)) db0
            (aq_timerAssignmentId request)
      in if ra_status existing = AsgRepoOk then (Inr (ra_assignment existing), db0)
         else if ra_status existing = AsgRepoNotFound
         then let (scheduled, db1) =
                (if currentTransaction then schedulePrimaryInCurrentTransaction else schedulePrimary)
                  (\<lambda>c. failing (laterCall 4 c)) (\<lambda>n. between (n + 4)) db0
                  \<lparr>sq_timerAssignmentId = aq_timerAssignmentId request,
                   sq_timerIntentId = ti_timerIntentId intent,
                   sq_expectedIntentRevision = ti_intentRevision intent,
                   sq_createdAt = aq_scheduledAt request, sq_candidates = aq_candidates request\<rparr>
              in ((if sc_status scheduled = SchedActivePrimaryExists
                     \<and> ta_timerAssignmentId (sc_assignment scheduled) \<noteq> aq_timerAssignmentId request
                   then Inl (applicationResult AppAssignmentConflict (Some intent)
                     (sc_assignment scheduled))
                   else if \<not> schedulingOk scheduled
                   then Inl (applicationResult
                     (if sc_status scheduled = SchedStorageError then AppRepositoryError
                      else AppSchedulingConflict) (Some intent) (sc_assignment scheduled))
                   else Inr (sc_assignment scheduled)), db1)
         else (Inl (applicationResult AppRepositoryError (Some intent) emptyTimerAssignment), db0))"

section \<open>The submission\<close>

fun provisioningAnswer ::
  "timer_assignment_fulfillment_status \<Rightarrow> timer_intent_application_status" where
  "provisioningAnswer FulProvisioningStarted = AppProvisioningStarted"
| "provisioningAnswer FulAlreadyProvisioning = AppAlreadyProvisioning"
| "provisioningAnswer FulRepositoryError = AppRepositoryError"
| "provisioningAnswer _ = AppProvisioningConflict"

definition answerForAssignment ::
  "(store_call \<Rightarrow> bool) \<Rightarrow> (nat \<Rightarrow> timer_tables database \<Rightarrow> timer_tables database)
     \<Rightarrow> timer_tables database \<Rightarrow> timer_intent_application_request \<Rightarrow> timer_intent
     \<Rightarrow> timer_assignment \<Rightarrow> bool
     \<Rightarrow> timer_intent_application_result \<times> timer_tables database" where
  "answerForAssignment failing between db request intent assignment provisionImmediately =
     (let answer = (\<lambda>status. applicationResult status (Some intent) assignment)
      in if ta_timerAssignmentId assignment \<noteq> aq_timerAssignmentId request
           \<or> ta_timerIntentId assignment \<noteq> ti_timerIntentId intent
           \<or> ta_intentRevision assignment \<noteq> ti_intentRevision intent
           \<or> ta_role assignment \<noteq> RolePrimary
         then (answer AppAssignmentConflict, db)
         else if ta_state assignment = AsgUnassigned then (answer AppNoEligibleBackend, db)
         else if ta_state assignment = AsgBound then (answer AppAlreadyBound, db)
         else if \<not> provisionImmediately
         then (answer (if ta_state assignment = AsgSelected then AppAssignmentSelected
                       else if ta_state assignment = AsgProvisioning then AppAlreadyProvisioning
                       else AppAssignmentConflict), db)
         else let (provisioned, db') = beginProvisioning (\<lambda>c. failing (laterCall 9 c))
                    (\<lambda>n. between (n + 9)) db (ta_timerAssignmentId assignment)
                    (ta_assignmentRevision assignment) (ti_intentRevision intent)
                    (ta_backendGeneration assignment) (aq_provisioningAt request)
              in (applicationResult (provisioningAnswer (fr_status provisioned)) (Some intent)
                    (fr_assignment provisioned), db'))"

definition submitPrimary ::
  "(store_call \<Rightarrow> bool) \<Rightarrow> (nat \<Rightarrow> timer_tables database \<Rightarrow> timer_tables database)
     \<Rightarrow> timer_tables database \<Rightarrow> timer_intent_application_request \<Rightarrow> bool \<Rightarrow> bool
     \<Rightarrow> timer_intent_application_result \<times> timer_tables database" where
  "submitPrimary failing between db request provisionImmediately currentTransaction =
     (if (currentTransaction \<and> provisionImmediately) \<or> \<not> applicationRequestValid request
      then (applicationResult AppInvalid None emptyTimerAssignment, db)
      else case submittedIntent failing between db (aq_intent request) currentTransaction of
          (Inl answer, db1) \<Rightarrow> (answer, db1)
        | (Inr intent, db1) \<Rightarrow>
      (case activatedIntent failing between db1 intent (aq_activatedAt request) currentTransaction of
          (Inl answer, db2) \<Rightarrow> (answer, db2)
        | (Inr intent, db2) \<Rightarrow>
      (case submittedAssignment failing between db2 request intent currentTransaction of
          (Inl answer, db3) \<Rightarrow> (answer, db3)
        | (Inr assignment, db3) \<Rightarrow>
            answerForAssignment failing between db3 request intent assignment provisionImmediately)))"

definition submitAndSelectPrimary ::
  "(store_call \<Rightarrow> bool) \<Rightarrow> (nat \<Rightarrow> timer_tables database \<Rightarrow> timer_tables database)
     \<Rightarrow> timer_tables database \<Rightarrow> timer_intent_application_request
     \<Rightarrow> timer_intent_application_result \<times> timer_tables database" where
  "submitAndSelectPrimary failing between db request = submitPrimary failing between db request False False"

definition submitAndSelectPrimaryInCurrentTransaction ::
  "(store_call \<Rightarrow> bool) \<Rightarrow> (nat \<Rightarrow> timer_tables database \<Rightarrow> timer_tables database)
     \<Rightarrow> timer_tables database \<Rightarrow> timer_intent_application_request
     \<Rightarrow> timer_intent_application_result \<times> timer_tables database" where
  "submitAndSelectPrimaryInCurrentTransaction failing between db request =
     submitPrimary failing between db request False True"

definition submitAndProvisionPrimary ::
  "(store_call \<Rightarrow> bool) \<Rightarrow> (nat \<Rightarrow> timer_tables database \<Rightarrow> timer_tables database)
     \<Rightarrow> timer_tables database \<Rightarrow> timer_intent_application_request
     \<Rightarrow> timer_intent_application_result \<times> timer_tables database" where
  "submitAndProvisionPrimary failing between db request = submitPrimary failing between db request True False"

end
