(* ===== verification/SubmittedIntents.thy ===== *)
theory SubmittedIntents
  imports FulfillmentProperties TimerIntentApplicationService
begin

text \<open>
  What the steps of a submission do to the intents: an intent that was created, updated or found
  stays in the store as itself or as what its lifecycle made of it later (\<open>intentHeld\<close>), and the steps on
  assignments leave the intents alone (\<open>keepsIntents\<close>).
\<close>

section \<open>Intents the store holds\<close>

definition intentHeld :: "intent_row list database \<Rightarrow> timer_intent \<Rightarrow> bool" where
  "intentHeld v i \<longleftrightarrow>
     intentStoreSound v
     \<and> (\<exists>r now. intentRowOf (ti_timerIntentId i) (db_committed v) = Some r \<and> readIntent r = Some now
          \<and> (now = i \<or> intentAdvances i now))"

text \<open>The other callers write the intent table through the intent repository.\<close>

definition intentInterference :: "(nat \<Rightarrow> timer_tables database \<Rightarrow> timer_tables database) \<Rightarrow> bool" where
  "intentInterference between \<longleftrightarrow> (\<forall>n db. intentSteps (intentView db) (intentView (between n db)))"

lemma interference_later: "interference between \<Longrightarrow> interference (\<lambda>n. between (n + k))"
  by (simp add: interference_def)

lemma intentInterference_later: "intentInterference between \<Longrightarrow> intentInterference (\<lambda>n. between (n + k))"
  by (simp add: intentInterference_def)

lemma intentHeld_steps:
  assumes "intentHeld v i" "intentSteps v v'"
  shows "intentHeld v' i"
proof -
  obtain r now where r: "intentRowOf (ti_timerIntentId i) (db_committed v) = Some r" "readIntent r = Some now"
    "now = i \<or> intentAdvances i now" and s: "intentStoreSound v"
    using assms(1) unfolding intentHeld_def by blast
  obtain r' where r': "intentRowOf (ti_timerIntentId i) (db_committed v') = Some r'" "intentEvolves r r'"
    by (rule intentRowOf_evolves [OF assms(2) s r(1)])
  obtain now' where "readIntent r' = Some now'" "now' = now \<or> intentAdvances now now'"
    using r'(2) r(2) unfolding intentEvolves_def by auto
  then show ?thesis
    unfolding intentHeld_def using intentSteps_sound(1) [OF assms(2) s] r'(1) r(3) intentAdvances_trans by blast
qed

lemma intentHeld_between:
  "intentInterference between \<Longrightarrow> intentHeld (intentView db) i \<Longrightarrow> intentHeld (intentView (between n db)) i"
  unfolding intentInterference_def using intentHeld_steps by blast

lemma intentHeld_row:
  assumes "intentStoreSound v" "r \<in> set (db_committed v)" "readIntent r = Some i"
  shows "intentHeld v i"
proof -
  have "intentRowsSound (db_committed v)" using assms(1) by (simp add: intentStoreSound_def)
  then have "intentRowOf (ti_timerIntentId i) (db_committed v) = Some r"
    using assms(2) readIntent_fields(2) [OF assms(3)] by (simp add: intentRowOf_Some)
  then show ?thesis using assms(1,3) unfolding intentHeld_def by blast
qed

lemma intentHeld_found:
  assumes "intentHeld (intentView db) i" "\<not> transactionActive db"
  shows "\<exists>now. findIntentById noIntentErrors (intentView db) (ti_timerIntentId i) = intentResult IntentOk now
    \<and> (now = i \<or> intentAdvances i now)"
proof -
  let ?v = "intentView db"
  obtain r now where r: "intentRowOf (ti_timerIntentId i) (db_committed ?v) = Some r" "readIntent r = Some now"
    "now = i \<or> intentAdvances i now" and s: "intentStoreSound ?v"
    using assms(1) unfolding intentHeld_def by blast
  have vis: "visibleTables ?v = db_committed ?v" by (rule visible_begun) (simp add: assms(2))
  have sound: "intentRowsSound (visibleTables ?v)" by (rule intentStoreSound_visible [OF s])
  have "ti_timerIntentId now = ti_timerIntentId i" using r(3) by (auto simp: intentAdvances_def)
  then have "ti_timerIntentId i \<noteq> []" "length (ti_timerIntentId i) \<le> int32_max"
    using timerIntentValid_id [OF readIntent_fields(1) [OF r(2)]] by simp_all
  from findIntentById_sound [OF sound this]
  have "findIntentById noIntentErrors ?v (ti_timerIntentId i) = intentResult IntentOk now"
    unfolding vis r(1) option.case by (simp add: r(2))
  then show ?thesis using r(3) by blast
qed

section \<open>The calls of the intent repository\<close>

lemma intentView_put [simp]: "intentView (putIntents db d) = d"
  by (cases d) (simp add: putIntents_def putView_def viewOf_def option.map_comp o_def option.map_ident)

lemma found_intentHeld:
  assumes "ni_status (findIntentById f v k) = IntentOk" "ni_intent (findIntentById f v k) = Some i"
    and "intentStoreSound v" "\<not> transactionActive v"
  shows "intentHeld v i"
proof -
  have "findIntentById f v k = intentResult IntentOk i"
    using assms(1,2) by (auto simp: findIntentById_def intentResult_def intentStatusResult_def
        split: if_splits select_result.splits)
  then obtain r where r: "intentRowOf k (visibleTables v) = Some r" "readIntent r = Some i"
    by (rule findIntentById_Ok)
  have "r \<in> set (db_committed v)"
    using r(1) intentStoreSound_visible [OF assms(3)] by (simp add: intentRowOf_Some visible_begun [OF assms(4)])
  from intentHeld_row [OF assms(3) this r(2)] show ?thesis .
qed

lemma created_intentHeld:
  assumes "createIntent f v m = (res, v')" "ni_status res = IntentOk" "ni_intent res = Some i"
    and sound: "intentStoreSound v" and off: "\<not> transactionActive v"
  shows "intentHeld v' i"
proof -
  have s: "intentStoreSound v'"
    using intentSteps_sound(1) [OF r_into_rtranclp [of intentStep] sound] stepCreate [of v f m] assms(1) by simp
  let ?d = "m\<lparr>ti_intentRevision := ''1'', ti_updatedAt := ti_createdAt m\<rparr>"
  have e: "timerIntentValid ?d" "res = intentResult IntentOk ?d"
    "v' = writeVisible (visibleTables v @ [intentRow ?d 1]) v"
    using createIntent_cases [of f v m] assms(1,2) by auto
  have "readIntent (intentRow ?d 1) = Some ?d" using e(1) by (rule readIntent_row) simp_all
  moreover have "?d = i" using e(2) assms(3) by (simp add: intentResult_def)
  moreover have "intentRow ?d 1 \<in> set (db_committed v')"
    using off unfolding e(3) by (simp add: writeVisible_def transactionActive_def del: One_nat_def)
  ultimately show ?thesis using intentHeld_row [OF s] by blast
qed

lemma updated_intentHeld:
  assumes "updateIntent f v new tok = (res, v')" "ni_status res = IntentOk" "ni_intent res = Some i"
    and sound: "intentStoreSound v"
  shows "intentHeld v' i"
proof -
  have s: "intentStoreSound v'"
    using intentSteps_sound(1) [OF r_into_rtranclp [of intentStep] sound] updateIntent_is_step [OF assms(1)] by blast
  obtain n r where u: "n < int64_max" "intentRowOf (ti_timerIntentId new) (db_committed v) = Some r"
    "timerIntentValid (new\<lparr>ti_intentRevision := decimal (n + 1)\<rparr>)"
    "res = intentResult IntentOk (new\<lparr>ti_intentRevision := decimal (n + 1)\<rparr>)"
    "v' = \<lparr>db_committed =
        map (\<lambda>x. if x = r then intentRow new (n + 1) else x) (db_committed v), db_working = None\<rparr>"
    by (rule updateIntent_ok [OF assms(1,2) sound])
  have "readIntent (intentRow new (n + 1)) = Some (new\<lparr>ti_intentRevision := decimal (n + 1)\<rparr>)"
    using readIntent_row [OF u(3), of "n + 1"] u(1) by simp
  moreover have "new\<lparr>ti_intentRevision := decimal (n + 1)\<rparr> = i" using u(4) assms(3) by (simp add: intentResult_def)
  moreover have "r \<in> set (db_committed v)" using u(2) find_Some_in by (fastforce simp: intentRowOf_def)
  then have "intentRow new (n + 1) \<in> set (db_committed v')" unfolding u(5) by force
  ultimately show ?thesis using intentHeld_row [OF s] by blast
qed

section \<open>The calls on assignments\<close>

definition keepsIntents :: "intent_row list \<Rightarrow> timer_tables database \<Rightarrow> bool" where
  "keepsIntents rows d \<longleftrightarrow>
     tt_intents (db_committed d) = rows
     \<and> (db_working d = None \<or> tt_intents (visibleTables d) = rows)"

lemma keepsIntents_held:
  assumes "intentHeld (intentView d) i" "keepsIntents (tt_intents (db_committed d)) d'"
  shows "intentHeld (intentView d') i"
proof -
  have c: "db_committed (intentView d') = db_committed (intentView d)"
    using assms(2) by (simp add: keepsIntents_def viewOf_def)
  have "db_working (intentView d') = None \<or> db_working (intentView d') = Some (db_committed (intentView d'))"
    using assms(2) by (cases "db_working d'") (simp_all add: keepsIntents_def viewOf_def visibleTables_def)
  then have "transactionFollowsBy intentJournal (intentView d')"
    unfolding transactionFollowsBy_def by (elim disjE) (simp_all only: option.simps rtranclp.rtrancl_refl simp_thms all_simps)
  then have "intentStoreSound (intentView d')"
    using assms(1) c by (simp add: intentHeld_def intentStoreSound_def)
  then show ?thesis using assms(1) by (simp add: intentHeld_def c)
qed

lemma keepsIntents_idle: "\<not> transactionActive d \<Longrightarrow> keepsIntents (tt_intents (db_committed d)) d"
  by (simp add: keepsIntents_def transactionActive_def)

lemma keepsIntents_begin: "keepsIntents rows d \<Longrightarrow> keepsIntents rows (snd (executeBegin f d))"
  by (cases "f \<or> transactionActive d") (simp_all add: executeBegin_def, simp add: keepsIntents_def visibleTables_def)

lemma keepsIntents_rollback: "keepsIntents rows d \<Longrightarrow> keepsIntents rows (executeRollback f d)"
  by (simp add: keepsIntents_def executeRollback_def)

lemma keepsIntents_commit: "keepsIntents rows d \<Longrightarrow> keepsIntents rows (snd (executeCommit f d))"
  by (cases "db_working d") (simp_all add: keepsIntents_def executeCommit_def visibleTables_def)

lemma keepsIntents_visible: "keepsIntents rows d \<Longrightarrow> tt_intents (visibleTables d) = rows"
  by (cases "db_working d") (simp_all add: keepsIntents_def visibleTables_def)

lemma keepsIntents_write: "keepsIntents rows d \<Longrightarrow> tt_intents t = rows \<Longrightarrow> keepsIntents rows (writeTables t d)"
  by (simp add: keepsIntents_def writeTables_def visibleTables_def)

lemma insertAssignmentRow_intents:
  "insertAssignmentRow f t row = WriteDone t' \<Longrightarrow> tt_intents t' = tt_intents t"
  by (auto simp: insertAssignmentRow_def beforeInsert_def afterInsert_def supersedeOldOwner_def Let_def
      split: if_splits option.splits temp_table.splits)

lemma updateAssignmentRow_intents:
  "updateAssignmentRow f t i v row = WriteDone (n, t') \<Longrightarrow> tt_intents t' = tt_intents t"
  by (auto simp: updateAssignmentRow_def updateAssignmentRows_def Let_def split: if_splits)

lemma createAssignmentWrite_keeps:
  assumes "keepsIntents rows d"
  shows "keepsIntents rows (snd (createAssignmentWrite f d a False))"
proof (cases "bindAssignmentColumns a")
  case None
  then show ?thesis using keepsIntents_rollback [OF assms] by (simp add: createAssignmentWrite_def)
next
  case (Some row)
  show ?thesis
  proof (cases "insertAssignmentRow (f AsgInsert) (visibleTables d) row")
    case (WriteDone t)
    have w: "keepsIntents rows (writeTables t d)"
      using insertAssignmentRow_intents [OF WriteDone] keepsIntents_visible [OF assms]
      by (intro keepsIntents_write [OF assms]) simp
    obtain ok d1 where c: "executeCommit (f AsgCommit) (writeTables t d) = (ok, d1)" by fastforce
    have k: "keepsIntents rows d1" using keepsIntents_commit [OF w, of "f AsgCommit"] c by simp
    show ?thesis using k keepsIntents_rollback [OF k]
      by (cases ok) (simp_all add: createAssignmentWrite_def Some WriteDone Let_def c del: executeCommit_writeTables)
  qed (use keepsIntents_rollback [OF assms] in \<open>simp_all add: createAssignmentWrite_def Some\<close>)
qed

lemma createAssignment_keeps:
  assumes "keepsIntents rows d"
  shows "keepsIntents rows (snd (createAssignment f d a))"
proof -
  obtain ok d0 where b: "executeBegin (f AsgBegin) d = (ok, d0)" by fastforce
  have k: "keepsIntents rows d0" using keepsIntents_begin [OF assms, of "f AsgBegin"] b by simp
  show ?thesis
    using assms k keepsIntents_rollback [OF k] createAssignmentWrite_keeps [OF k]
    by (simp add: createAssignment_def createAssignmentImpl_def b split: bool.split sum.split)
qed

lemma updateInternal_keeps:
  assumes "keepsIntents rows d"
  shows "keepsIntents rows (snd (updateInCurrentTransactionInternal f d new tok))"
proof -
  have "keepsIntents rows (writeTables t d)" if "updateAssignmentRow g (visibleTables d) i v row = WriteDone (n, t)"
    for g i v row n t
    using updateAssignmentRow_intents [OF that] keepsIntents_visible [OF assms]
    by (intro keepsIntents_write [OF assms]) simp
  then show ?thesis using assms
    by (simp add: updateInCurrentTransactionInternal_def
        split: sum.split option.split write_outcome.split prod.split)
qed

lemma updateAssignment_keeps:
  assumes "keepsIntents rows d"
  shows "keepsIntents rows (snd (updateAssignment f d new tok))"
proof -
  obtain ok d0 where b: "executeBegin (f AsgBegin) d = (ok, d0)" by fastforce
  obtain r d1 where u: "updateInCurrentTransactionInternal f d0 new tok = (r, d1)" by fastforce
  obtain ok' d2 where c: "executeCommit (f AsgCommit) d1 = (ok', d2)" by fastforce
  have k0: "keepsIntents rows d0" using keepsIntents_begin [OF assms, of "f AsgBegin"] b by simp
  have k1: "keepsIntents rows d1" using updateInternal_keeps [OF k0, of f new tok] u by simp
  have k2: "keepsIntents rows d2" using keepsIntents_commit [OF k1, of "f AsgCommit"] c by simp
  show ?thesis
    using assms k0 keepsIntents_rollback [OF k1] keepsIntents_rollback [OF k2] k2
    by (simp add: updateAssignment_def b u c split: bool.split)
qed

section \<open>The steps of a submission\<close>

lemma schedulePrimary_intentHeld:
  assumes inter: "interference between" "intentInterference between" and held: "intentHeld (intentView db) i"
  shows "intentHeld (intentView (snd (schedulePrimary failing between db q))) i"
proof -
  note b = intentHeld_between [OF inter(2)]
  have w: "intentHeld (intentView (snd (createAssignment f
      (between 3 (between 2 (between 1 (between 0 db)))) a))) i" for f a
    by (rule keepsIntents_held [OF _ createAssignment_keeps [OF keepsIntents_idle [OF interference_idle [OF inter(1)]]]])
      (intro b held)
  show ?thesis
    using held b [OF held] b [OF b [OF held]] b [OF b [OF b [OF held]]]
      b [OF b [OF b [OF b [OF held]]]] w b [OF w]
    by (simp add: schedulePrimary_def schedulePrimaryImpl_def Let_def split_beta
        split: option.split timer_intent_repository_status.split)
qed

lemma beginProvisioning_intentHeld:
  assumes inter: "interference between" "intentInterference between" and held: "intentHeld (intentView db) i"
  shows "intentHeld (intentView (snd (beginProvisioning failing between db a tok irev gen at))) i"
proof -
  note b = intentHeld_between [OF inter(2)]
  have w: "intentHeld (intentView (snd (updateAssignment f (between 1 (between 0 db)) new t))) i" for f new t
    by (rule keepsIntents_held [OF _ updateAssignment_keeps [OF keepsIntents_idle [OF interference_idle [OF inter(1)]]]])
      (intro b held)
  show ?thesis
    using held b [OF held] w
    by (simp add: beginProvisioning_def beginProvisioningImpl_def Let_def split_beta)
qed

lemma submittedIntent_held:
  assumes inter: "interference between" "intentInterference between" and sound: "intentStoreSound (intentView db)"
    and call: "submittedIntent failing between db m False = (Inr i, db')"
  shows "intentHeld (intentView db') i"
proof -
  let ?r = "between 0 db"
  have steps: "intentSteps (intentView d) (intentView (between n d))" for n d
    using inter(2) by (simp add: intentInterference_def)
  have s0: "intentStoreSound (intentView ?r)" by (rule intentSteps_sound(1) [OF steps sound])
  have off: "\<not> transactionActive (intentView (between n d))" for n d
    using interference_idle [OF inter(1)] by simp
  obtain created d where c: "createIntent (\<lambda>c. failing (SvcIntent 0 c)) (intentView ?r) m = (created, d)" by fastforce
  have "intentStoreSound d"
    using intentSteps_sound(1) [OF r_into_rtranclp [of intentStep] s0] stepCreate c by (metis snd_conv)
  then have s1: "intentStoreSound (intentView (between 1 (putIntents ?r d)))"
    by (intro intentSteps_sound(1) [OF steps]) simp
  note new = created_intentHeld [OF c _ _ s0 off]
  note old = found_intentHeld [OF _ _ s1 off]
  show ?thesis
    using call c new old
    by (auto simp: submittedIntent_def Let_def split: timer_intent_repository_status.splits option.splits if_splits)
qed

lemma activatedIntent_held:
  assumes inter: "intentInterference between" and held: "intentHeld (intentView db) m"
    and call: "activatedIntent failing between db m at False = (Inr i, db')"
  shows "intentHeld (intentView db') i"
proof -
  let ?r = "between 2 db"
  obtain updated d where c: "updateIntent (\<lambda>c. failing (SvcIntent 2 c)) (intentView ?r)
      (m\<lparr>ti_state := IntentActive, ti_updatedAt := at\<rparr>) (ti_intentRevision m) = (updated, d)" by fastforce
  have "intentStoreSound (intentView ?r)"
    using intentHeld_between [OF inter held] by (simp add: intentHeld_def)
  note new = updated_intentHeld [OF c _ _ this]
  show ?thesis
    using call c new held
    by (auto simp: activatedIntent_def Let_def split: timer_intent_repository_status.splits option.splits if_splits)
qed

lemma submittedAssignment_held:
  assumes inter: "interference between" "intentInterference between" and held: "intentHeld (intentView db) i"
  shows "intentHeld (intentView (snd (submittedAssignment failing between db request m False))) i"
  using intentHeld_between [OF inter(2) held]
    schedulePrimary_intentHeld [OF interference_later [OF inter(1)] intentInterference_later [OF inter(2)]
      intentHeld_between [OF inter(2) held]]
  by (simp add: submittedAssignment_def Let_def split_beta)

lemma answerForAssignment_held:
  assumes inter: "interference between" "intentInterference between" and held: "intentHeld (intentView db) i"
  shows "intentHeld (intentView (snd (answerForAssignment failing between db request m a provision))) i"
  using held beginProvisioning_intentHeld [OF interference_later [OF inter(1)]
      intentInterference_later [OF inter(2)] held]
  by (simp add: answerForAssignment_def Let_def split_beta)

end
