(* ===== verification/ApplicationProperties.thy ===== *)
theory ApplicationProperties
  imports SubmittedIntents ReassignmentProperties
begin

text \<open>
  What callers of the intent application service may rely on while other callers use the same
  store: a successful submission leaves the submitted intent active and its primary assignment
  stored under the requested identifier, whichever of the steps had been done before.
\<close>

section \<open>Assignments the store holds\<close>

text \<open>The columns of an assignment that no call ever changes.\<close>

definition sameOrigin :: "timer_assignment \<Rightarrow> timer_assignment \<Rightarrow> bool" where
  "sameOrigin a b \<longleftrightarrow>
     ta_timerAssignmentId b = ta_timerAssignmentId a \<and> ta_timerIntentId b = ta_timerIntentId a
     \<and> ta_assignmentEpoch b = ta_assignmentEpoch a \<and> ta_role b = ta_role a
     \<and> ta_createdAt b = ta_createdAt a"

definition holds :: "timer_tables database \<Rightarrow> timer_assignment \<Rightarrow> bool" where
  "holds db a \<longleftrightarrow>
     (\<exists>row b. row \<in> set (tt_assignments (db_committed db)) \<and> readAssignment row = Some b \<and> sameOrigin a b)"

lemma sameOrigin_refl [simp]: "sameOrigin a a"
  by (simp add: sameOrigin_def)

lemma sameOrigin_trans: "sameOrigin a b \<Longrightarrow> sameOrigin b c \<Longrightarrow> sameOrigin a c"
  by (simp add: sameOrigin_def)

lemma sameOrigin_stored [simp]: "sameOrigin a (storedAssignment a)"
  by (simp add: sameOrigin_def)

lemma found_holds:
  assumes "findAssignmentById f d i = assignmentResult AsgRepoOk a" "\<not> transactionActive d" "timerDbSound d"
  shows "holds d a" and "ta_timerAssignmentId a = i"
proof -
  have s: "rowsSound (tt_assignments (db_committed d))" using assms(3) by (simp add: timerDbSound_def)
  obtain r where r: "assignmentRowOf i (tt_assignments (db_committed d)) = Some r" "readAssignment r = Some a"
    using findAssignmentById_Ok [OF assms(1)] by (auto simp: visible_begun [OF assms(2)])
  have in': "r \<in> set (tt_assignments (db_committed d))" "ar_timer_assignment_id r = i"
    using r(1) by (simp_all add: assignmentRowOf_Some [OF s])
  show "holds d a" using in'(1) r(2) sameOrigin_refl unfolding holds_def by blast
  show "ta_timerAssignmentId a = i" using readAssignment_fields(3) [OF r(2)] in'(2) by simp
qed

lemma holds_calls:
  assumes "holds d a" "timerDbSound d" "timerCalls d d'"
  shows "holds d' a"
proof -
  obtain row b where r: "row \<in> set (tt_assignments (db_committed d))" "readAssignment row = Some b" "sameOrigin a b"
    using assms(1) unfolding holds_def by blast
  note f = timerCalls_facts [OF assms(3,2,2)]
  have s: "rowsSound (tt_assignments (db_committed d))" "rowsSound (tt_assignments (db_committed d'))"
    using assms(2) f(1) by (simp_all add: timerDbSound_def)
  have "assignmentRowOf (ar_timer_assignment_id row) (tt_assignments (db_committed d)) = Some row"
    using r(1) by (simp add: assignmentRowOf_Some [OF s(1)])
  from assignmentRowOf_evolves [OF f(2) s this] obtain r' where r':
    "assignmentRowOf (ar_timer_assignment_id row) (tt_assignments (db_committed d')) = Some r'" "assignmentEvolves row r'"
    by blast
  then have in': "r' \<in> set (tt_assignments (db_committed d'))" by (simp add: assignmentRowOf_Some [OF s(2)])
  then obtain c where c: "readAssignment r' = Some c" using s(2) by (auto simp: rowsSound_def rowSound_def)
  have "c = b \<or> assignmentAdvances b c" using r'(2) r(2) c by (auto simp: assignmentEvolves_def)
  then have "sameOrigin b c" by (auto simp: sameOrigin_def assignmentAdvances_def)
  then show ?thesis using in' c sameOrigin_trans [OF r(3)] unfolding holds_def by blast
qed

lemma holds_found:
  assumes "holds d a" "timerDbSound d" "\<not> transactionActive d"
  obtains b where "findAssignmentById noAssignmentErrors d (ta_timerAssignmentId a) = assignmentResult AsgRepoOk b"
    "sameOrigin a b"
proof -
  obtain row b where r: "row \<in> set (tt_assignments (db_committed d))" "readAssignment row = Some b" "sameOrigin a b"
    using assms(1) unfolding holds_def by blast
  have "ta_timerAssignmentId b = ta_timerAssignmentId a" using r(3) by (simp add: sameOrigin_def)
  with stored_is_found [OF assms(2,3) r(1,2)] that r(3) show thesis by simp
qed

lemma activePrimary_holds:
  assumes "findActivePrimaryForIntent f d i = assignmentResult AsgRepoOk a" "\<not> transactionActive d"
  shows "holds d a"
proof -
  let ?rows = "sort_key epochOrder (filter (\<lambda>row. ar_timer_intent_id row = i \<and> activeExclusive row)
      (tt_assignments (visibleTables d)))"
  obtain row rest where r: "take 2 ?rows = row # rest" "readAssignment row = Some a"
    using assms(1)
    by (auto simp: findActivePrimaryForIntent_def assignmentResult_def assignmentStatusResult_def
        split: if_splits list.splits option.splits)
  then have "row \<in> set (take 2 ?rows)" by simp
  then have "row \<in> set (tt_assignments (visibleTables d))" using set_take_subset [of 2 ?rows] by auto
  then show ?thesis
    using r(2) sameOrigin_refl by (auto simp: holds_def visible_begun [OF assms(2)])
qed

section \<open>Scheduling\<close>

lemma schedulePrimary_calls:
  assumes inter: "interference between"
  shows "timerCalls db (snd (schedulePrimary failing between db q))"
proof -
  have c: "timerCalls db (between 0 db)" "timerCalls db (between 1 (between 0 db))"
    "timerCalls db (between 2 (between 1 (between 0 db)))"
    "timerCalls db (between 3 (between 2 (between 1 (between 0 db))))"
    by (intro interference_trans [OF inter] rtranclp.rtrancl_refl)+
  have w: "timerCalls db (snd (createAssignment f (between 3 (between 2 (between 1 (between 0 db)))) a))" for f a
    using c(4) callCreate by (rule rtranclp.rtrancl_into_rtrancl)
  have w': "timerCalls db (between 4 (snd (createAssignment f (between 3 (between 2 (between 1 (between 0 db)))) a)))" for f a
    by (rule interference_trans [OF inter w])
  show ?thesis
    using c w w'
    by (simp add: schedulePrimary_def schedulePrimaryImpl_def Let_def split_beta
        split: option.split timer_intent_repository_status.split)
qed

lemma mapped_not_ok:
  "\<not> schedulingOk (schedulingStatusResult (mapIntentReadStatus s))" if "s \<noteq> IntentOk"
  using that by (cases s) (simp_all add: schedulingOk_def schedulingStatusResult_def)

lemma mapRepositoryStatus_ok:
  "mapRepositoryStatus s \<noteq> SchedAlreadyPersisted" "mapRepositoryStatus s \<noteq> SchedActivePrimaryExists"
  "mapRepositoryStatus s \<noteq> SchedReplicaTargetSatisfied"
  by (cases s; simp)+

lemma applyCreateResult_ok:
  assumes "schedulingOk (applyCreateResult r created retry i j tok role at False)" "ra_status created \<noteq> AsgRepoOk"
  shows "ra_status created = AsgRepoAlreadyExists \<and> ra_status retry = AsgRepoOk
    \<and> sc_assignment (applyCreateResult r created retry i j tok role at False) = ra_assignment retry"
  using assms mapRepositoryStatus_ok
  by (auto simp: applyCreateResult_def schedulingOk_def split: if_splits)

lemma existing_ok:
  assumes "existingAssignmentResult f d i j tok role at = Some r" "schedulingOk r"
  shows "findAssignmentById f d i = assignmentResult AsgRepoOk (sc_assignment r)"
  using assms mapRepositoryStatus_ok
  by (auto simp: existingAssignmentResult_def Let_def schedulingOk_def assignmentResult_def
      schedulingStatusResult_def split: if_splits)

text \<open>The answers of the scheduling service that let a submission go on.\<close>

lemma schedulePrimary_answers:
  assumes inter: "interference between" and sound: "timerDbSound db"
    and call: "schedulePrimary failing between db q = (res, db')" and ok: "schedulingOk res"
  shows "holds db' (sc_assignment res) \<and> \<not> transactionActive db'"
proof (cases "sc_status res = SchedPersisted")
  case True
  obtain d row where e: "timerCalls db d" "\<not> transactionActive db'"
    "row \<in> set (tt_assignments (db_committed db'))" "readAssignment row = Some (storedAssignment (sc_assignment res))"
    by (rule schedulePrimary_effect [OF call True sound inter])
  then show ?thesis using sameOrigin_stored unfolding holds_def by blast
next
  case False
  let ?d1 = "between 1 (between 0 db)" and ?d2 = "between 2 (between 1 (between 0 db))"
    and ?d3 = "between 3 (between 2 (between 1 (between 0 db)))"
  let ?existing = "existingAssignmentResult (\<lambda>c. failing (SvcAssignment 0 c)) (between 0 db)
      (sq_timerAssignmentId q) (sq_timerIntentId q) (sq_expectedIntentRevision q) RolePrimary (sq_createdAt q)"
  let ?found = "findIntentById (\<lambda>c. failing (SvcIntent 1 c)) (intentView ?d1) (sq_timerIntentId q)"
  let ?listed = "listForIntent (\<lambda>c. failing (SvcAssignment 2 c)) ?d2 (sq_timerIntentId q)"
  note def = schedulePrimary_def schedulePrimaryImpl_def Let_def
  have valid: "validSchedulingRequest (sq_timerAssignmentId q) (sq_timerIntentId q)
      (sq_expectedIntentRevision q) (sq_createdAt q)"
    using call ok by (auto simp: def schedulingStatusResult_def schedulingOk_def split: if_splits)
  have "\<exists>n d f. db' = between n d \<and>
      (findAssignmentById f db' (sq_timerAssignmentId q) = assignmentResult AsgRepoOk (sc_assignment res)
       \<or> findActivePrimaryForIntent f db' (sq_timerIntentId q) = assignmentResult AsgRepoOk (sc_assignment res))"
  proof (cases ?existing)
    case (Some r)
    then have "res = r" "db' = between 0 db" using call valid by (simp_all add: def)
    then show ?thesis using existing_ok [OF Some] ok by blast
  next
    case None
    have iok: "ni_status ?found = IntentOk"
      using call valid None ok mapped_not_ok
      by (cases "ni_status ?found") (auto simp: def schedulingStatusResult_def schedulingOk_def split: option.splits)
    obtain intent where intent: "ni_intent ?found = Some intent" by (rule findIntentById_found [OF iok])
    have rev: "ti_intentRevision intent = sq_expectedIntentRevision q"
      using call valid None iok intent ok
      by (auto simp: def schedulingStatusResult_def schedulingOk_def split: if_splits)
    have lok: "rl_status ?listed = AsgRepoOk"
      using call valid None iok intent rev ok mapRepositoryStatus_ok
      by (auto simp: def schedulingStatusResult_def schedulingOk_def split: if_splits)
    define decision where "decision = planTimerAssignment \<lparr>rq_intent = intent, rq_role = RolePrimary,
       rq_currentAssignments = activeAssignments (rl_assignments ?listed), rq_candidates = sq_candidates q\<rparr>"
    define result where "result = (schedulingStatusResult SchedStorageError)\<lparr>sc_decision := decision\<rparr>"
    note facts = call valid None iok intent rev lok
    have planned: "pd_outcome decision \<noteq> PlanInvalid"
      using facts ok
      by (auto simp: def decision_def schedulingStatusResult_def schedulingOk_def split: if_splits)
    show ?thesis
    proof (cases "pd_outcome decision = PlanUnassigned \<and> decisionHasReason decision ''active_primary_exists''")
      case True
      let ?active = "findActivePrimaryForIntent (\<lambda>c. failing (SvcAssignment 3 c)) ?d3 (sq_timerIntentId q)"
      have "db' = ?d3" "ra_status ?active = AsgRepoOk" "sc_assignment res = ra_assignment ?active"
        using facts planned True ok unfolding decision_def
        by (auto simp: def schedulingStatusResult_def schedulingOk_def split: if_splits)
      then have "findActivePrimaryForIntent (\<lambda>c. failing (SvcAssignment 3 c)) db' (sq_timerIntentId q)
          = assignmentResult AsgRepoOk (sc_assignment res)"
        by (simp add: assignmentResult_def)
      then show ?thesis using \<open>db' = ?d3\<close> by blast
    next
      case False
      obtain created db4 where c: "createAssignment (\<lambda>c. failing (SvcAssignment 3 c)) ?d3
          (assignmentFromDecision (sq_timerAssignmentId q) (sq_createdAt q) RolePrimary decision) = (created, db4)"
        by fastforce
      let ?retry = "findAssignmentById (\<lambda>c. failing (SvcAssignment 4 c)) db' (sq_timerAssignmentId q)"
      have r: "res = applyCreateResult result created ?retry (sq_timerAssignmentId q) (sq_timerIntentId q)
          (sq_expectedIntentRevision q) RolePrimary (sq_createdAt q) False"
        and d: "db' = (if ra_status created = AsgRepoAlreadyExists then between 4 db4 else db4)"
        using facts planned False c unfolding decision_def result_def
        by (auto simp: def split: if_splits)
      have "ra_status created \<noteq> AsgRepoOk" using r \<open>sc_status res \<noteq> SchedPersisted\<close> by (auto simp: applyCreateResult_def)
      from applyCreateResult_ok [OF ok [unfolded r] this]
      have a: "ra_status created = AsgRepoAlreadyExists" "ra_status ?retry = AsgRepoOk"
        "sc_assignment res = ra_assignment ?retry" using r by simp_all
      then have "findAssignmentById (\<lambda>c. failing (SvcAssignment 4 c)) db' (sq_timerAssignmentId q)
          = assignmentResult AsgRepoOk (sc_assignment res)"
        using findAssignmentById_result [OF a(2)] by simp
      then show ?thesis using d a(1) by (metis (full_types))
    qed
  qed
  then obtain n d f where at: "db' = between n d" and read:
      "findAssignmentById f db' (sq_timerAssignmentId q) = assignmentResult AsgRepoOk (sc_assignment res)
       \<or> findActivePrimaryForIntent f db' (sq_timerIntentId q) = assignmentResult AsgRepoOk (sc_assignment res)"
    by blast
  have off: "\<not> transactionActive db'" unfolding at by (rule interference_idle [OF inter])
  have "timerCalls db db'" using schedulePrimary_calls [OF inter, of db failing q] call by simp
  then have s: "timerDbSound db'" using timerCalls_sound sound by blast
  show ?thesis using read found_holds(1) [OF _ off s] activePrimary_holds [OF _ off] off by blast
qed

section \<open>Provisioning\<close>

lemma found_same:
  assumes "holds d a" "timerDbSound d" "\<not> transactionActive d"
    and "findAssignmentById f d (ta_timerAssignmentId a) = assignmentResult AsgRepoOk b"
  shows "sameOrigin a b"
proof -
  obtain c where c: "findAssignmentById noAssignmentErrors d (ta_timerAssignmentId a) = assignmentResult AsgRepoOk c"
    "sameOrigin a c" by (rule holds_found [OF assms(1-3)])
  obtain r r' where "assignmentRowOf (ta_timerAssignmentId a) (tt_assignments (visibleTables d)) = Some r"
    "readAssignment r = Some b"
    "assignmentRowOf (ta_timerAssignmentId a) (tt_assignments (visibleTables d)) = Some r'"
    "readAssignment r' = Some c"
    using findAssignmentById_Ok [OF assms(4)] findAssignmentById_Ok [OF c(1)] by metis
  then show ?thesis using c(2) by simp
qed

lemma beginProvisioning_ok:
  assumes inter: "interference between" and sound: "timerDbSound db"
    and have_it: "holds db a" "i = ta_timerAssignmentId a"
    and call: "beginProvisioning failing between db i tok irev gen at = (res, db')"
    and ok: "fr_status res = FulProvisioningStarted \<or> fr_status res = FulAlreadyProvisioning"
  shows "sameOrigin a (fr_assignment res) \<and> ta_intentRevision (fr_assignment res) = irev
    \<and> ta_state (fr_assignment res) = AsgProvisioning
    \<and> holds db' (fr_assignment res) \<and> \<not> transactionActive db' \<and> timerDbSound db'"
proof -
  let ?r = "between 0 db" and ?d = "between 1 (between 0 db)"
  have c: "timerCalls db ?r" "timerCalls ?r ?d" using interference_calls [OF inter] by blast+
  have s: "timerDbSound ?r" using timerCalls_sound [OF c(1) sound] ..
  have h: "holds ?r a" by (rule holds_calls [OF have_it(1) sound c(1)])
  show ?thesis
  proof (cases "fr_status res = FulProvisioningStarted")
    case True
    obtain f g current updated where p: "findAssignmentById f ?r i = assignmentResult AsgRepoOk current"
      "ta_intentRevision current = irev"
      "updateAssignment g ?d (current\<lparr>ta_state := AsgProvisioning, ta_updatedAt := at\<rparr>)
         (ta_assignmentRevision current) = (updated, db')"
      "ra_status updated = AsgRepoOk" "fr_assignment res = ra_assignment updated"
      by (rule beginProvisioning_started [OF call True])
    obtain v where w: "updated = assignmentResult AsgRepoOk (current\<lparr>ta_state := AsgProvisioning,
         ta_updatedAt := at, ta_assignmentRevision := decimal (v + 1)\<rparr>)"
      "findAssignmentById noAssignmentErrors db' i = assignmentResult AsgRepoOk (storedAssignment
         (current\<lparr>ta_state := AsgProvisioning, ta_updatedAt := at, ta_assignmentRevision := decimal (v + 1)\<rparr>))"
      "\<not> transactionActive db'"
      by (rule fenced_write [OF s interference_idle [OF inter] c(2) p(1,3,4)]) simp_all
    have "sameOrigin a current" by (rule found_same [OF h s interference_idle [OF inter] p(1) [unfolded have_it(2)]])
    then have same: "sameOrigin a (fr_assignment res)" "ta_intentRevision (fr_assignment res) = irev"
      "ta_state (fr_assignment res) = AsgProvisioning"
      using p(2,5) w(1) by (simp_all add: sameOrigin_def assignmentResult_def)
    have "timerCall ?d db'" using p(3) callUpdate [of ?d g] by (metis snd_conv)
    with c have "timerCalls db db'" by (meson rtranclp.rtrancl_into_rtrancl rtranclp_trans)
    then have s': "timerDbSound db'" using timerCalls_sound sound by blast
    from found_holds(1) [OF w(2,3) s'] have "holds db' (fr_assignment res)"
      using p(5) w(1) by (auto simp: holds_def sameOrigin_def assignmentResult_def)
    then show ?thesis using same w(3) s' by blast
  next
    case False
    then have "fr_status res = FulAlreadyProvisioning" using ok by blast
    moreover have "assignmentRepositoryFailure x \<noteq> FulAlreadyProvisioning" for x by (cases x) simp_all
    ultimately have p: "db' = ?r" "findAssignmentById (\<lambda>c. failing (SvcAssignment 0 c)) ?r i = assignmentResult AsgRepoOk (fr_assignment res)"
      "ta_intentRevision (fr_assignment res) = irev" "ta_state (fr_assignment res) = AsgProvisioning"
      using call
      by (auto simp: beginProvisioning_def beginProvisioningImpl_def Let_def fulfillmentResult_def
          assignmentResult_def split_beta split: if_splits)
    have "sameOrigin a (fr_assignment res)"
      by (rule found_same [OF h s interference_idle [OF inter] p(2) [unfolded have_it(2)]])
    then show ?thesis
      using p(1,3,4) s interference_idle [OF inter] found_holds(1) [OF p(2) interference_idle [OF inter] s] by blast
  qed
qed

section \<open>The intent\<close>

lemma createIntent_result:
  assumes "createIntent failing d m = (res, d')" "ni_status res = IntentOk" "ni_intent res = Some i"
  shows "sameIntentRequest i m"
  using assms
  by (auto simp: createIntent_def Let_def intentStatusResult_def intentResult_def sameIntentRequest_def
      split: if_splits option.splits)

lemma updateIntent_result:
  assumes "updateIntent failing d m tok = (res, d')" "ni_status res = IntentOk" "ni_intent res = Some i"
  shows "sameIntentRequest i m \<and> ti_state i = ti_state m"
  using assms
  by (auto simp: updateIntent_def updateIntentImpl_def updateIntentWrite_def Let_def intentStatusResult_def
      intentResult_def sameIntentRequest_def split: if_splits option.splits select_result.splits prod.splits bool.splits)

lemma sameIntentRequest_trans: "sameIntentRequest a b \<Longrightarrow> sameIntentRequest b c \<Longrightarrow> sameIntentRequest a c"
  by (simp add: sameIntentRequest_def)

lemma createIntent_put: "timerCalls db (putIntents db (snd (createIntent failing (intentView db) m)))"
  by (rule putIntents_calls, rule createIntent_writesOnce)

lemma updateIntent_put: "timerCalls db (putIntents db (snd (updateIntent failing (intentView db) m tok)))"
  unfolding updateIntent_def by (rule putIntents_calls, rule updateIntentImpl_writesOnce)

lemma submittedIntent_ok:
  assumes inter: "interference between" and call: "submittedIntent failing between db m False = (Inr i, db')"
  shows "sameIntentRequest i m \<and> timerCalls db db'"
proof -
  let ?r = "between 0 db"
  obtain created d where c: "createIntent (\<lambda>c. failing (SvcIntent 0 c)) (intentView ?r) m = (created, d)" by fastforce
  have calls: "timerCalls db (putIntents ?r d)"
    using rtranclp_trans [OF interference_calls [OF inter, of db 0] createIntent_put] c by (metis snd_conv)
  then have later: "timerCalls db (between 1 (putIntents ?r d))" by (rule interference_trans [OF inter])
  show ?thesis
    using call c calls later createIntent_result [OF c]
    by (auto simp: submittedIntent_def Let_def split: timer_intent_repository_status.splits option.splits if_splits)
qed

lemma activatedIntent_ok:
  assumes inter: "interference between" and call: "activatedIntent failing between db m at False = (Inr i, db')"
  shows "sameIntentRequest i m \<and> ti_state i = IntentActive \<and> timerCalls db db'"
proof -
  let ?r = "between 2 db"
  obtain updated d where c: "updateIntent (\<lambda>c. failing (SvcIntent 2 c)) (intentView ?r)
      (m\<lparr>ti_state := IntentActive, ti_updatedAt := at\<rparr>) (ti_intentRevision m) = (updated, d)" by fastforce
  have calls: "timerCalls db (putIntents ?r d)"
    using rtranclp_trans [OF interference_calls [OF inter, of db 2] updateIntent_put] c by (metis snd_conv)
  have same: "sameIntentRequest m m" "sameIntentRequest (m\<lparr>ti_state := IntentActive, ti_updatedAt := at\<rparr>) m"
    by (simp_all add: sameIntentRequest_def)
  show ?thesis
    using call c calls same updateIntent_result [OF c] sameIntentRequest_trans
    by (auto simp: activatedIntent_def Let_def split: timer_intent_repository_status.splits option.splits if_splits)
qed

lemma submittedAssignment_ok:
  assumes inter: "interference between" and sound: "timerDbSound db"
    and call: "submittedAssignment failing between db request i False = (Inr a, db')"
  shows "holds db' a \<and> \<not> transactionActive db' \<and> timerDbSound db'"
proof -
  let ?r = "between 3 db"
  let ?found = "findAssignmentById (\<lambda>c. failing (SvcAssignment 3 c)) ?r (aq_timerAssignmentId request)"
  have c: "timerCalls db ?r" by (rule interference_calls [OF inter])
  have s: "timerDbSound ?r" using timerCalls_sound [OF c sound] ..
  show ?thesis
  proof (cases "ra_status ?found = AsgRepoOk")
    case True
    then have "a = ra_assignment ?found \<and> db' = ?r" using call by (auto simp: submittedAssignment_def Let_def)
    then show ?thesis
      using found_holds(1) [OF findAssignmentById_result [OF True] interference_idle [OF inter] s] s
        interference_idle [OF inter] by simp
  next
    case False
    let ?between = "\<lambda>n. between (n + 4)" and ?failing = "\<lambda>c. failing (laterCall 4 c)"
    let ?q = "\<lparr>sq_timerAssignmentId = aq_timerAssignmentId request, sq_timerIntentId = ti_timerIntentId i,
        sq_expectedIntentRevision = ti_intentRevision i, sq_createdAt = aq_scheduledAt request,
        sq_candidates = aq_candidates request\<rparr>"
    obtain scheduled db1 where r: "schedulePrimary ?failing ?between ?r ?q = (scheduled, db1)" by fastforce
    have "schedulingOk scheduled" "a = sc_assignment scheduled" "db' = db1"
      using call False r by (auto simp: submittedAssignment_def Let_def split: if_splits)
    moreover have "timerDbSound db1"
      using timerCalls_sound [OF schedulePrimary_calls [OF interference_later [OF inter], of ?r ?failing 4 ?q] s] r by simp
    ultimately show ?thesis
      using schedulePrimary_answers [OF interference_later [OF inter] s r] by simp
  qed
qed

section \<open>The whole submission\<close>

lemma answer_ok:
  assumes inter: "interference between" and sound: "timerDbSound db" and have_it: "holds db a" "\<not> transactionActive db"
    and call: "answerForAssignment failing between db request i a provision = (res, db')" "applicationOk res"
  shows "ap_intent res = Some i \<and> sameOrigin a (ap_assignment res)
    \<and> ta_timerAssignmentId a = aq_timerAssignmentId request \<and> ta_timerIntentId a = ti_timerIntentId i
    \<and> ta_role a = RolePrimary \<and> ta_intentRevision (ap_assignment res) = ti_intentRevision i
    \<and> ta_state (ap_assignment res) = (case ap_status res of AppAssignmentSelected \<Rightarrow> AsgSelected
         | AppAlreadyBound \<Rightarrow> AsgBound | _ \<Rightarrow> AsgProvisioning)
    \<and> (ap_status res = AppProvisioningStarted \<longrightarrow> provision)
    \<and> holds db' (ap_assignment res) \<and> \<not> transactionActive db' \<and> timerDbSound db'"
proof -
  let ?between = "\<lambda>n. between (n + 9)" and ?failing = "\<lambda>c. failing (laterCall 9 c)"
  obtain provisioned d where p: "beginProvisioning ?failing ?between db (ta_timerAssignmentId a)
      (ta_assignmentRevision a) (ti_intentRevision i) (ta_backendGeneration a) (aq_provisioningAt request)
      = (provisioned, d)" by fastforce
  have match: "ta_timerAssignmentId a = aq_timerAssignmentId request" "ta_timerIntentId a = ti_timerIntentId i"
    "ta_intentRevision a = ti_intentRevision i" "ta_role a = RolePrimary"
    using call by (auto simp: answerForAssignment_def applicationResult_def applicationOk_def split: if_splits)
  note def = answerForAssignment_def Let_def applicationResult_def applicationOk_def
  show ?thesis
  proof (cases "ta_state a = AsgUnassigned \<or> ta_state a = AsgBound \<or> \<not> provision")
    case True
    then have "db' = db" "ap_assignment res = a" "ap_intent res = Some i"
      "ta_state a = (case ap_status res of AppAssignmentSelected \<Rightarrow> AsgSelected
         | AppAlreadyBound \<Rightarrow> AsgBound | _ \<Rightarrow> AsgProvisioning)" "ap_status res \<noteq> AppProvisioningStarted"
      using call match by (auto simp: def split: if_splits)
    then show ?thesis using match have_it sound by simp
  next
    case False
    then have r: "res = applicationResult (provisioningAnswer (fr_status provisioned)) (Some i) (fr_assignment provisioned)"
      "db' = d" using call match p by (auto simp: def)
    have ok: "fr_status provisioned = FulProvisioningStarted \<or> fr_status provisioned = FulAlreadyProvisioning"
      using call(2) r(1) by (cases "fr_status provisioned") (simp_all add: applicationResult_def applicationOk_def)
    show ?thesis
      using beginProvisioning_ok [OF interference_later [OF inter] sound have_it(1) refl p ok] ok match r False
      by (auto simp: applicationResult_def)
  qed
qed

lemma submitPrimary_stages:
  assumes call: "submitPrimary failing between db request provision False = (res, db')" "applicationOk res"
  obtains i1 db1 i db2 a db3 where
    "submittedIntent failing between db (aq_intent request) False = (Inr i1, db1)"
    "activatedIntent failing between db1 i1 (aq_activatedAt request) False = (Inr i, db2)"
    "submittedAssignment failing between db2 request i False = (Inr a, db3)"
    "answerForAssignment failing between db3 request i a provision = (res, db')"
proof -
  note def = submitPrimary_def applicationOk_def applicationResult_def
  have valid: "applicationRequestValid request" using call by (auto simp: def split: if_splits)
  have inl: "\<not> applicationOk r" if "submittedIntent failing between d m False = (Inl r, d')" for d m r d'
    using that by (auto simp: submittedIntent_def Let_def def split: timer_intent_repository_status.splits
        option.splits if_splits prod.splits)
  obtain i1 db1 where 1: "submittedIntent failing between db (aq_intent request) False = (Inr i1, db1)"
    using call valid inl by (cases "submittedIntent failing between db (aq_intent request) False")
      (auto simp: submitPrimary_def split: sum.splits)
  have inl: "\<not> applicationOk r" if "activatedIntent failing between d m at False = (Inl r, d')" for d m r d' at
    using that by (auto simp: activatedIntent_def Let_def def split: timer_intent_repository_status.splits
        option.splits if_splits prod.splits)
  obtain i db2 where 2: "activatedIntent failing between db1 i1 (aq_activatedAt request) False = (Inr i, db2)"
    using call valid 1 inl by (cases "activatedIntent failing between db1 i1 (aq_activatedAt request) False")
      (auto simp: submitPrimary_def split: sum.splits)
  have inl: "\<not> applicationOk r" if "submittedAssignment failing between d q m False = (Inl r, d')" for d m q r d'
    using that by (auto simp: submittedAssignment_def Let_def def split: if_splits prod.splits)
  obtain a db3 where 3: "submittedAssignment failing between db2 request i False = (Inr a, db3)"
    using call valid 1 2 inl by (cases "submittedAssignment failing between db2 request i False")
      (auto simp: submitPrimary_def split: sum.splits)
  have 4: "answerForAssignment failing between db3 request i a provision = (res, db')"
    using call(1) valid 1 2 3 by (simp add: submitPrimary_def)
  show thesis by (rule that [OF 1 2 3 4])
qed

lemma submitPrimary_ok:
  assumes sound: "timerDbSound db" and inter: "interference between"
    and call: "submitPrimary failing between db request provision False = (res, db')" "applicationOk res"
  obtains i where "ap_intent res = Some i" "ti_state i = IntentActive" "sameIntentRequest i (aq_intent request)"
    "ta_timerAssignmentId (ap_assignment res) = aq_timerAssignmentId request"
    "ta_timerIntentId (ap_assignment res) = ti_timerIntentId i" "ta_role (ap_assignment res) = RolePrimary"
    "ta_intentRevision (ap_assignment res) = ti_intentRevision i"
    "ta_state (ap_assignment res) = (case ap_status res of AppAssignmentSelected \<Rightarrow> AsgSelected
         | AppAlreadyBound \<Rightarrow> AsgBound | _ \<Rightarrow> AsgProvisioning)"
    "ap_status res = AppProvisioningStarted \<longrightarrow> provision"
    "holds db' (ap_assignment res)" "\<not> transactionActive db'" "timerDbSound db'"
proof -
  obtain i1 db1 i db2 a db3 where 1: "submittedIntent failing between db (aq_intent request) False = (Inr i1, db1)"
    and 2: "activatedIntent failing between db1 i1 (aq_activatedAt request) False = (Inr i, db2)"
    and 3: "submittedAssignment failing between db2 request i False = (Inr a, db3)"
    and 4: "answerForAssignment failing between db3 request i a provision = (res, db')"
    by (rule submitPrimary_stages [OF call])
  note s1 = submittedIntent_ok [OF inter 1]
  note s2 = activatedIntent_ok [OF inter 2]
  have sd: "timerDbSound db2" using timerCalls_sound sound s1 s2 by blast
  have same: "sameIntentRequest i (aq_intent request)" using s1 s2 sameIntentRequest_trans by blast
  note s3 = submittedAssignment_ok [OF inter sd 3]
  have s: "timerDbSound db3" "holds db3 a" "\<not> transactionActive db3" using s3 by simp_all
  show thesis
    using answer_ok [OF inter s 4 call(2)] same s2 that [of i] by (auto simp: sameOrigin_def)
qed

text \<open>The intent of the answer is in the store, at every later moment too.\<close>

lemma submitPrimary_intent:
  assumes inter: "interference between" "intentInterference between" and sound: "intentStoreSound (intentView db)"
    and call: "submitPrimary failing between db request provision False = (res, db')" "applicationOk res"
    and answered: "ap_intent res = Some i"
  shows "intentHeld (intentView db') i"
proof -
  obtain i1 db1 i' db2 a db3 where 1: "submittedIntent failing between db (aq_intent request) False = (Inr i1, db1)"
    and 2: "activatedIntent failing between db1 i1 (aq_activatedAt request) False = (Inr i', db2)"
    and 3: "submittedAssignment failing between db2 request i' False = (Inr a, db3)"
    and 4: "answerForAssignment failing between db3 request i' a provision = (res, db')"
    by (rule submitPrimary_stages [OF call])
  have "i' = i"
    using 4 call(2) answered
    by (auto simp: answerForAssignment_def Let_def applicationResult_def applicationOk_def split_beta split: if_splits)
  note held = activatedIntent_held [OF inter(2) submittedIntent_held [OF inter sound 1] 2]
  have "intentHeld (intentView db3) i'" using submittedAssignment_held [OF inter held, of failing request i'] 3 by simp
  from answerForAssignment_held [OF inter this, of failing request i' a provision]
  show ?thesis using 4 \<open>i' = i\<close> by simp
qed

section \<open>Samples\<close>

text \<open>The submission of an intent that is stored and scheduled already.\<close>

definition submissionRequest :: timer_intent_application_request where
  "submissionRequest =
     \<lparr>aq_intent = replicatedIntent\<lparr>ti_state := IntentDraft\<rparr>, aq_timerAssignmentId = ''a1'',
      aq_candidates = [], aq_activatedAt = 200, aq_scheduledAt = 210, aq_provisioningAt = 220\<rparr>"

definition sampleSubmitted :: "timer_intent_application_result \<times> timer_tables database" where
  "sampleSubmitted = submitAndSelectPrimary noStoreErrors quiet ownedStore submissionRequest"

lemma submission_steps:
  "applicationRequestValid submissionRequest"
  "createIntent (\<lambda>_. False) (intentView ownedStore) (aq_intent submissionRequest)
     = (intentStatusResult IntentAlreadyExists, intentView ownedStore)"
  "ti_timerIntentId (aq_intent submissionRequest) = ''i1''"
  "sameIntentRequest storedIntent (aq_intent submissionRequest)"
  "ti_state storedIntent = IntentActive"
  "ta_timerAssignmentId firstOwner = ''a1'' \<and> ta_timerIntentId firstOwner = ti_timerIntentId storedIntent
     \<and> ta_intentRevision firstOwner = ti_intentRevision storedIntent \<and> ta_role firstOwner = RolePrimary
     \<and> ta_state firstOwner = AsgSelected"
  by code_simp+

lemma putIntents_view: "putIntents db (intentView db) = db"
  by (cases db) (auto simp: putIntents_def putView_def viewOf_def visibleTables_def option.map_comp o_def
      split: option.split)

lemma sample_submitted:
  "fst sampleSubmitted = applicationResult AppAssignmentSelected (Some storedIntent) firstOwner"
proof -
  have put: "putIntents ownedStore (intentView ownedStore) = ownedStore"
    by (rule putIntents_view)
  have q: "aq_timerAssignmentId submissionRequest = ''a1''" by (simp add: submissionRequest_def)
  have 1: "submittedIntent noStoreErrors quiet ownedStore (aq_intent submissionRequest) False
      = (Inr storedIntent, ownedStore)"
    using submission_steps(2-4) replica_steps(1,4) put
    by (simp add: submittedIntent_def Let_def noStoreErrors_call intentStatusResult_def intentResult_def)
  have 2: "activatedIntent noStoreErrors quiet ownedStore storedIntent t False = (Inr storedIntent, ownedStore)" for t
    using submission_steps(5) by (simp add: activatedIntent_def)
  have 3: "submittedAssignment noStoreErrors quiet ownedStore submissionRequest storedIntent False
      = (Inr firstOwner, ownedStore)"
    using reassignment_steps(3) replica_steps(1)
    by (simp add: submittedAssignment_def Let_def noStoreErrors_call q assignmentResult_def)
  show ?thesis
    using submission_steps(1,6)
    by (simp add: sampleSubmitted_def submitAndSelectPrimary_def submitPrimary_def 1 2 3
        answerForAssignment_def q)
qed

section \<open>Property\<close>

text \<open>C14: A successful submission outside a transaction of the caller has done all its steps. Whatever other callers do between them (on
  the intents they use the intent repository), and whether the intent or the assignment was new or
  found, the answered intent is active and equal to the submitted one in every field that identifies
  it; the store answers for its identifier with that intent, or with what another caller later made
  of it along its lifecycle (same creator and creation time); the answered assignment has the requested identifier, is a primary of that intent at its
  revision and has the state the answer names, with provisioning started only if it was asked for; and
  the store answers with an assignment of that identifier, intent, epoch and role.\<close>

theorem submission_outcome:
  assumes "timerDbSound db" and "interference between"
    and "submitPrimary failing between db request provision False = (res, db')" and "applicationOk res"
    and "intentStoreSound (intentView db)" and "intentInterference between"
  shows "\<exists>intent now stored. ap_intent res = Some intent \<and> ti_state intent = IntentActive
     \<and> sameIntentRequest intent (aq_intent request)
     \<and> findIntentById noIntentErrors (intentView db') (ti_timerIntentId (aq_intent request))
         = intentResult IntentOk now
     \<and> (now = intent \<or> intentAdvances intent now)
     \<and> ta_timerAssignmentId (ap_assignment res) = aq_timerAssignmentId request
     \<and> ta_timerIntentId (ap_assignment res) = ti_timerIntentId intent
     \<and> ta_intentRevision (ap_assignment res) = ti_intentRevision intent
     \<and> ta_role (ap_assignment res) = RolePrimary
     \<and> ta_state (ap_assignment res) = (case ap_status res of AppAssignmentSelected \<Rightarrow> AsgSelected
          | AppAlreadyBound \<Rightarrow> AsgBound | _ \<Rightarrow> AsgProvisioning)
     \<and> (ap_status res = AppProvisioningStarted \<longrightarrow> provision)
     \<and> findAssignmentById noAssignmentErrors db' (aq_timerAssignmentId request)
         = assignmentResult AsgRepoOk stored
     \<and> sameOrigin (ap_assignment res) stored"
proof -
  obtain i where i: "ap_intent res = Some i" "ti_state i = IntentActive" "sameIntentRequest i (aq_intent request)"
    "ta_timerAssignmentId (ap_assignment res) = aq_timerAssignmentId request"
    "ta_timerIntentId (ap_assignment res) = ti_timerIntentId i" "ta_role (ap_assignment res) = RolePrimary"
    "ta_intentRevision (ap_assignment res) = ti_intentRevision i"
    "ta_state (ap_assignment res) = (case ap_status res of AppAssignmentSelected \<Rightarrow> AsgSelected
       | AppAlreadyBound \<Rightarrow> AsgBound | _ \<Rightarrow> AsgProvisioning)"
    "ap_status res = AppProvisioningStarted \<longrightarrow> provision"
    and e: "holds db' (ap_assignment res)" "\<not> transactionActive db'" "timerDbSound db'"
    by (rule submitPrimary_ok [OF assms(1-4)])
  have "intentHeld (intentView db') i" by (rule submitPrimary_intent [OF assms(2,6,5,3,4) i(1)])
  from intentHeld_found [OF this e(2)] obtain now where now:
    "findIntentById noIntentErrors (intentView db') (ti_timerIntentId i) = intentResult IntentOk now"
    "now = i \<or> intentAdvances i now" by blast
  have key: "ti_timerIntentId (aq_intent request) = ti_timerIntentId i" using i(3) by (simp add: sameIntentRequest_def)
  obtain b where b: "findAssignmentById noAssignmentErrors db' (ta_timerAssignmentId (ap_assignment res))
      = assignmentResult AsgRepoOk b" "sameOrigin (ap_assignment res) b"
    by (rule holds_found [OF e(1,3,2)])
  show ?thesis
    by (intro exI [of _ i] exI [of _ now] exI [of _ b] conjI) (use i b now key in simp_all)
qed

theorem submission_outcome_witness:
  "\<exists>stored. findAssignmentById noAssignmentErrors (snd sampleSubmitted) ''a1'' = assignmentResult AsgRepoOk stored
     \<and> sameOrigin firstOwner stored
     \<and> (\<exists>now. findIntentById noIntentErrors (intentView (snd sampleSubmitted)) ''i1'' = intentResult IntentOk now)"
proof -
  have "readIntent (the (intentRowOf ''i1'' (db_committed (intentView ownedStore)))) = Some storedIntent"
    "map ir_timer_intent_id (db_committed (intentView ownedStore)) = [''i1'']" "db_working ownedStore = None"
    by code_simp+
  then have sound: "intentStoreSound (intentView ownedStore)"
    by (auto simp: intentStoreSound_def intentRowsSound_def transactionFollowsBy_def viewOf_def intentRowOf_def)
  have "intentSteps (intentView db) (intentView (executeRollback False db))" for db
    using intentStepRollback [of "intentView db" False] by (simp add: viewOf_def executeRollback_def r_into_rtranclp)
  then have quiet: "intentInterference quiet" by (simp add: intentInterference_def quiet_def)
  have call: "submitPrimary noStoreErrors quiet ownedStore submissionRequest False False
      = (fst sampleSubmitted, snd sampleSubmitted)"
    by (simp add: sampleSubmitted_def submitAndSelectPrimary_def)
  have ok: "applicationOk (fst sampleSubmitted)"
    by (simp add: sample_submitted applicationOk_def applicationResult_def)
  have q: "aq_timerAssignmentId submissionRequest = ''a1''" by (simp add: submissionRequest_def)
  have a: "ap_assignment (fst sampleSubmitted) = firstOwner" by (simp add: sample_submitted applicationResult_def)
  show ?thesis
    using submission_outcome [OF ownedStore_sound quiet_interference call ok sound quiet] 
    unfolding q a submission_steps(3) by blast
qed

end
