(* ===== verification/NativeTimerOperationPayloads.thy ===== *)
theory NativeTimerOperationPayloads
  imports NativeTimerSpecification
begin

text \<open>
  The durable payloads of the native timer operations: the record an accepted create or modify
  operation stores (\<open>NativeTimerCreateOperationPayload.cpp\<close>, \<open>NativeTimerModifyOperationPayload.cpp\<close>),
  its writer, its fingerprint and its parser. The two files carry the same field scanner; it is
  modelled once, with its own digit loop, and shown to be the field reader of \<open>FieldEncoding\<close>.
  Lemmas: a text is read as a payload just when it is the one the writer produces for it, and the
  fingerprint identifies the payload up to the spelling of its two times.
\<close>

section \<open>The field scanner\<close>

text \<open>
  The loop that reads a length: what is left of the input starts at the character that stopped it.
\<close>

fun lengthLoop :: "nat \<Rightarrow> bool \<Rightarrow> string \<Rightarrow> (nat \<times> bool \<times> string) option" where
  "lengthLoop len digitSeen [] = Some (len, digitSeen, [])"
| "lengthLoop len digitSeen (ch # rest) =
     (if ch = CHR '':'' then Some (len, digitSeen, ch # rest)
      else if \<not> isDigit ch then None
      else if (size_max - digitOf ch) div 10 < len then None
      else lengthLoop (len * 10 + digitOf ch) True rest)"

definition scanField :: "string \<Rightarrow> nat \<Rightarrow> (string \<times> nat) option" where
  "scanField input position =
     (if length input \<le> position then None
      else (case lengthLoop 0 False (drop position input) of
          None \<Rightarrow> None
        | Some (len, digitSeen, rest) \<Rightarrow>
            if \<not> digitSeen \<or> rest = [] \<or> hd rest \<noteq> CHR '':'' then None
            else (let start = length input - length rest + 1
                  in if length input - start < len then None
                     else if length input \<le> start + len \<or> input ! (start + len) \<noteq> CHR ''|'' then None
                     else Some (take len (drop start input), start + len + 1))))"

lemma lengthLoop_accumulate:
  "lengthLoop len seen cs =
     (case accumulateDigits size_max len (takeWhile (\<lambda>x. x \<noteq> CHR '':'') cs) of
        None \<Rightarrow> None
      | Some v \<Rightarrow> Some (v, seen \<or> takeWhile (\<lambda>x. x \<noteq> CHR '':'') cs \<noteq> [], dropWhile (\<lambda>x. x \<noteq> CHR '':'') cs))"
  by (induction cs arbitrary: len seen) (auto split: option.split)

text \<open>The scanner is the reader of the field format.\<close>

lemma scanField_readField: "scanField input position = readField input position"
proof (cases "position < length input")
  case False
  then show ?thesis by (simp add: scanField_def readField_def)
next
  case True
  let ?t = "drop position input" and ?p = "\<lambda>x. x \<noteq> CHR '':''"
  show ?thesis
  proof (cases "CHR '':'' \<in> set ?t")
    case False
    then have "dropWhile ?p ?t = []" by (auto simp: dropWhile_eq_Nil_conv)
    then show ?thesis
      using False True
      by (cases "accumulateDigits size_max 0 (takeWhile ?p ?t)")
        (simp_all add: scanField_def readField_def readLength_def findFrom_def lengthLoop_accumulate)
  next
    case colon: True
    let ?n = "length (takeWhile ?p ?t)"
    have split: "?t = takeWhile ?p ?t @ dropWhile ?p ?t" by simp
    have ne: "dropWhile ?p ?t \<noteq> []" using colon by (auto simp: dropWhile_eq_Nil_conv)
    then have hd': "hd (dropWhile ?p ?t) = CHR '':''" using hd_dropWhile [OF ne] by simp
    have "length ?t = ?n + length (dropWhile ?p ?t)" by (metis length_append split)
    then have len: "length (dropWhile ?p ?t) = length input - position - ?n" by simp
    have le: "?n \<le> length input - position" using length_takeWhile_le [of ?p ?t] by simp
    have start: "length input - length (dropWhile ?p ?t) = position + ?n" using len le True by simp
    have tk: "take ?n ?t = takeWhile ?p ?t" by (metis append_eq_conv_conj split)
    show ?thesis
      using True colon ne hd' tk
      by (cases "accumulateDigits size_max 0 (takeWhile ?p ?t)")
        (simp_all add: scanField_def readField_def readLength_def findFrom_def lengthLoop_accumulate start Let_def)
  qed
qed

text \<open>The loop that collects the fields, with its bound on their number.\<close>

function scanFields :: "nat \<Rightarrow> string \<Rightarrow> nat \<Rightarrow> string list \<Rightarrow> string list option" where
  "scanFields maximum input position collected =
     (if position < length input
      then (case scanField input position of
              None \<Rightarrow> None
            | Some (value, position') \<Rightarrow>
                if length (collected @ [value]) > maximum then None
                else scanFields maximum input position' (collected @ [value]))
      else Some collected)"
  by pat_completeness auto

termination
  by (relation "measure (\<lambda>(m, input, position, collected). length input - position)")
    (auto simp: scanField_readField dest: readField_progress)

declare scanFields.simps [simp del]

lemma scanFields_fieldsText:
  assumes "\<forall>v \<in> set vs. length v \<le> size_max" "length collected + length vs \<le> maximum"
  shows "scanFields maximum (pre @ fieldsText vs) (length pre) collected = Some (collected @ vs)"
  using assms
proof (induction vs arbitrary: pre collected)
  case Nil
  then show ?case by (simp add: scanFields.simps)
next
  case (Cons v vs)
  have "readField (pre @ field v @ fieldsText vs) (length pre) = Some (v, length (pre @ field v))"
    using Cons.prems by (simp add: readField_field)
  moreover have "scanFields maximum ((pre @ field v) @ fieldsText vs) (length (pre @ field v)) (collected @ [v])
      = Some ((collected @ [v]) @ vs)"
    using Cons.prems by (intro Cons.IH) simp_all
  ultimately show ?case
    using Cons.prems by (subst scanFields.simps) (simp add: scanField_readField)
qed

section \<open>Tokens\<close>

definition validIdentity :: "string \<Rightarrow> bool" where
  "validIdentity value \<longleftrightarrow> value \<noteq> [] \<and> length value \<le> 160"

definition parseUnsigned :: "string \<Rightarrow> uint64 option" where
  "parseUnsigned token =
     (if token = [] then None
      else (case accumulateDigits size_max 0 token of
              None \<Rightarrow> None
            | Some value \<Rightarrow> if value > 0 then Some (of_nat value) else None))"

fun smallIntLoop :: "int \<Rightarrow> string \<Rightarrow> int option" where
  "smallIntLoop parsed [] = Some parsed"
| "smallIntLoop parsed (ch # rest) =
     (if \<not> isDigit ch then None else smallIntLoop (parsed * 10 + int (digitOf ch)) rest)"

text \<open>The create parser admits three characters, the modify parser two.\<close>

definition parseSmallInt :: "nat \<Rightarrow> string \<Rightarrow> int option" where
  "parseSmallInt maximum token =
     (if token = [] \<or> length token > maximum then None
      else (case smallIntLoop 0 token of
              None \<Rightarrow> None
            | Some parsed \<Rightarrow> if parsed < 0 \<or> parsed > 99 then None else Some parsed))"

lemma parseUnsigned_decimal [codec_simps]:
  "parseUnsigned (decimal (unat w)) = (if w = 0 then None else Some w)" for w :: uint64
proof -
  have "unat w < 2 ^ 64" using unsigned_less [of w, where 'a = nat] by simp
  then have "accumulateDigits size_max 0 (decimal (unat w)) = Some (unat w)"
    by (intro accumulateDigits_decimal) simp_all
  then show ?thesis by (simp add: parseUnsigned_def unat_gt_0)
qed

lemma smallIntLoop_append:
  "smallIntLoop a (xs @ ys) = Option.bind (smallIntLoop a xs) (\<lambda>b. smallIntLoop b ys)"
  by (induction xs arbitrary: a) auto

lemma smallIntLoop_decimal: "smallIntLoop 0 (decimal n) = Some (int n)"
proof (induction n rule: decimal.induct)
  case (1 n)
  then show ?case
    by (cases "n < 10") (simp_all add: decimal.simps [of n] smallIntLoop_append zdiv_int zmod_int)
qed

lemma parseSmallInt_to_string [codec_simps]:
  "0 \<le> i \<Longrightarrow> i \<le> 99 \<Longrightarrow> 2 \<le> m \<Longrightarrow> parseSmallInt m (to_string i) = Some i"
  using length_to_string_small [of i] smallIntLoop_decimal [of "nat i"]
  by (simp add: parseSmallInt_def to_string_def)

section \<open>Create payloads\<close>

record native_timer_create_operation_payload =
  cp_timerAssignmentId :: string
  cp_expectedAssignmentRevision :: string
  cp_expectedIntentRevision :: string
  cp_assignmentEpoch :: uint64
  cp_nativeTimerBindingId :: string
  cp_backendId :: string
  cp_backendGeneration :: uint64
  cp_expectedSpecification :: native_timer_specification

definition nativeTimerCreateOperationPayloadValid ::
  "native_timer_create_operation_payload \<Rightarrow> bool" where
  "nativeTimerCreateOperationPayloadValid payload \<longleftrightarrow>
     validIdentity (cp_timerAssignmentId payload)
     \<and> validIdentity (cp_expectedAssignmentRevision payload)
     \<and> validIdentity (cp_expectedIntentRevision payload)
     \<and> cp_assignmentEpoch payload > 0
     \<and> validIdentity (cp_nativeTimerBindingId payload)
     \<and> validIdentity (cp_backendId payload)
     \<and> cp_backendGeneration payload > 0
     \<and> nativeTimerSpecificationValid (cp_expectedSpecification payload)"

text \<open>The times are written padded to four digits.\<close>

definition createPayloadFields :: "native_timer_create_operation_payload \<Rightarrow> string list" where
  "createPayloadFields payload =
     (let specification = cp_expectedSpecification payload
      in [cp_timerAssignmentId payload, cp_expectedAssignmentRevision payload,
          cp_expectedIntentRevision payload, decimal (unat (cp_assignmentEpoch payload)),
          cp_nativeTimerBindingId payload, cp_backendId payload,
          decimal (unat (cp_backendGeneration payload)),
          ns_channelId specification, ns_title specification, ns_directory specification,
          ns_day specification, ns_weekdays specification,
          normalizedHhmm (ns_startTime specification), normalizedHhmm (ns_endTime specification),
          to_string (ns_priority specification), to_string (ns_lifetime specification),
          boolText (ns_enabled specification), boolText (ns_vps specification)])"

definition createCanonicalBody :: "native_timer_create_operation_payload \<Rightarrow> string" where
  "createCanonicalBody payload =
     (if \<not> nativeTimerCreateOperationPayloadValid payload then []
      else fieldsText (createPayloadFields payload))"

definition createPayloadPrefix :: string where
  "createPayloadPrefix = ''native-timer-create-operation-payload/1|''"

definition serializeNativeTimerCreateOperationPayload ::
  "native_timer_create_operation_payload \<Rightarrow> string" where
  "serializeNativeTimerCreateOperationPayload payload =
     (let body = createCanonicalBody payload
      in if body = [] then [] else createPayloadPrefix @ body)"

definition nativeTimerCreateOperationPayloadFingerprint ::
  "native_timer_create_operation_payload \<Rightarrow> string" where
  "nativeTimerCreateOperationPayloadFingerprint payload =
     (let body = createCanonicalBody payload
      in if body = [] then []
         else ''native-timer-create-operation-payload-fingerprint/1|'' @ body)"

text \<open>\<open>None\<close> is the result \<open>false\<close>.\<close>

definition parseNativeTimerCreateOperationPayload ::
  "string \<Rightarrow> native_timer_create_operation_payload option" where
  "parseNativeTimerCreateOperationPayload serialized =
     (if take (length createPayloadPrefix) serialized \<noteq> createPayloadPrefix then None
      else (case scanFields 18 serialized (length createPayloadPrefix) [] of
          Some [timerAssignmentId, expectedAssignmentRevision, expectedIntentRevision, epoch,
                nativeTimerBindingId, backendId, generation, channelId, title, directory, day,
                weekdays, startTime, endTime, priority, lifetime, enabled, vps] \<Rightarrow>
            (case (parseUnsigned epoch, parseUnsigned generation, parseSmallInt 3 priority,
                   parseSmallInt 3 lifetime, parseBool enabled, parseBool vps) of
               (Some e, Some g, Some p, Some l, Some en, Some v) \<Rightarrow>
                 (let parsed =
                    \<lparr>cp_timerAssignmentId = timerAssignmentId,
                     cp_expectedAssignmentRevision = expectedAssignmentRevision,
                     cp_expectedIntentRevision = expectedIntentRevision, cp_assignmentEpoch = e,
                     cp_nativeTimerBindingId = nativeTimerBindingId, cp_backendId = backendId,
                     cp_backendGeneration = g,
                     cp_expectedSpecification =
                       \<lparr>ns_channelId = channelId, ns_title = title, ns_directory = directory,
                        ns_day = day, ns_weekdays = weekdays, ns_startTime = startTime,
                        ns_endTime = endTime, ns_priority = p, ns_lifetime = l,
                        ns_enabled = en, ns_vps = v\<rparr>\<rparr>
                  in if \<not> nativeTimerCreateOperationPayloadValid parsed then None
                     else if serializeNativeTimerCreateOperationPayload parsed \<noteq> serialized then None
                     else Some parsed)
             | _ \<Rightarrow> None)
        | _ \<Rightarrow> None))"

section \<open>Modify payloads\<close>

datatype native_timer_modify_kind = ModifyUpdate | ModifyToggle

fun nativeTimerModifyKindName :: "native_timer_modify_kind \<Rightarrow> string" where
  "nativeTimerModifyKindName ModifyUpdate = ''update''"
| "nativeTimerModifyKindName ModifyToggle = ''toggle''"

definition kindValue :: "string \<Rightarrow> native_timer_modify_kind option" where
  "kindValue token =
     (if token = ''update'' then Some ModifyUpdate
      else if token = ''toggle'' then Some ModifyToggle else None)"

record native_timer_modify_operation_payload =
  up_kind :: native_timer_modify_kind
  up_timerAssignmentId :: string
  up_expectedAssignmentRevision :: string
  up_expectedIntentRevision :: string
  up_assignmentEpoch :: uint64
  up_nativeTimerBindingId :: string
  up_expectedBindingRevision :: string
  up_backendId :: string
  up_backendGeneration :: uint64
  up_backendNativeTimerId :: string
  up_expectedCurrentFingerprint :: string
  up_expectedSpecification :: native_timer_specification

definition nativeTimerModifyOperationPayloadValid ::
  "native_timer_modify_operation_payload \<Rightarrow> bool" where
  "nativeTimerModifyOperationPayloadValid payload \<longleftrightarrow>
     nativeTimerModifyKindName (up_kind payload) \<noteq> ''invalid''
     \<and> validIdentity (up_timerAssignmentId payload)
     \<and> validIdentity (up_expectedAssignmentRevision payload)
     \<and> validIdentity (up_expectedIntentRevision payload)
     \<and> up_assignmentEpoch payload > 0
     \<and> validIdentity (up_nativeTimerBindingId payload)
     \<and> validIdentity (up_expectedBindingRevision payload)
     \<and> validIdentity (up_backendId payload)
     \<and> up_backendGeneration payload > 0
     \<and> validIdentity (up_backendNativeTimerId payload)
     \<and> up_expectedCurrentFingerprint payload \<noteq> []
     \<and> length (up_expectedCurrentFingerprint payload) \<le> 4096
     \<and> nativeTimerSpecificationValid (up_expectedSpecification payload)"

definition modifyPayloadFields :: "native_timer_modify_operation_payload \<Rightarrow> string list" where
  "modifyPayloadFields payload =
     (let specification = up_expectedSpecification payload
      in [nativeTimerModifyKindName (up_kind payload), up_timerAssignmentId payload,
          up_expectedAssignmentRevision payload, up_expectedIntentRevision payload,
          decimal (unat (up_assignmentEpoch payload)), up_nativeTimerBindingId payload,
          up_expectedBindingRevision payload, up_backendId payload,
          decimal (unat (up_backendGeneration payload)), up_backendNativeTimerId payload,
          up_expectedCurrentFingerprint payload,
          ns_channelId specification, ns_title specification, ns_directory specification,
          ns_day specification, ns_weekdays specification,
          normalizedHhmm (ns_startTime specification), normalizedHhmm (ns_endTime specification),
          to_string (ns_priority specification), to_string (ns_lifetime specification),
          boolText (ns_enabled specification), boolText (ns_vps specification)])"

definition modifyCanonical :: "native_timer_modify_operation_payload \<Rightarrow> string" where
  "modifyCanonical payload =
     (if \<not> nativeTimerModifyOperationPayloadValid payload then []
      else fieldsText (modifyPayloadFields payload))"

definition modifyPayloadPrefix :: string where
  "modifyPayloadPrefix = ''native-timer-modify-operation-payload/1|''"

definition serializeNativeTimerModifyOperationPayload ::
  "native_timer_modify_operation_payload \<Rightarrow> string" where
  "serializeNativeTimerModifyOperationPayload payload =
     (let body = modifyCanonical payload in if body = [] then [] else modifyPayloadPrefix @ body)"

definition nativeTimerModifyOperationPayloadFingerprint ::
  "native_timer_modify_operation_payload \<Rightarrow> string" where
  "nativeTimerModifyOperationPayloadFingerprint payload =
     (let body = modifyCanonical payload
      in if body = [] then []
         else ''native-timer-modify-operation-payload-fingerprint/1|'' @ body)"

definition parseNativeTimerModifyOperationPayload ::
  "string \<Rightarrow> native_timer_modify_operation_payload option" where
  "parseNativeTimerModifyOperationPayload serialized =
     (if take (length modifyPayloadPrefix) serialized \<noteq> modifyPayloadPrefix then None
      else (case scanFields 22 serialized (length modifyPayloadPrefix) [] of
          Some [kind, timerAssignmentId, expectedAssignmentRevision, expectedIntentRevision, epoch,
                nativeTimerBindingId, expectedBindingRevision, backendId, generation,
                backendNativeTimerId, expectedCurrentFingerprint, channelId, title, directory, day,
                weekdays, startTime, endTime, priority, lifetime, enabled, vps] \<Rightarrow>
            (case (kindValue kind, parseUnsigned epoch, parseUnsigned generation,
                   parseSmallInt 2 priority, parseSmallInt 2 lifetime, parseBool enabled,
                   parseBool vps) of
               (Some k, Some e, Some g, Some p, Some l, Some en, Some v) \<Rightarrow>
                 (let parsed =
                    \<lparr>up_kind = k, up_timerAssignmentId = timerAssignmentId,
                     up_expectedAssignmentRevision = expectedAssignmentRevision,
                     up_expectedIntentRevision = expectedIntentRevision, up_assignmentEpoch = e,
                     up_nativeTimerBindingId = nativeTimerBindingId,
                     up_expectedBindingRevision = expectedBindingRevision, up_backendId = backendId,
                     up_backendGeneration = g, up_backendNativeTimerId = backendNativeTimerId,
                     up_expectedCurrentFingerprint = expectedCurrentFingerprint,
                     up_expectedSpecification =
                       \<lparr>ns_channelId = channelId, ns_title = title, ns_directory = directory,
                        ns_day = day, ns_weekdays = weekdays, ns_startTime = startTime,
                        ns_endTime = endTime, ns_priority = p, ns_lifetime = l,
                        ns_enabled = en, ns_vps = v\<rparr>\<rparr>
                  in if \<not> nativeTimerModifyOperationPayloadValid parsed
                       \<or> serializeNativeTimerModifyOperationPayload parsed \<noteq> serialized then None
                     else Some parsed)
             | _ \<Rightarrow> None)
        | _ \<Rightarrow> None))"

section \<open>Reading what was written\<close>

lemma padHhmm_same: "length t = 4 \<Longrightarrow> padHhmm t = t"
  by (simp add: padHhmm_def)

lemma padded_fixed: "padHhmm t = t" if "normalizedHhmm t = t"
  using that by (simp add: normalizedHhmm_def)

definition canonicalCreatePayload ::
  "native_timer_create_operation_payload \<Rightarrow> native_timer_create_operation_payload" where
  "canonicalCreatePayload p =
     p\<lparr>cp_expectedSpecification := canonicalSpecification (cp_expectedSpecification p)\<rparr>"

definition canonicalModifyPayload ::
  "native_timer_modify_operation_payload \<Rightarrow> native_timer_modify_operation_payload" where
  "canonicalModifyPayload p =
     p\<lparr>up_expectedSpecification := canonicalSpecification (up_expectedSpecification p)\<rparr>"

lemma createPayloadFields_canon:
  "createPayloadFields p = createPayloadFields q \<longleftrightarrow> canonicalCreatePayload p = canonicalCreatePayload q"
  by (cases p; cases q; cases "cp_expectedSpecification p"; cases "cp_expectedSpecification q")
    (auto simp: createPayloadFields_def canonicalCreatePayload_def canonicalSpecification_def
      normalizedHhmm_def Let_def word_unat_eq_iff [symmetric])

lemma modifyKindName_inject [simp]: "nativeTimerModifyKindName a = nativeTimerModifyKindName b \<longleftrightarrow> a = b"
  by (cases a; cases b) simp_all

lemma modifyPayloadFields_canon:
  "modifyPayloadFields p = modifyPayloadFields q \<longleftrightarrow> canonicalModifyPayload p = canonicalModifyPayload q"
  by (cases p; cases q; cases "up_expectedSpecification p"; cases "up_expectedSpecification q")
    (auto simp: modifyPayloadFields_def canonicalModifyPayload_def canonicalSpecification_def
      normalizedHhmm_def Let_def word_unat_eq_iff [symmetric])

lemma fieldsText_Nil_iff [simp]: "fieldsText vs = [] \<longleftrightarrow> vs = []"
  by (cases vs) simp_all

lemma payloadFields_ne [simp]: "createPayloadFields p \<noteq> []" "modifyPayloadFields q \<noteq> []"
  by (simp_all add: createPayloadFields_def modifyPayloadFields_def Let_def)

interpretation create_text: fingerprint_scheme nativeTimerCreateOperationPayloadValid
  createPayloadPrefix createPayloadFields canonicalCreatePayload
  serializeNativeTimerCreateOperationPayload
  by unfold_locales (simp_all add: serializeNativeTimerCreateOperationPayload_def
      createCanonicalBody_def createPayloadFields_canon createPayloadPrefix_def Let_def)

interpretation create_fp: fingerprint_scheme nativeTimerCreateOperationPayloadValid
  "''native-timer-create-operation-payload-fingerprint/1|''" createPayloadFields
  canonicalCreatePayload nativeTimerCreateOperationPayloadFingerprint
  by unfold_locales (simp_all add: nativeTimerCreateOperationPayloadFingerprint_def
      createCanonicalBody_def createPayloadFields_canon Let_def)

interpretation modify_text: fingerprint_scheme nativeTimerModifyOperationPayloadValid
  modifyPayloadPrefix modifyPayloadFields canonicalModifyPayload
  serializeNativeTimerModifyOperationPayload
  by unfold_locales (simp_all add: serializeNativeTimerModifyOperationPayload_def
      modifyCanonical_def modifyPayloadFields_canon modifyPayloadPrefix_def Let_def)

interpretation modify_fp: fingerprint_scheme nativeTimerModifyOperationPayloadValid
  "''native-timer-modify-operation-payload-fingerprint/1|''" modifyPayloadFields
  canonicalModifyPayload nativeTimerModifyOperationPayloadFingerprint
  by unfold_locales (simp_all add: nativeTimerModifyOperationPayloadFingerprint_def
      modifyCanonical_def modifyPayloadFields_canon Let_def)

lemma length_decimal_le: "0 < n \<Longrightarrow> length (decimal n) \<le> n"
proof (induction n rule: decimal.induct)
  case (1 n)
  show ?case
  proof (cases "n < 10")
    case True
    then show ?thesis using "1.prems" by (simp add: decimal.simps [of n])
  next
    case False
    then have "length (decimal (n div 10)) \<le> n div 10" using "1.IH" by simp
    then show ?thesis using False by (simp add: decimal.simps [of n])
  qed
qed

lemma length_decimal_word: "length (decimal (unat w)) \<le> size_max" if "w > 0" for w :: uint64
proof -
  have "unat w < 2 ^ 64" using unsigned_less [of w, where 'a = nat] by simp
  moreover have "0 < unat w" using that by (simp add: unat_gt_0 word_neq_0_conv)
  ultimately show ?thesis using length_decimal_le [of "unat w"] by simp
qed

lemma validHhmm_padded:
  assumes "validHhmm t"
  shows "validHhmm (padHhmm t)" and "padHhmm (padHhmm t) = padHhmm t" and "length (padHhmm t) = 4"
proof -
  have l: "length t \<le> 4" using validHhmm_length [OF assms] .
  show 4: "length (padHhmm t) = 4" using length_padHhmm [OF l] .
  show p: "padHhmm (padHhmm t) = padHhmm t" by (rule padHhmm_same [OF 4])
  have d: "list_all isDigit (padHhmm t)"
    using assms by (auto simp: validHhmm_def padHhmm_def list_all_iff isDigit_def split: if_splits)
  have "padHhmm t \<noteq> []" using 4 by auto
  then show "validHhmm (padHhmm t)"
    using assms d 4 p by (auto simp: validHhmm_def Let_def split: if_splits)
qed

lemma specification_padded:
  assumes "nativeTimerSpecificationValid s"
  shows "nativeTimerSpecificationValid (canonicalSpecification s)"
    and "canonicalSpecification (canonicalSpecification s) = canonicalSpecification s"
  using assms
  by (simp_all add: nativeTimerSpecificationValid_def canonicalSpecification_def validHhmm_padded)

text \<open>The last eleven fields of either payload.\<close>

lemma specificationFields_bounded:
  assumes "nativeTimerSpecificationValid s"
  shows "\<forall>v \<in> set (specificationFields s). length v \<le> size_max"
  using assms length_to_string_small [of "ns_priority s"] length_to_string_small [of "ns_lifetime s"]
  by (auto simp: nativeTimerSpecificationValid_def specificationFields_def boolText_def
      nonEmptyBounded_def bounded_def validWeekdays_def normalizedHhmm_def validHhmm_padded)

lemma createPayload_split:
  "createPayloadFields p = take 7 (createPayloadFields p) @ specificationFields (cp_expectedSpecification p)"
  by (simp add: createPayloadFields_def specificationFields_def Let_def)

lemma modifyPayload_split:
  "modifyPayloadFields p = take 11 (modifyPayloadFields p) @ specificationFields (up_expectedSpecification p)"
  by (simp add: modifyPayloadFields_def specificationFields_def Let_def)

lemma createPayload_scanned:
  assumes "nativeTimerCreateOperationPayloadValid p"
  shows "scanFields 18 (serializeNativeTimerCreateOperationPayload p) (length createPayloadPrefix) []
      = Some (createPayloadFields p)"
proof -
  have "\<forall>v \<in> set (take 7 (createPayloadFields p)). length v \<le> size_max"
    using assms
    by (auto simp: createPayloadFields_def Let_def nativeTimerCreateOperationPayloadValid_def validIdentity_def
        length_decimal_word)
  moreover have "\<forall>v \<in> set (specificationFields (cp_expectedSpecification p)). length v \<le> size_max"
    using assms by (intro specificationFields_bounded) (simp add: nativeTimerCreateOperationPayloadValid_def)
  ultimately have "\<forall>v \<in> set (createPayloadFields p). length v \<le> size_max"
    by (subst createPayload_split) auto
  moreover have "length (createPayloadFields p) = 18" by (simp add: createPayloadFields_def Let_def)
  ultimately show ?thesis
    using scanFields_fieldsText [of "createPayloadFields p" "[]" 18 createPayloadPrefix] assms
    by (simp add: create_text.fingerprint_eq)
qed

lemma modifyKindName_bounds [simp]: "length (nativeTimerModifyKindName k) = 6"
  "nativeTimerModifyKindName k \<noteq> ''invalid''"
  by (cases k; simp)+

lemma kindValue_name [simp]: "kindValue (nativeTimerModifyKindName k) = Some k"
  by (cases k) (simp_all add: kindValue_def)

lemma modifyPayload_scanned:
  assumes "nativeTimerModifyOperationPayloadValid p"
  shows "scanFields 22 (serializeNativeTimerModifyOperationPayload p) (length modifyPayloadPrefix) []
      = Some (modifyPayloadFields p)"
proof -
  have "\<forall>v \<in> set (take 11 (modifyPayloadFields p)). length v \<le> size_max"
    using assms
    by (auto simp: modifyPayloadFields_def Let_def nativeTimerModifyOperationPayloadValid_def validIdentity_def
        length_decimal_word)
  moreover have "\<forall>v \<in> set (specificationFields (up_expectedSpecification p)). length v \<le> size_max"
    using assms by (intro specificationFields_bounded) (simp add: nativeTimerModifyOperationPayloadValid_def)
  ultimately have "\<forall>v \<in> set (modifyPayloadFields p). length v \<le> size_max"
    by (subst modifyPayload_split) auto
  moreover have "length (modifyPayloadFields p) = 22" by (simp add: modifyPayloadFields_def Let_def)
  ultimately show ?thesis
    using scanFields_fieldsText [of "modifyPayloadFields p" "[]" 22 modifyPayloadPrefix] assms
    by (simp add: modify_text.fingerprint_eq)
qed

lemma createPayload_canonical:
  assumes "nativeTimerCreateOperationPayloadValid p"
  shows "nativeTimerCreateOperationPayloadValid (canonicalCreatePayload p)"
    and "serializeNativeTimerCreateOperationPayload (canonicalCreatePayload p)
      = serializeNativeTimerCreateOperationPayload p"
proof -
  have s: "nativeTimerSpecificationValid (cp_expectedSpecification p)"
    using assms by (simp add: nativeTimerCreateOperationPayloadValid_def)
  show v: "nativeTimerCreateOperationPayloadValid (canonicalCreatePayload p)"
    using assms specification_padded [OF s]
    by (simp add: nativeTimerCreateOperationPayloadValid_def canonicalCreatePayload_def)
  show "serializeNativeTimerCreateOperationPayload (canonicalCreatePayload p)
      = serializeNativeTimerCreateOperationPayload p"
    using specification_padded [OF s] create_text.fp_eq_iff [OF v assms] by (simp add: canonicalCreatePayload_def)
qed

lemma modifyPayload_canonical:
  assumes "nativeTimerModifyOperationPayloadValid p"
  shows "nativeTimerModifyOperationPayloadValid (canonicalModifyPayload p)"
    and "serializeNativeTimerModifyOperationPayload (canonicalModifyPayload p)
      = serializeNativeTimerModifyOperationPayload p"
proof -
  have s: "nativeTimerSpecificationValid (up_expectedSpecification p)"
    using assms by (simp add: nativeTimerModifyOperationPayloadValid_def)
  show v: "nativeTimerModifyOperationPayloadValid (canonicalModifyPayload p)"
    using assms specification_padded [OF s]
    by (simp add: nativeTimerModifyOperationPayloadValid_def canonicalModifyPayload_def)
  show "serializeNativeTimerModifyOperationPayload (canonicalModifyPayload p)
      = serializeNativeTimerModifyOperationPayload p"
    using specification_padded [OF s] modify_text.fp_eq_iff [OF v assms] by (simp add: canonicalModifyPayload_def)
qed

lemma specificationNumbers:
  assumes "nativeTimerSpecificationValid s" "2 \<le> m"
  shows "parseSmallInt m (to_string (ns_priority s)) = Some (ns_priority s)"
    "parseSmallInt m (to_string (ns_lifetime s)) = Some (ns_lifetime s)"
  using assms by (simp_all add: nativeTimerSpecificationValid_def codec_simps)

lemma parse_serialized_create:
  assumes "nativeTimerCreateOperationPayloadValid p"
  shows "parseNativeTimerCreateOperationPayload (serializeNativeTimerCreateOperationPayload p)
      = Some (canonicalCreatePayload p)"
proof -
  let ?s = "cp_expectedSpecification p"
  have prefix: "take (length createPayloadPrefix) (serializeNativeTimerCreateOperationPayload p) = createPayloadPrefix"
    using assms by (simp add: create_text.fingerprint_eq)
  have s: "nativeTimerSpecificationValid ?s" and w: "cp_assignmentEpoch p \<noteq> 0" "cp_backendGeneration p \<noteq> 0"
    using assms by (simp_all add: nativeTimerCreateOperationPayloadValid_def word_neq_0_conv)
  have eta: "\<lparr>cp_timerAssignmentId = cp_timerAssignmentId p,
      cp_expectedAssignmentRevision = cp_expectedAssignmentRevision p,
      cp_expectedIntentRevision = cp_expectedIntentRevision p, cp_assignmentEpoch = cp_assignmentEpoch p,
      cp_nativeTimerBindingId = cp_nativeTimerBindingId p, cp_backendId = cp_backendId p,
      cp_backendGeneration = cp_backendGeneration p,
      cp_expectedSpecification = \<lparr>ns_channelId = ns_channelId ?s, ns_title = ns_title ?s,
        ns_directory = ns_directory ?s, ns_day = ns_day ?s, ns_weekdays = ns_weekdays ?s,
        ns_startTime = normalizedHhmm (ns_startTime ?s), ns_endTime = normalizedHhmm (ns_endTime ?s),
        ns_priority = ns_priority ?s, ns_lifetime = ns_lifetime ?s, ns_enabled = ns_enabled ?s,
        ns_vps = ns_vps ?s\<rparr>\<rparr> = canonicalCreatePayload p"
    by (cases p; cases ?s) (simp add: canonicalCreatePayload_def canonicalSpecification_def normalizedHhmm_def)
  show ?thesis
    using createPayload_canonical [OF assms] createPayload_scanned [OF assms] prefix w specificationNumbers [OF s]
    by (simp add: parseNativeTimerCreateOperationPayload_def createPayloadFields_def Let_def codec_simps eta)
qed

lemma parse_serialized_modify:
  assumes "nativeTimerModifyOperationPayloadValid p"
  shows "parseNativeTimerModifyOperationPayload (serializeNativeTimerModifyOperationPayload p)
      = Some (canonicalModifyPayload p)"
proof -
  let ?s = "up_expectedSpecification p"
  have prefix: "take (length modifyPayloadPrefix) (serializeNativeTimerModifyOperationPayload p) = modifyPayloadPrefix"
    using assms by (simp add: modify_text.fingerprint_eq)
  have s: "nativeTimerSpecificationValid ?s" and w: "up_assignmentEpoch p \<noteq> 0" "up_backendGeneration p \<noteq> 0"
    using assms by (simp_all add: nativeTimerModifyOperationPayloadValid_def word_neq_0_conv)
  have eta: "\<lparr>up_kind = up_kind p, up_timerAssignmentId = up_timerAssignmentId p,
      up_expectedAssignmentRevision = up_expectedAssignmentRevision p,
      up_expectedIntentRevision = up_expectedIntentRevision p, up_assignmentEpoch = up_assignmentEpoch p,
      up_nativeTimerBindingId = up_nativeTimerBindingId p,
      up_expectedBindingRevision = up_expectedBindingRevision p, up_backendId = up_backendId p,
      up_backendGeneration = up_backendGeneration p, up_backendNativeTimerId = up_backendNativeTimerId p,
      up_expectedCurrentFingerprint = up_expectedCurrentFingerprint p,
      up_expectedSpecification = \<lparr>ns_channelId = ns_channelId ?s, ns_title = ns_title ?s,
        ns_directory = ns_directory ?s, ns_day = ns_day ?s, ns_weekdays = ns_weekdays ?s,
        ns_startTime = normalizedHhmm (ns_startTime ?s), ns_endTime = normalizedHhmm (ns_endTime ?s),
        ns_priority = ns_priority ?s, ns_lifetime = ns_lifetime ?s, ns_enabled = ns_enabled ?s,
        ns_vps = ns_vps ?s\<rparr>\<rparr> = canonicalModifyPayload p"
    by (cases p; cases ?s) (simp add: canonicalModifyPayload_def canonicalSpecification_def normalizedHhmm_def)
  show ?thesis
    using modifyPayload_canonical [OF assms] modifyPayload_scanned [OF assms] prefix w specificationNumbers [OF s]
    by (simp add: parseNativeTimerModifyOperationPayload_def modifyPayloadFields_def Let_def codec_simps eta)
qed

lemma parse_create_inverse:
  assumes "parseNativeTimerCreateOperationPayload e = Some p"
  shows "nativeTimerCreateOperationPayloadValid p \<and> serializeNativeTimerCreateOperationPayload p = e"
  using assms
  by (auto simp: parseNativeTimerCreateOperationPayload_def Let_def
      split: if_splits option.splits list.splits)

lemma parse_modify_inverse:
  assumes "parseNativeTimerModifyOperationPayload e = Some p"
  shows "nativeTimerModifyOperationPayloadValid p \<and> serializeNativeTimerModifyOperationPayload p = e"
  using assms
  by (auto simp: parseNativeTimerModifyOperationPayload_def Let_def
      split: if_splits option.splits list.splits)

section \<open>Property\<close>

lemma not_serialized:
  "\<not> nativeTimerCreateOperationPayloadValid p \<Longrightarrow>
     parseNativeTimerCreateOperationPayload (serializeNativeTimerCreateOperationPayload p) = None"
  "\<not> nativeTimerModifyOperationPayloadValid u \<Longrightarrow>
     parseNativeTimerModifyOperationPayload (serializeNativeTimerModifyOperationPayload u) = None"
  by (simp_all add: serializeNativeTimerCreateOperationPayload_def createCanonicalBody_def
      serializeNativeTimerModifyOperationPayload_def modifyCanonical_def
      parseNativeTimerCreateOperationPayload_def createPayloadPrefix_def
      parseNativeTimerModifyOperationPayload_def modifyPayloadPrefix_def)

text \<open>C15: A stored create or modify payload can be read in one way only: the parser accepts a text
  with a value exactly when the value is valid, its two times are spelled with four digits, and the
  text is the one the writer produces for it. The text written for a valid payload is read back as
  that payload with its two times padded to four digits, what is written for an invalid one is not
  read at all. So what is dispatched from the durable record is the payload that was accepted, up to
  the padding of the times, and no second text stands for it.\<close>

theorem operation_payload_text:
  "(parseNativeTimerCreateOperationPayload e = Some p \<longleftrightarrow>
      nativeTimerCreateOperationPayloadValid p \<and> canonicalCreatePayload p = p
      \<and> e = serializeNativeTimerCreateOperationPayload p)
   \<and> (parseNativeTimerModifyOperationPayload e = Some u \<longleftrightarrow>
      nativeTimerModifyOperationPayloadValid u \<and> canonicalModifyPayload u = u
      \<and> e = serializeNativeTimerModifyOperationPayload u)
   \<and> parseNativeTimerCreateOperationPayload (serializeNativeTimerCreateOperationPayload p)
      = (if nativeTimerCreateOperationPayloadValid p then Some (canonicalCreatePayload p) else None)
   \<and> parseNativeTimerModifyOperationPayload (serializeNativeTimerModifyOperationPayload u)
      = (if nativeTimerModifyOperationPayloadValid u then Some (canonicalModifyPayload u) else None)"
proof (intro conjI)
  show "parseNativeTimerCreateOperationPayload e = Some p \<longleftrightarrow>
      nativeTimerCreateOperationPayloadValid p \<and> canonicalCreatePayload p = p
      \<and> e = serializeNativeTimerCreateOperationPayload p"
    using parse_serialized_create [of p] parse_create_inverse [of e p] by (metis option.inject)
  show "parseNativeTimerModifyOperationPayload e = Some u \<longleftrightarrow>
      nativeTimerModifyOperationPayloadValid u \<and> canonicalModifyPayload u = u
      \<and> e = serializeNativeTimerModifyOperationPayload u"
    using parse_serialized_modify [of u] parse_modify_inverse [of e u] by (metis option.inject)
qed (simp_all add: parse_serialized_create parse_serialized_modify not_serialized)

end
