(* ===== verification/NativeTimerCreateOperationPreparationService.thy ===== *)
theory NativeTimerCreateOperationPreparationService
  imports TimerIntentApplicationService NativeTimerOperationPayloads
begin

text \<open>
  \<open>core/timers/src/NativeTimerCreateOperationPreparationService.cpp\<close>: an assignment that is being
  provisioned gets its durable create operation. The service reads assignment and intent, compares
  them with everything the caller quotes, and reserves one operation with its payload. As in the
  other services every repository call has its own lease, so \<open>between n\<close> is what happened before
  the \<open>n\<close>-th call; inside a transaction of the caller nothing can happen.
\<close>

section \<open>Requests and results\<close>

datatype native_timer_create_operation_preparation_status =
  PrepPrepared | PrepAlreadyPrepared | PrepIntentNotFound | PrepAssignmentNotFound
| PrepIntentRevisionConflict | PrepIntentStateConflict | PrepAssignmentRevisionConflict
| PrepAssignmentEpochConflict | PrepAssignmentStateConflict | PrepBackendConflict
| PrepGenerationConflict | PrepChannelConflict | PrepBindingAlreadyPresent
| PrepIdempotencyConflict | PrepOperationConflict | PrepOperationStateConflict
| PrepOperationRepositoryError | PrepInvalid

record native_timer_create_operation_preparation_request =
  nq_operationId :: string
  nq_idempotencyKey :: string
  nq_actorId :: string
  nq_requestFingerprint :: string
  nq_timerAssignmentId :: string
  nq_expectedAssignmentRevision :: string
  nq_expectedIntentRevision :: string
  nq_expectedAssignmentEpoch :: uint64
  nq_nativeTimerBindingId :: string
  nq_expectedBackendId :: string
  nq_expectedBackendGeneration :: uint64
  nq_expectedSpecification :: native_timer_specification
  nq_requestedAt :: int
  nq_deadline :: int

record native_timer_create_operation_preparation_result =
  pp_status :: native_timer_create_operation_preparation_status
  pp_operation :: mutation_operation
  pp_payload :: native_timer_create_operation_payload

definition preparationOk :: "native_timer_create_operation_preparation_result \<Rightarrow> bool" where
  "preparationOk r \<longleftrightarrow> pp_status r = PrepPrepared \<or> pp_status r = PrepAlreadyPrepared"

definition emptyCreatePayload :: native_timer_create_operation_payload where
  "emptyCreatePayload =
     \<lparr>cp_timerAssignmentId = [], cp_expectedAssignmentRevision = [],
      cp_expectedIntentRevision = [], cp_assignmentEpoch = 0, cp_nativeTimerBindingId = [],
      cp_backendId = [], cp_backendGeneration = 0,
      cp_expectedSpecification = emptyNativeTimerSpecification\<rparr>"

definition preparationStatusResult ::
  "native_timer_create_operation_preparation_status
     \<Rightarrow> native_timer_create_operation_preparation_result" where
  "preparationStatusResult status =
     \<lparr>pp_status = status, pp_operation = emptyMutationOperation, pp_payload = emptyCreatePayload\<rparr>"

definition validPreparationRequest ::
  "native_timer_create_operation_preparation_request \<Rightarrow> bool" where
  "validPreparationRequest request \<longleftrightarrow>
     validIdentity (nq_operationId request)
     \<and> validIdentity (nq_idempotencyKey request)
     \<and> validIdentity (nq_actorId request)
     \<and> nq_requestFingerprint request \<noteq> []
     \<and> length (nq_requestFingerprint request) \<le> 512
     \<and> validIdentity (nq_timerAssignmentId request)
     \<and> validIdentity (nq_expectedAssignmentRevision request)
     \<and> validIdentity (nq_expectedIntentRevision request)
     \<and> nq_expectedAssignmentEpoch request > 0
     \<and> validIdentity (nq_nativeTimerBindingId request)
     \<and> validIdentity (nq_expectedBackendId request)
     \<and> nq_expectedBackendGeneration request > 0
     \<and> nativeTimerSpecificationValid (nq_expectedSpecification request)
     \<and> nq_requestedAt request > 0
     \<and> (nq_deadline request = 0 \<or> nq_deadline request \<ge> nq_requestedAt request)"

section \<open>The comparison with the stored assignment and intent\<close>

definition preparationCheck ::
  "timer_assignment \<Rightarrow> timer_intent \<Rightarrow> native_timer_create_operation_preparation_request
     \<Rightarrow> native_timer_create_operation_preparation_status option" where
  "preparationCheck assignment intent request =
     (if ti_intentRevision intent \<noteq> nq_expectedIntentRevision request
        \<or> ta_intentRevision assignment \<noteq> nq_expectedIntentRevision request
      then Some PrepIntentRevisionConflict
      else if \<not> timerIntentAssignable (ti_state intent) then Some PrepIntentStateConflict
      else if ta_assignmentRevision assignment \<noteq> nq_expectedAssignmentRevision request
      then Some PrepAssignmentRevisionConflict
      else if ta_assignmentEpoch assignment \<noteq> nq_expectedAssignmentEpoch request
      then Some PrepAssignmentEpochConflict
      else if ta_state assignment \<noteq> AsgProvisioning then Some PrepAssignmentStateConflict
      else if ta_nativeTimerBindingId assignment \<noteq> [] then Some PrepBindingAlreadyPresent
      else if ta_backendId assignment \<noteq> nq_expectedBackendId request then Some PrepBackendConflict
      else if ta_backendGeneration assignment \<noteq> nq_expectedBackendGeneration request
      then Some PrepGenerationConflict
      else if cb_backendChannelId (ta_channelBinding assignment)
          \<noteq> ns_channelId (nq_expectedSpecification request) then Some PrepChannelConflict
      else None)"

section \<open>The operation and its payload\<close>

definition createPayloadFor ::
  "timer_assignment \<Rightarrow> timer_intent \<Rightarrow> native_timer_create_operation_preparation_request
     \<Rightarrow> native_timer_create_operation_payload" where
  "createPayloadFor assignment intent request =
     \<lparr>cp_timerAssignmentId = ta_timerAssignmentId assignment,
      cp_expectedAssignmentRevision = ta_assignmentRevision assignment,
      cp_expectedIntentRevision = ti_intentRevision intent,
      cp_assignmentEpoch = ta_assignmentEpoch assignment,
      cp_nativeTimerBindingId = nq_nativeTimerBindingId request,
      cp_backendId = ta_backendId assignment,
      cp_backendGeneration = ta_backendGeneration assignment,
      cp_expectedSpecification = nq_expectedSpecification request\<rparr>"

definition createOperationFor ::
  "timer_assignment \<Rightarrow> native_timer_create_operation_preparation_request \<Rightarrow> mutation_operation" where
  "createOperationFor assignment request =
     emptyMutationOperation
       \<lparr>mo_operationId := nq_operationId request,
        mo_idempotencyKey := nq_idempotencyKey request,
        mo_actorId := nq_actorId request,
        mo_backendId := ta_backendId assignment,
        mo_backendGeneration := ta_backendGeneration assignment,
        mo_resourceType := ''TimerAssignment'',
        mo_resourceId := ta_timerAssignmentId assignment,
        mo_expectedRevision := ta_assignmentRevision assignment,
        mo_expectedResourceFingerprint :=
          nativeTimerSpecificationFingerprint (nq_expectedSpecification request),
        mo_actionFamily := ''timer.create'',
        mo_requestFingerprint := nq_requestFingerprint request,
        mo_requestedAt := nq_requestedAt request,
        mo_deadline := nq_deadline request,
        mo_verificationPolicy := VerifyReadbackRequired,
        mo_state := OpAccepted,
        mo_updatedAt := nq_requestedAt request\<rparr>"

definition durableCreatePayload ::
  "string \<Rightarrow> native_timer_create_operation_payload \<Rightarrow> mutation_operation_payload" where
  "durableCreatePayload operationId payload =
     \<lparr>mp_operationId = operationId, mp_payloadType = ''native.timer.create'',
      mp_payloadVersion = 1,
      mp_payload = serializeNativeTimerCreateOperationPayload payload,
      mp_payloadFingerprint = nativeTimerCreateOperationPayloadFingerprint payload\<rparr>"

fun reservationStatus ::
  "mutation_operation_repository_status \<Rightarrow> mutation_operation_state
     \<Rightarrow> native_timer_create_operation_preparation_status" where
  "reservationStatus RepoOk state = PrepPrepared"
| "reservationStatus RepoIdempotentReplay state =
     (if state \<noteq> OpAccepted then PrepOperationStateConflict else PrepAlreadyPrepared)"
| "reservationStatus RepoIdempotencyConflict state = PrepIdempotencyConflict"
| "reservationStatus RepoOperationConflict state = PrepOperationConflict"
| "reservationStatus RepoInvalid state = PrepInvalid"
| "reservationStatus RepoNotFound state = PrepOperationRepositoryError"
| "reservationStatus RepoRevisionConflict state = PrepOperationRepositoryError"
| "reservationStatus RepoStateConflict state = PrepOperationRepositoryError"
| "reservationStatus RepoMaintenanceBlocked state = PrepOperationRepositoryError"
| "reservationStatus RepoStorageError state = PrepOperationRepositoryError"

section \<open>The operation call on the shared connection\<close>

definition putOperations ::
  "timer_tables database \<Rightarrow> operation_tables database \<Rightarrow> timer_tables database" where
  "putOperations = putView (\<lambda>ops t. t\<lparr>tt_operations := ops\<rparr>)"

section \<open>The service\<close>

text \<open>The reservation for an assignment and an intent that passed every comparison.\<close>

definition reserveCreateOperation ::
  "(store_call \<Rightarrow> bool) \<Rightarrow> (nat \<Rightarrow> timer_tables database \<Rightarrow> timer_tables database)
     \<Rightarrow> timer_tables database \<Rightarrow> timer_assignment \<Rightarrow> timer_intent
     \<Rightarrow> native_timer_create_operation_preparation_request \<Rightarrow> bool
     \<Rightarrow> native_timer_create_operation_preparation_result \<times> timer_tables database" where
  "reserveCreateOperation failing between db assignment intent request currentTransaction =
     (let payload = createPayloadFor assignment intent request;
          operation = createOperationFor assignment request;
          durable = durableCreatePayload (nq_operationId request) payload
      in if mp_payload durable = [] \<or> mp_payloadFingerprint durable = []
           \<or> mo_expectedResourceFingerprint operation = []
         then (preparationStatusResult PrepInvalid, db)
         else let db2 = between 2 db;
                  (reserved, d) =
                    (if currentTransaction then reserveWithPayloadInCurrentTransaction
                     else reserveWithPayload) (\<lambda>c. failing (SvcOperation 2 c)) (operationView db2)
                      operation durable
              in (\<lparr>pp_status = reservationStatus (rr_status reserved) (mo_state (rr_operation reserved)),
                   pp_operation = rr_operation reserved, pp_payload = payload\<rparr>,
                  putOperations db2 d))"

definition prepareImpl ::
  "(store_call \<Rightarrow> bool) \<Rightarrow> (nat \<Rightarrow> timer_tables database \<Rightarrow> timer_tables database)
     \<Rightarrow> timer_tables database \<Rightarrow> native_timer_create_operation_preparation_request \<Rightarrow> bool
     \<Rightarrow> native_timer_create_operation_preparation_result \<times> timer_tables database" where
  "prepareImpl failing between db request currentTransaction =
     (if \<not> validPreparationRequest request then (preparationStatusResult PrepInvalid, db)
      else let db0 = between 0 db;
               found = findAssignmentById (\<lambda>c. failing (SvcAssignment 0 c)) db0
                 (nq_timerAssignmentId request)
      in if ra_status found = AsgRepoNotFound
         then (preparationStatusResult PrepAssignmentNotFound, db0)
         else if ra_status found \<noteq> AsgRepoOk
         then (preparationStatusResult PrepOperationRepositoryError, db0)
         else let assignment = ra_assignment found;
                  db1 = between 1 db0;
                  foundIntent = findIntentById (\<lambda>c. failing (SvcIntent 1 c)) (intentView db1)
                    (ta_timerIntentId assignment)
         in case (ni_status foundIntent, ni_intent foundIntent) of
              (IntentNotFound, _) \<Rightarrow> (preparationStatusResult PrepIntentNotFound, db1)
            | (IntentOk, Some intent) \<Rightarrow>
                (case preparationCheck assignment intent request of
                   Some status \<Rightarrow> (preparationStatusResult status, db1)
                 | None \<Rightarrow> reserveCreateOperation failing between db1 assignment intent request
                     currentTransaction)
            | _ \<Rightarrow> (preparationStatusResult PrepOperationRepositoryError, db1))"

definition prepare ::
  "(store_call \<Rightarrow> bool) \<Rightarrow> (nat \<Rightarrow> timer_tables database \<Rightarrow> timer_tables database)
     \<Rightarrow> timer_tables database \<Rightarrow> native_timer_create_operation_preparation_request
     \<Rightarrow> native_timer_create_operation_preparation_result \<times> timer_tables database" where
  "prepare failing between db request = prepareImpl failing between db request False"

definition prepareInCurrentTransaction ::
  "(store_call \<Rightarrow> bool) \<Rightarrow> (nat \<Rightarrow> timer_tables database \<Rightarrow> timer_tables database)
     \<Rightarrow> timer_tables database \<Rightarrow> native_timer_create_operation_preparation_request
     \<Rightarrow> native_timer_create_operation_preparation_result \<times> timer_tables database" where
  "prepareInCurrentTransaction failing between db request = prepareImpl failing between db request True"

end
