(* ===== verification/NativeTimerCreateAdmissionService.thy ===== *)
theory NativeTimerCreateAdmissionService
  imports NativeTimerCreateOperationPreparationService
begin

text \<open>
  \<open>core/timers/src/NativeTimerCreateAdmissionService.cpp\<close>: the admission of a native timer create.
  Under one transaction lease, held from the first statement to the last, the service looks for an
  operation that the same request has already reserved, and otherwise, in one transaction, moves the
  selected assignment to provisioning and reserves its operation with the payload to dispatch. No
  other caller runs in between, so the calls inside see \<open>alone\<close>. The identifiers are drawn at
  random (\<open>MutationOperationIdentity\<close>, \<open>NativeTimerBindingIdentity.cpp\<close>); the octets are arguments.
\<close>

section \<open>Identifiers of bindings\<close>

definition generateNativeTimerBindingId :: "8 word list option \<Rightarrow> string" where
  "generateNativeTimerBindingId drawn =
     (case drawn of
        None \<Rightarrow> []
      | Some octets \<Rightarrow>
          ''ntb_'' @ concat (map (\<lambda>b. [hexDigitChar (unat b div 16), hexDigitChar (unat b mod 16)])
            octets))"

definition nativeTimerBindingIdCanonical :: "string \<Rightarrow> bool" where
  "nativeTimerBindingIdCanonical value =
     (if length value \<noteq> 4 + 32 \<or> take 4 value \<noteq> ''ntb_'' then False
      else list_all lowerHex (drop 4 value))"

section \<open>Requests and results\<close>

datatype admission_call =
  AdmReplay nat sql_call | AdmBegin | AdmCommit | AdmRollback | AdmFind assignment_call
| AdmProvision store_call | AdmPrepare store_call

datatype native_timer_create_admission_status =
  AdmPrepared | AdmReplayed | AdmAssignmentNotFound | AdmAssignmentRevisionConflict
| AdmAssignmentStateConflict | AdmBackendConflict | AdmSpecificationUnavailable
| AdmIntentRevisionConflict | AdmGenerationConflict | AdmIdempotencyConflict
| AdmOperationConflict | AdmIdentityGenerationFailed | AdmRepositoryError | AdmInvalid

record native_timer_create_admission_request =
  dq_actorId :: string
  dq_idempotencyKey :: string
  dq_timerAssignmentId :: string
  dq_expectedAssignmentRevision :: string
  dq_expectedBackendId :: string
  dq_requestedAt :: int
  dq_deadline :: int

record native_timer_create_admission_result =
  dr_status :: native_timer_create_admission_status
  dr_operation :: mutation_operation
  dr_payload :: native_timer_create_operation_payload

definition admissionOk :: "native_timer_create_admission_result \<Rightarrow> bool" where
  "admissionOk r \<longleftrightarrow> dr_status r = AdmPrepared \<or> dr_status r = AdmReplayed"

definition admissionResult ::
  "native_timer_create_admission_status \<Rightarrow> mutation_operation
     \<Rightarrow> native_timer_create_operation_payload \<Rightarrow> native_timer_create_admission_result" where
  "admissionResult status operation payload =
     \<lparr>dr_status = status, dr_operation = operation, dr_payload = payload\<rparr>"

abbreviation admissionStatus ::
  "native_timer_create_admission_status \<Rightarrow> native_timer_create_admission_result" where
  "admissionStatus status \<equiv> admissionResult status emptyMutationOperation emptyCreatePayload"

definition validAdmissionRequest :: "native_timer_create_admission_request \<Rightarrow> bool" where
  "validAdmissionRequest request \<longleftrightarrow>
     validIdentity (dq_actorId request)
     \<and> validIdentity (dq_idempotencyKey request)
     \<and> validIdentity (dq_timerAssignmentId request)
     \<and> validIdentity (dq_expectedAssignmentRevision request)
     \<and> validIdentity (dq_expectedBackendId request)
     \<and> dq_requestedAt request > 0
     \<and> (dq_deadline request = 0 \<or> dq_deadline request \<ge> dq_requestedAt request)"

definition admissionFingerprint :: "native_timer_create_admission_request \<Rightarrow> string" where
  "admissionFingerprint request =
     (if \<not> validAdmissionRequest request then []
      else (let fingerprint = ''native-timer-create-admission/1|''
                @ field (dq_expectedBackendId request) @ field (dq_timerAssignmentId request)
                @ field (dq_expectedAssignmentRevision request)
            in if length fingerprint \<le> 512 then fingerprint else []))"

section \<open>Replays\<close>

definition operationMatchesReplay ::
  "mutation_operation \<Rightarrow> native_timer_create_admission_request \<Rightarrow> string \<Rightarrow> bool" where
  "operationMatchesReplay operation request fingerprint \<longleftrightarrow>
     mo_actorId operation = dq_actorId request
     \<and> mo_backendId operation = dq_expectedBackendId request
     \<and> mo_resourceType operation = ''TimerAssignment''
     \<and> mo_resourceId operation = dq_timerAssignmentId request
     \<and> mo_actionFamily operation = ''timer.create''
     \<and> mo_idempotencyKey operation = dq_idempotencyKey request
     \<and> mo_requestFingerprint operation = fingerprint
     \<and> mo_verificationPolicy operation = VerifyReadbackRequired"

definition payloadMatchesReplay ::
  "native_timer_create_operation_payload \<Rightarrow> mutation_operation
     \<Rightarrow> native_timer_create_admission_request \<Rightarrow> bool" where
  "payloadMatchesReplay payload operation request \<longleftrightarrow>
     (let specificationFingerprint =
            nativeTimerSpecificationFingerprint (cp_expectedSpecification payload)
      in cp_timerAssignmentId payload = dq_timerAssignmentId request
         \<and> cp_backendId payload = dq_expectedBackendId request
         \<and> cp_backendGeneration payload = mo_backendGeneration operation
         \<and> cp_expectedAssignmentRevision payload = mo_expectedRevision operation
         \<and> specificationFingerprint = mo_expectedResourceFingerprint operation
         \<and> cp_nativeTimerBindingId payload \<noteq> []
         \<and> length specificationFingerprint > 0)"

text \<open>The second component is the reference parameter \<open>present\<close>.\<close>

definition replayIfPresent ::
  "(sql_call \<Rightarrow> bool) \<Rightarrow> operation_tables database \<Rightarrow> native_timer_create_admission_request
     \<Rightarrow> string \<Rightarrow> native_timer_create_admission_result \<times> bool" where
  "replayIfPresent failing db request fingerprint =
     (let found = findByIdempotencyScope failing db (dq_actorId request)
            (dq_expectedBackendId request) ''TimerAssignment'' (dq_timerAssignmentId request)
            ''timer.create'' (dq_idempotencyKey request);
          operation = rr_operation found
      in if rr_status found = RepoNotFound then (admissionStatus AdmPrepared, False)
         else if rr_status found = RepoInvalid then (admissionStatus AdmInvalid, False)
         else if rr_status found \<noteq> RepoOk then (admissionStatus AdmRepositoryError, False)
         else if \<not> operationMatchesReplay operation request fingerprint
         then (admissionResult AdmIdempotencyConflict operation emptyCreatePayload, True)
         else let stored = findPayloadByOperationId failing db (mo_operationId operation)
              in if yy_status stored \<noteq> RepoOk
                   \<or> mp_payloadType (yy_payload stored) \<noteq> ''native.timer.create''
                   \<or> mp_payloadVersion (yy_payload stored) \<noteq> 1
                 then (admissionResult
                        (if yy_status stored = RepoStorageError then AdmRepositoryError
                         else AdmOperationConflict) operation emptyCreatePayload, True)
                 else case parseNativeTimerCreateOperationPayload (mp_payload (yy_payload stored)) of
                     None \<Rightarrow> (admissionResult AdmOperationConflict operation emptyCreatePayload, True)
                   | Some payload \<Rightarrow>
                       if nativeTimerCreateOperationPayloadFingerprint payload
                            \<noteq> mp_payloadFingerprint (yy_payload stored)
                          \<or> \<not> payloadMatchesReplay payload operation request
                       then (admissionResult AdmOperationConflict operation emptyCreatePayload, True)
                       else (admissionResult AdmReplayed operation payload, True))"

section \<open>Status maps\<close>

fun fulfillmentStatus ::
  "timer_assignment_fulfillment_status \<Rightarrow> native_timer_create_admission_status" where
  "fulfillmentStatus FulAssignmentNotFound = AdmAssignmentNotFound"
| "fulfillmentStatus FulAssignmentRevisionConflict = AdmAssignmentRevisionConflict"
| "fulfillmentStatus FulIntentRevisionConflict = AdmIntentRevisionConflict"
| "fulfillmentStatus FulGenerationConflict = AdmGenerationConflict"
| "fulfillmentStatus FulStateConflict = AdmAssignmentStateConflict"
| "fulfillmentStatus FulAlreadyProvisioning = AdmAssignmentStateConflict"
| "fulfillmentStatus FulInvalid = AdmInvalid"
| "fulfillmentStatus FulRepositoryConflict = AdmAssignmentStateConflict"
| "fulfillmentStatus FulOwnershipConflict = AdmAssignmentStateConflict"
| "fulfillmentStatus FulRepositoryError = AdmRepositoryError"
| "fulfillmentStatus FulProvisioningStarted = AdmPrepared"
| "fulfillmentStatus FulBound = AdmAssignmentStateConflict"
| "fulfillmentStatus FulAlreadyBound = AdmAssignmentStateConflict"
| "fulfillmentStatus FulBindingNotFound = AdmAssignmentStateConflict"
| "fulfillmentStatus FulBindingRevisionConflict = AdmAssignmentStateConflict"
| "fulfillmentStatus FulIdentityConflict = AdmAssignmentStateConflict"
| "fulfillmentStatus FulBindingStateConflict = AdmAssignmentStateConflict"

fun preparationStatus ::
  "native_timer_create_operation_preparation_status \<Rightarrow> native_timer_create_admission_status" where
  "preparationStatus PrepPrepared = AdmPrepared"
| "preparationStatus PrepAlreadyPrepared = AdmReplayed"
| "preparationStatus PrepAssignmentNotFound = AdmAssignmentNotFound"
| "preparationStatus PrepAssignmentRevisionConflict = AdmAssignmentRevisionConflict"
| "preparationStatus PrepAssignmentStateConflict = AdmAssignmentStateConflict"
| "preparationStatus PrepIntentStateConflict = AdmAssignmentStateConflict"
| "preparationStatus PrepAssignmentEpochConflict = AdmAssignmentStateConflict"
| "preparationStatus PrepBindingAlreadyPresent = AdmAssignmentStateConflict"
| "preparationStatus PrepBackendConflict = AdmBackendConflict"
| "preparationStatus PrepChannelConflict = AdmBackendConflict"
| "preparationStatus PrepGenerationConflict = AdmGenerationConflict"
| "preparationStatus PrepIntentRevisionConflict = AdmIntentRevisionConflict"
| "preparationStatus PrepIdempotencyConflict = AdmIdempotencyConflict"
| "preparationStatus PrepOperationConflict = AdmOperationConflict"
| "preparationStatus PrepOperationStateConflict = AdmOperationConflict"
| "preparationStatus PrepIntentNotFound = AdmRepositoryError"
| "preparationStatus PrepOperationRepositoryError = AdmRepositoryError"
| "preparationStatus PrepInvalid = AdmInvalid"

definition provisioningTimestamp :: "int \<Rightarrow> int \<Rightarrow> int" where
  "provisioningTimestamp requestedAt assignmentUpdatedAt =
     (if requestedAt \<le> 0 \<or> assignmentUpdatedAt = int int64_max then 0
      else max requestedAt (assignmentUpdatedAt + 1))"

section \<open>The admission\<close>

text \<open>Nothing runs between the calls of a caller that holds the lease.\<close>

definition alone :: "nat \<Rightarrow> timer_tables database \<Rightarrow> timer_tables database" where
  "alone n db = db"

text \<open>The comparisons with the assignment that was found.\<close>

definition selectedCheck ::
  "timer_assignment \<Rightarrow> native_timer_create_admission_request
     \<Rightarrow> native_timer_create_admission_status option" where
  "selectedCheck selected request =
     (if ta_backendId selected \<noteq> dq_expectedBackendId request then Some AdmAssignmentNotFound
      else if ta_assignmentRevision selected \<noteq> dq_expectedAssignmentRevision request
      then Some AdmAssignmentRevisionConflict
      else if ta_state selected \<noteq> AsgSelected \<or> ta_nativeTimerBindingId selected \<noteq> []
      then Some AdmAssignmentStateConflict
      else if \<not> ta_desiredNativeTimerSpecificationPresent selected
        \<or> \<not> nativeTimerSpecificationValid (ta_desiredNativeTimerSpecification selected)
        \<or> ns_channelId (ta_desiredNativeTimerSpecification selected)
            \<noteq> cb_backendChannelId (ta_channelBinding selected)
      then Some AdmSpecificationUnavailable
      else if provisioningTimestamp (dq_requestedAt request) (ta_updatedAt selected)
          \<le> ta_updatedAt selected then Some AdmInvalid
      else None)"

definition preparationRequest ::
  "native_timer_create_admission_request \<Rightarrow> string \<Rightarrow> string \<Rightarrow> string \<Rightarrow> timer_assignment
     \<Rightarrow> native_timer_create_operation_preparation_request" where
  "preparationRequest request fingerprint operationId bindingId provisioned =
     \<lparr>nq_operationId = operationId, nq_idempotencyKey = dq_idempotencyKey request,
      nq_actorId = dq_actorId request, nq_requestFingerprint = fingerprint,
      nq_timerAssignmentId = ta_timerAssignmentId provisioned,
      nq_expectedAssignmentRevision = ta_assignmentRevision provisioned,
      nq_expectedIntentRevision = ta_intentRevision provisioned,
      nq_expectedAssignmentEpoch = ta_assignmentEpoch provisioned,
      nq_nativeTimerBindingId = bindingId,
      nq_expectedBackendId = ta_backendId provisioned,
      nq_expectedBackendGeneration = ta_backendGeneration provisioned,
      nq_expectedSpecification = ta_desiredNativeTimerSpecification provisioned,
      nq_requestedAt = dq_requestedAt request, nq_deadline = dq_deadline request\<rparr>"

text \<open>The provisioning of the selected assignment and the reservation of its operation.\<close>

definition provisionAndPrepare ::
  "(admission_call \<Rightarrow> bool) \<Rightarrow> timer_tables database \<Rightarrow> native_timer_create_admission_request
     \<Rightarrow> string \<Rightarrow> string \<Rightarrow> string \<Rightarrow> timer_assignment
     \<Rightarrow> native_timer_create_admission_result \<times> timer_tables database" where
  "provisionAndPrepare failing db request fingerprint operationId bindingId selected =
     (let (provisioned, db1) = beginProvisioningInCurrentTransaction
            (\<lambda>c. failing (AdmProvision c)) alone db (ta_timerAssignmentId selected)
            (ta_assignmentRevision selected) (ta_intentRevision selected)
            (ta_backendGeneration selected)
            (provisioningTimestamp (dq_requestedAt request) (ta_updatedAt selected))
      in if fr_status provisioned \<noteq> FulProvisioningStarted
         then (admissionStatus (fulfillmentStatus (fr_status provisioned)), db1)
         else let (prepared, db2) = prepareInCurrentTransaction (\<lambda>c. failing (AdmPrepare c)) alone
                    db1 (preparationRequest request fingerprint operationId bindingId
                      (fr_assignment provisioned))
              in if pp_status prepared \<noteq> PrepPrepared
                 then (admissionStatus (preparationStatus (pp_status prepared)), db2)
                 else (admissionResult AdmPrepared (pp_operation prepared) (pp_payload prepared), db2))"

text \<open>
  Everything between the begin and the commit: the second replay check, the assignment, the
  identifiers and the two writes. Every exit but a prepared one is followed by the rollback.
\<close>

definition admitInside ::
  "(admission_call \<Rightarrow> bool) \<Rightarrow> 8 word list option \<Rightarrow> 8 word list option
     \<Rightarrow> timer_tables database \<Rightarrow> native_timer_create_admission_request \<Rightarrow> string
     \<Rightarrow> native_timer_create_admission_result \<times> timer_tables database" where
  "admitInside failing drawnOperation drawnBinding db request fingerprint =
     (let (replay, present) = replayIfPresent (\<lambda>c. failing (AdmReplay 1 c)) (operationView db)
            request fingerprint
      in if present \<or> dr_status replay \<noteq> AdmPrepared then (replay, db)
         else let found = findAssignmentById (\<lambda>c. failing (AdmFind c)) db (dq_timerAssignmentId request);
                  selected = ra_assignment found
              in if ra_status found = AsgRepoNotFound then (admissionStatus AdmAssignmentNotFound, db)
                 else if ra_status found \<noteq> AsgRepoOk then (admissionStatus AdmRepositoryError, db)
                 else case selectedCheck selected request of
                     Some status \<Rightarrow> (admissionStatus status, db)
                   | None \<Rightarrow>
                       (let operationId = generateMutationOperationId drawnOperation;
                            bindingId = generateNativeTimerBindingId drawnBinding
                        in if \<not> mutationOperationIdCanonical operationId
                             \<or> \<not> nativeTimerBindingIdCanonical bindingId
                           then (admissionStatus AdmIdentityGenerationFailed, db)
                           else provisionAndPrepare failing db request fingerprint operationId
                             bindingId selected))"

definition admitImpl ::
  "(admission_call \<Rightarrow> bool) \<Rightarrow> 8 word list option \<Rightarrow> 8 word list option
     \<Rightarrow> timer_tables database \<Rightarrow> native_timer_create_admission_request \<Rightarrow> bool
     \<Rightarrow> native_timer_create_admission_result \<times> timer_tables database" where
  "admitImpl failing drawnOperation drawnBinding db request currentTransaction =
     (if currentTransaction \<noteq> transactionActive db then (admissionStatus AdmRepositoryError, db)
      else if \<not> validAdmissionRequest request then (admissionStatus AdmInvalid, db)
      else let fingerprint = admissionFingerprint request
      in if fingerprint = [] then (admissionStatus AdmInvalid, db)
      else let (replay, present) = replayIfPresent (\<lambda>c. failing (AdmReplay 0 c)) (operationView db)
                 request fingerprint
      in if present \<or> dr_status replay \<noteq> AdmPrepared then (replay, db)
      else if currentTransaction
      then admitInside failing drawnOperation drawnBinding db request fingerprint
      else case executeBegin (failing AdmBegin) db of
          (False, db0) \<Rightarrow> (admissionStatus AdmRepositoryError, db0)
        | (True, db0) \<Rightarrow>
            (let (result, db1) =
                   admitInside failing drawnOperation drawnBinding db0 request fingerprint
             in if dr_status result \<noteq> AdmPrepared
                then (result, executeRollback (failing AdmRollback) db1)
                else case executeCommit (failing AdmCommit) db1 of
                    (False, db2) \<Rightarrow>
                      (admissionStatus AdmRepositoryError, executeRollback (failing AdmRollback) db2)
                  | (True, db2) \<Rightarrow> (result, db2)))"

definition admit ::
  "(admission_call \<Rightarrow> bool) \<Rightarrow> 8 word list option \<Rightarrow> 8 word list option
     \<Rightarrow> timer_tables database \<Rightarrow> native_timer_create_admission_request
     \<Rightarrow> native_timer_create_admission_result \<times> timer_tables database" where
  "admit failing drawnOperation drawnBinding db request =
     admitImpl failing drawnOperation drawnBinding db request False"

definition admitInCurrentTransaction ::
  "(admission_call \<Rightarrow> bool) \<Rightarrow> 8 word list option \<Rightarrow> 8 word list option
     \<Rightarrow> timer_tables database \<Rightarrow> native_timer_create_admission_request
     \<Rightarrow> native_timer_create_admission_result \<times> timer_tables database" where
  "admitInCurrentTransaction failing drawnOperation drawnBinding db request =
     admitImpl failing drawnOperation drawnBinding db request True"

end
