(* ===== verification/AdmissionProperties.thy ===== *)
theory AdmissionProperties
  imports NativeTimerCreateAdmissionService ApplicationProperties OperationProperties
begin

text \<open>
  What an admission leaves in the store: with one commit the selected assignment is being
  provisioned and its operation is reserved with the payload to dispatch, or nothing at all has
  changed; and the same request, repeated at any later time, is answered with that operation.
\<close>

section \<open>One transaction\<close>

lemma writeTables_visible: "transactionActive db \<Longrightarrow> writeTables (visibleTables db) db = db"
  by (cases db) (auto simp: writeTables_def visibleTables_def transactionActive_def)

lemma putOperations_same: "putOperations db (operationView db) = db"
  by (cases db) (auto simp: putOperations_def putView_def viewOf_def visibleTables_def option.map_comp o_def
      split: option.split)

lemma putOperations_writeTables:
  "putOperations db (writeTables ops (operationView db))
     = writeTables ((visibleTables db)\<lparr>tt_operations := ops\<rparr>) db"
  by (cases db) (simp add: putOperations_def putView_def writeTables_def viewOf_def visibleTables_def)

definition inTransaction :: "timer_tables database \<Rightarrow> timer_tables database \<Rightarrow> bool" where
  "inTransaction db db' \<longleftrightarrow> transactionActive db \<and> (\<exists>t. db' = writeTables t db)"

lemma inTransaction_refl: "transactionActive db \<Longrightarrow> inTransaction db db"
  using writeTables_visible [of db] unfolding inTransaction_def by metis

lemma inTransaction_write: "transactionActive db \<Longrightarrow> inTransaction db (writeTables t db)"
  by (auto simp: inTransaction_def)

lemma inTransaction_trans: "inTransaction db d \<Longrightarrow> inTransaction d d' \<Longrightarrow> inTransaction db d'"
  by (auto simp: inTransaction_def)

lemma inTransaction_committed:
  "inTransaction db d \<Longrightarrow> db_committed d = db_committed db \<and> transactionActive d"
  by (auto simp: inTransaction_def)

lemma update_inTransaction:
  "transactionActive db \<Longrightarrow> inTransaction db (snd (updateAssignmentInCurrentTransaction f db a tok))"
  using updateInCurrentTransactionInternal_cases [of f db a tok] inTransaction_refl inTransaction_write
  by (auto simp: updateAssignmentInCurrentTransaction_def)

lemma reserve_inTransaction:
  assumes "transactionActive db"
  shows "inTransaction db (putOperations db
     (snd (reserveWithPayloadInCurrentTransaction f (operationView db) m p)))"
  using reserveInCurrent_follows [of f "operationView db" m "Some p"] assms inTransaction_refl
    inTransaction_write
  by (auto simp: reserveWithPayloadInCurrentTransaction_def putOperations_same putOperations_writeTables)

lemma provisioning_inTransaction:
  assumes "transactionActive db"
  shows "inTransaction db (snd (beginProvisioningInCurrentTransaction f alone db i tok irev gen at))"
  using inTransaction_refl [OF assms] update_inTransaction [OF assms]
  by (simp add: beginProvisioningInCurrentTransaction_def beginProvisioningImpl_def Let_def alone_def split_beta)

lemma prepare_inTransaction:
  assumes "transactionActive db"
  shows "inTransaction db (snd (prepareInCurrentTransaction f alone db q))"
  using inTransaction_refl [OF assms] reserve_inTransaction [OF assms]
  by (simp add: prepareInCurrentTransaction_def prepareImpl_def reserveCreateOperation_def Let_def alone_def
      split_beta split: option.split timer_intent_repository_status.split)

lemma admitInside_inTransaction:
  assumes "transactionActive db"
  shows "inTransaction db (snd (admitInside f dop dbi db q fp))"
proof -
  have "inTransaction db (snd (provisionAndPrepare f db q fp i b a))" for i b a
  proof -
    obtain p d where p: "beginProvisioningInCurrentTransaction (\<lambda>c. f (AdmProvision c)) alone db
        (ta_timerAssignmentId a) (ta_assignmentRevision a) (ta_intentRevision a) (ta_backendGeneration a)
        (provisioningTimestamp (dq_requestedAt q) (ta_updatedAt a)) = (p, d)" by fastforce
    have d: "inTransaction db d" using provisioning_inTransaction [OF assms] p by (metis snd_conv)
    then have "inTransaction db (snd (prepareInCurrentTransaction (\<lambda>c. f (AdmPrepare c)) alone d r))" for r
      using prepare_inTransaction inTransaction_committed inTransaction_trans by blast
    then show ?thesis using d by (simp add: provisionAndPrepare_def p split_beta)
  qed
  then show ?thesis
    using inTransaction_refl [OF assms]
    by (simp add: admitInside_def Let_def split_beta split: option.split)
qed

section \<open>The provisioning\<close>

lemma countUpdates_elsewhere:
  "tt_operations (fold countUpdate is t) = tt_operations t \<and> tt_intents (fold countUpdate is t) = tt_intents t"
  by (induction "is" arbitrary: t) (simp_all add: countUpdate_def countedRevision_def)

lemma updateAssignmentRow_elsewhere:
  assumes "updateAssignmentRow f t i v row = WriteDone (n, t')"
  shows "tt_operations t' = tt_operations t" "tt_intents t' = tt_intents t"
  using assms
  by (auto simp: updateAssignmentRow_def updateAssignmentRows_def Let_def countUpdates_elsewhere split: if_splits)

lemma updateInCurrent_elsewhere:
  "tt_operations (visibleTables (snd (updateAssignmentInCurrentTransaction f db new tok)))
     = tt_operations (visibleTables db)"
  "tt_intents (visibleTables (snd (updateAssignmentInCurrentTransaction f db new tok)))
     = tt_intents (visibleTables db)"
  using updateAssignmentRow_elsewhere
  by (auto simp: updateAssignmentInCurrentTransaction_def updateInCurrentTransactionInternal_def
      split: sum.split option.split write_outcome.split)

lemma found_once:
  assumes "findAssignmentById f db i = assignmentResult AsgRepoOk a"
    and "findAssignmentById g db i = assignmentResult AsgRepoOk b"
  shows "a = b"
proof -
  obtain r r' where "assignmentRowOf i (tt_assignments (visibleTables db)) = Some r" "readAssignment r = Some a"
    "assignmentRowOf i (tt_assignments (visibleTables db)) = Some r'" "readAssignment r' = Some b"
    using findAssignmentById_Ok [OF assms(1)] findAssignmentById_Ok [OF assms(2)] by metis
  then show ?thesis by simp
qed

text \<open>The assignment that provisioning found and the one it wrote.\<close>

lemma provisioning_started:
  assumes active: "transactionActive db" and sound: "rowsSound (tt_assignments (visibleTables db))"
    and found: "findAssignmentById g db i = assignmentResult AsgRepoOk a"
    and call: "beginProvisioningInCurrentTransaction f alone db i tok irev gen at = (res, db')"
    and ok: "fr_status res = FulProvisioningStarted"
  obtains v t where "ta_assignmentRevision a = decimal v" "v < int64_max" "ta_intentRevision a = irev"
    "ta_backendGeneration a = gen" "ta_state a = AsgSelected" "ta_timerAssignmentId a = i"
    "fr_assignment res = a\<lparr>ta_state := AsgProvisioning, ta_updatedAt := at,
       ta_assignmentRevision := decimal (v + 1)\<rparr>"
    "db' = writeTables t db" "rowsSound (tt_assignments t)" "tt_operations t = tt_operations (visibleTables db)"
    "findAssignmentById noAssignmentErrors db' i = assignmentResult AsgRepoOk (storedAssignment (fr_assignment res))"
    "timerJournal (visibleTables db) t"
proof -
  let ?found = "findAssignmentById (\<lambda>c. f (SvcAssignment 0 c)) db i"
  let ?new = "(ra_assignment ?found)\<lparr>ta_state := AsgProvisioning, ta_updatedAt := at\<rparr>"
  note def = beginProvisioningInCurrentTransaction_def beginProvisioningImpl_def Let_def fulfillmentResult_def alone_def
  have fok: "ra_status ?found = AsgRepoOk" using call ok by (auto simp: def split: if_splits)
  from found_once [OF findAssignmentById_result [OF fok] found] have cur: "ra_assignment ?found = a" .
  obtain updated d where u: "updateAssignmentInCurrentTransaction (\<lambda>c. f (SvcAssignment 1 c)) db
      (a\<lparr>ta_state := AsgProvisioning, ta_updatedAt := at\<rparr>) (ta_assignmentRevision a) = (updated, d)" by fastforce
  have p: "ta_intentRevision a = irev" "ta_backendGeneration a = gen" "ta_state a = AsgSelected"
    "d = db'" "ra_status updated = AsgRepoOk" "fr_assignment res = ra_assignment updated"
    using call ok fok u by (auto simp: def cur split: if_splits)
  obtain w t where w: "acceptedRevision (visibleTables db) (a\<lparr>ta_state := AsgProvisioning, ta_updatedAt := at\<rparr>)
      (ta_assignmentRevision a) w t" "updated = assignmentResult AsgRepoOk w" "db' = writeTables t db"
    "timerJournal (visibleTables db) t"
    using updateInternal_Ok [OF u [unfolded updateAssignmentInCurrentTransaction_def p(4)] p(5) sound] by metis
  have s: "rowsSound (tt_assignments t)" using timerJournal_steps [OF r_into_rtranclp [of timerJournal, OF w(4)] sound] ..
  obtain r where r: "assignmentRowOf i (tt_assignments (visibleTables db)) = Some r" "readAssignment r = Some a"
    "i \<noteq> []" "length i \<le> 160"
    using findAssignmentById_Ok [OF found] by blast
  have id: "ta_timerAssignmentId a = i"
    using r(1) readAssignment_fields(3) [OF r(2)] by (simp add: assignmentRowOf_Some [OF sound])
  obtain v row r0 where v: "ta_assignmentRevision a = decimal v" "v < int64_max" "r0 \<in> set (tt_assignments (visibleTables db))"
    "w = a\<lparr>ta_state := AsgProvisioning, ta_updatedAt := at, ta_assignmentRevision := decimal (v + 1)\<rparr>"
    "readAssignment row = Some (storedAssignment w)"
    "tt_assignments t = map (\<lambda>x. if x = r0 then row else x) (tt_assignments (visibleTables db))"
    using w(1) unfolding acceptedRevision_def by auto
  have "row \<in> set (tt_assignments t)" using v(3) by (auto simp: v(6))
  moreover have "ar_timer_assignment_id row = i"
    using readAssignment_fields(3) [OF v(5)] id by (simp add: v(4))
  ultimately have "assignmentRowOf i (tt_assignments t) = Some row"
    by (simp add: assignmentRowOf_Some [OF s])
  then have "findAssignmentById noAssignmentErrors db' i = assignmentResult AsgRepoOk (storedAssignment w)"
    using findAssignmentById_sound [of db', OF _ r(3,4)] s v(5) by (simp add: w(3))
  moreover have "tt_operations t = tt_operations (visibleTables db)"
    using updateInCurrent_elsewhere(1) [of "\<lambda>c. f (SvcAssignment 1 c)" db
        "a\<lparr>ta_state := AsgProvisioning, ta_updatedAt := at\<rparr>" "ta_assignmentRevision a", unfolded u snd_conv p(4) w(3)]
    by simp
  moreover have "fr_assignment res = w" using p(6) w(2) by (simp add: assignmentResult_def)
  ultimately have read: "findAssignmentById noAssignmentErrors db' i
      = assignmentResult AsgRepoOk (storedAssignment (fr_assignment res))"
    and ops: "tt_operations t = tt_operations (visibleTables db)" and out: "fr_assignment res = w" by simp_all
  show thesis by (rule that [OF v(1,2) p(1-3) id _ w(3) s ops read w(4)]) (simp only: out v(4))
qed

section \<open>The reservation\<close>

lemma preparation_prepared:
  assumes call: "prepareInCurrentTransaction f alone db q = (res, db')" and ok: "pp_status res = PrepPrepared"
    and found: "findAssignmentById g db (nq_timerAssignmentId q) = assignmentResult AsgRepoOk a"
  obtains intent where "ti_timerIntentId intent = ta_timerIntentId a" "preparationCheck a intent q = None"
    "pp_payload res = createPayloadFor a intent q"
    "pp_operation res = (createOperationFor a q)\<lparr>mo_operationRevision := ''1''\<rparr>"
    "mutationOperationValidForCreate (createOperationFor a q)"
    "validPayload (durableCreatePayload (nq_operationId q) (pp_payload res))"
    "mp_payload (durableCreatePayload (nq_operationId q) (pp_payload res)) \<noteq> []"
    "operationConstraints (ot_operations (tt_operations (visibleTables db))) (operationRow (createOperationFor a q))"
    "db' = writeTables ((visibleTables db)\<lparr>tt_operations := (tt_operations (visibleTables db))\<lparr>
       ot_operations := ot_operations (tt_operations (visibleTables db)) @ [operationRow (createOperationFor a q)],
       ot_payloads := ot_payloads (tt_operations (visibleTables db))
         @ [payloadRow (durableCreatePayload (nq_operationId q) (pp_payload res))]\<rparr>\<rparr>) db"
proof -
  let ?found = "findAssignmentById (\<lambda>c. f (SvcAssignment 0 c)) db (nq_timerAssignmentId q)"
  let ?intent = "findIntentById (\<lambda>c. f (SvcIntent 1 c)) (intentView db) (ta_timerIntentId a)"
  note def = prepareInCurrentTransaction_def prepareImpl_def Let_def preparationStatusResult_def alone_def
  have valid: "validPreparationRequest q" using call ok by (auto simp: def split: if_splits)
  have fok: "ra_status ?found = AsgRepoOk" using call ok valid by (auto simp: def split: if_splits)
  from found_once [OF findAssignmentById_result [OF fok] found] have cur: "ra_assignment ?found = a" .
  have iok: "ni_status ?intent = IntentOk"
    using call ok valid fok by (cases "ni_status ?intent") (auto simp: def cur split: option.splits)
  obtain intent where intent: "ni_intent ?intent = Some intent" "ti_timerIntentId intent = ta_timerIntentId a"
    by (rule findIntentById_found [OF iok])
  have check: "preparationCheck a intent q = None"
    using call ok valid fok iok intent
    by (cases "preparationCheck a intent q") (auto simp: def cur preparationCheck_def split: if_splits)
  let ?p = "createPayloadFor a intent q" and ?m = "createOperationFor a q"
  let ?d = "durableCreatePayload (nq_operationId q) ?p"
  have r: "reserveCreateOperation f alone db a intent q True = (res, db')"
    using call valid fok iok intent check by (simp add: def cur)
  obtain reserved d where rv: "reserveInCurrentTransactionInternal (\<lambda>c. f (SvcOperation 2 c)) (operationView db) ?m (Some ?d)
      = (reserved, d)" by fastforce
  have p: "mp_payload ?d \<noteq> []" "reservationStatus (rr_status reserved) (mo_state (rr_operation reserved)) = PrepPrepared"
    "pp_operation res = rr_operation reserved" "pp_payload res = ?p" "db' = putOperations db d"
    using r ok rv
    by (auto simp: reserveCreateOperation_def Let_def alone_def preparationStatusResult_def
        reserveWithPayloadInCurrentTransaction_def split: if_splits)
  have rok: "rr_status reserved = RepoOk"
    using p(2) by (cases "rr_status reserved") (auto split: if_splits)
  note w = reserveInCurrent_ok [OF rv rok]
  show thesis
    by (rule that [OF intent(2) check p(4)])
      (use p w w(6) [OF refl] in \<open>simp_all add: putOperations_writeTables operationResult_def\<close>)
qed

section \<open>The whole admission\<close>

text \<open>The operation and the payload of an admission that provisioned \<open>a\<close>.\<close>

definition admittedRequest ::
  "native_timer_create_admission_request \<Rightarrow> string \<Rightarrow> string \<Rightarrow> timer_assignment
     \<Rightarrow> native_timer_create_operation_preparation_request" where
  "admittedRequest q op b a = preparationRequest q (admissionFingerprint q) op b a"

definition provisionedFor ::
  "native_timer_create_admission_request \<Rightarrow> nat \<Rightarrow> timer_assignment \<Rightarrow> timer_assignment" where
  "provisionedFor q v a = a\<lparr>ta_state := AsgProvisioning,
     ta_updatedAt := provisioningTimestamp (dq_requestedAt q) (ta_updatedAt a),
     ta_assignmentRevision := decimal (v + 1)\<rparr>"

lemma fulfillmentStatus_prepared: "fulfillmentStatus s = AdmPrepared \<Longrightarrow> s = FulProvisioningStarted"
  by (cases s) simp_all

lemma preparationStatus_prepared: "preparationStatus s = AdmPrepared \<Longrightarrow> s = PrepPrepared"
  by (cases s) simp_all

lemma replay_not_prepared:
  "snd (replayIfPresent f db q fp) \<Longrightarrow> dr_status (fst (replayIfPresent f db q fp)) \<noteq> AdmPrepared"
  by (auto simp: replayIfPresent_def Let_def admissionResult_def split: if_splits option.splits)

lemma selectedCheck_None:
  assumes "selectedCheck a q = None"
  shows "ta_backendId a = dq_expectedBackendId q" "ta_assignmentRevision a = dq_expectedAssignmentRevision q"
    "ta_state a = AsgSelected" "ta_nativeTimerBindingId a = []" "ta_desiredNativeTimerSpecificationPresent a"
    "nativeTimerSpecificationValid (ta_desiredNativeTimerSpecification a)"
  using assms by (auto simp: selectedCheck_def split: if_splits)

lemma selectedCheck_not_prepared: "selectedCheck a q \<noteq> Some AdmPrepared"
  by (simp add: selectedCheck_def)

lemma admitInside_prepared:
  assumes active: "transactionActive db" and sound: "rowsSound (tt_assignments (visibleTables db))"
    and call: "admitInside f dop dbi db q (admissionFingerprint q) = (res, db')" and ok: "dr_status res = AdmPrepared"
  obtains a v t intent op b where
    "op = generateMutationOperationId dop" "b = generateNativeTimerBindingId dbi"
    "mutationOperationIdCanonical op" "nativeTimerBindingIdCanonical b"
    "findAssignmentById noAssignmentErrors db (dq_timerAssignmentId q) = assignmentResult AsgRepoOk a"
    "selectedCheck a q = None" "ta_timerAssignmentId a = dq_timerAssignmentId q"
    "ta_assignmentRevision a = decimal v" "v < int64_max" "rowsSound (tt_assignments t)"
    "db' = writeTables (t\<lparr>tt_operations := (tt_operations (visibleTables db))\<lparr>
       ot_operations := ot_operations (tt_operations (visibleTables db))
         @ [operationRow (createOperationFor (provisionedFor q v a) (admittedRequest q op b (provisionedFor q v a)))],
       ot_payloads := ot_payloads (tt_operations (visibleTables db))
         @ [payloadRow (durableCreatePayload op (dr_payload res))]\<rparr>\<rparr>) db"
    "findAssignmentById noAssignmentErrors (writeTables t db) (dq_timerAssignmentId q)
       = assignmentResult AsgRepoOk (provisionedFor q v a)"
    "preparationCheck (provisionedFor q v a) intent (admittedRequest q op b (provisionedFor q v a)) = None"
    "dr_payload res = createPayloadFor (provisionedFor q v a) intent (admittedRequest q op b (provisionedFor q v a))"
    "dr_operation res = (createOperationFor (provisionedFor q v a)
       (admittedRequest q op b (provisionedFor q v a)))\<lparr>mo_operationRevision := ''1''\<rparr>"
    "mutationOperationValidForCreate (createOperationFor (provisionedFor q v a)
       (admittedRequest q op b (provisionedFor q v a)))"
    "validPayload (durableCreatePayload op (dr_payload res))"
    "serializeNativeTimerCreateOperationPayload (dr_payload res) \<noteq> []"
    "operationConstraints (ot_operations (tt_operations (visibleTables db)))
       (operationRow (createOperationFor (provisionedFor q v a) (admittedRequest q op b (provisionedFor q v a))))"
proof -
  let ?fp = "admissionFingerprint q"
  let ?replay = "replayIfPresent (\<lambda>c. f (AdmReplay 1 c)) (operationView db) q ?fp"
  let ?found = "findAssignmentById (\<lambda>c. f (AdmFind c)) db (dq_timerAssignmentId q)"
  let ?op = "generateMutationOperationId dop" and ?b = "generateNativeTimerBindingId dbi"
  note def = admitInside_def Let_def admissionResult_def
  have r: "\<not> snd ?replay" "dr_status (fst ?replay) = AdmPrepared"
    using call ok replay_not_prepared [of "\<lambda>c. f (AdmReplay 1 c)" "operationView db" q ?fp]
    by (auto simp: def split_beta split: if_splits)
  have fok: "ra_status ?found = AsgRepoOk"
    using call ok r by (auto simp: def split_beta split: if_splits)
  define a where "a = ra_assignment ?found"
  have found: "findAssignmentById (\<lambda>c. f (AdmFind c)) db (dq_timerAssignmentId q) = assignmentResult AsgRepoOk a"
    using findAssignmentById_result [OF fok] by (simp add: a_def)
  have check: "selectedCheck a q = None"
    using call ok r fok selectedCheck_not_prepared [of a q]
    by (cases "selectedCheck a q") (auto simp: def split_beta a_def)
  have ids: "mutationOperationIdCanonical ?op" "nativeTimerBindingIdCanonical ?b"
    and pp: "provisionAndPrepare f db q ?fp ?op ?b a = (res, db')"
    using call ok r fok check by (auto simp: def split_beta a_def split: if_splits)
  obtain p d where p: "beginProvisioningInCurrentTransaction (\<lambda>c. f (AdmProvision c)) alone db
      (ta_timerAssignmentId a) (ta_assignmentRevision a) (ta_intentRevision a) (ta_backendGeneration a)
      (provisioningTimestamp (dq_requestedAt q) (ta_updatedAt a)) = (p, d)" by fastforce
  let ?q = "preparationRequest q ?fp ?op ?b (fr_assignment p)"
  obtain pr d' where pr: "prepareInCurrentTransaction (\<lambda>c. f (AdmPrepare c)) alone d ?q = (pr, d')" by fastforce
  have s: "fr_status p = FulProvisioningStarted" "pp_status pr = PrepPrepared" "db' = d'"
    "dr_operation res = pp_operation pr" "dr_payload res = pp_payload pr"
    using pp ok p pr fulfillmentStatus_prepared preparationStatus_prepared
    by (auto simp: provisionAndPrepare_def Let_def admissionResult_def split: if_splits)
  obtain r0 where r0: "assignmentRowOf (dq_timerAssignmentId q) (tt_assignments (visibleTables db)) = Some r0"
    "readAssignment r0 = Some a" "dq_timerAssignmentId q \<noteq> []" "length (dq_timerAssignmentId q) \<le> 160"
    using findAssignmentById_Ok [OF found] by blast
  have id: "ta_timerAssignmentId a = dq_timerAssignmentId q"
    using r0(1) readAssignment_fields(3) [OF r0(2)] by (simp add: assignmentRowOf_Some [OF sound])
  have found': "findAssignmentById noAssignmentErrors db (dq_timerAssignmentId q) = assignmentResult AsgRepoOk a"
    using findAssignmentById_sound [OF sound r0(3,4)] r0(1,2) by simp
  obtain v t where w: "ta_assignmentRevision a = decimal v" "v < int64_max"
    "fr_assignment p = provisionedFor q v a" "d = writeTables t db" "rowsSound (tt_assignments t)"
    "tt_operations t = tt_operations (visibleTables db)"
    "findAssignmentById noAssignmentErrors d (dq_timerAssignmentId q)
       = assignmentResult AsgRepoOk (storedAssignment (fr_assignment p))"
    by (rule provisioning_started [OF active sound found p [unfolded id] s(1)]) (simp add: provisionedFor_def)
  have stored: "storedAssignment (provisionedFor q v a) = provisionedFor q v a"
    using selectedCheck_None(5) [OF check] by (simp add: storedAssignment_def provisionedFor_def)
  have qid: "nq_timerAssignmentId ?q = dq_timerAssignmentId q" "nq_operationId ?q = ?op"
    by (simp_all add: preparationRequest_def w(3) provisionedFor_def id)
  have read: "findAssignmentById noAssignmentErrors d (nq_timerAssignmentId ?q)
      = assignmentResult AsgRepoOk (provisionedFor q v a)" using w(7) stored unfolding qid(1) unfolding w(3) by simp
  obtain intent where e: "preparationCheck (provisionedFor q v a) intent ?q = None"
    "pp_payload pr = createPayloadFor (provisionedFor q v a) intent ?q"
    "pp_operation pr = (createOperationFor (provisionedFor q v a) ?q)\<lparr>mo_operationRevision := ''1''\<rparr>"
    "mutationOperationValidForCreate (createOperationFor (provisionedFor q v a) ?q)"
    "validPayload (durableCreatePayload (nq_operationId ?q) (pp_payload pr))"
    "mp_payload (durableCreatePayload (nq_operationId ?q) (pp_payload pr)) \<noteq> []"
    "d' = writeTables ((visibleTables d)\<lparr>tt_operations := (tt_operations (visibleTables d))\<lparr>
       ot_operations := ot_operations (tt_operations (visibleTables d)) @ [operationRow (createOperationFor (provisionedFor q v a) ?q)],
       ot_payloads := ot_payloads (tt_operations (visibleTables d))
         @ [payloadRow (durableCreatePayload (nq_operationId ?q) (pp_payload pr))]\<rparr>\<rparr>) d"
    "operationConstraints (ot_operations (tt_operations (visibleTables d)))
       (operationRow (createOperationFor (provisionedFor q v a) ?q))"
    by (rule preparation_prepared [OF pr s(2) read])
  have q': "?q = admittedRequest q ?op ?b (provisionedFor q v a)" by (simp add: admittedRequest_def w(3))
  note e' = e [unfolded qid(2), unfolded q']
  show thesis
    by (rule that [OF refl refl ids found' check id w(1,2,5) _ _ e'(1)])
      (use e' s w read qid in \<open>simp_all add: durableCreatePayload_def\<close>)
qed

lemma admit_prepared:
  assumes call: "admit f dop dbi db q = (res, db')" and ok: "dr_status res = AdmPrepared"
  obtains t where "\<not> transactionActive db" "admissionFingerprint q \<noteq> []" "validAdmissionRequest q"
    "admitInside f dop dbi (writeTables (db_committed db) db) q (admissionFingerprint q) = (res, writeTables t db)"
    "db' = \<lparr>db_committed = t, db_working = None\<rparr>"
proof -
  let ?fp = "admissionFingerprint q" and ?db0 = "writeTables (db_committed db) db"
  let ?replay = "replayIfPresent (\<lambda>c. f (AdmReplay 0 c)) (operationView db) q ?fp"
  note def = admit_def admitImpl_def Let_def admissionResult_def
  have off: "\<not> transactionActive db" "validAdmissionRequest q" "?fp \<noteq> []"
    using call ok by (auto simp: def split: if_splits)
  have r: "\<not> snd ?replay \<and> dr_status (fst ?replay) = AdmPrepared"
    using call ok off replay_not_prepared [of "\<lambda>c. f (AdmReplay 0 c)" "operationView db" q ?fp]
    by (auto simp: def split_beta split: if_splits)
  have nf: "\<not> f AdmBegin"
  proof
    assume "f AdmBegin"
    then show False using call ok off r by (auto simp: def split_beta executeBegin_def)
  qed
  then have b: "executeBegin (f AdmBegin) db = (True, ?db0)"
    using off(1) by (simp add: executeBegin_def writeTables_def)
  obtain result db1 where i: "admitInside f dop dbi ?db0 q ?fp = (result, db1)" by fastforce
  have "transactionActive ?db0" by (simp add: transactionActive_def writeTables_def)
  from admitInside_inTransaction [OF this, of f dop dbi q ?fp] i obtain t where t: "db1 = writeTables t db"
    by (auto simp: inTransaction_def)
  obtain ok' db2 where c: "executeCommit (f AdmCommit) db1 = (ok', db2)" by fastforce
  have "result = res" "ok'" "db2 = db'"
    using call ok off r b i c by (auto simp: def split_beta split: if_splits bool.splits)
  moreover have "db2 = \<lparr>db_committed = t, db_working = None\<rparr>" if ok'
    using c t that by (auto split: if_splits)
  ultimately show thesis using that [OF off(1,3,2)] i t by blast
qed

lemma admit_not_prepared:
  assumes "dr_status (fst (admit f dop dbi db q)) \<noteq> AdmPrepared"
  shows "db_committed (snd (admit f dop dbi db q)) = db_committed db"
proof -
  let ?fp = "admissionFingerprint q" and ?db0 = "writeTables (db_committed db) db"
  obtain result db1 where i: "admitInside f dop dbi ?db0 q ?fp = (result, db1)" by fastforce
  have "transactionActive ?db0" by (simp add: transactionActive_def writeTables_def)
  from admitInside_inTransaction [OF this, of f dop dbi q ?fp] i obtain t where t: "db1 = writeTables t db"
    by (auto simp: inTransaction_def)
  have undo: "db_committed (executeRollback g (writeTables t db)) = db_committed db" for g
    by (simp add: executeRollback_def writeTables_def)
  show ?thesis
    using assms i undo
    by (auto simp: admit_def admitImpl_def Let_def split_beta executeBegin_def writeTables_def [symmetric] t
        split: if_splits)
qed

lemma operationRow_at_revision [simp]: "operationRow (m\<lparr>mo_operationRevision := x\<rparr>) = operationRow m"
  by (simp add: operationRow_def)

text \<open>What an accepted admission has written, and that the operation tables stay consistent.\<close>

lemma admission_effect:
  assumes sound: "timerDbSound db" and call: "admit f dop dbi db q = (res, db')" and ok: "dr_status res = AdmPrepared"
  obtains a v p where "validAdmissionRequest q" "admissionFingerprint q \<noteq> []"
    "findAssignmentById noAssignmentErrors db (dq_timerAssignmentId q) = assignmentResult AsgRepoOk a"
    "selectedCheck a q = None" "ta_assignmentRevision a = decimal v" "v < int64_max"
    "p = provisionedFor q v a" "ta_timerAssignmentId p = dq_timerAssignmentId q" "\<not> transactionActive db'"
    "findAssignmentById noAssignmentErrors db' (dq_timerAssignmentId q) = assignmentResult AsgRepoOk p"
    "tt_operations (db_committed db') = (tt_operations (db_committed db))\<lparr>
       ot_operations := ot_operations (tt_operations (db_committed db)) @ [operationRow (dr_operation res)],
       ot_payloads := ot_payloads (tt_operations (db_committed db))
         @ [payloadRow (durableCreatePayload (mo_operationId (dr_operation res)) (dr_payload res))]\<rparr>"
    "dr_operation res = (createOperationFor p (admittedRequest q (generateMutationOperationId dop)
       (generateNativeTimerBindingId dbi) p))\<lparr>mo_operationRevision := ''1''\<rparr>"
    "cp_timerAssignmentId (dr_payload res) = dq_timerAssignmentId q"
    "cp_expectedAssignmentRevision (dr_payload res) = decimal (v + 1)"
    "cp_backendId (dr_payload res) = dq_expectedBackendId q"
    "cp_backendGeneration (dr_payload res) = ta_backendGeneration p"
    "cp_nativeTimerBindingId (dr_payload res) = generateNativeTimerBindingId dbi"
    "generateNativeTimerBindingId dbi \<noteq> []"
    "cp_expectedSpecification (dr_payload res) = ta_desiredNativeTimerSpecification a"
    "mutationOperationValidForCreate ((dr_operation res)\<lparr>mo_operationRevision := []\<rparr>)"
    "validPayload (durableCreatePayload (mo_operationId (dr_operation res)) (dr_payload res))"
    "nativeTimerCreateOperationPayloadValid (dr_payload res)"
    "operationConstraints (ot_operations (tt_operations (db_committed db))) (operationRow (dr_operation res))"
proof -
  let ?db0 = "writeTables (db_committed db) db"
  obtain t where t: "\<not> transactionActive db" "admissionFingerprint q \<noteq> []" "validAdmissionRequest q"
    "admitInside f dop dbi ?db0 q (admissionFingerprint q) = (res, writeTables t db)"
    "db' = \<lparr>db_committed = t, db_working = None\<rparr>" by (rule admit_prepared [OF call ok])
  have act: "transactionActive ?db0" by (simp add: transactionActive_def writeTables_def)
  have s: "rowsSound (tt_assignments (visibleTables ?db0))" using sound by (simp add: timerDbSound_def)
  obtain a v u intent op b where e: "op = generateMutationOperationId dop" "b = generateNativeTimerBindingId dbi"
    "mutationOperationIdCanonical op" "nativeTimerBindingIdCanonical b"
    "findAssignmentById noAssignmentErrors ?db0 (dq_timerAssignmentId q) = assignmentResult AsgRepoOk a"
    "selectedCheck a q = None" "ta_timerAssignmentId a = dq_timerAssignmentId q"
    "ta_assignmentRevision a = decimal v" "v < int64_max" "rowsSound (tt_assignments u)"
    "writeTables t db = writeTables (u\<lparr>tt_operations := (tt_operations (visibleTables ?db0))\<lparr>
       ot_operations := ot_operations (tt_operations (visibleTables ?db0))
         @ [operationRow (createOperationFor (provisionedFor q v a) (admittedRequest q op b (provisionedFor q v a)))],
       ot_payloads := ot_payloads (tt_operations (visibleTables ?db0))
         @ [payloadRow (durableCreatePayload op (dr_payload res))]\<rparr>\<rparr>) ?db0"
    "findAssignmentById noAssignmentErrors (writeTables u ?db0) (dq_timerAssignmentId q)
       = assignmentResult AsgRepoOk (provisionedFor q v a)"
    "preparationCheck (provisionedFor q v a) intent (admittedRequest q op b (provisionedFor q v a)) = None"
    "dr_payload res = createPayloadFor (provisionedFor q v a) intent (admittedRequest q op b (provisionedFor q v a))"
    "dr_operation res = (createOperationFor (provisionedFor q v a)
       (admittedRequest q op b (provisionedFor q v a)))\<lparr>mo_operationRevision := ''1''\<rparr>"
    "mutationOperationValidForCreate (createOperationFor (provisionedFor q v a)
       (admittedRequest q op b (provisionedFor q v a)))"
    "validPayload (durableCreatePayload op (dr_payload res))"
    "serializeNativeTimerCreateOperationPayload (dr_payload res) \<noteq> []"
    "operationConstraints (ot_operations (tt_operations (visibleTables ?db0)))
       (operationRow (createOperationFor (provisionedFor q v a) (admittedRequest q op b (provisionedFor q v a))))"
    by (rule admitInside_prepared [OF act s t(4) ok])
  have find_cong: "findAssignmentById noAssignmentErrors d i = findAssignmentById noAssignmentErrors d' i"
    if "tt_assignments (visibleTables d) = tt_assignments (visibleTables d')" for d d' i
    using that by (simp add: findAssignmentById_def)
  define ops where "ops = (tt_operations (db_committed db))\<lparr>
       ot_operations := ot_operations (tt_operations (db_committed db))
         @ [operationRow (createOperationFor (provisionedFor q v a) (admittedRequest q op b (provisionedFor q v a)))],
       ot_payloads := ot_payloads (tt_operations (db_committed db))
         @ [payloadRow (durableCreatePayload op (dr_payload res))]\<rparr>"
  have u: "t = u\<lparr>tt_operations := ops\<rparr>"
    using arg_cong [OF e(11), of visibleTables] by (simp add: ops_def)
  have tt: "visibleTables db' = t" "\<not> transactionActive db'"
    by (simp_all add: t(5) visibleTables_def transactionActive_def)
  have asg: "tt_assignments t = tt_assignments u" by (simp add: u)
  have before: "findAssignmentById noAssignmentErrors db (dq_timerAssignmentId q) = assignmentResult AsgRepoOk a"
    using e(5) find_cong [of ?db0 db] by (simp add: visible_begun [OF t(1)])
  have after: "findAssignmentById noAssignmentErrors db' (dq_timerAssignmentId q)
      = assignmentResult AsgRepoOk (provisionedFor q v a)"
    using e(12) find_cong [of "writeTables u ?db0" db'] by (simp add: tt(1) asg)
  have id: "mo_operationId (dr_operation res) = op"
    by (simp add: e(15) createOperationFor_def admittedRequest_def preparationRequest_def)
  have ne: "b \<noteq> []" using e(4) by (auto simp: nativeTimerBindingIdCanonical_def)
  have revision: "(dr_operation res)\<lparr>mo_operationRevision := []\<rparr> = createOperationFor (provisionedFor q v a)
       (admittedRequest q op b (provisionedFor q v a))"
    by (simp add: e(15) createOperationFor_def emptyMutationOperation_def)
  have row: "operationRow (dr_operation res) = operationRow (createOperationFor (provisionedFor q v a)
       (admittedRequest q op b (provisionedFor q v a)))" by (simp add: e(15))
  have O: "tt_operations (db_committed db') = (tt_operations (db_committed db))\<lparr>
       ot_operations := ot_operations (tt_operations (db_committed db)) @ [operationRow (dr_operation res)],
       ot_payloads := ot_payloads (tt_operations (db_committed db))
         @ [payloadRow (durableCreatePayload (mo_operationId (dr_operation res)) (dr_payload res))]\<rparr>"
    by (simp add: t(5) u ops_def row id)
  note fields = createPayloadFor_def admittedRequest_def preparationRequest_def provisionedFor_def
  have P: "cp_timerAssignmentId (dr_payload res) = dq_timerAssignmentId q"
    "cp_expectedAssignmentRevision (dr_payload res) = decimal (v + 1)"
    "cp_backendId (dr_payload res) = dq_expectedBackendId q"
    "cp_backendGeneration (dr_payload res) = ta_backendGeneration (provisionedFor q v a)"
    "cp_nativeTimerBindingId (dr_payload res) = b"
    "cp_expectedSpecification (dr_payload res) = ta_desiredNativeTimerSpecification a"
    using e(7) selectedCheck_None(1) [OF e(6)] unfolding e(14) by (simp_all add: fields)
  have pid: "ta_timerAssignmentId (provisionedFor q v a) = dq_timerAssignmentId q"
    using e(7) by (simp add: provisionedFor_def)
  have constraints: "operationConstraints (ot_operations (tt_operations (db_committed db))) (operationRow (dr_operation res))"
    using e(19) unfolding row by simp
  have valid: "nativeTimerCreateOperationPayloadValid (dr_payload res)"
    using e(18) create_text.fp_empty_iff by blast
  show thesis
    by (rule that [OF t(3,2) before e(6,8,9) refl pid tt(2) after O e(15) [unfolded e(1,2)] P(1-4) P(5) [unfolded e(2)]
          ne [unfolded e(2)] P(6) e(16) [folded revision] e(17) [folded id] valid constraints])
qed

section \<open>The same request again\<close>

lemma admitted_operations_sound:
  assumes sound: "databaseSound (operationView db)"
    and ops: "tt_operations (db_committed db') = (tt_operations (db_committed db))\<lparr>
       ot_operations := ot_operations (tt_operations (db_committed db)) @ [operationRow m],
       ot_payloads := ot_payloads (tt_operations (db_committed db))
         @ [payloadRow (durableCreatePayload (mo_operationId m) p)]\<rparr>"
    and fresh: "operationConstraints (ot_operations (tt_operations (db_committed db))) (operationRow m)"
    and off: "\<not> transactionActive db'"
  shows "databaseSound (operationView db')"
proof -
  have c: "tablesConsistent (tt_operations (db_committed db))" using sound by (simp add: databaseSound_def viewOf_def)
  have "yr_operation_id (payloadRow (durableCreatePayload (mo_operationId m) p)) = or_operation_id (operationRow m)"
    by (simp add: payloadRow_def durableCreatePayload_def operationRow_def)
  then have "tablesConsistent (tt_operations (db_committed db'))"
    using c fresh by (auto simp: ops tablesConsistent_def operationConstraints_def)
  moreover have "db_working db' = None" using off by (simp add: transactionActive_def)
  ultimately show ?thesis by (simp add: databaseSound_def viewOf_def transactionFollowsBy_def)
qed

lemma selectByScope_found:
  assumes "tablesConsistent t" "r \<in> set (ot_operations t)" "readOperation r = Some m"
    and "rowScope r = map cText [actor, backend, type, resource, family, key]"
  shows "selectByScope (\<lambda>_. False) t actor backend type resource family key = SelectFound m"
proof -
  have "(\<lambda>row. or_actor_id row = cText actor \<and> or_backend_id row = cText backend
      \<and> or_resource_type row = cText type \<and> or_resource_id row = cText resource
      \<and> or_action_family row = cText family \<and> or_idempotency_key row = cText key)
    = (\<lambda>row. rowScope row = rowScope r)"
    unfolding assms(4) by (auto simp: rowScope_def)
  then show ?thesis
    using assms(1-3) find_unique_key [of rowScope "ot_operations t" r]
    by (simp add: selectByScope_def selectFirst_def tablesConsistent_def)
qed

lemma selectPayload_found:
  assumes "tablesConsistent t" "r \<in> set (ot_payloads t)" "readPayload r = Some p" "yr_operation_id r = cText i"
  shows "selectPayloadByOperationId (\<lambda>_. False) t i = SelectFound p"
  using assms find_unique_key [of yr_operation_id "ot_payloads t" r]
  by (simp add: selectPayloadByOperationId_def selectFirst_def tablesConsistent_def)

text \<open>What a replay needs to find.\<close>

lemma replay_found:
  assumes t: "tablesConsistent t" "r \<in> set (ot_operations t)" "readOperation r = Some current"
    and scope: "rowScope r = map cText [dq_actorId q, dq_expectedBackendId q, ''TimerAssignment'',
      dq_timerAssignmentId q, ''timer.create'', dq_idempotencyKey q]"
    and y: "y \<in> set (ot_payloads t)" "readPayload y = Some (durableCreatePayload (mo_operationId current) p)"
      "yr_operation_id y = cText (mo_operationId current)" "nativeTimerCreateOperationPayloadValid p"
    and valid: "validAdmissionRequest q" "safeIdentity (mo_operationId current)"
    and matches: "operationMatchesReplay current q fp" "payloadMatchesReplay (canonicalCreatePayload p) current q"
    and db: "visibleTables db = t"
  shows "replayIfPresent (\<lambda>_. False) db q fp = (admissionResult AdmReplayed current (canonicalCreatePayload p), True)"
proof -
  have safe: "safeIdentity (dq_actorId q)" "safeIdentity (dq_expectedBackendId q)" "safeIdentity ''TimerAssignment''"
    "safeIdentity (dq_timerAssignmentId q)" "safeIdentity ''timer.create''" "safeIdentity (dq_idempotencyKey q)"
    using valid(1) by (simp_all add: validAdmissionRequest_def validIdentity_def safeIdentity_def)
  have found: "findByIdempotencyScope (\<lambda>_. False) db (dq_actorId q) (dq_expectedBackendId q) ''TimerAssignment''
      (dq_timerAssignmentId q) ''timer.create'' (dq_idempotencyKey q) = operationResult RepoOk current"
    using safe selectByScope_found [OF t scope] by (simp add: findByIdempotencyScope_def db)
  have stored: "findPayloadByOperationId (\<lambda>_. False) db (mo_operationId current)
      = payloadResult RepoOk (durableCreatePayload (mo_operationId current) p)"
    using valid(2) selectPayload_found [OF t(1) y(1-3)] by (simp add: findPayloadByOperationId_def db)
  have "nativeTimerCreateOperationPayloadFingerprint (canonicalCreatePayload p)
      = nativeTimerCreateOperationPayloadFingerprint p"
  proof -
    have "nativeTimerSpecificationValid (cp_expectedSpecification p)"
      using y(4) by (simp add: nativeTimerCreateOperationPayloadValid_def)
    then show ?thesis
      using specification_padded(2) create_fp.fp_eq_iff [OF createPayload_canonical(1) [OF y(4)] y(4)]
      by (simp add: canonicalCreatePayload_def)
  qed
  then show ?thesis
    using found stored matches parse_serialized_create [OF y(4)]
    by (simp add: replayIfPresent_def Let_def payloadResult_def durableCreatePayload_def)
qed

section \<open>Samples\<close>

definition desiredSpecification :: native_timer_specification where
  "desiredSpecification = emptyNativeTimerSpecification\<lparr>ns_channelId := ''S19-1'',
     ns_startTime := ''900'', ns_endTime := ''915''\<rparr>"

definition desiredAssignment :: timer_assignment where
  "desiredAssignment = firstAssignment\<lparr>ta_desiredNativeTimerSpecificationPresent := True,
     ta_desiredNativeTimerSpecification := desiredSpecification\<rparr>"

definition desiredStore :: "timer_tables database" where
  "desiredStore = snd (createAssignment noAssignmentErrors noAssignments desiredAssignment)"

definition admissionRequest :: native_timer_create_admission_request where
  "admissionRequest =
     \<lparr>dq_actorId = ''u1'', dq_idempotencyKey = ''k1'', dq_timerAssignmentId = ''a1'',
      dq_expectedAssignmentRevision = ''1'', dq_expectedBackendId = ''vdr1'', dq_requestedAt = 200,
      dq_deadline = 0\<rparr>"

definition desiredOwner :: timer_assignment where
  "desiredOwner = createdAssignment desiredAssignment 1"

definition admissionStore :: "timer_tables database" where
  "admissionStore = writeTables (db_committed desiredStore) desiredStore"

definition sampleOperationId :: string where
  "sampleOperationId = generateMutationOperationId (Some (replicate 16 0))"

definition sampleBindingId :: string where
  "sampleBindingId = generateNativeTimerBindingId (Some (replicate 16 1))"

definition noAdmissionErrors :: "admission_call \<Rightarrow> bool" where
  "noAdmissionErrors call = False"

lemma admission_steps:
  "fst (createAssignment noAssignmentErrors noAssignments desiredAssignment)
     = assignmentResult AsgRepoOk desiredOwner"
  "\<not> transactionActive desiredStore"
  "validAdmissionRequest admissionRequest" "admissionFingerprint admissionRequest \<noteq> []"
  "mutationOperationIdCanonical sampleOperationId" "nativeTimerBindingIdCanonical sampleBindingId"
  "findByIdempotencyScope (\<lambda>_. False) (operationView desiredStore) ''u1'' ''vdr1'' ''TimerAssignment'' ''a1''
     ''timer.create'' ''k1'' = statusResult RepoNotFound"
  "findByIdempotencyScope (\<lambda>_. False) (operationView admissionStore) ''u1'' ''vdr1'' ''TimerAssignment'' ''a1''
     ''timer.create'' ''k1'' = statusResult RepoNotFound"
  "findAssignmentById (\<lambda>_. False) admissionStore ''a1'' = assignmentResult AsgRepoOk desiredOwner"
  "selectedCheck desiredOwner admissionRequest = None"
  by code_simp+

definition admissionProvisioned :: "timer_tables database" where
  "admissionProvisioned = snd (beginProvisioningInCurrentTransaction (\<lambda>_. False) alone admissionStore ''a1'' ''1'' ''1'' 7 200)"

lemma admission_provisioned:
  "fst (beginProvisioningInCurrentTransaction (\<lambda>_. False) alone admissionStore ''a1'' ''1'' ''1'' 7 200)
     = fulfillmentResult FulProvisioningStarted (provisionedFor admissionRequest 1 desiredOwner) None"
  by code_simp

definition samplePreparation :: native_timer_create_operation_preparation_request where
  "samplePreparation = admittedRequest admissionRequest sampleOperationId sampleBindingId
     (provisionedFor admissionRequest 1 desiredOwner)"

definition admittedOperation :: mutation_operation where
  "admittedOperation = (createOperationFor (provisionedFor admissionRequest 1 desiredOwner) samplePreparation)
     \<lparr>mo_operationRevision := ''1''\<rparr>"

definition admittedPayload :: native_timer_create_operation_payload where
  "admittedPayload =
     createPayloadFor (provisionedFor admissionRequest 1 desiredOwner) storedIntent samplePreparation"

lemma admission_reserved:
  "fst (prepareInCurrentTransaction (\<lambda>_. False) alone admissionProvisioned samplePreparation)
     = \<lparr>pp_status = PrepPrepared, pp_operation = admittedOperation, pp_payload = admittedPayload\<rparr>"
  by code_simp

definition sampleAdmission :: "native_timer_create_admission_result \<times> timer_tables database" where
  "sampleAdmission = admit noAdmissionErrors (Some (replicate 16 0)) (Some (replicate 16 1)) desiredStore admissionRequest"

lemma desiredStore_sound: "timerDbSound desiredStore"
proof -
  have "timerCalls noAssignments desiredStore" by (simp add: desiredStore_def r_into_rtranclp callCreate)
  then show ?thesis using timerCalls_sound noAssignments_sound by blast
qed

lemma sample_admission:
  "fst sampleAdmission = admissionResult AdmPrepared admittedOperation admittedPayload"
proof -
  have quietly: "(\<lambda>c. noAdmissionErrors (k c)) = (\<lambda>_. False)" for k :: "'a \<Rightarrow> admission_call"
    by (simp add: noAdmissionErrors_def)
  have q: "dq_actorId admissionRequest = ''u1''" "dq_idempotencyKey admissionRequest = ''k1''"
    "dq_timerAssignmentId admissionRequest = ''a1''" "dq_expectedBackendId admissionRequest = ''vdr1''"
    "dq_requestedAt admissionRequest = 200" by (simp_all add: admissionRequest_def)
  have a: "ta_timerAssignmentId desiredOwner = ''a1''" "ta_assignmentRevision desiredOwner = ''1''"
    "ta_intentRevision desiredOwner = ''1''" "ta_backendGeneration desiredOwner = 7"
    "provisioningTimestamp 200 (ta_updatedAt desiredOwner) = 200"
    by code_simp+
  have replay: "replayIfPresent (\<lambda>_. False) (operationView desiredStore) admissionRequest fp = (admissionStatus AdmPrepared, False)"
    "replayIfPresent (\<lambda>_. False) (operationView admissionStore) admissionRequest fp = (admissionStatus AdmPrepared, False)" for fp
    using admission_steps(7,8) by (simp_all add: replayIfPresent_def Let_def q statusResult_def)
  have p: "beginProvisioningInCurrentTransaction (\<lambda>_. False) alone admissionStore ''a1'' ''1'' ''1'' 7 200
      = (fulfillmentResult FulProvisioningStarted (provisionedFor admissionRequest 1 desiredOwner) None, admissionProvisioned)"
    using admission_provisioned by (simp add: prod_eq_iff admissionProvisioned_def)
  have prep: "preparationRequest admissionRequest (admissionFingerprint admissionRequest) sampleOperationId sampleBindingId
      (provisionedFor admissionRequest 1 desiredOwner) = samplePreparation"
    by (simp add: samplePreparation_def admittedRequest_def)
  have "fst (provisionAndPrepare noAdmissionErrors admissionStore admissionRequest
      (admissionFingerprint admissionRequest) sampleOperationId sampleBindingId desiredOwner)
      = admissionResult AdmPrepared admittedOperation admittedPayload"
    using p admission_reserved
    by (simp add: provisionAndPrepare_def quietly a q fulfillmentResult_def prep split_beta admissionResult_def
        del: One_nat_def)
  then have inside: "fst (admitInside noAdmissionErrors (Some (replicate 16 0)) (Some (replicate 16 1)) admissionStore
      admissionRequest (admissionFingerprint admissionRequest))
      = admissionResult AdmPrepared admittedOperation admittedPayload"
    using replay(2) admission_steps(5,6,9,10)
    by (simp add: admitInside_def quietly q assignmentResult_def admissionResult_def
        sampleOperationId_def [symmetric] sampleBindingId_def [symmetric])
  obtain r d where i: "admitInside noAdmissionErrors (Some (replicate 16 0)) (Some (replicate 16 1)) admissionStore
      admissionRequest (admissionFingerprint admissionRequest) = (r, d)" by fastforce
  have act: "transactionActive admissionStore" by (simp add: admissionStore_def transactionActive_def writeTables_def)
  have "transactionActive d"
    using inTransaction_committed [OF admitInside_inTransaction [OF act]] i by (metis snd_conv)
  then have c: "fst (executeCommit False d)" by (auto simp: executeCommit_def transactionActive_def)
  have b: "executeBegin False desiredStore = (True, admissionStore)"
    using admission_steps(2) by (simp add: executeBegin_def admissionStore_def writeTables_def)
  show ?thesis
    using inside i replay(1) admission_steps(2-4) b c
    by (cases "executeCommit False d")
      (simp add: sampleAdmission_def admit_def admitImpl_def Let_def quietly noAdmissionErrors_def admissionResult_def)
qed

section \<open>Properties\<close>

text \<open>C7: An admission is all or nothing. Unless it answers prepared, the stored tables are what
  they were. If it does, one commit has moved the selected assignment it found, at the quoted revision
  and with no native timer of its own, to provisioning at the next revision, and has stored exactly one
  operation and its payload: an accepted create for that assignment at its new revision, carrying the
  drawn binding identifier and the specification the assignment asks for.\<close>

theorem admission_all_or_nothing:
  assumes "timerDbSound db" and "admit failing drawnOperation drawnBinding db q = (res, db')"
  shows "(dr_status res \<noteq> AdmPrepared \<and> db_committed db' = db_committed db)
   \<or> (dr_status res = AdmPrepared \<and> \<not> transactionActive db' \<and> (\<exists>a v p.
        findAssignmentById noAssignmentErrors db (dq_timerAssignmentId q) = assignmentResult AsgRepoOk a
      \<and> ta_backendId a = dq_expectedBackendId q \<and> ta_state a = AsgSelected \<and> ta_nativeTimerBindingId a = []
      \<and> ta_assignmentRevision a = dq_expectedAssignmentRevision q \<and> ta_assignmentRevision a = decimal v
      \<and> p = a\<lparr>ta_state := AsgProvisioning,
           ta_updatedAt := provisioningTimestamp (dq_requestedAt q) (ta_updatedAt a),
           ta_assignmentRevision := decimal (v + 1)\<rparr>
      \<and> findAssignmentById noAssignmentErrors db' (dq_timerAssignmentId q) = assignmentResult AsgRepoOk p
      \<and> tt_operations (db_committed db') = (tt_operations (db_committed db))\<lparr>
          ot_operations := ot_operations (tt_operations (db_committed db)) @ [operationRow (dr_operation res)],
          ot_payloads := ot_payloads (tt_operations (db_committed db))
            @ [payloadRow (durableCreatePayload (mo_operationId (dr_operation res)) (dr_payload res))]\<rparr>
      \<and> mo_state (dr_operation res) = OpAccepted \<and> mo_actorId (dr_operation res) = dq_actorId q
      \<and> mo_resourceId (dr_operation res) = dq_timerAssignmentId q
      \<and> mo_expectedRevision (dr_operation res) = decimal (v + 1)
      \<and> cp_timerAssignmentId (dr_payload res) = dq_timerAssignmentId q
      \<and> cp_expectedAssignmentRevision (dr_payload res) = decimal (v + 1)
      \<and> cp_nativeTimerBindingId (dr_payload res) = generateNativeTimerBindingId drawnBinding
      \<and> cp_expectedSpecification (dr_payload res) = ta_desiredNativeTimerSpecification a))"
proof (cases "dr_status res = AdmPrepared")
  case False
  then show ?thesis
    using admit_not_prepared [of failing drawnOperation drawnBinding db q] assms(2) by simp
next
  case True
  obtain a v p where e: "findAssignmentById noAssignmentErrors db (dq_timerAssignmentId q) = assignmentResult AsgRepoOk a"
    "selectedCheck a q = None" "ta_assignmentRevision a = decimal v"
    "p = provisionedFor q v a" "\<not> transactionActive db'"
    "findAssignmentById noAssignmentErrors db' (dq_timerAssignmentId q) = assignmentResult AsgRepoOk p"
    "tt_operations (db_committed db') = (tt_operations (db_committed db))\<lparr>
       ot_operations := ot_operations (tt_operations (db_committed db)) @ [operationRow (dr_operation res)],
       ot_payloads := ot_payloads (tt_operations (db_committed db))
         @ [payloadRow (durableCreatePayload (mo_operationId (dr_operation res)) (dr_payload res))]\<rparr>"
    "dr_operation res = (createOperationFor p (admittedRequest q (generateMutationOperationId drawnOperation)
       (generateNativeTimerBindingId drawnBinding) p))\<lparr>mo_operationRevision := ''1''\<rparr>"
    "cp_timerAssignmentId (dr_payload res) = dq_timerAssignmentId q"
    "cp_expectedAssignmentRevision (dr_payload res) = decimal (v + 1)"
    "cp_nativeTimerBindingId (dr_payload res) = generateNativeTimerBindingId drawnBinding"
    "cp_expectedSpecification (dr_payload res) = ta_desiredNativeTimerSpecification a"
    "ta_timerAssignmentId p = dq_timerAssignmentId q"
    by (rule admission_effect [OF assms True])
  have op: "mo_state (dr_operation res) = OpAccepted" "mo_actorId (dr_operation res) = dq_actorId q"
    "mo_resourceId (dr_operation res) = dq_timerAssignmentId q" "mo_expectedRevision (dr_operation res) = decimal (v + 1)"
    using e(4,13) unfolding e(8)
    by (simp_all add: createOperationFor_def admittedRequest_def preparationRequest_def provisionedFor_def)
  show ?thesis
    by (intro disjI2 conjI exI [of _ a] exI [of _ v] exI [of _ p])
      (fact True e op selectedCheck_None [OF e(2)] e(4) [unfolded provisionedFor_def])+
qed

theorem admission_all_or_nothing_witness:
  "\<exists>p. findAssignmentById noAssignmentErrors (snd sampleAdmission) ''a1'' = assignmentResult AsgRepoOk p
     \<and> ta_state p = AsgProvisioning"
proof -
  have q: "dq_timerAssignmentId admissionRequest = ''a1''" by (simp add: admissionRequest_def)
  have call: "admit noAdmissionErrors (Some (replicate 16 0)) (Some (replicate 16 1)) desiredStore admissionRequest
      = (fst sampleAdmission, snd sampleAdmission)" by (simp add: sampleAdmission_def)
  show ?thesis
    using admission_all_or_nothing [OF desiredStore_sound call]
    by (auto simp: q sample_admission admissionResult_def)
qed

text \<open>C8: The same request may be repeated at any later time, with another date or deadline. Once it
  has been admitted, and whatever has happened meanwhile to the operation and to the assignment, it is
  answered with that operation, in the state its lifecycle has reached, and with the payload that was
  stored; nothing is written. This is for requests and specifications without zero bytes, repeated
  outside a transaction and without an engine error: SQLite cuts a stored text at a zero byte, and the
  repeat of a request with one is answered as a conflict.\<close>

theorem admission_replays:
  assumes "timerDbSound db" and "databaseSound (operationView db)"
    and "admit failing drawnOperation drawnBinding db q = (res, db')" and "dr_status res = AdmPrepared"
    and "nulFreeOperation (dr_operation res)"
    and "nulFreePayload (durableCreatePayload (mo_operationId (dr_operation res)) (dr_payload res))"
    and "operationSteps (operationView db') (operationView db2)" and "\<not> transactionActive db2"
    and "q2 = q\<lparr>dq_requestedAt := at, dq_deadline := dl\<rparr>" and "validAdmissionRequest q2" and "\<And>c. \<not> failing2 c"
  shows "\<exists>current ts. admit failing2 drawn2 drawn3 db2 q2
       = (admissionResult AdmReplayed current (canonicalCreatePayload (dr_payload res)), db2)
     \<and> sameLogicalOperation current (dr_operation res)
     \<and> permittedHistory mutationOperationTransitionAllowed OpAccepted ts
     \<and> mo_state current = last (OpAccepted # ts)"
proof -
  let ?m = "(dr_operation res)\<lparr>mo_operationRevision := []\<rparr>" and ?t = "tt_operations (db_committed db2)"
  obtain a v p where e: "validAdmissionRequest q" "admissionFingerprint q \<noteq> []" "selectedCheck a q = None"
    "p = provisionedFor q v a" "ta_timerAssignmentId p = dq_timerAssignmentId q" "\<not> transactionActive db'"
    "tt_operations (db_committed db') = (tt_operations (db_committed db))\<lparr>
       ot_operations := ot_operations (tt_operations (db_committed db)) @ [operationRow (dr_operation res)],
       ot_payloads := ot_payloads (tt_operations (db_committed db))
         @ [payloadRow (durableCreatePayload (mo_operationId (dr_operation res)) (dr_payload res))]\<rparr>"
    "dr_operation res = (createOperationFor p (admittedRequest q (generateMutationOperationId drawnOperation)
       (generateNativeTimerBindingId drawnBinding) p))\<lparr>mo_operationRevision := ''1''\<rparr>"
    "cp_timerAssignmentId (dr_payload res) = dq_timerAssignmentId q"
    "cp_expectedAssignmentRevision (dr_payload res) = decimal (v + 1)"
    "cp_backendId (dr_payload res) = dq_expectedBackendId q"
    "cp_backendGeneration (dr_payload res) = ta_backendGeneration p"
    "cp_nativeTimerBindingId (dr_payload res) = generateNativeTimerBindingId drawnBinding"
    "generateNativeTimerBindingId drawnBinding \<noteq> []"
    "cp_expectedSpecification (dr_payload res) = ta_desiredNativeTimerSpecification a"
    "mutationOperationValidForCreate ?m"
    "validPayload (durableCreatePayload (mo_operationId (dr_operation res)) (dr_payload res))"
    "nativeTimerCreateOperationPayloadValid (dr_payload res)"
    "operationConstraints (ot_operations (tt_operations (db_committed db))) (operationRow (dr_operation res))"
    by (rule admission_effect [OF assms(1,3,4)])
  have s1: "databaseSound (operationView db')"
    by (rule admitted_operations_sound [OF assms(2) e(7,19,6)])
  have s2: "databaseSound (operationView db2)" by (rule operationSteps_sound(1) [OF assms(7) s1])
  then have t: "tablesConsistent ?t" by (simp add: databaseSound_def viewOf_def)
  have nul: "nulFreeOperation ?m" using assms(5) by (simp add: nulFreeOperation_def)
  have one: "?m\<lparr>mo_operationRevision := ''1''\<rparr> = dr_operation res" by (simp add: e(8))
  note readable = operationRow_read [OF e(16) nul, unfolded one, simplified]
  have "operationRow (dr_operation res) \<in> set (ot_operations (db_committed (operationView db')))"
    using e(7) by (simp add: viewOf_def)
  moreover have "or_operation_id (operationRow (dr_operation res)) = cText (mo_operationId (dr_operation res))"
    by (simp add: operationRow_def)
  ultimately have "operationRowOf (mo_operationId (dr_operation res)) (db_committed (operationView db'))
      = Some (operationRow (dr_operation res))"
    using s1 by (simp add: databaseSound_def operationRowOf_Some)
  from operationRowOf_evolves [OF assms(7) s1 this] obtain r' where
    r': "operationRowOf (mo_operationId (dr_operation res)) (db_committed (operationView db2)) = Some r'"
    "rowEvolves (operationRow (dr_operation res)) r'" .
  then have in': "r' \<in> set (ot_operations ?t)"
    using s2 operationRowOf_Some [OF t] by (simp add: viewOf_def)
  obtain current where cur: "readOperation r' = Some current"
    using r'(2) readable by (auto simp: rowEvolves_def rowAdvances_def)
  have same: "sameLogicalOperation current (dr_operation res)"
    by (rule evolved_same_logical [OF r'(2) readable cur])
  have id: "mo_operationId current = mo_operationId (dr_operation res)"
    using same by (simp add: sameLogicalOperation_def)
  let ?y = "payloadRow (durableCreatePayload (mo_operationId (dr_operation res)) (dr_payload res))"
  have "?y \<in> set (ot_payloads ?t)"
    using operationSteps_sound(2) [OF assms(7) s1] e(7) by (auto simp: tablesEvolve_def viewOf_def)
  moreover have "yr_operation_id ?y = cText (mo_operationId (dr_operation res))"
    by (simp add: payloadRow_def durableCreatePayload_def)
  ultimately have y: "?y \<in> set (ot_payloads ?t)"
    "readPayload ?y = Some (durableCreatePayload (mo_operationId current) (dr_payload res))"
    "yr_operation_id ?y = cText (mo_operationId current)"
    using payloadRow_read [OF e(17) assms(6)] by (simp_all add: id)
  have fp: "admissionFingerprint q2 = admissionFingerprint q"
    using assms(9,10) e(1) by (simp add: admissionFingerprint_def)
  have scope: "rowScope r' = map cText [dq_actorId q2, dq_expectedBackendId q2, ''TimerAssignment'',
      dq_timerAssignmentId q2, ''timer.create'', dq_idempotencyKey q2]"
    using rowEvolves_scope [OF r'(2)] e(4,5) selectedCheck_None(1) [OF e(3)] unfolding e(8)
    by (simp add: rowScope_def operationRow_def createOperationFor_def admittedRequest_def preparationRequest_def
        provisionedFor_def assms(9))
  have matches: "operationMatchesReplay current q2 (admissionFingerprint q2)"
    using same e(4,5) selectedCheck_None(1) [OF e(3)] unfolding fp e(8)
    by (simp add: operationMatchesReplay_def sameLogicalOperation_def createOperationFor_def admittedRequest_def
        preparationRequest_def provisionedFor_def assms(9))
  have spec: "nativeTimerSpecificationValid (cp_expectedSpecification (dr_payload res))"
    using e(18) by (simp add: nativeTimerCreateOperationPayloadValid_def)
  have print: "nativeTimerSpecificationFingerprint (canonicalSpecification (cp_expectedSpecification (dr_payload res)))
      = nativeTimerSpecificationFingerprint (cp_expectedSpecification (dr_payload res))"
    "nativeTimerSpecificationFingerprint (cp_expectedSpecification (dr_payload res)) \<noteq> []"
    using specification_padded [OF spec] spec specification_fp.fp_eq_iff specification_fp.fp_empty_iff by simp_all
  have "mo_expectedResourceFingerprint current
      = nativeTimerSpecificationFingerprint (cp_expectedSpecification (dr_payload res))"
    "mo_expectedRevision current = decimal (v + 1)" "mo_backendGeneration current = ta_backendGeneration p"
    using same e(4,15) unfolding e(8)
    by (simp_all add: sameLogicalOperation_def createOperationFor_def admittedRequest_def preparationRequest_def provisionedFor_def)
  then have payload: "payloadMatchesReplay (canonicalCreatePayload (dr_payload res)) current q2"
    using e(9-14) print by (simp add: payloadMatchesReplay_def canonicalCreatePayload_def assms(9))
  have safe: "safeIdentity (mo_operationId current)"
    using e(16) by (auto simp: id mutationOperationValidForCreate_def commonValid_def split: if_splits)
  have replay: "replayIfPresent (\<lambda>_. False) (operationView db2) q2 (admissionFingerprint q2)
      = (admissionResult AdmReplayed current (canonicalCreatePayload (dr_payload res)), True)"
    by (rule replay_found [OF t in' cur scope y e(18) assms(10) safe matches payload])
      (simp add: visible_begun [OF assms(8)])
  have quietly: "(\<lambda>c. failing2 (k c)) = (\<lambda>_. False)" for k :: "sql_call \<Rightarrow> admission_call"
    using assms(11) by auto
  have out: "admit failing2 drawn2 drawn3 db2 q2
      = (admissionResult AdmReplayed current (canonicalCreatePayload (dr_payload res)), db2)"
    using assms(8,10) e(2) replay by (simp add: admit_def admitImpl_def Let_def quietly fp)
  have st: "rowState (operationRow (dr_operation res)) = Some OpAccepted" "rowState r' = Some (mo_state current)"
    using readOperation_fields(4) [OF readable] readOperation_fields(4) [OF cur]
    by (simp_all add: rowState_def e(8) createOperationFor_def)
  obtain ts where "permittedHistory mutationOperationTransitionAllowed OpAccepted ts"
    "rowState r' = Some (last (OpAccepted # ts))" by (rule evolved_history [OF r'(2) st(1)])
  moreover from this(2) have "mo_state current = last (OpAccepted # ts)" using st(2) by simp
  ultimately show ?thesis using out same by blast
qed

lemma admitted_texts:
  "nulFreeOperation admittedOperation"
  "nulFreePayload (durableCreatePayload (mo_operationId admittedOperation) admittedPayload)"
  by code_simp+

theorem admission_replays_witness:
  "\<exists>current. admit noAdmissionErrors None None (snd sampleAdmission) admissionRequest
     = (admissionResult AdmReplayed current (canonicalCreatePayload admittedPayload), snd sampleAdmission)"
proof -
  have call: "admit noAdmissionErrors (Some (replicate 16 0)) (Some (replicate 16 1)) desiredStore admissionRequest
      = (fst sampleAdmission, snd sampleAdmission)" by (simp add: sampleAdmission_def)
  have r: "dr_status (fst sampleAdmission) = AdmPrepared" "dr_operation (fst sampleAdmission) = admittedOperation"
    "dr_payload (fst sampleAdmission) = admittedPayload"
    by (simp_all add: sample_admission admissionResult_def)
  obtain t where t: "snd sampleAdmission = \<lparr>db_committed = t, db_working = None\<rparr>"
    by (rule admit_prepared [OF call r(1)])
  have off: "\<not> transactionActive (snd sampleAdmission)" by (simp add: t transactionActive_def)
  have ops: "tt_operations (db_committed desiredStore) = \<lparr>ot_operations = [], ot_payloads = [], ot_maintenance = []\<rparr>"
    by code_simp
  have sound: "databaseSound (operationView desiredStore)"
    using ops admission_steps(2)
    by (simp add: databaseSound_def viewOf_def tablesConsistent_def transactionFollowsBy_def transactionActive_def)
  have same: "admissionRequest = admissionRequest\<lparr>dq_requestedAt := 200, dq_deadline := 0\<rparr>"
    by (simp add: admissionRequest_def)
  show ?thesis
    using admission_replays [OF desiredStore_sound sound call r(1) _ _ rtranclp.rtrancl_refl off same
        admission_steps(3), of noAdmissionErrors None None] admitted_texts
    by (auto simp: r noAdmissionErrors_def)
qed

end
