(* ===== verification/NativeTimerEvidence.thy ===== *)
theory NativeTimerEvidence
  imports NativeTimerOperationPayloads
begin

text \<open>
  What the suite expects to read back from a backend and what it accepts as evidence: the readback
  expectations of a create, of an update or toggle and of a delete, the candidates of a create
  readback, and the complete inventory that can prove absence (\<open>NativeTimer*ReadbackExpectation.cpp\<close>,
  \<open>NativeTimerCreateReadbackEvidence.cpp\<close>, \<open>NativeTimerInventoryEvidence.cpp\<close>). Lemmas: the binary
  search over a valid inventory is membership, and a valid create readback names every native timer
  once.
\<close>

section \<open>Expectations\<close>

datatype native_timer_readback_operation_state = ReadbackExecutedUnverified | ReadbackOutcomeUnknown

fun nativeTimerReadbackOperationStateName :: "native_timer_readback_operation_state \<Rightarrow> string" where
  "nativeTimerReadbackOperationStateName ReadbackExecutedUnverified = ''executed_unverified''"
| "nativeTimerReadbackOperationStateName ReadbackOutcomeUnknown = ''outcome_unknown''"

text \<open>The two states are the only ones, so \<open>operationStateValid\<close> always holds.\<close>

definition operationStateValid :: "native_timer_readback_operation_state \<Rightarrow> bool" where
  "operationStateValid state =
     (case state of ReadbackExecutedUnverified \<Rightarrow> True | ReadbackOutcomeUnknown \<Rightarrow> True)"

record native_timer_readback_expectation =
  rb_operationId :: string
  rb_operationState :: native_timer_readback_operation_state
  rb_nativeTimerBindingId :: string
  rb_expectedBindingRevision :: string
  rb_backendId :: string
  rb_backendGeneration :: uint64
  rb_backendNativeTimerId :: string
  rb_readbackNotBefore :: int
  rb_expectedState :: native_timer_observed_state
  rb_expectedFingerprint :: string

definition nativeTimerReadbackExpectationValid :: "native_timer_readback_expectation \<Rightarrow> bool" where
  "nativeTimerReadbackExpectationValid expectation =
     (if \<not> nonEmptyBounded (rb_operationId expectation) kMaxIdentityLength
        \<or> \<not> operationStateValid (rb_operationState expectation)
        \<or> \<not> nonEmptyBounded (rb_nativeTimerBindingId expectation) kMaxIdentityLength
        \<or> \<not> nonEmptyBounded (rb_expectedBindingRevision expectation) kMaxIdentityLength
        \<or> \<not> nonEmptyBounded (rb_backendId expectation) kMaxIdentityLength
        \<or> rb_backendGeneration expectation = 0
        \<or> \<not> nonEmptyBounded (rb_backendNativeTimerId expectation) kMaxIdentityLength
        \<or> rb_readbackNotBefore expectation \<le> 0
        \<or> \<not> nativeTimerObservedStateValid (rb_expectedState expectation)
        \<or> \<not> nonEmptyBounded (rb_expectedFingerprint expectation) kMaxFingerprintLength
      then False
      else rb_expectedFingerprint expectation
        = nativeTimerObservedStateFingerprint (rb_expectedState expectation))"

record native_timer_create_readback_expectation =
  ce_operationId :: string
  ce_operationState :: native_timer_readback_operation_state
  ce_timerAssignmentId :: string
  ce_nativeTimerBindingId :: string
  ce_backendId :: string
  ce_backendGeneration :: uint64
  ce_readbackNotBefore :: int
  ce_expectedSpecification :: native_timer_specification
  ce_expectedSpecificationFingerprint :: string

definition nativeTimerCreateReadbackExpectationValid ::
  "native_timer_create_readback_expectation \<Rightarrow> bool" where
  "nativeTimerCreateReadbackExpectationValid expectation =
     (if \<not> nonEmptyBounded (ce_operationId expectation) kMaxIdentityLength
        \<or> \<not> operationStateValid (ce_operationState expectation)
        \<or> \<not> nonEmptyBounded (ce_timerAssignmentId expectation) kMaxIdentityLength
        \<or> \<not> nonEmptyBounded (ce_nativeTimerBindingId expectation) kMaxIdentityLength
        \<or> \<not> nonEmptyBounded (ce_backendId expectation) kMaxIdentityLength
        \<or> ce_backendGeneration expectation = 0
        \<or> ce_readbackNotBefore expectation \<le> 0
        \<or> \<not> nativeTimerSpecificationValid (ce_expectedSpecification expectation)
        \<or> \<not> nonEmptyBounded (ce_expectedSpecificationFingerprint expectation) kMaxFingerprintLength
      then False
      else ce_expectedSpecificationFingerprint expectation
        = nativeTimerSpecificationFingerprint (ce_expectedSpecification expectation))"

record native_timer_modify_readback_expectation =
  me_operationId :: string
  me_operationState :: native_timer_readback_operation_state
  me_payload :: native_timer_modify_operation_payload
  me_readbackNotBefore :: int

definition nativeTimerModifyReadbackExpectationValid ::
  "native_timer_modify_readback_expectation \<Rightarrow> bool" where
  "nativeTimerModifyReadbackExpectationValid expectation \<longleftrightarrow>
     me_operationId expectation \<noteq> []
     \<and> length (me_operationId expectation) \<le> 160
     \<and> (me_operationState expectation = ReadbackExecutedUnverified
        \<or> me_operationState expectation = ReadbackOutcomeUnknown)
     \<and> nativeTimerModifyOperationPayloadValid (me_payload expectation)
     \<and> me_readbackNotBefore expectation > 0"

record native_timer_absence_readback_expectation =
  ae_operationId :: string
  ae_operationState :: native_timer_readback_operation_state
  ae_nativeTimerBindingId :: string
  ae_expectedBindingRevision :: string
  ae_backendId :: string
  ae_backendGeneration :: uint64
  ae_backendNativeTimerId :: string
  ae_readbackNotBefore :: int

definition nativeTimerAbsenceReadbackExpectationValid ::
  "native_timer_absence_readback_expectation \<Rightarrow> bool" where
  "nativeTimerAbsenceReadbackExpectationValid expectation \<longleftrightarrow>
     validIdentity (ae_operationId expectation)
     \<and> operationStateValid (ae_operationState expectation)
     \<and> validIdentity (ae_nativeTimerBindingId expectation)
     \<and> validIdentity (ae_expectedBindingRevision expectation)
     \<and> validIdentity (ae_backendId expectation)
     \<and> ae_backendGeneration expectation \<noteq> 0
     \<and> validIdentity (ae_backendNativeTimerId expectation)
     \<and> ae_readbackNotBefore expectation > 0"

section \<open>Evidence of a created timer\<close>

datatype native_timer_create_readback_completeness = ReadbackUnknown | ReadbackComplete

record native_timer_create_readback_candidate =
  cc_timerAssignmentId :: string
  cc_nativeTimerBindingId :: string
  cc_observation :: native_timer_observation

record native_timer_create_readback_evidence =
  cv_backendId :: string
  cv_backendGeneration :: uint64
  cv_observedAt :: int
  cv_completeness :: native_timer_create_readback_completeness
  cv_candidates :: "native_timer_create_readback_candidate list"

definition nativeTimerCreateReadbackCandidateValid ::
  "native_timer_create_readback_candidate \<Rightarrow> bool" where
  "nativeTimerCreateReadbackCandidateValid candidate \<longleftrightarrow>
     validIdentity (cc_timerAssignmentId candidate)
     \<and> validIdentity (cc_nativeTimerBindingId candidate)
     \<and> nativeTimerObservationValid (cc_observation candidate)"

text \<open>The loop over the candidates with the set of the native identifiers seen so far.\<close>

fun candidatesAccepted ::
  "native_timer_create_readback_evidence \<Rightarrow> string set
     \<Rightarrow> native_timer_create_readback_candidate list \<Rightarrow> bool" where
  "candidatesAccepted evidence nativeTimerIds [] = True"
| "candidatesAccepted evidence nativeTimerIds (candidate # rest) =
     (if \<not> nativeTimerCreateReadbackCandidateValid candidate
        \<or> no_backendId (cc_observation candidate) \<noteq> cv_backendId evidence
        \<or> no_backendGeneration (cc_observation candidate) \<noteq> cv_backendGeneration evidence
        \<or> no_observedAt (cc_observation candidate) \<noteq> cv_observedAt evidence
        \<or> no_backendNativeTimerId (cc_observation candidate) \<in> nativeTimerIds
      then False
      else candidatesAccepted evidence
        (insert (no_backendNativeTimerId (cc_observation candidate)) nativeTimerIds) rest)"

definition nativeTimerCreateReadbackEvidenceValid ::
  "native_timer_create_readback_evidence \<Rightarrow> bool" where
  "nativeTimerCreateReadbackEvidenceValid evidence =
     (if \<not> validIdentity (cv_backendId evidence)
        \<or> cv_backendGeneration evidence = 0
        \<or> cv_observedAt evidence \<le> 0
        \<or> cv_completeness evidence \<noteq> ReadbackComplete
        \<or> length (cv_candidates evidence) > 4096
      then False
      else candidatesAccepted evidence {} (cv_candidates evidence))"

lemma candidatesAccepted_iff:
  "candidatesAccepted evidence seen cs \<longleftrightarrow>
     (\<forall>c \<in> set cs. nativeTimerCreateReadbackCandidateValid c
        \<and> no_backendId (cc_observation c) = cv_backendId evidence
        \<and> no_backendGeneration (cc_observation c) = cv_backendGeneration evidence
        \<and> no_observedAt (cc_observation c) = cv_observedAt evidence
        \<and> no_backendNativeTimerId (cc_observation c) \<notin> seen)
     \<and> distinct (map (no_backendNativeTimerId \<circ> cc_observation) cs)"
  by (induction cs arbitrary: seen) (simp_all, fastforce simp: image_iff)

section \<open>Inventories\<close>

datatype native_timer_inventory_completeness = InventoryUnknown | InventoryComplete

record native_timer_inventory_evidence =
  iv_backendId :: string
  iv_backendGeneration :: uint64
  iv_observedAt :: int
  iv_completeness :: native_timer_inventory_completeness
  iv_backendNativeTimerIds :: "string list"

record native_timer_absence_assessment_request =
  ar_backendId :: string
  ar_backendGeneration :: uint64
  ar_backendNativeTimerId :: string
  ar_notBefore :: int

datatype native_timer_absence_assessment_status =
  AbsenceAbsent | AbsencePresent | AbsenceBackendConflict | AbsenceGenerationConflict
| AbsenceStaleEvidence | AbsenceInvalid

text \<open>The loop over the identifiers, with the variables \<open>first\<close> and \<open>previous\<close>.\<close>

fun ascendingIdentities :: "bool \<Rightarrow> string \<Rightarrow> string list \<Rightarrow> bool" where
  "ascendingIdentities first previous [] = True"
| "ascendingIdentities first previous (i # rest) =
     (if \<not> validIdentity i then False
      else if \<not> first \<and> \<not> previous < i then False
      else ascendingIdentities False i rest)"

definition nativeTimerInventoryEvidenceValid :: "native_timer_inventory_evidence \<Rightarrow> bool" where
  "nativeTimerInventoryEvidenceValid evidence =
     (if \<not> validIdentity (iv_backendId evidence)
        \<or> iv_backendGeneration evidence = 0
        \<or> iv_observedAt evidence \<le> 0
        \<or> iv_completeness evidence \<noteq> InventoryComplete
        \<or> length (iv_backendNativeTimerIds evidence) > 4096
      then False
      else ascendingIdentities True [] (iv_backendNativeTimerIds evidence))"

definition nativeTimerAbsenceAssessmentRequestValid ::
  "native_timer_absence_assessment_request \<Rightarrow> bool" where
  "nativeTimerAbsenceAssessmentRequestValid request \<longleftrightarrow>
     validIdentity (ar_backendId request)
     \<and> ar_backendGeneration request \<noteq> 0
     \<and> validIdentity (ar_backendNativeTimerId request)
     \<and> ar_notBefore request > 0"

text \<open>\<open>std::binary_search\<close>: the halving loop of \<open>std::lower_bound\<close> and the final comparison.\<close>

function lowerBound :: "string list \<Rightarrow> string \<Rightarrow> nat \<Rightarrow> nat \<Rightarrow> nat" where
  "lowerBound ids x first len =
     (if len = 0 then first
      else (let half = len div 2
            in if ids ! (first + half) < x
               then lowerBound ids x (first + half + 1) (len - half - 1)
               else lowerBound ids x first half))"
  by pat_completeness auto

termination
  by (relation "measure (\<lambda>(ids, x, first, len). len)") auto

declare lowerBound.simps [simp del]

definition binarySearch :: "string list \<Rightarrow> string \<Rightarrow> bool" where
  "binarySearch ids x =
     (let first = lowerBound ids x 0 (length ids)
      in first < length ids \<and> \<not> x < ids ! first)"

definition assessNativeTimerAbsence ::
  "native_timer_inventory_evidence \<Rightarrow> native_timer_absence_assessment_request
     \<Rightarrow> native_timer_absence_assessment_status" where
  "assessNativeTimerAbsence evidence request =
     (if \<not> nativeTimerInventoryEvidenceValid evidence
        \<or> \<not> nativeTimerAbsenceAssessmentRequestValid request then AbsenceInvalid
      else if iv_backendId evidence \<noteq> ar_backendId request then AbsenceBackendConflict
      else if iv_backendGeneration evidence \<noteq> ar_backendGeneration request
      then AbsenceGenerationConflict
      else if iv_observedAt evidence < ar_notBefore request then AbsenceStaleEvidence
      else if binarySearch (iv_backendNativeTimerIds evidence) (ar_backendNativeTimerId request)
      then AbsencePresent else AbsenceAbsent)"

section \<open>Searching is membership\<close>

lemma ascendingIdentities_iff:
  "ascendingIdentities first previous ids \<longleftrightarrow>
     (\<forall>i \<in> set ids. validIdentity i) \<and> sorted_wrt (<) (if first then ids else previous # ids)"
proof (induction ids arbitrary: first previous)
  case Nil
  then show ?case by simp
next
  case (Cons i ids)
  show ?case
    unfolding ascendingIdentities.simps Cons.IH by (auto intro: order.strict_trans)
qed

lemma lowerBound_step:
  "lowerBound ids x first 0 = first"
  "0 < len \<Longrightarrow> ids ! (first + len div 2) < x \<Longrightarrow>
     lowerBound ids x first len = lowerBound ids x (first + len div 2 + 1) (len - len div 2 - 1)"
  "0 < len \<Longrightarrow> \<not> ids ! (first + len div 2) < x \<Longrightarrow>
     lowerBound ids x first len = lowerBound ids x first (len div 2)"
  by (subst lowerBound.simps; simp add: Let_def)+

lemma lowerBound_bounds:
  assumes "sorted_wrt (<) ids" "first + len \<le> length ids"
    and "\<forall>k < first. ids ! k < x" "\<forall>k < length ids. first + len \<le> k \<longrightarrow> \<not> ids ! k < x"
  shows "lowerBound ids x first len \<le> length ids
    \<and> (\<forall>k < lowerBound ids x first len. ids ! k < x)
    \<and> (\<forall>k < length ids. lowerBound ids x first len \<le> k \<longrightarrow> \<not> ids ! k < x)"
  using assms(2-4)
proof (induction len arbitrary: first rule: less_induct)
  case (less len)
  show ?case
  proof (cases "len = 0")
    case True
    then show ?thesis using less.prems by (simp add: lowerBound_step)
  next
    case False
    define half where "half = len div 2"
    have half: "half < len" "first + half < length ids" using False less.prems(1) by (simp_all add: half_def)
    have mono: "ids ! j < ids ! k" if "j < k" "k < length ids" for j k
      using assms(1) that by (simp add: sorted_wrt_iff_nth_less)
    show ?thesis
    proof (cases "ids ! (first + half) < x")
      case True
      have low: "\<forall>k < first + half + 1. ids ! k < x"
      proof (intro allI impI)
        fix k assume "k < first + half + 1"
        then have "k < first + half \<or> k = first + half" by linarith
        then show "ids ! k < x" using mono [OF _ half(2), of k] True by (metis order.strict_trans)
      qed
      have ends: "first + half + 1 + (len - half - 1) = first + len" using half by simp
      have "len - half - 1 < len" using half by simp
      from less.IH [OF this, of "first + half + 1", unfolded ends, OF less.prems(1) low less.prems(3)]
      show ?thesis using lowerBound_step(2) [of len ids first x] False True by (simp add: half_def)
    next
      case ge: False
      have high: "\<forall>k < length ids. first + half \<le> k \<longrightarrow> \<not> ids ! k < x"
      proof (intro allI impI)
        fix k assume k: "k < length ids" "first + half \<le> k"
        then have "first + half < k \<or> k = first + half" by linarith
        then show "\<not> ids ! k < x" using mono [OF _ k(1)] ge by (metis order.strict_trans)
      qed
      have "first + half \<le> length ids" using half by simp
      from less.IH [OF half(1) this less.prems(2) high]
      show ?thesis using lowerBound_step(3) [of len ids first x] False ge by (simp add: half_def)
    qed
  qed
qed

lemma binarySearch_mem:
  assumes "sorted_wrt (<) ids"
  shows "binarySearch ids x \<longleftrightarrow> x \<in> set ids"
proof -
  let ?i = "lowerBound ids x 0 (length ids)"
  have b: "?i \<le> length ids" "\<forall>k < ?i. ids ! k < x" "\<forall>k < length ids. ?i \<le> k \<longrightarrow> \<not> ids ! k < x"
    using lowerBound_bounds [OF assms, of 0 "length ids" x] by auto
  show ?thesis
  proof
    assume "binarySearch ids x"
    then have "?i < length ids" "\<not> x < ids ! ?i" by (simp_all add: binarySearch_def Let_def)
    moreover have "\<not> ids ! ?i < x" using b(3) calculation(1) by blast
    ultimately show "x \<in> set ids" by (metis linorder_neqE nth_mem)
  next
    assume "x \<in> set ids"
    then obtain k where k: "k < length ids" "ids ! k = x" by (auto simp: in_set_conv_nth)
    then have "?i \<le> k" using b(2) by (metis linorder_not_less order.irrefl)
    then have "?i < length ids" using k(1) by simp
    moreover have "\<not> x < ids ! ?i"
      using assms k \<open>?i \<le> k\<close> by (metis le_neq_implies_less order.asym order.irrefl sorted_wrt_iff_nth_less)
    ultimately show "binarySearch ids x" by (simp add: binarySearch_def Let_def)
  qed
qed

lemma inventory_sorted:
  "nativeTimerInventoryEvidenceValid evidence \<Longrightarrow> sorted_wrt (<) (iv_backendNativeTimerIds evidence)"
  by (simp add: nativeTimerInventoryEvidenceValid_def ascendingIdentities_iff split: if_splits)

section \<open>Property\<close>

text \<open>C16: Absence is assessed exactly: the halving search answers absent for exactly those requests
  whose native timer is not in the inventory, and only on an inventory that is complete and valid, is
  of the requested backend and generation and is not older than asked for. A timer that is in such an
  inventory is always found.\<close>

theorem absence_assessment_exact:
  "(assessNativeTimerAbsence evidence request = AbsenceAbsent \<longleftrightarrow>
      nativeTimerInventoryEvidenceValid evidence \<and> nativeTimerAbsenceAssessmentRequestValid request
      \<and> iv_backendId evidence = ar_backendId request
      \<and> iv_backendGeneration evidence = ar_backendGeneration request
      \<and> ar_notBefore request \<le> iv_observedAt evidence
      \<and> ar_backendNativeTimerId request \<notin> set (iv_backendNativeTimerIds evidence))
   \<and> (assessNativeTimerAbsence evidence request = AbsencePresent \<longleftrightarrow>
      nativeTimerInventoryEvidenceValid evidence \<and> nativeTimerAbsenceAssessmentRequestValid request
      \<and> iv_backendId evidence = ar_backendId request
      \<and> iv_backendGeneration evidence = ar_backendGeneration request
      \<and> ar_notBefore request \<le> iv_observedAt evidence
      \<and> ar_backendNativeTimerId request \<in> set (iv_backendNativeTimerIds evidence))"
  using binarySearch_mem [OF inventory_sorted, of evidence "ar_backendNativeTimerId request"]
  by (auto simp: assessNativeTimerAbsence_def)

end
