(* ===== verification/Spec2Isabelle.thy ===== *)
theory Spec2Isabelle
  imports PlannerCorrectness OperationProperties IntentProperties AssignmentReplacement
    TimerAssignmentReadService BindingProperties SchedulingProperties
    FulfillmentProperties ReassignmentProperties ApplicationProperties AdmissionProperties
    NativeTimerEvidence
begin

text \<open>
  A verification library for the timer and operation core of VDR-Suite: the code that decides which
  recording backend owns a timer, that stores this decision in SQLite, and that keeps the journal of
  the mutations sent to the backends (\<open>src/core/timers\<close>, \<open>src/core/operations\<close>, the
  transactions of \<open>src/core/sqlite\<close>, and one poll of \<open>src/core/daemon\<close>).

  \<^bold>\<open>The program.\<close> A timer intent says what is to be recorded. The planner chooses a backend for it
  and the scheduling service stores the choice as a timer assignment. An assignment is provisioned
  through a mutation operation and bound to the native timer that is then observed, a binding. At
  most one active assignment of an intent owns its recording; it may be replaced once its native
  timer can no longer record. Every stored entity carries a revision, and every writer quotes the
  revision it read. All of it lives in one database behind one connection.

  \<^bold>\<open>Theories and code.\<close>

  \<^item> \<open>Prelude\<close>, \<open>FieldEncoding\<close>, \<open>Lifecycle\<close>, \<open>JournaledStore\<close>, \<open>RevisionFence\<close>,
  \<open>KeysetPages\<close>: strings, numerals and parser loops, and the contracts as locales: text encodings
  that identify their value, lifecycles with final states, stores that follow a journal,
  optimistic revisions, and pages behind a cursor. Each is interpreted on the definitions that
  model the code, in the theory of the component that provides it.
  \<^item> \<open>NativeTimerBinding\<close>, \<open>NativeTimerSpecification\<close>, \<open>TimerIntent\<close>, \<open>TimerAssignment\<close>,
  \<open>MutationOperation\<close>: the domain rules of the files of the same name: records for the structs,
  datatypes for the enums, validators, fingerprints, lifecycles.
  \<^item> \<open>TimerAssignmentPlanner\<close>, \<open>PlannerCorrectness\<close>: the pure planner and what it decides.
  \<^item> \<open>Database\<close>, \<open>TimerSchema\<close>: transactions of one connection; the tables, constraints and
  triggers of the timer schema. An SQL statement is a function of the tables.
  \<^item> \<open>TimerIntentRepository\<close>, \<open>TimerAssignmentRepository\<close>, \<open>TimerAssignmentSetRevision\<close>,
  \<open>TimerAssignmentReassignment\<close>, \<open>NativeTimerBindingStorage\<close>, \<open>NativeTimerBindingRepository\<close>,
  \<open>MutationOperationRepository\<close>: the repositories, one definition per method. The theories
  \<open>IntentStore\<close>, \<open>AssignmentRows\<close>, \<open>AssignmentStore\<close>, \<open>AssignmentRuns\<close>, \<open>BindingRows\<close>,
  \<open>BindingStore\<close>, \<open>BindingRuns\<close> and \<open>OperationJournal\<close> relate every method to a journal of
  abstract steps; the \<open>Fence\<close> theories interpret the revision contract; the \<open>Properties\<close>
  theories and \<open>AssignmentReplacement\<close> hold the resulting claims, \<open>AssignmentSamples\<close> their
  concrete stores.
  \<^item> \<open>TimerAssignmentReadService\<close>, \<open>BindingFreshness\<close>: the paged read service, and the freshness
  refresh of one poll up to its read requests. What the agent repository answers for a listed binding,
  the runtime contexts with their HTTP clients and the clock are parameters of a tick
  (\<open>refresh_environment\<close>).
  \<^item> \<open>TimerStore\<close>, \<open>TimerAssignmentSchedulingService\<close>, \<open>TimerAssignmentFulfillmentService\<close>,
  \<open>TimerAssignmentReassignmentService\<close>, \<open>TimerIntentApplicationService\<close>: the services that
  combine planner and repositories, with \<open>SchedulingProperties\<close>, \<open>FulfillmentProperties\<close>,
  \<open>ReassignmentProperties\<close>, \<open>SubmittedIntents\<close> and \<open>ApplicationProperties\<close>.
  \<^item> \<open>NativeTimerOperationPayloads\<close>, \<open>NativeTimerCreateOperationPreparationService\<close>,
  \<open>NativeTimerCreateAdmissionService\<close>, \<open>AdmissionProperties\<close>: the texts that are dispatched to the
  backends, and how the creation of a native timer is admitted: one transaction that provisions the
  selected assignment and reserves its operation and payload.
  \<^item> \<open>NativeTimerEvidence\<close>: what is expected from a readback and what counts as evidence, with the
  binary search of the absence assessment.

  \<^bold>\<open>Conventions.\<close> A method that writes takes the database and returns its result with the database
  afterwards. Errors are values of the code's status enums. Whether a statement of the engine fails
  is decided outside the program: every method takes \<open>failing\<close>, a function from its statements to
  truth values, and the theorems hold for each such function. A service makes several repository
  calls, each under a lease of its own, so it also takes \<open>between\<close>: what other callers did to the
  store before its \<open>n\<close>-th call. The service theorems assume of \<open>between\<close> only that it is made of
  calls of the modelled repositories (and of any change to the other tables) and leaves no
  transaction open; the claim on submissions also assumes that the intent table is written through
  the intent repository only (\<open>intentInterference\<close>). Texts are byte strings; where the code binds \<open>c_str()\<close> with length \<open>-1\<close>
  the model cuts at the first zero byte. The validators of the code accept zero bytes, so claims that
  are false for such texts say so: those on the binding table are about bindings whose identifier and
  native identity hold none (\<open>bindingInput\<close>), those on replays about operations and payloads without
  one (\<open>nulFreeOperation\<close>, \<open>nulFreePayload\<close>). Unsigned 64-bit fields are words and wrap; signed 64-bit
  fields that are only copied and compared are integers; revision tokens are parsed with the
  overflow test of the code, and the largest revision is refused where the code refuses it.

  \<^bold>\<open>What the lemmas show.\<close> The \<open>Runs\<close> and journal lemmas show that any sequence of calls, with any
  failures and open transactions, leaves committed tables that follow the journal; from it come the
  invariants (one active owner, unique keys, readable rows, monotone revisions, lifecycles). The
  fence lemmas show what an accepted update found and wrote, and that no update is lost. The
  service lemmas carry these facts across the interference between two calls: what was compared or
  planned is what the store holds when the write happens. No definition uses fuel: every recursion
  of the model is structural or has a measure, since the loops of the code run over finite texts
  and lists; the one endless loop, the freshness poll, is modelled one tick at a time and claimed
  for every number of ticks; its claim takes the listings not to fail and the due binding to be readable
  (agent and client) at each tick.

  \<^bold>\<open>Not modelled.\<close> Schema creation and migration (\<open>ensureSchema\<close>) appear only as the columns,
  constraints and triggers they declare. Foreign keys are declared by the code but never enabled.
  Integer columns are unbounded, so counters that reach \<open>2 ^ 63\<close> rows are outside the model.
  Opening, moving and closing a connection, its process-wide mutex and memory exhaustion are left
  out. The services that apply readbacks to the bindings, the dispatch and completion of native timer
  operations, the preparation of modifications and deletions,
  the admission of programme events, the agents, accounts, media, protocol adapters, HTTP layer,
  user interfaces and plugins are not modelled: they are transport and process input and output
  around the core, or larger protocols that a later extension would add on top of these stores.
\<close>

end
